(* ===== verification/Go_Prelude.thy ===== *)
theory Go_Prelude
  imports Complex_Main "HOL-Library.Sublist"
begin

text \<open>
  What the components share of the Go language and its standard library.

  Strings are Go strings: lists of bytes. The functions of package \<open>strings\<close> are written
  out on bytes; \<open>ToLower\<close>, \<open>EqualFold\<close> and \<open>TrimSpace\<close> are the ASCII part of the
  library functions, which is what they do on every byte below 128.

  Integers of type \<open>int\<close> are unbounded where no operation of the source can leave the
  64-bit range and are wrapped by \<open>wrap64\<close> where it can. A value of type \<open>any\<close> is a
  value of the datatype \<open>any\<close>, one constructor per dynamic type the source tests for.
  Fallible functions return \<open>Inl\<close> of an error message or \<open>Inr\<close> of the result.
\<close>

section \<open>Collections of facts\<close>

named_theorems go_str \<open>characteristic equations of the string functions\<close>
named_theorems op_frame \<open>what an operation leaves unchanged\<close>
named_theorems inv_keep \<open>operations keep the invariant of their component\<close>

section \<open>Integers\<close>

definition min_int64 :: int where "min_int64 = - (2 ^ 63)"
definition max_int64 :: int where "max_int64 = 2 ^ 63 - 1"

definition wrap64 :: "int \<Rightarrow> int" where
  "wrap64 i = (i + 2 ^ 63) mod 2 ^ 64 - 2 ^ 63"

definition wrap_u64 :: "int \<Rightarrow> int" where
  "wrap_u64 i = i mod 2 ^ 64"

definition wrap32 :: "int \<Rightarrow> int" where
  "wrap32 i = (i + 2 ^ 31) mod 2 ^ 32 - 2 ^ 31"

lemma wrap64_id: "min_int64 \<le> i \<Longrightarrow> i \<le> max_int64 \<Longrightarrow> wrap64 i = i"
  by (simp add: wrap64_def min_int64_def max_int64_def mod_pos_pos_trivial)

lemma wrap64_range: "min_int64 \<le> wrap64 i \<and> wrap64 i \<le> max_int64"
  using pos_mod_bound[of "2 ^ 64" "i + 2 ^ 63"] pos_mod_sign[of "2 ^ 64" "i + 2 ^ 63"]
  by (auto simp: wrap64_def min_int64_def max_int64_def)

lemma wrap64_add: "wrap64 (wrap64 a + b) = wrap64 (a + b)"
proof -
  have "(wrap64 a + b + 2 ^ 63) mod 2 ^ 64 = ((a + 2 ^ 63) mod 2 ^ 64 + b) mod 2 ^ 64" by (simp add: wrap64_def)
  also have "\<dots> = (a + b + 2 ^ 63) mod 2 ^ 64" by (simp add: mod_simps ac_simps)
  finally show ?thesis by (simp add: wrap64_def)
qed

lemma wrap64_add_right: "wrap64 (b + wrap64 a) = wrap64 (b + a)"
  using wrap64_add[of a b] by (simp add: add.commute)

lemmas wrap64_sums = wrap64_add wrap64_add_right

text \<open>Go's \<open>/\<close> and \<open>%\<close> truncate towards zero.\<close>

definition go_div :: "int \<Rightarrow> int \<Rightarrow> int" where
  "go_div a b = sgn a * sgn b * (\<bar>a\<bar> div \<bar>b\<bar>)"

definition go_mod :: "int \<Rightarrow> int \<Rightarrow> int" where
  "go_mod a b = a - b * go_div a b"

lemma go_div_nonneg: "0 \<le> a \<Longrightarrow> 0 < b \<Longrightarrow> go_div a b = a div b"
  by (cases "a = 0") (auto simp: go_div_def)

lemma go_mod_nonneg: "0 \<le> a \<Longrightarrow> 0 < b \<Longrightarrow> go_mod a b = a mod b"
  by (simp add: go_mod_def go_div_nonneg minus_mult_div_eq_mod)

section \<open>Time\<close>

text \<open>
  Instants and durations are nanoseconds. \<open>Time.Sub\<close> saturates at the ends of the
  64-bit range; the other operations of the source stay inside it.
\<close>

type_synonym time = int
type_synonym duration = int

definition second :: duration where "second = 1000000000"
definition minute :: duration where "minute = 60 * second"

definition time_sub :: "time \<Rightarrow> time \<Rightarrow> duration" where
  "time_sub t u = max min_int64 (min max_int64 (t - u))"

text \<open>The zero \<open>time.Time\<close> is \<open>zero_time\<close>; no instant of the clock is as early.\<close>

definition zero_time :: time where "zero_time = - 62135596800 * second"

lemma time_sub_nonneg: "u \<le> t \<Longrightarrow> 0 \<le> time_sub t u"
  by (simp add: time_sub_def min_int64_def max_int64_def)

lemma time_sub_small: "0 \<le> t - u \<Longrightarrow> t - u \<le> max_int64 \<Longrightarrow> time_sub t u = t - u"
  by (simp add: time_sub_def min_int64_def max_int64_def)

section \<open>Strings\<close>

definition has_prefix :: "string \<Rightarrow> string \<Rightarrow> bool" where
  "has_prefix s p = prefix p s"

definition has_suffix :: "string \<Rightarrow> string \<Rightarrow> bool" where
  "has_suffix s p = suffix p s"

definition trim_prefix :: "string \<Rightarrow> string \<Rightarrow> string" where
  "trim_prefix s p = (if has_prefix s p then drop (length p) s else s)"

definition trim_suffix :: "string \<Rightarrow> string \<Rightarrow> string" where
  "trim_suffix s p = (if has_suffix s p then take (length s - length p) s else s)"

fun contains :: "string \<Rightarrow> string \<Rightarrow> bool" where
  "contains [] p = (p = [])"
| "contains (c # s) p = (prefix p (c # s) \<or> contains s p)"

lemma contains_iff_sublist: "contains s p \<longleftrightarrow> sublist p s"
  by (induction s) (auto simp: sublist_Cons_right)

definition lower_char :: "char \<Rightarrow> char" where
  "lower_char c = (if 65 \<le> (of_char c :: nat) \<and> (of_char c :: nat) \<le> 90
     then char_of (of_char c + (32 :: nat)) else c)"

definition to_lower :: "string \<Rightarrow> string" where
  "to_lower s = map lower_char s"

definition equal_fold :: "string \<Rightarrow> string \<Rightarrow> bool" where
  "equal_fold s t = (to_lower s = to_lower t)"

lemma lower_char_idem: "lower_char (lower_char c) = lower_char c"
proof (cases "65 \<le> (of_char c :: nat) \<and> (of_char c :: nat) \<le> 90")
  case True
  then have "of_char (lower_char c) = of_char c + (32 :: nat)"
    by (simp add: lower_char_def)
  with True show ?thesis by (subst lower_char_def) simp
qed (auto simp: lower_char_def)

lemma to_lower_idem [simp]: "to_lower (to_lower s) = to_lower s"
  by (simp add: to_lower_def lower_char_idem)

lemma to_lower_Nil [simp]: "to_lower [] = []"
  by (simp add: to_lower_def)

lemma to_lower_eq_Nil [simp]: "to_lower s = [] \<longleftrightarrow> s = []"
  by (simp add: to_lower_def)

lemma equal_fold_refl [simp]: "equal_fold s s"
  by (simp add: equal_fold_def)

lemma equal_fold_sym: "equal_fold s t \<longleftrightarrow> equal_fold t s"
  by (auto simp: equal_fold_def)

lemma equal_fold_trans: "equal_fold s t \<Longrightarrow> equal_fold t u \<Longrightarrow> equal_fold s u"
  by (simp add: equal_fold_def)

lemma equal_fold_to_lower [simp]: "equal_fold (to_lower s) t = equal_fold s t"
  by (simp add: equal_fold_def)

text \<open>\<open>strings.Split\<close> with a separator of one byte: never the empty list.\<close>

fun split_on :: "char \<Rightarrow> string \<Rightarrow> string list" where
  "split_on d [] = [[]]"
| "split_on d (c # s) =
     (if c = d then [] # split_on d s
      else (case split_on d s of [] \<Rightarrow> [[c]] | w # ws \<Rightarrow> (c # w) # ws))"

lemma split_on_not_Nil [simp]: "split_on d s \<noteq> []"
  by (induction s) (auto split: list.splits)

lemma split_on_skip: "d \<notin> set s \<Longrightarrow> split_on d (s @ d # t) = s # split_on d t"
  by (induction s) auto

lemma split_on_no_sep: "d \<notin> set s \<Longrightarrow> split_on d s = [s]"
  by (induction s) auto

lemma trim_prefix_append [simp]: "trim_prefix (p @ s) p = s"
  by (simp add: trim_prefix_def has_prefix_def)

text \<open>\<open>strings.SplitN\<close>: at most \<open>n\<close> parts, the last one unsplit.\<close>

fun split_n :: "char \<Rightarrow> nat \<Rightarrow> string \<Rightarrow> string list" where
  "split_n d 0 s = []"
| "split_n d (Suc 0) s = [s]"
| "split_n d n [] = [[]]"
| "split_n d (Suc (Suc n)) (c # s) =
     (if c = d then [] # split_n d (Suc n) s
      else (case split_n d (Suc (Suc n)) s of [] \<Rightarrow> [[c]] | w # ws \<Rightarrow> (c # w) # ws))"

definition is_space :: "char \<Rightarrow> bool" where
  "is_space c = ((of_char c :: nat) \<in> {9, 10, 11, 12, 13, 32})"

definition trim_space :: "string \<Rightarrow> string" where
  "trim_space s = rev (dropWhile is_space (rev (dropWhile is_space s)))"

text \<open>\<open>strings.Fields\<close> of an ASCII string.\<close>

fun fields_from :: "string \<Rightarrow> string \<Rightarrow> string list" where
  "fields_from w [] = (if w = [] then [] else [w])"
| "fields_from w (c # s) =
     (if is_space c then (if w = [] then fields_from [] s else w # fields_from [] s)
      else fields_from (w @ [c]) s)"

definition fields_of :: "string \<Rightarrow> string list" where
  "fields_of s = fields_from [] s"

text \<open>
  \<open>bufio.Scanner\<close> with a buffer of 256 KiB: lines without their end, until a line does not fit;
  what is left unterminated at the end, or before a read error, is a line too.
\<close>

definition max_line :: nat where "max_line = 262144"

definition drop_cr :: "string \<Rightarrow> string" where
  "drop_cr l = (if l \<noteq> [] \<and> last l = CHR 0x0D then butlast l else l)"

definition raw_lines :: "string \<Rightarrow> string list" where
  "raw_lines s = (let parts = split_on (CHR 0x0A) s in
     if last parts = [] then butlast parts else parts)"

definition fitting :: "string \<Rightarrow> string list" where
  "fitting s = map drop_cr (takeWhile (\<lambda>l. length l < max_line) (raw_lines s))"

text \<open>\<open>strings.Index\<close>; \<open>None\<close> is -1.\<close>

fun index_of :: "string \<Rightarrow> string \<Rightarrow> nat option" where
  "index_of p [] = (if p = [] then Some 0 else None)"
| "index_of p (c # s) = (if has_prefix (c # s) p then Some 0 else map_option Suc (index_of p s))"

text \<open>\<open>strings.LastIndex\<close> with a one-byte argument; \<open>None\<close> is the result -1.\<close>

fun last_index :: "char \<Rightarrow> string \<Rightarrow> nat option" where
  "last_index d [] = None"
| "last_index d (c # s) =
     (case last_index d s of Some i \<Rightarrow> Some (Suc i)
      | None \<Rightarrow> if c = d then Some 0 else None)"

lemma last_index_bound: "last_index d s = Some i \<Longrightarrow> i < length s"
  by (induction s arbitrary: i) (auto split: option.splits if_splits)

text \<open>Decimal numerals, as \<open>%d\<close> prints them.\<close>

definition digit_char :: "nat \<Rightarrow> char" where
  "digit_char d = char_of (48 + d)"

fun show_nat :: "nat \<Rightarrow> string" where
  "show_nat n = (if n < 10 then [digit_char n] else show_nat (n div 10) @ [digit_char (n mod 10)])"

declare show_nat.simps [simp del]

definition show_int :: "int \<Rightarrow> string" where
  "show_int i = (if i < 0 then ''-'' @ show_nat (nat (- i)) else show_nat (nat i))"

text \<open>A slice expression \<open>xs[a:b]\<close>; \<open>None\<close> is the run-time panic.\<close>

definition go_slice :: "'a list \<Rightarrow> int \<Rightarrow> int \<Rightarrow> 'a list option" where
  "go_slice xs a b = (if 0 \<le> a \<and> a \<le> b \<and> b \<le> int (length xs)
     then Some (take (nat (b - a)) (drop (nat a) xs)) else None)"

text \<open>\<open>strconv.Atoi\<close>: an optional sign and digits, in the range of \<open>int\<close>.\<close>

definition is_digit :: "char \<Rightarrow> bool" where
  "is_digit c \<longleftrightarrow> 48 \<le> (of_char c :: nat) \<and> (of_char c :: nat) \<le> 57"

definition digits_value :: "string \<Rightarrow> int" where
  "digits_value s = foldl (\<lambda>n c. 10 * n + (int (of_char c) - 48)) 0 s"

definition atoi :: "string \<Rightarrow> int option" where
  "atoi s = (let neg = (s \<noteq> [] \<and> hd s = CHR ''-'');
       ds = (case s of [] \<Rightarrow> [] | c # t \<Rightarrow> if c = CHR ''-'' \<or> c = CHR ''+'' then t else s);
       n = (if neg then - digits_value ds else digits_value ds)
     in if ds \<noteq> [] \<and> list_all is_digit ds \<and> min_int64 \<le> n \<and> n \<le> max_int64 then Some n else None)"

text \<open>\<open>fmt.Sscanf(s, "%d", &n)\<close> into an int64 that keeps its value when the text has no number in front.\<close>

definition scan_int :: "string \<Rightarrow> int \<Rightarrow> int" where
  "scan_int s n = (let t = dropWhile (\<lambda>c. is_space c \<and> c \<noteq> CHR 0x0A) s;
       sign = (case t of c # _ \<Rightarrow> if c = CHR ''-'' \<or> c = CHR ''+'' then [c] else [] | [] \<Rightarrow> []);
       ds = takeWhile is_digit (drop (length sign) t)
     in if t \<noteq> [] \<and> hd t = CHR 0x0A then n else (case atoi (sign @ ds) of Some i \<Rightarrow> i | None \<Rightarrow> n))"

text \<open>\<open>strings.Join\<close>\<close>

fun join_with :: "string \<Rightarrow> string list \<Rightarrow> string" where
  "join_with sep [] = []"
| "join_with sep [s] = s"
| "join_with sep (s # t # ss) = s @ sep @ join_with sep (t # ss)"

definition newline :: string where "newline = [char_of (10 :: nat)]"

definition dquote :: string where "dquote = [char_of (34 :: nat)]"

section \<open>Dynamically typed values\<close>

text \<open>
  The dynamic types the source distinguishes in a \<open>map[string]any\<close>. \<open>AFloat\<close> is a
  number decoded from JSON; \<open>AInt\<close> is the Go type \<open>int\<close> and \<open>AInt32\<close> the Go type
  \<open>int32\<close>, \<open>AList\<close> the type \<open>[]any\<close> and \<open>AStrings\<close> the type \<open>[]string\<close>, which are different
  dynamic types to a type assertion.
\<close>

datatype any =
    AString string
  | AInt int
  | AInt32 int
  | AFloat rat
  | ABool bool
  | ANil
  | AList "any list"
  | AStrings "string list"
  | AObject "(string \<times> any) list"

type_synonym args = "string \<rightharpoonup> any"

text \<open>Results of functions that return a value and an error.\<close>

type_synonym 'a result = "string + 'a"

definition is_ok :: "'e + 'a \<Rightarrow> bool" where
  "is_ok r = (case r of Inl _ \<Rightarrow> False | Inr _ \<Rightarrow> True)"

lemma is_ok_simps [simp]: "is_ok (Inr x)" "\<not> is_ok (Inl e)"
  by (simp_all add: is_ok_def)

section \<open>Lists\<close>

lemma nth_find_index: "x \<in> set xs \<Longrightarrow> \<exists>i < length xs. xs ! i = x"
  by (simp add: in_set_conv_nth)

lemma sum_list_map_le:
  fixes f g :: "'a \<Rightarrow> int"
  shows "(\<And>x. x \<in> set xs \<Longrightarrow> f x \<le> g x) \<Longrightarrow> sum_list (map f xs) \<le> sum_list (map g xs)"
  by (induction xs) (auto intro: add_mono)

end
