(* ===== verification/Http.thy ===== *)
theory Http
  imports Go_Prelude
begin

text \<open>
  Requests and responses of package \<open>net/http\<close> as far as the handlers use them, and the response
  helpers the dashboard and the auth handlers share (internal/dashboard/server.go). A response is
  its status code, the value written as JSON (a body written as plain text is the string itself),
  the target of a redirect and the cookies it sets; a handler that returns without writing answers
  200 with no body, which is \<open>ANil\<close>.
\<close>

record cookie =
  ck_name :: string
  ck_value :: string
  ck_max_age :: int

record http_resp =
  resp_code :: int
  resp_body :: any
  resp_location :: string
  resp_cookies :: "cookie list"

definition respond :: "int \<Rightarrow> any \<Rightarrow> http_resp" where
  "respond code v = \<lparr>resp_code = code, resp_body = v, resp_location = [], resp_cookies = []\<rparr>"

definition write_json :: "any \<Rightarrow> http_resp" where
  "write_json v = respond 200 v"

definition write_error :: "int \<Rightarrow> string \<Rightarrow> http_resp" where
  "write_error code msg = respond code (AObject [(''error'', AString msg)])"

definition silent :: http_resp where
  "silent = respond 200 ANil"

text \<open>\<open>http.Error\<close> and \<open>http.Redirect\<close>.\<close>

definition http_error :: "int \<Rightarrow> string \<Rightarrow> http_resp" where
  "http_error code text_body = respond code (AString text_body)"

definition http_redirect :: "int \<Rightarrow> string \<Rightarrow> http_resp" where
  "http_redirect code url = (respond code ANil)\<lparr>resp_location := url\<rparr>"

definition set_cookie :: "cookie \<Rightarrow> http_resp \<Rightarrow> http_resp" where
  "set_cookie c r = r\<lparr>resp_cookies := c # resp_cookies r\<rparr>"

text \<open>
  A request. \<open>rq_query\<close> is \<open>URL.Query().Get\<close>, \<open>rq_header\<close> is \<open>Header.Get\<close>, which is empty for an absent header, \<open>rq_cookie\<close> is
  \<open>Request.Cookie\<close>, and \<open>rq_json\<close> is the body as a JSON value, absent when it is not JSON. A number
  written as an integer is an \<open>AInt\<close> there. \<open>rq_raw_query\<close> is the query as it was sent.
\<close>

record http_req =
  rq_method :: string
  rq_path :: string
  rq_query :: "string \<Rightarrow> string"
  rq_header :: "string \<Rightarrow> string"
  rq_cookie :: "string \<Rightarrow> string option"
  rq_json :: "any option"
  rq_raw_query :: string
  rq_remote_addr :: string

text \<open>
  Decoding an object into a struct: the members whose name is the field's up to case are assigned
  in turn, null leaves the field alone, and any other type is an error.
\<close>

fun decode_members :: "(any \<Rightarrow> 'v option) \<Rightarrow> string \<Rightarrow> (string \<times> any) list \<Rightarrow> 'v \<Rightarrow> 'v option" where
  "decode_members conv k [] v = Some v"
| "decode_members conv k ((n, x) # ms) v =
     (if \<not> equal_fold n k \<or> x = ANil then decode_members conv k ms v
      else case conv x of None \<Rightarrow> None | Some v1 \<Rightarrow> decode_members conv k ms v1)"

definition members :: "any option \<Rightarrow> (string \<times> any) list option" where
  "members body = (case body of Some (AObject ms) \<Rightarrow> Some ms | Some ANil \<Rightarrow> Some [] | _ \<Rightarrow> None)"

definition as_json_string :: "any \<Rightarrow> string option" where
  "as_json_string x = (case x of AString s \<Rightarrow> Some s | _ \<Rightarrow> None)"

definition as_json_int :: "any \<Rightarrow> int option" where
  "as_json_int x = (case x of AInt i \<Rightarrow> if min_int64 \<le> i \<and> i \<le> max_int64 then Some i else None | _ \<Rightarrow> None)"

definition decode_string :: "string \<Rightarrow> (string \<times> any) list \<Rightarrow> string option" where
  "decode_string k ms = decode_members as_json_string k ms []"

definition extract_k8s_err_message :: "string \<Rightarrow> string" where
  "extract_k8s_err_message s = s"

definition write_k8s_error :: "string option \<Rightarrow> http_resp" where
  "write_k8s_error err = (case err of
     None \<Rightarrow> write_error 500 ''unknown error''
   | Some e \<Rightarrow>
       if contains e ''forbidden'' then write_error 403 (extract_k8s_err_message e)
       else if contains e ''unauthorized'' then write_error 401 ''unauthorized''
       else if contains e ''not found'' \<or> contains e ''NotFound'' then write_error 404 e
       else write_error 500 e)"

definition truncate_text :: "string \<Rightarrow> nat \<Rightarrow> string" where
  "truncate_text s m = (if length s \<le> m then s else take m s @ ''...'')"

lemma resp_code_simps [simp]:
  "resp_code (write_json v) = 200" "resp_code (write_error k m) = k" "resp_code silent = 200"
  by (simp_all add: write_json_def write_error_def silent_def respond_def)

end
