(* ===== verification/Auth_Store.thy ===== *)
theory Auth_Store
  imports Http
begin

text \<open>
  The persistence of the auth package (internal/auth/store.go, role_defs.go and the store part of
  apikey.go). The object-relational mapper is outside the repository: a table is a record of the
  operations the store calls, over a database of type \<open>'d\<close>, and what the store relies on is
  \<open>sql_ok\<close>. A condition of a query is a predicate on rows, an update a function on rows.
  \<open>t_create\<close> returns the row as stored, with the generated id and times.
\<close>

section \<open>Rows\<close>

record user =
  us_id :: int
  us_username :: string
  us_email :: string
  us_display_name :: string
  us_password_hash :: string
  us_role :: string
  us_provider :: string
  us_provider_id :: string
  us_allowed_namespaces :: string
  us_must_change_pwd :: bool
  us_created_at :: time

definition zero_user :: user where
  "zero_user = \<lparr>us_id = 0, us_username = [], us_email = [], us_display_name = [], us_password_hash = [],
     us_role = [], us_provider = [], us_provider_id = [], us_allowed_namespaces = [],
     us_must_change_pwd = False, us_created_at = 0\<rparr>"

record api_key =
  ak_id :: int
  ak_user_id :: int
  ak_name :: string
  ak_key_hash :: string
  ak_key_prefix :: string
  ak_last_used_at :: "time option"
  ak_expires_at :: "time option"
  ak_revoked :: bool
  ak_created_at :: time

record role_def =
  rd_id :: int
  rd_name :: string
  rd_display_name :: string
  rd_description :: string
  rd_group :: string
  rd_scope :: string
  rd_builtin :: bool

record role_binding_def =
  rb_id :: int
  rb_role_name :: string
  rb_k8s_role_kind :: string
  rb_k8s_role_name :: string
  rb_namespace :: string

record auth_provider =
  ap_id :: int
  ap_name :: string
  ap_type :: string
  ap_display_name :: string
  ap_icon :: string
  ap_enabled :: bool
  ap_priority :: int
  ap_config :: string
  ap_created_at :: time

section \<open>Tables\<close>

record ('d, 'r) table =
  t_create :: "'r \<Rightarrow> 'd \<Rightarrow> (string + 'r) \<times> 'd"
  t_first :: "('r \<Rightarrow> bool) \<Rightarrow> 'd \<Rightarrow> string + 'r"
  t_find :: "string \<Rightarrow> ('r \<Rightarrow> bool) \<Rightarrow> 'd \<Rightarrow> string + 'r list"
  t_save :: "'r \<Rightarrow> 'd \<Rightarrow> string option \<times> 'd"
  t_update :: "('r \<Rightarrow> bool) \<Rightarrow> ('r \<Rightarrow> 'r) \<Rightarrow> 'd \<Rightarrow> string option \<times> 'd"
  t_delete :: "('r \<Rightarrow> bool) \<Rightarrow> 'd \<Rightarrow> (string + int) \<times> 'd"
  t_count :: "'d \<Rightarrow> string + int"

record 'd store =
  st_users :: "('d, user) table"
  st_keys :: "('d, api_key) table"
  st_roles :: "('d, role_def) table"
  st_bindings :: "('d, role_binding_def) table"
  st_providers :: "('d, auth_provider) table"

definition all_rows :: "'r \<Rightarrow> bool" where "all_rows r = True"

section \<open>Users\<close>

definition create_user :: "'d store \<Rightarrow> user \<Rightarrow> 'd \<Rightarrow> (string + user) \<times> 'd" where
  "create_user s u d = t_create (st_users s) u d"

definition get_user_by_username :: "'d store \<Rightarrow> string \<Rightarrow> 'd \<Rightarrow> string + user" where
  "get_user_by_username s name d = t_first (st_users s) (\<lambda>u. us_username u = name) d"

definition get_user_by_id :: "'d store \<Rightarrow> int \<Rightarrow> 'd \<Rightarrow> string + user" where
  "get_user_by_id s i d = t_first (st_users s) (\<lambda>u. us_id u = i) d"

definition get_user_by_provider :: "'d store \<Rightarrow> string \<Rightarrow> string \<Rightarrow> 'd \<Rightarrow> string + user" where
  "get_user_by_provider s p pid d =
     t_first (st_users s) (\<lambda>u. us_provider u = p \<and> us_provider_id u = pid) d"

definition update_user :: "'d store \<Rightarrow> user \<Rightarrow> 'd \<Rightarrow> string option \<times> 'd" where
  "update_user s u d = t_save (st_users s) u d"

definition delete_user :: "'d store \<Rightarrow> int \<Rightarrow> 'd \<Rightarrow> string option \<times> 'd" where
  "delete_user s i d = (case t_delete (st_users s) (\<lambda>u. us_id u = i) d of
     (Inl e, d1) \<Rightarrow> (Some e, d1)
   | (Inr n, d1) \<Rightarrow> if n = 0 then (Some ''user not found'', d1) else (None, d1))"

definition list_users :: "'d store \<Rightarrow> 'd \<Rightarrow> string + user list" where
  "list_users s d = t_find (st_users s) ''created_at DESC'' all_rows d"

definition count_users :: "'d store \<Rightarrow> 'd \<Rightarrow> string + int" where
  "count_users s d = t_count (st_users s) d"

section \<open>API keys\<close>

definition create_api_key :: "'d store \<Rightarrow> api_key \<Rightarrow> 'd \<Rightarrow> (string + api_key) \<times> 'd" where
  "create_api_key s k d = t_create (st_keys s) k d"

definition get_api_key_by_hash :: "'d store \<Rightarrow> string \<Rightarrow> 'd \<Rightarrow> string + api_key" where
  "get_api_key_by_hash s h d = t_first (st_keys s) (\<lambda>k. ak_key_hash k = h) d"

definition get_api_key_by_id :: "'d store \<Rightarrow> int \<Rightarrow> 'd \<Rightarrow> string + api_key" where
  "get_api_key_by_id s i d = t_first (st_keys s) (\<lambda>k. ak_id k = i) d"

definition list_api_keys_by_user :: "'d store \<Rightarrow> int \<Rightarrow> 'd \<Rightarrow> string + api_key list" where
  "list_api_keys_by_user s i d =
     t_find (st_keys s) ''created_at DESC'' (\<lambda>k. ak_user_id k = i \<and> \<not> ak_revoked k) d"

definition delete_api_key :: "'d store \<Rightarrow> int \<Rightarrow> 'd \<Rightarrow> string option \<times> 'd" where
  "delete_api_key s i d =
     t_update (st_keys s) (\<lambda>k. ak_id k = i) (\<lambda>k. k\<lparr>ak_revoked := True\<rparr>) d"

definition update_api_key_last_used :: "'d store \<Rightarrow> time \<Rightarrow> int \<Rightarrow> 'd \<Rightarrow> 'd" where
  "update_api_key_last_used s now i d =
     snd (t_update (st_keys s) (\<lambda>k. ak_id k = i) (\<lambda>k. k\<lparr>ak_last_used_at := Some now\<rparr>) d)"

section \<open>Roles\<close>

definition list_role_defs :: "'d store \<Rightarrow> 'd \<Rightarrow> string + role_def list" where
  "list_role_defs s d = t_find (st_roles s) ''builtin DESC, name ASC'' all_rows d"

definition get_role_def :: "'d store \<Rightarrow> string \<Rightarrow> 'd \<Rightarrow> string + role_def" where
  "get_role_def s name d = t_first (st_roles s) (\<lambda>r. rd_name r = name) d"

definition create_role_def :: "'d store \<Rightarrow> role_def \<Rightarrow> 'd \<Rightarrow> (string + role_def) \<times> 'd" where
  "create_role_def s r d = t_create (st_roles s) r d"

text \<open>
  The final delete names a row that was just loaded, so its primary key is a condition as well.
\<close>

definition delete_role_def :: "'d store \<Rightarrow> string \<Rightarrow> 'd \<Rightarrow> string option \<times> 'd" where
  "delete_role_def s name d = (case t_first (st_roles s) (\<lambda>r. rd_name r = name) d of
     Inl e \<Rightarrow> (Some e, d)
   | Inr role \<Rightarrow>
       if rd_builtin role then (Some ''cannot modify built-in role'', d)
       else (let d1 = snd (t_delete (st_bindings s) (\<lambda>b. rb_role_name b = name) d)
         in case t_delete (st_roles s) (\<lambda>r. rd_name r = name \<and> rd_id r = rd_id role) d1 of
              (Inl e, d2) \<Rightarrow> (Some e, d2)
            | (Inr _, d2) \<Rightarrow> (None, d2)))"

definition list_role_bindings :: "'d store \<Rightarrow> string \<Rightarrow> 'd \<Rightarrow> string + role_binding_def list" where
  "list_role_bindings s name d =
     t_find (st_bindings s) ''id ASC'' (\<lambda>b. name = [] \<or> rb_role_name b = name) d"

definition add_role_binding :: "'d store \<Rightarrow> role_binding_def \<Rightarrow> 'd \<Rightarrow> (string + role_binding_def) \<times> 'd" where
  "add_role_binding s b d = t_create (st_bindings s) b d"

definition remove_role_binding :: "'d store \<Rightarrow> int \<Rightarrow> 'd \<Rightarrow> string option \<times> 'd" where
  "remove_role_binding s i d = (case t_delete (st_bindings s) (\<lambda>b. rb_id b = i) d of
     (Inl e, d1) \<Rightarrow> (Some e, d1) | (Inr _, d1) \<Rightarrow> (None, d1))"

definition builtin_role :: "string \<Rightarrow> string \<Rightarrow> string \<Rightarrow> string \<Rightarrow> string \<Rightarrow> role_def" where
  "builtin_role name display desc grp scope = \<lparr>rd_id = 0, rd_name = name, rd_display_name = display,
     rd_description = desc, rd_group = grp, rd_scope = scope, rd_builtin = True\<rparr>"

definition builtin_roles :: "role_def list" where
  "builtin_roles =
     [builtin_role ''admin'' ''Admin'' ''Full cluster access'' ''k8ops:admin'' ''cluster'',
      builtin_role ''operator'' ''Operator'' ''Read/write most resources, no RBAC management'' ''k8ops:operator'' ''cluster'',
      builtin_role ''viewer'' ''Viewer'' ''Cluster-wide read-only'' ''k8ops:viewer'' ''cluster'',
      builtin_role ''ns-admin'' ''Namespace Admin'' ''Namespace-scoped admin'' ''k8ops:ns-admin'' ''namespace'',
      builtin_role ''ns-viewer'' ''Namespace Viewer'' ''Namespace-scoped read-only'' ''k8ops:ns-viewer'' ''namespace'']"

fun seed_roles :: "'d store \<Rightarrow> role_def list \<Rightarrow> 'd \<Rightarrow> string option \<times> 'd" where
  "seed_roles s [] d = (None, d)"
| "seed_roles s (r # rs) d = (case t_first (st_roles s) (\<lambda>x. rd_name x = rd_name r) d of
     Inr _ \<Rightarrow> seed_roles s rs d
   | Inl _ \<Rightarrow> (case t_create (st_roles s) r d of
         (Inl e, d1) \<Rightarrow> (Some e, d1)
       | (Inr _, d1) \<Rightarrow> seed_roles s rs d1))"

definition seed_builtin_roles :: "'d store \<Rightarrow> 'd \<Rightarrow> string option \<times> 'd" where
  "seed_builtin_roles s d = seed_roles s builtin_roles d"

section \<open>Identity providers\<close>

definition list_auth_providers :: "'d store \<Rightarrow> 'd \<Rightarrow> string + auth_provider list" where
  "list_auth_providers s d = t_find (st_providers s) ''priority ASC, id ASC'' all_rows d"

definition get_auth_provider :: "'d store \<Rightarrow> string \<Rightarrow> 'd \<Rightarrow> string + auth_provider" where
  "get_auth_provider s name d = t_first (st_providers s) (\<lambda>p. ap_name p = name) d"

definition get_auth_provider_by_id :: "'d store \<Rightarrow> int \<Rightarrow> 'd \<Rightarrow> string + auth_provider" where
  "get_auth_provider_by_id s i d = t_first (st_providers s) (\<lambda>p. ap_id p = i) d"

definition get_enabled_providers_by_type :: "'d store \<Rightarrow> string \<Rightarrow> 'd \<Rightarrow> string + auth_provider list" where
  "get_enabled_providers_by_type s ty d =
     t_find (st_providers s) ''priority ASC, id ASC'' (\<lambda>p. ap_type p = ty \<and> ap_enabled p) d"

definition create_auth_provider :: "'d store \<Rightarrow> auth_provider \<Rightarrow> 'd \<Rightarrow> (string + auth_provider) \<times> 'd" where
  "create_auth_provider s p d = t_create (st_providers s) p d"

definition update_auth_provider :: "'d store \<Rightarrow> auth_provider \<Rightarrow> 'd \<Rightarrow> string option \<times> 'd" where
  "update_auth_provider s p d = t_save (st_providers s) p d"

definition delete_auth_provider :: "'d store \<Rightarrow> int \<Rightarrow> 'd \<Rightarrow> string option \<times> 'd" where
  "delete_auth_provider s i d = (case t_delete (st_providers s) (\<lambda>p. ap_id p = i) d of
     (Inl e, d1) \<Rightarrow> (Some e, d1) | (Inr _, d1) \<Rightarrow> (None, d1))"

section \<open>What the store relies on\<close>

text \<open>
  The documented behaviour of a table with rows \<open>rows d\<close>, primary key \<open>idf\<close> and a unique column
  \<open>uq\<close>: a row that is found is stored and satisfies the condition; a created row has a new key and
  a value of the unique column that was free; updates and deletes act on the rows their condition
  selects; an operation that fails leaves the rows alone. \<open>same r r1\<close> says which columns of a
  created row are stored as given.
\<close>

definition sql_ok :: "('d, 'r) table \<Rightarrow> ('d \<Rightarrow> 'r list) \<Rightarrow> ('r \<Rightarrow> int) \<Rightarrow> ('r \<Rightarrow> string) \<Rightarrow>
    ('r \<Rightarrow> 'r \<Rightarrow> bool) \<Rightarrow> bool" where
  "sql_ok T rows idf uq same \<longleftrightarrow>
     (\<forall>P d r. t_first T P d = Inr r \<longrightarrow> r \<in> set (rows d) \<and> P r) \<and>
     (\<forall>r d r1 d1. t_create T r d = (Inr r1, d1) \<longrightarrow> rows d1 = rows d @ [r1] \<and> same r r1 \<and>
        idf r1 \<notin> idf ` set (rows d) \<and> uq r1 = uq r \<and> uq r \<notin> uq ` set (rows d)) \<and>
     (\<forall>r d e d1. t_create T r d = (Inl e, d1) \<longrightarrow> rows d1 = rows d) \<and>
     (\<forall>P f d d1. t_update T P f d = (None, d1) \<longrightarrow> rows d1 = map (\<lambda>r. if P r then f r else r) (rows d)) \<and>
     (\<forall>P f d e d1. t_update T P f d = (Some e, d1) \<longrightarrow> rows d1 = rows d) \<and>
     (\<forall>r d d1. t_save T r d = (None, d1) \<longrightarrow> idf r \<in> idf ` set (rows d) \<longrightarrow>
        rows d1 = map (\<lambda>x. if idf x = idf r then r else x) (rows d)) \<and>
     (\<forall>P d n d1. t_delete T P d = (Inr n, d1) \<longrightarrow> rows d1 = filter (\<lambda>r. \<not> P r) (rows d) \<and>
        n = int (length (filter P (rows d)))) \<and>
     (\<forall>P d e d1. t_delete T P d = (Inl e, d1) \<longrightarrow> rows d1 = rows d)"

text \<open>A database that is up answers a query that has an answer and takes a write that is allowed.\<close>

definition table_up :: "('d, 'r) table \<Rightarrow> ('d \<Rightarrow> 'r list) \<Rightarrow> ('r \<Rightarrow> string) \<Rightarrow> bool" where
  "table_up T rows uq \<longleftrightarrow>
     (\<forall>P d. (\<exists>r \<in> set (rows d). P r) \<longrightarrow> is_ok (t_first T P d)) \<and>
     (\<forall>r d. uq r \<notin> uq ` set (rows d) \<longrightarrow> is_ok (fst (t_create T r d))) \<and>
     (\<forall>r d. fst (t_save T r d) = None) \<and> (\<forall>P f d. fst (t_update T P f d) = None)"

text \<open>The operations of one table leave the rows of another alone.\<close>

definition leaves :: "('d, 'r) table \<Rightarrow> ('d \<Rightarrow> 'q list) \<Rightarrow> bool" where
  "leaves T rows \<longleftrightarrow>
     (\<forall>r d. rows (snd (t_create T r d)) = rows d) \<and> (\<forall>r d. rows (snd (t_save T r d)) = rows d) \<and>
     (\<forall>P f d. rows (snd (t_update T P f d)) = rows d) \<and> (\<forall>P d. rows (snd (t_delete T P d)) = rows d)"

lemma table_firstD: "sql_ok T rows idf uq same \<Longrightarrow> t_first T P d = Inr r \<Longrightarrow> r \<in> set (rows d) \<and> P r"
  unfolding sql_ok_def by (elim conjE) meson

lemma table_createD:
  "sql_ok T rows idf uq same \<Longrightarrow> t_create T r d = (Inr r1, d1) \<Longrightarrow> rows d1 = rows d @ [r1] \<and> same r r1 \<and>
     idf r1 \<notin> idf ` set (rows d) \<and> uq r1 = uq r \<and> uq r \<notin> uq ` set (rows d)"
  unfolding sql_ok_def by (elim conjE) meson

lemma table_create_failD: "sql_ok T rows idf uq same \<Longrightarrow> t_create T r d = (Inl e, d1) \<Longrightarrow> rows d1 = rows d"
  unfolding sql_ok_def by (elim conjE) meson

lemma table_updateD:
  "sql_ok T rows idf uq same \<Longrightarrow> t_update T P f d = (None, d1) \<Longrightarrow>
     rows d1 = map (\<lambda>r. if P r then f r else r) (rows d)"
  unfolding sql_ok_def by (elim conjE) meson

lemma table_update_cases:
  assumes "sql_ok T rows idf uq same"
  shows "rows (snd (t_update T P f d)) = rows d \<or>
    rows (snd (t_update T P f d)) = map (\<lambda>r. if P r then f r else r) (rows d)"
proof (cases "t_update T P f d")
  case (Pair r d1)
  with assms show ?thesis by (cases r) (auto simp: sql_ok_def)
qed

lemma table_saveD:
  "sql_ok T rows idf uq same \<Longrightarrow> t_save T r d = (None, d1) \<Longrightarrow> idf r \<in> idf ` set (rows d) \<Longrightarrow>
     rows d1 = map (\<lambda>x. if idf x = idf r then r else x) (rows d)"
  unfolding sql_ok_def by (elim conjE) meson

lemma table_deleteD:
  "sql_ok T rows idf uq same \<Longrightarrow> t_delete T P d = (Inr n, d1) \<Longrightarrow>
     rows d1 = filter (\<lambda>r. \<not> P r) (rows d) \<and> n = int (length (filter P (rows d)))"
  unfolding sql_ok_def by (elim conjE) meson

lemma table_delete_cases:
  assumes "sql_ok T rows idf uq same"
  shows "rows (snd (t_delete T P d)) = rows d \<or> rows (snd (t_delete T P d)) = filter (\<lambda>r. \<not> P r) (rows d)"
proof (cases "t_delete T P d")
  case (Pair r d1)
  with assms show ?thesis by (cases r) (auto simp: sql_ok_def)
qed

lemma table_first_unique:
  assumes "sql_ok T rows idf uq same" "table_up T rows uq'" "r \<in> set (rows d)" "P r"
    and "\<And>x. x \<in> set (rows d) \<Longrightarrow> P x \<Longrightarrow> x = r"
  shows "t_first T P d = Inr r"
proof -
  have "is_ok (t_first T P d)" using assms(2-4) by (auto simp: table_up_def)
  then obtain x where "t_first T P d = Inr x" by (auto simp: is_ok_def split: sum.splits)
  with table_firstD[OF assms(1) this] assms(5) show ?thesis by blast
qed

lemma table_first_none:
  assumes "sql_ok T rows idf uq same" "\<And>x. x \<in> set (rows d) \<Longrightarrow> \<not> P x"
  shows "\<exists>e. t_first T P d = Inl e"
  using table_firstD[OF assms(1), of P d] assms(2) by (cases "t_first T P d") auto

lemma leaves_rows:
  "leaves T rows \<Longrightarrow> rows (snd (t_create T r d)) = rows d" "leaves T rows \<Longrightarrow> rows (snd (t_save T r d)) = rows d"
  "leaves T rows \<Longrightarrow> rows (snd (t_update T P f d)) = rows d" "leaves T rows \<Longrightarrow> rows (snd (t_delete T P d)) = rows d"
  by (auto simp: leaves_def)

lemma unique_by_key:
  "distinct (map f xs) \<Longrightarrow> x \<in> set xs \<Longrightarrow> y \<in> set xs \<Longrightarrow> f x = f y \<Longrightarrow> x = y"
  by (metis distinct_map inj_onD)

section \<open>A database in memory\<close>

text \<open>
  An instance of the parameter, for concrete inputs: lists of rows, with the next key above all
  keys in use and a unique column. \<open>get\<close> and \<open>put\<close> select the table.
\<close>

definition mem_table :: "('d \<Rightarrow> 'r list) \<Rightarrow> ('r list \<Rightarrow> 'd \<Rightarrow> 'd) \<Rightarrow> ('r \<Rightarrow> int) \<Rightarrow> (int \<Rightarrow> 'r \<Rightarrow> 'r) \<Rightarrow>
    ('r \<Rightarrow> string) \<Rightarrow> ('d, 'r) table" where
  "mem_table get put idf set_id uq = \<lparr>
     t_create = (\<lambda>r d. if uq r \<in> uq ` set (get d) then (Inl ''UNIQUE constraint failed'', d)
       else (let r1 = set_id (1 + foldr max (map idf (get d)) 0) r in (Inr r1, put (get d @ [r1]) d))),
     t_first = (\<lambda>P d. case filter P (get d) of [] \<Rightarrow> Inl ''record not found'' | r # _ \<Rightarrow> Inr r),
     t_find = (\<lambda>ord P d. Inr (filter P (get d))),
     t_save = (\<lambda>r d. (None, put (map (\<lambda>x. if idf x = idf r then r else x) (get d)) d)),
     t_update = (\<lambda>P f d. (None, put (map (\<lambda>r. if P r then f r else r) (get d)) d)),
     t_delete = (\<lambda>P d. (Inr (int (length (filter P (get d)))), put (filter (\<lambda>r. \<not> P r) (get d)) d)),
     t_count = (\<lambda>d. Inr (int (length (get d))))\<rparr>"

lemma foldr_max_upper: "x \<in> set xs \<Longrightarrow> x \<le> foldr max xs (0 :: int)"
  by (induction xs) auto

lemma mem_table_sql:
  assumes "\<And>rs d. get (put rs d) = rs" "\<And>i r. idf (set_id i r) = i" "\<And>i r. uq (set_id i r) = uq r"
    "\<And>i r. same r (set_id i r)"
  shows "sql_ok (mem_table get put idf set_id uq) get idf uq same"
proof -
  have fresh: "1 + foldr max (map idf xs) 0 \<notin> idf ` set xs" for xs
  proof
    assume "1 + foldr max (map idf xs) 0 \<in> idf ` set xs"
    then show False using foldr_max_upper[of "1 + foldr max (map idf xs) 0" "map idf xs"] by auto
  qed
  have first: "r \<in> set xs \<and> P r"
    if "(case filter P xs of [] \<Rightarrow> Inl e | r # _ \<Rightarrow> Inr r) = Inr r" for P r xs and e :: string
  proof (cases "filter P xs")
    case (Cons y ys)
    have "y \<in> set (filter P xs)" unfolding Cons by simp
    moreover have "y = r" using that unfolding Cons by simp
    ultimately show ?thesis by simp
  qed (use that in auto)
  show ?thesis
    unfolding sql_ok_def mem_table_def
    by (auto simp: assms Let_def fresh split: if_splits dest: first)
qed

lemma mem_table_up: "table_up (mem_table get put idf set_id uq) get uq"
  by (auto simp: table_up_def mem_table_def Let_def is_ok_def filter_empty_conv split: list.split)

lemma mem_table_leaves: "(\<And>rs d. rows (put rs d) = rows d) \<Longrightarrow> leaves (mem_table get put idf set_id uq) rows"
  by (simp add: leaves_def mem_table_def Let_def)

record mem_db =
  md_users :: "user list"
  md_keys :: "api_key list"
  md_roles :: "role_def list"
  md_bindings :: "role_binding_def list"
  md_providers :: "auth_provider list"

definition mem_store :: "mem_db store" where
  "mem_store = \<lparr>
     st_users = mem_table md_users (\<lambda>rs d. d\<lparr>md_users := rs\<rparr>) us_id (\<lambda>i r. r\<lparr>us_id := i\<rparr>) us_username,
     st_keys = mem_table md_keys (\<lambda>rs d. d\<lparr>md_keys := rs\<rparr>) ak_id (\<lambda>i r. r\<lparr>ak_id := i\<rparr>) ak_key_hash,
     st_roles = mem_table md_roles (\<lambda>rs d. d\<lparr>md_roles := rs\<rparr>) rd_id (\<lambda>i r. r\<lparr>rd_id := i\<rparr>) rd_name,
     st_bindings = mem_table md_bindings (\<lambda>rs d. d\<lparr>md_bindings := rs\<rparr>) rb_id (\<lambda>i r. r\<lparr>rb_id := i\<rparr>)
       (\<lambda>b. show_int (rb_id b)),
     st_providers = mem_table md_providers (\<lambda>rs d. d\<lparr>md_providers := rs\<rparr>) ap_id (\<lambda>i r. r\<lparr>ap_id := i\<rparr>) ap_name\<rparr>"

end
