(* ===== verification/Auth.thy ===== *)
theory Auth
  imports Auth_Store
begin

text \<open>
  The authenticator (internal/auth/auth.go, apikey.go, and the account part of handlers.go): local
  logins, session tokens, passwords, API keys and the accounts of external providers.

  bcrypt, the JWT library and SHA-256 are parameters of the model. What is random in the code, the
  salt of a password hash and the bytes of a new key, is an argument.
\<close>

section \<open>Libraries and configuration\<close>

record user_claims =
  uc_user_id :: int
  uc_username :: string
  uc_role :: string
  uc_expires_at :: time
  uc_issued_at :: time
  uc_issuer :: string
  uc_subject :: string

datatype jwt_method = HMAC string | Other_method string

text \<open>
  \<open>jw_parse tok key now\<close> asks the key function for the key of the token's method, as
  \<open>ParseWithClaims\<close> does; the flag is \<open>token.Valid\<close>.
\<close>

record jwt_lib =
  jw_method :: "string \<Rightarrow> jwt_method"
  jw_sign :: "jwt_method \<Rightarrow> string \<Rightarrow> user_claims \<Rightarrow> string + string"
  jw_parse :: "string \<Rightarrow> (jwt_method \<Rightarrow> string + string) \<Rightarrow> time \<Rightarrow> string + (user_claims \<times> bool)"

record bcrypt_lib =
  bc_generate :: "string \<Rightarrow> int \<Rightarrow> string \<Rightarrow> string + string"
  bc_compare :: "string \<Rightarrow> string \<Rightarrow> bool"

record auth_config =
  cf_jwt_secret :: string
  cf_jwt_expiry :: duration
  cf_default_role :: string
  cf_default_allowed_namespaces :: string

record 'd authenticator =
  au_store :: "'d store"
  au_cfg :: auth_config
  au_bcrypt :: bcrypt_lib
  au_jwt :: jwt_lib
  au_sha256 :: "string \<Rightarrow> string"

definition err_invalid_credentials :: string where "err_invalid_credentials = ''invalid credentials''"
definition err_user_not_found :: string where "err_user_not_found = ''user not found''"

section \<open>Session tokens\<close>

definition jwt_key :: "'d authenticator \<Rightarrow> jwt_method \<Rightarrow> string + string" where
  "jwt_key A m = (case m of
     HMAC _ \<Rightarrow> Inr (cf_jwt_secret (au_cfg A))
   | Other_method alg \<Rightarrow> Inl (''unexpected signing method: '' @ alg))"

definition verify_token :: "'d authenticator \<Rightarrow> time \<Rightarrow> string \<Rightarrow> string + user_claims" where
  "verify_token A now tok = (case jw_parse (au_jwt A) tok (jwt_key A) now of
     Inl e \<Rightarrow> Inl (''invalid token: '' @ e)
   | Inr (claims, valid) \<Rightarrow> if \<not> valid then Inl ''invalid token: %!w(<nil>)'' else Inr claims)"

definition claims_for :: "'d authenticator \<Rightarrow> time \<Rightarrow> user \<Rightarrow> user_claims" where
  "claims_for A now u = \<lparr>uc_user_id = us_id u, uc_username = us_username u, uc_role = us_role u,
     uc_expires_at = now + cf_jwt_expiry (au_cfg A), uc_issued_at = now, uc_issuer = ''k8ops'',
     uc_subject = us_username u\<rparr>"

definition generate_token :: "'d authenticator \<Rightarrow> time \<Rightarrow> user \<Rightarrow> string + string" where
  "generate_token A now u = jw_sign (au_jwt A) (HMAC ''HS256'') (cf_jwt_secret (au_cfg A)) (claims_for A now u)"

section \<open>Local users\<close>

definition bcrypt_cost :: int where "bcrypt_cost = 12"

definition hash_password :: "'d authenticator \<Rightarrow> string \<Rightarrow> string \<Rightarrow> string + string" where
  "hash_password A salt pw = bc_generate (au_bcrypt A) salt bcrypt_cost pw"

definition login_local :: "'d authenticator \<Rightarrow> time \<Rightarrow> string \<Rightarrow> string \<Rightarrow> 'd \<Rightarrow> string + (user \<times> string)" where
  "login_local A now username pw d = (case get_user_by_username (au_store A) username d of
     Inl _ \<Rightarrow> Inl err_invalid_credentials
   | Inr u \<Rightarrow>
       if us_provider u \<noteq> ''local''
       then Inl (''user '' @ username @ '' is not a local user, use '' @ us_provider u @ '' login'')
       else if \<not> bc_compare (au_bcrypt A) (us_password_hash u) pw then Inl err_invalid_credentials
       else (case generate_token A now u of Inl e \<Rightarrow> Inl e | Inr tok \<Rightarrow> Inr (u, tok)))"

definition bootstrap_admin :: "'d authenticator \<Rightarrow> string \<Rightarrow> 'd \<Rightarrow> string option \<times> 'd" where
  "bootstrap_admin A salt d = (case count_users (au_store A) d of
     Inl e \<Rightarrow> (Some e, d)
   | Inr n \<Rightarrow> if 0 < n then (None, d)
       else (case hash_password A salt ''admin'' of
           Inl e \<Rightarrow> (Some e, d)
         | Inr h \<Rightarrow> (case create_user (au_store A) (zero_user\<lparr>us_username := ''admin'',
               us_display_name := ''Administrator'', us_role := ''admin'', us_provider := ''local'',
               us_password_hash := h, us_must_change_pwd := True\<rparr>) d of
             (Inl e, d1) \<Rightarrow> (Some e, d1) | (Inr _, d1) \<Rightarrow> (None, d1))))"

definition change_password :: "'d authenticator \<Rightarrow> string \<Rightarrow> int \<Rightarrow> string \<Rightarrow> string \<Rightarrow> 'd \<Rightarrow> string option \<times> 'd" where
  "change_password A salt user_id old new d = (case get_user_by_id (au_store A) user_id d of
     Inl _ \<Rightarrow> (Some err_user_not_found, d)
   | Inr u \<Rightarrow>
       if us_provider u \<noteq> ''local'' then (Some (''cannot change password for '' @ us_provider u @ '' user''), d)
       else if \<not> bc_compare (au_bcrypt A) (us_password_hash u) old then (Some err_invalid_credentials, d)
       else (case hash_password A salt new of
           Inl e \<Rightarrow> (Some e, d)
         | Inr h \<Rightarrow> update_user (au_store A) (u\<lparr>us_password_hash := h, us_must_change_pwd := False\<rparr>) d))"

definition admin_create_user :: "'d authenticator \<Rightarrow> string \<Rightarrow> string \<Rightarrow> string \<Rightarrow> string \<Rightarrow> string \<Rightarrow> string \<Rightarrow>
    string \<Rightarrow> 'd \<Rightarrow> (string + user) \<times> 'd" where
  "admin_create_user A salt username pw email display role nss d = (case hash_password A salt pw of
     Inl e \<Rightarrow> (Inl e, d)
   | Inr h \<Rightarrow> create_user (au_store A) (zero_user\<lparr>us_username := username, us_email := email,
       us_display_name := display, us_password_hash := h,
       us_role := (if role = [] then ''viewer'' else role), us_allowed_namespaces := nss,
       us_provider := ''local'', us_must_change_pwd := True\<rparr>) d)"

definition admin_update_user :: "'d authenticator \<Rightarrow> int \<Rightarrow> (user \<Rightarrow> user) \<Rightarrow> 'd \<Rightarrow> string option \<times> 'd" where
  "admin_update_user A i f d = t_update (st_users (au_store A)) (\<lambda>u. us_id u = i) f d"

definition admin_reset_password :: "'d authenticator \<Rightarrow> string \<Rightarrow> int \<Rightarrow> string \<Rightarrow> 'd \<Rightarrow> string option \<times> 'd" where
  "admin_reset_password A salt i new d = (case hash_password A salt new of
     Inl e \<Rightarrow> (Some e, d)
   | Inr h \<Rightarrow> t_update (st_users (au_store A)) (\<lambda>u. us_id u = i)
       (\<lambda>u. u\<lparr>us_password_hash := h, us_must_change_pwd := True\<rparr>) d)"

section \<open>Users of external providers\<close>

definition default_role :: "'d authenticator \<Rightarrow> string" where
  "default_role A = (if cf_default_role (au_cfg A) \<noteq> [] then cf_default_role (au_cfg A) else ''viewer'')"

text \<open>The hundred rounds of \<open>uniqueUsername\<close>: \<open>i\<close> is the loop variable, \<open>k\<close> the rounds left.\<close>

fun unique_loop :: "(string \<Rightarrow> string + user) \<Rightarrow> string \<Rightarrow> string \<Rightarrow> nat \<Rightarrow> nat \<Rightarrow> string \<Rightarrow> string" where
  "unique_loop look base prov i 0 candidate = base @ ''_'' @ prov @ ''_x''"
| "unique_loop look base prov i (Suc k) candidate = (case look candidate of
     Inl _ \<Rightarrow> candidate
   | Inr existing \<Rightarrow>
       if us_provider existing = prov \<and> us_username existing = base then candidate
       else unique_loop look base prov (Suc i) k
         (if i = 0 then base @ ''_'' @ prov else base @ ''_'' @ prov @ ''_'' @ show_nat (i + 1)))"

definition unique_username :: "'d authenticator \<Rightarrow> string \<Rightarrow> string \<Rightarrow> 'd \<Rightarrow> string" where
  "unique_username A base prov d =
     unique_loop (\<lambda>name. get_user_by_username (au_store A) name d) base prov 0 100 base"

text \<open>A failed update of a known user is logged and the login goes on.\<close>

definition upsert_oidc_user :: "'d authenticator \<Rightarrow> time \<Rightarrow> string \<Rightarrow> string \<Rightarrow> string \<Rightarrow> string \<Rightarrow> string \<Rightarrow> 'd \<Rightarrow>
    (string + (user \<times> string)) \<times> 'd" where
  "upsert_oidc_user A now key pid username email display d =
     (let session = (\<lambda>u d1. (case generate_token A now u of Inl e \<Rightarrow> Inl e | Inr tok \<Rightarrow> Inr (u, tok), d1))
      in case get_user_by_provider (au_store A) key pid d of
        Inl _ \<Rightarrow> (case create_user (au_store A) (zero_user\<lparr>
              us_username := unique_username A username key d, us_email := email, us_display_name := display,
              us_role := default_role A, us_provider := key, us_provider_id := pid\<rparr>) d of
            (Inl e, d1) \<Rightarrow> (Inl (''failed to create user: '' @ e), d1)
          | (Inr u, d1) \<Rightarrow> session u d1)
      | Inr u \<Rightarrow> (let u1 = (if email \<noteq> [] then u\<lparr>us_email := email\<rparr> else u);
             u2 = (if display \<noteq> [] then u1\<lparr>us_display_name := display\<rparr> else u1)
          in session u2 (snd (update_user (au_store A) u2 d))))"

section \<open>API keys\<close>

text \<open>\<open>encoding/base64\<close>, with the standard and the URL alphabet; only the former pads.\<close>

definition b64_char :: "bool \<Rightarrow> nat \<Rightarrow> char" where
  "b64_char url n =
     (if n < 26 then char_of (65 + n) else if n < 52 then char_of (71 + n) else if n < 62 then char_of (n - 4)
      else if n = 62 then (if url then CHR ''-'' else CHR ''+'') else (if url then CHR ''_'' else CHR ''/''))"

fun b64 :: "bool \<Rightarrow> nat list \<Rightarrow> string" where
  "b64 url [] = []"
| "b64 url [a] = map (b64_char url) [a div 4, a mod 4 * 16] @ (if url then [] else ''=='')"
| "b64 url [a, b] = map (b64_char url) [a div 4, a mod 4 * 16 + b div 16, b mod 16 * 4] @ (if url then [] else ''='')"
| "b64 url (a # b # c # bs) =
     map (b64_char url) [a div 4, a mod 4 * 16 + b div 16, b mod 16 * 4 + c div 64, c mod 64] @ b64 url bs"

definition encode64 :: "bool \<Rightarrow> string \<Rightarrow> string" where
  "encode64 url s = b64 url (map of_char s)"

definition api_key_prefix :: string where "api_key_prefix = ''k8ops_''"

definition hash_api_key :: "'d authenticator \<Rightarrow> string \<Rightarrow> string" where
  "hash_api_key A k = encode64 False (au_sha256 A k)"

text \<open>The argument is what \<open>rand.Read\<close> made of 32 bytes.\<close>

definition generate_api_key :: "'d authenticator \<Rightarrow> string + string \<Rightarrow> string + (string \<times> string \<times> string)" where
  "generate_api_key A raw = (case raw of
     Inl e \<Rightarrow> Inl (''failed to generate random bytes: '' @ e)
   | Inr bytes \<Rightarrow> (let plaintext = api_key_prefix @ encode64 True bytes
       in Inr (plaintext, hash_api_key A plaintext, take 12 plaintext)))"

definition validate_api_key :: "'d authenticator \<Rightarrow> time \<Rightarrow> string \<Rightarrow> 'd \<Rightarrow> (string + user) \<times> 'd" where
  "validate_api_key A now plaintext d =
     (case get_api_key_by_hash (au_store A) (hash_api_key A plaintext) d of
        Inl _ \<Rightarrow> (Inl err_invalid_credentials, d)
      | Inr k \<Rightarrow>
          if ak_revoked k then (Inl ''API key has been revoked'', d)
          else if (case ak_expires_at k of None \<Rightarrow> False | Some t \<Rightarrow> t < now) then (Inl ''API key has expired'', d)
          else (case get_user_by_id (au_store A) (ak_user_id k) d of
              Inl _ \<Rightarrow> (Inl err_user_not_found, d)
            | Inr u \<Rightarrow> (Inr u, update_api_key_last_used (au_store A) now (ak_id k) d)))"

end
