(* ===== verification/Auth_Middleware.thy ===== *)
theory Auth_Middleware
  imports Auth
begin

text \<open>
  The auth middleware (internal/auth/middleware.go): which requests it lets through, and as whom.
  A handler takes the user of the request context, the request and the world, the database
  included; \<open>Inr None\<close> of the gate is a request that passes without a user being set.
\<close>

type_synonym 'd handler = "user option \<Rightarrow> http_req \<Rightarrow> 'd \<Rightarrow> http_resp \<times> 'd"

definition is_public_route :: "string \<Rightarrow> bool" where
  "is_public_route path \<longleftrightarrow>
     has_suffix path ''.css'' \<or> has_suffix path ''.js'' \<or> has_suffix path ''.ico'' \<or>
     has_suffix path ''.png'' \<or> has_suffix path ''.svg'' \<or> has_suffix path ''.woff2'' \<or>
     path = ''/login.html'' \<or> path = ''/favicon.ico'' \<or>
     has_prefix path ''/api/auth/login'' \<or> has_prefix path ''/api/auth/logout'' \<or>
     has_prefix path ''/api/auth/status'' \<or> has_prefix path ''/api/auth/oidc'' \<or>
     has_prefix path ''/api/auth/callback'' \<or> has_prefix path ''/api/auth/provider-presets'' \<or>
     path = ''/api/health''"

definition is_api_request :: "string \<Rightarrow> bool" where
  "is_api_request path = has_prefix path ''/api/''"

definition token_cookie :: "string \<Rightarrow> int \<Rightarrow> cookie" where
  "token_cookie tok age = \<lparr>ck_name = ''k8ops_token'', ck_value = tok, ck_max_age = age\<rparr>"

definition clear_auth_cookie :: "http_resp \<Rightarrow> http_resp" where
  "clear_auth_cookie r = set_cookie (token_cookie [] (-1)) r"

definition json_error :: "string \<Rightarrow> string" where
  "json_error msg = ''{'' @ dquote @ ''error'' @ dquote @ '':'' @ dquote @ msg @ dquote @ ''}''"

definition turn_away :: "string \<Rightarrow> string \<Rightarrow> http_resp" where
  "turn_away path msg =
     (if is_api_request path then http_error 401 (json_error msg) else http_redirect 303 ''/login.html'')"

definition auth_gate :: "'d authenticator \<Rightarrow> time \<Rightarrow> http_req \<Rightarrow> 'd \<Rightarrow> (http_resp + user option) \<times> 'd" where
  "auth_gate A now rq d =
     (let path = rq_path rq; auth_header = rq_header rq ''Authorization'' in
      if is_public_route path then (Inr None, d)
      else if auth_header \<noteq> [] \<and> has_prefix auth_header ''Bearer '' then
        (case validate_api_key A now (trim_prefix auth_header ''Bearer '') d of
           (Inl _, d1) \<Rightarrow> (Inl (http_error 401 (json_error ''invalid API key'')), d1)
         | (Inr u, d1) \<Rightarrow> (Inr (Some u), d1))
      else (case rq_cookie rq ''k8ops_token'' of
          None \<Rightarrow> (Inl (turn_away path ''unauthorized''), d)
        | Some tok \<Rightarrow> (case verify_token A now tok of
            Inl _ \<Rightarrow> (Inl (clear_auth_cookie (turn_away path ''invalid token'')), d)
          | Inr claims \<Rightarrow> (case get_user_by_id (au_store A) (uc_user_id claims) d of
              Inl _ \<Rightarrow> (Inl (clear_auth_cookie (turn_away path ''user not found'')), d)
            | Inr u \<Rightarrow> (Inr (Some u), d)))))"

definition auth_middleware :: "'d authenticator \<Rightarrow> time \<Rightarrow> 'd handler \<Rightarrow> 'd handler" where
  "auth_middleware A now next_handler ctx rq d = (case auth_gate A now rq d of
     (Inl resp, d1) \<Rightarrow> (resp, d1)
   | (Inr None, d1) \<Rightarrow> next_handler ctx rq d1
   | (Inr (Some u), d1) \<Rightarrow> next_handler (Some u) rq d1)"

definition admin_only :: "'d handler \<Rightarrow> 'd handler" where
  "admin_only next_handler ctx rq d = (case ctx of
     Some u \<Rightarrow> if us_role u = ''admin'' then next_handler ctx rq d
       else (http_error 403 (json_error ''forbidden: admin access required''), d)
   | None \<Rightarrow> (http_error 403 (json_error ''forbidden: admin access required''), d))"

section \<open>What the code relies on\<close>

text \<open>
  The JWT library accepts a token only with a key the key function gave for the token's method, and
  gives back the claims of a token it signed with that key, as long as the token has not expired;
  it keeps times in whole seconds.
\<close>

definition jwt_checks :: "jwt_lib \<Rightarrow> bool" where
  "jwt_checks J \<longleftrightarrow> (\<forall>tok kf now cl v. jw_parse J tok kf now = Inr (cl, v) \<longrightarrow> is_ok (kf (jw_method J tok)))"

definition jwt_returns :: "jwt_lib \<Rightarrow> bool" where
  "jwt_returns J \<longleftrightarrow> (\<forall>m key cl tok kf now. jw_sign J m key cl = Inr tok \<longrightarrow> kf m = Inr key \<longrightarrow>
     now + second \<le> uc_expires_at cl \<longrightarrow>
     (\<exists>cl1. jw_parse J tok kf now = Inr (cl1, True) \<and> uc_user_id cl1 = uc_user_id cl))"

text \<open>What the two kinds of credentials prove.\<close>

definition presents_key :: "'d authenticator \<Rightarrow> api_key list \<Rightarrow> time \<Rightarrow> http_req \<Rightarrow> int \<Rightarrow> bool" where
  "presents_key A ks now rq i \<longleftrightarrow> (\<exists>tok. \<exists>k \<in> set ks. rq_header rq ''Authorization'' = ''Bearer '' @ tok \<and>
     ak_key_hash k = hash_api_key A tok \<and> \<not> ak_revoked k \<and> ak_user_id k = i \<and>
     (\<forall>t. ak_expires_at k = Some t \<longrightarrow> now \<le> t))"

definition presents_session :: "'d authenticator \<Rightarrow> time \<Rightarrow> http_req \<Rightarrow> int \<Rightarrow> bool" where
  "presents_session A now rq i \<longleftrightarrow> (\<exists>tok cl alg. rq_cookie rq ''k8ops_token'' = Some tok \<and>
     verify_token A now tok = Inr cl \<and> jw_method (au_jwt A) tok = HMAC alg \<and> uc_user_id cl = i)"

lemma validate_api_keyD:
  assumes "sql_ok (st_keys (au_store A)) keys kid kuq ksame" "sql_ok (st_users (au_store A)) users uid uuq usame"
    and "validate_api_key A now tok d = (Inr u, d1)"
  shows "u \<in> set (users d) \<and> (\<exists>k \<in> set (keys d). ak_key_hash k = hash_api_key A tok \<and> \<not> ak_revoked k \<and>
    ak_user_id k = us_id u \<and> (\<forall>t. ak_expires_at k = Some t \<longrightarrow> now \<le> t))"
proof -
  obtain k where k: "get_api_key_by_hash (au_store A) (hash_api_key A tok) d = Inr k"
    using assms(3) by (auto simp: validate_api_key_def split: sum.splits)
  with assms(3) have v: "\<not> ak_revoked k" "\<forall>t. ak_expires_at k = Some t \<longrightarrow> now \<le> t"
    "get_user_by_id (au_store A) (ak_user_id k) d = Inr u"
    by (auto simp: validate_api_key_def split: if_splits option.splits sum.splits)
  have "k \<in> set (keys d) \<and> ak_key_hash k = hash_api_key A tok"
    using table_firstD[OF assms(1) k[unfolded get_api_key_by_hash_def]] .
  moreover have "u \<in> set (users d) \<and> us_id u = ak_user_id k"
    using table_firstD[OF assms(2) v(3)[unfolded get_user_by_id_def]] .
  ultimately show ?thesis using v(1,2) by auto
qed

lemma verify_token_hmac:
  assumes "jwt_checks (au_jwt A)" "verify_token A now tok = Inr cl"
  shows "\<exists>alg. jw_method (au_jwt A) tok = HMAC alg"
proof -
  have "jw_parse (au_jwt A) tok (jwt_key A) now = Inr (cl, True)"
    using assms(2) by (auto simp: verify_token_def split: sum.splits if_splits)
  then have "is_ok (jwt_key A (jw_method (au_jwt A) tok))"
    using assms(1) unfolding jwt_checks_def by blast
  then show ?thesis by (auto simp: jwt_key_def split: jwt_method.splits)
qed

lemma verify_own_token:
  assumes "jwt_returns (au_jwt A)" "generate_token A t0 u = Inr tok" "now + second \<le> t0 + cf_jwt_expiry (au_cfg A)"
  shows "\<exists>cl. verify_token A now tok = Inr cl \<and> uc_user_id cl = us_id u"
proof -
  have "\<exists>cl1. jw_parse (au_jwt A) tok (jwt_key A) now = Inr (cl1, True) \<and> uc_user_id cl1 = uc_user_id (claims_for A t0 u)"
    using assms unfolding jwt_returns_def generate_token_def
    by (elim allE[of _ "HMAC ''HS256''"] allE[of _ "cf_jwt_secret (au_cfg A)"] allE[of _ "claims_for A t0 u"]
        allE[of _ tok] allE[of _ "jwt_key A"] allE[of _ now]) (simp add: jwt_key_def claims_for_def)
  then show ?thesis by (auto simp: verify_token_def claims_for_def)
qed

end
