(* ===== verification/Auth_Props.thy ===== *)
theory Auth_Props
  imports Auth_Middleware
begin

text \<open>
  The properties of the auth package that span its operations: who passes the gate, what a login,
  a password change and a revocation have for effect on later requests, and which accounts of an
  external provider cannot log in.
\<close>

section \<open>A concrete authenticator\<close>

text \<open>
  Instances of the library parameters for concrete inputs. A token of the instance is the user's
  id in unary, a dot and the secret.
\<close>

definition demo_bcrypt :: bcrypt_lib where
  "demo_bcrypt = \<lparr>
     bc_generate = (\<lambda>salt cost pw. if 72 < length pw then Inl ''password length exceeds 72 bytes'' else Inr (CHR ''$'' # pw)),
     bc_compare = (\<lambda>h pw. h = CHR ''$'' # pw)\<rparr>"

definition demo_claims :: "int \<Rightarrow> user_claims" where
  "demo_claims i = \<lparr>uc_user_id = i, uc_username = [], uc_role = [], uc_expires_at = 0, uc_issued_at = 0,
     uc_issuer = ''k8ops'', uc_subject = []\<rparr>"

definition demo_token :: "int \<Rightarrow> string \<Rightarrow> string" where
  "demo_token i key = replicate (nat i) (CHR ''u'') @ CHR ''.'' # key"

definition demo_jwt :: jwt_lib where
  "demo_jwt = \<lparr>
     jw_method = (\<lambda>tok. HMAC ''HS256''),
     jw_sign = (\<lambda>m key cl. if m = HMAC ''HS256'' \<and> 0 \<le> uc_user_id cl then Inr (demo_token (uc_user_id cl) key)
       else Inl ''key is of invalid type''),
     jw_parse = (\<lambda>tok kf now. case kf (HMAC ''HS256'') of Inl e \<Rightarrow> Inl e
       | Inr key \<Rightarrow> (let i = int (length (takeWhile (\<lambda>c. c = CHR ''u'') tok))
           in if tok = demo_token i key then Inr (demo_claims i, True) else Inl ''signature is invalid''))\<rparr>"

lemma takeWhile_demo_token: "takeWhile (\<lambda>c. c = CHR ''u'') (demo_token i key) = replicate (nat i) (CHR ''u'')"
  unfolding demo_token_def by (subst takeWhile_append2) auto

lemma demo_jwt_checks: "jwt_checks demo_jwt"
  by (auto simp: jwt_checks_def demo_jwt_def is_ok_def split: sum.splits)

lemma demo_jwt_returns: "jwt_returns demo_jwt"
  by (auto simp: jwt_returns_def demo_jwt_def demo_claims_def takeWhile_demo_token Let_def split: if_splits)

definition demo_auth :: "mem_db authenticator" where
  "demo_auth = \<lparr>au_store = mem_store,
     au_cfg = \<lparr>cf_jwt_secret = ''s3cret'', cf_jwt_expiry = 24 * 60 * minute, cf_default_role = [],
       cf_default_allowed_namespaces = []\<rparr>,
     au_bcrypt = demo_bcrypt, au_jwt = demo_jwt, au_sha256 = (\<lambda>s. s)\<rparr>"

definition demo_user :: "int \<Rightarrow> string \<Rightarrow> string \<Rightarrow> user" where
  "demo_user i name role = zero_user\<lparr>us_id := i, us_username := name, us_role := role,
     us_provider := ''local'', us_password_hash := ''$pw''\<rparr>"

definition demo_key :: "int \<Rightarrow> int \<Rightarrow> string \<Rightarrow> api_key" where
  "demo_key i owner tok = \<lparr>ak_id = i, ak_user_id = owner, ak_name = ''ci'', ak_key_hash = hash_api_key demo_auth tok,
     ak_key_prefix = take 12 tok, ak_last_used_at = None, ak_expires_at = Some 100, ak_revoked = False, ak_created_at = 0\<rparr>"

definition demo_db :: mem_db where
  "demo_db = \<lparr>md_users = [demo_user 1 ''admin'' ''admin'', demo_user 2 ''eve'' ''viewer''],
     md_keys = [demo_key 1 2 ''k8ops_1'', demo_key 2 1 ''k8ops_2''], md_roles = [], md_bindings = [],
     md_providers = []\<rparr>"

definition demo_req :: "string \<Rightarrow> string \<Rightarrow> string \<Rightarrow> string option \<Rightarrow> http_req" where
  "demo_req meth path auth_header ck = \<lparr>rq_method = meth, rq_path = path, rq_query = (\<lambda>k. []),
     rq_header = (\<lambda>n. if n = ''Authorization'' then auth_header else []),
     rq_cookie = (\<lambda>n. if n = ''k8ops_token'' then ck else None), rq_json = None,
     rq_raw_query = [], rq_remote_addr = ''10.0.0.1:5000''\<rparr>"

lemma mem_users:
  "sql_ok (st_users mem_store) md_users us_id us_username (\<lambda>r r1. r1 = r\<lparr>us_id := us_id r1\<rparr>)"
  "table_up (st_users mem_store) md_users us_username"
  unfolding mem_store_def store.simps
  by (rule mem_table_sql, simp_all add: mem_table_up)

lemma mem_keys:
  "sql_ok (st_keys mem_store) md_keys ak_id ak_key_hash (\<lambda>r r1. r1 = r\<lparr>ak_id := ak_id r1\<rparr>)"
  "table_up (st_keys mem_store) md_keys ak_key_hash" "leaves (st_keys mem_store) md_users"
  unfolding mem_store_def store.simps
  by (rule mem_table_sql, simp_all add: mem_table_up mem_table_leaves)

lemma demo_auth_simps [simp]:
  "au_store demo_auth = mem_store" "au_bcrypt demo_auth = demo_bcrypt" "au_jwt demo_auth = demo_jwt"
  "cf_jwt_secret (au_cfg demo_auth) = ''s3cret''" "cf_jwt_expiry (au_cfg demo_auth) = 24 * 60 * minute"
  by (simp_all add: demo_auth_def)

section \<open>Revocation\<close>

text \<open>What can happen to the table of keys: a key is created, revoked or used.\<close>

datatype key_op = Add_key api_key | Revoke_key int | Use_key time string

fun run_key_op :: "'d authenticator \<Rightarrow> key_op \<Rightarrow> 'd \<Rightarrow> 'd" where
  "run_key_op A (Add_key k) d = snd (create_api_key (au_store A) k d)"
| "run_key_op A (Revoke_key i) d = snd (delete_api_key (au_store A) i d)"
| "run_key_op A (Use_key now tok) d = snd (validate_api_key A now tok d)"

definition all_revoked :: "string \<Rightarrow> api_key list \<Rightarrow> bool" where
  "all_revoked h ks \<longleftrightarrow> h \<in> ak_key_hash ` set ks \<and> (\<forall>k \<in> set ks. ak_key_hash k = h \<longrightarrow> ak_revoked k)"

lemma all_revoked_map:
  assumes "all_revoked h ks" "\<And>k. ak_key_hash (f k) = ak_key_hash k" "\<And>k. ak_revoked k \<Longrightarrow> ak_revoked (f k)"
  shows "all_revoked h (map f ks)"
  using assms by (auto simp: all_revoked_def image_image)

lemma all_revoked_update:
  assumes "sql_ok T keys kid kuq ksame" "all_revoked h (keys d)"
    and "\<And>k. ak_key_hash (f k) = ak_key_hash k" "\<And>k. ak_revoked k \<Longrightarrow> ak_revoked (f k)"
  shows "all_revoked h (keys (snd (t_update T P f d)))"
  using table_update_cases[OF assms(1), of P f d] all_revoked_map[OF assms(2), of "\<lambda>r. if P r then f r else r"] assms(2-4)
  by auto

lemma all_revoked_step:
  assumes "sql_ok (st_keys (au_store A)) keys kid ak_key_hash ksame" "all_revoked h (keys d)"
  shows "all_revoked h (keys (run_key_op A x d))"
proof (cases x)
  case (Add_key k)
  obtain r d1 where c: "t_create (st_keys (au_store A)) k d = (r, d1)" by fastforce
  show ?thesis
  proof (cases r)
    case (Inl e)
    with c table_create_failD[OF assms(1)] assms(2) Add_key show ?thesis by (auto simp: create_api_key_def)
  next
    case (Inr k1)
    with table_createD[OF assms(1)] c have "keys d1 = keys d @ [k1]" "ak_key_hash k1 \<notin> ak_key_hash ` set (keys d)"
      by metis+
    with assms(2) c Add_key show ?thesis by (auto simp: create_api_key_def all_revoked_def)
  qed
next
  case (Revoke_key i)
  then show ?thesis using all_revoked_update[OF assms] by (simp add: delete_api_key_def)
next
  case (Use_key now tok)
  have "all_revoked h (keys (update_api_key_last_used (au_store A) now j d))" for j
    using all_revoked_update[OF assms] by (simp add: update_api_key_last_used_def)
  with Use_key assms(2) show ?thesis by (simp add: validate_api_key_def split: sum.split)
qed

lemma all_revoked_run:
  assumes "sql_ok (st_keys (au_store A)) keys kid ak_key_hash ksame" "all_revoked h (keys d)"
  shows "all_revoked h (keys (fold (run_key_op A) xs d))"
  using assms(2) by (induction xs arbitrary: d) (auto intro: all_revoked_step[OF assms(1)])

lemma all_revoked_refused:
  assumes "sql_ok (st_keys (au_store A)) keys kid kuq ksame" "all_revoked (hash_api_key A tok) (keys d)"
  shows "\<exists>e. validate_api_key A now tok d = (Inl e, d)"
proof (cases "get_api_key_by_hash (au_store A) (hash_api_key A tok) d")
  case (Inr k)
  from table_firstD[OF assms(1) this[unfolded get_api_key_by_hash_def]] assms(2) have "ak_revoked k"
    by (auto simp: all_revoked_def)
  with Inr show ?thesis by (simp add: validate_api_key_def)
qed (simp add: validate_api_key_def)

lemma unique_username_taken_by_self:
  "get_user_by_username (au_store A) base d = Inr u \<Longrightarrow> us_provider u = prov \<Longrightarrow> us_username u = base \<Longrightarrow>
     unique_username A base prov d = base"
  by (simp add: unique_username_def eval_nat_numeral)

section \<open>Properties\<close>

text \<open>C10. The gate: a request that passes is on a public route and gets no user, or gets a user who is in
  the database and whose API key (stored under its hash, not revoked, not expired) or session
  token (signed with the server's secret by an HMAC method, for that user's id) it presents.\<close>

theorem gate_admits:
  assumes "sql_ok (st_keys (au_store A)) keys kid kuq ksame" "sql_ok (st_users (au_store A)) users uid uuq usame"
    and "jwt_checks (au_jwt A)" "auth_gate A now rq d = (Inr ctx, d1)"
  shows "case ctx of None \<Rightarrow> is_public_route (rq_path rq) \<and> d1 = d
    | Some u \<Rightarrow> \<not> is_public_route (rq_path rq) \<and> u \<in> set (users d) \<and>
        (presents_key A (keys d) now rq (us_id u) \<or> presents_session A now rq (us_id u))"
proof (cases "is_public_route (rq_path rq)")
  case True
  with assms(4) show ?thesis by (auto simp: auth_gate_def)
next
  case nonpub: False
  let ?h = "rq_header rq ''Authorization''"
  show ?thesis
  proof (cases "?h \<noteq> [] \<and> has_prefix ?h ''Bearer ''")
    case True
    then obtain tok where h: "?h = ''Bearer '' @ tok" by (auto simp: has_prefix_def prefix_def)
    have "trim_prefix ?h ''Bearer '' = tok" unfolding h by (rule trim_prefix_append)
    with True nonpub assms(4) obtain u where u: "ctx = Some u" "validate_api_key A now tok d = (Inr u, d1)"
      by (auto simp: auth_gate_def split: prod.splits sum.splits)
    from validate_api_keyD[OF assms(1,2) u(2)] h u(1) nonpub show ?thesis
      by (auto simp: presents_key_def)
  next
    case False
    with nonpub assms(4) obtain tok cl u where u: "rq_cookie rq ''k8ops_token'' = Some tok"
      "verify_token A now tok = Inr cl" "get_user_by_id (au_store A) (uc_user_id cl) d = Inr u" "ctx = Some u"
      by (auto simp: auth_gate_def Let_def split: option.splits sum.splits)
    have "u \<in> set (users d) \<and> us_id u = uc_user_id cl"
      using table_firstD[OF assms(2) u(3)[unfolded get_user_by_id_def]] .
    with u verify_token_hmac[OF assms(3) u(2)] nonpub show ?thesis by (auto simp: presents_session_def)
  qed
qed

theorem gate_admits_witness:
  "case fst (auth_gate demo_auth 50 (demo_req ''GET'' ''/api/pods'' ''Bearer k8ops_1'' None) demo_db) of
     Inr (Some u) \<Rightarrow> presents_key demo_auth (md_keys demo_db) 50 (demo_req ''GET'' ''/api/pods'' ''Bearer k8ops_1'' None) (us_id u) \<or>
       presents_session demo_auth 50 (demo_req ''GET'' ''/api/pods'' ''Bearer k8ops_1'' None) (us_id u)
   | _ \<Rightarrow> False"
proof -
  let ?rq = "demo_req ''GET'' ''/api/pods'' ''Bearer k8ops_1'' None"
  have "fst (auth_gate demo_auth 50 ?rq demo_db) = Inr (Some (demo_user 2 ''eve'' ''viewer''))"
    by code_simp
  then obtain d1 where g: "auth_gate demo_auth 50 ?rq demo_db = (Inr (Some (demo_user 2 ''eve'' ''viewer'')), d1)"
    by (metis prod.collapse)
  show ?thesis
    using gate_admits[OF _ _ _ g, of md_keys] mem_keys mem_users demo_jwt_checks g by fastforce
qed

section \<open>Logins\<close>

lemma get_by_username:
  assumes "sql_ok (st_users S) users uid uuq usame" "table_up (st_users S) users uuq'"
    and "distinct (map us_username (users d))" "u \<in> set (users d)" "us_username u = name"
  shows "get_user_by_username S name d = Inr u"
  unfolding get_user_by_username_def using assms
  by (intro table_first_unique[OF assms(1,2)]) (auto dest: unique_by_key)

lemma get_by_id:
  assumes "sql_ok (st_users S) users uid uuq usame" "table_up (st_users S) users uuq'"
    and "distinct (map us_id (users d))" "u \<in> set (users d)" "us_id u = i"
  shows "get_user_by_id S i d = Inr u"
  unfolding get_user_by_id_def using assms
  by (intro table_first_unique[OF assms(1,2)]) (auto dest: unique_by_key)

text \<open>C14. Logging in and the session it starts: the right password of a local user gives a token with
  which the gate lets that user's requests through until the token is about to expire, against
  every later database in which the user still exists, and as the user stored there. Neither a
  change of the password nor of the role ends a session; only the deletion of the user does.\<close>

theorem login_session:
  assumes "sql_ok (st_users (au_store A)) users us_id us_username usame" "table_up (st_users (au_store A)) users us_username"
    and "jwt_returns (au_jwt A)"
    and "distinct (map us_username (users d))" "u \<in> set (users d)" "us_provider u = ''local''"
    and "bc_compare (au_bcrypt A) (us_password_hash u) pw" "generate_token A t u = Inr tok"
    and "now + second \<le> t + cf_jwt_expiry (au_cfg A)"
    and "\<not> is_public_route (rq_path rq)" "rq_header rq ''Authorization'' = []" "rq_cookie rq ''k8ops_token'' = Some tok"
    and "distinct (map us_id (users d1))" "v \<in> set (users d1)" "us_id v = us_id u"
  shows "login_local A t (us_username u) pw d = Inr (u, tok) \<and> auth_gate A now rq d1 = (Inr (Some v), d1)"
proof
  show "login_local A t (us_username u) pw d = Inr (u, tok)"
    using get_by_username[OF assms(1,2,4,5) refl] assms(6-8) by (simp add: login_local_def)
  obtain cl where "verify_token A now tok = Inr cl" "uc_user_id cl = us_id u"
    using verify_own_token[OF assms(3,8,9)] by blast
  with get_by_id[OF assms(1,2,13,14,15)] assms(10-12) show "auth_gate A now rq d1 = (Inr (Some v), d1)"
    by (simp add: auth_gate_def)
qed

theorem login_session_witness:
  "\<exists>tok. login_local demo_auth 0 ''eve'' ''pw'' demo_db = Inr (demo_user 2 ''eve'' ''viewer'', tok) \<and>
     auth_gate demo_auth (60 * minute) (demo_req ''GET'' ''/api/pods'' [] (Some tok))
       (demo_db\<lparr>md_users := [demo_user 2 ''eve'' ''admin'']\<rparr>) =
     (Inr (Some (demo_user 2 ''eve'' ''admin'')), demo_db\<lparr>md_users := [demo_user 2 ''eve'' ''admin'']\<rparr>)"
proof -
  have "login_local demo_auth 0 (us_username (demo_user 2 ''eve'' ''viewer'')) ''pw'' demo_db =
      Inr (demo_user 2 ''eve'' ''viewer'', demo_token 2 ''s3cret'') \<and>
    auth_gate demo_auth (60 * minute) (demo_req ''GET'' ''/api/pods'' [] (Some (demo_token 2 ''s3cret'')))
       (demo_db\<lparr>md_users := [demo_user 2 ''eve'' ''admin'']\<rparr>) =
     (Inr (Some (demo_user 2 ''eve'' ''admin'')), demo_db\<lparr>md_users := [demo_user 2 ''eve'' ''admin'']\<rparr>)"
  proof (rule login_session[where users = md_users])
    show "sql_ok (st_users (au_store demo_auth)) md_users us_id us_username (\<lambda>r r1. r1 = r\<lparr>us_id := us_id r1\<rparr>)"
      "table_up (st_users (au_store demo_auth)) md_users us_username" using mem_users by simp_all
    show "\<not> is_public_route (rq_path (demo_req ''GET'' ''/api/pods'' [] (Some (demo_token 2 ''s3cret''))))"
      by code_simp
    show "jwt_returns (au_jwt demo_auth)" by (simp add: demo_jwt_returns)
  qed (simp_all add: demo_db_def demo_user_def zero_user_def demo_bcrypt_def demo_req_def
      generate_token_def demo_jwt_def claims_for_def minute_def second_def)
  then have "login_local demo_auth 0 ''eve'' ''pw'' demo_db = Inr (demo_user 2 ''eve'' ''viewer'', demo_token 2 ''s3cret'') \<and>
    auth_gate demo_auth (60 * minute) (demo_req ''GET'' ''/api/pods'' [] (Some (demo_token 2 ''s3cret'')))
       (demo_db\<lparr>md_users := [demo_user 2 ''eve'' ''admin'']\<rparr>) =
     (Inr (Some (demo_user 2 ''eve'' ''admin'')), demo_db\<lparr>md_users := [demo_user 2 ''eve'' ''admin'']\<rparr>)"
    by (simp add: demo_user_def zero_user_def)
  then show ?thesis by blast
qed

text \<open>Changing a password: a change that succeeds was made by a local user who knew the old
  password, touches no other account, makes the new password the one that logs in, and the old one
  one that does not.\<close>

theorem password_change:
  assumes "sql_ok (st_users (au_store A)) users us_id us_username usame" "table_up (st_users (au_store A)) users us_username"
    and "\<And>salt cost p h q. bc_generate (au_bcrypt A) salt cost p = Inr h \<Longrightarrow> bc_compare (au_bcrypt A) h q \<longleftrightarrow> q = p"
    and "distinct (map us_username (users d))" "distinct (map us_id (users d))" "u \<in> set (users d)"
    and "change_password A salt (us_id u) old new d = (None, d1)" "old \<noteq> new"
  shows "us_provider u = ''local'' \<and> bc_compare (au_bcrypt A) (us_password_hash u) old \<and>
    {v \<in> set (users d1). us_id v \<noteq> us_id u} = {v \<in> set (users d). us_id v \<noteq> us_id u} \<and>
    login_local A t (us_username u) old d1 = Inl err_invalid_credentials \<and>
    (\<exists>u1. login_local A t (us_username u) new d1 = (case generate_token A t u1 of Inl e \<Rightarrow> Inl e | Inr tok \<Rightarrow> Inr (u1, tok)) \<and>
       us_id u1 = us_id u \<and> us_role u1 = us_role u \<and> \<not> us_must_change_pwd u1)"
proof -
  have "get_user_by_id (au_store A) (us_id u) d = Inr u" using get_by_id[OF assms(1,2,5,6) refl] .
  with assms(7) obtain h where loc: "us_provider u = ''local''" "bc_compare (au_bcrypt A) (us_password_hash u) old"
    and h: "bc_generate (au_bcrypt A) salt bcrypt_cost new = Inr h"
    and upd: "update_user (au_store A) (u\<lparr>us_password_hash := h, us_must_change_pwd := False\<rparr>) d = (None, d1)"
    by (auto simp: change_password_def hash_password_def split: if_splits sum.splits)
  define u1 where "u1 = u\<lparr>us_password_hash := h, us_must_change_pwd := False\<rparr>"
  have rows: "users d1 = map (\<lambda>x. if us_id x = us_id u then u1 else x) (users d)"
    using table_saveD[OF assms(1) upd[unfolded update_user_def]] assms(6) by (simp add: u1_def)
  have same: "x = u" if "x \<in> set (users d)" "us_id x = us_id u" for x
    using unique_by_key[OF assms(5) that(1) assms(6)] that(2) by simp
  have "map us_username (users d1) = map us_username (users d)"
    using same by (auto simp: rows u1_def)
  then have dist: "distinct (map us_username (users d1))" using assms(4) by simp
  have in1: "u1 \<in> set (users d1)" using assms(6) by (auto simp: rows)
  have get: "get_user_by_username (au_store A) (us_username u) d1 = Inr u1"
    using get_by_username[OF assms(1,2) dist in1] by (simp add: u1_def)
  have "{v \<in> set (users d1). us_id v \<noteq> us_id u} = {v \<in> set (users d). us_id v \<noteq> us_id u}"
    by (auto simp: rows u1_def image_iff split: if_splits)
  moreover have "login_local A t (us_username u) old d1 = Inl err_invalid_credentials"
    using get assms(3)[OF h, of old] assms(8) loc(1) by (simp add: login_local_def u1_def)
  moreover have "login_local A t (us_username u) new d1 = (case generate_token A t u1 of Inl e \<Rightarrow> Inl e | Inr tok \<Rightarrow> Inr (u1, tok))"
    using get assms(3)[OF h, of new] loc(1) unfolding login_local_def by (simp add: u1_def[symmetric]) (simp add: u1_def)
  moreover have "us_id u1 = us_id u \<and> us_role u1 = us_role u \<and> \<not> us_must_change_pwd u1" by (simp add: u1_def)
  ultimately show ?thesis using loc by blast
qed

theorem password_change_witness:
  "let d1 = snd (change_password demo_auth ''salt'' 2 ''pw'' ''new'' demo_db) in
   login_local demo_auth 0 ''eve'' ''pw'' d1 = Inl err_invalid_credentials \<and> is_ok (login_local demo_auth 0 ''eve'' ''new'' d1)"
proof -
  let ?u = "demo_user 2 ''eve'' ''viewer''"
  have bc: "bc_compare (au_bcrypt demo_auth) h q \<longleftrightarrow> q = p" if "bc_generate (au_bcrypt demo_auth) salt cost p = Inr h" for salt cost p h q
    using that by (auto simp: demo_bcrypt_def split: if_splits)
  have "fst (change_password demo_auth ''salt'' 2 ''pw'' ''new'' demo_db) = None" by code_simp
  then obtain d1 where c: "change_password demo_auth ''salt'' 2 ''pw'' ''new'' demo_db = (None, d1)" by (metis prod.collapse)
  have u: "distinct (map us_username (md_users demo_db))" "distinct (map us_id (md_users demo_db))"
    "?u \<in> set (md_users demo_db)" "us_id ?u = 2" "us_username ?u = ''eve''"
    by (simp_all add: demo_db_def demo_user_def zero_user_def)
  have "login_local demo_auth 0 (us_username ?u) ''pw'' d1 = Inl err_invalid_credentials"
  proof -
    have "us_provider ?u = ''local'' \<and> bc_compare (au_bcrypt demo_auth) (us_password_hash ?u) ''pw'' \<and>
      {v \<in> set (md_users d1). us_id v \<noteq> us_id ?u} = {v \<in> set (md_users demo_db). us_id v \<noteq> us_id ?u} \<and>
      login_local demo_auth 0 (us_username ?u) ''pw'' d1 = Inl err_invalid_credentials \<and>
      (\<exists>u1. login_local demo_auth 0 (us_username ?u) ''new'' d1 = (case generate_token demo_auth 0 u1 of Inl e \<Rightarrow> Inl e | Inr tok \<Rightarrow> Inr (u1, tok)) \<and>
         us_id u1 = us_id ?u \<and> us_role u1 = us_role ?u \<and> \<not> us_must_change_pwd u1)"
      by (rule password_change[where users = md_users and d = demo_db, OF _ _ bc])
        (use mem_users u c in simp_all)
    then show ?thesis by blast
  qed
  moreover have "is_ok (login_local demo_auth 0 ''eve'' ''new'' (snd (change_password demo_auth ''salt'' 2 ''pw'' ''new'' demo_db)))"
    by code_simp
  ultimately show ?thesis using u(5) c by (simp add: Let_def)
qed

text \<open>C16. Revocation is final: once a key was revoked, no key that is created, revoked or used afterwards
  makes the gate accept it again; every request that presents it is answered 401 and changes nothing.\<close>

theorem revoked_key_refused:
  assumes "sql_ok (st_keys (au_store A)) keys ak_id ak_key_hash ksame" "distinct (map ak_key_hash (keys d))"
    and "k \<in> set (keys d)" "ak_key_hash k = hash_api_key A tok" "delete_api_key (au_store A) (ak_id k) d = (None, d1)"
    and "\<not> is_public_route (rq_path rq)" "rq_header rq ''Authorization'' = ''Bearer '' @ tok"
  shows "let d2 = fold (run_key_op A) xs d1
    in auth_gate A now rq d2 = (Inl (http_error 401 (json_error ''invalid API key'')), d2)"
proof -
  have rows: "keys d1 = map (\<lambda>x. if ak_id x = ak_id k then x\<lparr>ak_revoked := True\<rparr> else x) (keys d)"
    using table_updateD[OF assms(1) assms(5)[unfolded delete_api_key_def]] .
  have "ak_revoked x" if "x \<in> set (keys d1)" "ak_key_hash x = hash_api_key A tok" for x
  proof -
    from that(1) obtain y where y: "y \<in> set (keys d)" "x = (if ak_id y = ak_id k then y\<lparr>ak_revoked := True\<rparr> else y)"
      unfolding rows by auto
    with that(2) have "ak_key_hash y = ak_key_hash k" by (simp add: assms(4) split: if_splits)
    then have "y = k" using unique_by_key[OF assms(2) y(1) assms(3)] by simp
    with y(2) show ?thesis by simp
  qed
  moreover have "hash_api_key A tok \<in> ak_key_hash ` set (keys d1)"
  proof -
    have "(if ak_id k = ak_id k then k\<lparr>ak_revoked := True\<rparr> else k) \<in> set (keys d1)"
      unfolding rows set_map using assms(3) by (rule imageI)
    then show ?thesis using assms(4) by (simp add: rev_image_eqI)
  qed
  ultimately have "all_revoked (hash_api_key A tok) (keys d1)" by (auto simp: all_revoked_def)
  from all_revoked_refused[OF assms(1) all_revoked_run[OF assms(1) this, of xs], of now]
  obtain e where "validate_api_key A now tok (fold (run_key_op A) xs d1) = (Inl e, fold (run_key_op A) xs d1)" by blast
  moreover have "trim_prefix (rq_header rq ''Authorization'') ''Bearer '' = tok"
    unfolding assms(7) by (rule trim_prefix_append)
  moreover have "has_prefix (rq_header rq ''Authorization'') ''Bearer ''" "rq_header rq ''Authorization'' \<noteq> []"
    by (simp_all add: assms(7) has_prefix_def)
  ultimately show ?thesis using assms(6) by (simp add: auth_gate_def Let_def)
qed

theorem revoked_key_refused_witness:
  "fst (auth_gate demo_auth 50 (demo_req ''GET'' ''/api/pods'' ''Bearer k8ops_1'' None)
      (fold (run_key_op demo_auth) [Use_key 40 ''k8ops_2'', Add_key (demo_key 0 2 ''k8ops_1''), Revoke_key 2]
        (snd (delete_api_key mem_store 1 demo_db)))) =
    Inl (http_error 401 (json_error ''invalid API key''))"
proof -
  let ?rq = "demo_req ''GET'' ''/api/pods'' ''Bearer k8ops_1'' None" and ?k = "demo_key 1 2 ''k8ops_1''"
  have "let d2 = fold (run_key_op demo_auth) [Use_key 40 ''k8ops_2'', Add_key (demo_key 0 2 ''k8ops_1''), Revoke_key 2]
        (snd (delete_api_key mem_store 1 demo_db))
    in auth_gate demo_auth 50 ?rq d2 = (Inl (http_error 401 (json_error ''invalid API key'')), d2)"
  proof (rule revoked_key_refused[where keys = md_keys and d = demo_db and k = ?k and tok = "''k8ops_1''"])
    show "sql_ok (st_keys (au_store demo_auth)) md_keys ak_id ak_key_hash (\<lambda>r r1. r1 = r\<lparr>ak_id := ak_id r1\<rparr>)"
      using mem_keys(1) by simp
    show "distinct (map ak_key_hash (md_keys demo_db))" by code_simp
    show "\<not> is_public_route (rq_path ?rq)" by code_simp
    show "delete_api_key (au_store demo_auth) (ak_id ?k) demo_db = (None, snd (delete_api_key mem_store 1 demo_db))"
      by (simp add: delete_api_key_def mem_store_def mem_table_def demo_key_def)
  qed (simp_all add: demo_db_def demo_key_def demo_req_def)
  then show ?thesis by (simp add: Let_def)
qed

text \<open>C17. Two accounts of an external provider that prefer the same name: the first one to log in gets it,
  and the second one never gets an account, because the search for a free name stops at the taken
  name, taking the first account for its own. Its login fails and changes nothing.\<close>

theorem second_subject_locked_out:
  assumes "sql_ok (st_users (au_store A)) users us_id us_username usame" "table_up (st_users (au_store A)) users us_username"
    and "distinct (map us_username (users d))" "u \<in> set (users d)" "us_username u = name" "us_provider u = key"
    and "\<And>v. v \<in> set (users d) \<Longrightarrow> us_provider v = key \<Longrightarrow> us_provider_id v \<noteq> pid"
  shows "\<exists>e d1. upsert_oidc_user A now key pid name email display d = (Inl (''failed to create user: '' @ e), d1) \<and> users d1 = users d"
proof -
  have gone: "\<exists>e. get_user_by_provider (au_store A) key pid d = Inl e"
    unfolding get_user_by_provider_def using assms(7) by (intro table_first_none[OF assms(1)]) auto
  have taken: "unique_username A name key d = name"
    using unique_username_taken_by_self get_by_username[OF assms(1-5)] assms(5,6) by metis
  have "\<exists>e d1. create_user (au_store A) w d = (Inl e, d1) \<and> users d1 = users d" if "us_username w = name" for w
  proof (cases "t_create (st_users (au_store A)) w d")
    case (Pair r d1)
    have "name \<in> us_username ` set (users d)" using assms(4,5) by blast
    with that Pair table_createD[OF assms(1), of w d] obtain e where "r = Inl e" by (cases r) auto
    with Pair table_create_failD[OF assms(1)] show ?thesis unfolding create_user_def by metis
  qed
  from this[of "zero_user\<lparr>us_username := name, us_email := email, us_display_name := display,
      us_role := default_role A, us_provider := key, us_provider_id := pid\<rparr>"]
  show ?thesis using gone by (auto simp: upsert_oidc_user_def taken)
qed

theorem second_subject_locked_out_witness:
  "\<exists>e d1. upsert_oidc_user demo_auth 0 ''oidc:sso'' ''sub-2'' ''sam'' [] [] (snd (upsert_oidc_user demo_auth 0 ''oidc:sso'' ''sub-1'' ''sam'' [] [] demo_db)) =
     (Inl (''failed to create user: '' @ e), d1)"
proof -
  let ?d = "snd (upsert_oidc_user demo_auth 0 ''oidc:sso'' ''sub-1'' ''sam'' [] [] demo_db)"
  let ?u = "zero_user\<lparr>us_id := 3, us_username := ''sam'', us_role := ''viewer'', us_provider := ''oidc:sso'', us_provider_id := ''sub-1''\<rparr>"
  have d: "md_users ?d = [demo_user 1 ''admin'' ''admin'', demo_user 2 ''eve'' ''viewer'', ?u]" by code_simp
  have "\<exists>e d1. upsert_oidc_user demo_auth 0 ''oidc:sso'' ''sub-2'' ''sam'' [] [] ?d = (Inl (''failed to create user: '' @ e), d1) \<and>
      md_users d1 = md_users ?d"
  proof (rule second_subject_locked_out[where u = ?u])
    show "sql_ok (st_users (au_store demo_auth)) md_users us_id us_username (\<lambda>r r1. r1 = r\<lparr>us_id := us_id r1\<rparr>)"
      "table_up (st_users (au_store demo_auth)) md_users us_username" using mem_users by simp_all
  qed (auto simp: d demo_user_def zero_user_def)
  then show ?thesis by blast
qed

end
