(* ===== verification/Api_Types.thy ===== *)
theory Api_Types
  imports Go_Prelude
begin

text \<open>
  The custom resources of api/v1alpha1, field for field. Optional pointers are options, maps of
  labels are maps, and enumerations are the strings the API server admits, because the code
  compares strings. The metadata every object embeds is \<open>object_meta\<close>, with the fields the
  code reads: a deletion timestamp that is not zero is \<open>om_deleting\<close>.
\<close>

record object_meta =
  om_name :: string
  om_generate_name :: string
  om_namespace :: string
  om_labels :: "string \<rightharpoonup> string"
  om_finalizers :: "string list"
  om_deleting :: bool
  om_created :: time

section \<open>Cluster configuration\<close>

record secret_key_selector =
  sks_name :: string
  sks_key :: string

record provider_spec =
  ps_type :: string
  ps_model :: string
  ps_api_key_secret_ref :: "secret_key_selector option"
  ps_endpoint :: string
  ps_max_tokens :: int
  ps_temperature :: rat

record auto_remediation_spec =
  ar_enabled :: bool
  max_risk_level :: string
  namespace_allow_list :: "string list"
  namespace_deny_list :: "string list"
  ar_dry_run :: bool
  max_concurrent_remediations :: int

record resource_ref =
  rr_api_version :: string
  rr_kind :: string
  rr_namespace :: string
  rr_name :: string

record safety_spec =
  allowed_operations :: "string list"
  denied_operations :: "string list"
  protected_resources :: "resource_ref list"
  max_actions_per_remediation :: int

record slack_notification =
  sn_webhook_secret_ref :: "secret_key_selector option"
  sn_channel :: string

record notification_spec =
  ns_slack :: "slack_notification option"
  ns_webhook_url :: string
  ns_prometheus_alerting :: bool

record analysis_spec =
  as_default_depth :: string
  as_max_concurrency :: int
  as_timeout :: string
  as_include_logs :: bool
  as_include_events :: bool
  as_include_metrics :: bool

record k8ops_config_spec =
  kcs_provider :: provider_spec
  kcs_analysis :: analysis_spec
  kcs_auto_remediation :: auto_remediation_spec
  kcs_notifications :: notification_spec
  kcs_safety :: safety_spec

record k8ops_config =
  kc_meta :: object_meta
  kc_spec :: k8ops_config_spec

section \<open>Remediation plans\<close>

record remediation_action =
  ra_type :: string
  ra_description :: string
  ra_risk :: string
  ra_target :: "resource_ref option"
  ra_patch :: string
  ra_replicas :: "int option"
  ra_manifest :: string
  ra_command :: string
  ra_timeout :: string

record remediation_plan_spec =
  rps_diagnostic_ref :: string
  rps_actions :: "remediation_action list"
  rps_mode :: string
  rps_rollback_on_failure :: bool

record action_result =
  ares_index :: int
  ares_status :: string
  ares_message :: string
  ares_executed_at :: "time option"
  ares_rollback_data :: string

record remediation_plan_status =
  rst_phase :: string
  rst_results :: "action_result list"
  rst_started_at :: "time option"
  rst_completed_at :: "time option"
  rst_summary :: string
  rst_approved_by :: string

record remediation_plan =
  rp_meta :: object_meta
  rp_spec :: remediation_plan_spec
  rp_status :: remediation_plan_status

section \<open>Diagnostic reports\<close>

record diagnostic_trigger =
  dt_type :: string
  dt_resource_ref :: "resource_ref option"
  dt_event_message :: string
  dt_reason :: string

record evidence =
  ev_type :: string
  ev_source :: string
  ev_message :: string
  ev_timestamp :: "time option"

record suggested_action =
  sa_type :: string
  sa_description :: string
  sa_risk :: string
  sa_target :: "resource_ref option"
  sa_patch :: string
  sa_command :: string

record finding =
  fi_severity :: string
  fi_category :: string
  fi_description :: string
  fi_root_cause :: string
  fi_evidence :: "evidence list"
  fi_suggested_actions :: "suggested_action list"

record diagnostic_report_spec =
  drs_trigger :: diagnostic_trigger
  drs_analysis :: "analysis_spec option"
  drs_resource_scope :: "resource_ref option"

record agent_step =
  as_step :: int
  as_thought :: string
  as_action :: string
  as_action_input :: string
  as_observation :: string

record diagnostic_report_status =
  dst_phase :: string
  dst_findings :: "finding list"
  dst_summary :: string
  dst_confidence :: rat
  dst_ai_model :: string
  dst_analyzed_at :: "time option"
  dst_error :: string
  dst_agent_trace :: "agent_step list"

record diagnostic_report =
  dr_meta :: object_meta
  dr_spec :: diagnostic_report_spec
  dr_status :: diagnostic_report_status

section \<open>Optimization suggestions\<close>

record suggestion =
  sg_type :: string
  sg_target :: "resource_ref option"
  sg_description :: string
  sg_current :: "string \<rightharpoonup> string"
  sg_recommended :: "string \<rightharpoonup> string"
  sg_estimated_savings :: string
  sg_confidence :: rat
  sg_priority :: string
  sg_risk :: string

record optimization_scope =
  os_type :: string
  os_namespace :: string
  os_workload :: string

record optimization_spec =
  osp_scope :: optimization_scope
  osp_categories :: "string list"
  osp_window :: string

record optimization_status =
  ost_phase :: string
  ost_suggestions :: "suggestion list"
  ost_summary :: string
  ost_total_estimated_savings :: string
  ost_analyzed_at :: "time option"

record optimization_suggestion =
  op_meta :: object_meta
  op_spec :: optimization_spec
  op_status :: optimization_status

text \<open>A report, plan or suggestion without a phase is pending to the dashboard.\<close>

definition phase_or_pending :: "string \<Rightarrow> string" where
  "phase_or_pending phase = (if phase = [] then ''Pending'' else phase)"

section \<open>Errors of the Kubernetes API\<close>

text \<open>The classes of API errors the code tests for; the string is the error's text.\<close>

datatype api_reason = NotFound | AlreadyExists | OtherReason

record api_error =
  ae_reason :: api_reason
  ae_message :: string

end
