(* ===== verification/Controller.thy ===== *)
theory Controller
  imports Api_Types
begin

text \<open>
  What the three reconcilers share: the result of a reconciliation, the client of the API server
  as a parameter record, and the contract of the phase guard they all begin with.

  \<open>'c\<close> is the state of the cluster the API server holds. An update returns the stored object,
  because the client decodes the response into the object it was given.
\<close>

type_synonym ns_name = "string \<times> string"

record ctrl_result =
  requeue :: bool
  requeue_after :: duration

definition no_requeue :: ctrl_result where
  "no_requeue = \<lparr>requeue = False, requeue_after = 0\<rparr>"

definition requeue_now :: ctrl_result where
  "requeue_now = \<lparr>requeue = True, requeue_after = 0\<rparr>"

text \<open>A reconciliation returns a result and an error, or panics.\<close>

datatype outcome = Returned ctrl_result "api_error option" | Panicked

record ('p, 'c) api_client =
  ac_get :: "ns_name \<Rightarrow> 'c \<Rightarrow> api_error + 'p"
  ac_update :: "'p \<Rightarrow> 'c \<Rightarrow> (api_error + 'p) \<times> 'c"
  ac_status_update :: "'p \<Rightarrow> 'c \<Rightarrow> (api_error + 'p) \<times> 'c"

definition err_of :: "(api_error + 'p) \<Rightarrow> api_error option" where
  "err_of r = (case r of Inl e \<Rightarrow> Some e | Inr _ \<Rightarrow> None)"

text \<open>\<open>return ctrl.Result{}, r.Status().Update(ctx, obj)\<close>.\<close>

definition finish :: "('p, 'c) api_client \<Rightarrow> 'p \<Rightarrow> 'c \<Rightarrow> outcome \<times> 'c" where
  "finish A p c = (let (r, c1) = ac_status_update A p c in (Returned no_requeue (err_of r), c1))"

definition remove_finalizer :: "string \<Rightarrow> object_meta \<Rightarrow> object_meta" where
  "remove_finalizer f m = m\<lparr>om_finalizers := filter (\<lambda>g. g \<noteq> f) (om_finalizers m)\<rparr>"

definition awaits :: "string \<Rightarrow> bool" where
  "awaits phase \<longleftrightarrow> phase = [] \<or> phase = ''Pending''"

section \<open>The phase guard\<close>

text \<open>
  A reconciler is guarded when it leaves the cluster alone for an object it does not find or
  finds in a phase it does not start from. Then, whatever else happens to the cluster, its
  invocations on such an object can be struck from the schedule.
\<close>

datatype 'c step = Reconcile | Other "'c \<Rightarrow> 'c"

fun do_step :: "('c \<Rightarrow> outcome \<times> 'c) \<Rightarrow> 'c step \<Rightarrow> 'c \<Rightarrow> 'c" where
  "do_step reconcile Reconcile c = snd (reconcile c)"
| "do_step reconcile (Other f) c = f c"

fun others :: "'c step list \<Rightarrow> ('c \<Rightarrow> 'c) list" where
  "others [] = []"
| "others (Reconcile # ss) = others ss"
| "others (Other f # ss) = f # others ss"

locale phase_guarded =
  fixes look :: "'c \<Rightarrow> (api_error + 'p)" and idle :: "'p \<Rightarrow> bool"
    and reconcile :: "'c \<Rightarrow> outcome \<times> 'c"
  assumes missing: "look c = Inl e \<Longrightarrow> snd (reconcile c) = c"
    and guard: "look c = Inr p \<Longrightarrow> idle p \<Longrightarrow> reconcile c = (Returned no_requeue None, c)"
begin

definition at_rest :: "'c \<Rightarrow> bool" where
  "at_rest c \<longleftrightarrow> (case look c of Inl _ \<Rightarrow> True | Inr p \<Rightarrow> idle p)"

lemma at_rest_reconcile: "at_rest c \<Longrightarrow> snd (reconcile c) = c"
  by (cases "look c") (auto simp: at_rest_def missing guard)

lemma at_rest_again: "at_rest c \<Longrightarrow> ((\<lambda>c. snd (reconcile c)) ^^ k) c = c"
  by (induction k) (auto simp: at_rest_reconcile)

lemma at_rest_schedule:
  assumes "at_rest c" "\<And>f c. f \<in> set (others ss) \<Longrightarrow> at_rest c \<Longrightarrow> at_rest (f c)"
  shows "fold (do_step reconcile) ss c = fold (\<lambda>f. f) (others ss) c"
  using assms
proof (induction ss arbitrary: c rule: others.induct)
  case (3 f ss)
  then show ?case by simp
qed (auto simp: at_rest_reconcile)

end

end
