(* ===== verification/Safety.thy ===== *)
theory Safety
  imports Api_Types
begin

text \<open>
  Package \<open>safety\<close> (internal/safety/checker.go): the checks an action must pass before the
  remediation controller executes it. A checker whose configuration is a nil pointer has \<open>None\<close>.
\<close>

section \<open>The checker\<close>

definition risk_levels :: "string \<rightharpoonup> int" where
  "risk_levels = [''low'' \<mapsto> 1, ''medium'' \<mapsto> 2, ''high'' \<mapsto> 3, ''critical'' \<mapsto> 4]"

text \<open>A missing key of a Go map reads as zero.\<close>

definition risk_rank :: "string \<Rightarrow> int" where
  "risk_rank s = (case risk_levels s of Some n \<Rightarrow> n | None \<Rightarrow> 0)"

record checker =
  ck_config :: "safety_spec option"
  ck_auto :: "auto_remediation_spec option"

definition new_checker :: "safety_spec option \<Rightarrow> auto_remediation_spec option \<Rightarrow> checker" where
  "new_checker safety auto = \<lparr>ck_config = safety, ck_auto = auto\<rparr>"

record check_result =
  cr_allowed :: bool
  cr_reason :: string
  cr_risk_level :: string

definition deny :: "string \<Rightarrow> string \<Rightarrow> check_result" where
  "deny reason risk = \<lparr>cr_allowed = False, cr_reason = reason, cr_risk_level = risk\<rparr>"

definition action_risk :: "remediation_action \<Rightarrow> string" where
  "action_risk a = (let risk = to_lower (ra_risk a) in if risk = [] then ''medium'' else risk)"

text \<open>The stages of \<open>CheckAction\<close>, each the reason of its refusal or nothing.\<close>

definition check_denied :: "checker \<Rightarrow> remediation_action \<Rightarrow> string option" where
  "check_denied c a = (case ck_config c of None \<Rightarrow> None | Some s \<Rightarrow>
     if \<exists>d \<in> set (denied_operations s). equal_fold d (ra_type a)
     then Some (''operation '' @ ra_type a @ '' is in the denied list'') else None)"

definition check_allowed :: "checker \<Rightarrow> remediation_action \<Rightarrow> string option" where
  "check_allowed c a = (case ck_config c of None \<Rightarrow> None | Some s \<Rightarrow>
     if allowed_operations s \<noteq> [] \<and> \<not> (\<exists>d \<in> set (allowed_operations s). equal_fold d (ra_type a))
     then Some (''operation '' @ ra_type a @ '' is not in the allowed list'') else None)"

definition check_namespace :: "checker \<Rightarrow> remediation_action \<Rightarrow> string option" where
  "check_namespace c a = (case (ck_auto c, ra_target a) of
     (Some auto, Some t) \<Rightarrow>
       if rr_namespace t = [] then None
       else if rr_namespace t \<in> set (namespace_deny_list auto)
       then Some (''namespace '' @ rr_namespace t @ '' is in deny list'')
       else if namespace_allow_list auto \<noteq> [] \<and> rr_namespace t \<notin> set (namespace_allow_list auto)
       then Some (''namespace '' @ rr_namespace t @ '' not in allow list'')
       else None
   | _ \<Rightarrow> None)"

definition max_risk :: "checker \<Rightarrow> string" where
  "max_risk c = (case ck_auto c of
     Some auto \<Rightarrow> if max_risk_level auto \<noteq> [] then to_lower (max_risk_level auto) else ''medium''
   | None \<Rightarrow> ''medium'')"

definition check_risk :: "checker \<Rightarrow> remediation_action \<Rightarrow> string option" where
  "check_risk c a = (if risk_rank (max_risk c) < risk_rank (action_risk a)
     then Some (''risk level '' @ action_risk a @ '' exceeds max allowed '' @ max_risk c) else None)"

definition protects :: "resource_ref \<Rightarrow> resource_ref \<Rightarrow> bool" where
  "protects p t \<longleftrightarrow> (rr_name p = [] \<or> rr_name p = rr_name t) \<and>
     (rr_kind p = [] \<or> equal_fold (rr_kind p) (rr_kind t)) \<and>
     (rr_namespace p = [] \<or> rr_namespace p = rr_namespace t)"

definition check_protected :: "checker \<Rightarrow> remediation_action \<Rightarrow> string option" where
  "check_protected c a = (case (ck_config c, ra_target a) of
     (Some s, Some t) \<Rightarrow> if \<exists>p \<in> set (protected_resources s). protects p t
       then Some (''resource '' @ rr_kind t @ ''/'' @ rr_name t @ '' is protected'') else None
   | _ \<Rightarrow> None)"

definition check_action :: "checker \<Rightarrow> remediation_action \<Rightarrow> check_result" where
  "check_action c a = (let risk = action_risk a in
     case check_denied c a of Some r \<Rightarrow> deny r risk | None \<Rightarrow>
     (case check_allowed c a of Some r \<Rightarrow> deny r risk | None \<Rightarrow>
     (case check_namespace c a of Some r \<Rightarrow> deny r risk | None \<Rightarrow>
     (case check_risk c a of Some r \<Rightarrow> deny r risk | None \<Rightarrow>
     (case check_protected c a of Some r \<Rightarrow> deny r risk | None \<Rightarrow>
        \<lparr>cr_allowed = True, cr_reason = [], cr_risk_level = risk\<rparr>)))))"

definition risk_compare :: "string \<Rightarrow> string \<Rightarrow> bool" where
  "risk_compare l1 l2 = (risk_rank (to_lower l2) \<le> risk_rank (to_lower l1))"

section \<open>What the checker promises\<close>

text \<open>
  The policy the configuration states, without reference to the order of the checks: an action
  is permitted when no rule of the configuration excludes it.
\<close>

definition policy_permits :: "checker \<Rightarrow> remediation_action \<Rightarrow> bool" where
  "policy_permits c a \<longleftrightarrow>
     (\<forall>s. ck_config c = Some s \<longrightarrow>
        \<not> (\<exists>d \<in> set (denied_operations s). equal_fold d (ra_type a)) \<and>
        (allowed_operations s = [] \<or> (\<exists>d \<in> set (allowed_operations s). equal_fold d (ra_type a))) \<and>
        (\<forall>t. ra_target a = Some t \<longrightarrow> \<not> (\<exists>p \<in> set (protected_resources s). protects p t))) \<and>
     (\<forall>auto t. ck_auto c = Some auto \<longrightarrow> ra_target a = Some t \<longrightarrow> rr_namespace t \<noteq> [] \<longrightarrow>
        rr_namespace t \<notin> set (namespace_deny_list auto) \<and>
        (namespace_allow_list auto = [] \<or> rr_namespace t \<in> set (namespace_allow_list auto))) \<and>
     risk_rank (action_risk a) \<le> risk_rank (max_risk c)"

lemmas check_stages = check_denied_def check_allowed_def check_namespace_def check_risk_def
  check_protected_def

lemma check_action_allowed_iff:
  "cr_allowed (check_action c a) \<longleftrightarrow> check_denied c a = None \<and> check_allowed c a = None \<and>
     check_namespace c a = None \<and> check_risk c a = None \<and> check_protected c a = None"
  by (auto simp: check_action_def Let_def deny_def split: option.splits)

lemma stages_permit:
  "check_denied c a = None \<and> check_allowed c a = None \<and> check_namespace c a = None \<and>
   check_risk c a = None \<and> check_protected c a = None \<longleftrightarrow> policy_permits c a"
  unfolding policy_permits_def check_stages
  by (cases "ck_config c"; cases "ck_auto c"; cases "ra_target a") (auto simp: not_less)

lemma risk_rank_range: "0 \<le> risk_rank s \<and> risk_rank s \<le> 4"
  by (simp add: risk_rank_def risk_levels_def)

lemma risk_rank_unknown: "s \<notin> {''low'', ''medium'', ''high'', ''critical''} \<Longrightarrow> risk_rank s = 0"
  by (auto simp: risk_rank_def risk_levels_def)

end
