(* ===== verification/Go_Float.thy ===== *)
theory Go_Float
  imports Go_Prelude "HOL-Library.Log_Nat"
begin

text \<open>
  Go's \<open>float64\<close>: rational numbers rounded to the nearest value with a 53-bit significand,
  ties to even, with gradual underflow below \<open>2 powi (-1022)\<close>. Every arithmetic operation
  of the source is the exact operation followed by \<open>f64\<close>. The values met in the
  modelled code stay far below the overflow threshold, so infinities and NaN have no
  representation here.
\<close>

definition rne :: "rat \<Rightarrow> int" where
  "rne x = (let f = \<lfloor>x\<rfloor>; d = x - of_int f in
     if d < 1 / 2 then f else if 1 / 2 < d then f + 1 else if even f then f else f + 1)"

definition fexp :: "rat \<Rightarrow> int" where
  "fexp x = (let (n, d) = quotient_of x; k = bitlen n - bitlen d in
     if 2 powi k \<le> x then k else k - 1)"

definition ulp :: "rat \<Rightarrow> rat" where
  "ulp x = 2 powi (max (fexp \<bar>x\<bar>) (- 1022) - 52)"

definition f64 :: "rat \<Rightarrow> rat" where
  "f64 x = (if x = 0 then 0 else of_int (rne (x / ulp x)) * ulp x)"

definition f64_of_int :: "int \<Rightarrow> rat" where "f64_of_int i = f64 (of_int i)"
definition f64_add :: "rat \<Rightarrow> rat \<Rightarrow> rat" where "f64_add x y = f64 (x + y)"
definition f64_sub :: "rat \<Rightarrow> rat \<Rightarrow> rat" where "f64_sub x y = f64 (x - y)"
definition f64_mul :: "rat \<Rightarrow> rat \<Rightarrow> rat" where "f64_mul x y = f64 (x * y)"
definition f64_div :: "rat \<Rightarrow> rat \<Rightarrow> rat" where "f64_div x y = f64 (x / y)"

text \<open>
  Conversion to a 64-bit integer truncates towards zero. Out of range the language leaves the
  result to the implementation; on amd64 it is the smallest integer.
\<close>

definition int64_of_f64 :: "rat \<Rightarrow> int" where
  "int64_of_f64 x = (let i = (if 0 \<le> x then \<lfloor>x\<rfloor> else \<lceil>x\<rceil>) in
     if min_int64 \<le> i \<and> i \<le> max_int64 then i else min_int64)"

text \<open>\<open>Duration.Seconds\<close>: whole seconds plus the fraction.\<close>

definition dur_seconds :: "duration \<Rightarrow> rat" where
  "dur_seconds d = f64_add (f64_of_int (go_div d second))
     (f64_div (f64_of_int (go_mod d second)) 1000000000)"

definition dur_hours :: "duration \<Rightarrow> rat" where
  "dur_hours d = f64_add (f64_of_int (go_div d (60 * minute))) (f64_div (f64_of_int (go_mod d (60 * minute))) (f64_of_int (60 * minute)))"

definition dur_minutes :: "duration \<Rightarrow> rat" where
  "dur_minutes d = f64_add (f64_of_int (go_div d minute)) (f64_div (f64_of_int (go_mod d minute)) (f64_of_int minute))"

text \<open>\<open>fmt\<close> with the verbs \<open>%.0f\<close> and \<open>%.1f\<close>: the exact value, rounded to even.\<close>

definition fixed0 :: "rat \<Rightarrow> string" where
  "fixed0 x = (if x < 0 then ''-'' @ show_int (rne (- x)) else show_int (rne x))"

definition fixed1 :: "rat \<Rightarrow> string" where
  "fixed1 x = (let k = rne (\<bar>x\<bar> * 10) in (if x < 0 then ''-'' else []) @ show_int (k div 10) @ ''.'' @ show_int (k mod 10))"

section \<open>Rounding to an integer\<close>

lemma rne_bounds: "x - 1 / 2 \<le> of_int (rne x) \<and> of_int (rne x) \<le> x + 1 / 2"
proof -
  have "of_int \<lfloor>x\<rfloor> \<le> x" "x < of_int \<lfloor>x\<rfloor> + 1"
    by linarith+
  then show ?thesis
    unfolding rne_def Let_def by (auto split: if_splits simp: field_simps; linarith)
qed

lemma rne_of_int [simp]: "rne (of_int i) = i"
  by (simp add: rne_def)

lemma rne_mono:
  assumes "x \<le> y" shows "rne x \<le> rne y"
proof (cases "\<lfloor>x\<rfloor> = \<lfloor>y\<rfloor>")
  case True
  with assms show ?thesis by (auto simp: rne_def Let_def)
next
  case False
  with assms have "\<lfloor>x\<rfloor> + 1 \<le> \<lfloor>y\<rfloor>"
    using floor_mono[OF assms] by linarith
  then show ?thesis by (auto simp: rne_def Let_def)
qed

lemma rne_ge: "of_int i \<le> x \<Longrightarrow> i \<le> rne x"
  using rne_mono[of "of_int i" x] by simp

lemma rne_le: "x \<le> of_int i \<Longrightarrow> rne x \<le> i"
  using rne_mono[of x "of_int i"] by simp

section \<open>Exponents\<close>

lemma two_powi_pos [simp]: "(0 :: rat) < 2 powi k"
  by simp

lemma two_powi_add: "(2 :: rat) powi (a + b) = 2 powi a * 2 powi b"
  by (simp add: power_int_add)

lemma two_powi_diff_nat: "e \<le> k \<Longrightarrow> (2 :: rat) powi k / 2 powi e = of_int (2 ^ nat (k - e))"
  by (subst power_int_diff [symmetric]) (simp_all add: power_int_def)

lemma two_powi_mono: "a \<le> b \<Longrightarrow> (2 :: rat) powi a \<le> 2 powi b"
  by (simp add: power_int_increasing)

lemma two_powi_less: "(2 :: rat) powi a < 2 powi b \<Longrightarrow> a < b"
  by (meson leI not_le two_powi_mono)

lemma bitlen_pos_bounds:
  assumes "0 < n"
  shows "2 powi (bitlen n - 1) \<le> (of_int n :: rat) \<and> (of_int n :: rat) < 2 powi bitlen n"
proof -
  have b: "2 ^ nat (bitlen n - 1) \<le> n \<and> n < 2 ^ nat (bitlen n)" and p: "0 < bitlen n"
    using assms bitlen_bounds[of n] bitlen_nonneg[of n] bitlen_eq_zero_iff[of n] by auto
  have "(2 :: rat) powi (bitlen n - 1) = of_int (2 ^ nat (bitlen n - 1))"
    using p by (simp add: power_int_def)
  moreover have "(2 :: rat) powi bitlen n = of_int (2 ^ nat (bitlen n))"
    using p by (simp add: power_int_def)
  ultimately show ?thesis using b by (metis of_int_le_iff of_int_less_iff)
qed

lemma fexp_bounds:
  assumes "0 < x"
  shows "2 powi fexp x \<le> x \<and> x < 2 powi (fexp x + 1)"
proof -
  obtain n d where q: "quotient_of x = (n, d)" by (cases "quotient_of x")
  then have d: "0 < d" and x: "x = of_int n / of_int d"
    using quotient_of_denom_pos quotient_of_div by blast+
  have n: "0 < n" using assms d x by (simp add: zero_less_divide_iff)
  have nb: "2 powi (bitlen n - 1) \<le> (of_int n :: rat)" "(of_int n :: rat) < 2 powi bitlen n"
    and db: "2 powi (bitlen d - 1) \<le> (of_int d :: rat)" "(of_int d :: rat) < 2 powi bitlen d"
    using bitlen_pos_bounds n d by blast+
  let ?k = "bitlen n - bitlen d"
  have up: "x < 2 powi (?k + 1)"
  proof -
    have "(of_int n :: rat) < 2 powi (?k + 1) * 2 powi (bitlen d - 1)"
      using nb(2) by (simp flip: two_powi_add)
    also have "\<dots> \<le> 2 powi (?k + 1) * of_int d"
      using db(1) by (intro mult_left_mono) auto
    finally show ?thesis using d x by (simp add: divide_less_eq)
  qed
  have lo: "2 powi (?k - 1) \<le> x"
  proof -
    have "2 powi (?k - 1) * (of_int d :: rat) \<le> 2 powi (?k - 1) * 2 powi (bitlen d)"
      using db(2) by (intro mult_left_mono) auto
    also have "\<dots> = 2 powi (bitlen n - 1)" by (simp flip: two_powi_add)
    also have "\<dots> \<le> of_int n" by (rule nb(1))
    finally show ?thesis using d x by (simp add: le_divide_eq)
  qed
  show ?thesis using up lo q by (auto simp: fexp_def Let_def)
qed

lemma fexp_ge: "0 < x \<Longrightarrow> 2 powi k \<le> x \<Longrightarrow> k \<le> fexp x"
  using fexp_bounds[of x] two_powi_less[of k "fexp x + 1"] by force

lemma fexp_less: "0 < x \<Longrightarrow> x < 2 powi k \<Longrightarrow> fexp x < k"
  using fexp_bounds[of x] two_powi_less[of "fexp x" k] by force

lemma fexp_mono: "0 < x \<Longrightarrow> x \<le> y \<Longrightarrow> fexp x \<le> fexp y"
  using fexp_bounds[of x] fexp_ge[of y "fexp x"] by force

section \<open>Rounding to a double\<close>

lemma ulp_pos [simp]: "0 < ulp x"
  by (simp add: ulp_def)


lemma ulp_nonneg [simp]: "0 \<le> ulp x"
  using ulp_pos[of x] by linarith

lemma f64_0 [simp]: "f64 0 = 0"
  by (simp add: f64_def)

lemma f64_nonneg: "0 \<le> x \<Longrightarrow> 0 \<le> f64 x"
  using rne_ge[of 0 "x / ulp x"] by (auto simp: f64_def intro!: mult_nonneg_nonneg)

lemma ulp_mono: "0 < x \<Longrightarrow> x \<le> y \<Longrightarrow> ulp x \<le> ulp y"
  using fexp_mono[of x y] by (auto simp: ulp_def intro!: two_powi_mono)

text \<open>
  Rounding is monotone: within one binade because rounding to an integer is, across binades
  because the power of two between them is a double.
\<close>

lemma f64_mono_pos:
  assumes "0 < x" "x \<le> y"
  shows "f64 x \<le> f64 y"
proof (cases "ulp x = ulp y")
  case True
  then have "rne (x / ulp x) \<le> rne (y / ulp y)"
    using assms by (intro rne_mono) (simp add: divide_right_mono)
  with True assms show ?thesis by (auto simp: f64_def)
next
  case False
  let ?ex = "max (fexp x) (- 1022)" and ?ey = "max (fexp y) (- 1022)"
  have e: "?ex < ?ey"
  proof (rule ccontr)
    assume "\<not> ?ex < ?ey"
    then have "?ex = ?ey" using assms fexp_mono[of x y] by linarith
    then show False using False assms by (simp add: ulp_def)
  qed
  have ey: "?ey = fexp y" using e by auto
  have "x < 2 powi (?ex + 1)"
    using fexp_bounds[of x] assms two_powi_mono[of "fexp x + 1" "?ex + 1"] by force
  then have "x / ulp x \<le> of_int (2 ^ 53)"
    using assms two_powi_add[of "?ex - 52" 53] by (simp add: ulp_def divide_le_eq algebra_simps)
  then have "rne (x / ulp x) \<le> 2 ^ 53" by (rule rne_le)
  then have "of_int (rne (x / ulp x)) * ulp x \<le> of_int (2 ^ 53) * ulp x"
    by (intro mult_right_mono) (auto simp del: of_int_power)
  then have "f64 x \<le> of_int (2 ^ 53) * 2 powi (?ex - 52)"
    using assms by (simp add: f64_def ulp_def)
  also have "\<dots> = 2 powi (?ex + 1)" using two_powi_add[of "?ex - 52" 53] by (simp add: add.commute)
  also have "\<dots> \<le> 2 powi ?ey" using e by (intro two_powi_mono) auto
  also have "\<dots> = of_int (2 ^ 52) * 2 powi (?ey - 52)" using two_powi_add[of "?ey - 52" 52] by (simp add: add.commute)
  also have "\<dots> \<le> of_int (rne (y / ulp y)) * ulp y"
  proof -
    have "of_int (2 ^ 52) \<le> y / ulp y"
      using assms fexp_bounds[of y] ey two_powi_add[of "?ey - 52" 52]
      by (simp add: ulp_def le_divide_eq algebra_simps)
    then have "2 ^ 52 \<le> rne (y / ulp y)" by (rule rne_ge)
    then have "(of_int (2 ^ 52) :: rat) \<le> of_int (rne (y / ulp y))" by linarith
    then show ?thesis
      using assms by (simp add: ulp_def del: of_int_power of_int_le_iff)
  qed
  also have "\<dots> = f64 y" using assms by (simp add: f64_def)
  finally show ?thesis .
qed

lemma f64_mono: "0 \<le> x \<Longrightarrow> x \<le> y \<Longrightarrow> f64 x \<le> f64 y"
  using f64_mono_pos[of x y] f64_nonneg[of y] by (cases "x = 0") auto

text \<open>A dyadic rational with a 53-bit significand is a double.\<close>

lemma f64_dyadic:
  assumes "0 \<le> m" "m \<le> 2 ^ 53" "- 1074 \<le> k"
  shows "f64 (of_int m * 2 powi k) = of_int m * 2 powi k"
proof (cases "m = 0")
  case False
  define x :: rat where "x = of_int m * 2 powi k"
  define e where "e = max (fexp x) (- 1022) - 52"
  have m: "0 < m" and x: "0 < x" using assms False by (auto simp: x_def)
  obtain j :: int where j: "x / 2 powi e = of_int j"
  proof (cases "m = 2 ^ 53")
    case True
    then have xe: "x = 2 powi (k + 53)" using two_powi_add[of k 53] by (simp add: x_def)
    have "fexp x < k + 54" using x xe by (intro fexp_less) (auto simp: power_int_strict_increasing)
    then have "e \<le> k + 53" using assms by (auto simp: e_def)
    then have "x / 2 powi e = of_int (2 ^ nat (k + 53 - e))"
      by (simp only: xe two_powi_diff_nat)
    then show ?thesis by (rule that)
  next
    case False
    then have "m < 2 ^ 53" using assms by simp
    then have "(of_int m :: rat) < of_int (2 ^ 53)" by (simp only: of_int_less_iff)
    then have "x < of_int (2 ^ 53) * 2 powi k" unfolding x_def by (intro mult_strict_right_mono) auto
    also have "\<dots> = 2 powi (k + 53)" using two_powi_add[of k 53] by simp
    finally have "fexp x < k + 53" using x by (intro fexp_less)
    then have "e \<le> k" using assms by (auto simp: e_def)
    then have "x / 2 powi e = of_int (m * 2 ^ nat (k - e))"
      using two_powi_diff_nat[of e k] by (simp add: x_def flip: times_divide_eq_right)
    then show ?thesis by (rule that)
  qed
  have "x = of_int j * 2 powi e" using j by (simp add: divide_eq_eq)
  moreover have "ulp x = 2 powi e" using x by (simp add: ulp_def e_def)
  ultimately have "f64 x = x" using x j by (simp add: f64_def)
  then show ?thesis by (simp add: x_def)
qed simp

lemma f64_int: "0 \<le> i \<Longrightarrow> i \<le> 2 ^ 53 \<Longrightarrow> f64 (of_int i) = of_int i"
  using f64_dyadic[of i 0] by simp

lemma f64_of_int_exact: "0 \<le> i \<Longrightarrow> i \<le> 2 ^ 53 \<Longrightarrow> f64_of_int i = of_int i"
  by (simp add: f64_of_int_def f64_int)

section \<open>Elapsed seconds\<close>

lemma f64_ge_int: "0 \<le> i \<Longrightarrow> i \<le> 2 ^ 53 \<Longrightarrow> of_int i \<le> x \<Longrightarrow> of_int i \<le> f64 x"
  using f64_mono[of "of_int i" x] by (simp add: f64_int)

lemma int64_of_f64_floor:
  "0 \<le> x \<Longrightarrow> \<lfloor>x\<rfloor> \<le> max_int64 \<Longrightarrow> int64_of_f64 x = \<lfloor>x\<rfloor>"
  by (simp add: int64_of_f64_def Let_def min_int64_def max_int64_def)

text \<open>
  Up to \<open>2 ^ 22\<close> seconds (48 days) the conversion to seconds loses nothing that truncation
  would notice: the fraction is below one by more than the rounding error.
\<close>

lemma f64_almost_next:
  assumes "0 \<le> s" "s < 2 ^ 22"
  shows "f64 (of_int s + (1 - 1 / 2 ^ 30)) = of_int s + (1 - 1 / 2 ^ 30)"
proof -
  let ?m = "s * 2 ^ 30 + 2 ^ 30 - 1"
  have "of_int ?m * 2 powi (- 30) = (of_int s + (1 - 1 / 2 ^ 30) :: rat)"
    by (simp add: power_int_def power_divide field_simps)
  moreover have "f64 (of_int ?m * 2 powi (- 30)) = of_int ?m * 2 powi (- 30)"
    using assms by (intro f64_dyadic) auto
  ultimately show ?thesis by (simp only:)
qed

lemma dur_seconds_bounds:
  assumes "0 \<le> d" "d < 2 ^ 22 * second"
  shows "of_int (d div second) \<le> dur_seconds d \<and>
    dur_seconds d \<le> of_int (d div second) + (1 - 1 / 2 ^ 30)"
proof -
  let ?s = "d div second" and ?n = "d mod second" and ?c = "1 - 1 / 2 ^ 30 :: rat"
  have sec: "second = 1000000000" by (simp add: second_def)
  have s: "0 \<le> ?s" "?s < 2 ^ 22"
    using assms by (auto simp: sec pos_imp_zdiv_nonneg_iff div_less_iff_less_mult)
  have n: "0 \<le> ?n" "?n \<le> second - 1" using pos_mod_bound[of second d] by (auto simp: sec)
  let ?q = "of_int ?n / 1000000000 :: rat"
  have q: "0 \<le> ?q" "?q \<le> ?c" using n by (auto simp: sec)
  have fq: "0 \<le> f64 ?q" "f64 ?q \<le> ?c"
    using f64_nonneg[OF q(1)] f64_mono[OF q] f64_almost_next[of 0] by auto
  have eq: "dur_seconds d = f64 (of_int ?s + f64 ?q)"
    using assms s n by (simp add: dur_seconds_def f64_add_def f64_div_def f64_of_int_exact
        go_div_nonneg go_mod_nonneg sec)
  have "of_int ?s \<le> f64 (of_int ?s + f64 ?q)"
    using s fq by (intro f64_ge_int) auto
  moreover have "f64 (of_int ?s + f64 ?q) \<le> f64 (of_int ?s + ?c)"
    using s fq by (intro f64_mono) auto
  ultimately show ?thesis unfolding eq f64_almost_next[OF s] by blast
qed

lemma dur_seconds_nonneg: "0 \<le> d \<Longrightarrow> 0 \<le> dur_seconds d"
  by (simp add: dur_seconds_def f64_add_def f64_div_def f64_of_int_def f64_nonneg
      go_div_nonneg go_mod_nonneg second_def pos_imp_zdiv_nonneg_iff)

end
