(* ===== verification/Tools.thy ===== *)
theory Tools
  imports Go_Float
begin

text \<open>
  Package \<open>tools\<close> (internal/tools/registry.go): tool results, the \<open>Tool\<close> interface, the
  registry, JSON schemas and the typed access to the arguments of a call.

  A tool is a record of its name, description, parameters and \<open>Execute\<close>, which acts on a world
  of type \<open>'w\<close>. \<open>Execute\<close> returns a pointer and an error, so both may be absent.
\<close>

section \<open>Results and tools\<close>

record tool_result =
  tr_success :: bool
  tr_output :: string
  tr_error :: string

type_synonym exec_ret = "tool_result option \<times> string option"

record 'w tool =
  tool_name :: string
  tool_description :: string
  tool_parameters :: any
  tool_execute :: "args \<Rightarrow> 'w \<Rightarrow> exec_ret \<times> 'w"

definition tool_fail :: "string \<Rightarrow> exec_ret" where
  "tool_fail e = (Some \<lparr>tr_success = False, tr_output = [], tr_error = e\<rparr>, None)"

definition tool_ok :: "string \<Rightarrow> exec_ret" where
  "tool_ok out = (Some \<lparr>tr_success = True, tr_output = out, tr_error = []\<rparr>, None)"

section \<open>A keyed store\<close>

text \<open>
  What the clients of the registry, of the provider factories and of the conversation table rely
  on: a lookup sees the last value put under its key and nothing else.
\<close>

locale keyed_store =
  fixes put :: "'k \<Rightarrow> 'v \<Rightarrow> 'm \<Rightarrow> 'm" and look :: "'m \<Rightarrow> 'k \<Rightarrow> 'v option"
  assumes look_put: "look (put k v m) k' = (if k' = k then Some v else look m k')"
begin

definition put_all :: "('k \<times> 'v) list \<Rightarrow> 'm \<Rightarrow> 'm" where
  "put_all kvs m = fold (\<lambda>(k, v). put k v) kvs m"

lemma look_put_all:
  "look (put_all kvs m) k = (case map_of (rev kvs) k of Some v \<Rightarrow> Some v | None \<Rightarrow> look m k)"
  by (induction kvs arbitrary: m)
    (auto simp: put_all_def look_put map_add_def split: option.splits)

lemma look_put_all_distinct:
  "distinct (map fst kvs) \<Longrightarrow> (k, v) \<in> set kvs \<Longrightarrow> look (put_all kvs m) k = Some v"
  by (subst look_put_all) (auto simp: rev_map[symmetric] split: option.splits
      dest!: map_of_SomeD dest: eq_key_imp_eq_value simp: map_of_eq_None_iff)

lemma look_put_all_other:
  "k \<notin> fst ` set kvs \<Longrightarrow> look (put_all kvs m) k = look m k"
  by (simp add: look_put_all map_of_eq_None_iff[THEN iffD2])

lemma look_put_all_map_of:
  assumes "distinct (map fst kvs)"
  shows "look (put_all kvs m) k = (case map_of kvs k of Some v \<Rightarrow> Some v | None \<Rightarrow> look m k)"
proof (cases "map_of kvs k")
  case None
  then have "k \<notin> fst ` set kvs" by (simp add: map_of_eq_None_iff)
  with None show ?thesis by (simp add: look_put_all_other)
next
  case (Some v)
  with look_put_all_distinct[OF assms map_of_SomeD[OF Some]] show ?thesis by simp
qed

end

section \<open>Registry\<close>

type_synonym 'w registry = "string \<rightharpoonup> 'w tool"

definition new_registry :: "'w registry" where "new_registry = Map.empty"

definition registry_put :: "string \<Rightarrow> 'w tool \<Rightarrow> 'w registry \<Rightarrow> 'w registry" where
  "registry_put name t r = r(name \<mapsto> t)"

definition register :: "'w tool \<Rightarrow> 'w registry \<Rightarrow> 'w registry" where
  "register t r = registry_put (tool_name t) t r"

definition registry_get :: "string \<Rightarrow> 'w registry \<Rightarrow> 'w tool option" where
  "registry_get name r = r name"

text \<open>
  Ranging over a Go map visits every key once in an order the language leaves open; the order
  is the argument \<open>ks\<close>.
\<close>

definition map_order :: "('k \<rightharpoonup> 'v) \<Rightarrow> 'k list \<Rightarrow> bool" where
  "map_order m ks \<longleftrightarrow> distinct ks \<and> set ks = dom m"

definition registry_list :: "string list \<Rightarrow> 'w registry \<Rightarrow> 'w tool list" where
  "registry_list ks r = List.map_filter r ks"

record tool_func =
  tf_name :: string
  tf_description :: string
  tf_parameters :: any

record tool_def =
  td_type :: string
  td_function :: tool_func

definition definitions :: "string list \<Rightarrow> 'w registry \<Rightarrow> tool_def list" where
  "definitions ks r = map (\<lambda>t. \<lparr>td_type = ''function'', td_function = \<lparr>tf_name = tool_name t,
     tf_description = tool_description t, tf_parameters = tool_parameters t\<rparr>\<rparr>) (registry_list ks r)"

interpretation reg: keyed_store registry_put "\<lambda>r k. registry_get k r"
  by unfold_locales (simp add: registry_get_def registry_put_def)

text \<open>Registering keeps each tool under its own name.\<close>

definition registry_ok :: "'w registry \<Rightarrow> bool" where
  "registry_ok r \<longleftrightarrow> (\<forall>n t. r n = Some t \<longrightarrow> tool_name t = n)"

lemma registry_ok_new [simp]: "registry_ok new_registry"
  by (simp add: registry_ok_def new_registry_def)

lemma registry_ok_register [inv_keep]: "registry_ok r \<Longrightarrow> registry_ok (register t r)"
  by (simp add: registry_ok_def register_def registry_put_def)

lemma registry_get_register:
  "registry_get n (register t r) = (if n = tool_name t then Some t else registry_get n r)"
  by (simp add: register_def reg.look_put)

lemma fold_register: "fold register ts r = reg.put_all (map (\<lambda>t. (tool_name t, t)) ts) r"
  by (induction ts arbitrary: r) (auto simp: reg.put_all_def register_def)

lemma definitions_names:
  "registry_ok r \<Longrightarrow> map_order r ks \<Longrightarrow> map (tf_name \<circ> td_function) (definitions ks r) = ks"
proof -
  assume r: "registry_ok r" and "map_order r ks"
  then have "\<forall>k \<in> set ks. r k \<noteq> None" by (auto simp: map_order_def)
  with r show ?thesis
    unfolding definitions_def registry_list_def
    by (induction ks) (auto simp: map_filter_simps registry_ok_def)
qed

section \<open>Schemas\<close>

datatype property = Property (p_type: string) (p_description: string) (p_enum: "string list")
  (p_default: "any option") (p_items: "property option") (p_properties: "(string \<times> property) list")

fun property_json :: "property \<Rightarrow> any" where
  "property_json (Property ty desc en def items props) = AObject
     ([(''type'', AString ty), (''description'', AString desc)]
      @ (if en \<noteq> [] then [(''enum'', AStrings en)] else [])
      @ (case def of None \<Rightarrow> [] | Some v \<Rightarrow> [(''default'', v)])
      @ (case items of None \<Rightarrow> [] | Some p \<Rightarrow> [(''items'', property_json p)])
      @ (if props \<noteq> [] then [(''properties'', AObject (map (\<lambda>kp. (fst kp, property_json (snd kp))) props))]
         else []))"

definition schema :: "(string \<times> property) list \<Rightarrow> string list \<Rightarrow> any" where
  "schema props required = AObject [(''type'', AString ''object''),
     (''properties'', AObject (map (\<lambda>(n, p). (n, property_json p)) props)),
     (''required'', AStrings required)]"

section \<open>Arguments\<close>

fun type_name :: "any \<Rightarrow> string" where
  "type_name (AString _) = ''string''"
| "type_name (AInt _) = ''int''"
| "type_name (AInt32 _) = ''int32''"
| "type_name (AFloat _) = ''float64''"
| "type_name (ABool _) = ''bool''"
| "type_name ANil = ''<nil>''"
| "type_name (AList _) = ''[]interface {}''"
| "type_name (AStrings _) = ''[]string''"
| "type_name (AObject _) = ''map[string]interface {}''"

definition get_string :: "args \<Rightarrow> string \<Rightarrow> string result" where
  "get_string args key = (case args key of
     None \<Rightarrow> Inl (''missing required parameter: '' @ key)
   | Some (AString s) \<Rightarrow> Inr s
   | Some v \<Rightarrow> Inl (''parameter '' @ key @ '' must be a string, got '' @ type_name v))"

definition get_string_default :: "args \<Rightarrow> string \<Rightarrow> string \<Rightarrow> string" where
  "get_string_default args key def = (case args key of
     Some (AString s) \<Rightarrow> s | _ \<Rightarrow> def)"

definition get_int :: "args \<Rightarrow> string \<Rightarrow> int result" where
  "get_int args key = (case args key of
     None \<Rightarrow> Inl (''missing required parameter: '' @ key)
   | Some (AFloat f) \<Rightarrow> Inr (int64_of_f64 f)
   | Some (AInt i) \<Rightarrow> Inr i
   | Some _ \<Rightarrow> Inl (''parameter '' @ key @ '' must be a number''))"

definition get_int_default :: "args \<Rightarrow> string \<Rightarrow> int \<Rightarrow> int" where
  "get_int_default args key def = (case args key of
     Some (AFloat f) \<Rightarrow> int64_of_f64 f
   | Some (AInt i) \<Rightarrow> i
   | _ \<Rightarrow> def)"

definition get_bool :: "args \<Rightarrow> string \<Rightarrow> bool" where
  "get_bool args key = (case args key of Some (ABool b) \<Rightarrow> b | _ \<Rightarrow> False)"

text \<open>\<open>x, _ := GetString(args, key)\<close>: the error dropped, the empty string in its place.\<close>

definition string_or_empty :: "string result \<Rightarrow> string" where
  "string_or_empty r = (case r of Inl _ \<Rightarrow> [] | Inr s \<Rightarrow> s)"

lemma get_string_or_empty: "string_or_empty (get_string args key) = get_string_default args key []"
  by (auto simp: string_or_empty_def get_string_def get_string_default_def split: option.splits any.splits)

lemma get_int_agrees: "get_int args key = Inr i \<Longrightarrow> get_int_default args key d = i"
  by (auto simp: get_int_def get_int_default_def split: option.splits any.splits)

lemma get_int_default_int32: "args key = Some (AInt32 n) \<Longrightarrow> get_int_default args key d = d"
  by (simp add: get_int_default_def)

end
