(* ===== verification/Remediation_Tools.thy ===== *)
theory Remediation_Tools
  imports Tools Api_Types
begin

text \<open>
  Package \<open>remediation\<close> (internal/tools/remediation/tools.go): the tools that change the
  cluster, and the one host tool the remediation controller registers beside them
  (internal/tools/host/tools.go).

  The Kubernetes client libraries are a parameter, the record \<open>kube\<close>, over objects of type
  \<open>'o\<close> and a cluster state of type \<open>'c\<close>: the dynamic client addresses a resource by group,
  version and resource name and a namespace (empty for none), the typed client reads nodes and
  pods. Object accessors, the JSON and YAML codecs and the process runner are fields of it too.
\<close>

record gvr =
  gvr_group :: string
  gvr_version :: string
  gvr_resource :: string

record pod =
  pod_namespace :: string
  pod_name :: string
  pod_phase :: string

record command_run =
  cmd_stdout :: string
  cmd_stderr :: string
  cmd_failed :: bool
  cmd_timed_out :: bool
  cmd_exit_code :: "int option"

record ('o, 'c) kube =
  k_get :: "gvr \<Rightarrow> string \<Rightarrow> string \<Rightarrow> 'c \<Rightarrow> api_error + 'o"
  k_patch :: "gvr \<Rightarrow> string \<Rightarrow> string \<Rightarrow> string \<Rightarrow> 'c \<Rightarrow> (api_error + 'o) \<times> 'c"
  k_delete :: "gvr \<Rightarrow> string \<Rightarrow> string \<Rightarrow> 'c \<Rightarrow> api_error option \<times> 'c"
  k_create :: "gvr \<Rightarrow> string \<Rightarrow> 'o \<Rightarrow> 'c \<Rightarrow> (api_error + 'o) \<times> 'c"
  k_update :: "gvr \<Rightarrow> string \<Rightarrow> 'o \<Rightarrow> 'c \<Rightarrow> (api_error + 'o) \<times> 'c"
  k_new_clientset :: "'c \<Rightarrow> string option"
  k_get_node :: "string \<Rightarrow> 'c \<Rightarrow> api_error option"
  k_patch_node :: "string \<Rightarrow> string \<Rightarrow> 'c \<Rightarrow> api_error option \<times> 'c"
  k_list_failed_pods :: "string \<Rightarrow> 'c \<Rightarrow> api_error + pod list"
  k_delete_pod :: "string \<Rightarrow> string \<Rightarrow> 'c \<Rightarrow> api_error option \<times> 'c"
  k_run :: "string \<Rightarrow> duration \<Rightarrow> 'c \<Rightarrow> command_run \<times> 'c"
  k_now :: "'c \<Rightarrow> string"
  o_api_version :: "'o \<Rightarrow> string"
  o_kind :: "'o \<Rightarrow> string"
  o_name :: "'o \<Rightarrow> string"
  o_namespace :: "'o \<Rightarrow> string"
  o_resource_version :: "'o \<Rightarrow> string"
  o_set_resource_version :: "string \<Rightarrow> 'o \<Rightarrow> 'o"
  o_without_managed_fields :: "'o \<Rightarrow> 'o"
  o_json :: "'o \<Rightarrow> string"
  o_json_indent :: "'o \<Rightarrow> string"
  json_indent :: "(string \<times> any) list \<Rightarrow> string"
  unmarshal_object :: "string \<Rightarrow> string + 'o"
  yaml_to_json :: "string \<Rightarrow> string + string"

section \<open>Resource names\<close>

definition kind_to_resource :: "string \<Rightarrow> string" where
  "kind_to_resource kind = (let k = to_lower kind in
     if has_suffix k ''s'' then k @ ''es''
     else if has_suffix k ''y'' then trim_suffix k ''y'' @ ''ies''
     else k @ ''s'')"

definition parse_gvr :: "string \<Rightarrow> string \<Rightarrow> string + gvr" where
  "parse_gvr api_version kind = (case split_on (CHR ''/'') api_version of
     [v] \<Rightarrow> Inr \<lparr>gvr_group = [], gvr_version = v, gvr_resource = kind_to_resource kind\<rparr>
   | [g, v] \<Rightarrow> Inr \<lparr>gvr_group = g, gvr_version = v, gvr_resource = kind_to_resource kind\<rparr>
   | _ \<Rightarrow> Inl (''invalid apiVersion: '' @ api_version))"

definition jstr :: "string \<Rightarrow> string" where "jstr s = dquote @ s @ dquote"

section \<open>Patch, scale and restart\<close>

definition patch_resource :: "('o, 'c) kube \<Rightarrow> args \<Rightarrow> 'c \<Rightarrow> exec_ret \<times> 'c" where
  "patch_resource K args c =
     (let api_version = string_or_empty (get_string args ''apiVersion'');
          kind = string_or_empty (get_string args ''kind'');
          name = string_or_empty (get_string args ''name'');
          namespace = get_string_default args ''namespace'' ''default'';
          patch = string_or_empty (get_string args ''patch'')
      in case parse_gvr api_version kind of
         Inl e \<Rightarrow> (tool_fail e, c)
       | Inr g \<Rightarrow>
           (let before = k_get K g namespace name c in
            case k_patch K g namespace name patch c of
              (Inl e, c1) \<Rightarrow> (tool_fail (''patch failed: '' @ ae_message e), c1)
            | (Inr obj, c1) \<Rightarrow>
                (tool_ok (json_indent K
                   ([(''message'', AString (''Successfully patched '' @ kind @ ''/'' @ name)),
                     (''patched'', ABool True)]
                    @ (case before of Inl _ \<Rightarrow> []
                       | Inr b \<Rightarrow> [(''previous_state'', AString (o_json K b))])
                    @ [(''new_state'', AString (o_json_indent K (o_without_managed_fields K obj)))])), c1)))"

definition replicas_patch :: "int \<Rightarrow> string" where
  "replicas_patch n = ''{'' @ jstr ''spec'' @ '':{'' @ jstr ''replicas'' @ '':'' @ show_int n @ ''}}''"

definition scale_resource :: "('o, 'c) kube \<Rightarrow> args \<Rightarrow> 'c \<Rightarrow> exec_ret \<times> 'c" where
  "scale_resource K args c =
     (let api_version = string_or_empty (get_string args ''apiVersion'');
          kind = string_or_empty (get_string args ''kind'');
          name = string_or_empty (get_string args ''name'');
          namespace = get_string_default args ''namespace'' ''default'';
          replicas = get_int_default args ''replicas'' 1;
          patch_args = [''apiVersion'' \<mapsto> AString api_version, ''kind'' \<mapsto> AString kind,
            ''name'' \<mapsto> AString name, ''namespace'' \<mapsto> AString namespace,
            ''patch'' \<mapsto> AString (replicas_patch replicas)]
      in case patch_resource K patch_args c of
           ((res, Some err), c1) \<Rightarrow> ((res, Some err), c1)
         | ((None, None), c1) \<Rightarrow> ((None, None), c1)
         | ((Some r, None), c1) \<Rightarrow>
             ((Some (if tr_success r
                then r\<lparr>tr_output := ''Scaled '' @ kind @ ''/'' @ name @ '' in '' @ namespace @ '' to '' @
                  show_int replicas @ '' replicas.'' @ newline @ tr_output r\<rparr> else r), None), c1))"

definition restart_patch :: "string \<Rightarrow> string" where
  "restart_patch now = ''{'' @ jstr ''spec'' @ '':{'' @ jstr ''template'' @ '':{'' @ jstr ''metadata''
     @ '':{'' @ jstr ''annotations'' @ '':{'' @ jstr ''kubectl.kubernetes.io/restartedAt'' @ '':''
     @ jstr now @ ''}}}}}''"

definition restart_pod :: "('o, 'c) kube \<Rightarrow> args \<Rightarrow> 'c \<Rightarrow> exec_ret \<times> 'c" where
  "restart_pod K args c =
     (let kind = string_or_empty (get_string args ''kind'');
          name = string_or_empty (get_string args ''name'');
          namespace = get_string_default args ''namespace'' ''default'';
          api_version = get_string_default args ''apiVersion'' ''v1''
      in if equal_fold kind ''Deployment'' then
           patch_resource K [''apiVersion'' \<mapsto> AString (if api_version = ''v1'' then ''apps/v1'' else api_version),
             ''kind'' \<mapsto> AString ''Deployment'', ''name'' \<mapsto> AString name,
             ''namespace'' \<mapsto> AString namespace, ''patch'' \<mapsto> AString (restart_patch (k_now K c))] c
         else (case parse_gvr api_version kind of
             Inl e \<Rightarrow> (tool_fail e, c)
           | Inr g \<Rightarrow> (case k_delete K g namespace name c of
               (Some e, c1) \<Rightarrow> (tool_fail (''failed to delete pod: '' @ ae_message e), c1)
             | (None, c1) \<Rightarrow> (tool_ok (''Pod '' @ namespace @ ''/'' @ name @
                 '' deleted (controller will recreate it)''), c1))))"

section \<open>Nodes and evicted pods\<close>

definition show_bool :: "bool \<Rightarrow> string" where
  "show_bool b = (if b then ''true'' else ''false'')"

definition cordon_patch :: "bool \<Rightarrow> string" where
  "cordon_patch b = ''{'' @ jstr ''spec'' @ '':{'' @ jstr ''unschedulable'' @ '':'' @ show_bool b @ ''}}''"

definition cordon_node :: "('o, 'c) kube \<Rightarrow> args \<Rightarrow> 'c \<Rightarrow> exec_ret \<times> 'c" where
  "cordon_node K args c =
     (let node = string_or_empty (get_string args ''node'');
          uncordon = get_bool args ''uncordon''
      in case k_new_clientset K c of
         Some e \<Rightarrow> (tool_fail e, c)
       | None \<Rightarrow> (case k_get_node K node c of
           Some e \<Rightarrow> (tool_fail (''failed to get node: '' @ ae_message e), c)
         | None \<Rightarrow> (case k_patch_node K node (cordon_patch (\<not> uncordon)) c of
             (Some e, c1) \<Rightarrow> (tool_fail (''failed to patch node: '' @ ae_message e), c1)
           | (None, c1) \<Rightarrow> (tool_ok (''Node '' @ node @ '' successfully '' @
               (if uncordon then ''uncordoned'' else ''cordoned'')), c1))))"

fun delete_failed :: "('o, 'c) kube \<Rightarrow> pod list \<Rightarrow> int \<Rightarrow> 'c \<Rightarrow> int \<times> 'c" where
  "delete_failed K [] n c = (n, c)"
| "delete_failed K (p # ps) n c =
     (if pod_phase p = ''Failed''
      then delete_failed K ps (n + 1) (snd (k_delete_pod K (pod_namespace p) (pod_name p) c))
      else delete_failed K ps n c)"

definition delete_evicted_pods :: "('o, 'c) kube \<Rightarrow> args \<Rightarrow> 'c \<Rightarrow> exec_ret \<times> 'c" where
  "delete_evicted_pods K args c =
     (let namespace = get_string_default args ''namespace'' []
      in case k_new_clientset K c of
         Some e \<Rightarrow> (tool_fail e, c)
       | None \<Rightarrow> (case k_list_failed_pods K namespace c of
           Inl e \<Rightarrow> (tool_fail (ae_message e), c)
         | Inr pods \<Rightarrow> (let (n, c1) = delete_failed K pods 0 c in
             (tool_ok (''Deleted '' @ show_int n @ '' failed/evicted pods''), c1))))"

section \<open>Applying a manifest\<close>

definition parse_manifest :: "('o, 'c) kube \<Rightarrow> string \<Rightarrow> string + 'o" where
  "parse_manifest K manifest = (case unmarshal_object K manifest of
     Inr obj \<Rightarrow> Inr obj
   | Inl err \<Rightarrow> (case yaml_to_json K manifest of
       Inl _ \<Rightarrow> Inl (''failed to parse manifest: '' @ err)
     | Inr json \<Rightarrow> (case unmarshal_object K json of
         Inl err2 \<Rightarrow> Inl (''failed to parse manifest: '' @ err2)
       | Inr obj \<Rightarrow> Inr obj)))"

definition applied :: "('o, 'c) kube \<Rightarrow> 'o \<Rightarrow> exec_ret" where
  "applied K obj = tool_ok (''Applied '' @ o_kind K obj @ ''/'' @ o_name K obj)"

definition apply_manifest :: "('o, 'c) kube \<Rightarrow> args \<Rightarrow> 'c \<Rightarrow> exec_ret \<times> 'c" where
  "apply_manifest K args c =
     (case parse_manifest K (string_or_empty (get_string args ''manifest'')) of
        Inl e \<Rightarrow> (tool_fail e, c)
      | Inr obj \<Rightarrow> (case parse_gvr (o_api_version K obj) (o_kind K obj) of
          Inl e \<Rightarrow> (tool_fail e, c)
        | Inr g \<Rightarrow>
            (let namespace = (if o_namespace K obj = [] then get_string_default args ''namespace'' []
                              else o_namespace K obj)
             in case k_create K g namespace obj c of
                (Inr created, c1) \<Rightarrow> (applied K created, c1)
              | (Inl e, c1) \<Rightarrow>
                  if contains (ae_message e) ''already exists'' then
                    (case k_get K g namespace (o_name K obj) c1 of
                       Inl _ \<Rightarrow> (tool_fail (ae_message e), c1)
                     | Inr existing \<Rightarrow>
                         (case k_update K g namespace
                             (o_set_resource_version K (o_resource_version K existing) obj) c1 of
                            (Inl e2, c2) \<Rightarrow> (tool_fail (''update failed: '' @ ae_message e2), c2)
                          | (Inr updated, c2) \<Rightarrow> (applied K updated, c2)))
                  else (tool_fail (''create failed: '' @ ae_message e), c1))))"

section \<open>Commands on the host\<close>

definition host_exec :: "('o, 'c) kube \<Rightarrow> args \<Rightarrow> 'c \<Rightarrow> exec_ret \<times> 'c" where
  "host_exec K args c =
     (let command = string_or_empty (get_string args ''command'');
          timeout_sec = get_int_default args ''timeout'' 30;
          (r, c1) = k_run K command (wrap64 (timeout_sec * second)) c;
          out0 = (if cmd_stdout r = [] \<and> cmd_stderr r \<noteq> [] then cmd_stderr r else cmd_stdout r);
          out = (if 50000 < length out0 then take 50000 out0 @ newline @ ''... (truncated)'' else out0)
      in if cmd_failed r then
           (if cmd_timed_out r
            then (Some \<lparr>tr_success = False, tr_output = out,
               tr_error = ''command timed out after '' @ show_int timeout_sec @ ''s''\<rparr>, None)
            else (Some \<lparr>tr_success = False, tr_output = out,
               tr_error = ''command failed (exit '' @
                 show_int (case cmd_exit_code r of Some n \<Rightarrow> n | None \<Rightarrow> 1) @ ''): '' @ cmd_stderr r\<rparr>, None), c1)
         else ((Some \<lparr>tr_success = True, tr_output = out, tr_error = []\<rparr>, None), c1))"

section \<open>The tools\<close>

definition param :: "string \<Rightarrow> string \<Rightarrow> property" where
  "param ty desc = Property ty desc [] None None []"

definition param_default :: "string \<Rightarrow> string \<Rightarrow> any \<Rightarrow> property" where
  "param_default ty desc d = Property ty desc [] (Some d) None []"

definition patch_resource_tool :: "('o, 'c) kube \<Rightarrow> 'c tool" where
  "patch_resource_tool K = \<lparr>tool_name = ''k8s_patch_resource'',
     tool_description = ''Patch a Kubernetes resource using a JSON merge patch. Works with any resource type including CRDs. '' @
       ''Use this to update deployment replicas, resource limits, annotations, etc.'',
     tool_parameters = schema [(''apiVersion'', param ''string'' ''API version''),
       (''kind'', param ''string'' ''Resource kind''),
       (''name'', param ''string'' ''Resource name''),
       (''namespace'', param_default ''string'' ''Namespace'' (AString ''default'')),
       (''patch'', param ''string'' (''JSON merge patch (e.g. '' @ [CHR 0x27] @ replicas_patch 3 @ [CHR 0x27] @ '')''))]
       [''apiVersion'', ''kind'', ''name'', ''patch''],
     tool_execute = patch_resource K\<rparr>"

definition scale_resource_tool :: "('o, 'c) kube \<Rightarrow> 'c tool" where
  "scale_resource_tool K = \<lparr>tool_name = ''k8s_scale_resource'',
     tool_description = ''Scale a Deployment, StatefulSet, or ReplicaSet to a specific number of replicas.'',
     tool_parameters = schema [(''apiVersion'', param ''string'' ''API version (e.g. 'apps/v1')''),
       (''kind'', param ''string'' ''Resource kind (Deployment, StatefulSet, ReplicaSet)''),
       (''name'', param ''string'' ''Resource name''),
       (''namespace'', param_default ''string'' ''Namespace'' (AString ''default'')),
       (''replicas'', param ''integer'' ''Target number of replicas'')]
       [''apiVersion'', ''kind'', ''name'', ''replicas''],
     tool_execute = scale_resource K\<rparr>"

definition restart_pod_tool :: "('o, 'c) kube \<Rightarrow> 'c tool" where
  "restart_pod_tool K = \<lparr>tool_name = ''k8s_restart_pod'',
     tool_description = ''Restart a pod by deleting it (the controller will recreate it) or restart a Deployment by rolling restart.'',
     tool_parameters = schema [(''apiVersion'', param_default ''string'' ''API version'' (AString ''v1'')),
       (''kind'', param ''string'' ''Kind: 'Pod' to delete a single pod, or 'Deployment' for rolling restart''),
       (''name'', param ''string'' ''Resource name''),
       (''namespace'', param_default ''string'' ''Namespace'' (AString ''default''))]
       [''kind'', ''name''],
     tool_execute = restart_pod K\<rparr>"

definition cordon_node_tool :: "('o, 'c) kube \<Rightarrow> 'c tool" where
  "cordon_node_tool K = \<lparr>tool_name = ''k8s_cordon_node'',
     tool_description = ''Cordon a node to mark it as unschedulable. New pods will not be scheduled on it.'',
     tool_parameters = schema [(''node'', param ''string'' ''Node name''),
       (''uncordon'', param_default ''boolean'' ''If true, uncordon instead'' (ABool False))] [''node''],
     tool_execute = cordon_node K\<rparr>"

definition delete_evicted_pods_tool :: "('o, 'c) kube \<Rightarrow> 'c tool" where
  "delete_evicted_pods_tool K = \<lparr>tool_name = ''k8s_delete_evicted_pods'',
     tool_description = ''Delete all pods in Evicted/Failed state in a namespace (or all namespaces).'',
     tool_parameters = schema [(''namespace'', param_default ''string'' ''Namespace (empty for all)'' (AString []))] [],
     tool_execute = delete_evicted_pods K\<rparr>"

definition apply_manifest_tool :: "('o, 'c) kube \<Rightarrow> 'c tool" where
  "apply_manifest_tool K = \<lparr>tool_name = ''k8s_apply_manifest'',
     tool_description = ''Apply a Kubernetes manifest (YAML/JSON) to the cluster. Can create or update any resource including CRDs.'',
     tool_parameters = schema [(''manifest'', param ''string'' ''YAML or JSON manifest''),
       (''namespace'', param_default ''string'' ''Namespace (overrides manifest)'' (AString []))] [''manifest''],
     tool_execute = apply_manifest K\<rparr>"

definition host_exec_tool :: "('o, 'c) kube \<Rightarrow> 'c tool" where
  "host_exec_tool K = \<lparr>tool_name = ''host_exec'',
     tool_description = ''Execute a shell command on the host node. Use for node-level diagnostics: '' @
       ''disk usage, network, processes, systemctl status, dmesg, journalctl, docker, containerd, etc. '' @
       ''Commands run via 'nsenter' to access the host namespace when running in a pod.'',
     tool_parameters = schema [(''command'', param ''string'' ''The shell command to execute''),
       (''timeout'', param_default ''integer'' ''Timeout in seconds'' (AInt 30))] [''command''],
     tool_execute = host_exec K\<rparr>"

section \<open>Lemmas\<close>

text \<open>No tool returns a nil result, and none returns an error beside the result.\<close>

definition answers :: "exec_ret \<Rightarrow> bool" where
  "answers r \<longleftrightarrow> (\<exists>res. r = (Some res, None))"

lemma answers_simps [simp]: "answers (tool_fail e)" "answers (tool_ok s)" "answers (Some r, None)"
  by (simp_all add: answers_def tool_fail_def tool_ok_def)

lemma patch_resource_answers: "answers (fst (patch_resource K args c))"
  by (auto simp: patch_resource_def Let_def split: sum.splits prod.splits)

lemma scale_resource_answers: "answers (fst (scale_resource K args c))"
proof -
  have "answers (fst (patch_resource K a c))" for a by (rule patch_resource_answers)
  then show ?thesis
    by (simp add: scale_resource_def Let_def answers_def split: prod.splits option.splits)
      (metis option.distinct(1) prod.inject fst_conv)
qed

lemma restart_pod_answers: "answers (fst (restart_pod K args c))"
  by (auto simp: restart_pod_def Let_def patch_resource_answers split: sum.splits prod.splits option.splits)

lemma cordon_node_answers: "answers (fst (cordon_node K args c))"
  by (auto simp: cordon_node_def Let_def split: prod.splits option.splits)

lemma delete_evicted_pods_answers: "answers (fst (delete_evicted_pods K args c))"
  by (auto simp: delete_evicted_pods_def Let_def split: sum.splits prod.splits option.splits)

lemma apply_manifest_answers: "answers (fst (apply_manifest K args c))"
  by (auto simp: apply_manifest_def applied_def Let_def split: sum.splits prod.splits)

lemma host_exec_answers: "answers (fst (host_exec K args c))"
  by (auto simp: host_exec_def Let_def split: prod.splits)

lemmas tools_answer = patch_resource_answers scale_resource_answers restart_pod_answers
  cordon_node_answers delete_evicted_pods_answers apply_manifest_answers host_exec_answers

text \<open>What scaling sends: the patch for the replicas argument read as an \<open>int\<close>, else for 1.\<close>

lemma scale_resource_effect:
  "snd (scale_resource K args c) = snd (patch_resource K
     [''apiVersion'' \<mapsto> AString (get_string_default args ''apiVersion'' []),
      ''kind'' \<mapsto> AString (get_string_default args ''kind'' []),
      ''name'' \<mapsto> AString (get_string_default args ''name'' []),
      ''namespace'' \<mapsto> AString (get_string_default args ''namespace'' ''default''),
      ''patch'' \<mapsto> AString (replicas_patch (get_int_default args ''replicas'' 1))] c)"
  by (simp add: scale_resource_def Let_def get_string_or_empty split: prod.splits option.splits)

end
