(* ===== verification/Remediation.thy ===== *)
theory Remediation
  imports Controller Safety Remediation_Tools Http
begin

text \<open>
  The remediation controller (internal/controller/remediation/remediation_controller.go) and the
  approval handler of the dashboard (internal/dashboard/handlers_diagnostics.go).

  \<open>rem_env\<close> is what the reconciler holds: the API client for plans, the list of cluster
  configurations, the constructor of the remediation client and the clock. The tools act on the
  same cluster state \<open>'c\<close> through \<open>kube\<close>. Log lines are not modelled.
\<close>

section \<open>The reconciler\<close>

record 'c rem_env =
  re_api :: "(remediation_plan, 'c) api_client"
  re_list_configs :: "'c \<Rightarrow> api_error + k8ops_config list"
  re_new_remediator :: "'c \<Rightarrow> string option"
  re_now :: "'c \<Rightarrow> time"

definition rem_finalizer :: string where
  "rem_finalizer = ''aiops.ggai.dev/remediation-finalizer''"

definition action_type_to_tool :: "string \<Rightarrow> string" where
  "action_type_to_tool ty =
     (if ty = ''patchResource'' then ''k8s_patch_resource''
      else if ty = ''scaleResource'' then ''k8s_scale_resource''
      else if ty = ''restartPod'' then ''k8s_restart_pod''
      else if ty = ''cordonNode'' \<or> ty = ''uncordonNode'' then ''k8s_cordon_node''
      else if ty = ''deleteResource'' then ''k8s_delete_evicted_pods''
      else if ty = ''createResource'' \<or> ty = ''applyManifest'' then ''k8s_apply_manifest''
      else if ty = ''runCommand'' then ''host_exec''
      else ty)"

text \<open>The argument map, built by the assignments of the source in their order.\<close>

definition target_args :: "resource_ref option \<Rightarrow> args \<Rightarrow> args" where
  "target_args tg m = (case tg of None \<Rightarrow> m | Some t \<Rightarrow>
     m(''apiVersion'' \<mapsto> AString (rr_api_version t), ''kind'' \<mapsto> AString (rr_kind t),
       ''name'' \<mapsto> AString (rr_name t), ''namespace'' \<mapsto> AString (rr_namespace t)))"

definition put_nonempty :: "string \<Rightarrow> string \<Rightarrow> args \<Rightarrow> args" where
  "put_nonempty k s m = (if s = [] then m else m(k \<mapsto> AString s))"

definition node_args :: "remediation_action \<Rightarrow> args \<Rightarrow> args" where
  "node_args a m =
     (if (\<exists>t. ra_target a = Some t \<and> rr_kind t = ''Node'') \<or> ra_type a = ''cordonNode'' \<or> ra_type a = ''uncordonNode''
      then let m1 = (case ra_target a of None \<Rightarrow> m | Some t \<Rightarrow> m(''node'' \<mapsto> AString (rr_name t)))
           in if ra_type a = ''uncordonNode'' then m1(''uncordon'' \<mapsto> ABool True) else m1
      else m)"

definition action_args :: "remediation_action \<Rightarrow> args" where
  "action_args a =
     (let m1 = target_args (ra_target a) Map.empty;
          m2 = put_nonempty ''patch'' (ra_patch a) m1;
          m3 = (case ra_replicas a of None \<Rightarrow> m2 | Some n \<Rightarrow> m2(''replicas'' \<mapsto> AInt32 n));
          m4 = put_nonempty ''manifest'' (ra_manifest a) m3;
          m5 = put_nonempty ''command'' (ra_command a) m4
      in node_args a m5)"

text \<open>\<open>executeAction\<close>: the result pointer, which a tool may leave nil.\<close>

definition failed_result :: "string \<Rightarrow> tool_result" where
  "failed_result e = \<lparr>tr_success = False, tr_output = [], tr_error = e\<rparr>"

definition execute_action :: "'c registry \<Rightarrow> remediation_action \<Rightarrow> 'c \<Rightarrow> tool_result option \<times> 'c" where
  "execute_action reg a c =
     (let name = action_type_to_tool (ra_type a) in
      case registry_get name reg of
        None \<Rightarrow> (Some (failed_result (''unknown tool: '' @ name)), c)
      | Some t \<Rightarrow> (case tool_execute t (action_args a) c of
          ((_, Some err), c1) \<Rightarrow> (Some (failed_result err), c1)
        | ((res, None), c1) \<Rightarrow> (res, c1)))"

definition build_tool_registry :: "('o, 'c) kube \<Rightarrow> 'c registry" where
  "build_tool_registry K = fold register
     [patch_resource_tool K, scale_resource_tool K, restart_pod_tool K, cordon_node_tool K,
      delete_evicted_pods_tool K, apply_manifest_tool K, host_exec_tool K] new_registry"

definition status_from_result :: "tool_result \<Rightarrow> string" where
  "status_from_result r = (if tr_success r then ''Success'' else ''Failed'')"

definition rollback :: "nat \<Rightarrow> action_result list \<Rightarrow> action_result list" where
  "rollback up_to rs = map (\<lambda>(i, r). if i < up_to \<and> ares_status r = ''Success''
     then r\<lparr>ares_status := ''RolledBack''\<rparr> else r) (enumerate 0 rs)"

definition skipped :: "nat \<Rightarrow> string \<Rightarrow> action_result" where
  "skipped i msg = \<lparr>ares_index = int i, ares_status = ''Skipped'', ares_message = msg,
     ares_executed_at = None, ares_rollback_data = []\<rparr>"

definition executed :: "nat \<Rightarrow> tool_result \<Rightarrow> time \<Rightarrow> action_result" where
  "executed i r now = \<lparr>ares_index = int i, ares_status = status_from_result r,
     ares_message = tr_output r @ tr_error r, ares_executed_at = Some now, ares_rollback_data = []\<rparr>"

text \<open>
  The loop over the actions, from action \<open>i\<close> on. It carries the status of the plan and the flag
  \<open>allSuccess\<close>; \<open>None\<close> is the nil dereference after a tool that returned no result.
\<close>

fun run_actions :: "('c \<Rightarrow> time) \<Rightarrow> 'c registry \<Rightarrow> checker \<Rightarrow> bool \<Rightarrow> nat \<Rightarrow> remediation_action list \<Rightarrow>
    remediation_plan_status \<Rightarrow> bool \<Rightarrow> 'c \<Rightarrow> (remediation_plan_status \<times> bool) option \<times> 'c" where
  "run_actions now reg ck rb i [] st ok c = (Some (st, ok), c)"
| "run_actions now reg ck rb i (a # as) st ok c =
     (let chk = check_action ck a in
      if \<not> cr_allowed chk then
        run_actions now reg ck rb (Suc i) as
          (st\<lparr>rst_results := rst_results st @ [skipped i (''Blocked by safety: '' @ cr_reason chk)]\<rparr>) ok c
      else (case execute_action reg a c of
          (None, c1) \<Rightarrow> (None, c1)
        | (Some r, c1) \<Rightarrow>
            (let st1 = st\<lparr>rst_results := rst_results st @ [executed i r (now c1)]\<rparr> in
             if tr_success r then run_actions now reg ck rb (Suc i) as st1 ok c1
             else if rb then
               (Some (st1\<lparr>rst_results := rollback i (rst_results st1), rst_phase := ''RolledBack''\<rparr>, False), c1)
             else run_actions now reg ck rb (Suc i) as st1 False c1)))"

definition safety_of :: "(api_error + k8ops_config list) \<Rightarrow> checker" where
  "safety_of cfgs = (case cfgs of
     Inr (k # _) \<Rightarrow> new_checker (Some (kcs_safety (kc_spec k))) (Some (kcs_auto_remediation (kc_spec k)))
   | _ \<Rightarrow> new_checker None None)"

definition plan_mode :: "remediation_plan \<Rightarrow> string" where
  "plan_mode p = (if rps_mode (rp_spec p) = [] then ''auto'' else rps_mode (rp_spec p))"

definition dry_run :: "remediation_plan \<Rightarrow> remediation_plan" where
  "dry_run p = p\<lparr>rp_status := (rp_status p)\<lparr>rst_phase := ''Completed'',
     rst_summary := ''Dry-run: no actions executed'',
     rst_results := rst_results (rp_status p) @
       map (\<lambda>i. skipped i ''Dry-run mode'') [0..<length (rps_actions (rp_spec p))]\<rparr>\<rparr>"

definition conclude :: "time \<Rightarrow> nat \<Rightarrow> bool \<Rightarrow> remediation_plan_status \<Rightarrow> remediation_plan_status" where
  "conclude now n ok st =
     (let st1 = st\<lparr>rst_completed_at := Some now\<rparr> in
      if rst_phase st1 \<noteq> ''RolledBack'' then
        if ok then st1\<lparr>rst_phase := ''Completed'',
          rst_summary := ''All '' @ show_int (int n) @ '' actions completed successfully''\<rparr>
        else st1\<lparr>rst_phase := ''Failed'', rst_summary := ''Some actions failed''\<rparr>
      else st1)"

definition execute_plan :: "'c rem_env \<Rightarrow> ('o, 'c) kube \<Rightarrow> checker \<Rightarrow> remediation_plan \<Rightarrow> 'c \<Rightarrow> outcome \<times> 'c" where
  "execute_plan E K ck p c =
     (case re_new_remediator E c of
        Some err \<Rightarrow> finish (re_api E) (p\<lparr>rp_status := (rp_status p)\<lparr>rst_phase := ''Failed'',
          rst_summary := ''Failed to build tools: '' @ err\<rparr>\<rparr>) c
      | None \<Rightarrow>
          (case run_actions (re_now E) (build_tool_registry K) ck (rps_rollback_on_failure (rp_spec p)) 0
                  (rps_actions (rp_spec p)) (rp_status p) True c of
             (None, c1) \<Rightarrow> (Panicked, c1)
           | (Some (st, ok), c1) \<Rightarrow> finish (re_api E) (p\<lparr>rp_status :=
               conclude (re_now E c1) (length (rps_actions (rp_spec p))) ok st\<rparr>) c1))"

definition rem_reconcile :: "'c rem_env \<Rightarrow> ('o, 'c) kube \<Rightarrow> ns_name \<Rightarrow> 'c \<Rightarrow> outcome \<times> 'c" where
  "rem_reconcile E K n c =
     (case ac_get (re_api E) n c of
        Inl e \<Rightarrow> (Returned no_requeue (if ae_reason e = NotFound then None else Some e), c)
      | Inr p \<Rightarrow>
          if om_deleting (rp_meta p) then
            (let (r, c1) = ac_update (re_api E)
               (p\<lparr>rp_meta := remove_finalizer rem_finalizer (rp_meta p)\<rparr>) c
             in (Returned no_requeue (err_of r), c1))
          else if \<not> awaits (rst_phase (rp_status p)) then (Returned no_requeue None, c)
          else (let ck = safety_of (re_list_configs E c) in
            if plan_mode p = ''dry-run'' then finish (re_api E) (dry_run p) c
            else (case ac_status_update (re_api E) (p\<lparr>rp_status := (rp_status p)\<lparr>rst_phase := ''Executing'',
                      rst_started_at := Some (re_now E c)\<rparr>\<rparr>) c of
                (Inl _, c1) \<Rightarrow> (Returned requeue_now None, c1)
              | (Inr p1, c1) \<Rightarrow> execute_plan E K ck p1 c1)))"

text \<open>A plan the guard turns away: settled or under way, and not being deleted.\<close>

definition rem_idle :: "remediation_plan \<Rightarrow> bool" where
  "rem_idle p \<longleftrightarrow> \<not> om_deleting (rp_meta p) \<and> \<not> awaits (rst_phase (rp_status p))"

interpretation rem: phase_guarded "ac_get (re_api E) n" rem_idle "rem_reconcile E K n" for E K n
  by unfold_locales (auto simp: rem_reconcile_def rem_idle_def)

section \<open>Approval\<close>

text \<open>\<open>handleRemediationAction\<close>; the user is absent when authentication is off.\<close>

definition user_name :: "string option \<Rightarrow> string" where
  "user_name u = (case u of None \<Rightarrow> ''unknown'' | Some n \<Rightarrow> n)"

datatype verdict = Already string | Refused string | Change remediation_plan

definition decide :: "string \<Rightarrow> string \<Rightarrow> remediation_plan \<Rightarrow> verdict" where
  "decide action user p = (let ph = rst_phase (rp_status p) in
     if action = ''approve'' then
       (if ph = ''Approved'' then Already ''already_approved''
        else if ph \<noteq> ''Pending'' then Refused (''can only approve plans in Pending phase, current: '' @ ph)
        else Change (p\<lparr>rp_status := (rp_status p)\<lparr>rst_phase := ''Approved'', rst_approved_by := user\<rparr>\<rparr>))
     else
       (if ph = ''Failed'' then Already ''already_rejected''
        else if ph \<noteq> ''Pending'' then Refused (''can only reject plans in Pending phase, current: '' @ ph)
        else Change (p\<lparr>rp_status := (rp_status p)\<lparr>rst_phase := ''Failed'',
          rst_summary := ''Rejected by '' @ user\<rparr>\<rparr>)))"

definition handle_remediation_action :: "(remediation_plan, 'c) api_client \<Rightarrow> string option \<Rightarrow>
    string \<Rightarrow> string \<Rightarrow> 'c \<Rightarrow> http_resp \<times> 'c" where
  "handle_remediation_action A user meth path c =
     (if meth \<noteq> ''POST'' then (write_error 405 ''method not allowed, use POST'', c)
      else (case split_on (CHR ''/'') (trim_prefix path ''/api/remediation/'') of
          ns # name # action # _ \<Rightarrow>
            if action \<noteq> ''approve'' \<and> action \<noteq> ''reject''
            then (write_error 400 (''action must be '' @ jstr ''approve'' @ '' or '' @ jstr ''reject''), c)
            else (case ac_get A (ns, name) c of
                Inl e \<Rightarrow> (write_k8s_error (Some (ae_message e)), c)
              | Inr p \<Rightarrow> (case decide action (user_name user) p of
                    Already s \<Rightarrow> (write_json (AObject [(''status'', AString s)]), c)
                  | Refused msg \<Rightarrow> (write_error 400 msg, c)
                  | Change p1 \<Rightarrow> (case ac_status_update A p1 c of
                      (Inl e, c1) \<Rightarrow> (write_k8s_error (Some (ae_message e)), c1)
                    | (Inr p2, c1) \<Rightarrow> (write_json (AObject [(''status'', AString ''ok''),
                        (''phase'', AString (rst_phase (rp_status p2)))]), c1))))
        | _ \<Rightarrow> (write_error 400 ''expected /api/remediation/{namespace}/{name}/approve or /reject'', c)))"

section \<open>The tools the controller registers\<close>

definition rem_tools :: "('o, 'c) kube \<Rightarrow> 'c tool list" where
  "rem_tools K = [patch_resource_tool K, scale_resource_tool K, restart_pod_tool K, cordon_node_tool K,
     delete_evicted_pods_tool K, apply_manifest_tool K, host_exec_tool K]"

lemmas rem_tool_defs = patch_resource_tool_def scale_resource_tool_def restart_pod_tool_def
  cordon_node_tool_def delete_evicted_pods_tool_def apply_manifest_tool_def host_exec_tool_def

lemma build_tool_registry_get:
  "registry_get n (build_tool_registry K) = map_of (map (\<lambda>t. (tool_name t, t)) (rem_tools K)) n"
proof -
  have d: "distinct (map fst (map (\<lambda>t. (tool_name t, t)) (rem_tools K)))"
    by (simp add: rem_tools_def rem_tool_defs)
  have "build_tool_registry K =
      reg.put_all (map (\<lambda>t. (tool_name t, t)) (rem_tools K)) new_registry"
    unfolding build_tool_registry_def rem_tools_def by (rule fold_register)
  then show ?thesis
    by (simp only: reg.look_put_all_map_of[OF d]) (simp add: registry_get_def new_registry_def split: option.splits)
qed

lemma rem_tools_answer: "t \<in> set (rem_tools K) \<Longrightarrow> answers (fst (tool_execute t args c))"
  by (auto simp: rem_tools_def rem_tool_defs tools_answer)

lemma execute_action_total: "\<exists>r c1. execute_action (build_tool_registry K) a c = (Some r, c1)"
proof (cases "registry_get (action_type_to_tool (ra_type a)) (build_tool_registry K)")
  case None
  then show ?thesis by (simp add: execute_action_def)
next
  case (Some t)
  then have "t \<in> set (rem_tools K)"
    unfolding build_tool_registry_get by (auto dest!: map_of_SomeD)
  from rem_tools_answer[OF this, of "action_args a" c] Some show ?thesis
    by (auto simp: execute_action_def answers_def split: prod.splits)
qed

section \<open>The loop and what it stands for\<close>

text \<open>
  The specification of the loop: execute actions in order, and with rollback stop at the first
  one that fails. The loop is this on the actions the policy permits.
\<close>

fun apply_all :: "'c registry \<Rightarrow> bool \<Rightarrow> remediation_action list \<Rightarrow> bool \<Rightarrow> 'c \<Rightarrow> bool \<times> 'c" where
  "apply_all reg rb [] ok c = (ok, c)"
| "apply_all reg rb (a # as) ok c = (case execute_action reg a c of
     (Some r, c1) \<Rightarrow> if tr_success r then apply_all reg rb as ok c1
       else if rb then (False, c1) else apply_all reg rb as False c1
   | (None, c1) \<Rightarrow> (False, c1))"

lemma apply_all_failed: "\<not> fst (apply_all reg rb as False c)"
  by (induction as arbitrary: c) (auto split: prod.splits option.splits)

lemma cr_allowed_permits: "cr_allowed (check_action ck a) \<longleftrightarrow> policy_permits ck a"
  by (simp add: check_action_allowed_iff stages_permit)

definition loop_phase :: "bool \<Rightarrow> bool \<Rightarrow> string \<Rightarrow> string" where
  "loop_phase rb good ph = (if rb \<and> \<not> good then ''RolledBack'' else ph)"

lemma run_actions_spec:
  assumes "rb \<longrightarrow> ok" and reg: "reg = build_tool_registry K"
  shows "\<exists>rs. run_actions now reg ck rb i as st ok c =
    (Some (st\<lparr>rst_results := rs,
        rst_phase := loop_phase rb (fst (apply_all reg rb (filter (policy_permits ck) as) ok c)) (rst_phase st)\<rparr>,
      fst (apply_all reg rb (filter (policy_permits ck) as) ok c)),
     snd (apply_all reg rb (filter (policy_permits ck) as) ok c))"
  using assms(1)
proof (induction as arbitrary: i st ok c)
  case Nil
  then show ?case by (auto simp: loop_phase_def intro!: exI[of _ "rst_results st"])
next
  case (Cons a as)
  obtain r c1 where x: "execute_action reg a c = (Some r, c1)"
    unfolding reg using execute_action_total[of K a c] by auto
  let ?st1 = "st\<lparr>rst_results := rst_results st @ [executed i r (now c1)]\<rparr>"
  let ?st0 = "st\<lparr>rst_results := rst_results st @ [skipped i (''Blocked by safety: '' @ cr_reason (check_action ck a))]\<rparr>"
  show ?case
  proof (cases "policy_permits ck a")
    case False
    with Cons.IH[of ok "Suc i" ?st0 c] Cons.prems show ?thesis
      by (simp add: cr_allowed_permits Let_def)
  next
    case True
    show ?thesis
    proof (cases "tr_success r \<or> \<not> rb")
      case True
      with Cons.IH[of "ok \<and> tr_success r" "Suc i" ?st1 c1] Cons.prems x \<open>policy_permits ck a\<close> show ?thesis
        by (cases "tr_success r") (auto simp: cr_allowed_permits Let_def)
    next
      case False
      with x \<open>policy_permits ck a\<close> show ?thesis
        by (auto simp: cr_allowed_permits Let_def loop_phase_def)
    qed
  qed
qed

text \<open>The results the loop writes: one per action it came to, in order.\<close>

definition matches :: "checker \<Rightarrow> remediation_action \<Rightarrow> action_result \<Rightarrow> bool" where
  "matches ck a r \<longleftrightarrow> ares_status r \<in> {''Skipped'', ''Success'', ''Failed'', ''RolledBack''} \<and>
     (ares_status r = ''Skipped'' \<longleftrightarrow> \<not> policy_permits ck a) \<and>
     (ares_executed_at r = None \<longleftrightarrow> ares_status r = ''Skipped'')"

definition results_of :: "checker \<Rightarrow> remediation_action list \<Rightarrow> action_result list \<Rightarrow> bool" where
  "results_of ck as rs \<longleftrightarrow> map ares_index rs = map int [0..<length rs] \<and> list_all2 (matches ck) as rs"

lemma results_of_Nil [simp]: "results_of ck [] []"
  by (simp add: results_of_def)

lemma results_of_snoc:
  "results_of ck as rs \<Longrightarrow> ares_index r = int (length as) \<Longrightarrow> matches ck a r \<Longrightarrow>
   results_of ck (as @ [a]) (rs @ [r])"
  by (auto simp: results_of_def list_all2_lengthD intro!: list_all2_appendI)

lemma matches_skipped: "\<not> policy_permits ck a \<Longrightarrow> matches ck a (skipped i m)"
  by (simp add: matches_def skipped_def)

lemma matches_executed: "policy_permits ck a \<Longrightarrow> matches ck a (executed i r now)"
  by (simp add: matches_def executed_def status_from_result_def)

lemma length_rollback [simp]: "length (rollback n rs) = length rs"
  by (simp add: rollback_def)

lemma rollback_nth:
  "j < length rs \<Longrightarrow> rollback n rs ! j =
     (if j < n \<and> ares_status (rs ! j) = ''Success'' then (rs ! j)\<lparr>ares_status := ''RolledBack''\<rparr> else rs ! j)"
  by (simp add: rollback_def nth_enumerate_eq)

lemma results_of_rollback:
  assumes "results_of ck as rs"
  shows "results_of ck as (rollback n rs)"
proof -
  have "map ares_index (rollback n rs) = map ares_index rs"
    by (rule nth_equalityI) (auto simp: rollback_nth)
  moreover have "list_all2 (matches ck) as (rollback n rs)"
    using assms unfolding results_of_def list_all2_conv_all_nth
    by (auto simp: rollback_nth matches_def)
  ultimately show ?thesis using assms by (simp add: results_of_def)
qed

definition undone :: "action_result list \<Rightarrow> bool" where
  "undone rs \<longleftrightarrow> rs \<noteq> [] \<and> ares_status (last rs) = ''Failed'' \<and> (\<forall>r \<in> set rs. ares_status r \<noteq> ''Success'')"

lemma undone_rollback:
  assumes "length rs = n" "ares_status r = ''Failed''"
  shows "undone (rollback n (rs @ [r]))"
proof -
  have "rollback n (rs @ [r]) ! n = r"
    using assms by (simp add: rollback_nth nth_append)
  moreover have "last (rollback n (rs @ [r])) = rollback n (rs @ [r]) ! n"
    using assms by (subst last_conv_nth) (auto simp flip: length_0_conv)
  moreover have "ares_status (rollback n (rs @ [r]) ! j) \<noteq> ''Success''" if "j < Suc n" for j
    using that assms by (cases "j = n") (auto simp: rollback_nth nth_append)
  ultimately show ?thesis
    using assms by (auto simp: undone_def in_set_conv_nth simp flip: length_0_conv)
qed

lemma run_actions_results:
  assumes "run_actions now reg ck rb (length done) as st ok c = (Some (st1, ok1), c1)"
    and "results_of ck done (rst_results st)" "rst_phase st \<noteq> ''RolledBack''"
  shows "\<exists>more. results_of ck (done @ more) (rst_results st1) \<and> prefix more as \<and>
    (if rst_phase st1 = ''RolledBack'' then undone (rst_results st1) else more = as)"
  using assms
proof (induction as arbitrary: "done" st ok c)
  case Nil
  then show ?case by auto
next
  case (Cons a as)
  let ?i = "length done"
  have len: "length (rst_results st) = ?i"
    using Cons.prems(2) by (auto simp: results_of_def dest: list_all2_lengthD)
  have go: ?case if "run_actions now reg ck rb (length (done @ [a])) as (st\<lparr>rst_results := rst_results st @ [r]\<rparr>) ok2 c2
      = (Some (st1, ok1), c1)" "results_of ck (done @ [a]) (rst_results st @ [r])" for r ok2 c2
    using Cons.IH[OF that(1)] that(2) Cons.prems(3) by (auto split: if_splits)
  show ?case
  proof (cases "policy_permits ck a")
    case False
    with Cons.prems(1) show ?thesis
      by (intro go[of "skipped ?i (''Blocked by safety: '' @ cr_reason (check_action ck a))" ok c])
        (auto simp: cr_allowed_permits Let_def matches_skipped skipped_def
          intro!: results_of_snoc Cons.prems(2) matches_skipped[unfolded skipped_def])
  next
    case True
    obtain r c2 where x: "execute_action reg a c = (Some r, c2)"
      using Cons.prems(1) True
      by (cases "execute_action reg a c") (auto simp: cr_allowed_permits Let_def split: option.splits)
    have res: "results_of ck (done @ [a]) (rst_results st @ [executed ?i r (now c2)])"
      using Cons.prems(2) True by (intro results_of_snoc matches_executed) (auto simp: executed_def)
    show ?thesis
    proof (cases "tr_success r \<or> \<not> rb")
      case t: True
      with Cons.prems(1) True x res show ?thesis
        by (intro go[of "executed ?i r (now c2)" "ok \<and> tr_success r" c2])
          (auto simp: cr_allowed_permits Let_def split: if_splits)
    next
      case False
      with Cons.prems(1) True x have st1: "rst_results st1 = rollback ?i (rst_results st @ [executed ?i r (now c2)])"
        "rst_phase st1 = ''RolledBack''"
        by (auto simp: cr_allowed_permits Let_def)
      have "undone (rst_results st1)" unfolding st1(1)
        using len False by (intro undone_rollback) (auto simp: executed_def status_from_result_def)
      with st1 results_of_rollback[OF res, of ?i] show ?thesis
        by (intro exI[of _ "[a]"]) (auto simp: prefix_def)
    qed
  qed
qed

end
