(* ===== verification/Remediation_Props.thy ===== *)
theory Remediation_Props
  imports Remediation
begin

text \<open>
  The properties of safety checker, remediation tools and remediation controller, with a small
  concrete cluster for their witnesses: it holds one plan and a log of what the tools did.
\<close>

section \<open>A concrete cluster\<close>

record demo_cluster =
  dm_plan :: remediation_plan
  dm_log :: "string list"

definition demo_log :: "string \<Rightarrow> demo_cluster \<Rightarrow> demo_cluster" where
  "demo_log s c = c\<lparr>dm_log := dm_log c @ [s]\<rparr>"

definition demo_error :: api_error where
  "demo_error = \<lparr>ae_reason = OtherReason, ae_message = ''boom''\<rparr>"

text \<open>Patching the resource named \<open>broken\<close> fails, everything else works.\<close>

definition demo_kube :: "(unit, demo_cluster) kube" where
  "demo_kube = \<lparr>k_get = (\<lambda>g ns n c. Inr ()),
     k_patch = (\<lambda>g ns n p c. if n = ''broken'' then (Inl demo_error, c) else (Inr (), demo_log (n @ p) c)),
     k_delete = (\<lambda>g ns n c. (None, demo_log (''delete '' @ n) c)),
     k_create = (\<lambda>g ns x c. (Inr (), c)), k_update = (\<lambda>g ns x c. (Inr (), c)),
     k_new_clientset = (\<lambda>c. None), k_get_node = (\<lambda>n c. None),
     k_patch_node = (\<lambda>n p c. (None, demo_log (n @ p) c)),
     k_list_failed_pods = (\<lambda>ns c. Inr []), k_delete_pod = (\<lambda>ns n c. (None, c)),
     k_run = (\<lambda>cmd t c. (\<lparr>cmd_stdout = [], cmd_stderr = [], cmd_failed = False, cmd_timed_out = False,
       cmd_exit_code = None\<rparr>, demo_log cmd c)),
     k_now = (\<lambda>c. []), o_api_version = (\<lambda>x. []), o_kind = (\<lambda>x. []), o_name = (\<lambda>x. []),
     o_namespace = (\<lambda>x. []), o_resource_version = (\<lambda>x. []), o_set_resource_version = (\<lambda>v x. x),
     o_without_managed_fields = (\<lambda>x. x), o_json = (\<lambda>x. []), o_json_indent = (\<lambda>x. []),
     json_indent = (\<lambda>x. []), unmarshal_object = (\<lambda>s. Inr ()), yaml_to_json = Inr\<rparr>"

definition demo_api :: "(remediation_plan, demo_cluster) api_client" where
  "demo_api = \<lparr>ac_get = (\<lambda>n c. Inr (dm_plan c)), ac_update = (\<lambda>p c. (Inr p, c\<lparr>dm_plan := p\<rparr>)),
     ac_status_update = (\<lambda>p c. (Inr p, c\<lparr>dm_plan := p\<rparr>))\<rparr>"

definition demo_env :: "demo_cluster rem_env" where
  "demo_env = \<lparr>re_api = demo_api, re_list_configs = (\<lambda>c. Inr []), re_new_remediator = (\<lambda>c. None),
     re_now = (\<lambda>c. 7)\<rparr>"

definition demo_target :: "string \<Rightarrow> resource_ref" where
  "demo_target n = \<lparr>rr_api_version = ''apps/v1'', rr_kind = ''Deployment'', rr_namespace = ''web'', rr_name = n\<rparr>"

definition demo_action :: "string \<Rightarrow> string \<Rightarrow> string \<Rightarrow> string \<Rightarrow> remediation_action" where
  "demo_action ty risk n patch = \<lparr>ra_type = ty, ra_description = [], ra_risk = risk, ra_target = Some (demo_target n),
     ra_patch = patch, ra_replicas = Some 5, ra_manifest = [], ra_command = [], ra_timeout = []\<rparr>"

definition demo_meta :: object_meta where
  "demo_meta = \<lparr>om_name = ''p'', om_generate_name = [], om_namespace = ''web'', om_labels = Map.empty,
     om_finalizers = [], om_deleting = False, om_created = 0\<rparr>"

definition demo_status :: "string \<Rightarrow> remediation_plan_status" where
  "demo_status ph = \<lparr>rst_phase = ph, rst_results = [], rst_started_at = None, rst_completed_at = None,
     rst_summary = [], rst_approved_by = []\<rparr>"

definition demo_plan :: "string \<Rightarrow> bool \<Rightarrow> remediation_action list \<Rightarrow> remediation_plan" where
  "demo_plan ph rb as = \<lparr>rp_meta = demo_meta, rp_spec = \<lparr>rps_diagnostic_ref = [], rps_actions = as,
     rps_mode = ''auto'', rps_rollback_on_failure = rb\<rparr>, rp_status = demo_status ph\<rparr>"

definition demo_at :: "remediation_plan \<Rightarrow> demo_cluster" where
  "demo_at p = \<lparr>dm_plan = p, dm_log = []\<rparr>"

lemmas demo_defs = demo_env_def demo_api_def demo_at_def demo_plan_def demo_status_def demo_meta_def
  demo_action_def demo_target_def

section \<open>The safety policy\<close>

text \<open>C1. CheckAction decides the configured policy: it allows an action exactly when no denied
  operation matches its type, an allow list (if any) has its type, its target's namespace is not
  denied and is in the allow list (if any), its risk is not above the maximum, and no protected
  resource matches its target; and a refusal always names a reason.\<close>

theorem check_action_policy:
  "(cr_allowed (check_action ck a) \<longleftrightarrow> policy_permits ck a) \<and>
   (cr_reason (check_action ck a) = [] \<longleftrightarrow> policy_permits ck a) \<and>
   cr_risk_level (check_action ck a) = action_risk a"
proof -
  have "cr_reason (check_action ck a) = [] \<longleftrightarrow> cr_allowed (check_action ck a)"
    by (auto simp: check_action_def Let_def deny_def check_stages split: option.splits if_splits)
  moreover have "cr_risk_level (check_action ck a) = action_risk a"
    by (simp add: check_action_def Let_def deny_def split: option.splits)
  ultimately show ?thesis by (simp add: cr_allowed_permits)
qed

text \<open>The reach of the risk limit and the namespace lists: an action whose risk is not one of
  low, medium, high and critical passes every limit, and an action that names no namespace passes
  every namespace list.\<close>

theorem policy_gaps:
  "(action_risk a \<notin> {''low'', ''medium'', ''high'', ''critical''} \<longrightarrow> check_risk ck a = None) \<and>
   ((\<forall>t. ra_target a = Some t \<longrightarrow> rr_namespace t = []) \<longrightarrow> check_namespace ck a = None)"
  using risk_rank_unknown[of "action_risk a"] risk_rank_range[of "max_risk ck"]
  by (auto simp: check_risk_def check_namespace_def split: option.splits)

definition strict_checker :: checker where
  "strict_checker = new_checker None (Some \<lparr>ar_enabled = True, max_risk_level = ''low'',
     namespace_allow_list = [''dev''], namespace_deny_list = [''web''], ar_dry_run = False,
     max_concurrent_remediations = 1\<rparr>)"

theorem policy_gaps_witness:
  "check_risk strict_checker (demo_action ''patchResource'' ''extreme'' ''x'' []) = None \<and>
   check_risk strict_checker (demo_action ''patchResource'' ''high'' ''x'' []) \<noteq> None \<and>
   check_namespace strict_checker ((demo_action ''runCommand'' ''high'' ''x'' [])\<lparr>ra_target := None\<rparr>) = None"
proof -
  have "check_risk strict_checker (demo_action ''patchResource'' ''extreme'' ''x'' []) = None"
    by (rule policy_gaps[THEN conjunct1, rule_format]) (simp add: action_risk_def demo_action_def to_lower_def lower_char_def)
  moreover have "check_namespace strict_checker ((demo_action ''runCommand'' ''high'' ''x'' [])\<lparr>ra_target := None\<rparr>) = None"
    by (rule policy_gaps[THEN conjunct2, rule_format]) simp
  moreover have "check_risk strict_checker (demo_action ''patchResource'' ''high'' ''x'' []) \<noteq> None"
    by (simp add: check_risk_def max_risk_def strict_checker_def new_checker_def action_risk_def demo_action_def
        to_lower_def lower_char_def risk_rank_def risk_levels_def)
  ultimately show ?thesis by simp
qed

section \<open>Executing a plan\<close>

lemma reconcile_runs:
  assumes "ac_get (re_api E) n c = Inr p" "\<not> om_deleting (rp_meta p)" "awaits (rst_phase (rp_status p))"
    and "plan_mode p \<noteq> ''dry-run''"
    and "ac_status_update (re_api E) (p\<lparr>rp_status := (rp_status p)\<lparr>rst_phase := ''Executing'',
      rst_started_at := Some (re_now E c)\<rparr>\<rparr>) c = (Inr p1, c1)"
  shows "rem_reconcile E K n c = execute_plan E K (safety_of (re_list_configs E c)) p1 c1"
  using assms by (simp add: rem_reconcile_def Let_def)

lemma conclude_phase:
  "rst_phase (conclude t n ok st) =
     (if rst_phase st = ''RolledBack'' then ''RolledBack'' else if ok then ''Completed'' else ''Failed'')"
  by (simp add: conclude_def Let_def)

lemma conclude_results [simp]: "rst_results (conclude t n ok st) = rst_results st"
  by (simp add: conclude_def Let_def)

lemma execute_plan_effect:
  assumes "re_new_remediator E c = None" "rst_phase (rp_status p) = ''Executing''"
    and "(good, c2) = apply_all (build_tool_registry K) (rps_rollback_on_failure (rp_spec p))
      (filter (policy_permits ck) (rps_actions (rp_spec p))) True c"
  shows "\<exists>st. execute_plan E K ck p c = finish (re_api E) (p\<lparr>rp_status := st\<rparr>) c2 \<and>
    rst_phase st = (if good then ''Completed'' else if rps_rollback_on_failure (rp_spec p) then ''RolledBack''
      else ''Failed'') \<and>
    (rst_results (rp_status p) = [] \<longrightarrow> (\<exists>done. prefix done (rps_actions (rp_spec p)) \<and>
      results_of ck done (rst_results st) \<and>
      (if rst_phase st = ''RolledBack'' then undone (rst_results st) else done = rps_actions (rp_spec p))))"
proof -
  let ?rb = "rps_rollback_on_failure (rp_spec p)" and ?as = "rps_actions (rp_spec p)"
  obtain rs where r: "run_actions (re_now E) (build_tool_registry K) ck ?rb 0 ?as (rp_status p) True c =
      (Some ((rp_status p)\<lparr>rst_results := rs, rst_phase := loop_phase ?rb good ''Executing''\<rparr>, good), c2)"
    using run_actions_spec[of ?rb True _ K "re_now E" ck 0 ?as "rp_status p" c] assms(2,3)[symmetric] by auto
  let ?st = "conclude (re_now E c2) (length ?as) good
    ((rp_status p)\<lparr>rst_results := rs, rst_phase := loop_phase ?rb good ''Executing''\<rparr>)"
  have e: "execute_plan E K ck p c = finish (re_api E) (p\<lparr>rp_status := ?st\<rparr>) c2"
    using r assms(1) by (simp add: execute_plan_def)
  have ph: "rst_phase ?st = (if good then ''Completed'' else if ?rb then ''RolledBack'' else ''Failed'')"
    by (simp add: conclude_phase loop_phase_def)
  have "\<exists>done. prefix done ?as \<and> results_of ck done (rst_results ?st) \<and>
      (if rst_phase ?st = ''RolledBack'' then undone (rst_results ?st) else done = ?as)"
    if "rst_results (rp_status p) = []"
    using run_actions_results[of "re_now E" _ ck ?rb "[]" ?as "rp_status p" True c, unfolded list.size, OF r]
      that assms(2) by (auto simp: conclude_phase loop_phase_def split: if_splits)
  with e ph show ?thesis by blast
qed

text \<open>C2. What a plan does to the cluster. When the reconciler starts a waiting plan, the changes its
  tools make are those of executing, in order, exactly the actions the policy permits, up to and
  including the first failure if the plan asks for rollback, and the plan's phase says how that
  went. So an action the checker refuses never reaches a tool.\<close>

theorem plan_effect:
  assumes "ac_get (re_api E) n c = Inr p" "\<not> om_deleting (rp_meta p)" "awaits (rst_phase (rp_status p))"
    and "plan_mode p \<noteq> ''dry-run''"
    and "ac_status_update (re_api E) (p\<lparr>rp_status := (rp_status p)\<lparr>rst_phase := ''Executing'',
      rst_started_at := Some (re_now E c)\<rparr>\<rparr>) c = (Inr p1, c1)"
    and "rp_spec p1 = rp_spec p" "rst_phase (rp_status p1) = ''Executing''"
    and "re_new_remediator E c1 = None"
    and "(good, c2) = apply_all (build_tool_registry K) (rps_rollback_on_failure (rp_spec p))
      (filter (policy_permits (safety_of (re_list_configs E c))) (rps_actions (rp_spec p))) True c1"
  shows "\<exists>st. rem_reconcile E K n c = finish (re_api E) (p1\<lparr>rp_status := st\<rparr>) c2 \<and>
    rst_phase st = (if good then ''Completed'' else if rps_rollback_on_failure (rp_spec p) then ''RolledBack''
      else ''Failed'')"
proof -
  note run = reconcile_runs[OF assms(1-5), of K]
  obtain st where "execute_plan E K (safety_of (re_list_configs E c)) p1 c1 =
      finish (re_api E) (p1\<lparr>rp_status := st\<rparr>) c2"
    "rst_phase st = (if good then ''Completed'' else if rps_rollback_on_failure (rp_spec p) then ''RolledBack''
      else ''Failed'')"
    using execute_plan_effect[OF assms(8,7) assms(9)[folded assms(6)]] assms(6) by auto
  with run show ?thesis by metis
qed

text \<open>A plan of three actions: the first is permitted, the second has too high a risk, the third
  fails. The default policy allows medium risk.\<close>

definition demo_three :: "bool \<Rightarrow> remediation_plan" where
  "demo_three rb = demo_plan [] rb [demo_action ''patchResource'' ''low'' ''good'' ''P1'',
     demo_action ''patchResource'' ''high'' ''risky'' ''P2'', demo_action ''patchResource'' ''low'' ''broken'' ''P3'']"

lemma demo_three_permits:
  "filter (policy_permits (safety_of (re_list_configs demo_env c))) (rps_actions (rp_spec (demo_three rb))) =
     [demo_action ''patchResource'' ''low'' ''good'' ''P1'', demo_action ''patchResource'' ''low'' ''broken'' ''P3'']"
  by (simp add: demo_three_def demo_defs safety_of_def new_checker_def policy_permits_def action_risk_def
      max_risk_def risk_rank_def risk_levels_def to_lower_def lower_char_def)

lemma demo_patch:
  "execute_action (build_tool_registry demo_kube) (demo_action ''patchResource'' ''low'' n pt) c =
     (if n = ''broken'' then (Some (failed_result ''patch failed: boom''), c)
      else (Some \<lparr>tr_success = True, tr_output = [], tr_error = []\<rparr>, demo_log (n @ pt) c))"
  if "n \<noteq> []" "pt \<noteq> []" for n pt c
  using that
  by (simp add: execute_action_def action_type_to_tool_def demo_action_def build_tool_registry_get
      rem_tools_def rem_tool_defs patch_resource_def Let_def action_args_def target_args_def put_nonempty_def
      node_args_def demo_target_def demo_kube_def parse_gvr_def get_string_def string_or_empty_def
      get_string_default_def tool_fail_def tool_ok_def failed_result_def demo_error_def)

theorem plan_effect_witness:
  "dm_log (snd (rem_reconcile demo_env demo_kube (''web'', ''p'') (demo_at (demo_three True)))) = [''goodP1''] \<and>
   rst_phase (rp_status (dm_plan (snd (rem_reconcile demo_env demo_kube (''web'', ''p'') (demo_at (demo_three True)))))) =
     ''RolledBack''"
proof -
  let ?c = "demo_at (demo_three True)" and ?p = "demo_three True"
  let ?p1 = "?p\<lparr>rp_status := (rp_status ?p)\<lparr>rst_phase := ''Executing'', rst_started_at := Some 7\<rparr>\<rparr>"
  have "\<exists>st. rem_reconcile demo_env demo_kube (''web'', ''p'') ?c =
      finish (re_api demo_env) (?p1\<lparr>rp_status := st\<rparr>) (demo_log ''goodP1'' (?c\<lparr>dm_plan := ?p1\<rparr>)) \<and>
      rst_phase st = (if False then ''Completed'' else if rps_rollback_on_failure (rp_spec ?p) then ''RolledBack''
        else ''Failed'')"
  proof (rule plan_effect[where c = ?c and ?c1.0 = "?c\<lparr>dm_plan := ?p1\<rparr>" and p = ?p])
    show "(False, demo_log ''goodP1'' (?c\<lparr>dm_plan := ?p1\<rparr>)) = apply_all (build_tool_registry demo_kube)
        (rps_rollback_on_failure (rp_spec ?p)) (filter (policy_permits (safety_of (re_list_configs demo_env ?c)))
          (rps_actions (rp_spec ?p))) True (?c\<lparr>dm_plan := ?p1\<rparr>)"
      unfolding demo_three_permits by (simp add: demo_patch failed_result_def)
  qed (simp_all add: demo_three_def demo_defs plan_mode_def awaits_def)
  then show ?thesis
    by (auto simp: finish_def demo_env_def demo_api_def demo_at_def demo_log_def demo_three_def demo_plan_def)
qed

text \<open>C3. What a plan reports. The results written for a started plan are one per action in order,
  numbered from 0, for all actions or (after a rollback) a prefix of them; a result says Skipped
  exactly when the policy refuses its action; and after a rollback the last result is the failure
  and no earlier action is still reported as a success.\<close>

theorem plan_results:
  assumes "ac_get (re_api E) n c = Inr p" "\<not> om_deleting (rp_meta p)" "awaits (rst_phase (rp_status p))"
    and "plan_mode p \<noteq> ''dry-run''"
    and "ac_status_update (re_api E) (p\<lparr>rp_status := (rp_status p)\<lparr>rst_phase := ''Executing'',
      rst_started_at := Some (re_now E c)\<rparr>\<rparr>) c = (Inr p1, c1)"
    and "rp_spec p1 = rp_spec p" "rst_phase (rp_status p1) = ''Executing''" "rst_results (rp_status p1) = []"
    and "re_new_remediator E c1 = None"
  shows "\<exists>st done c2. rem_reconcile E K n c = finish (re_api E) (p1\<lparr>rp_status := st\<rparr>) c2 \<and>
    prefix done (rps_actions (rp_spec p)) \<and>
    results_of (safety_of (re_list_configs E c)) done (rst_results st) \<and>
    (if rst_phase st = ''RolledBack'' then undone (rst_results st) else done = rps_actions (rp_spec p))"
proof -
  note run = reconcile_runs[OF assms(1-5), of K]
  show ?thesis
    unfolding run
    using execute_plan_effect[OF assms(9,7) prod.collapse, of K "safety_of (re_list_configs E c)"]
    unfolding assms(6) using assms(8) by meson
qed

theorem plan_results_witness:
  "map ares_status (rst_results (rp_status (dm_plan (snd (rem_reconcile demo_env demo_kube (''web'', ''p'')
     (demo_at (demo_plan [] False [demo_action ''patchResource'' ''high'' ''risky'' ''P2''])))))))= [''Skipped'']"
proof -
  let ?a = "demo_action ''patchResource'' ''high'' ''risky'' ''P2''"
  let ?p = "demo_plan [] False [?a]"
  let ?c = "demo_at ?p"
  let ?ck = "safety_of (re_list_configs demo_env ?c)"
  let ?p1 = "?p\<lparr>rp_status := (rp_status ?p)\<lparr>rst_phase := ''Executing'', rst_started_at := Some 7\<rparr>\<rparr>"
  have "\<exists>st done c2. rem_reconcile demo_env demo_kube (''web'', ''p'') ?c =
      finish (re_api demo_env) (?p1\<lparr>rp_status := st\<rparr>) c2 \<and> prefix done (rps_actions (rp_spec ?p)) \<and>
      results_of ?ck done (rst_results st) \<and>
      (if rst_phase st = ''RolledBack'' then undone (rst_results st) else done = rps_actions (rp_spec ?p))"
    by (rule plan_results[where ?c1.0 = "?c\<lparr>dm_plan := ?p1\<rparr>"])
      (simp_all add: demo_defs plan_mode_def awaits_def)
  moreover have "\<not> policy_permits ?ck ?a"
    by (simp add: demo_defs safety_of_def new_checker_def policy_permits_def action_risk_def
      max_risk_def risk_rank_def risk_levels_def to_lower_def lower_char_def)
  ultimately show ?thesis
    by (auto simp: finish_def demo_env_def demo_api_def demo_at_def demo_plan_def results_of_def
        matches_def undone_def list_all2_Cons1 prefix_Cons split: if_splits)
qed

text \<open>C4. Approval in the dashboard takes a plan out of the reconciler's hands: approving a pending
  plan stores the phase Approved and the approver, and from then on, whatever else happens in the
  cluster while the plan stays in such a phase, the reconciler's runs for it change nothing, so its
  actions are never executed.\<close>

theorem approved_plan_rests:
  assumes "CHR ''/'' \<notin> set ns" "CHR ''/'' \<notin> set name"
    and "ac_get (re_api E) (ns, name) c = Inr p" "rst_phase (rp_status p) = ''Pending''"
    and "ac_status_update (re_api E) (p\<lparr>rp_status := (rp_status p)\<lparr>rst_phase := ''Approved'',
      rst_approved_by := user_name u\<rparr>\<rparr>) c = (Inr p1, c1)"
    and "rst_phase (rp_status p1) = ''Approved''" "\<not> om_deleting (rp_meta p1)"
    and "ac_get (re_api E) (ns, name) c1 = Inr p1"
    and "\<And>f c. f \<in> set (others ss) \<Longrightarrow> rem.at_rest E (ns, name) c \<Longrightarrow> rem.at_rest E (ns, name) (f c)"
  shows "handle_remediation_action (re_api E) u ''POST'' (''/api/remediation/'' @ ns @ ''/'' @ name @ ''/approve'') c =
      (write_json (AObject [(''status'', AString ''ok''), (''phase'', AString ''Approved'')]), c1) \<and>
    fold (do_step (rem_reconcile E K (ns, name))) ss c1 = fold (\<lambda>f. f) (others ss) c1"
proof -
  have "split_on (CHR ''/'') (ns @ CHR ''/'' # name @ CHR ''/'' # ''approve'') = [ns, name, ''approve'']"
    using assms(1,2) by (simp add: split_on_skip split_on_no_sep)
  then have "handle_remediation_action (re_api E) u ''POST'' (''/api/remediation/'' @ ns @ ''/'' @ name @ ''/approve'') c =
      (write_json (AObject [(''status'', AString ''ok''), (''phase'', AString ''Approved'')]), c1)"
    using assms(3-6) trim_prefix_append[of "''/api/remediation/''" "ns @ ''/'' @ name @ ''/approve''"]
    by (simp add: handle_remediation_action_def decide_def)
  moreover have "rem.at_rest E (ns, name) c1"
    using assms(6-8) by (simp add: rem.at_rest_def rem_idle_def awaits_def)
  ultimately show ?thesis using rem.at_rest_schedule[of E "(ns, name)" c1 ss K] assms(9) by blast
qed

theorem approved_plan_rests_witness:
  "let c1 = snd (handle_remediation_action demo_api (Some ''eve'') ''POST'' ''/api/remediation/web/p/approve''
      (demo_at (demo_plan ''Pending'' True [demo_action ''patchResource'' ''low'' ''good'' ''P1'']))) in
   dm_log (fold (do_step (rem_reconcile demo_env demo_kube (''web'', ''p''))) [Reconcile, Reconcile] c1) = [] \<and>
   rst_phase (rp_status (dm_plan c1)) = ''Approved''"
proof -
  let ?p = "demo_plan ''Pending'' True [demo_action ''patchResource'' ''low'' ''good'' ''P1'']"
  let ?p1 = "?p\<lparr>rp_status := (rp_status ?p)\<lparr>rst_phase := ''Approved'', rst_approved_by := ''eve''\<rparr>\<rparr>"
  have "handle_remediation_action (re_api demo_env) (Some ''eve'') ''POST''
        (''/api/remediation/'' @ ''web'' @ ''/'' @ ''p'' @ ''/approve'') (demo_at ?p) =
      (write_json (AObject [(''status'', AString ''ok''), (''phase'', AString ''Approved'')]), (demo_at ?p)\<lparr>dm_plan := ?p1\<rparr>) \<and>
    fold (do_step (rem_reconcile demo_env demo_kube (''web'', ''p''))) [Reconcile, Reconcile] ((demo_at ?p)\<lparr>dm_plan := ?p1\<rparr>) =
      fold (\<lambda>f. f) (others [Reconcile, Reconcile]) ((demo_at ?p)\<lparr>dm_plan := ?p1\<rparr>)"
    by (rule approved_plan_rests[where p = ?p and ?p1.0 = ?p1]) (simp_all add: demo_defs user_name_def)
  then show ?thesis by (simp add: demo_env_def demo_at_def demo_plan_def Let_def)
qed

text \<open>C5. The number of replicas of a plan never reaches the cluster: a scaleResource action sends,
  whatever its Replicas field says, the patch that sets one replica, because the field is stored
  as an int32 and read back as an int or a float64.\<close>

theorem scale_ignores_replicas:
  assumes "ra_type a = ''scaleResource''" "ra_target a = Some t"
  shows "snd (execute_action (build_tool_registry K) a c) = snd (patch_resource K
     [''apiVersion'' \<mapsto> AString (rr_api_version t), ''kind'' \<mapsto> AString (rr_kind t),
      ''name'' \<mapsto> AString (rr_name t), ''namespace'' \<mapsto> AString (rr_namespace t),
      ''patch'' \<mapsto> AString ''{\"spec\":{\"replicas\":1}}''] c)"
proof -
  have p: "replicas_patch 1 = ''{\"spec\":{\"replicas\":1}}''"
    by code_simp
  have "snd (execute_action (build_tool_registry K) a c) = snd (scale_resource K (action_args a) c)"
    using assms by (simp add: execute_action_def action_type_to_tool_def build_tool_registry_get
        rem_tools_def rem_tool_defs split: prod.splits option.splits)
  moreover have "get_int_default (action_args a) ''replicas'' 1 = 1"
    using assms by (simp add: get_int_default_def action_args_def target_args_def put_nonempty_def node_args_def
        Let_def split: option.splits)
  moreover have "get_string_default (action_args a) ''apiVersion'' [] = rr_api_version t"
    "get_string_default (action_args a) ''kind'' [] = rr_kind t"
    "get_string_default (action_args a) ''name'' [] = rr_name t"
    "get_string_default (action_args a) ''namespace'' ''default'' = rr_namespace t"
    using assms by (auto simp: get_string_default_def action_args_def target_args_def put_nonempty_def
        node_args_def Let_def split: option.splits)
  ultimately show ?thesis by (simp add: scale_resource_effect p)
qed

theorem scale_ignores_replicas_witness:
  "dm_log (snd (execute_action (build_tool_registry demo_kube) (demo_action ''scaleResource'' ''low'' ''good'' [])
     (demo_at (demo_three True)))) = [''good{\"spec\":{\"replicas\":1}}'']"
proof -
  have "snd (execute_action (build_tool_registry demo_kube) (demo_action ''scaleResource'' ''low'' ''good'' [])
     (demo_at (demo_three True))) = snd (patch_resource demo_kube
     [''apiVersion'' \<mapsto> AString ''apps/v1'', ''kind'' \<mapsto> AString ''Deployment'',
      ''name'' \<mapsto> AString ''good'', ''namespace'' \<mapsto> AString ''web'',
      ''patch'' \<mapsto> AString ''{\"spec\":{\"replicas\":1}}''] (demo_at (demo_three True)))"
    using scale_ignores_replicas[of "demo_action ''scaleResource'' ''low'' ''good'' []" "demo_target ''good''" demo_kube]
    by (simp add: demo_action_def demo_target_def)
  then show ?thesis
    by (simp add: patch_resource_def Let_def parse_gvr_def get_string_def get_string_default_def
        string_or_empty_def demo_kube_def demo_log_def demo_at_def)
qed

end
