(* ===== verification/Access.thy ===== *)
theory Access
  imports Auth_Props Remediation_Props
begin

text \<open>
  Who a request of the dashboard acts as: the impersonating clients (internal/dashboard/
  impersonation.go), the middlewares the server puts around its routes and the route of the
  remediation plans (internal/dashboard/server.go). The world holds the database and the cluster.
\<close>

section \<open>Groups\<close>

definition split_namespaces :: "string \<Rightarrow> string list" where
  "split_namespaces s = filter (\<lambda>p. p \<noteq> []) (map trim_space (split_on (CHR '','') s))"

definition role_to_groups :: "string \<Rightarrow> string \<Rightarrow> string list" where
  "role_to_groups role nss =
     (if role = ''admin'' then [''k8ops:admin'']
      else if role = ''operator'' then [''k8ops:operator'']
      else if role = ''viewer'' then [''k8ops:viewer'']
      else if role = ''ns-admin'' then map (\<lambda>ns. ''k8ops:ns-admin:'' @ ns) (split_namespaces nss)
      else if role = ''ns-viewer'' then map (\<lambda>ns. ''k8ops:ns-viewer:'' @ ns) (split_namespaces nss)
      else if role \<noteq> [] then [''k8ops:'' @ role] else [''k8ops:viewer''])"

section \<open>Clients\<close>

text \<open>The client libraries are parameters: a client is made for an impersonation, or not.\<close>

record impersonation =
  im_user_name :: string
  im_groups :: "string list"

record ('cs, 'd) request_clients =
  rqc_clientset :: 'cs
  rqc_ctrl_client :: "(remediation_plan, 'd) api_client"
  rqc_impersonate :: "impersonation option"
  rqc_user :: "user option"

record ('cs, 'd) dash_server =
  ds_clientset :: 'cs
  ds_k8s_client :: "(remediation_plan, 'd) api_client"
  ds_new_for_config :: "impersonation \<Rightarrow> string + 'cs"
  ds_client_new :: "impersonation \<Rightarrow> string + (remediation_plan, 'd) api_client"
  ds_auth_required :: bool

definition impersonate_as :: "user \<Rightarrow> impersonation" where
  "impersonate_as u = \<lparr>im_user_name = us_username u, im_groups = role_to_groups (us_role u) (us_allowed_namespaces u)\<rparr>"

text \<open>A handler of the dashboard also finds the clients of the request in its context, if they were set.\<close>

type_synonym ('cs, 'd) dash_handler =
  "user option \<Rightarrow> ('cs, 'd) request_clients option \<Rightarrow> http_req \<Rightarrow> 'd \<Rightarrow> http_resp \<times> 'd"

definition impersonation_middleware :: "('cs, 'd) dash_server \<Rightarrow> ('cs, 'd) dash_handler \<Rightarrow> 'd handler" where
  "impersonation_middleware s next_handler user rq d = (case user of
     None \<Rightarrow> next_handler user None rq d
   | Some u \<Rightarrow> (case ds_new_for_config s (impersonate_as u) of
       Inl _ \<Rightarrow> next_handler user None rq d
     | Inr cs \<Rightarrow> (case ds_client_new s (impersonate_as u) of
         Inl _ \<Rightarrow> next_handler user None rq d
       | Inr c \<Rightarrow> next_handler user (Some \<lparr>rqc_clientset = cs, rqc_ctrl_client = c,
           rqc_impersonate = Some (impersonate_as u), rqc_user = user\<rparr>) rq d)))"

definition clients_from_req :: "('cs, 'd) dash_server \<Rightarrow> ('cs, 'd) request_clients option \<Rightarrow> ('cs, 'd) request_clients" where
  "clients_from_req s rcs = (case rcs of
     Some rc \<Rightarrow> rc
   | None \<Rightarrow> \<lparr>rqc_clientset = ds_clientset s, rqc_ctrl_client = ds_k8s_client s, rqc_impersonate = None, rqc_user = None\<rparr>)"

definition can_edit :: "user option \<Rightarrow> bool" where
  "can_edit user = (case user of None \<Rightarrow> True
     | Some u \<Rightarrow> us_role u = ''admin'' \<or> us_role u = ''operator'' \<or> us_role u = ''ns-admin'')"

definition can_manage :: "user option \<Rightarrow> bool" where
  "can_manage user = (case user of None \<Rightarrow> True | Some u \<Rightarrow> us_role u = ''admin'')"

definition describe_role_for_log :: "user option \<Rightarrow> string" where
  "describe_role_for_log user = (case user of None \<Rightarrow> ''anonymous''
     | Some u \<Rightarrow> if us_allowed_namespaces u \<noteq> [] then us_role u @ ''('' @ us_allowed_namespaces u @ '')'' else us_role u)"

section \<open>The server\<close>

definition auth_fail_closed :: "'d handler \<Rightarrow> 'd handler" where
  "auth_fail_closed next_handler user rq d =
     (if \<not> has_prefix (rq_path rq) ''/api/'' then next_handler user rq d
      else if rq_path rq = ''/healthz'' \<or> rq_path rq = ''/readyz'' then next_handler user rq d
      else (respond 503 (AObject [(''error'', AString ''Authentication system unavailable''),
        (''detail'', AString ''The authentication database failed to initialize. Access is blocked for security. Check pod logs for details.'')]), d))"

definition admin_only_middleware :: "('cs, 'd) dash_handler \<Rightarrow> ('cs, 'd) dash_handler" where
  "admin_only_middleware next_handler user rcs rq d =
     (case user of None \<Rightarrow> (write_error 403 ''admin role required'', d)
      | Some u \<Rightarrow> if us_role u \<noteq> ''admin'' then (write_error 403 ''admin role required'', d)
        else next_handler user rcs rq d)"

definition remediation_route :: "('cs, 'd) dash_server \<Rightarrow> ('cs, 'd) dash_handler" where
  "remediation_route s user rcs rq d =
     handle_remediation_action (rqc_ctrl_client (clients_from_req s rcs)) (map_option us_username user)
       (rq_method rq) (rq_path rq) d"

text \<open>
  The multiplexer redirects a path that has empty, \<open>.\<close> or \<open>..\<close> segments and otherwise picks the
  handler of the longest pattern; no pattern is longer than this one under its prefix. \<open>rest\<close> stands
  for the handlers of the other patterns.
\<close>

definition clean_path :: "string \<Rightarrow> bool" where
  "clean_path path = (case split_on (CHR ''/'') path of
     [] # segs \<Rightarrow> list_all (\<lambda>x. x \<noteq> [] \<and> x \<noteq> ''.'' \<and> x \<noteq> ''..'') (butlast segs) \<and>
       segs \<noteq> [] \<and> last segs \<noteq> ''.'' \<and> last segs \<noteq> ''..''
   | _ \<Rightarrow> False)"

definition mux :: "('cs, 'd) dash_server \<Rightarrow> ('cs, 'd) dash_handler \<Rightarrow> ('cs, 'd) dash_handler" where
  "mux s rest user rcs rq d =
     (if clean_path (rq_path rq) \<and> has_prefix (rq_path rq) ''/api/remediation/''
      then remediation_route s user rcs rq d else rest user rcs rq d)"

definition serve :: "('cs, 'd) dash_server \<Rightarrow> 'd authenticator option \<Rightarrow> time \<Rightarrow> ('cs, 'd) dash_handler \<Rightarrow>
    http_req \<Rightarrow> 'd \<Rightarrow> http_resp \<times> 'd" where
  "serve s auth now rest rq d = (case auth of
     Some A \<Rightarrow> auth_middleware A now (impersonation_middleware s (mux s rest)) None rq d
   | None \<Rightarrow> if ds_auth_required s then auth_fail_closed (\<lambda>user. mux s rest user None) None rq d
       else mux s rest None None rq d)"

section \<open>Paths\<close>

lemma has_suffix_long: "length p \<le> length q \<Longrightarrow> has_suffix (xs @ q) p = has_suffix q p"
  unfolding has_suffix_def by (meson suffix_length_suffix suffixI suffix_order.trans)

text \<open>A segment of a path that the multiplexer passes on as it is.\<close>

definition plain_segment :: "string \<Rightarrow> bool" where
  "plain_segment x \<longleftrightarrow> x \<noteq> [] \<and> x \<noteq> ''.'' \<and> x \<noteq> ''..'' \<and> CHR ''/'' \<notin> set x"

lemma split_plan_path:
  assumes "plain_segment ns" "plain_segment name" "CHR ''/'' \<notin> set act"
  shows "split_on (CHR ''/'') (ns @ ''/'' @ name @ ''/'' @ act @ ''/'' @ extra) = ns # name # act # split_on (CHR ''/'') extra"
    "split_on (CHR ''/'') (ns @ ''/'' @ name @ ''/'' @ act) = [ns, name, act]"
  using assms by (simp_all add: plain_segment_def split_on_skip split_on_no_sep)

lemma clean_plan_path:
  assumes "plain_segment ns" "plain_segment name" "plain_segment act"
  shows "clean_path (''/api/remediation/'' @ ns @ ''/'' @ name @ ''/'' @ act @ ''/x.js'')"
    "clean_path (''/api/remediation/'' @ ns @ ''/'' @ name @ ''/'' @ act)"
proof -
  have "CHR ''/'' \<notin> set act" using assms(3) by (simp add: plain_segment_def)
  then have s: "split_on (CHR ''/'') (ns @ CHR ''/'' # name @ CHR ''/'' # act @ CHR ''/'' # ''x.js'') = [ns, name, act, ''x.js'']"
    "split_on (CHR ''/'') (ns @ CHR ''/'' # name @ CHR ''/'' # act) = [ns, name, act]"
    using split_plan_path(1)[OF assms(1,2), of act "''x.js''"] split_plan_path(2)[OF assms(1,2), of act]
    by (simp_all add: split_on_no_sep)
  show "clean_path (''/api/remediation/'' @ ns @ ''/'' @ name @ ''/'' @ act @ ''/x.js'')"
    "clean_path (''/api/remediation/'' @ ns @ ''/'' @ name @ ''/'' @ act)"
    using assms by (simp_all add: clean_path_def s plain_segment_def)
qed

section \<open>A concrete server\<close>

definition void_table :: "('d, 'r) table" where
  "void_table = mem_table (\<lambda>d. []) (\<lambda>rs d. d) (\<lambda>r. 0) (\<lambda>i r. r) (\<lambda>r. [])"

definition demo_gate :: "user list \<Rightarrow> demo_cluster authenticator" where
  "demo_gate us = \<lparr>
     au_store = \<lparr>st_users = mem_table (\<lambda>d. us) (\<lambda>rs d. d) us_id (\<lambda>i r. r\<lparr>us_id := i\<rparr>) us_username,
       st_keys = void_table, st_roles = void_table, st_bindings = void_table, st_providers = void_table\<rparr>,
     au_cfg = au_cfg demo_auth, au_bcrypt = demo_bcrypt, au_jwt = demo_jwt, au_sha256 = (\<lambda>s. s)\<rparr>"

text \<open>The impersonating clients of the instance are refused every write by the API server.\<close>

definition demo_server :: "(unit, demo_cluster) dash_server" where
  "demo_server = \<lparr>ds_clientset = (), ds_k8s_client = demo_api, ds_new_for_config = (\<lambda>im. Inr ()),
     ds_client_new = (\<lambda>im. if im_user_name im = ''mallory'' then Inl ''no REST mapping'' else Inr (demo_api\<lparr>ac_status_update :=
       (\<lambda>p c. (Inl \<lparr>ae_reason = OtherReason, ae_message = ''forbidden''\<rparr>, c))\<rparr>)), ds_auth_required = True\<rparr>"

lemma auth_gate_cookie: "rq_header rq ''Authorization'' = [] \<Longrightarrow> snd (auth_gate A now rq d) = d"
  by (auto simp: auth_gate_def Let_def split: option.split sum.split)

section \<open>Properties\<close>

text \<open>C7. Anyone can approve or reject a plan: the gate takes every path that ends in .js for a static
  asset, and the handler of plans ignores what follows the action in the path. So a POST without any
  credentials, to the plan's path with /x.js behind it, stores the decision with the server's own
  client, in the name of unknown; the same request without the suffix is answered 401 and changes
  nothing.\<close>

theorem unauthenticated_decision:
  assumes "plain_segment ns" "plain_segment name" "act = ''approve'' \<or> act = ''reject''"
    and "ac_get (ds_k8s_client s) (ns, name) d = Inr p" "decide act ''unknown'' p = Change q"
    and "ac_status_update (ds_k8s_client s) q d = (Inr p1, d1)"
    and "rq_method rq = ''POST''" "rq_header rq ''Authorization'' = []" "rq_cookie rq ''k8ops_token'' = None"
  shows "serve s (Some A) now rest (rq\<lparr>rq_path := ''/api/remediation/'' @ ns @ ''/'' @ name @ ''/'' @ act @ ''/x.js''\<rparr>) d =
      (write_json (AObject [(''status'', AString ''ok''), (''phase'', AString (rst_phase (rp_status p1)))]), d1) \<and>
    serve s (Some A) now rest (rq\<lparr>rq_path := ''/api/remediation/'' @ ns @ ''/'' @ name @ ''/'' @ act\<rparr>) d =
      (http_error 401 (json_error ''unauthorized''), d)"
proof
  let ?path = "''/api/remediation/'' @ ns @ ''/'' @ name @ ''/'' @ act @ ''/x.js''"
  have act: "plain_segment act" "CHR ''/'' \<notin> set act" using assms(3) by (auto simp: plain_segment_def)
  have "has_suffix ((''/api/remediation/'' @ ns @ ''/'' @ name @ ''/'' @ act) @ ''/x.js'') ''.js''"
    by (subst has_suffix_long) (simp_all add: has_suffix_def suffix_def)
  then have "is_public_route ?path" by (simp add: is_public_route_def)
  moreover have "trim_prefix ?path ''/api/remediation/'' = ns @ ''/'' @ name @ ''/'' @ act @ ''/x.js''"
    by (rule trim_prefix_append)
  moreover have "has_prefix ?path ''/api/remediation/''" by (simp add: has_prefix_def)
  ultimately show "serve s (Some A) now rest (rq\<lparr>rq_path := ?path\<rparr>) d =
      (write_json (AObject [(''status'', AString ''ok''), (''phase'', AString (rst_phase (rp_status p1)))]), d1)"
    using assms clean_plan_path(1)[OF assms(1,2) act(1)] split_plan_path(1)[OF assms(1,2) act(2), of "''x.js''"]
    by (auto simp: serve_def auth_middleware_def auth_gate_def impersonation_middleware_def mux_def
        remediation_route_def clients_from_req_def handle_remediation_action_def user_name_def)
next
  let ?path = "''/api/remediation/'' @ ns @ ''/'' @ name @ ''/'' @ act"
  have "has_suffix ((''/api/remediation/'' @ ns @ ''/'' @ name @ ''/'') @ act) x = has_suffix act x" if "length x \<le> 6" for x
    using assms(3) that by (intro has_suffix_long) auto
  then have "\<not> is_public_route ?path"
    using assms(3) by (auto simp: is_public_route_def has_suffix_def suffix_def has_prefix_def)
  moreover have "is_api_request ?path" by (simp add: is_api_request_def has_prefix_def)
  ultimately show "serve s (Some A) now rest (rq\<lparr>rq_path := ?path\<rparr>) d = (http_error 401 (json_error ''unauthorized''), d)"
    using assms(8,9) by (simp add: serve_def auth_middleware_def auth_gate_def turn_away_def)
qed

theorem unauthenticated_decision_witness:
  "let c1 = snd (serve demo_server (Some (demo_gate [])) 0 (\<lambda>user rcs rq c. (silent, c))
      (demo_req ''POST'' ''/api/remediation/web/p/reject/x.js'' [] None) (demo_at (demo_plan ''Pending'' True []))) in
   rst_phase (rp_status (dm_plan c1)) = ''Failed'' \<and> rst_summary (rp_status (dm_plan c1)) = ''Rejected by unknown''"
proof -
  let ?p = "demo_plan ''Pending'' True []"
  let ?q = "?p\<lparr>rp_status := (rp_status ?p)\<lparr>rst_phase := ''Failed'', rst_summary := ''Rejected by unknown''\<rparr>\<rparr>"
  let ?c1 = "(demo_at ?p)\<lparr>dm_plan := ?q\<rparr>" and ?rest = "\<lambda>user rcs rq c. (silent, c)"
  let ?ok = "write_json (AObject [(''status'', AString ''ok''), (''phase'', AString (rst_phase (rp_status ?q)))])"
  have "serve demo_server (Some (demo_gate [])) 0 ?rest ((demo_req ''POST'' [] [] None)
      \<lparr>rq_path := ''/api/remediation/'' @ ''web'' @ ''/'' @ ''p'' @ ''/'' @ ''reject'' @ ''/x.js''\<rparr>) (demo_at ?p) = (?ok, ?c1) \<and>
    serve demo_server (Some (demo_gate [])) 0 ?rest ((demo_req ''POST'' [] [] None)
      \<lparr>rq_path := ''/api/remediation/'' @ ''web'' @ ''/'' @ ''p'' @ ''/'' @ ''reject''\<rparr>) (demo_at ?p) =
      (http_error 401 (json_error ''unauthorized''), demo_at ?p)"
    by (rule unauthenticated_decision[where p = ?p and q = ?q])
      (simp_all add: plain_segment_def demo_server_def demo_api_def demo_at_def demo_req_def decide_def demo_plan_def demo_status_def)
  then show ?thesis by (simp add: demo_req_def Let_def)
qed

text \<open>Who a decision acts as: a request that passes the gate as a user is decided in that user's
  name, with a client that impersonates exactly the groups of the user's role; but when such a
  client cannot be made, with the server's own client, whose rights are not the user's.\<close>

theorem decision_acts_as:
  assumes "auth_gate A now rq d = (Inr (Some u), d1)"
    and "clean_path (rq_path rq)" "has_prefix (rq_path rq) ''/api/remediation/''"
  shows "serve s (Some A) now rest rq d = handle_remediation_action
    (case ds_new_for_config s (impersonate_as u) of Inl _ \<Rightarrow> ds_k8s_client s
     | Inr _ \<Rightarrow> (case ds_client_new s (impersonate_as u) of Inl _ \<Rightarrow> ds_k8s_client s | Inr cl \<Rightarrow> cl))
    (Some (us_username u)) (rq_method rq) (rq_path rq) d1"
  using assms by (simp add: serve_def auth_middleware_def impersonation_middleware_def mux_def
      remediation_route_def clients_from_req_def split: sum.split)

theorem decision_acts_as_witness:
  "rst_phase (rp_status (dm_plan (snd (serve demo_server (Some (demo_gate [demo_user 2 ''mallory'' ''viewer'']))
      0 (\<lambda>user rcs rq c. (silent, c)) (demo_req ''POST'' ''/api/remediation/web/p/approve'' [] (Some (demo_token 2 ''s3cret'')))
      (demo_at (demo_plan ''Pending'' True [])))))) = ''Approved''"
proof -
  let ?rq = "demo_req ''POST'' ''/api/remediation/web/p/approve'' [] (Some (demo_token 2 ''s3cret''))"
  let ?A = "demo_gate [demo_user 2 ''mallory'' ''viewer'']" and ?d = "demo_at (demo_plan ''Pending'' True [])"
  have "fst (auth_gate ?A 0 ?rq ?d) = Inr (Some (demo_user 2 ''mallory'' ''viewer''))" by code_simp
  moreover have "snd (auth_gate ?A 0 ?rq ?d) = ?d" by (rule auth_gate_cookie) (simp add: demo_req_def)
  ultimately have "auth_gate ?A 0 ?rq ?d = (Inr (Some (demo_user 2 ''mallory'' ''viewer'')), ?d)" by (metis prod.collapse)
  moreover have "clean_path (rq_path ?rq)" "has_prefix (rq_path ?rq) ''/api/remediation/''" by code_simp+
  ultimately
  show ?thesis using decision_acts_as[of ?A 0 ?rq ?d _ _ demo_server "\<lambda>user rcs rq c. (silent, c)"]
    by (simp add: demo_server_def impersonate_as_def demo_user_def zero_user_def demo_req_def handle_remediation_action_def
        demo_api_def demo_at_def demo_plan_def demo_status_def decide_def trim_prefix_def has_prefix_def)
qed

text \<open>Which users are in a group of the cluster: the group of a cluster-wide role has exactly the
  users of that role (that of viewers, also the users without a role), and the group of a namespace
  has the namespace administrators (viewers) that list the namespace, and the users of a custom
  role that is named like the end of the group.\<close>

theorem group_members:
  "(''k8ops:admin'' \<in> set (role_to_groups role nss) \<longleftrightarrow> role = ''admin'') \<and>
   (''k8ops:operator'' \<in> set (role_to_groups role nss) \<longleftrightarrow> role = ''operator'') \<and>
   (''k8ops:viewer'' \<in> set (role_to_groups role nss) \<longleftrightarrow> role = ''viewer'' \<or> role = []) \<and>
   (''k8ops:ns-admin:'' @ ns \<in> set (role_to_groups role nss) \<longleftrightarrow>
      role = ''ns-admin'' \<and> ns \<in> set (split_namespaces nss) \<or> role = ''ns-admin:'' @ ns) \<and>
   (''k8ops:ns-viewer:'' @ ns \<in> set (role_to_groups role nss) \<longleftrightarrow>
      role = ''ns-viewer'' \<and> ns \<in> set (split_namespaces nss) \<or> role = ''ns-viewer:'' @ ns)"
  by (auto simp: role_to_groups_def)

end
