(* ===== verification/Rbac_Sync.thy ===== *)
theory Rbac_Sync
  imports Auth_Store Api_Types
begin

text \<open>
  The role bindings of namespace-scoped users (internal/auth/rbac_sync.go). The typed client of the
  API server is a parameter over the state \<open>'c\<close> of the cluster; a list is by the value of the
  label that names the user.
\<close>

record role_binding =
  rbg_name :: string
  rbg_namespace :: string
  rbg_labels :: "string \<rightharpoonup> string"
  rbg_group :: string
  rbg_role_ref :: string

record 'c rbac_api =
  rk_create :: "role_binding \<Rightarrow> 'c \<Rightarrow> api_error option \<times> 'c"
  rk_update :: "role_binding \<Rightarrow> 'c \<Rightarrow> api_error option \<times> 'c"
  rk_delete :: "string \<Rightarrow> string \<Rightarrow> 'c \<Rightarrow> api_error option \<times> 'c"
  rk_list :: "string \<Rightarrow> string \<Rightarrow> 'c \<Rightarrow> api_error + role_binding list"
  rk_namespaces :: "'c \<Rightarrow> api_error + string list"
  rk_get_namespace :: "string \<Rightarrow> 'c \<Rightarrow> api_error option"
  rk_create_namespace :: "string \<Rightarrow> 'c \<Rightarrow> api_error option \<times> 'c"

definition auth_split_namespaces :: "string \<Rightarrow> string list" where
  "auth_split_namespaces s = filter (\<lambda>p. p \<noteq> []) (map trim_space (split_on (CHR '','') s))"

text \<open>Deletions that fail are logged.\<close>

definition delete_bindings :: "'c rbac_api \<Rightarrow> string \<Rightarrow> string \<Rightarrow> 'c \<Rightarrow> 'c" where
  "delete_bindings K username ns c = (case rk_list K ns username c of
     Inl _ \<Rightarrow> c
   | Inr rbs \<Rightarrow> fold (\<lambda>rb c. snd (rk_delete K ns (rbg_name rb) c)) rbs c)"

definition cleanup_user_rbac :: "'c rbac_api \<Rightarrow> string \<Rightarrow> 'c \<Rightarrow> string option \<times> 'c" where
  "cleanup_user_rbac K username c = (case rk_namespaces K c of
     Inl e \<Rightarrow> (Some (''failed to list namespaces: '' @ ae_message e), c)
   | Inr nss \<Rightarrow> (None, fold (delete_bindings K username) nss c))"

definition cleanup_undesired_rbac :: "'c rbac_api \<Rightarrow> string \<Rightarrow> string list \<Rightarrow> 'c \<Rightarrow> string option \<times> 'c" where
  "cleanup_undesired_rbac K username desired c = (case rk_namespaces K c of
     Inl e \<Rightarrow> (Some (ae_message e), c)
   | Inr nss \<Rightarrow> (None, fold (\<lambda>ns c. if ns \<in> set desired then c else delete_bindings K username ns c) nss c))"

definition binding_for :: "user \<Rightarrow> string \<Rightarrow> string \<Rightarrow> role_binding" where
  "binding_for u role_name ns = \<lparr>rbg_name = ''k8ops:'' @ us_username u @ '':'' @ ns, rbg_namespace = ns,
     rbg_labels = [''app.kubernetes.io/name'' \<mapsto> ''k8ops'', ''k8ops.io/managed-by'' \<mapsto> ''rbac-sync'',
       ''k8ops.io/user'' \<mapsto> us_username u],
     rbg_group = ''k8ops:'' @ us_role u @ '':'' @ ns, rbg_role_ref = role_name\<rparr>"

fun put_bindings :: "'c rbac_api \<Rightarrow> user \<Rightarrow> string \<Rightarrow> string list \<Rightarrow> 'c \<Rightarrow> string option \<times> 'c" where
  "put_bindings K u role_name [] c = (None, c)"
| "put_bindings K u role_name (ns # nss) c =
     (let rb = binding_for u role_name ns;
          (err1, c1) = rk_create K rb c;
          (err, c2) = (case err1 of
             Some e \<Rightarrow> if ae_reason e = AlreadyExists then rk_update K rb c1 else (err1, c1)
           | None \<Rightarrow> (None, c1))
      in case err of
           None \<Rightarrow> put_bindings K u role_name nss c2
         | Some e \<Rightarrow>
             if ae_reason e = NotFound then put_bindings K u role_name nss c2
             else (Some (''failed to sync RoleBinding '' @ ns @ ''/'' @ rbg_name rb @ '': '' @ ae_message e), c2))"

definition sync_user_rbac :: "'c rbac_api option \<Rightarrow> user \<Rightarrow> 'c \<Rightarrow> string option \<times> 'c" where
  "sync_user_rbac client u c = (case client of
     None \<Rightarrow> (None, c)
   | Some K \<Rightarrow>
       if us_role u \<noteq> ''ns-admin'' \<and> us_role u \<noteq> ''ns-viewer'' then cleanup_user_rbac K (us_username u) c
       else (let desired = auth_split_namespaces (us_allowed_namespaces u);
                 role_name = (if us_role u = ''ns-admin'' then ''k8ops-role-ns-admin'' else ''k8ops-role-ns-viewer'')
             in case put_bindings K u role_name desired c of
                  (Some e, c1) \<Rightarrow> (Some e, c1)
                | (None, c1) \<Rightarrow> cleanup_undesired_rbac K (us_username u) desired c1))"

definition ensure_namespace_exists :: "'c rbac_api \<Rightarrow> string \<Rightarrow> 'c \<Rightarrow> api_error option \<times> 'c" where
  "ensure_namespace_exists K ns c = (case rk_get_namespace K ns c of
     None \<Rightarrow> (None, c)
   | Some e \<Rightarrow> if ae_reason e = NotFound then rk_create_namespace K ns c else (Some e, c))"

section \<open>An API server with immutable role references\<close>

text \<open>
  What the synchronisation relies on of the API server, whose answers may be errors at any time. Bindings are stored by namespace and
  name, as they are sent. A create stores a binding under a name that is free; an update never changes a role reference, which the API
  defines as immutable; a delete removes a binding that is there. A call that answers with an error changed nothing, except that one
  lost on the way (no status of the server, \<open>OtherReason\<close>) may have had its effect. A list that is answered selects by the label, for
  what can be the value of a label, and bindings lie in the namespaces that are listed. Nobody else writes meanwhile.
\<close>

definition store_binding :: "role_binding \<Rightarrow> (string \<Rightarrow> string \<rightharpoonup> role_binding) \<Rightarrow> string \<Rightarrow> string \<rightharpoonup> role_binding" where
  "store_binding rb m = m(rbg_namespace rb := (m (rbg_namespace rb))(rbg_name rb \<mapsto> rb))"

definition drop_binding :: "string \<Rightarrow> string \<Rightarrow> (string \<Rightarrow> string \<rightharpoonup> role_binding) \<Rightarrow> string \<Rightarrow> string \<rightharpoonup> role_binding" where
  "drop_binding ns name m = m(ns := (m ns)(name := None))"

definition has_effect :: "bool \<Rightarrow> 's \<Rightarrow> 's \<Rightarrow> api_error option \<Rightarrow> 's \<Rightarrow> bool" where
  "has_effect possible new old answer s \<longleftrightarrow> (case answer of
     None \<Rightarrow> possible \<and> s = new
   | Some e \<Rightarrow> s = old \<or> ae_reason e = OtherReason \<and> possible \<and> s = new)"

definition label_value :: "string \<Rightarrow> bool" where
  "label_value s \<longleftrightarrow> (let alnum = (\<lambda>c. is_digit c \<or> c \<in> set ''abcdefghijklmnopqrstuvwxyzABCDEFGHIJKLMNOPQRSTUVWXYZ'') in
     s = [] \<or> length s \<le> 63 \<and> alnum (hd s) \<and> alnum (last s) \<and> list_all (\<lambda>c. alnum c \<or> c \<in> set ''-_.'') s)"

definition rbac_server :: "'c rbac_api \<Rightarrow> ('c \<Rightarrow> string \<Rightarrow> string \<rightharpoonup> role_binding) \<Rightarrow> bool" where
  "rbac_server K binds \<longleftrightarrow>
     (\<forall>rb c. has_effect (binds c (rbg_namespace rb) (rbg_name rb) = None) (store_binding rb (binds c)) (binds c)
        (fst (rk_create K rb c)) (binds (snd (rk_create K rb c)))) \<and>
     (\<forall>rb c. has_effect (\<forall>old. binds c (rbg_namespace rb) (rbg_name rb) = Some old \<longrightarrow> rbg_role_ref old = rbg_role_ref rb)
        (store_binding rb (binds c)) (binds c) (fst (rk_update K rb c)) (binds (snd (rk_update K rb c)))) \<and>
     (\<forall>ns name c. has_effect (binds c ns name \<noteq> None) (drop_binding ns name (binds c)) (binds c)
        (fst (rk_delete K ns name c)) (binds (snd (rk_delete K ns name c)))) \<and>
     (\<forall>ns un c rbs. label_value un \<longrightarrow> rk_list K ns un c = Inr rbs \<longrightarrow>
        rbg_name ` set rbs = {n. \<exists>rb. binds c ns n = Some rb \<and> rbg_labels rb ''k8ops.io/user'' = Some un}) \<and>
     (\<forall>c nss ns n. rk_namespaces K c = Inr nss \<longrightarrow> binds c ns n \<noteq> None \<longrightarrow> ns \<in> set nss)"

lemmas rbac_server_parts = rbac_server_def [THEN iffD1]

lemma rbac_create:
  assumes "rbac_server K binds" "rk_create K rb c = (a, c1)"
  shows "has_effect (binds c (rbg_namespace rb) (rbg_name rb) = None) (store_binding rb (binds c)) (binds c) a (binds c1)"
  using rbac_server_parts[OF assms(1), THEN conjunct1, THEN spec, THEN spec, where x1 = rb and x = c] assms(2) by simp

lemma rbac_update:
  assumes "rbac_server K binds" "rk_update K rb c = (a, c1)"
  shows "has_effect (\<forall>old. binds c (rbg_namespace rb) (rbg_name rb) = Some old \<longrightarrow> rbg_role_ref old = rbg_role_ref rb)
      (store_binding rb (binds c)) (binds c) a (binds c1)"
  using rbac_server_parts[OF assms(1), THEN conjunct2, THEN conjunct1, THEN spec, THEN spec, where x1 = rb and x = c] assms(2) by simp

lemma rbac_delete: "rbac_server K binds \<Longrightarrow> has_effect (binds c ns name \<noteq> None) (drop_binding ns name (binds c)) (binds c)
    (fst (rk_delete K ns name c)) (binds (snd (rk_delete K ns name c)))"
  by (drule rbac_server_parts[THEN conjunct2, THEN conjunct2, THEN conjunct1]) simp

lemma rbac_list: "rbac_server K binds \<Longrightarrow> label_value un \<Longrightarrow> rk_list K ns un c = Inr rbs \<Longrightarrow>
    rbg_name ` set rbs = {n. \<exists>rb. binds c ns n = Some rb \<and> rbg_labels rb ''k8ops.io/user'' = Some un}"
  by (drule rbac_server_parts[THEN conjunct2, THEN conjunct2, THEN conjunct2, THEN conjunct1]) simp

lemma rbac_namespaces:
  assumes "rbac_server K binds" "rk_namespaces K c = Inr nss" "ns \<notin> set nss"
  shows "binds c ns = Map.empty"
proof
  fix n
  show "binds c ns n = None"
    using rbac_server_parts[OF assms(1), THEN conjunct2, THEN conjunct2, THEN conjunct2, THEN conjunct2] assms(2,3) by blast
qed

section \<open>What a synchronisation leaves\<close>

text \<open>The bindings of a namespace without those of a user, and with some of those gone.\<close>

definition of_user :: "string \<Rightarrow> role_binding option \<Rightarrow> bool" where
  "of_user un x \<longleftrightarrow> (case x of Some rb \<Rightarrow> rbg_labels rb ''k8ops.io/user'' = Some un | None \<Rightarrow> False)"

definition without_user :: "string \<Rightarrow> (string \<rightharpoonup> role_binding) \<Rightarrow> string \<rightharpoonup> role_binding" where
  "without_user un m = (\<lambda>n. if of_user un (m n) then None else m n)"

definition shed :: "string \<Rightarrow> (string \<rightharpoonup> role_binding) \<Rightarrow> (string \<rightharpoonup> role_binding) \<Rightarrow> bool" where
  "shed un m m1 \<longleftrightarrow> (\<forall>n. m1 n = m n \<or> of_user un (m n) \<and> m1 n = None)"

lemma shed_refl [simp]: "shed un m m" by (simp add: shed_def)

lemma shed_empty: "shed un Map.empty m1 \<Longrightarrow> m1 = Map.empty"
  by (auto simp: shed_def of_user_def fun_eq_iff)

text \<open>A namespace whose lists and deletions are answered.\<close>

definition answers_cleanup :: "'c rbac_api \<Rightarrow> ('c \<Rightarrow> string \<Rightarrow> string \<rightharpoonup> role_binding) \<Rightarrow> string \<Rightarrow> string \<Rightarrow> bool" where
  "answers_cleanup K binds un ns \<longleftrightarrow> (\<forall>c. \<exists>rbs. rk_list K ns un c = Inr rbs) \<and>
     (\<forall>name c. binds c ns name \<noteq> None \<longrightarrow> fst (rk_delete K ns name c) = None)"

lemma delete_effect:
  assumes "rbac_server K binds"
  shows "binds (snd (rk_delete K ns name c)) = drop_binding ns name (binds c) \<or>
    binds (snd (rk_delete K ns name c)) = binds c \<and> \<not> answers_cleanup K binds un ns"
proof (cases "binds c ns name")
  case None
  then have "drop_binding ns name (binds c) = binds c" by (auto simp: drop_binding_def fun_eq_iff)
  then show ?thesis using rbac_delete[OF assms, of c ns name] by (auto simp: has_effect_def split: option.splits)
next
  case (Some rb)
  then show ?thesis using rbac_delete[OF assms, of c ns name]
    by (auto simp: has_effect_def answers_cleanup_def split: option.splits)
qed

lemma fold_delete:
  assumes "rbac_server K binds"
  shows "(m \<noteq> ns \<longrightarrow> binds (fold (\<lambda>rb c. snd (rk_delete K ns (rbg_name rb) c)) rbs c) m = binds c m) \<and>
    (binds (fold (\<lambda>rb c. snd (rk_delete K ns (rbg_name rb) c)) rbs c) ns n = (if n \<in> rbg_name ` set rbs then None else binds c ns n) \<or>
      binds (fold (\<lambda>rb c. snd (rk_delete K ns (rbg_name rb) c)) rbs c) ns n = binds c ns n \<and> \<not> answers_cleanup K binds un ns)"
proof (induction rbs arbitrary: c)
  case (Cons rb rbs)
  let ?c = "snd (rk_delete K ns (rbg_name rb) c)"
  from delete_effect[OF assms, of ns "rbg_name rb" c un] show ?case
  proof
    assume "binds ?c = drop_binding ns (rbg_name rb) (binds c)"
    then have "binds ?c ns n = (if n = rbg_name rb then None else binds c ns n)" "m \<noteq> ns \<longrightarrow> binds ?c m = binds c m"
      by (simp_all add: drop_binding_def)
    then show ?thesis using Cons.IH[of ?c] by (auto split: if_splits)
  next
    assume "binds ?c = binds c \<and> \<not> answers_cleanup K binds un ns"
    then show ?thesis using Cons.IH[of ?c]
      by (cases "n = rbg_name rb"; cases "rbg_name rb \<in> rbg_name ` set rbs") auto
  qed
qed simp

lemma delete_bindings_effect:
  assumes "rbac_server K binds" "label_value un"
  shows "m \<noteq> ns \<Longrightarrow> binds (delete_bindings K un ns c) m = binds c m"
    and "shed un (binds c ns) (binds (delete_bindings K un ns c) ns)"
    and "answers_cleanup K binds un ns \<Longrightarrow> binds (delete_bindings K un ns c) ns = without_user un (binds c ns)"
proof -
  have "(m \<noteq> ns \<longrightarrow> binds (delete_bindings K un ns c) m = binds c m) \<and> shed un (binds c ns) (binds (delete_bindings K un ns c) ns) \<and>
      (answers_cleanup K binds un ns \<longrightarrow> binds (delete_bindings K un ns c) ns = without_user un (binds c ns))"
  proof (cases "rk_list K ns un c")
    case (Inl e)
    then have "\<not> answers_cleanup K binds un ns" by (auto simp: answers_cleanup_def) (metis Inl_Inr_False)
    with Inl show ?thesis by (simp add: delete_bindings_def)
  next
    case (Inr rbs)
    have l: "n \<in> rbg_name ` set rbs \<longleftrightarrow> of_user un (binds c ns n)" for n
      unfolding rbac_list[OF assms Inr] by (auto simp: of_user_def split: option.splits)
    have d: "binds (delete_bindings K un ns c) ns n = without_user un (binds c ns) n \<or>
        binds (delete_bindings K un ns c) ns n = binds c ns n \<and> \<not> answers_cleanup K binds un ns" for n
      using fold_delete[OF assms(1), of m ns rbs c n un] by (simp add: delete_bindings_def Inr without_user_def l)
    then have "shed un (binds c ns) (binds (delete_bindings K un ns c) ns)"
      unfolding shed_def without_user_def by (metis (full_types))
    moreover have "m \<noteq> ns \<longrightarrow> binds (delete_bindings K un ns c) m = binds c m"
      using fold_delete[OF assms(1), of m ns rbs c] by (simp add: delete_bindings_def Inr)
    ultimately show ?thesis using d by (auto intro!: ext)
  qed
  then show "m \<noteq> ns \<Longrightarrow> binds (delete_bindings K un ns c) m = binds c m"
    and "shed un (binds c ns) (binds (delete_bindings K un ns c) ns)"
    and "answers_cleanup K binds un ns \<Longrightarrow> binds (delete_bindings K un ns c) ns = without_user un (binds c ns)" by blast+
qed

lemma shed_trans: "shed un m m1 \<Longrightarrow> shed un m1 m2 \<Longrightarrow> shed un m m2"
proof -
  assume a: "shed un m m1" "shed un m1 m2"
  have "m2 n = m n \<or> of_user un (m n) \<and> m2 n = None" for n
  proof -
    have "m1 n = m n \<or> of_user un (m n) \<and> m1 n = None" "m2 n = m1 n \<or> of_user un (m1 n) \<and> m2 n = None"
      using a unfolding shed_def by blast+
    then show ?thesis by (auto simp: of_user_def)
  qed
  then show ?thesis by (simp add: shed_def)
qed

lemma without_user_idem: "without_user un (without_user un m) = without_user un m"
  by (auto simp: without_user_def of_user_def fun_eq_iff split: option.split)

lemma fold_cleanup:
  assumes "rbac_server K binds" "label_value un"
  shows "(ns \<in> D \<or> ns \<notin> set xs \<longrightarrow> binds (fold (\<lambda>ns c. if ns \<in> D then c else delete_bindings K un ns c) xs c) ns = binds c ns) \<and>
    shed un (binds c ns) (binds (fold (\<lambda>ns c. if ns \<in> D then c else delete_bindings K un ns c) xs c) ns) \<and>
    (ns \<in> set xs \<and> ns \<notin> D \<and> answers_cleanup K binds un ns \<longrightarrow>
      binds (fold (\<lambda>ns c. if ns \<in> D then c else delete_bindings K un ns c) xs c) ns = without_user un (binds c ns))"
proof (induction xs arbitrary: c)
  case (Cons x xs)
  let ?c = "if x \<in> D then c else delete_bindings K un x c"
  show ?case
  proof (cases "x = ns \<and> x \<notin> D")
    case True
    note d = delete_bindings_effect(2,3)[OF assms, where c = c and ns = ns]
    have c: "?c = delete_bindings K un ns c" using True by auto
    show ?thesis
      using Cons.IH[of ?c] d True shed_trans[OF d(1)] by (cases "ns \<in> set xs") (auto simp: c without_user_idem)
  next
    case False
    then have "binds ?c ns = binds c ns" using delete_bindings_effect(1)[OF assms, where m = ns and ns = x and c = c] by (cases "x \<in> D") auto
    then show ?thesis using Cons.IH[of ?c] False by auto
  qed
qed simp

lemma sync_scoped:
  assumes "us_role u = ''ns-admin'' \<or> us_role u = ''ns-viewer''"
  shows "sync_user_rbac (Some K) u c = (case put_bindings K u (''k8ops-role-'' @ us_role u) (auth_split_namespaces (us_allowed_namespaces u)) c of
    (Some e, c1) \<Rightarrow> (Some e, c1)
  | (None, c1) \<Rightarrow> cleanup_undesired_rbac K (us_username u) (auth_split_namespaces (us_allowed_namespaces u)) c1)"
proof -
  have role: "(if us_role u = ''ns-admin'' then ''k8ops-role-ns-admin'' else ''k8ops-role-ns-viewer'') = ''k8ops-role-'' @ us_role u"
    using assms by auto
  show ?thesis using assms unfolding sync_user_rbac_def Let_def role by auto
qed

text \<open>A binding the server does not find a place for, and one it fails on.\<close>

definition unwelcome :: "'c rbac_api \<Rightarrow> role_binding \<Rightarrow> bool" where
  "unwelcome K rb \<longleftrightarrow> (\<exists>c e c1. (rk_create K rb c = (Some e, c1) \<or> rk_update K rb c = (Some e, c1)) \<and> ae_reason e = NotFound)"

definition failing :: "'c rbac_api \<Rightarrow> role_binding \<Rightarrow> bool" where
  "failing K rb \<longleftrightarrow> (\<exists>c e c1. rk_create K rb c = (Some e, c1) \<and> ae_reason e = OtherReason \<or>
     rk_update K rb c = (Some e, c1) \<and> ae_reason e \<noteq> NotFound)"

lemma put_one:
  assumes "rbac_server K binds"
  obtains c1 where "put_bindings K u role (ns # nss) c = put_bindings K u role nss c1" "binds c1 = store_binding (binding_for u role ns) (binds c)"
  | c1 where "put_bindings K u role (ns # nss) c = put_bindings K u role nss c1" "binds c1 = binds c" "unwelcome K (binding_for u role ns)"
  | e c1 where "put_bindings K u role (ns # nss) c = (Some e, c1)" "failing K (binding_for u role ns)"
      "binds c1 = binds c \<or> binds c1 = store_binding (binding_for u role ns) (binds c)"
proof -
  let ?rb = "binding_for u role ns"
  obtain a1 c1 where c1: "rk_create K ?rb c = (a1, c1)" by (cases "rk_create K ?rb c")
  note h1 = rbac_create[OF assms(1) c1]
  show thesis
  proof (cases a1)
    case None
    show thesis using h1 None by (intro that(1)[of c1]) (simp_all add: c1 Let_def has_effect_def)
  next
    case (Some e)
    note a = Some
    show thesis
    proof (cases "ae_reason e")
      case NotFound
      have "unwelcome K ?rb" unfolding unwelcome_def using c1 a NotFound by blast
      then show thesis using h1 NotFound by (intro that(2)[of c1]) (simp_all add: a c1 Let_def has_effect_def)
    next
      case OtherReason
      have "failing K ?rb" unfolding failing_def using c1 a OtherReason by blast
      then show thesis using h1 OtherReason
        by (intro that(3)[of _ c1]) (auto simp: a c1 Let_def has_effect_def)
    next
      case AlreadyExists
      then have b1: "binds c1 = binds c" using h1 by (simp add: has_effect_def a)
      obtain a2 c2 where c2: "rk_update K ?rb c1 = (a2, c2)" by (cases "rk_update K ?rb c1")
      note h2 = rbac_update[OF assms(1) c2]
      show thesis
      proof (cases a2)
        case None
        then show thesis using h2 AlreadyExists by (intro that(1)[of c2]) (simp_all add: a c1 c2 Let_def has_effect_def b1)
      next
        case (Some e2)
        show thesis
        proof (cases "ae_reason e2 = NotFound")
          case True
          have "unwelcome K ?rb" unfolding unwelcome_def using c2 Some True by blast
          then show thesis using h2 True AlreadyExists Some
            by (intro that(2)[of c2]) (simp_all add: a c1 c2 Let_def has_effect_def b1)
        next
          case False
          have "failing K ?rb" unfolding failing_def using c2 Some False by blast
          then show thesis using h2 False AlreadyExists Some
            by (intro that(3)[of _ c2]) (auto simp: a c1 c2 Let_def has_effect_def b1)
        qed
      qed
    qed
  qed
qed

lemma put_bindings_effect:
  assumes "rbac_server K binds" "put_bindings K u role ds c = (r, c1)"
  defines "rb \<equiv> binding_for u role"
  shows "(\<forall>ns. ns \<notin> set ds \<longrightarrow> binds c1 ns = binds c ns) \<and>
    (\<forall>ns \<in> set ds. binds c1 ns = (binds c ns)(rbg_name (rb ns) \<mapsto> rb ns) \<or> binds c1 ns = binds c ns \<and> (r = None \<longrightarrow> unwelcome K (rb ns))) \<and>
    (r \<noteq> None \<longrightarrow> (\<exists>ns \<in> set ds. failing K (rb ns)))"
  using assms(2)
proof (induction ds arbitrary: c)
  case (Cons ns ds)
  have s: "store_binding (rb ns) (binds c) = (binds c)(ns := (binds c ns)(rbg_name (rb ns) \<mapsto> rb ns))"
    by (simp add: store_binding_def rb_def binding_for_def)
  show ?case
  proof (rule put_one[OF assms(1), of u role ns ds c])
    fix c2
    assume p: "put_bindings K u role (ns # ds) c = put_bindings K u role ds c2"
      "binds c2 = store_binding (binding_for u role ns) (binds c)"
    then have b: "binds c2 = (binds c)(ns := (binds c ns)(rbg_name (rb ns) \<mapsto> rb ns))" using s by (simp add: rb_def)
    from p(1) Cons.prems have "put_bindings K u role ds c2 = (r, c1)" by simp
    note IH = Cons.IH[OF this]
    have "binds c1 m = (binds c m)(rbg_name (rb m) \<mapsto> rb m) \<or> binds c1 m = binds c m \<and> (r = None \<longrightarrow> unwelcome K (rb m))"
      if "m \<in> set (ns # ds)" for m
    proof (cases "m \<in> set ds")
      case True
      with IH have "binds c1 m = (binds c2 m)(rbg_name (rb m) \<mapsto> rb m) \<or> binds c1 m = binds c2 m \<and> (r = None \<longrightarrow> unwelcome K (rb m))"
        by blast
      then show ?thesis by (cases "m = ns") (auto simp: b)
    next
      case False
      then have "binds c1 m = binds c2 m" "m = ns" using that IH by auto
      then show ?thesis by (simp only: b fun_upd_same simp_thms)
    qed
    moreover have "binds c1 m = binds c m" if "m \<notin> set (ns # ds)" for m using IH that by (simp add: b)
    moreover have "r \<noteq> None \<longrightarrow> (\<exists>m \<in> set (ns # ds). failing K (rb m))" using IH by auto
    ultimately show ?thesis by blast
  next
    fix c2
    assume p: "put_bindings K u role (ns # ds) c = put_bindings K u role ds c2" "binds c2 = binds c" "unwelcome K (binding_for u role ns)"
    from p(1) Cons.prems have "put_bindings K u role ds c2 = (r, c1)" by simp
    from Cons.IH[OF this] p(2,3) show ?thesis by (auto simp: rb_def)
  next
    fix e c2
    assume p: "put_bindings K u role (ns # ds) c = (Some e, c2)" "failing K (binding_for u role ns)"
      "binds c2 = binds c \<or> binds c2 = store_binding (binding_for u role ns) (binds c)"
    from p(1) Cons.prems have "r = Some e" "c1 = c2" by simp_all
    with p(2,3) s show ?thesis by (auto simp: rb_def fun_upd_def)
  qed
qed simp

section \<open>A concrete API server\<close>

text \<open>The bindings of the instance are a list, the first of a name counts. Its namespaces are those of a list and of its bindings;
  it takes labels that are label values only.\<close>

definition demo_binds :: "role_binding list \<Rightarrow> string \<Rightarrow> string \<rightharpoonup> role_binding" where
  "demo_binds c ns n = find (\<lambda>rb. rbg_namespace rb = ns \<and> rbg_name rb = n) c"

definition demo_rbac :: "string list \<Rightarrow> role_binding list rbac_api" where
  "demo_rbac nss = \<lparr>
     rk_create = (\<lambda>rb c. if demo_binds c (rbg_namespace rb) (rbg_name rb) \<noteq> None
       then (Some \<lparr>ae_reason = AlreadyExists, ae_message = ''already exists''\<rparr>, c)
       else if \<not> label_value (case rbg_labels rb ''k8ops.io/user'' of Some v \<Rightarrow> v | None \<Rightarrow> []) then (Some \<lparr>ae_reason = OtherReason, ae_message = ''invalid label value''\<rparr>, c)
       else if rbg_namespace rb \<notin> set nss then (Some \<lparr>ae_reason = NotFound, ae_message = ''namespace not found''\<rparr>, c)
       else (None, rb # c)),
     rk_update = (\<lambda>rb c. case demo_binds c (rbg_namespace rb) (rbg_name rb) of
         None \<Rightarrow> if rbg_namespace rb \<notin> set nss then (Some \<lparr>ae_reason = NotFound, ae_message = ''namespace not found''\<rparr>, c)
           else (None, rb # c)
       | Some old \<Rightarrow> if rbg_role_ref old = rbg_role_ref rb then (None, rb # c)
           else (Some \<lparr>ae_reason = OtherReason, ae_message = ''cannot change roleRef''\<rparr>, c)),
     rk_delete = (\<lambda>ns n c. if demo_binds c ns n = None then (Some \<lparr>ae_reason = NotFound, ae_message = ''not found''\<rparr>, c)
       else (None, filter (\<lambda>rb. \<not> (rbg_namespace rb = ns \<and> rbg_name rb = n)) c)),
     rk_list = (\<lambda>ns un c. Inr (concat (map (\<lambda>x. case demo_binds c ns (rbg_name x) of
         Some rb \<Rightarrow> if rbg_labels rb ''k8ops.io/user'' = Some un then [rb] else []
       | None \<Rightarrow> []) (filter (\<lambda>x. rbg_namespace x = ns) c)))),
     rk_namespaces = (\<lambda>c. Inr (nss @ map rbg_namespace c)),
     rk_get_namespace = (\<lambda>ns c. if ns \<in> set nss then None else Some \<lparr>ae_reason = NotFound, ae_message = []\<rparr>),
     rk_create_namespace = (\<lambda>ns c. (None, c))\<rparr>"

lemma demo_binds_Cons: "demo_binds (rb # c) = store_binding rb (demo_binds c)"
  by (auto simp: demo_binds_def store_binding_def fun_eq_iff)

lemma demo_binds_drop:
  "demo_binds (filter (\<lambda>rb. rbg_namespace rb = ns \<longrightarrow> rbg_name rb \<noteq> n) c) = drop_binding ns n (demo_binds c)"
  by (induction c) (auto simp: demo_binds_def drop_binding_def fun_eq_iff)

lemma demo_binds_Some: "demo_binds c ns n = Some rb \<Longrightarrow> rb \<in> set c \<and> rbg_namespace rb = ns \<and> rbg_name rb = n"
  by (auto simp: demo_binds_def find_Some_iff)

lemma demo_rbac_server: "rbac_server (demo_rbac nss) demo_binds"
  unfolding rbac_server_def
proof (intro conjI allI impI)
  fix ns un c rbs
  assume "rk_list (demo_rbac nss) ns un c = Inr rbs"
  then have "set rbs = {rb. \<exists>x \<in> set c. rbg_namespace x = ns \<and> demo_binds c ns (rbg_name x) = Some rb \<and> rbg_labels rb ''k8ops.io/user'' = Some un}"
    by (auto simp: demo_rbac_def split: option.splits if_splits; metis)
  then have r: "rb \<in> set rbs \<longleftrightarrow> (\<exists>x \<in> set c. rbg_namespace x = ns \<and> demo_binds c ns (rbg_name x) = Some rb) \<and>
      rbg_labels rb ''k8ops.io/user'' = Some un" for rb by auto
  show "rbg_name ` set rbs = {n. \<exists>rb. demo_binds c ns n = Some rb \<and> rbg_labels rb ''k8ops.io/user'' = Some un}"
  proof (intro set_eqI iffI)
    fix n
    assume "n \<in> rbg_name ` set rbs"
    then obtain rb where "n = rbg_name rb" "rb \<in> set rbs" by blast
    then obtain x :: role_binding where rb: "n = rbg_name rb" "demo_binds c ns (rbg_name x) = Some rb" "rbg_labels rb ''k8ops.io/user'' = Some un"
      using r[of rb] by blast
    then have "rbg_name x = n" using demo_binds_Some[OF rb(2)] by simp
    with rb show "n \<in> {n. \<exists>rb. demo_binds c ns n = Some rb \<and> rbg_labels rb ''k8ops.io/user'' = Some un}" by auto
  next
    fix n
    assume "n \<in> {n. \<exists>rb. demo_binds c ns n = Some rb \<and> rbg_labels rb ''k8ops.io/user'' = Some un}"
    then obtain rb where rb: "demo_binds c ns n = Some rb" "rbg_labels rb ''k8ops.io/user'' = Some un" by blast
    note n = demo_binds_Some[OF rb(1)]
    then have "rb \<in> set rbs" using r rb by auto
    with n show "n \<in> rbg_name ` set rbs" by auto
  qed
next
  fix c ms ns n
  assume "rk_namespaces (demo_rbac nss) c = Inr ms" "demo_binds c ns n \<noteq> None"
  then show "ns \<in> set ms" by (auto simp: demo_rbac_def dest: demo_binds_Some)
qed (auto simp: demo_rbac_def demo_binds_Cons demo_binds_drop has_effect_def split: option.splits)

lemma demo_cleans: "answers_cleanup (demo_rbac nss) demo_binds un ns"
  by (simp add: answers_cleanup_def demo_rbac_def)

section \<open>Properties\<close>

text \<open>C18. What a synchronisation leaves behind for a namespace-scoped user, on an API server that may answer any call with an error:
  in a namespace the user is allowed, the binding of the user's group to the role is there, or nothing was changed, which, when the
  synchronisation reports no error, only happens where the server answers that binding with NotFound. In every other namespace
  bindings of the user may go and nothing else changes; when there was no error none of them is left wherever the lists and deletions
  are answered, and when there was one nothing changed there. An error is one of the namespace list, or one of writing a binding
  that is neither NotFound nor the AlreadyExists of a create. The user's name is one that a label can hold.\<close>

theorem sync_effect:
  assumes "rbac_server K binds" "us_role u = ''ns-admin'' \<or> us_role u = ''ns-viewer''" "label_value (us_username u)"
    and "sync_user_rbac (Some K) u c = (r, c1)"
    and "allowed = set (auth_split_namespaces (us_allowed_namespaces u))" "rb = binding_for u (''k8ops-role-'' @ us_role u)"
  shows "(\<forall>ns \<in> allowed. binds c1 ns = (binds c ns)(''k8ops:'' @ us_username u @ '':'' @ ns \<mapsto> rb ns) \<or>
      binds c1 ns = binds c ns \<and> (r = None \<longrightarrow> unwelcome K (rb ns))) \<and>
    (\<forall>ns. ns \<notin> allowed \<longrightarrow> (if r = None then shed (us_username u) (binds c ns) (binds c1 ns) \<and>
        (answers_cleanup K binds (us_username u) ns \<longrightarrow> binds c1 ns = without_user (us_username u) (binds c ns))
      else binds c1 ns = binds c ns)) \<and>
    (r \<noteq> None \<longrightarrow> (\<exists>ns \<in> allowed. failing K (rb ns)) \<or> (\<exists>c2 e. rk_namespaces K c2 = Inl e))"
proof -
  let ?ds = "auth_split_namespaces (us_allowed_namespaces u)" and ?role = "''k8ops-role-'' @ us_role u" and ?un = "us_username u"
  have name: "rbg_name (rb ns) = ''k8ops:'' @ us_username u @ '':'' @ ns" for ns by (simp add: binding_for_def assms(6))
  obtain r2 c2 where c2: "put_bindings K u ?role ?ds c = (r2, c2)" by (cases "put_bindings K u ?role ?ds c")
  note put = put_bindings_effect[OF assms(1) c2, folded assms(5,6), unfolded name]
  have sync: "(r, c1) = (case r2 of Some e \<Rightarrow> (Some e, c2) | None \<Rightarrow> cleanup_undesired_rbac K ?un ?ds c2)"
    unfolding assms(4)[symmetric] sync_scoped[OF assms(2)] c2 by (simp split: option.split)
  show ?thesis
  proof (cases "r2 = None \<and> (\<exists>nss. rk_namespaces K c2 = Inr nss)")
    case True
    then obtain nss where nss: "r2 = None" "rk_namespaces K c2 = Inr nss" by blast
    then have r: "r = None" "c1 = fold (\<lambda>ns c. if ns \<in> allowed then c else delete_bindings K ?un ns c) nss c2"
      using sync by (simp_all add: cleanup_undesired_rbac_def assms(5))
    note fc = fold_cleanup[OF assms(1,3), where D = allowed and xs = nss and c = c2, folded r(2)]
    have "shed ?un (binds c ns) (binds c1 ns) \<and> (answers_cleanup K binds ?un ns \<longrightarrow> binds c1 ns = without_user ?un (binds c ns))"
      if "ns \<notin> allowed" for ns
    proof (cases "ns \<in> set nss")
      case True
      then show ?thesis using fc[of ns] put that by simp
    next
      case False
      have "binds c2 ns = Map.empty" by (rule rbac_namespaces[OF assms(1) nss(2) False])
      moreover from this have "without_user ?un (binds c2 ns) = Map.empty" by (simp add: without_user_def fun_eq_iff)
      ultimately show ?thesis using fc[of ns] put that False by simp
    qed
    moreover have "binds c1 ns = binds c2 ns" if "ns \<in> allowed" for ns using fc[of ns] that by blast
    ultimately show ?thesis using put nss(1) r(1) by simp
  next
    case False
    then have "c1 = c2 \<and> r \<noteq> None \<and> (r2 \<noteq> None \<or> (\<exists>e. rk_namespaces K c2 = Inl e))"
      using sync by (cases r2; cases "rk_namespaces K c2") (simp_all add: cleanup_undesired_rbac_def)
    then show ?thesis using put by (simp; blast)
  qed
qed

definition demo_ns_user :: "string \<Rightarrow> string \<Rightarrow> user" where
  "demo_ns_user role nss = zero_user\<lparr>us_username := ''eve'', us_role := role, us_allowed_namespaces := nss\<rparr>"

theorem sync_effect_witness:
  "\<exists>c1. sync_user_rbac (Some (demo_rbac [''web'', ''db''])) (demo_ns_user ''ns-admin'' ''web,lab'')
     [binding_for (demo_ns_user ''ns-admin'' []) ''k8ops-role-ns-admin'' ''db''] = (None, c1) \<and>
     demo_binds c1 ''web'' ''k8ops:eve:web'' = Some (binding_for (demo_ns_user ''ns-admin'' ''web,lab'') ''k8ops-role-ns-admin'' ''web'') \<and>
     demo_binds c1 ''db'' ''k8ops:eve:db'' = None \<and> demo_binds c1 ''lab'' = Map.empty"
proof -
  let ?u = "demo_ns_user ''ns-admin'' ''web,lab''" and ?b = "binding_for (demo_ns_user ''ns-admin'' []) ''k8ops-role-ns-admin'' ''db''"
  let ?K = "demo_rbac [''web'', ''db'']"
  have ds: "set (auth_split_namespaces (us_allowed_namespaces ?u)) = {''web'', ''lab''}" by code_simp
  have u: "us_role ?u = ''ns-admin''" "us_username ?u = ''eve''" by (simp_all add: demo_ns_user_def)
  have v: "label_value (us_username ?u)" by code_simp
  obtain r c1 where s: "sync_user_rbac (Some ?K) ?u [?b] = (r, c1)" by (cases "sync_user_rbac (Some ?K) ?u [?b]")
  have "fst (sync_user_rbac (Some ?K) ?u [?b]) = None \<and>
      map rbg_namespace (snd (sync_user_rbac (Some ?K) ?u [?b])) = [''web'']" by code_simp
  then have r: "r = None" and m: "map rbg_namespace c1 = [''web'']" using s by simp_all
  note e = sync_effect[OF demo_rbac_server _ v s ds[symmetric] refl, unfolded r u]
  have "\<not> unwelcome ?K (binding_for ?u ''k8ops-role-ns-admin'' ''web'')"
    by (auto simp: unwelcome_def demo_rbac_def binding_for_def split: if_splits option.splits)
  then have "demo_binds c1 ''web'' ''k8ops:eve:web'' = Some (binding_for ?u ''k8ops-role-ns-admin'' ''web'')" using e by auto
  moreover have "demo_binds c1 ''db'' = without_user ''eve'' (demo_binds [?b] ''db'')" using e demo_cleans by auto
  moreover have "of_user ''eve'' (demo_binds [?b] ''db'' ''k8ops:eve:db'')"
    by (simp add: of_user_def demo_binds_def binding_for_def demo_ns_user_def zero_user_def)
  moreover have "demo_binds c1 ''lab'' = Map.empty"
    using m by (auto simp: demo_binds_def fun_eq_iff find_None_iff)
  ultimately show ?thesis using s r by (intro exI[of _ c1]) (simp add: without_user_def)
qed

text \<open>Switching a namespace-scoped user between the two roles fails: the binding of a namespace the
  user keeps has the same name for both roles and another role reference, which no update can change; the server answers the create
  with AlreadyExists, and the update with an error that is not NotFound. The synchronisation stops there with an error: no binding of any
  namespace is changed, the namespaces that were taken from the user keep theirs, and those that
  were added get none.\<close>

theorem role_switch_fails:
  assumes "rbac_server K binds"
    and "us_role u = ''ns-admin'' \<or> us_role u = ''ns-viewer''" "auth_split_namespaces (us_allowed_namespaces u) = ns # others"
    and "binds c ns (''k8ops:'' @ us_username u @ '':'' @ ns) = Some old" "rbg_role_ref old \<noteq> ''k8ops-role-'' @ us_role u"
    and "rb = binding_for u (''k8ops-role-'' @ us_role u) ns" "\<exists>e. fst (rk_create K rb c) = Some e \<and> ae_reason e = AlreadyExists"
    and "\<forall>e. fst (rk_update K rb (snd (rk_create K rb c))) = Some e \<longrightarrow> ae_reason e \<noteq> NotFound"
  shows "\<exists>e c1. sync_user_rbac (Some K) u c = (Some e, c1) \<and> binds c1 = binds c"
proof -
  obtain e c1 where c1: "rk_create K rb c = (Some e, c1)" "ae_reason e = AlreadyExists"
    using assms(7) by (cases "rk_create K rb c") auto
  then have b1: "binds c1 = binds c" using rbac_create[OF assms(1) c1(1)] by (simp add: has_effect_def)
  obtain a c2 where c2: "rk_update K rb c1 = (a, c2)" by (cases "rk_update K rb c1")
  have other: "\<not> (\<forall>old. binds c1 (rbg_namespace rb) (rbg_name rb) = Some old \<longrightarrow> rbg_role_ref old = rbg_role_ref rb)"
    using assms(4,5) by (simp add: b1 assms(6) binding_for_def)
  obtain e2 where e2: "a = Some e2" "binds c2 = binds c1"
  proof (cases a)
    case None
    with rbac_update[OF assms(1) c2] other show ?thesis unfolding has_effect_def by simp
  next
    case (Some e2)
    with rbac_update[OF assms(1) c2] other have "binds c2 = binds c1" unfolding has_effect_def by auto
    with Some show ?thesis by (rule that)
  qed
  then have "ae_reason e2 \<noteq> NotFound" using assms(8) c1(1) c2 by simp
  then have "\<exists>e3. put_bindings K u (''k8ops-role-'' @ us_role u) (ns # others) c = (Some e3, c2)"
    using c1 c2 e2(1) unfolding put_bindings.simps assms(6)[symmetric] by (simp add: Let_def)
  then obtain e3 where "put_bindings K u (''k8ops-role-'' @ us_role u) (ns # others) c = (Some e3, c2)" by blast
  then show ?thesis using e2(2) b1 unfolding sync_scoped[OF assms(2)] assms(3) by simp
qed

theorem role_switch_fails_witness:
  "\<exists>e c1. sync_user_rbac (Some (demo_rbac [''web'', ''db''])) (demo_ns_user ''ns-viewer'' ''web'')
     [binding_for (demo_ns_user ''ns-admin'' []) ''k8ops-role-ns-admin'' ''web''] = (Some e, c1) \<and>
     demo_binds c1 ''web'' ''k8ops:eve:web'' = Some (binding_for (demo_ns_user ''ns-admin'' []) ''k8ops-role-ns-admin'' ''web'')"
proof -
  let ?u = "demo_ns_user ''ns-viewer'' ''web''" and ?b = "binding_for (demo_ns_user ''ns-admin'' []) ''k8ops-role-ns-admin'' ''web''"
  have ds: "auth_split_namespaces (us_allowed_namespaces ?u) = [''web'']" by code_simp
  have b: "demo_binds [?b] ''web'' (''k8ops:'' @ us_username ?u @ '':'' @ ''web'') = Some ?b"
    by (simp add: demo_binds_def binding_for_def demo_ns_user_def zero_user_def)
  have "\<exists>e c1. sync_user_rbac (Some (demo_rbac [''web'', ''db''])) ?u [?b] = (Some e, c1) \<and> demo_binds c1 = demo_binds [?b]"
    by (rule role_switch_fails[where ns = "''web''" and others = "[]" and old = ?b and
        rb = "binding_for ?u (''k8ops-role-'' @ us_role ?u) ''web''"])
      (simp_all add: demo_rbac_server ds b, simp_all add: demo_ns_user_def binding_for_def demo_binds_def demo_rbac_def zero_user_def)
  then obtain e c1 where "sync_user_rbac (Some (demo_rbac [''web'', ''db''])) ?u [?b] = (Some e, c1)" "demo_binds c1 = demo_binds [?b]"
    by blast
  moreover have "us_username ?u = ''eve''" by (simp add: demo_ns_user_def)
  ultimately show ?thesis using b by (intro exI[of _ e] exI[of _ c1]) simp
qed

end
