(* ===== verification/Auth_Handlers.thy ===== *)
theory Auth_Handlers
  imports Auth_Props Rbac_Sync
begin

text \<open>
  The handlers of accounts and API keys (internal/auth/handlers.go, apikey_handlers.go). The world
  is the database and the cluster together; \<open>K\<close> is the client of the role binding synchronisation,
  when there is one. Times in answers are \<open>AInt\<close>s.
\<close>

section \<open>Helpers\<close>

definition auth_error :: "int \<Rightarrow> string \<Rightarrow> http_resp" where
  "auth_error code msg = respond code (AObject [(''error'', AString msg)])"

definition sanitize_user :: "user \<Rightarrow> any" where
  "sanitize_user u = AObject
     [(''id'', AInt (us_id u)), (''username'', AString (us_username u)), (''email'', AString (us_email u)),
      (''display_name'', AString (us_display_name u)), (''role'', AString (us_role u)),
      (''provider'', AString (us_provider u)), (''must_change_pwd'', ABool (us_must_change_pwd u)),
      (''allowed_namespaces'', AString (us_allowed_namespaces u)), (''created_at'', AInt (us_created_at u))]"

definition any_time :: "time option \<Rightarrow> any" where
  "any_time t = (case t of None \<Rightarrow> ANil | Some t \<Rightarrow> AInt t)"

text \<open>\<open>strconvParseUint\<close>: 64-bit arithmetic without a check for overflow.\<close>

fun parse_uint_from :: "int \<Rightarrow> string \<Rightarrow> int option" where
  "parse_uint_from n [] = Some n"
| "parse_uint_from n (c # s) =
     (if \<not> is_digit c then None else parse_uint_from (wrap_u64 (n * 10 + (int (of_char c) - 48))) s)"

definition strconv_parse_uint :: "string \<Rightarrow> int option" where
  "strconv_parse_uint s = parse_uint_from 0 s"

text \<open>The library's \<open>ParseUint\<close> in base 10 with 64 bits.\<close>

definition parse_uint64 :: "string \<Rightarrow> int option" where
  "parse_uint64 s = (if s \<noteq> [] \<and> list_all is_digit s \<and> digits_value s < 2 ^ 64 then Some (digits_value s) else None)"

section \<open>The own account\<close>

definition handle_logout :: http_resp where
  "handle_logout = clear_auth_cookie (respond 200 (AObject [(''redirect_url'', AString ''/login.html'')]))"

definition handle_me :: "user option \<Rightarrow> http_resp" where
  "handle_me ctx = (case ctx of None \<Rightarrow> auth_error 401 ''not authenticated''
     | Some u \<Rightarrow> respond 200 (AObject [(''user'', sanitize_user u)]))"

definition handle_change_password :: "'d authenticator \<Rightarrow> string \<Rightarrow> 'd handler" where
  "handle_change_password A salt ctx rq d = (case ctx of
     None \<Rightarrow> (auth_error 401 ''not authenticated'', d)
   | Some u \<Rightarrow> (case members (rq_json rq) of
       None \<Rightarrow> (auth_error 400 ''invalid request'', d)
     | Some ms \<Rightarrow> (case (decode_string ''old_password'' ms, decode_string ''new_password'' ms) of
         (Some old, Some new) \<Rightarrow> (case change_password A salt (us_id u) old new d of
             (Some e, d1) \<Rightarrow> (auth_error 400 e, d1)
           | (None, d1) \<Rightarrow> (respond 200 (AObject [(''message'', AString ''password changed successfully'')]), d1))
       | _ \<Rightarrow> (auth_error 400 ''invalid request'', d))))"

section \<open>Administration of users\<close>

definition handle_users :: "'d authenticator \<Rightarrow> 'd rbac_api option \<Rightarrow> string \<Rightarrow> 'd handler" where
  "handle_users A K salt ctx rq d =
     (if rq_method rq = ''GET'' then (case list_users (au_store A) d of
          Inl e \<Rightarrow> (auth_error 500 e, d)
        | Inr us \<Rightarrow> (respond 200 (AObject [(''users'', AList (map sanitize_user us))]), d))
      else if rq_method rq = ''POST'' then (case members (rq_json rq) of
          None \<Rightarrow> (auth_error 400 ''invalid request'', d)
        | Some ms \<Rightarrow> (case (decode_string ''username'' ms, decode_string ''password'' ms, decode_string ''email'' ms,
              decode_string ''display_name'' ms, decode_string ''role'' ms, decode_string ''allowed_namespaces'' ms) of
            (Some username, Some pw, Some email, Some display, Some role, Some nss) \<Rightarrow>
              if username = [] \<or> pw = [] then (auth_error 400 ''username and password required'', d)
              else (case admin_create_user A salt username pw email display role nss d of
                  (Inl e, d1) \<Rightarrow> (auth_error 400 e, d1)
                | (Inr u, d1) \<Rightarrow> (respond 201 (AObject [(''user'', sanitize_user u)]), snd (sync_user_rbac K u d1)))
          | _ \<Rightarrow> (auth_error 400 ''invalid request'', d)))
      else (http_error 405 (json_error ''method not allowed''), d))"

text \<open>
  The columns an administrator may set. \<open>col\<close> is what the database makes of a JSON value in a
  column of text.
\<close>

definition user_column :: "string \<Rightarrow> string \<Rightarrow> user \<Rightarrow> user" where
  "user_column k s u =
     (if k = ''role'' then u\<lparr>us_role := s\<rparr> else if k = ''display_name'' then u\<lparr>us_display_name := s\<rparr>
      else if k = ''email'' then u\<lparr>us_email := s\<rparr> else if k = ''allowed_namespaces'' then u\<lparr>us_allowed_namespaces := s\<rparr>
      else u)"

definition allowed_updates :: "(string \<times> any) list \<Rightarrow> (string \<times> any) list" where
  "allowed_updates ms = filter (\<lambda>(k, v). k \<in> {''role'', ''display_name'', ''email'', ''allowed_namespaces''}) ms"

definition apply_updates :: "(any \<Rightarrow> string) \<Rightarrow> (string \<times> any) list \<Rightarrow> user \<Rightarrow> user" where
  "apply_updates col ms u = fold (\<lambda>(k, v). user_column k (col v)) ms u"

definition path_user_id :: "string \<Rightarrow> string" where
  "path_user_id path =
     (let id1 = (case last_index (CHR ''/'') path of
            Some i \<Rightarrow> if 0 < i \<and> drop (Suc i) path = ''reset-password'' then take i path else path
          | None \<Rightarrow> path)
      in case last_index (CHR ''/'') id1 of Some i \<Rightarrow> drop (Suc i) id1 | None \<Rightarrow> id1)"

definition delete_user_by_id :: "'d authenticator \<Rightarrow> 'd rbac_api option \<Rightarrow> int \<Rightarrow> 'd \<Rightarrow> http_resp \<times> 'd" where
  "delete_user_by_id A K i d =
     (let d1 = (case K of None \<Rightarrow> d
          | Some k \<Rightarrow> (case get_user_by_id (au_store A) i d of
              Inl _ \<Rightarrow> d | Inr u \<Rightarrow> snd (cleanup_user_rbac k (us_username u) d)))
      in case delete_user (au_store A) i d1 of
           (Some e, d2) \<Rightarrow> (auth_error 500 e, d2)
         | (None, d2) \<Rightarrow> (respond 200 (AObject [(''message'', AString ''user deleted'')]), d2))"

definition patch_user_by_id :: "'d authenticator \<Rightarrow> 'd rbac_api option \<Rightarrow> (any \<Rightarrow> string) \<Rightarrow> int \<Rightarrow> any option \<Rightarrow> 'd \<Rightarrow>
    http_resp \<times> 'd" where
  "patch_user_by_id A K col i body d = (case members body of
     None \<Rightarrow> (auth_error 400 ''invalid request'', d)
   | Some ms \<Rightarrow> (let filtered = allowed_updates ms; updates = map_of (rev filtered) in
       case admin_update_user A i (apply_updates col filtered) d of
         (Some e, d1) \<Rightarrow> (auth_error 500 e, d1)
       | (None, d1) \<Rightarrow>
           (let given = (\<lambda>k. case updates k of None \<Rightarrow> False | Some v \<Rightarrow> v \<noteq> ANil);
                d2 = (if K \<noteq> None \<and> (given ''role'' \<or> given ''allowed_namespaces'')
                  then (case get_user_by_id (au_store A) i d1 of Inl _ \<Rightarrow> d1 | Inr u \<Rightarrow> snd (sync_user_rbac K u d1))
                  else d1)
            in (respond 200 (AObject [(''message'', AString ''user updated'')]), d2))))"

definition reset_password_by_id :: "'d authenticator \<Rightarrow> string \<Rightarrow> int \<Rightarrow> any option \<Rightarrow> 'd \<Rightarrow> http_resp \<times> 'd" where
  "reset_password_by_id A salt i body d = (case members body of
     None \<Rightarrow> (auth_error 400 ''invalid request'', d)
   | Some ms \<Rightarrow> (case decode_string ''password'' ms of
       None \<Rightarrow> (auth_error 400 ''invalid request'', d)
     | Some pw \<Rightarrow> if pw = [] then (auth_error 400 ''password required'', d)
         else (case admin_reset_password A salt i pw d of
             (Some e, d1) \<Rightarrow> (auth_error 500 e, d1)
           | (None, d1) \<Rightarrow> (respond 200 (AObject [(''message'', AString ''password reset'')]), d1))))"

definition handle_user_by_id :: "'d authenticator \<Rightarrow> 'd rbac_api option \<Rightarrow> (any \<Rightarrow> string) \<Rightarrow> string \<Rightarrow> 'd handler" where
  "handle_user_by_id A K col salt ctx rq d =
     (if length (split_n (CHR ''/'') 6 (rq_path rq)) < 5 then (auth_error 400 ''user ID required'', d)
      else (case strconv_parse_uint (path_user_id (rq_path rq)) of
          None \<Rightarrow> (auth_error 400 ''invalid user ID'', d)
        | Some i \<Rightarrow>
            if rq_method rq = ''DELETE'' then delete_user_by_id A K i d
            else if rq_method rq = ''PATCH'' then patch_user_by_id A K col i (rq_json rq) d
            else if rq_method rq = ''POST'' then
              (if has_suffix (rq_path rq) ''/reset-password'' then reset_password_by_id A salt i (rq_json rq) d
               else (silent, d))
            else (http_error 405 (json_error ''method not allowed''), d)))"

section \<open>API keys\<close>

definition day :: duration where "day = 24 * 60 * minute"

definition key_expiry :: "time \<Rightarrow> int \<Rightarrow> time option" where
  "key_expiry now days = (if 0 < days then Some (now + wrap64 (days * day)) else None)"

definition new_key :: "int \<Rightarrow> string \<Rightarrow> string \<Rightarrow> string \<Rightarrow> time option \<Rightarrow> api_key" where
  "new_key owner name h pre expires = \<lparr>ak_id = 0, ak_user_id = owner, ak_name = name, ak_key_hash = h, ak_key_prefix = pre,
     ak_last_used_at = None, ak_expires_at = expires, ak_revoked = False, ak_created_at = 0\<rparr>"

definition handle_create_api_key :: "'d authenticator \<Rightarrow> string + string \<Rightarrow> time \<Rightarrow> 'd handler" where
  "handle_create_api_key A raw now ctx rq d = (case ctx of
     None \<Rightarrow> (auth_error 401 ''not authenticated'', d)
   | Some u \<Rightarrow> (case members (rq_json rq) of
       None \<Rightarrow> (auth_error 400 ''invalid request'', d)
     | Some ms \<Rightarrow> (case (decode_string ''name'' ms, decode_members as_json_int ''expires_in'' ms 0) of
         (Some name, Some days) \<Rightarrow> (case generate_api_key A raw of
             Inl _ \<Rightarrow> (auth_error 500 ''failed to generate API key'', d)
           | Inr (plaintext, h, pre) \<Rightarrow> (case create_api_key (au_store A)
                 (new_key (us_id u) (if name = [] then ''default'' else name) h pre (key_expiry now days)) d of
               (Inl _, d1) \<Rightarrow> (auth_error 500 ''failed to save API key'', d1)
             | (Inr k, d1) \<Rightarrow> (respond 201 (AObject [(''id'', AInt (ak_id k)), (''name'', AString (ak_name k)),
                 (''key'', AString plaintext), (''key_prefix'', AString pre), (''expires_at'', any_time (ak_expires_at k)),
                 (''created_at'', AInt (ak_created_at k)),
                 (''message'', AString ''Save this key securely. It will not be shown again.'')]), d1)))
       | _ \<Rightarrow> (auth_error 400 ''invalid request'', d))))"

definition key_view :: "api_key \<Rightarrow> any" where
  "key_view k = AObject [(''id'', AInt (ak_id k)), (''name'', AString (ak_name k)), (''key_prefix'', AString (ak_key_prefix k)),
     (''last_used_at'', any_time (ak_last_used_at k)), (''expires_at'', any_time (ak_expires_at k)),
     (''created_at'', AInt (ak_created_at k))]"

definition handle_list_api_keys :: "'d authenticator \<Rightarrow> 'd handler" where
  "handle_list_api_keys A ctx rq d = (case ctx of
     None \<Rightarrow> (auth_error 401 ''not authenticated'', d)
   | Some u \<Rightarrow> (case list_api_keys_by_user (au_store A) (us_id u) d of
       Inl _ \<Rightarrow> (auth_error 500 ''failed to list API keys'', d)
     | Inr ks \<Rightarrow> (respond 200 (AObject [(''api_keys'', AList (map key_view ks))]), d)))"

definition handle_api_keys :: "'d authenticator \<Rightarrow> string + string \<Rightarrow> time \<Rightarrow> 'd handler" where
  "handle_api_keys A raw now ctx rq d =
     (if rq_method rq = ''POST'' then handle_create_api_key A raw now ctx rq d
      else if rq_method rq = ''GET'' then handle_list_api_keys A ctx rq d
      else (auth_error 405 ''method not allowed'', d))"

definition handle_api_key_by_id :: "'d authenticator \<Rightarrow> 'd handler" where
  "handle_api_key_by_id A ctx rq d =
     (if rq_method rq \<noteq> ''DELETE'' then (auth_error 405 ''method not allowed'', d)
      else (case ctx of
          None \<Rightarrow> (auth_error 401 ''not authenticated'', d)
        | Some u \<Rightarrow> (case parse_uint64 (trim_suffix (trim_prefix (rq_path rq) ''/api/auth/api-keys/'') ''/'') of
            None \<Rightarrow> (auth_error 400 ''invalid API key ID'', d)
          | Some i \<Rightarrow> (case get_api_key_by_id (au_store A) i d of
              Inl _ \<Rightarrow> (auth_error 404 ''API key not found'', d)
            | Inr k \<Rightarrow>
                if ak_user_id k \<noteq> us_id u \<and> us_role u \<noteq> ''admin''
                then (auth_error 403 ''forbidden: not your API key'', d)
                else (case delete_api_key (au_store A) i d of
                    (Some _, d1) \<Rightarrow> (auth_error 500 ''failed to revoke API key'', d1)
                  | (None, d1) \<Rightarrow> (respond 200 (AObject [(''message'', AString ''API key revoked'')]), d1))))))"

section \<open>Ids in paths\<close>

declare parse_uint_from.simps(2) [simp del]

lemma digit_char_code: "d < 10 \<Longrightarrow> is_digit (digit_char d) \<and> int (of_char (digit_char d)) - 48 = int d"
  by (simp add: is_digit_def digit_char_def)

lemma digit_char_not_slash: "d < 10 \<Longrightarrow> digit_char d \<noteq> CHR ''/''"
  using digit_char_code[of d] by (auto simp: is_digit_def)

lemma parse_uint_from_append:
  "parse_uint_from n (s @ t) = (case parse_uint_from n s of None \<Rightarrow> None | Some m \<Rightarrow> parse_uint_from m t)"
  by (induction s arbitrary: n) (auto simp: parse_uint_from.simps(2))

lemma wrap_u64_digit: "wrap_u64 (wrap_u64 a * 10 + b) = wrap_u64 (a * 10 + b)"
  unfolding wrap_u64_def by (rule mod_add_cong) (simp_all add: mod_mult_left_eq)

lemma parse_uint_show: "strconv_parse_uint (show_nat n) = Some (wrap_u64 (int n))"
  unfolding strconv_parse_uint_def
proof (induction n rule: show_nat.induct)
  case (1 n)
  show ?case
  proof (cases "n < 10")
    case True
    then show ?thesis using digit_char_code[of n]
      by (subst show_nat.simps) (simp add: parse_uint_from.simps(2) wrap_u64_def)
  next
    case False
    have d: "n mod 10 < 10" by simp
    have "int n = int (n div 10) * 10 + int (n mod 10)"
      by (metis div_mult_mod_eq of_nat_add of_nat_mult of_nat_numeral)
    then have "wrap_u64 (wrap_u64 (int (n div 10)) * 10 + int (n mod 10)) = wrap_u64 (int n)"
      by (metis wrap_u64_digit)
    with False 1[OF False] digit_char_code[OF d] show ?thesis
      by (subst show_nat.simps) (simp add: parse_uint_from_append parse_uint_from.simps(2))
  qed
qed

lemma show_nat_digits: "c \<in> set (show_nat n) \<Longrightarrow> is_digit c"
proof (induction n rule: show_nat.induct)
  case (1 n)
  have d: "is_digit (digit_char (n mod 10))" "n < 10 \<Longrightarrow> is_digit (digit_char n)"
    using digit_char_code[of "n mod 10"] digit_char_code[of n] by simp_all
  from 1 d show ?case by (subst (asm) (2) show_nat.simps) (auto split: if_splits)
qed

lemma show_nat_no_slash: "CHR ''/'' \<notin> set (show_nat n)"
  using show_nat_digits[of "CHR ''/''" n] by (auto simp: is_digit_def)

lemma show_nat_not_Nil: "show_nat n \<noteq> []"
  by (subst show_nat.simps) simp

lemma show_nat_not_reset: "show_nat n \<noteq> ''reset-password''"
  using show_nat_digits[of "CHR ''r''" n] by (auto simp: is_digit_def)

lemma show_nat_not_suffix: "\<not> has_suffix (xs @ show_nat n) ''/reset-password''"
proof
  assume "has_suffix (xs @ show_nat n) ''/reset-password''"
  then have "last (xs @ show_nat n) = CHR ''d''" by (auto simp: has_suffix_def suffix_def)
  then have "CHR ''d'' \<in> set (show_nat n)" using show_nat_not_Nil[of n] by (metis last_appendR last_in_set)
  then show False using show_nat_digits[of "CHR ''d''" n] by (simp add: is_digit_def)
qed

lemma split_n_not_Nil: "0 < n \<Longrightarrow> split_n c n s \<noteq> []"
  by (induction c n s rule: split_n.induct) (auto split: list.split)

lemma last_index_skip: "c \<notin> set t \<Longrightarrow> last_index c (s @ c # t) = Some (length s)"
proof -
  assume t: "c \<notin> set t"
  have "last_index c t = None" using t by (induction t) auto
  then have "last_index c (c # t) = Some 0" by simp
  then show ?thesis by (induction s) auto
qed

lemma path_user_id_plain: "CHR ''/'' \<notin> set t \<Longrightarrow> t \<noteq> ''reset-password'' \<Longrightarrow> path_user_id (''/api/admin/users/'' @ t) = t"
  using last_index_skip[of "CHR ''/''" t "''/api/admin/users''"] by (simp add: path_user_id_def)

lemma path_user_id_reset: "CHR ''/'' \<notin> set t \<Longrightarrow> path_user_id (''/api/admin/users/'' @ t @ ''/reset-password'') = t"
  using last_index_skip[of "CHR ''/''" "''reset-password''" "''/api/admin/users/'' @ t"]
    last_index_skip[of "CHR ''/''" t "''/api/admin/users''"] by (simp add: path_user_id_def)

lemma user_id_only_mod:
  assumes tail: "tail = [] \<or> tail = ''/reset-password''" and w: "wrap_u64 (int m) = wrap_u64 (int n)"
  shows "handle_user_by_id A K col salt ctx (rq\<lparr>rq_path := ''/api/admin/users/'' @ show_nat m @ tail\<rparr>) d =
    handle_user_by_id A K col salt ctx (rq\<lparr>rq_path := ''/api/admin/users/'' @ show_nat n @ tail\<rparr>) d"
proof -
  have id: "strconv_parse_uint (path_user_id (''/api/admin/users/'' @ show_nat k @ tail)) = Some (wrap_u64 (int k))" for k
  proof -
    have "path_user_id (''/api/admin/users/'' @ show_nat k @ tail) = show_nat k"
      using tail path_user_id_plain[OF show_nat_no_slash, of k] path_user_id_reset[OF show_nat_no_slash, of k]
        show_nat_not_reset by auto
    then show ?thesis by (simp add: parse_uint_show)
  qed
  have len: "\<not> length (split_n (CHR ''/'') 6 (''/api/admin/users/'' @ t)) < 5" for t
    using split_n_not_Nil[of 2 "CHR ''/''" t] by (simp add: eval_nat_numeral split: list.split)
  have "has_suffix (''/api/admin/users/'' @ show_nat k @ tail) ''/reset-password'' \<longleftrightarrow> tail \<noteq> []" for k
    using tail show_nat_not_suffix[of "''/api/admin/users/''" k] by (auto simp: has_suffix_def suffix_def)
  with id w len show ?thesis by (simp add: handle_user_by_id_def del: append.simps)
qed

section \<open>Properties\<close>

text \<open>The id in a path of the user administration is read modulo 2 to the 64: whatever the method, the
  request for the number \<open>n + 2 ^ 64\<close> is the request for \<open>n\<close>, so that deleting, changing or
  resetting a user that cannot exist is done to another user. It is the same for the path of a
  password reset.\<close>

theorem user_id_wraps:
  assumes "tail = [] \<or> tail = ''/reset-password''"
  shows "handle_user_by_id A K col salt ctx (rq\<lparr>rq_path := ''/api/admin/users/'' @ show_nat (n + 2 ^ 64) @ tail\<rparr>) d =
    handle_user_by_id A K col salt ctx (rq\<lparr>rq_path := ''/api/admin/users/'' @ show_nat n @ tail\<rparr>) d"
  by (rule user_id_only_mod[OF assms]) (simp add: wrap_u64_def)

theorem user_id_wraps_witness:
  "snd (handle_user_by_id demo_auth None (\<lambda>x. []) [] None
      (demo_req ''DELETE'' ''/api/admin/users/18446744073709551617'' [] None) demo_db) = demo_db\<lparr>md_users := [demo_user 2 ''eve'' ''viewer'']\<rparr>"
proof -
  let ?rq = "demo_req ''DELETE'' [] [] None"
  have n: "show_nat (1 + 2 ^ 64) = ''18446744073709551617''" "show_nat 1 = ''1''"
    by (simp_all add: show_nat.simps digit_char_def) code_simp+
  have "handle_user_by_id demo_auth None (\<lambda>x. []) [] None (?rq\<lparr>rq_path := ''/api/admin/users/'' @ show_nat (1 + 2 ^ 64) @ []\<rparr>) demo_db =
    handle_user_by_id demo_auth None (\<lambda>x. []) [] None (?rq\<lparr>rq_path := ''/api/admin/users/'' @ show_nat 1 @ []\<rparr>) demo_db"
    by (rule user_id_wraps) simp
  then have "handle_user_by_id demo_auth None (\<lambda>x. []) [] None (demo_req ''DELETE'' ''/api/admin/users/18446744073709551617'' [] None) demo_db =
    handle_user_by_id demo_auth None (\<lambda>x. []) [] None (demo_req ''DELETE'' ''/api/admin/users/1'' [] None) demo_db"
    unfolding n by (simp add: demo_req_def)
  moreover have "md_users (snd (handle_user_by_id demo_auth None (\<lambda>x. []) [] None (demo_req ''DELETE'' ''/api/admin/users/1'' [] None) demo_db)) =
    [demo_user 2 ''eve'' ''viewer'']" by code_simp
  ultimately show ?thesis
    by (auto simp: handle_user_by_id_def delete_user_by_id_def delete_user_def mem_store_def mem_table_def demo_req_def
        split: if_splits option.splits)
qed

text \<open>The life of a new key: the answer to a creation carries the plain key, and presenting it is
  presenting the user until the expiry, which is the number of days after the creation as a
  64-bit duration, or forever when the number is not positive. (A number of 106752 days or more
  is not such a duration: it wraps around, to a time in the past or within hours.)\<close>

theorem created_key_life:
  assumes "sql_ok (st_keys (au_store A)) keys ak_id ak_key_hash (\<lambda>k k1. k1 = k\<lparr>ak_id := ak_id k1, ak_created_at := ak_created_at k1\<rparr>)"
    "table_up (st_keys (au_store A)) keys ak_key_hash" "leaves (st_keys (au_store A)) users"
    and "sql_ok (st_users (au_store A)) users us_id us_username usame" "table_up (st_users (au_store A)) users us_username"
    and "distinct (map us_id (users d))" "u \<in> set (users d)"
    and "generate_api_key A raw = Inr (plaintext, h, pre)" "h \<notin> ak_key_hash ` set (keys d)"
    and "members (rq_json rq) = Some ms" "decode_string ''name'' ms = Some name" "decode_members as_json_int ''expires_in'' ms 0 = Some days"
  shows "\<exists>d1 (k :: api_key). handle_create_api_key A raw now (Some u) rq d = (respond 201 (AObject [(''id'', AInt (ak_id k)), (''name'', AString (ak_name k)),
       (''key'', AString plaintext), (''key_prefix'', AString pre), (''expires_at'', any_time (ak_expires_at k)),
       (''created_at'', AInt (ak_created_at k)),
       (''message'', AString ''Save this key securely. It will not be shown again.'')]), d1) \<and>
     (\<forall>t. fst (validate_api_key A t plaintext d1) =
       (if 0 < days \<and> now + wrap64 (days * day) < t then Inl ''API key has expired'' else Inr u))"
proof -
  let ?k = "new_key (us_id u) (if name = [] then ''default'' else name) h pre (key_expiry now days)"
  have h: "h = hash_api_key A plaintext" using assms(8) by (auto simp: generate_api_key_def Let_def split: sum.splits)
  have "is_ok (fst (t_create (st_keys (au_store A)) ?k d))"
    using assms(2,9) by (simp add: table_up_def new_key_def)
  then obtain k d1 where c: "t_create (st_keys (au_store A)) ?k d = (Inr k, d1)"
    by (metis is_ok_def is_ok_simps(2) prod.collapse sumE)
  have rows: "keys d1 = keys d @ [k]" and k: "k = ?k\<lparr>ak_id := ak_id k, ak_created_at := ak_created_at k\<rparr>"
    using table_createD[OF assms(1) c] by simp_all
  have f: "ak_key_hash k = h" "\<not> ak_revoked k" "ak_user_id k = us_id u" "ak_expires_at k = key_expiry now days"
    by (subst k, simp add: new_key_def)+
  have "get_api_key_by_hash (au_store A) h d1 = Inr k" unfolding get_api_key_by_hash_def
    using assms(9) f(1) by (intro table_first_unique[OF assms(1,2)]) (auto simp: rows image_iff)
  moreover have "users d1 = users d" using leaves_rows(1)[OF assms(3), of ?k d] c by simp
  then have "get_user_by_id (au_store A) (us_id u) d1 = Inr u"
    using get_by_id[OF assms(4,5), of d1 u "us_id u"] assms(6,7) by simp
  ultimately have life: "fst (validate_api_key A t plaintext d1) =
      (if 0 < days \<and> now + wrap64 (days * day) < t then Inl ''API key has expired'' else Inr u)" for t
    using f by (auto simp: validate_api_key_def h key_expiry_def)
  have created: "handle_create_api_key A raw now (Some u) rq d = (respond 201 (AObject [(''id'', AInt (ak_id k)), (''name'', AString (ak_name k)),
       (''key'', AString plaintext), (''key_prefix'', AString pre), (''expires_at'', any_time (ak_expires_at k)),
       (''created_at'', AInt (ak_created_at k)),
       (''message'', AString ''Save this key securely. It will not be shown again.'')]), d1)"
    using assms(8,10-12) c by (simp add: handle_create_api_key_def create_api_key_def)
  show ?thesis by (rule exI[of _ d1], rule exI[of _ k], rule conjI[OF created], rule allI, rule life)
qed

theorem created_key_life_witness:
  "\<exists>d1. snd (handle_create_api_key demo_auth (Inr ''0123'') 0 (Some (demo_user 2 ''eve'' ''viewer''))
       ((demo_req ''POST'' ''/api/auth/api-keys'' [] None)\<lparr>rq_json := Some (AObject [(''expires_in'', AInt 1)])\<rparr>) demo_db) = d1 \<and>
     fst (validate_api_key demo_auth (day + 1) ''k8ops_MDEyMw'' d1) = Inl ''API key has expired'' \<and>
     fst (validate_api_key demo_auth day ''k8ops_MDEyMw'' d1) = Inr (demo_user 2 ''eve'' ''viewer'')"
proof -
  let ?rq = "(demo_req ''POST'' ''/api/auth/api-keys'' [] None)\<lparr>rq_json := Some (AObject [(''expires_in'', AInt 1)])\<rparr>"
  let ?u = "demo_user 2 ''eve'' ''viewer''" and ?h = "hash_api_key demo_auth ''k8ops_MDEyMw''"
  have g: "generate_api_key demo_auth (Inr ''0123'') = Inr (''k8ops_MDEyMw'', ?h, ''k8ops_MDEyMw'')"
    and f: "?h \<notin> ak_key_hash ` set (md_keys demo_db)" by code_simp+
  have w: "wrap64 (1 * day) = day" by (simp add: wrap64_def day_def minute_def second_def)
  have "\<exists>d1 (k :: api_key). handle_create_api_key demo_auth (Inr ''0123'') 0 (Some ?u) ?rq demo_db =
       (respond 201 (AObject [(''id'', AInt (ak_id k)), (''name'', AString (ak_name k)),
       (''key'', AString ''k8ops_MDEyMw''), (''key_prefix'', AString ''k8ops_MDEyMw''), (''expires_at'', any_time (ak_expires_at k)),
       (''created_at'', AInt (ak_created_at k)),
       (''message'', AString ''Save this key securely. It will not be shown again.'')]), d1) \<and>
     (\<forall>t. fst (validate_api_key demo_auth t ''k8ops_MDEyMw'' d1) =
       (if 0 < (1 :: int) \<and> 0 + wrap64 (1 * day) < t then Inl ''API key has expired'' else Inr ?u))"
  proof (rule created_key_life[where keys = md_keys and users = md_users and h = ?h])
    show "generate_api_key demo_auth (Inr ''0123'') = Inr (''k8ops_MDEyMw'', ?h, ''k8ops_MDEyMw'')" by (rule g)
    show "?h \<notin> ak_key_hash ` set (md_keys demo_db)" by (rule f)
    show "sql_ok (st_keys (au_store demo_auth)) md_keys ak_id ak_key_hash
        (\<lambda>k k1. k1 = k\<lparr>ak_id := ak_id k1, ak_created_at := ak_created_at k1\<rparr>)"
      using mem_keys(1) by (auto simp: sql_ok_def)
  qed (use mem_keys mem_users in \<open>auto simp: demo_db_def demo_user_def zero_user_def demo_req_def members_def
      decode_string_def as_json_int_def min_int64_def max_int64_def equal_fold_def to_lower_def lower_char_def\<close>)
  then obtain d1 r where "handle_create_api_key demo_auth (Inr ''0123'') 0 (Some ?u) ?rq demo_db = (r, d1)"
    and t: "fst (validate_api_key demo_auth t ''k8ops_MDEyMw'' d1) = (if day < t then Inl ''API key has expired'' else Inr ?u)" for t
    unfolding w by auto
  then show ?thesis by (intro exI[of _ d1]) (simp add: t)
qed

end
