(* ===== verification/Token_Bucket.thy ===== *)
theory Token_Bucket
  imports Go_Float
begin

text \<open>
  The token bucket both rate limiters of the program are instances of: the refill they compute
  from the elapsed time, and the interface \<open>token_bucket\<close> with the two facts a client of a
  limiter relies on, how many requests a span of time can grant and what happens to requests
  that come faster than one refill.
\<close>

section \<open>Refill\<close>

text \<open>\<open>int(elapsed * float64(refillRate))\<close> with \<open>elapsed\<close> in seconds.\<close>

definition refill :: "duration \<Rightarrow> int \<Rightarrow> int" where
  "refill d rate = int64_of_f64 (f64_mul (dur_seconds d) (f64_of_int rate))"

lemma f64_upper:
  assumes "2 powi (- 1022) \<le> x"
  shows "f64 x \<le> x * (1 + 1 / 2 ^ 53)"
proof -
  have x: "0 < x" using assms two_powi_pos[of "- 1022"] by linarith
  have u: "ulp x = 2 powi (fexp x - 52)" using x assms fexp_ge[of x "- 1022"] by (simp add: ulp_def)
  have "2 powi (fexp x - 52) * 2 ^ 52 = (2 :: rat) powi fexp x"
    using two_powi_add[of "fexp x - 52" 52] by simp
  then have ux: "ulp x * 2 ^ 52 \<le> x" using fexp_bounds[OF x] u by simp
  have "of_int (rne (x / ulp x)) * ulp x \<le> (x / ulp x + 1 / 2) * ulp x"
    using rne_bounds[of "x / ulp x"] by (intro mult_right_mono) auto
  also have "\<dots> = x + ulp x / 2" using ulp_pos[of x] by (simp add: distrib_right less_imp_neq[symmetric])
  finally show ?thesis using x ux by (simp add: f64_def)
qed

text \<open>
  The limits of the analysis: with \<open>rate * d\<close> below the horizon the three roundings of
  \<open>refill\<close> stay below one nanosecond, so truncation never gains a token.
\<close>

definition horizon :: int where "horizon = 2 ^ 20 * second"

lemma one_nano_normal: "2 powi (- 1022) \<le> (1 / 1000000000 :: rat)"
proof -
  have "(2 :: rat) powi (- 1022) \<le> 2 powi (- 30)" by (intro two_powi_mono) simp
  also have "\<dots> \<le> 1 / 1000000000" by (simp add: power_int_def power_divide)
  finally show ?thesis .
qed

lemma f64_upper_nonneg: "x = 0 \<or> 1 / 1000000000 \<le> x \<Longrightarrow> f64 x \<le> x * (1 + 1 / 2 ^ 53)"
  using f64_upper[of x] one_nano_normal by force

lemma of_int_seconds_split:
  "of_int (d div second) + of_int (d mod second) / 1000000000 = (of_int d / 1000000000 :: rat)"
proof -
  have "d = 1000000000 * (d div second) + d mod second" by (simp add: second_def)
  then have "(of_int d :: rat) = of_int (1000000000 * (d div second) + d mod second)"
    by (rule arg_cong)
  then show ?thesis by (simp add: field_simps)
qed

lemma dur_seconds_upper:
  assumes "0 < d" "d < 2 ^ 53"
  shows "dur_seconds d \<le> of_int d / 1000000000 * (1 + 1 / 2 ^ 53) * (1 + 1 / 2 ^ 53)"
proof -
  let ?e = "1 + 1 / 2 ^ 53 :: rat"
  let ?s = "d div second" and ?n = "d mod second"
  have sec: "second = 1000000000" by (simp add: second_def)
  have s: "0 \<le> ?s" "?s \<le> d" and n: "0 \<le> ?n" "?n < second"
    using assms pos_mod_bound[of second d] by (simp_all add: sec pos_imp_zdiv_nonneg_iff)
  let ?q = "of_int ?n / 1000000000 :: rat"
  note dsn = of_int_seconds_split[of d]
  have "?n = 0 \<or> 1 \<le> ?n" using n by linarith
  then have q: "?q = 0 \<or> 1 / 1000000000 \<le> ?q" by auto
  have fq: "f64 ?q \<le> ?q * ?e" "?q \<le> ?q * ?e" using f64_upper_nonneg[OF q] n by auto
  have "dur_seconds d = f64 (of_int ?s + f64 ?q)"
    using assms s n by (simp add: dur_seconds_def f64_add_def f64_div_def f64_of_int_exact
        go_div_nonneg go_mod_nonneg sec)
  also have "\<dots> \<le> f64 (of_int d / 1000000000 * ?e)"
  proof (intro f64_mono)
    have "of_int ?s \<le> (of_int ?s * ?e :: rat)" using s by simp
    then have "of_int ?s + f64 ?q \<le> of_int ?s * ?e + ?q * ?e" using fq(1) by (rule add_mono)
    also have "\<dots> = (of_int ?s + ?q) * ?e" by (rule distrib_right [symmetric])
    finally show "of_int ?s + f64 ?q \<le> of_int d / 1000000000 * ?e" unfolding dsn .
  qed (use s n f64_nonneg[of ?q] in auto)
  also have "\<dots> \<le> of_int d / 1000000000 * ?e * ?e"
    using assms by (intro f64_upper_nonneg disjI2) (auto simp: field_simps)
  finally show ?thesis .
qed

lemma refill_bounds:
  assumes "0 \<le> d" "0 \<le> r" "r \<le> 2 ^ 53" "d < 2 ^ 53" "r * d < horizon"
  shows "0 \<le> refill d r \<and> refill d r \<le> r * d div second"
proof (cases "r * d = 0")
  case True
  then have "d = 0 \<or> r = 0" by auto
  then have zero: "dur_seconds d * of_int r = 0"
    by (auto simp: dur_seconds_def go_div_def go_mod_def f64_of_int_def f64_add_def f64_div_def)
  have "refill d r = int64_of_f64 (f64 (dur_seconds d * of_int r))"
    using assms by (simp add: refill_def f64_mul_def f64_of_int_exact)
  also have "\<dots> = 0" unfolding zero by (simp add: int64_of_f64_def min_int64_def max_int64_def)
  finally have "refill d r = 0" .
  then show ?thesis unfolding True by simp
next
  case False
  define E where "E = r * d"
  have d: "0 < d" and "0 < r" using False assms by (auto simp: less_le)
  then have "0 < E" unfolding E_def by (rule mult_pos_pos[rotated])
  then have E: "1 \<le> E" "E < horizon" using assms by (auto simp: E_def)
  define y where "y = f64_mul (dur_seconds d) (f64_of_int r)"
  let ?e = "1 + 1 / 2 ^ 53 :: rat"
  have y0: "0 \<le> y" using assms dur_seconds_nonneg[of d]
    by (simp add: y_def f64_mul_def f64_of_int_exact f64_nonneg)
  have "dur_seconds d * of_int r \<le> of_int d / 1000000000 * ?e * ?e * of_int r"
    using dur_seconds_upper[OF d assms(4)] assms by (intro mult_right_mono) auto
  then have "dur_seconds d * of_int r \<le> of_int E / 1000000000 * ?e * ?e"
    by (simp add: E_def mult_ac)
  then have "y \<le> f64 (of_int E / 1000000000 * ?e * ?e)"
    using assms dur_seconds_nonneg[of d] by (auto simp: y_def f64_mul_def f64_of_int_exact intro!: f64_mono)
  also have "\<dots> \<le> of_int E / 1000000000 * ?e * ?e * ?e"
    using E by (intro f64_upper_nonneg disjI2) (auto simp: field_simps)
  also have "\<dots> \<le> of_int E / 1000000000 * (1 + 4 / 2 ^ 53)"
    using E by (auto simp: mult.assoc intro!: divide_right_mono mult_left_mono)
  also have "\<dots> < (of_int E + 1) / 1000000000"
  proof -
    have "(of_int E :: rat) < of_int horizon" using E by simp
    then have "(of_int E :: rat) < 2 ^ 20 * 1000000000" by (simp add: horizon_def second_def)
    then show ?thesis by (simp add: field_simps)
  qed
  finally have yE: "y < (of_int E + 1) / 1000000000" .
  have fl: "\<lfloor>y\<rfloor> \<le> E div second"
  proof (rule ccontr)
    assume "\<not> \<lfloor>y\<rfloor> \<le> E div second"
    then have "E + 1 \<le> \<lfloor>y\<rfloor> * second"
      by (simp add: second_def)
    then have "(of_int (E + 1) :: rat) \<le> of_int (\<lfloor>y\<rfloor> * second)" by (simp only: of_int_le_iff)
    then have "(of_int E + 1) / 1000000000 \<le> (of_int \<lfloor>y\<rfloor> :: rat)" by (simp add: second_def)
    with yE have "y < of_int \<lfloor>y\<rfloor>" by linarith
    then show False by linarith
  qed
  have "E div second \<le> max_int64" using E by (simp add: horizon_def second_def max_int64_def)
  with fl y0 have "refill d r = \<lfloor>y\<rfloor>"
    by (simp add: refill_def y_def[symmetric] int64_of_f64_floor)
  with fl y0 show ?thesis by (simp add: E_def)
qed

text \<open>At one token per second the refill is the number of whole seconds.\<close>

lemma refill_one:
  assumes "0 \<le> d" "d < 2 ^ 22 * second"
  shows "refill d 1 = d div second"
proof -
  let ?s = "d div second" and ?x = "dur_seconds d"
  have s: "0 \<le> ?s" "?s < 2 ^ 22"
    using assms by (auto simp: second_def pos_imp_zdiv_nonneg_iff div_less_iff_less_mult)
  have b: "of_int ?s \<le> ?x" "?x \<le> of_int ?s + (1 - 1 / 2 ^ 30)"
    using dur_seconds_bounds[OF assms] by auto
  have "of_int ?s \<le> f64 ?x" using s b by (intro f64_ge_int) auto
  moreover have "f64 ?x \<le> of_int ?s + (1 - 1 / 2 ^ 30)"
    using f64_mono[of ?x, OF dur_seconds_nonneg[OF assms(1)] b(2)] unfolding f64_almost_next[OF s] .
  ultimately have "\<lfloor>f64 ?x\<rfloor> = ?s" "0 \<le> f64 ?x"
    using s by (auto intro!: floor_unique elim: order_trans[rotated])
  with s show ?thesis
    by (simp add: refill_def f64_mul_def f64_of_int_exact int64_of_f64_floor max_int64_def)
qed

section \<open>The interface of a token bucket\<close>

text \<open>
  \<open>grab t b\<close> asks for a token at time \<open>t\<close>. The provider promises that its level stays between
  zero and its capacity, that a request adds at most the whole tokens its rate allows for the
  time since the last request, and that it refuses only when it has none left.
\<close>

locale token_bucket =
  fixes grab :: "time \<Rightarrow> 'b \<Rightarrow> bool \<times> 'b"
    and level :: "'b \<Rightarrow> int" and rate :: "'b \<Rightarrow> int" and clock :: "'b \<Rightarrow> time"
    and ok :: "'b \<Rightarrow> bool"
  assumes ok_level: "ok b \<Longrightarrow> 0 \<le> level b \<and> 0 \<le> rate b"
    and grab_ok: "ok b \<Longrightarrow> clock b \<le> t \<Longrightarrow> rate b * (t - clock b) < horizon \<Longrightarrow>
      t - clock b < horizon \<Longrightarrow> ok (snd (grab t b))"
    and grab_rate: "rate (snd (grab t b)) = rate b"
    and grab_clock: "clock (snd (grab t b)) = t"
    and grab_level: "ok b \<Longrightarrow> clock b \<le> t \<Longrightarrow> rate b * (t - clock b) < horizon \<Longrightarrow>
      t - clock b < horizon \<Longrightarrow>
      level (snd (grab t b)) + (if fst (grab t b) then 1 else 0)
        \<le> level b + rate b * (t - clock b) div second"
begin

fun run :: "time list \<Rightarrow> 'b \<Rightarrow> bool list \<times> 'b" where
  "run [] b = ([], b)"
| "run (t # ts) b = (let (r, b1) = grab t b; (rs, b2) = run ts b1 in (r # rs, b2))"

definition granted :: "time list \<Rightarrow> 'b \<Rightarrow> nat" where
  "granted ts b = length (filter id (fst (run ts b)))"

lemma granted_Nil [simp]: "granted [] b = 0"
  by (simp add: granted_def)

lemma granted_Cons:
  "granted (t # ts) b = (if fst (grab t b) then 1 else 0) + granted ts (snd (grab t b))"
  by (simp add: granted_def split: prod.split)

lemma div_second_add: "a div second + b div second \<le> (a + b) div second"
  by (simp add: second_def)

text \<open>The rate limit: what is granted in a span is bounded by the level and the rate.\<close>

lemma granted_bound:
  assumes "ok b" "sorted ts" "\<And>t. t \<in> set ts \<Longrightarrow> clock b \<le> t \<and> t \<le> u" "clock b \<le> u"
    and "rate b * (u - clock b) < horizon" "u - clock b < horizon"
  shows "int (granted ts b) \<le> level b + rate b * (u - clock b) div second"
  using assms
proof (induction ts arbitrary: b)
  case Nil
  then show ?case using ok_level[of b] by (auto simp: second_def pos_imp_zdiv_nonneg_iff)
next
  case (Cons t ts)
  let ?b = "snd (grab t b)" and ?g = "if fst (grab t b) then 1 else 0 :: int"
  have t: "clock b \<le> t" "t \<le> u" and r: "0 \<le> rate b" using Cons.prems(3) ok_level Cons.prems(1) by auto
  then have le: "rate b * (t - clock b) \<le> rate b * (u - clock b)"
    "rate b * (u - t) \<le> rate b * (u - clock b)" by (auto intro!: mult_left_mono)
  have h: "rate b * (t - clock b) < horizon" "t - clock b < horizon"
    using Cons.prems(5,6) t le by linarith+
  have okb: "ok ?b" using Cons.prems(1) t(1) h by (rule grab_ok)
  have "int (granted ts ?b) \<le> level ?b + rate b * (u - t) div second"
    using Cons.IH[of ?b] Cons.prems okb t le by (auto simp: grab_rate grab_clock)
  moreover have "level ?b + ?g \<le> level b + rate b * (t - clock b) div second"
    using Cons.prems(1) t(1) h by (rule grab_level)
  moreover have "rate b * (t - clock b) div second + rate b * (u - t) div second
      \<le> rate b * (u - clock b) div second"
    using div_second_add[of "rate b * (t - clock b)" "rate b * (u - t)"]
    by (simp flip: distrib_left)
  ultimately show ?case by (auto simp: granted_Cons split: if_splits)
qed

text \<open>
  Requests that each come before the time of one token are granted from the initial level only:
  the fraction of a token they earn is dropped at every request.
\<close>

fun spaced :: "int \<Rightarrow> time \<Rightarrow> time list \<Rightarrow> bool" where
  "spaced r t0 [] = True"
| "spaced r t0 (t # ts) = (t0 \<le> t \<and> t - t0 < second \<and> r * (t - t0) < second \<and> spaced r t ts)"

lemma granted_spaced:
  assumes "ok b" "spaced (rate b) (clock b) ts"
  shows "int (granted ts b) \<le> level b"
  using assms
proof (induction ts arbitrary: b)
  case Nil
  then show ?case using ok_level[of b] by simp
next
  case (Cons t ts)
  let ?b = "snd (grab t b)"
  have h: "second < horizon" by (simp add: horizon_def second_def)
  have t: "clock b \<le> t" "t - clock b < horizon" "rate b * (t - clock b) < horizon" "0 \<le> rate b"
    using Cons.prems h ok_level[of b] by auto
  then have "rate b * (t - clock b) div second = 0"
    using Cons.prems by (auto simp: second_def div_pos_pos_trivial mult_nonneg_nonneg)
  with grab_level[OF Cons.prems(1) t(1,3,2)]
  have "level ?b + (if fst (grab t b) then 1 else 0) \<le> level b" by simp
  moreover have "int (granted ts ?b) \<le> level ?b"
    using Cons.IH[of ?b] Cons.prems grab_ok[OF Cons.prems(1) t(1,3,2)]
    by (simp add: grab_rate grab_clock)
  ultimately show ?case by (auto simp: granted_Cons split: if_splits)
qed

end

end
