(* ===== verification/Resilience.thy ===== *)
theory Resilience
  imports Token_Bucket
begin

text \<open>
  Package \<open>resilience\<close> (internal/resilience/resilience.go): retry with exponential
  backoff, the circuit breaker and the token-bucket rate limiter.

  The clock is an argument of every operation that reads it. What \<open>Retry\<close> calls and waits
  for is an environment: \<open>fn\<close> maps the environment to an optional error and a new
  environment, \<open>wait\<close> is the \<open>select\<close> between the context and the timer, \<open>Some e\<close> when the
  context was done with error \<open>e\<close>.
\<close>

section \<open>Retry\<close>

record retry_config =
  max_attempts :: int
  initial_delay :: duration
  max_delay :: duration
  multiplier :: rat

definition default_retry_config :: retry_config where
  "default_retry_config = \<lparr>max_attempts = 3, initial_delay = 500000000,
     max_delay = 10 * second, multiplier = 2\<rparr>"

definition next_delay :: "retry_config \<Rightarrow> duration \<Rightarrow> duration" where
  "next_delay cfg delay =
     (let d = int64_of_f64 (f64_mul (f64_of_int delay) (multiplier cfg))
      in if max_delay cfg < d then max_delay cfg else d)"

text \<open>The error after the loop; \<open>%w\<close> of a nil error prints as \<open>%!w(<nil>)\<close>.\<close>

definition exhausted :: "retry_config \<Rightarrow> string option \<Rightarrow> string" where
  "exhausted cfg prev = ''after '' @ show_int (max_attempts cfg) @ '' attempts: '' @
     (case prev of None \<Rightarrow> ''%!w(<nil>)'' | Some e \<Rightarrow> e)"

function retry_loop :: "retry_config \<Rightarrow> ('s \<Rightarrow> string option \<times> 's) \<Rightarrow>
    (duration \<Rightarrow> 's \<Rightarrow> string option \<times> 's) \<Rightarrow> int \<Rightarrow> duration \<Rightarrow> string option \<Rightarrow> 's \<Rightarrow>
    string option \<times> 's" where
  "retry_loop cfg fn wait attempt delay prev s =
     (if attempt \<le> max_attempts cfg then
        (case fn s of
           (None, s1) \<Rightarrow> (None, s1)
         | (Some err, s1) \<Rightarrow>
             if attempt = max_attempts cfg then (Some (exhausted cfg (Some err)), s1)
             else (case wait delay s1 of
                 (Some e, s2) \<Rightarrow> (Some e, s2)
               | (None, s2) \<Rightarrow>
                   retry_loop cfg fn wait (attempt + 1) (next_delay cfg delay) (Some err) s2))
      else (Some (exhausted cfg prev), s))"
  by pat_completeness auto
termination
  by (relation "measure (\<lambda>(cfg, fn, wait, attempt, delay, prev, s).
      nat (max_attempts cfg + 1 - attempt))") auto

declare retry_loop.simps [simp del]

definition retry :: "retry_config \<Rightarrow> ('s \<Rightarrow> string option \<times> 's) \<Rightarrow>
    (duration \<Rightarrow> 's \<Rightarrow> string option \<times> 's) \<Rightarrow> 's \<Rightarrow> string option \<times> 's" where
  "retry cfg fn wait s = retry_loop cfg fn wait 1 (initial_delay cfg) None s"

text \<open>
  An environment that answers the calls from a script and records the waits; its context is
  never done. It is the observer the retry properties are stated with.
\<close>

type_synonym script_env = "nat \<times> duration list"

definition script_fn :: "(nat \<Rightarrow> string option) \<Rightarrow> script_env \<Rightarrow> string option \<times> script_env" where
  "script_fn outs env = (outs (fst env), (Suc (fst env), snd env))"

definition script_wait :: "duration \<Rightarrow> script_env \<Rightarrow> string option \<times> script_env" where
  "script_wait d env = (None, (fst env, snd env @ [d]))"

definition backoff :: "retry_config \<Rightarrow> nat \<Rightarrow> duration" where
  "backoff cfg i = (next_delay cfg ^^ i) (initial_delay cfg)"

lemma backoff_Suc: "backoff cfg (Suc i) = next_delay cfg (backoff cfg i)"
  by (simp add: backoff_def)

lemma backoff_capped: "0 < i \<Longrightarrow> backoff cfg i \<le> max_delay cfg"
  by (cases i) (auto simp: backoff_Suc next_delay_def Let_def)

lemma retry_loop_fails:
  assumes "\<And>i. k \<le> i \<Longrightarrow> i < nat (max_attempts cfg) \<Longrightarrow> outs i \<noteq> None"
    and "k < nat (max_attempts cfg)"
  shows "retry_loop cfg (script_fn outs) script_wait (int k + 1) (backoff cfg k) prev (k, ws) =
    (Some (exhausted cfg (outs (nat (max_attempts cfg) - 1))),
     nat (max_attempts cfg), ws @ map (backoff cfg) [k..<nat (max_attempts cfg) - 1])"
  using assms
proof (induction "nat (max_attempts cfg) - k" arbitrary: k prev ws)
  case (Suc n)
  let ?m = "nat (max_attempts cfg)"
  from Suc.prems obtain e where e: "outs k = Some e" by force
  show ?case
  proof (cases "Suc k = ?m")
    case True
    then have "?m - 1 = k" by simp
    with True e have m: "outs (?m - 1) = Some e" "int k + 1 = max_attempts cfg" by auto
    with e show ?thesis
      by (subst retry_loop.simps) (auto simp: script_fn_def simp flip: True)
  next
    case False
    with Suc.prems have k: "Suc k < ?m" by simp
    have "retry_loop cfg (script_fn outs) script_wait (int (Suc k) + 1) (backoff cfg (Suc k))
        (Some e) (Suc k, ws @ [backoff cfg k]) =
      (Some (exhausted cfg (outs (?m - 1))), ?m,
       (ws @ [backoff cfg k]) @ map (backoff cfg) [Suc k..<?m - 1])"
      using Suc.prems k Suc.hyps(2) by (intro Suc.hyps(1)) auto
    moreover have "[k..<?m - 1] = k # [Suc k..<?m - 1]" using k by (simp add: upt_conv_Cons)
    ultimately show ?thesis using e k
      by (subst retry_loop.simps) (auto simp: script_fn_def script_wait_def backoff_Suc add.commute)
  qed
qed simp

lemma retry_loop_succeeds:
  assumes "\<And>i. k \<le> i \<Longrightarrow> i < j \<Longrightarrow> outs i \<noteq> None" and "k \<le> j" and "outs j = None"
    and "j < nat (max_attempts cfg)"
  shows "retry_loop cfg (script_fn outs) script_wait (int k + 1) (backoff cfg k) prev (k, ws) =
    (None, Suc j, ws @ map (backoff cfg) [k..<j])"
  using assms
proof (induction "j - k" arbitrary: k prev ws)
  case 0
  then show ?case by (subst retry_loop.simps) (auto simp: script_fn_def)
next
  case (Suc n)
  from Suc have k: "k < j" by simp
  with Suc.prems obtain e where e: "outs k = Some e" by force
  have "retry_loop cfg (script_fn outs) script_wait (int (Suc k) + 1) (backoff cfg (Suc k))
      (Some e) (Suc k, ws @ [backoff cfg k]) =
    (None, Suc j, (ws @ [backoff cfg k]) @ map (backoff cfg) [Suc k..<j])"
    using Suc.prems k Suc.hyps(2) by (intro Suc.hyps(1)) auto
  moreover have "[k..<j] = k # [Suc k..<j]" using k by (simp add: upt_conv_Cons)
  ultimately show ?case using e k Suc.prems(4)
    by (subst retry_loop.simps) (auto simp: script_fn_def script_wait_def backoff_Suc add.commute)
qed

lemma next_delay_double:
  assumes "multiplier cfg = 2" "0 \<le> d" "d \<le> 2 ^ 52"
  shows "next_delay cfg d = min (2 * d) (max_delay cfg)"
proof -
  have "f64 (of_int (2 * d)) = of_int (2 * d)" using assms by (intro f64_int) auto
  then have "f64_mul (f64_of_int d) 2 = of_int (2 * d)"
    using assms by (simp add: f64_mul_def f64_of_int_exact mult.commute)
  then have "int64_of_f64 (f64_mul (f64_of_int d) 2) = 2 * d"
    using assms by (simp only:) (subst int64_of_f64_floor, auto simp: max_int64_def simp del: of_int_mult)
  then show ?thesis using assms by (auto simp: next_delay_def Let_def)
qed

lemma backoff_doubling:
  assumes "multiplier cfg = 2" "0 \<le> initial_delay cfg" "initial_delay cfg \<le> max_delay cfg"
    and "max_delay cfg \<le> 2 ^ 52"
  shows "backoff cfg i = min (2 ^ i * initial_delay cfg) (max_delay cfg)"
proof (induction i)
  case 0
  with assms show ?case by (simp add: backoff_def)
next
  case (Suc i)
  have r: "0 \<le> backoff cfg i" "backoff cfg i \<le> 2 ^ 52" using Suc assms by auto
  have "backoff cfg (Suc i) = min (2 * backoff cfg i) (max_delay cfg)"
    unfolding backoff_Suc using next_delay_double[OF assms(1) r] .
  also have "\<dots> = min (2 ^ Suc i * initial_delay cfg) (max_delay cfg)"
    using Suc assms by (auto simp: min_def)
  finally show ?case .
qed

section \<open>Circuit breaker\<close>

datatype circuit_state = StateClosed | StateOpen | StateHalfOpen

fun circuit_string :: "circuit_state \<Rightarrow> string" where
  "circuit_string StateClosed = ''closed''"
| "circuit_string StateOpen = ''open''"
| "circuit_string StateHalfOpen = ''half-open''"

record breaker =
  cb_state :: circuit_state
  failure_count :: int
  failure_threshold :: int
  reset_timeout :: duration
  last_failure_time :: time
  success_count :: int
  half_open_max :: int

definition new_breaker :: "int \<Rightarrow> duration \<Rightarrow> breaker" where
  "new_breaker threshold timeout = \<lparr>cb_state = StateClosed, failure_count = 0,
     failure_threshold = threshold, reset_timeout = timeout, last_failure_time = zero_time,
     success_count = 0, half_open_max = 1\<rparr>"

definition cb_allow :: "time \<Rightarrow> breaker \<Rightarrow> bool \<times> breaker" where
  "cb_allow now cb = (case cb_state cb of
     StateClosed \<Rightarrow> (True, cb)
   | StateOpen \<Rightarrow>
       if reset_timeout cb < time_sub now (last_failure_time cb)
       then (True, cb\<lparr>cb_state := StateHalfOpen, success_count := 0\<rparr>)
       else (False, cb)
   | StateHalfOpen \<Rightarrow> (success_count cb < half_open_max cb, cb))"

definition cb_record_success :: "breaker \<Rightarrow> breaker" where
  "cb_record_success cb =
     (if cb_state cb = StateHalfOpen then
        (let n = success_count cb + 1; cb1 = cb\<lparr>success_count := n\<rparr> in
         if half_open_max cb \<le> n then cb1\<lparr>cb_state := StateClosed, failure_count := 0\<rparr> else cb1)
      else if cb_state cb = StateClosed then cb\<lparr>failure_count := 0\<rparr>
      else cb)"

definition cb_record_failure :: "time \<Rightarrow> breaker \<Rightarrow> breaker" where
  "cb_record_failure now cb =
     (let cb1 = cb\<lparr>failure_count := failure_count cb + 1, last_failure_time := now\<rparr> in
      if cb_state cb = StateHalfOpen then cb1\<lparr>cb_state := StateOpen\<rparr>
      else if cb_state cb = StateClosed \<and> failure_threshold cb \<le> failure_count cb1
      then cb1\<lparr>cb_state := StateOpen\<rparr>
      else cb1)"

datatype breaker_op = OpAllow time | OpSuccess | OpFailure time

fun breaker_exec :: "breaker_op \<Rightarrow> breaker \<Rightarrow> breaker" where
  "breaker_exec (OpAllow now) cb = snd (cb_allow now cb)"
| "breaker_exec OpSuccess cb = cb_record_success cb"
| "breaker_exec (OpFailure now) cb = cb_record_failure now cb"

inductive breaker_reach :: "int \<Rightarrow> duration \<Rightarrow> breaker \<Rightarrow> bool" for threshold timeout where
  start: "breaker_reach threshold timeout (new_breaker threshold timeout)"
| step: "breaker_reach threshold timeout cb \<Longrightarrow> breaker_reach threshold timeout (breaker_exec op cb)"

text \<open>
  The invariant ties the counters to the state: a closed breaker is below its threshold, and a
  half-open one has not yet seen the success that would close it.
\<close>

definition breaker_inv :: "int \<Rightarrow> duration \<Rightarrow> breaker \<Rightarrow> bool" where
  "breaker_inv threshold timeout cb \<longleftrightarrow>
     failure_threshold cb = threshold \<and> reset_timeout cb = timeout \<and> half_open_max cb = 1 \<and>
     0 \<le> failure_count cb \<and>
     (cb_state cb = StateClosed \<longrightarrow> failure_count cb < threshold) \<and>
     (cb_state cb = StateHalfOpen \<longrightarrow> success_count cb = 0)"

lemma breaker_inv_new: "0 < threshold \<Longrightarrow> breaker_inv threshold timeout (new_breaker threshold timeout)"
  by (simp add: breaker_inv_def new_breaker_def)

lemma breaker_inv_exec [inv_keep]:
  "0 < threshold \<Longrightarrow> breaker_inv threshold timeout cb \<Longrightarrow>
   breaker_inv threshold timeout (breaker_exec op cb)"
  by (cases op; cases "cb_state cb")
    (auto simp: breaker_inv_def cb_allow_def cb_record_success_def cb_record_failure_def Let_def)

lemma breaker_reach_inv:
  "breaker_reach threshold timeout cb \<Longrightarrow> 0 < threshold \<Longrightarrow> breaker_inv threshold timeout cb"
  by (induction rule: breaker_reach.induct) (auto intro: breaker_inv_new breaker_inv_exec)

text \<open>\<open>k\<close> failures in a row, at the given instants.\<close>

fun fail_all :: "time list \<Rightarrow> breaker \<Rightarrow> breaker" where
  "fail_all [] cb = cb"
| "fail_all (t # ts) cb = fail_all ts (cb_record_failure t cb)"

lemma fail_all_snoc: "fail_all (ts @ [t]) cb = cb_record_failure t (fail_all ts cb)"
  by (induction ts arbitrary: cb) auto

lemma fail_all_new:
  assumes "0 < threshold"
  shows "failure_count (fail_all ts (new_breaker threshold timeout)) = int (length ts) \<and>
    failure_threshold (fail_all ts (new_breaker threshold timeout)) = threshold \<and>
    reset_timeout (fail_all ts (new_breaker threshold timeout)) = timeout \<and>
    cb_state (fail_all ts (new_breaker threshold timeout)) =
      (if threshold \<le> int (length ts) then StateOpen else StateClosed)"
proof (induction ts rule: rev_induct)
  case Nil
  with assms show ?case by (simp add: new_breaker_def)
next
  case (snoc t ts)
  then show ?case by (auto simp: fail_all_snoc cb_record_failure_def Let_def)
qed

lemma fail_all_last: "ts \<noteq> [] \<Longrightarrow> last_failure_time (fail_all ts cb) = last ts"
  by (induction ts arbitrary: cb rule: rev_induct) (auto simp: fail_all_snoc cb_record_failure_def Let_def)

section \<open>Rate limiter\<close>

record rate_limiter =
  rl_tokens :: int
  rl_max_tokens :: int
  rl_refill_rate :: int
  rl_last_refill :: time

definition new_rate_limiter :: "time \<Rightarrow> int \<Rightarrow> int \<Rightarrow> rate_limiter" where
  "new_rate_limiter now max_tokens refill_rate = \<lparr>rl_tokens = max_tokens,
     rl_max_tokens = max_tokens, rl_refill_rate = refill_rate, rl_last_refill = now\<rparr>"

definition rl_allow :: "time \<Rightarrow> rate_limiter \<Rightarrow> bool \<times> rate_limiter" where
  "rl_allow now rl =
     (let elapsed = time_sub now (rl_last_refill rl);
          tokens1 = wrap64 (rl_tokens rl + refill elapsed (rl_refill_rate rl));
          tokens2 = (if rl_max_tokens rl < tokens1 then rl_max_tokens rl else tokens1);
          rl1 = rl\<lparr>rl_tokens := tokens2, rl_last_refill := now\<rparr>
      in if 0 < tokens2 then (True, rl1\<lparr>rl_tokens := tokens2 - 1\<rparr>) else (False, rl1))"

definition rl_ok :: "rate_limiter \<Rightarrow> bool" where
  "rl_ok rl \<longleftrightarrow> 0 \<le> rl_tokens rl \<and> rl_tokens rl \<le> rl_max_tokens rl \<and> rl_max_tokens rl \<le> 2 ^ 62 \<and>
     0 \<le> rl_refill_rate rl \<and> rl_refill_rate rl \<le> 2 ^ 53"

lemma rl_ok_new: "0 \<le> m \<Longrightarrow> m \<le> 2 ^ 62 \<Longrightarrow> 0 \<le> r \<Longrightarrow> r \<le> 2 ^ 53 \<Longrightarrow> rl_ok (new_rate_limiter now m r)"
  by (simp add: rl_ok_def new_rate_limiter_def)

lemma rl_allow_frame [op_frame]:
  "rl_refill_rate (snd (rl_allow t rl)) = rl_refill_rate rl"
  "rl_max_tokens (snd (rl_allow t rl)) = rl_max_tokens rl"
  "rl_last_refill (snd (rl_allow t rl)) = t"
  by (simp_all add: rl_allow_def Let_def)

text \<open>
  Inside the horizon no operation wraps: the request adds the refill, caps it and takes one
  token if there is one.
\<close>

lemma rl_allow_step:
  assumes "rl_ok rl" "rl_last_refill rl \<le> t" "t - rl_last_refill rl < horizon"
    and "rl_refill_rate rl * (t - rl_last_refill rl) < horizon"
  defines "n \<equiv> min (rl_max_tokens rl)
      (rl_tokens rl + refill (t - rl_last_refill rl) (rl_refill_rate rl))"
  shows "fst (rl_allow t rl) = (0 < n)" "rl_tokens (snd (rl_allow t rl)) = (if 0 < n then n - 1 else n)"
    "0 \<le> n" "n \<le> rl_tokens rl + rl_refill_rate rl * (t - rl_last_refill rl) div second"
proof -
  let ?d = "t - rl_last_refill rl"
  have d: "0 \<le> ?d" "?d < 2 ^ 53" "time_sub t (rl_last_refill rl) = ?d"
    using assms(2,3) by (auto simp: horizon_def second_def max_int64_def intro!: time_sub_small)
  have g: "0 \<le> refill ?d (rl_refill_rate rl)"
    "refill ?d (rl_refill_rate rl) \<le> rl_refill_rate rl * ?d div second"
    using refill_bounds[of ?d "rl_refill_rate rl"] assms(1,4) d by (auto simp: rl_ok_def)
  have "rl_refill_rate rl * ?d div second \<le> horizon"
    using assms(4) by (simp add: horizon_def second_def)
  then have w: "wrap64 (rl_tokens rl + refill ?d (rl_refill_rate rl)) =
      rl_tokens rl + refill ?d (rl_refill_rate rl)"
    using g assms(1) by (intro wrap64_id)
      (auto simp: rl_ok_def horizon_def second_def min_int64_def max_int64_def)
  show "fst (rl_allow t rl) = (0 < n)" "rl_tokens (snd (rl_allow t rl)) = (if 0 < n then n - 1 else n)"
    by (auto simp: rl_allow_def Let_def d(3) w n_def)
  show "0 \<le> n" "n \<le> rl_tokens rl + rl_refill_rate rl * ?d div second"
    using g assms(1) by (auto simp: n_def rl_ok_def)
qed

interpretation rl: token_bucket rl_allow rl_tokens rl_refill_rate rl_last_refill rl_ok
proof unfold_locales
  fix b t assume h: "rl_ok b" "rl_last_refill b \<le> t"
    "rl_refill_rate b * (t - rl_last_refill b) < horizon" "t - rl_last_refill b < horizon"
  note s = rl_allow_step[OF h(1,2,4,3)]
  show "rl_ok (snd (rl_allow t b))"
    using h(1) s(1-3) by (auto simp: rl_ok_def op_frame)
  show "rl_tokens (snd (rl_allow t b)) + (if fst (rl_allow t b) then 1 else 0)
      \<le> rl_tokens b + rl_refill_rate b * (t - rl_last_refill b) div second"
    using s by auto
qed (auto simp: rl_ok_def op_frame)

section \<open>Properties\<close>

lemma find_upt_None: "find P [0..<n] = None \<longleftrightarrow> (\<forall>i < n. \<not> P i)"
  by (auto simp: find_None_iff)

lemma find_upt_Some: "find P [0..<n] = Some j \<Longrightarrow> j < n \<and> P j \<and> (\<forall>i < j. \<not> P i)"
  by (auto simp: find_Some_iff)

text \<open>Retry, completely: with outcomes \<open>outs\<close> and a context that is never done, it calls the
  function up to the first success and no more than MaxAttempts times, waits the backoff delays
  between the calls and only there, and returns nil or the last error; with no attempts allowed
  it calls nothing and fails.\<close>

theorem retry_outcome:
  "retry cfg (script_fn outs) script_wait (0, []) =
     (case find (\<lambda>i. outs i = None) [0..<nat (max_attempts cfg)] of
        Some j \<Rightarrow> (None, Suc j, map (backoff cfg) [0..<j])
      | None \<Rightarrow> if max_attempts cfg \<le> 0 then (Some (exhausted cfg None), 0, [])
          else (Some (exhausted cfg (outs (nat (max_attempts cfg) - 1))), nat (max_attempts cfg),
            map (backoff cfg) [0..<nat (max_attempts cfg) - 1]))"
proof (cases "find (\<lambda>i. outs i = None) [0..<nat (max_attempts cfg)]")
  case (Some j)
  from find_upt_Some[OF this] have "retry_loop cfg (script_fn outs) script_wait (int 0 + 1)
      (backoff cfg 0) None (0, []) = (None, Suc j, [] @ map (backoff cfg) [0..<j])"
    by (intro retry_loop_succeeds) auto
  with Some show ?thesis by (simp add: retry_def backoff_def)
next
  case None
  show ?thesis
  proof (cases "max_attempts cfg \<le> 0")
    case True
    with None show ?thesis by (simp add: retry_def retry_loop.simps[of cfg _ _ 1])
  next
    case False
    from None have f: "\<And>i. i < nat (max_attempts cfg) \<Longrightarrow> outs i \<noteq> None"
      unfolding find_upt_None by auto
    have "retry_loop cfg (script_fn outs) script_wait (int 0 + 1) (backoff cfg 0) None (0, []) =
      (Some (exhausted cfg (outs (nat (max_attempts cfg) - 1))), nat (max_attempts cfg),
       [] @ map (backoff cfg) [0..<nat (max_attempts cfg) - 1])"
      using f False by (intro retry_loop_fails) auto
    with None False show ?thesis by (simp add: retry_def backoff_def)
  qed
qed

text \<open>The backoff doubles up to the cap: with multiplier 2 and an initial delay within the cap
  (the engine's and the default configuration) the delay before attempt \<open>i + 2\<close> is
  \<open>min (2 ^ i * initial) cap\<close>, in spite of the conversion through float64.\<close>

theorem backoff_exponential:
  assumes "multiplier cfg = 2" "0 \<le> initial_delay cfg" "initial_delay cfg \<le> max_delay cfg"
    and "max_delay cfg \<le> 2 ^ 52"
  shows "backoff cfg i = min (2 ^ i * initial_delay cfg) (max_delay cfg)"
  using assms by (rule backoff_doubling)

theorem backoff_exponential_witness:
  "map (backoff default_retry_config) [0..<7] =
     [500000000, 1000000000, 2000000000, 4000000000, 8000000000, 10000000000, 10000000000]"
proof -
  have "backoff default_retry_config i = min (2 ^ i * 500000000) 10000000000" for i
    using backoff_exponential[of default_retry_config i]
    by (simp add: default_retry_config_def second_def)
  then show ?thesis by (simp add: upt_rec)
qed

text \<open>In every reachable state of a breaker with a positive threshold: a closed breaker admits
  every request and has counted fewer failures than the threshold; an open one admits a request
  exactly when more than the reset timeout has passed since the last failure; and a half-open one
  admits every request, however many probes are already under way.\<close>

theorem breaker_admission:
  assumes "breaker_reach threshold timeout cb" "0 < threshold"
  shows "(cb_state cb = StateClosed \<longrightarrow>
      cb_allow now cb = (True, cb) \<and> failure_count cb < threshold) \<and>
    (cb_state cb = StateOpen \<longrightarrow>
      (fst (cb_allow now cb) \<longleftrightarrow> timeout < time_sub now (last_failure_time cb))) \<and>
    (cb_state cb = StateHalfOpen \<longrightarrow> cb_allow now cb = (True, cb))"
  using breaker_reach_inv[OF assms] by (auto simp: breaker_inv_def cb_allow_def)

theorem breaker_admission_witness:
  "cb_allow 12 (fail_all [10, 11] (new_breaker 2 60)) = (False, fail_all [10, 11] (new_breaker 2 60)) \<and>
   fst (cb_allow 72 (fail_all [10, 11] (new_breaker 2 60)))"
proof -
  let ?cb = "fail_all [10, 11] (new_breaker 2 60)"
  have r: "breaker_reach 2 60 ?cb"
    using breaker_reach.step[OF breaker_reach.step[OF breaker_reach.start, of 2 60 "OpFailure 10"], of "OpFailure 11"]
    by simp
  have s: "cb_state ?cb = StateOpen" "last_failure_time ?cb = 11" "reset_timeout ?cb = 60"
    by (simp_all add: new_breaker_def cb_record_failure_def Let_def)
  with breaker_admission[OF r, of 72] breaker_admission[OF r, of 12] show ?thesis
    by (simp add: time_sub_def min_int64_def max_int64_def cb_allow_def)
qed

text \<open>The life of a breaker: the first \<open>threshold\<close> failures in a row open it and no smaller number
  does; it then refuses until the timeout after the last failure has passed, lets the next request
  through as a probe, and the probe's outcome closes it with the count at zero or opens it again
  from the time of the probe.\<close>

theorem breaker_life:
  assumes "0 < threshold" "ts \<noteq> []" "cb = fail_all ts (new_breaker threshold timeout)"
    and "(ok, probing) = cb_allow now cb"
  shows "(cb_state cb = StateOpen \<longleftrightarrow> threshold \<le> int (length ts)) \<and>
    (threshold \<le> int (length ts) \<longrightarrow> time_sub now (last ts) \<le> timeout \<longrightarrow> \<not> ok \<and> probing = cb) \<and>
    (threshold \<le> int (length ts) \<longrightarrow> timeout < time_sub now (last ts) \<longrightarrow>
      ok \<and> cb_state probing = StateHalfOpen \<and>
      cb_state (cb_record_success probing) = StateClosed \<and>
      failure_count (cb_record_success probing) = 0 \<and>
      cb_state (cb_record_failure now probing) = StateOpen \<and>
      last_failure_time (cb_record_failure now probing) = now)"
proof -
  have h: "half_open_max cb = 1"
    unfolding assms(3) by (induction ts rule: rev_induct)
      (auto simp: new_breaker_def fail_all_snoc cb_record_failure_def Let_def)
  note f = fail_all_new[OF assms(1), of ts timeout, folded assms(3)] fail_all_last[OF assms(2), of
      "new_breaker threshold timeout", folded assms(3)]
  from f h assms(4) show ?thesis
    by (auto simp: cb_allow_def cb_record_success_def cb_record_failure_def Let_def split: if_splits)
qed

theorem breaker_life_witness:
  "\<not> fst (cb_allow 20 (fail_all [10, 11] (new_breaker 2 60))) \<and>
   fst (cb_allow 72 (fail_all [10, 11] (new_breaker 2 60))) \<and>
   cb_state (fail_all [10] (new_breaker 2 60)) \<noteq> StateOpen"
  using breaker_life[OF _ _ refl, of 2 "[10, 11]" _ _ 20 60, OF _ _ prod.collapse]
    breaker_life[OF _ _ refl, of 2 "[10, 11]" _ _ 72 60, OF _ _ prod.collapse]
    breaker_life[OF _ _ refl, of 2 "[10]" _ _ 20 60, OF _ _ prod.collapse]
  by (simp add: time_sub_def min_int64_def max_int64_def)

text \<open>The rate limit: a limiter made with \<open>m\<close> tokens grants, in any sequence of requests up to
  time \<open>u\<close>, at most \<open>m\<close> plus the whole tokens the rate yields in that time; the float64 arithmetic of
  the refill never grants one more.\<close>

theorem rate_limit_bound:
  assumes "0 \<le> m" "m \<le> 2 ^ 62" "0 \<le> r" "r \<le> 2 ^ 53" "sorted ts" "\<And>t. t \<in> set ts \<Longrightarrow> t0 \<le> t \<and> t \<le> u"
    and "t0 \<le> u" "r * (u - t0) < horizon" "u - t0 < horizon"
  shows "int (rl.granted ts (new_rate_limiter t0 m r)) \<le> m + r * (u - t0) div second"
proof -
  let ?b = "new_rate_limiter t0 m r"
  have "rl_tokens ?b = m" "rl_refill_rate ?b = r" "rl_last_refill ?b = t0"
    by (simp_all add: new_rate_limiter_def)
  with rl.granted_bound[of ?b ts u] rl_ok_new[OF assms(1-4), of t0] assms(5-9) show ?thesis by simp
qed

theorem rate_limit_bound_witness:
  "int (rl.granted [0, 0, 500000000, 2000000000] (new_rate_limiter 0 1 1)) \<le> 1 + 1 * 2000000000 div second"
proof -
  have "int (rl.granted [0, 0, 500000000, 2000000000] (new_rate_limiter 0 1 1))
      \<le> 1 + 1 * (2000000000 - 0) div second"
    by (rule rate_limit_bound) (auto simp: horizon_def second_def)
  then show ?thesis by simp
qed

end
