(* ===== verification/Auth_Limit.thy ===== *)
theory Auth_Limit
  imports Resilience Http
begin

text \<open>
  The per-address rate limit of the login route (internal/auth/rate_limit.go): the table of
  visitors, the request, the periodic cleanup, the middleware and the client address it uses.
  A visitor's bucket is the second instance of \<open>token_bucket\<close>.
\<close>

section \<open>The limiter\<close>

record visitor =
  vs_tokens :: int
  vs_last_seen :: time

record ip_limiter =
  il_visitors :: "string \<rightharpoonup> visitor"
  il_max_tokens :: int
  il_refill_rate :: int
  il_ttl :: duration

definition new_ip_limiter :: "int \<Rightarrow> int \<Rightarrow> ip_limiter" where
  "new_ip_limiter max_tokens refill_rate = \<lparr>il_visitors = Map.empty, il_max_tokens = max_tokens,
     il_refill_rate = refill_rate, il_ttl = 15 * minute\<rparr>"

text \<open>A request of a known visitor.\<close>

definition visit :: "int \<Rightarrow> int \<Rightarrow> time \<Rightarrow> visitor \<Rightarrow> bool \<times> visitor" where
  "visit m r now v =
     (let elapsed = time_sub now (vs_last_seen v);
          tokens1 = wrap64 (vs_tokens v + refill elapsed r);
          tokens2 = (if m < tokens1 then m else tokens1);
          v1 = \<lparr>vs_tokens = tokens2, vs_last_seen = now\<rparr>
      in if 0 < tokens2 then (True, v1\<lparr>vs_tokens := tokens2 - 1\<rparr>) else (False, v1))"

definition ip_allow :: "time \<Rightarrow> string \<Rightarrow> ip_limiter \<Rightarrow> bool \<times> ip_limiter" where
  "ip_allow now ip rl = (case il_visitors rl ip of
     None \<Rightarrow> (True, rl\<lparr>il_visitors := (il_visitors rl)(ip \<mapsto> \<lparr>vs_tokens = il_max_tokens rl - 1, vs_last_seen = now\<rparr>)\<rparr>)
   | Some v \<Rightarrow> (let (g, v1) = visit (il_max_tokens rl) (il_refill_rate rl) now v
       in (g, rl\<lparr>il_visitors := (il_visitors rl)(ip \<mapsto> v1)\<rparr>)))"

definition ip_cleanup :: "time \<Rightarrow> ip_limiter \<Rightarrow> ip_limiter" where
  "ip_cleanup now rl = rl\<lparr>il_visitors := (\<lambda>ip. case il_visitors rl ip of None \<Rightarrow> None
     | Some v \<Rightarrow> if il_ttl rl < time_sub now (vs_last_seen v) then None else Some v)\<rparr>"

text \<open>The client address; \<open>h\<close> gives the header values, empty when absent.\<close>

definition get_client_ip :: "(string \<Rightarrow> string) \<Rightarrow> string \<Rightarrow> string" where
  "get_client_ip h remote_addr =
     (if h ''X-Forwarded-For'' \<noteq> [] then trim_space (hd (split_on (CHR '','') (h ''X-Forwarded-For'')))
      else if h ''X-Real-IP'' \<noteq> [] then trim_space (h ''X-Real-IP'')
      else case last_index (CHR '':'') remote_addr of
          Some i \<Rightarrow> if 0 < i then take i remote_addr else remote_addr
        | None \<Rightarrow> remote_addr)"

definition rate_limited :: http_resp where
  "rate_limited = respond 429 (AObject [(''error'', AString ''rate_limited''),
     (''message'', AString ''Too many login attempts. Please try again later.'')])"

text \<open>\<open>loginRateLimitMiddleware\<close>: \<open>None\<close> lets the request through to the wrapped handler.\<close>

definition login_rate_limit :: "time \<Rightarrow> (string \<Rightarrow> string) \<Rightarrow> string \<Rightarrow> ip_limiter option \<Rightarrow>
    http_resp option \<times> ip_limiter option" where
  "login_rate_limit now h remote_addr lm = (case lm of
     None \<Rightarrow> (None, None)
   | Some rl \<Rightarrow> (case ip_allow now (get_client_ip h remote_addr) rl of
       (True, rl1) \<Rightarrow> (None, Some rl1)
     | (False, rl1) \<Rightarrow> (Some rate_limited, Some rl1)))"

section \<open>A visitor is a token bucket\<close>

record ip_bucket =
  ib_max :: int
  ib_rate :: int
  ib_visitor :: visitor

definition ib_grab :: "time \<Rightarrow> ip_bucket \<Rightarrow> bool \<times> ip_bucket" where
  "ib_grab t b = (let (g, v) = visit (ib_max b) (ib_rate b) t (ib_visitor b) in (g, b\<lparr>ib_visitor := v\<rparr>))"

definition as_limiter :: "ip_bucket \<Rightarrow> rate_limiter" where
  "as_limiter b = \<lparr>rl_tokens = vs_tokens (ib_visitor b), rl_max_tokens = ib_max b,
     rl_refill_rate = ib_rate b, rl_last_refill = vs_last_seen (ib_visitor b)\<rparr>"

lemma ib_grab_limiter:
  "fst (ib_grab t b) = fst (rl_allow t (as_limiter b))"
  "as_limiter (snd (ib_grab t b)) = snd (rl_allow t (as_limiter b))"
  by (simp_all add: ib_grab_def visit_def rl_allow_def as_limiter_def Let_def)

lemma as_limiter_fields:
  "rl_tokens (as_limiter b) = vs_tokens (ib_visitor b)" "rl_refill_rate (as_limiter b) = ib_rate b"
  "rl_last_refill (as_limiter b) = vs_last_seen (ib_visitor b)" "rl_max_tokens (as_limiter b) = ib_max b"
  by (simp_all add: as_limiter_def)

interpretation ipb: token_bucket ib_grab "\<lambda>b. vs_tokens (ib_visitor b)" ib_rate
  "\<lambda>b. vs_last_seen (ib_visitor b)" "\<lambda>b. rl_ok (as_limiter b)"
  unfolding as_limiter_fields[symmetric]
  by unfold_locales (simp_all only: ib_grab_limiter rl.grab_ok rl.grab_rate rl.grab_clock rl.grab_level, rule rl.ok_level)

section \<open>Schedules\<close>

datatype lim_op = Req time string | Clean time

fun op_time :: "lim_op \<Rightarrow> time" where
  "op_time (Req t ip) = t"
| "op_time (Clean t) = t"

fun lim_run :: "lim_op list \<Rightarrow> ip_limiter \<Rightarrow> (string \<times> bool) list" where
  "lim_run [] rl = []"
| "lim_run (Req t ip # ops) rl = (let (g, rl1) = ip_allow t ip rl in (ip, g) # lim_run ops rl1)"
| "lim_run (Clean t # ops) rl = lim_run ops (ip_cleanup t rl)"

fun is_req :: "lim_op \<Rightarrow> bool" where
  "is_req (Req t ip) = True"
| "is_req (Clean t) = False"

definition req_times :: "string \<Rightarrow> lim_op list \<Rightarrow> time list" where
  "req_times ip ops = map op_time (filter (\<lambda>x. \<exists>t. x = Req t ip) ops)"

definition ok_for :: "string \<Rightarrow> (string \<times> bool) list \<Rightarrow> nat" where
  "ok_for ip rs = length (filter (\<lambda>(i, g). i = ip \<and> g) rs)"

text \<open>What holds of every visitor while the schedule runs from \<open>t0\<close> and has come to \<open>t\<close>.\<close>

definition visitor_ok :: "int \<Rightarrow> time \<Rightarrow> time \<Rightarrow> visitor \<Rightarrow> bool" where
  "visitor_ok m t0 t v \<longleftrightarrow> 0 \<le> vs_tokens v \<and> vs_tokens v \<le> m \<and> t0 \<le> vs_last_seen v \<and> vs_last_seen v \<le> t"

lemma visitor_ok_later: "visitor_ok m t0 t v \<Longrightarrow> t \<le> u \<Longrightarrow> visitor_ok m t0 u v"
  by (simp add: visitor_ok_def)

definition lim_ok :: "time \<Rightarrow> time \<Rightarrow> ip_limiter \<Rightarrow> bool" where
  "lim_ok t0 t rl \<longleftrightarrow> 1 \<le> il_max_tokens rl \<and> il_max_tokens rl \<le> 900 \<and> il_refill_rate rl = 1 \<and>
     il_ttl rl = 900 * second \<and>
     (\<forall>ip v. il_visitors rl ip = Some v \<longrightarrow> visitor_ok (il_max_tokens rl) t0 t v)"

lemma lim_ok_new: "1 \<le> m \<Longrightarrow> m \<le> 900 \<Longrightarrow> lim_ok t0 t (new_ip_limiter m 1)"
  by (simp add: lim_ok_def new_ip_limiter_def minute_def)

lemma visit_one:
  assumes "0 \<le> vs_tokens v" "vs_tokens v \<le> m" "m \<le> 900" "vs_last_seen v \<le> t" "t - vs_last_seen v < horizon"
    and "n = min m (vs_tokens v + (t - vs_last_seen v) div second)"
  shows "visit m 1 t v = (0 < n, \<lparr>vs_tokens = if 0 < n then n - 1 else n, vs_last_seen = t\<rparr>)"
proof -
  let ?d = "t - vs_last_seen v"
  have d: "0 \<le> ?d" "?d < 2 ^ 22 * second" "time_sub t (vs_last_seen v) = ?d"
    using assms(4,5) by (auto simp: horizon_def second_def max_int64_def intro!: time_sub_small)
  have r: "refill ?d 1 = ?d div second" using refill_one[OF d(1,2)] .
  have "0 \<le> ?d div second" "?d div second < 2 ^ 22"
    using d(1,2) by (auto simp: second_def pos_imp_zdiv_nonneg_iff div_less_iff_less_mult)
  then have w: "wrap64 (vs_tokens v + ?d div second) = vs_tokens v + ?d div second"
    using assms(1-3) by (intro wrap64_id) (auto simp: min_int64_def max_int64_def)
  show ?thesis by (simp add: visit_def d(3) r w assms(6) Let_def min_def)
qed

lemma visit_ok:
  assumes "visitor_ok m t0 t v" "1 \<le> m" "m \<le> 900" "t \<le> u" "u - t0 < horizon"
  shows "visitor_ok m t0 u (snd (visit m 1 u v))"
proof -
  have v: "0 \<le> vs_tokens v" "vs_tokens v \<le> m" "vs_last_seen v \<le> u" "u - vs_last_seen v < horizon" "t0 \<le> u"
    using assms by (auto simp: visitor_ok_def)
  define n where "n = min m (vs_tokens v + (u - vs_last_seen v) div second)"
  have "0 \<le> n" "n \<le> m" using v assms(2) by (auto simp: n_def second_def pos_imp_zdiv_nonneg_iff)
  with visit_one[OF v(1,2) assms(3) v(3,4) n_def] v(5) show ?thesis by (simp add: visitor_ok_def)
qed

lemma lim_ok_later: "lim_ok t0 t rl \<Longrightarrow> t \<le> u \<Longrightarrow> lim_ok t0 u rl"
  by (auto simp: lim_ok_def intro: visitor_ok_later)

lemma lim_ok_allow:
  assumes "lim_ok t0 t rl" "t \<le> u" "u - t0 < horizon" "t0 \<le> u"
  shows "lim_ok t0 u (snd (ip_allow u ip rl))"
proof (cases "il_visitors rl ip")
  case None
  with lim_ok_later[OF assms(1,2)] assms(4) show ?thesis by (auto simp: lim_ok_def ip_allow_def visitor_ok_def)
next
  case (Some v)
  with assms have "visitor_ok (il_max_tokens rl) t0 u (snd (visit (il_max_tokens rl) 1 u v))"
    by (intro visit_ok) (auto simp: lim_ok_def)
  with Some lim_ok_later[OF assms(1,2)] show ?thesis
    by (auto simp: lim_ok_def ip_allow_def split: prod.split)
qed

lemma lim_ok_cleanup: "lim_ok t0 t rl \<Longrightarrow> t \<le> u \<Longrightarrow> lim_ok t0 u (ip_cleanup u rl)"
  using lim_ok_later[of t0 t rl u] by (auto simp: lim_ok_def ip_cleanup_def split: option.splits if_splits)

section \<open>The cleanup cannot be observed\<close>

text \<open>\<open>thin\<close> misses some visitors of \<open>full\<close>, all of them idle for longer than the time to live.\<close>

definition thinner :: "time \<Rightarrow> ip_limiter \<Rightarrow> ip_limiter \<Rightarrow> bool" where
  "thinner t full thin \<longleftrightarrow> il_max_tokens thin = il_max_tokens full \<and> il_refill_rate thin = il_refill_rate full \<and>
     il_ttl thin = il_ttl full \<and>
     (\<forall>ip. il_visitors thin ip = il_visitors full ip \<or>
        (il_visitors thin ip = None \<and> (\<exists>v. il_visitors full ip = Some v \<and> il_ttl full < t - vs_last_seen v)))"

lemma thinner_later: "thinner t full thin \<Longrightarrow> t \<le> u \<Longrightarrow> thinner u full thin"
  unfolding thinner_def by force

lemma thinner_cleanup:
  assumes "lim_ok t0 t full" "thinner t full thin" "t \<le> u" "u - t0 < horizon"
  shows "thinner u full (ip_cleanup u thin)"
proof -
  have "time_sub u (vs_last_seen v) = u - vs_last_seen v" if "il_visitors full ip = Some v" for ip v
  proof (rule time_sub_small)
    have "visitor_ok (il_max_tokens full) t0 t v" using assms(1) that by (simp add: lim_ok_def)
    with assms(3,4) show "0 \<le> u - vs_last_seen v" "u - vs_last_seen v \<le> max_int64"
      by (auto simp: visitor_ok_def horizon_def second_def max_int64_def)
  qed
  then show ?thesis
    using thinner_later[OF assms(2,3)]
    by (auto simp: thinner_def ip_cleanup_def split: option.splits)
      (metis option.inject option.distinct(1))+
qed

lemma thinner_allow:
  assumes "lim_ok t0 t full" "thinner t full thin" "t \<le> u" "u - t0 < horizon"
  shows "fst (ip_allow u ip thin) = fst (ip_allow u ip full) \<and>
    thinner u (snd (ip_allow u ip full)) (snd (ip_allow u ip thin))"
proof (cases "il_visitors thin ip = il_visitors full ip")
  case True
  with thinner_later[OF assms(2,3)] show ?thesis
    by (auto simp: thinner_def ip_allow_def split: option.splits prod.splits)
next
  case False
  then obtain v where v: "il_visitors thin ip = None" "il_visitors full ip = Some v" "il_ttl full < u - vs_last_seen v"
    using thinner_later[OF assms(2,3)] by (auto simp: thinner_def)
  have "visitor_ok (il_max_tokens full) t0 t v" using assms(1) v(2) by (simp add: lim_ok_def)
  then have b: "0 \<le> vs_tokens v" "vs_tokens v \<le> il_max_tokens full" "il_max_tokens full \<le> 900" "vs_last_seen v \<le> u"
    "u - vs_last_seen v < horizon" "1 \<le> il_max_tokens full" "il_refill_rate full = 1" "il_ttl full = 900 * second"
    using assms(1,3,4) by (auto simp: lim_ok_def visitor_ok_def)
  have "900 \<le> (u - vs_last_seen v) div second" using v(3) b(8) by (simp add: second_def)
  then have n: "il_max_tokens full = min (il_max_tokens full) (vs_tokens v + (u - vs_last_seen v) div second)"
    using b by auto
  from visit_one[OF b(1-5) n] b v thinner_later[OF assms(2,3)] show ?thesis
    by (auto simp: ip_allow_def thinner_def)
qed

lemma lim_run_thinner:
  assumes "lim_ok t0 t full" "thinner t full thin" "sorted (map op_time ops)" "\<And>x. x \<in> set ops \<Longrightarrow> t \<le> op_time x \<and> op_time x - t0 < horizon" "t0 \<le> t"
  shows "lim_run ops thin = lim_run (filter is_req ops) full"
  using assms
proof (induction ops arbitrary: t full thin)
  case (Cons x ops)
  have u: "t \<le> op_time x" "op_time x - t0 < horizon" using Cons.prems(4) by auto
  have rest: "sorted (map op_time ops)" "\<And>y. y \<in> set ops \<Longrightarrow> op_time x \<le> op_time y \<and> op_time y - t0 < horizon"
    using Cons.prems(3,4) by auto
  show ?case
  proof (cases x)
    case (Clean s)
    with Cons.IH[OF lim_ok_later[OF Cons.prems(1) u(1)] thinner_cleanup[OF Cons.prems(1,2) u] rest] u Cons.prems(5)
    show ?thesis by (simp add: Clean)
  next
    case (Req s ip)
    note s = thinner_allow[OF Cons.prems(1,2) u, of ip]
    have "t0 \<le> op_time x" using u(1) Cons.prems(5) by simp
    from Cons.IH[OF lim_ok_allow[OF Cons.prems(1) u this, of ip] s[THEN conjunct2] rest this] s[THEN conjunct1] show ?thesis
      by (simp add: Req Let_def split: prod.split) (metis fst_conv snd_conv)
  qed
qed simp

section \<open>One address among others\<close>

lemma ip_allow_other: "ip \<noteq> ip1 \<Longrightarrow> il_visitors (snd (ip_allow t ip1 rl)) ip = il_visitors rl ip"
  by (auto simp: ip_allow_def split: option.splits prod.splits)

lemma ip_allow_params:
  "il_max_tokens (snd (ip_allow t ip rl)) = il_max_tokens rl \<and> il_refill_rate (snd (ip_allow t ip rl)) = il_refill_rate rl"
  by (auto simp: ip_allow_def split: option.splits prod.splits)

lemma ok_for_known:
  assumes "list_all is_req ops" "il_visitors rl ip = Some v"
  shows "ok_for ip (lim_run ops rl) =
    ipb.granted (req_times ip ops) \<lparr>ib_max = il_max_tokens rl, ib_rate = il_refill_rate rl, ib_visitor = v\<rparr>"
  using assms
proof (induction ops arbitrary: rl v)
  case (Cons x ops)
  then obtain t ip1 where x: "x = Req t ip1" by (cases x) auto
  show ?case
  proof (cases "ip1 = ip")
    case True
    let ?b = "\<lambda>v. \<lparr>ib_max = il_max_tokens rl, ib_rate = il_refill_rate rl, ib_visitor = v\<rparr>"
    obtain g v1 where vis: "visit (il_max_tokens rl) (il_refill_rate rl) t v = (g, v1)" by fastforce
    have grab: "ib_grab t (?b v) = (g, ?b v1)" by (simp add: ib_grab_def vis)
    have allow: "ip_allow t ip rl = (g, rl\<lparr>il_visitors := (il_visitors rl)(ip \<mapsto> v1)\<rparr>)"
      using Cons.prems by (simp add: ip_allow_def vis)
    from Cons.IH[of "snd (ip_allow t ip rl)" v1] Cons.prems have
      "ok_for ip (lim_run ops (snd (ip_allow t ip rl))) = ipb.granted (req_times ip ops) (?b v1)"
      by (simp add: allow)
    with True x allow show ?thesis
      by (simp add: ok_for_def req_times_def ipb.granted_Cons grab)
  next
    case False
    with Cons.IH[of "snd (ip_allow t ip1 rl)" v] Cons.prems x ip_allow_other[of ip ip1 t rl] ip_allow_params[of t ip1 rl]
    show ?thesis by (auto simp: ok_for_def req_times_def Let_def split: prod.splits)
  qed
qed (simp add: ok_for_def req_times_def)

lemma ok_for_unknown:
  assumes "list_all is_req ops" "il_visitors rl ip = None"
  shows "ok_for ip (lim_run ops rl) = (case req_times ip ops of [] \<Rightarrow> 0 | t # ts \<Rightarrow>
    Suc (ipb.granted ts \<lparr>ib_max = il_max_tokens rl, ib_rate = il_refill_rate rl,
      ib_visitor = \<lparr>vs_tokens = il_max_tokens rl - 1, vs_last_seen = t\<rparr>\<rparr>))"
  using assms
proof (induction ops arbitrary: rl)
  case (Cons x ops)
  then obtain t ip1 where x: "x = Req t ip1" by (cases x) auto
  show ?case
  proof (cases "ip1 = ip")
    case True
    with ok_for_known[of ops "snd (ip_allow t ip rl)" ip "\<lparr>vs_tokens = il_max_tokens rl - 1, vs_last_seen = t\<rparr>"]
      Cons.prems x show ?thesis
      by (simp add: ok_for_def req_times_def ip_allow_def Let_def)
  next
    case False
    obtain g rl2 where allow: "ip_allow t ip1 rl = (g, rl2)" by fastforce
    have "il_visitors rl2 ip = None" "il_max_tokens rl2 = il_max_tokens rl" "il_refill_rate rl2 = il_refill_rate rl"
      using ip_allow_other[of ip ip1 t rl] ip_allow_params[of t ip1 rl] Cons.prems False by (auto simp: allow)
    with Cons.IH[of rl2] Cons.prems False x show ?thesis
      by (simp add: ok_for_def req_times_def allow cong: list.case_cong)
  qed
qed (simp add: ok_for_def req_times_def)

lemma req_times_in: "t \<in> set (req_times ip ops) \<Longrightarrow> \<exists>x \<in> set ops. op_time x = t"
  by (auto simp: req_times_def)

lemma sorted_req_times: "sorted (map op_time ops) \<Longrightarrow> sorted (req_times ip ops)"
  by (simp add: req_times_def sorted_filter)

lemma req_times_filter: "req_times ip (filter is_req ops) = req_times ip ops"
  unfolding req_times_def filter_filter by (intro arg_cong[of _ _ "map op_time"] filter_cong) auto

section \<open>Properties\<close>

text \<open>The login limit: whatever requests of any addresses and whatever cleanups a schedule has,
  a limiter with a burst of \<open>m\<close> and one token per second lets one address through at most \<open>m\<close>
  times plus once per whole second of the schedule's span. In particular forgetting an idle
  visitor never gives it an extra token.\<close>

theorem login_limit:
  assumes "1 \<le> m" "m \<le> 900" "sorted (map op_time ops)" "\<And>x. x \<in> set ops \<Longrightarrow> t0 \<le> op_time x \<and> op_time x \<le> u"
    and "t0 \<le> u" "u - t0 < horizon"
  shows "int (ok_for ip (lim_run ops (new_ip_limiter m 1))) \<le> m + (u - t0) div second"
proof -
  let ?rl = "new_ip_limiter m 1" and ?ops = "filter is_req ops"
  have span: "op_time x - t0 < horizon" if "x \<in> set ops" for x
    using assms(4)[OF that] assms(6) by linarith
  then have "lim_run ops ?rl = lim_run ?ops ?rl"
    using assms by (intro lim_run_thinner[OF lim_ok_new[of m t0 t0]]) (auto simp: thinner_def)
  moreover have "list_all is_req ?ops" by (simp add: list_all_iff)
  ultimately have eq: "ok_for ip (lim_run ops ?rl) = (case req_times ip ops of [] \<Rightarrow> 0 | t # ts \<Rightarrow>
      Suc (ipb.granted ts \<lparr>ib_max = m, ib_rate = 1, ib_visitor = \<lparr>vs_tokens = m - 1, vs_last_seen = t\<rparr>\<rparr>))"
    using ok_for_unknown[of ?ops ?rl ip] by (simp add: req_times_filter new_ip_limiter_def cong: list.case_cong)
  show ?thesis
  proof (cases "req_times ip ops")
    case Nil
    have "0 \<le> (u - t0) div second" using assms(5) by (simp add: second_def pos_imp_zdiv_nonneg_iff)
    with Nil eq assms(1) show ?thesis by simp
  next
    case (Cons t ts)
    have in_span: "t0 \<le> s \<and> s \<le> u" if "s \<in> set (t # ts)" for s
      using req_times_in[of s ip ops] that assms(4) Cons by auto
    have "sorted (t # ts)" using sorted_req_times[OF assms(3), of ip] Cons by simp
    then have srt: "sorted ts" "\<And>s. s \<in> set ts \<Longrightarrow> t \<le> s \<and> s \<le> u" using in_span by auto
    let ?b = "\<lparr>ib_max = m, ib_rate = 1, ib_visitor = \<lparr>vs_tokens = m - 1, vs_last_seen = t\<rparr>\<rparr>"
    have "int (ipb.granted ts ?b) \<le> vs_tokens (ib_visitor ?b) + ib_rate ?b * (u - vs_last_seen (ib_visitor ?b)) div second"
      using assms(1,2,5,6) srt in_span[of t]
      by (intro ipb.granted_bound) (auto simp: rl_ok_def as_limiter_def)
    then have "int (ipb.granted ts ?b) \<le> m - 1 + (u - t) div second" by simp
    moreover have "(u - t) div second \<le> (u - t0) div second"
      using in_span[of t] by (intro zdiv_mono1) (auto simp: second_def)
    ultimately show ?thesis using Cons eq by simp
  qed
qed

theorem login_limit_witness:
  "int (ok_for ''a'' (lim_run [Req 0 ''a'', Req 0 ''b'', Req 1 ''a'', Clean (1000 * second), Req (1000 * second) ''a'']
     (new_ip_limiter 5 1))) \<le> 1005"
proof -
  have "int (ok_for ''a'' (lim_run [Req 0 ''a'', Req 0 ''b'', Req 1 ''a'', Clean (1000 * second), Req (1000 * second) ''a'']
     (new_ip_limiter 5 1))) \<le> 5 + (1000 * second - 0) div second"
    by (rule login_limit) (auto simp: second_def horizon_def)
  then show ?thesis by (simp add: second_def)
qed

text \<open>The limit counts what the client says it is: the address is the first entry of a header the
  client sends, so requests that each carry a new value are all let through, from one host, at one
  instant, in any number.\<close>

fun login_attempts :: "time \<Rightarrow> string list \<Rightarrow> string \<Rightarrow> ip_limiter option \<Rightarrow> http_resp option list" where
  "login_attempts now [] remote lm = []"
| "login_attempts now (s # ss) remote lm =
     (case login_rate_limit now ((\<lambda>_. [])(''X-Forwarded-For'' := s)) remote lm of
        (r, lm1) \<Rightarrow> r # login_attempts now ss remote lm1)"

definition plain_address :: "string \<Rightarrow> bool" where
  "plain_address s \<longleftrightarrow> s \<noteq> [] \<and> CHR '','' \<notin> set s \<and> trim_space s = s"

theorem forwarded_header_evades:
  assumes "list_all plain_address ss" "distinct ss"
  shows "login_attempts now ss remote (Some (new_ip_limiter m r)) = replicate (length ss) None"
proof -
  have "login_attempts now ss remote (Some rl) = replicate (length ss) None"
    if "\<forall>s \<in> set ss. il_visitors rl s = None" for rl
    using that assms
  proof (induction ss arbitrary: rl)
    case (Cons s ss)
    then have ip: "get_client_ip ((\<lambda>_. [])(''X-Forwarded-For'' := s)) remote = s"
      by (simp add: get_client_ip_def plain_address_def split_on_no_sep)
    have "\<forall>q \<in> set ss. il_visitors (snd (ip_allow now s rl)) q = None"
      using Cons.prems(1,3) by (metis distinct.simps(2) ip_allow_other list.set_intros(2))
    with Cons ip show ?case by (simp add: login_rate_limit_def ip_allow_def)
  qed simp
  then show ?thesis by (simp add: new_ip_limiter_def)
qed

theorem forwarded_header_evades_witness:
  "login_attempts 0 [''1.1.1.1'', ''1.1.1.2'', ''1.1.1.3'', ''1.1.1.4'', ''1.1.1.5'', ''1.1.1.6''] ''9.9.9.9:5''
     (Some (new_ip_limiter 5 1)) = replicate 6 None"
proof -
  let ?ss = "[''1.1.1.1'', ''1.1.1.2'', ''1.1.1.3'', ''1.1.1.4'', ''1.1.1.5'', ''1.1.1.6'']"
  have "list_all plain_address ?ss" "distinct ?ss" by (simp_all add: plain_address_def trim_space_def is_space_def)
  from forwarded_header_evades[OF this, of 0 "''9.9.9.9:5''" 5 1] show ?thesis
    by (simp add: numeral_eq_Suc del: login_attempts.simps)
qed

end
