(* ===== verification/Json.thy ===== *)
theory Json
  imports Go_Float "HOL-Library.Monad_Syntax"
begin

text \<open>
  Package \<open>encoding/json\<close> as far as the code uses it. A JSON text is read as a value of type \<open>any\<close>
  by a parameter of the models, absent when the text is not JSON; a number written as an integer is
  an \<open>AInt\<close> there and any other number an \<open>AFloat\<close>. Decoding into a Go type is a \<open>decoder\<close>: it
  takes the value and what the target holds already, and is \<open>None\<close> on a value of the wrong type.
\<close>

type_synonym 'v decoder = "any \<Rightarrow> 'v \<Rightarrow> 'v option"

definition into_string :: "string decoder" where
  "into_string x v = (case x of AString s \<Rightarrow> Some s | ANil \<Rightarrow> Some v | _ \<Rightarrow> None)"

definition into_int :: "int decoder" where
  "into_int x v = (case x of AInt i \<Rightarrow> if min_int64 \<le> i \<and> i \<le> max_int64 then Some i else None
     | ANil \<Rightarrow> Some v | _ \<Rightarrow> None)"

definition into_float :: "rat decoder" where
  "into_float x v = (case x of AInt i \<Rightarrow> Some (f64 (of_int i)) | AFloat r \<Rightarrow> Some r | ANil \<Rightarrow> Some v | _ \<Rightarrow> None)"

definition into_bool :: "bool decoder" where
  "into_bool x v = (case x of ABool b \<Rightarrow> Some b | ANil \<Rightarrow> Some v | _ \<Rightarrow> None)"

definition into_struct :: "((string \<times> any) list \<Rightarrow> 'v \<Rightarrow> 'v option) \<Rightarrow> 'v decoder" where
  "into_struct f x v = (case x of AObject ms \<Rightarrow> f ms v | ANil \<Rightarrow> Some v | _ \<Rightarrow> None)"

text \<open>Null makes a pointer nil; another value is decoded into what it points to.\<close>

definition into_ptr :: "'v \<Rightarrow> 'v decoder \<Rightarrow> 'v option decoder" where
  "into_ptr zero d x v = (if x = ANil then Some None
     else map_option Some (d x (case v of None \<Rightarrow> zero | Some u \<Rightarrow> u)))"

fun decode_all :: "'v \<Rightarrow> 'v decoder \<Rightarrow> any list \<Rightarrow> 'v list option" where
  "decode_all zero d [] = Some []"
| "decode_all zero d (x # xs) = do { v \<leftarrow> d x zero; vs \<leftarrow> decode_all zero d xs; Some (v # vs) }"

definition into_slice :: "'v \<Rightarrow> 'v decoder \<Rightarrow> 'v list decoder" where
  "into_slice zero d x v = (case x of AList xs \<Rightarrow> decode_all zero d xs | ANil \<Rightarrow> Some [] | _ \<Rightarrow> None)"

text \<open>The members of an object that name one field, up to case, in the order of the text.\<close>

fun into_member :: "'v decoder \<Rightarrow> string \<Rightarrow> (string \<times> any) list \<Rightarrow> 'v \<Rightarrow> 'v option" where
  "into_member d k [] v = Some v"
| "into_member d k ((n, x) # ms) v =
     (if equal_fold n k then (case d x v of None \<Rightarrow> None | Some v1 \<Rightarrow> into_member d k ms v1)
      else into_member d k ms v)"

text \<open>
  A Go map from strings, as the members of the object it is written as; their order is that of
  insertion here, and \<open>json.Marshal\<close> writes the keys sorted. \<open>put_member\<close> is \<open>m[k] = v\<close>.
\<close>

definition put_member :: "string \<Rightarrow> any \<Rightarrow> (string \<times> any) list \<Rightarrow> (string \<times> any) list" where
  "put_member k v ms = filter (\<lambda>m. fst m \<noteq> k) ms @ [(k, v)]"

definition map_members :: "(string \<times> any) list \<Rightarrow> (string \<times> any) list" where
  "map_members ms = fold (\<lambda>(k, v). put_member k v) ms []"

definition get_member :: "string \<Rightarrow> any \<Rightarrow> any option" where
  "get_member k x = (case x of AObject ms \<Rightarrow> map_of ms k | _ \<Rightarrow> None)"

text \<open>Decoding into \<open>any\<close> turns every number into a \<open>float64\<close>; a map that is null is nil.\<close>

fun decode_any :: "any \<Rightarrow> any" where
  "decode_any (AInt i) = AFloat (f64 (of_int i))"
| "decode_any (AInt32 i) = AFloat (f64 (of_int i))"
| "decode_any (AList xs) = AList (map decode_any xs)"
| "decode_any (AStrings ss) = AList (map AString ss)"
| "decode_any (AObject ms) = AObject (map_members (map (\<lambda>(k, x). (k, decode_any x)) ms))"
| "decode_any x = x"

definition decode_map :: "any \<Rightarrow> any option" where
  "decode_map x = (case x of AObject ms \<Rightarrow> Some (decode_any (AObject ms)) | ANil \<Rightarrow> Some ANil | _ \<Rightarrow> None)"

text \<open>\<open>omitempty\<close> of strings, integers, floats and slices.\<close>

definition omit_string :: "string \<Rightarrow> string \<Rightarrow> (string \<times> any) list" where
  "omit_string k s = (if s = [] then [] else [(k, AString s)])"

definition omit_list :: "string \<Rightarrow> any list \<Rightarrow> (string \<times> any) list" where
  "omit_list k xs = (if xs = [] then [] else [(k, AList xs)])"

definition omit_int :: "string \<Rightarrow> int \<Rightarrow> (string \<times> any) list" where
  "omit_int k i = (if i = 0 then [] else [(k, AInt i)])"

definition omit_float :: "string \<Rightarrow> rat \<Rightarrow> (string \<times> any) list" where
  "omit_float k r = (if r = 0 then [] else [(k, AFloat r)])"

section \<open>Decoding what was encoded\<close>

text \<open>Names of members are compared letter by letter.\<close>

lemma equal_fold_letters:
  "equal_fold [] []" "\<not> equal_fold [] (d # t)" "\<not> equal_fold (c # s) []"
  "equal_fold (c # s) (d # t) \<longleftrightarrow> lower_char c = lower_char d \<and> equal_fold s t"
  by (simp_all add: equal_fold_def to_lower_def)

lemmas member_name_simps = equal_fold_letters lower_char_def

lemma into_simps [simp]:
  "into_string (AString s) v = Some s" "into_struct f (AObject ms) u = f ms u"
  "min_int64 \<le> i \<Longrightarrow> i \<le> max_int64 \<Longrightarrow> into_int (AInt i) j = Some i"
  "into_slice z d (AList xs) vs = decode_all z d xs"
  "into_string ANil v = Some v" "into_struct f ANil u = Some u" "into_slice z d ANil vs = Some []"
  by (simp_all add: into_string_def into_struct_def into_int_def into_slice_def)

lemma into_ptr_object [simp]: "into_ptr z d (AObject ms) None = map_option Some (d (AObject ms) z)"
  by (simp add: into_ptr_def)

lemma into_member_other: "(\<And>n. n \<in> fst ` set ms \<Longrightarrow> \<not> equal_fold n k) \<Longrightarrow> into_member d k ms v = Some v"
  by (induction ms) auto

lemma into_member_append: "into_member d k (xs @ ys) v = Option.bind (into_member d k xs v) (into_member d k ys)"
  by (induction xs arbitrary: v) (auto split: option.splits)

lemma decode_all_map: "(\<And>x. x \<in> set xs \<Longrightarrow> d (f x) zero = Some (g x)) \<Longrightarrow>
  decode_all zero d (map f xs) = Some (map g xs)"
  by (induction xs) auto

lemma omit_string_read: "into_member into_string k (omit_string k s) [] = Some s"
  by (simp add: omit_string_def)

lemma set_omit: "n \<in> fst ` set (omit_string k s) \<Longrightarrow> n = k" "n \<in> fst ` set (omit_list k xs) \<Longrightarrow> n = k"
  "n \<in> fst ` set (omit_int k i) \<Longrightarrow> n = k" "n \<in> fst ` set (omit_float k r) \<Longrightarrow> n = k"
  by (auto simp: omit_string_def omit_list_def omit_int_def omit_float_def split: if_splits)

end
