(* ===== verification/Auth_Providers.thy ===== *)
theory Auth_Providers
  imports Auth_Handlers Auth_Limit Json
begin

text \<open>
  External identity providers (internal/auth/providers.go, provider_handlers.go, ldap.go, oidc.go) with
  the login, status and OIDC handlers of handlers.go, the auth configuration (config_manager.go) and the
  construction of the store and the authenticator (NewStore in store.go, New in auth.go).

  The LDAP and OIDC clients are parameters: a directory answers dials, binds and searches, an
  identity provider discovery, code exchange, verification and the user info endpoint. The settings
  of a provider are stored as JSON text; \<open>json_codec\<close> has the value of a text, the text of a value
  and what \<open>json.Unmarshal\<close> leaves of settings whose text does not decode.
\<close>

section \<open>Settings\<close>

record ldap_settings =
  ls_server :: string
  ls_bind_dn :: string
  ls_bind_pw :: string
  ls_search_base :: string
  ls_search_filter :: string
  ls_start_tls :: bool
  ls_skip_tls_verify :: bool

record oidc_settings =
  oi_issuer :: string
  oi_client_id :: string
  oi_client_secret :: string
  oi_redirect_url :: string
  oi_scopes :: "string list"

record provider_settings =
  pv_ldap :: "ldap_settings option"
  pv_oidc :: "oidc_settings option"

definition no_settings :: provider_settings where
  "no_settings = \<lparr>pv_ldap = None, pv_oidc = None\<rparr>"

definition no_ldap :: ldap_settings where
  "no_ldap = \<lparr>ls_server = [], ls_bind_dn = [], ls_bind_pw = [], ls_search_base = [], ls_search_filter = [],
     ls_start_tls = False, ls_skip_tls_verify = False\<rparr>"

definition no_oidc :: oidc_settings where
  "no_oidc = \<lparr>oi_issuer = [], oi_client_id = [], oi_client_secret = [], oi_redirect_url = [], oi_scopes = []\<rparr>"

record json_codec =
  jc_parse :: "string \<Rightarrow> any option"
  jc_render :: "any \<Rightarrow> string"
  jc_rest :: "string \<Rightarrow> provider_settings"

definition into_ldap :: "ldap_settings decoder" where
  "into_ldap = into_struct (\<lambda>ms c. do {
     s \<leftarrow> into_member into_string ''server'' ms (ls_server c);
     d \<leftarrow> into_member into_string ''bind_dn'' ms (ls_bind_dn c);
     p \<leftarrow> into_member into_string ''bind_pw'' ms (ls_bind_pw c);
     b \<leftarrow> into_member into_string ''search_base'' ms (ls_search_base c);
     f \<leftarrow> into_member into_string ''search_filter'' ms (ls_search_filter c);
     t \<leftarrow> into_member into_bool ''start_tls'' ms (ls_start_tls c);
     k \<leftarrow> into_member into_bool ''skip_tls_verify'' ms (ls_skip_tls_verify c);
     Some \<lparr>ls_server = s, ls_bind_dn = d, ls_bind_pw = p, ls_search_base = b, ls_search_filter = f,
       ls_start_tls = t, ls_skip_tls_verify = k\<rparr> })"

definition into_oidc :: "oidc_settings decoder" where
  "into_oidc = into_struct (\<lambda>ms c. do {
     i \<leftarrow> into_member into_string ''issuer'' ms (oi_issuer c);
     n \<leftarrow> into_member into_string ''client_id'' ms (oi_client_id c);
     s \<leftarrow> into_member into_string ''client_secret'' ms (oi_client_secret c);
     r \<leftarrow> into_member into_string ''redirect_url'' ms (oi_redirect_url c);
     l \<leftarrow> into_member (into_slice [] into_string) ''scopes'' ms (oi_scopes c);
     Some \<lparr>oi_issuer = i, oi_client_id = n, oi_client_secret = s, oi_redirect_url = r, oi_scopes = l\<rparr> })"

definition decode_settings :: "any \<Rightarrow> provider_settings option" where
  "decode_settings x = into_struct (\<lambda>ms c. do {
     l \<leftarrow> into_member (into_ptr no_ldap into_ldap) ''ldap'' ms None;
     o1 \<leftarrow> into_member (into_ptr no_oidc into_oidc) ''oidc'' ms None;
     Some \<lparr>pv_ldap = l, pv_oidc = o1\<rparr> }) x no_settings"

definition ldap_json :: "ldap_settings \<Rightarrow> any" where
  "ldap_json c = AObject [(''server'', AString (ls_server c)), (''bind_dn'', AString (ls_bind_dn c)),
     (''bind_pw'', AString (ls_bind_pw c)), (''search_base'', AString (ls_search_base c)),
     (''search_filter'', AString (ls_search_filter c)), (''start_tls'', ABool (ls_start_tls c)),
     (''skip_tls_verify'', ABool (ls_skip_tls_verify c))]"

definition oidc_json :: "oidc_settings \<Rightarrow> any" where
  "oidc_json c = AObject [(''issuer'', AString (oi_issuer c)), (''client_id'', AString (oi_client_id c)),
     (''client_secret'', AString (oi_client_secret c)), (''redirect_url'', AString (oi_redirect_url c)),
     (''scopes'', if oi_scopes c = [] then ANil else AList (map AString (oi_scopes c)))]"

definition settings_json :: "provider_settings \<Rightarrow> any" where
  "settings_json c = AObject ((case pv_ldap c of None \<Rightarrow> [] | Some l \<Rightarrow> [(''ldap'', ldap_json l)]) @
     (case pv_oidc c of None \<Rightarrow> [] | Some o1 \<Rightarrow> [(''oidc'', oidc_json o1)]))"

definition parse_config :: "json_codec \<Rightarrow> auth_provider \<Rightarrow> provider_settings" where
  "parse_config J p = (if ap_config p = [] then no_settings
     else (case Option.bind (jc_parse J (ap_config p)) decode_settings of
       None \<Rightarrow> jc_rest J (ap_config p) | Some c \<Rightarrow> c))"

definition set_config :: "json_codec \<Rightarrow> provider_settings \<Rightarrow> auth_provider \<Rightarrow> auth_provider" where
  "set_config J c p = p\<lparr>ap_config := jc_render J (settings_json c)\<rparr>"

text \<open>Eight bullets in UTF-8.\<close>

definition secret_mask :: string where
  "secret_mask = concat (replicate 8 [CHR 0xE2, CHR 0x80, CHR 0xA2])"

definition mask_ldap :: "ldap_settings \<Rightarrow> ldap_settings" where
  "mask_ldap c = (if ls_bind_pw c \<noteq> [] then c\<lparr>ls_bind_pw := secret_mask\<rparr> else c)"

definition mask_oidc :: "oidc_settings \<Rightarrow> oidc_settings" where
  "mask_oidc c = (if oi_client_secret c \<noteq> [] then c\<lparr>oi_client_secret := secret_mask\<rparr> else c)"

definition to_api_config :: "json_codec \<Rightarrow> auth_provider \<Rightarrow> provider_settings" where
  "to_api_config J p = (let c = parse_config J p in
     \<lparr>pv_ldap = map_option mask_ldap (pv_ldap c), pv_oidc = map_option mask_oidc (pv_oidc c)\<rparr>)"

definition nonempty_or :: "string \<Rightarrow> string \<Rightarrow> string" where
  "nonempty_or s old = (if s = [] then old else s)"

definition merge_ldap :: "ldap_settings \<Rightarrow> ldap_settings \<Rightarrow> ldap_settings" where
  "merge_ldap dst src = \<lparr>ls_server = (if ls_server src \<noteq> [] \<and> ls_server src \<noteq> secret_mask then ls_server src else ls_server dst),
     ls_bind_dn = nonempty_or (ls_bind_dn src) (ls_bind_dn dst),
     ls_bind_pw = (if ls_bind_pw src \<noteq> [] \<and> ls_bind_pw src \<noteq> secret_mask then ls_bind_pw src else ls_bind_pw dst),
     ls_search_base = nonempty_or (ls_search_base src) (ls_search_base dst),
     ls_search_filter = nonempty_or (ls_search_filter src) (ls_search_filter dst),
     ls_start_tls = ls_start_tls src, ls_skip_tls_verify = ls_skip_tls_verify src\<rparr>"

definition merge_oidc :: "oidc_settings \<Rightarrow> oidc_settings \<Rightarrow> oidc_settings" where
  "merge_oidc dst src = \<lparr>oi_issuer = nonempty_or (oi_issuer src) (oi_issuer dst),
     oi_client_id = nonempty_or (oi_client_id src) (oi_client_id dst),
     oi_client_secret = (if oi_client_secret src \<noteq> [] \<and> oi_client_secret src \<noteq> secret_mask
       then oi_client_secret src else oi_client_secret dst),
     oi_redirect_url = nonempty_or (oi_redirect_url src) (oi_redirect_url dst),
     oi_scopes = (if oi_scopes src \<noteq> [] then oi_scopes src else oi_scopes dst)\<rparr>"

section \<open>Administration of providers\<close>

definition default_scopes :: "string list" where
  "default_scopes = [''openid'', ''profile'', ''email'']"

definition provider_to_api :: "json_codec \<Rightarrow> auth_provider \<Rightarrow> any" where
  "provider_to_api J p = AObject ([(''id'', AInt (ap_id p)), (''name'', AString (ap_name p)),
     (''type'', AString (ap_type p)), (''display_name'', AString (ap_display_name p)), (''icon'', AString (ap_icon p)),
     (''enabled'', ABool (ap_enabled p)), (''priority'', AInt (ap_priority p)),
     (''created_at'', AInt (ap_created_at p))] @
     (let c = to_api_config J p in case pv_ldap c of
        Some l \<Rightarrow> [(''config'', ldap_json l), (''config_type'', AString ''ldap'')]
      | None \<Rightarrow> (case pv_oidc c of
          Some o1 \<Rightarrow> [(''config'', oidc_json o1), (''config_type'', AString ''oidc'')]
        | None \<Rightarrow> [])))"

text \<open>The presets the login page offers; the arrow of the help texts is one character of three bytes.\<close>

record provider_preset =
  pp_key :: string
  pp_type :: string
  pp_display_name :: string
  pp_icon :: string
  pp_description :: string
  pp_oidc :: "(string \<times> string list) option"
  pp_help :: string

definition preset :: "string \<Rightarrow> string \<Rightarrow> string \<Rightarrow> string \<Rightarrow> string \<Rightarrow> (string \<times> string list) option \<Rightarrow> string \<Rightarrow> provider_preset" where
  "preset key ty display icon desc o1 help = \<lparr>pp_key = key, pp_type = ty, pp_display_name = display, pp_icon = icon,
     pp_description = desc, pp_oidc = o1, pp_help = help\<rparr>"

definition right_arrow :: string where "right_arrow = [CHR 0xE2, CHR 0x86, CHR 0x92]"

definition provider_presets :: "provider_preset list" where
  "provider_presets = [
     preset ''github'' ''oidc'' ''GitHub'' ''github''
       ''GitHub OAuth / OIDC'' (Some (''https://token.actions.githubusercontent.com'', [''openid'', ''profile'', ''email'', ''read:user'']))
       (''GitHub Settings '' @ right_arrow @ '' Developer settings '' @ right_arrow @ '' OAuth Apps '' @ right_arrow @ '' New OAuth App. Authorization callback URL = your redirect_url.''),
     preset ''google'' ''oidc'' ''Google'' ''google''
       ''Google Workspace / Gmail'' (Some (''https://accounts.google.com'', [''openid'', ''profile'', ''email'']))
       (''Google Cloud Console '' @ right_arrow @ '' APIs & Services '' @ right_arrow @ '' Credentials '' @ right_arrow @ '' Create OAuth 2.0 Client ID. Authorized redirect URI = your redirect_url.''),
     preset ''microsoft'' ''oidc'' ''Microsoft'' ''microsoft''
       ''Microsoft Entra ID (Azure AD)'' (Some (''https://login.microsoftonline.com/{tenant}/v2.0'', [''openid'', ''profile'', ''email'']))
       (''Azure Portal '' @ right_arrow @ '' App registrations '' @ right_arrow @ '' New registration. Replace {tenant} in issuer with your Directory (tenant) ID or '' @ [CHR 0x27] @ ''common'' @ [CHR 0x27] @ ''.''),
     preset ''gitlab'' ''oidc'' ''GitLab'' ''gitlab''
       ''GitLab.com / self-hosted GitLab'' (Some (''https://gitlab.com'', [''openid'', ''profile'', ''email'']))
       (''GitLab Admin '' @ right_arrow @ '' Applications '' @ right_arrow @ '' New application. Scopes: openid, profile, email. Redirect URI = your redirect_url.''),
     preset ''keycloak'' ''oidc'' ''Keycloak'' ''keycloak''
       ''Keycloak IAM'' (Some (''https://keycloak.example.com/realms/{realm}'', [''openid'', ''profile'', ''email'']))
       (''Keycloak Admin '' @ right_arrow @ '' Clients '' @ right_arrow @ '' Create client. Valid Redirect URIs = your redirect_url. Replace {realm} with your realm name.''),
     preset ''okta'' ''oidc'' ''Okta'' ''okta''
       ''Okta Workforce Identity'' (Some (''https://{your-okta-domain}.okta.com'', [''openid'', ''profile'', ''email'']))
       (''Okta Admin '' @ right_arrow @ '' Applications '' @ right_arrow @ '' Create App Integration '' @ right_arrow @ '' OIDC. Sign-in redirect URIs = your redirect_url.''),
     preset ''auth0'' ''oidc'' ''Auth0'' ''auth0''
       ''Auth0 by Okta'' (Some (''https://{your-domain}.auth0.com'', [''openid'', ''profile'', ''email'']))
       (''Auth0 Dashboard '' @ right_arrow @ '' Applications '' @ right_arrow @ '' Create Application '' @ right_arrow @ '' Regular Web App. Allowed Callback URLs = your redirect_url.''),
     preset ''custom-oidc'' ''oidc'' ''Custom OIDC'' ''oidc''
       ''Any OIDC-compatible provider'' (None)
       (''Enter the issuer URL, client ID, and client secret manually.''),
     preset ''ldap'' ''ldap'' ''LDAP / Active Directory'' ''ldap''
       ''LDAP or AD server'' (None)
       (''Enter LDAP server URL (ldap://host:389 or ldaps://host:636), bind DN, search base, and filter.'')]"

definition preset_json :: "provider_preset \<Rightarrow> any" where
  "preset_json p = AObject ([(''key'', AString (pp_key p)), (''type'', AString (pp_type p)),
     (''display_name'', AString (pp_display_name p)), (''icon'', AString (pp_icon p)),
     (''description'', AString (pp_description p))] @
     (case pp_oidc p of None \<Rightarrow> []
      | Some (i, scopes) \<Rightarrow> [(''oidc'', AObject [(''issuer'', AString i), (''scopes'', AList (map AString scopes))])]) @
     [(''help'', AString (pp_help p))])"

definition handle_provider_presets :: http_resp where
  "handle_provider_presets = respond 200 (AObject [(''presets'', AList (map preset_json provider_presets))])"

record create_provider_req =
  cpr_name :: string
  cpr_type :: string
  cpr_display_name :: string
  cpr_icon :: string
  cpr_enabled :: bool
  cpr_priority :: int
  cpr_settings :: provider_settings

definition decode_create_provider :: "any \<Rightarrow> create_provider_req option" where
  "decode_create_provider x = into_struct (\<lambda>ms r. do {
     n \<leftarrow> into_member into_string ''name'' ms [];
     t \<leftarrow> into_member into_string ''type'' ms [];
     d \<leftarrow> into_member into_string ''display_name'' ms [];
     i \<leftarrow> into_member into_string ''icon'' ms [];
     e \<leftarrow> into_member into_bool ''enabled'' ms False;
     p \<leftarrow> into_member into_int ''priority'' ms 0;
     l \<leftarrow> into_member (into_ptr no_ldap into_ldap) ''ldap'' ms None;
     o1 \<leftarrow> into_member (into_ptr no_oidc into_oidc) ''oidc'' ms None;
     Some \<lparr>cpr_name = n, cpr_type = t, cpr_display_name = d, cpr_icon = i, cpr_enabled = e, cpr_priority = p,
       cpr_settings = \<lparr>pv_ldap = l, pv_oidc = o1\<rparr>\<rparr> })
     x \<lparr>cpr_name = [], cpr_type = [], cpr_display_name = [], cpr_icon = [], cpr_enabled = False, cpr_priority = 0,
        cpr_settings = no_settings\<rparr>"

definition with_scopes :: "oidc_settings \<Rightarrow> oidc_settings" where
  "with_scopes c = (if oi_scopes c = [] then c\<lparr>oi_scopes := default_scopes\<rparr> else c)"

definition new_provider :: "json_codec \<Rightarrow> create_provider_req \<Rightarrow> auth_provider" where
  "new_provider J r = set_config J \<lparr>pv_ldap = pv_ldap (cpr_settings r),
       pv_oidc = map_option with_scopes (pv_oidc (cpr_settings r))\<rparr>
     \<lparr>ap_id = 0, ap_name = cpr_name r, ap_type = cpr_type r, ap_display_name = nonempty_or (cpr_display_name r) (cpr_name r),
      ap_icon = nonempty_or (cpr_icon r) (cpr_type r), ap_enabled = cpr_enabled r, ap_priority = cpr_priority r,
      ap_config = [], ap_created_at = 0\<rparr>"

definition handle_providers :: "'d authenticator \<Rightarrow> json_codec \<Rightarrow> 'd handler" where
  "handle_providers A J ctx rq d =
     (if rq_method rq = ''GET'' then (case list_auth_providers (au_store A) d of
          Inl e \<Rightarrow> (auth_error 500 e, d)
        | Inr ps \<Rightarrow> (respond 200 (AObject [(''providers'', AList (map (provider_to_api J) ps))]), d))
      else if rq_method rq = ''POST'' then (case Option.bind (rq_json rq) decode_create_provider of
          None \<Rightarrow> (auth_error 400 ''invalid request'', d)
        | Some r \<Rightarrow>
            if cpr_name r = [] \<or> cpr_type r = [] then (auth_error 400 ''name and type required'', d)
            else (case create_auth_provider (au_store A) (new_provider J r) d of
                (Inl e, d1) \<Rightarrow> (auth_error 400 e, d1)
              | (Inr p, d1) \<Rightarrow> (respond 201 (AObject [(''provider'', provider_to_api J p),
                  (''message'', AString ''provider created'')]), d1)))
      else (auth_error 405 ''method not allowed'', d))"

record update_provider_req =
  upr_display_name :: string
  upr_icon :: string
  upr_enabled :: "bool option"
  upr_priority :: "int option"
  upr_settings :: provider_settings

definition decode_update_provider :: "any \<Rightarrow> update_provider_req option" where
  "decode_update_provider x = into_struct (\<lambda>ms r. do {
     d \<leftarrow> into_member into_string ''display_name'' ms [];
     i \<leftarrow> into_member into_string ''icon'' ms [];
     e \<leftarrow> into_member (into_ptr False into_bool) ''enabled'' ms None;
     p \<leftarrow> into_member (into_ptr 0 into_int) ''priority'' ms None;
     l \<leftarrow> into_member (into_ptr no_ldap into_ldap) ''ldap'' ms None;
     o1 \<leftarrow> into_member (into_ptr no_oidc into_oidc) ''oidc'' ms None;
     Some \<lparr>upr_display_name = d, upr_icon = i, upr_enabled = e, upr_priority = p,
       upr_settings = \<lparr>pv_ldap = l, pv_oidc = o1\<rparr>\<rparr> })
     x \<lparr>upr_display_name = [], upr_icon = [], upr_enabled = None, upr_priority = None, upr_settings = no_settings\<rparr>"

definition merge_part :: "'s \<Rightarrow> ('s \<Rightarrow> 's \<Rightarrow> 's) \<Rightarrow> 's option \<Rightarrow> 's option \<Rightarrow> 's option" where
  "merge_part zero merge dst src = (case src of None \<Rightarrow> dst
     | Some s \<Rightarrow> Some (merge (case dst of None \<Rightarrow> zero | Some x \<Rightarrow> x) s))"

definition update_provider :: "json_codec \<Rightarrow> update_provider_req \<Rightarrow> auth_provider \<Rightarrow> auth_provider" where
  "update_provider J r p =
     (let p1 = p\<lparr>ap_display_name := nonempty_or (upr_display_name r) (ap_display_name p),
            ap_icon := nonempty_or (upr_icon r) (ap_icon p),
            ap_enabled := (case upr_enabled r of None \<Rightarrow> ap_enabled p | Some e \<Rightarrow> e),
            ap_priority := (case upr_priority r of None \<Rightarrow> ap_priority p | Some i \<Rightarrow> i)\<rparr>;
          s = upr_settings r
      in if s = no_settings then p1
         else (let c = parse_config J p1 in
           set_config J \<lparr>pv_ldap = merge_part no_ldap merge_ldap (pv_ldap c) (pv_ldap s),
             pv_oidc = merge_part no_oidc merge_oidc (pv_oidc c) (pv_oidc s)\<rparr> p1))"

text \<open>\<open>parseUint\<close>: the digits, in 64-bit arithmetic.\<close>

definition parse_uint :: "string \<Rightarrow> int" where
  "parse_uint s = foldl (\<lambda>n c. if is_digit c then wrap_u64 (n * 10 + (int (of_char c) - 48)) else n) 0 s"

definition handle_provider_by_id :: "'d authenticator \<Rightarrow> json_codec \<Rightarrow> 'd handler" where
  "handle_provider_by_id A J ctx rq d =
     (let i = hd (split_on (CHR ''/'') (trim_prefix (rq_path rq) ''/api/auth/providers/'')) in
      if i = [] then (auth_error 400 ''provider id required'', d)
      else if \<not> list_all is_digit i then (auth_error 400 ''invalid id'', d)
      else (case get_auth_provider_by_id (au_store A) (parse_uint i) d of
          Inl _ \<Rightarrow> (auth_error 404 ''provider not found'', d)
        | Inr p \<Rightarrow>
            if rq_method rq = ''GET'' then (respond 200 (AObject [(''provider'', provider_to_api J p)]), d)
            else if rq_method rq = ''PUT'' \<or> rq_method rq = ''PATCH'' then
              (case Option.bind (rq_json rq) decode_update_provider of
                 None \<Rightarrow> (auth_error 400 ''invalid request'', d)
               | Some r \<Rightarrow> (let p1 = update_provider J r p in
                   case update_auth_provider (au_store A) p1 d of
                     (Some e, d1) \<Rightarrow> (auth_error 500 e, d1)
                   | (None, d1) \<Rightarrow> (respond 200 (AObject [(''provider'', provider_to_api J p1),
                       (''message'', AString ''provider updated'')]), d1)))
            else if rq_method rq = ''DELETE'' then
              (case delete_auth_provider (au_store A) (ap_id p) d of
                 (Some e, d1) \<Rightarrow> (auth_error 500 e, d1)
               | (None, d1) \<Rightarrow> (respond 200 (AObject [(''message'', AString ''provider deleted'')]), d1))
            else (auth_error 405 ''method not allowed'', d)))"

section \<open>LDAP\<close>

text \<open>A directory. A dial over TLS says whether the certificate is left unchecked.\<close>

record ldap_entry =
  le_dn :: string
  le_attributes :: "(string \<times> string list) list"

record directory =
  ld_dial :: "string \<Rightarrow> bool option \<Rightarrow> string option"
  ld_start_tls :: "string \<Rightarrow> bool \<Rightarrow> string option"
  ld_bind :: "string \<Rightarrow> string \<Rightarrow> string \<Rightarrow> string option"
  ld_search :: "string \<Rightarrow> string \<Rightarrow> string \<Rightarrow> string + ldap_entry list"
  ld_escape :: "string \<Rightarrow> string"

text \<open>\<open>strings.ReplaceAll\<close>; the counter is what is left of a match to skip.\<close>

fun replace_from :: "nat \<Rightarrow> string \<Rightarrow> string \<Rightarrow> string \<Rightarrow> string" where
  "replace_from k old new [] = []"
| "replace_from (Suc k) old new (c # s) = replace_from k old new s"
| "replace_from 0 old new (c # s) =
     (if has_prefix (c # s) old then new @ replace_from (length old - 1) old new s else c # replace_from 0 old new s)"

definition ldap_connect :: "directory \<Rightarrow> ldap_settings \<Rightarrow> string option" where
  "ldap_connect L c =
     (if ls_server c = [] then Some ''LDAP server not configured''
      else (let tls = has_prefix (ls_server c) ''ldaps://'' in
        case ld_dial L (ls_server c) (if tls then Some (ls_skip_tls_verify c) else None) of
          Some e \<Rightarrow> Some e
        | None \<Rightarrow>
            if ls_start_tls c \<and> \<not> tls then
              (case ld_start_tls L (ls_server c) (ls_skip_tls_verify c) of
                 Some e \<Rightarrow> Some (''LDAP StartTLS failed: '' @ e) | None \<Rightarrow> None)
            else None))"

definition search_filter :: "directory \<Rightarrow> ldap_settings \<Rightarrow> string \<Rightarrow> string" where
  "search_filter L c username =
     (let f = replace_from 0 ''{username}'' (ld_escape L username) (ls_search_filter c)
      in if f = [] then ''(uid='' @ ld_escape L username @ '')'' else f)"

type_synonym attributes = "string \<rightharpoonup> string list"

definition ldap_authenticate :: "directory \<Rightarrow> ldap_settings \<Rightarrow> string \<Rightarrow> string \<Rightarrow> string + (string \<times> attributes)" where
  "ldap_authenticate L c username pw =
     (if ls_server c = [] then Inl ''LDAP server not configured''
      else (case ldap_connect L c of
          Some e \<Rightarrow> Inl (''failed to connect to LDAP: '' @ e)
        | None \<Rightarrow> (case ld_bind L (ls_server c) (ls_bind_dn c) (ls_bind_pw c) of
            Some e \<Rightarrow> Inl (''LDAP service bind failed: '' @ e)
          | None \<Rightarrow> (case ld_search L (ls_server c) (ls_search_base c) (search_filter L c username) of
              Inl e \<Rightarrow> Inl (''LDAP search failed: '' @ e)
            | Inr [] \<Rightarrow> Inl err_invalid_credentials
            | Inr [entry] \<Rightarrow> (case ld_bind L (ls_server c) (le_dn entry) pw of
                Some _ \<Rightarrow> Inl err_invalid_credentials
              | None \<Rightarrow> Inr (le_dn entry, map_of (rev (le_attributes entry))))
            | Inr _ \<Rightarrow> Inl (''LDAP search returned multiple results for '' @ username)))))"

definition ldap_attr :: "attributes \<Rightarrow> string \<Rightarrow> string \<Rightarrow> string" where
  "ldap_attr attrs k fallback = (case attrs k of Some (v # _) \<Rightarrow> v | _ \<Rightarrow> fallback)"

definition ldap_key :: "auth_provider \<Rightarrow> string" where
  "ldap_key p = ''ldap:'' @ ap_name p"

definition login_ldap_provider :: "'d authenticator \<Rightarrow> json_codec \<Rightarrow> directory \<Rightarrow> time \<Rightarrow> auth_provider \<Rightarrow> string \<Rightarrow>
    string \<Rightarrow> 'd \<Rightarrow> (string + (user \<times> string)) \<times> 'd" where
  "login_ldap_provider A J L now p username pw d =
     (case pv_ldap (case Option.bind (jc_parse J (ap_config p)) decode_settings of
          None \<Rightarrow> jc_rest J (ap_config p) | Some c \<Rightarrow> c) of
        None \<Rightarrow> (Inl err_invalid_credentials, d)
      | Some c \<Rightarrow> (case ldap_authenticate L c username pw of
          Inl e \<Rightarrow> (Inl e, d)
        | Inr (dn, attrs) \<Rightarrow>
            (let session = (\<lambda>u d1. (case generate_token A now u of Inl e \<Rightarrow> Inl e | Inr tok \<Rightarrow> Inr (u, tok), d1))
             in case get_user_by_provider (au_store A) (ldap_key p) dn d of
               Inl _ \<Rightarrow> (case create_user (au_store A) (zero_user\<lparr>
                     us_username := unique_username A username (ap_name p) d, us_display_name := ldap_attr attrs ''cn'' username,
                     us_email := ldap_attr attrs ''mail'' [], us_role := default_role A, us_provider := ldap_key p,
                     us_provider_id := dn\<rparr>) d of
                   (Inl e, d1) \<Rightarrow> (Inl e, d1) | (Inr u, d1) \<Rightarrow> session u d1)
             | Inr u \<Rightarrow> (let u1 = u\<lparr>us_email := nonempty_or (ldap_attr attrs ''mail'' []) (us_email u),
                   us_display_name := nonempty_or (ldap_attr attrs ''cn'' []) (us_display_name u)\<rparr>
                 in session u1 (snd (update_user (au_store A) u1 d))))))"

text \<open>The providers in turn; the error is that of the last one.\<close>

fun login_ldap_all :: "'d authenticator \<Rightarrow> json_codec \<Rightarrow> directory \<Rightarrow> time \<Rightarrow> string \<Rightarrow> auth_provider list \<Rightarrow> string \<Rightarrow>
    string \<Rightarrow> 'd \<Rightarrow> (string + (user \<times> string)) \<times> 'd" where
  "login_ldap_all A J L now err [] username pw d = (Inl err, d)"
| "login_ldap_all A J L now err (p # ps) username pw d = (case login_ldap_provider A J L now p username pw d of
     (Inr x, d1) \<Rightarrow> (Inr x, d1)
   | (Inl e, d1) \<Rightarrow> login_ldap_all A J L now e ps username pw d1)"

definition login_ldap :: "'d authenticator \<Rightarrow> json_codec \<Rightarrow> directory \<Rightarrow> time \<Rightarrow> string \<Rightarrow> string \<Rightarrow> 'd \<Rightarrow>
    (string + (user \<times> string)) \<times> 'd" where
  "login_ldap A J L now username pw d = (case get_enabled_providers_by_type (au_store A) ''ldap'' d of
     Inl _ \<Rightarrow> (Inl err_invalid_credentials, d)
   | Inr ps \<Rightarrow> login_ldap_all A J L now err_invalid_credentials ps username pw d)"

section \<open>Login and status\<close>

definition logged_in :: "user \<Rightarrow> string \<Rightarrow> http_resp" where
  "logged_in u tok = set_cookie (token_cookie tok 86400) (respond 200 (AObject
     [(''user'', sanitize_user u), (''must_change'', ABool (us_must_change_pwd u)), (''redirect_url'', AString ''/'')]))"

definition decode_credentials :: "any \<Rightarrow> (string \<times> string) option" where
  "decode_credentials x = into_struct (\<lambda>ms r. do {
     u \<leftarrow> into_member into_string ''username'' ms [];
     p \<leftarrow> into_member into_string ''password'' ms [];
     Some (u, p) }) x ([], [])"

definition handle_login :: "'d authenticator \<Rightarrow> json_codec \<Rightarrow> directory \<Rightarrow> time \<Rightarrow> 'd handler" where
  "handle_login A J L now ctx rq d = (case Option.bind (rq_json rq) decode_credentials of
     None \<Rightarrow> (auth_error 400 ''invalid request body'', d)
   | Some (username, pw) \<Rightarrow>
       if username = [] \<or> pw = [] then (auth_error 400 ''username and password required'', d)
       else (case login_local A now username pw d of
           Inr (u, tok) \<Rightarrow> (logged_in u tok, d)
         | Inl _ \<Rightarrow> (case login_ldap A J L now username pw d of
             (Inr (u, tok), d1) \<Rightarrow> (logged_in u tok, d1)
           | (Inl _, d1) \<Rightarrow> (auth_error 401 ''invalid username or password'', d1))))"

definition rows_or_none :: "string + 'r list \<Rightarrow> 'r list" where
  "rows_or_none r = (case r of Inl _ \<Rightarrow> [] | Inr xs \<Rightarrow> xs)"

definition oidc_button :: "auth_provider \<Rightarrow> any" where
  "oidc_button p = AObject [(''name'', AString (ap_name p)), (''display_name'', AString (ap_display_name p)),
     (''icon'', AString (ap_icon p))]"

definition handle_status :: "'d authenticator \<Rightarrow> 'd handler" where
  "handle_status A ctx rq d =
     (let n = (case count_users (au_store A) d of Inl _ \<Rightarrow> 0 | Inr k \<Rightarrow> k);
          ls = rows_or_none (get_enabled_providers_by_type (au_store A) ''ldap'' d);
          os = rows_or_none (get_enabled_providers_by_type (au_store A) ''oidc'' d)
      in (respond 200 (AObject [(''auth_enabled'', ABool True), (''ldap_enabled'', ABool (ls \<noteq> [])),
            (''oidc_enabled'', ABool (os \<noteq> [])), (''oidc_providers'', AList (map oidc_button os)),
            (''user_count'', AInt n)]), d))"

section \<open>OIDC\<close>

record oidc_claims =
  oc_email :: string
  oc_name :: string
  oc_username :: string
  oc_sub :: string

text \<open>
  The client library: discovery of the issuer, the authorization URL, the exchange of a code for a
  token, of which the id token is what \<open>Extra\<close> gives, its verification, the decoding of its
  claims, and the user info endpoint, whose claims are absent when the call fails.
\<close>

record 't oidc_lib =
  ol_discover :: "string \<Rightarrow> string option"
  ol_auth_url :: "oidc_settings \<Rightarrow> string \<Rightarrow> string \<Rightarrow> string"
  ol_exchange :: "oidc_settings \<Rightarrow> string \<Rightarrow> string + 't"
  ol_id_token :: "'t \<Rightarrow> string option"
  ol_verify :: "oidc_settings \<Rightarrow> string \<Rightarrow> string + (string + oidc_claims)"
  ol_user_info :: "'t \<Rightarrow> oidc_claims option"

record oidc_user_info =
  ou_provider_id :: string
  ou_username :: string
  ou_email :: string
  ou_display_name :: string

definition new_oidc_handler :: "json_codec \<Rightarrow> 't oidc_lib \<Rightarrow> auth_provider \<Rightarrow> string + oidc_settings" where
  "new_oidc_handler J O1 p = (case pv_oidc (parse_config J p) of
     None \<Rightarrow> Inl (''provider '' @ ap_name p @ '' has no OIDC config'')
   | Some c \<Rightarrow> (case ol_discover O1 (oi_issuer c) of
       Some e \<Rightarrow> Inl (''failed to discover OIDC provider '' @ ap_name p @ '': '' @ e)
     | None \<Rightarrow> Inr (with_scopes c)))"

definition normalized :: "oidc_claims \<Rightarrow> oidc_claims option \<Rightarrow> oidc_user_info" where
  "normalized c ui =
     (let email = (case ui of None \<Rightarrow> oc_email c | Some x \<Rightarrow> nonempty_or (oc_email c) (oc_email x));
          display = (case ui of None \<Rightarrow> oc_name c | Some x \<Rightarrow> nonempty_or (oc_name c) (oc_name x));
          username = (case ui of None \<Rightarrow> oc_username c | Some x \<Rightarrow> nonempty_or (oc_username c) (oc_username x))
      in \<lparr>ou_provider_id = oc_sub c, ou_username = nonempty_or username email, ou_email = email,
          ou_display_name = display\<rparr>)"

definition oidc_exchange :: "'t oidc_lib \<Rightarrow> oidc_settings \<Rightarrow> string \<Rightarrow> string + oidc_user_info" where
  "oidc_exchange O1 c code = (case ol_exchange O1 c code of
     Inl e \<Rightarrow> Inl (''failed to exchange OIDC code: '' @ e)
   | Inr tok \<Rightarrow> (case ol_id_token O1 tok of
       None \<Rightarrow> Inl ''no id_token in OIDC response''
     | Some raw \<Rightarrow> (case ol_verify O1 c raw of
         Inl e \<Rightarrow> Inl (''failed to verify id_token: '' @ e)
       | Inr (Inl e) \<Rightarrow> Inl (''failed to parse id_token claims: '' @ e)
       | Inr (Inr cl) \<Rightarrow> Inr (normalized cl (ol_user_info O1 tok)))))"

definition state_cookie_name :: "string \<Rightarrow> string" where
  "state_cookie_name name = ''oidc_state_'' @ name"

definition state_cookie :: "string \<Rightarrow> string \<Rightarrow> int \<Rightarrow> cookie" where
  "state_cookie name v age = \<lparr>ck_name = state_cookie_name name, ck_value = v, ck_max_age = age\<rparr>"

definition verify_state :: "string \<Rightarrow> string \<Rightarrow> bool" where
  "verify_state expected actual \<longleftrightarrow> expected \<noteq> [] \<and> actual \<noteq> [] \<and> expected = actual"

text \<open>\<open>randomString\<close>: the bytes \<open>rand.Read\<close> made, in the URL alphabet with padding.\<close>

definition random_string :: "string + string \<Rightarrow> string + string" where
  "random_string raw = (case raw of Inl e \<Rightarrow> Inl e
     | Inr bytes \<Rightarrow> Inr (encode64 True bytes @ replicate ((3 - length bytes mod 3) mod 3) (CHR ''='')))"

definition auth_url :: "'t oidc_lib \<Rightarrow> oidc_settings \<Rightarrow> string + string \<Rightarrow> string + string \<Rightarrow> string + (string \<times> string)" where
  "auth_url O1 c raw1 raw2 = (case random_string raw1 of
     Inl e \<Rightarrow> Inl e
   | Inr st \<Rightarrow> (case random_string raw2 of
       Inl e \<Rightarrow> Inl e
     | Inr nonce \<Rightarrow> Inr (ol_auth_url O1 c st nonce, st)))"

definition handle_oidc_login :: "json_codec \<Rightarrow> 't oidc_lib \<Rightarrow> string + string \<Rightarrow> string + string \<Rightarrow> auth_provider \<Rightarrow> http_resp" where
  "handle_oidc_login J O1 raw1 raw2 p = (case new_oidc_handler J O1 p of
     Inl e \<Rightarrow> auth_error 500 (''OIDC init failed: '' @ e)
   | Inr c \<Rightarrow> (case auth_url O1 c raw1 raw2 of
       Inl _ \<Rightarrow> auth_error 500 ''failed to generate OIDC URL''
     | Inr (url, st) \<Rightarrow> set_cookie (state_cookie (ap_name p) st 300) (http_redirect 302 url)))"

definition handle_oidc_callback :: "'d authenticator \<Rightarrow> json_codec \<Rightarrow> 't oidc_lib \<Rightarrow> time \<Rightarrow> auth_provider \<Rightarrow> http_req \<Rightarrow> 'd \<Rightarrow>
    http_resp \<times> 'd" where
  "handle_oidc_callback A J O1 now p rq d =
     (let code = rq_query rq ''code''; st = rq_query rq ''state'' in
      if code = [] \<or> st = [] then (auth_error 400 ''missing code or state'', d)
      else if (case rq_cookie rq (state_cookie_name (ap_name p)) of None \<Rightarrow> True | Some v \<Rightarrow> \<not> verify_state v st)
      then (auth_error 400 ''invalid or expired state'', d)
      else (case new_oidc_handler J O1 p of
          Inl _ \<Rightarrow> (auth_error 500 ''OIDC init failed'', d)
        | Inr c \<Rightarrow> (case oidc_exchange O1 c code of
            Inl e \<Rightarrow> (auth_error 401 (''OIDC exchange failed: '' @ e), d)
          | Inr i \<Rightarrow> (case upsert_oidc_user A now (''oidc:'' @ ap_name p) (ou_provider_id i) (ou_username i)
                (ou_email i) (ou_display_name i) d of
              (Inl e, d1) \<Rightarrow> (auth_error 500 (''failed to create user: '' @ e), d1)
            | (Inr (u, tok), d1) \<Rightarrow> (set_cookie (token_cookie tok 86400)
                (set_cookie (state_cookie (ap_name p) [] (-1)) (http_redirect 302 ''/'')), d1)))))"

definition handle_multi_oidc :: "'d authenticator \<Rightarrow> json_codec \<Rightarrow> 't oidc_lib \<Rightarrow> string + string \<Rightarrow> string + string \<Rightarrow> time \<Rightarrow>
    'd handler" where
  "handle_multi_oidc A J O1 raw1 raw2 now ctx rq d =
     (case split_n (CHR ''/'') 2 (trim_prefix (rq_path rq) ''/api/auth/oidc/'') of
        [name, action] \<Rightarrow> (case get_auth_provider (au_store A) name d of
            Inl _ \<Rightarrow> (auth_error 404 (''OIDC provider not found: '' @ name), d)
          | Inr p \<Rightarrow>
              if \<not> ap_enabled p \<or> ap_type p \<noteq> ''oidc'' then (auth_error 400 ''provider not enabled or not OIDC'', d)
              else if action = ''login'' then (handle_oidc_login J O1 raw1 raw2 p, d)
              else if action = ''callback'' then handle_oidc_callback A J O1 now p rq d
              else (auth_error 404 ''unknown OIDC action'', d))
      | _ \<Rightarrow> (auth_error 404 ''invalid OIDC route'', d))"

section \<open>The auth configuration\<close>

definition config_response :: "(duration \<Rightarrow> string) \<Rightarrow> 'd authenticator \<Rightarrow> any" where
  "config_response show_duration A = AObject [(''jwt_expiry'', AString (show_duration (cf_jwt_expiry (au_cfg A)))),
     (''default_role'', AString (cf_default_role (au_cfg A))),
     (''default_allowed_namespaces'', AString (cf_default_allowed_namespaces (au_cfg A)))]"

definition update_config :: "string \<Rightarrow> string \<Rightarrow> 'd authenticator \<Rightarrow> 'd authenticator" where
  "update_config role nss A =
     A\<lparr>au_cfg := (au_cfg A)\<lparr>cf_default_role := role, cf_default_allowed_namespaces := nss\<rparr>\<rparr>"

definition decode_config_request :: "any \<Rightarrow> (string \<times> string) option" where
  "decode_config_request x = into_struct (\<lambda>ms r. do {
     _ \<leftarrow> into_member into_string ''jwt_expiry'' ms [];
     a \<leftarrow> into_member into_string ''default_role'' ms [];
     b \<leftarrow> into_member into_string ''default_allowed_namespaces'' ms [];
     Some (a, b) }) x ([], [])"

definition handle_auth_config :: "(duration \<Rightarrow> string) \<Rightarrow> http_req \<Rightarrow> 'd authenticator \<Rightarrow> http_resp \<times> 'd authenticator" where
  "handle_auth_config show_duration rq A =
     (if rq_method rq = ''GET'' then (respond 200 (config_response show_duration A), A)
      else if rq_method rq = ''PUT'' \<or> rq_method rq = ''POST'' then
        (case Option.bind (rq_json rq) decode_config_request of
           None \<Rightarrow> (auth_error 400 ''invalid request body'', A)
         | Some (role, nss) \<Rightarrow> (let A1 = update_config role nss A in
             (respond 200 (AObject [(''message'', AString ''auth config updated''),
               (''config'', config_response show_duration A1)]), A1)))
      else (auth_error 405 ''method not allowed'', A))"

section \<open>Construction\<close>

text \<open>A database library: connecting, executing a statement whose error is dropped, migrating tables.\<close>

datatype dialect = Sqlite | Mysql | Postgres

record 'd database =
  db_open :: "dialect \<Rightarrow> string \<Rightarrow> string + 'd"
  db_exec :: "string \<Rightarrow> 'd \<Rightarrow> 'd"
  db_migrate :: "string list \<Rightarrow> 'd \<Rightarrow> string option \<times> 'd"

definition select_dialect :: "string \<Rightarrow> string \<Rightarrow> string + (dialect \<times> string)" where
  "select_dialect driver dsn =
     (if to_lower driver \<in> {[], ''sqlite'', ''sqlite3''} then
        (let s = (if dsn = [] then ''/data/k8ops.db'' else dsn)
         in Inr (Sqlite, if s = '':memory:'' then s else s @ ''?_pragma=journal_mode(WAL)&_pragma=busy_timeout(5000)''))
      else if to_lower driver = ''mysql'' then Inr (Mysql, dsn)
      else if to_lower driver \<in> {''postgres'', ''postgresql'', ''pg''} then Inr (Postgres, dsn)
      else Inl (''unsupported database driver: '' @ driver @ '' (use sqlite, mysql, or postgres)''))"

definition new_store :: "'d database \<Rightarrow> string \<Rightarrow> string \<Rightarrow> string + 'd" where
  "new_store D driver dsn = (case select_dialect driver dsn of
     Inl e \<Rightarrow> Inl e
   | Inr (dl, s) \<Rightarrow> (case db_open D dl s of
       Inl e \<Rightarrow> Inl (''failed to open auth database ('' @ driver @ ''): '' @ e)
     | Inr d \<Rightarrow> (let d1 = (if dl = Sqlite then db_exec D ''PRAGMA busy_timeout=5000;'' (db_exec D ''PRAGMA journal_mode=WAL;'' d)
             else d)
         in case db_migrate D [''users''] d1 of
              (Some e, _) \<Rightarrow> Inl (''failed to migrate auth database: '' @ e)
            | (None, d2) \<Rightarrow> Inr d2)))"

text \<open>The steps of \<open>New\<close> after the store is open, each with the words its error is wrapped in.\<close>

fun run_setup :: "(string \<times> ('d \<Rightarrow> string option \<times> 'd)) list \<Rightarrow> 'd \<Rightarrow> string + 'd" where
  "run_setup [] d = Inr d"
| "run_setup ((what, f) # fs) d = (case f d of
     (Some e, _) \<Rightarrow> Inl (''failed to '' @ what @ '': '' @ e)
   | (None, d1) \<Rightarrow> run_setup fs d1)"

text \<open>The path is the legacy setting; it counts when neither driver nor connection string is given.\<close>

definition new_authenticator :: "'d database \<Rightarrow> string \<Rightarrow> string \<Rightarrow> string \<Rightarrow> string \<Rightarrow> 'd authenticator \<Rightarrow>
    string + ('d authenticator \<times> ip_limiter \<times> 'd)" where
  "new_authenticator D salt driver dsn path A =
     (let legacy = (driver = [] \<and> dsn = [] \<and> path \<noteq> [])
      in case new_store D (if legacy then ''sqlite'' else driver) (if legacy then path else dsn) of
        Inl e \<Rightarrow> Inl e
      | Inr d \<Rightarrow> (let A1 = (if cf_jwt_expiry (au_cfg A) = 0
              then A\<lparr>au_cfg := (au_cfg A)\<lparr>cf_jwt_expiry := 24 * 60 * minute\<rparr>\<rparr> else A)
          in case run_setup [(''bootstrap admin'', bootstrap_admin A1 salt),
                (''migrate role defs'', db_migrate D [''role_defs'', ''role_binding_defs'']),
                (''seed builtin roles'', seed_builtin_roles (au_store A1)),
                (''migrate auth providers'', db_migrate D [''auth_providers'']),
                (''migrate API keys'', db_migrate D [''api_keys''])] d of
              Inl e \<Rightarrow> Inl e
            | Inr d1 \<Rightarrow> Inr (A1, new_ip_limiter 5 1, d1)))"

section \<open>Lemmas\<close>

lemma into_bool_ABool [simp]: "into_bool (ABool b) v = Some b"
  by (simp add: into_bool_def)

lemma into_ldap_json: "into_ldap (ldap_json c) v = Some c"
  by (simp add: into_ldap_def ldap_json_def member_name_simps)

lemma into_oidc_json: "into_oidc (oidc_json c) v = Some c"
  using decode_all_map[of "oi_scopes c" into_string AString "[]" id]
  by (simp add: into_oidc_def oidc_json_def member_name_simps)

lemma decode_settings_json: "decode_settings (settings_json c) = Some c"
  by (auto simp: decode_settings_def settings_json_def into_ptr_def into_ldap_json into_oidc_json
      member_name_simps split: option.split) (simp_all add: ldap_json_def oidc_json_def)

text \<open>The codec reads back what it wrote; JSON of an object is not the empty text.\<close>

definition codec_ok :: "json_codec \<Rightarrow> bool" where
  "codec_ok J \<longleftrightarrow> (\<forall>ms. jc_parse J (jc_render J (AObject ms)) = Some (AObject ms) \<and> jc_render J (AObject ms) \<noteq> [])"

lemma parse_set_config: "codec_ok J \<Longrightarrow> parse_config J (set_config J c p) = c"
  using decode_settings_json[of c]
  by (simp add: parse_config_def set_config_def codec_ok_def settings_json_def)

text \<open>Saving the masked settings the API shows keeps the secrets, and everything else, as they are.\<close>

lemma merge_masked: "merge_ldap c (mask_ldap c) = c" "merge_oidc o1 (mask_oidc o1) = o1"
  by (simp_all add: merge_ldap_def mask_ldap_def nonempty_or_def merge_oidc_def mask_oidc_def)

lemma masked_settings_saved:
  assumes "codec_ok J" "upr_settings r = to_api_config J p"
  shows "parse_config J (update_provider J r p) = parse_config J p"
proof -
  let ?p1 = "p\<lparr>ap_display_name := nonempty_or (upr_display_name r) (ap_display_name p),
    ap_icon := nonempty_or (upr_icon r) (ap_icon p),
    ap_enabled := (case upr_enabled r of None \<Rightarrow> ap_enabled p | Some e \<Rightarrow> e),
    ap_priority := (case upr_priority r of None \<Rightarrow> ap_priority p | Some i \<Rightarrow> i)\<rparr>"
  have "ap_config ?p1 = ap_config p" by simp
  then have p1: "parse_config J ?p1 = parse_config J p" unfolding parse_config_def by (simp only:)
  have m: "merge_part no_ldap merge_ldap x (map_option mask_ldap x) = x"
    "merge_part no_oidc merge_oidc y (map_option mask_oidc y) = y" for x y
    by (simp_all add: merge_part_def merge_masked split: option.split)
  show ?thesis
    using p1 parse_set_config[OF assms(1)]
    by (simp add: update_provider_def assms(2) to_api_config_def Let_def m)
qed

text \<open>Only a directory that accepts the password for the one entry it finds logs somebody in.\<close>

definition directory_accepts :: "json_codec \<Rightarrow> directory \<Rightarrow> auth_provider \<Rightarrow> string \<Rightarrow> string \<Rightarrow> bool" where
  "directory_accepts J L p username pw \<longleftrightarrow> (\<exists>c dn attrs. ldap_authenticate L c username pw = Inr (dn, attrs) \<and>
     ld_bind L (ls_server c) dn pw = None \<and>
     pv_ldap (case Option.bind (jc_parse J (ap_config p)) decode_settings of
       None \<Rightarrow> jc_rest J (ap_config p) | Some c \<Rightarrow> c) = Some c)"

lemma ldap_authenticate_bind: "ldap_authenticate L c username pw = Inr (dn, attrs) \<Longrightarrow> ld_bind L (ls_server c) dn pw = None"
  by (auto simp: ldap_authenticate_def split: if_splits option.splits sum.splits list.splits)

lemma login_ldap_provider_accepts:
  "login_ldap_provider A J L now p username pw d = (Inr x, d1) \<Longrightarrow> directory_accepts J L p username pw"
  unfolding login_ldap_provider_def directory_accepts_def
  by (auto split: option.splits sum.splits dest: ldap_authenticate_bind)

lemma login_ldap_all_accepts:
  "login_ldap_all A J L now e ps username pw d = (Inr x, d1) \<Longrightarrow>
   \<exists>p \<in> set ps. directory_accepts J L p username pw"
  by (induction ps arbitrary: e d) (auto split: prod.splits sum.splits dest: login_ldap_provider_accepts)

lemma resp_code_cookie [simp]: "resp_code (set_cookie c r) = resp_code r"
  by (simp add: set_cookie_def)

lemma resp_code_answers [simp]: "resp_code (auth_error k m) = k" "resp_code (respond k v) = k"
  "resp_code (logged_in u tok) = 200" "resp_code (http_redirect k url) = k"
  by (simp_all add: auth_error_def respond_def logged_in_def http_redirect_def)

definition finds_rows :: "('d, 'r) table \<Rightarrow> ('d \<Rightarrow> 'r list) \<Rightarrow> bool" where
  "finds_rows T rows \<longleftrightarrow> (\<forall>ord P d rs. t_find T ord P d = Inr rs \<longrightarrow> set rs \<subseteq> {r \<in> set (rows d). P r})"

lemma login_ldap_accepts:
  assumes "finds_rows (st_providers (au_store A)) rows" "login_ldap A J L now username pw d = (Inr x, d1)"
  shows "\<exists>p \<in> set (rows d). ap_type p = ''ldap'' \<and> ap_enabled p \<and> directory_accepts J L p username pw"
proof -
  obtain ps where ps: "get_enabled_providers_by_type (au_store A) ''ldap'' d = Inr ps"
    "login_ldap_all A J L now err_invalid_credentials ps username pw d = (Inr x, d1)"
    using assms(2) by (auto simp: login_ldap_def split: sum.splits)
  then have "set ps \<subseteq> {p \<in> set (rows d). ap_type p = ''ldap'' \<and> ap_enabled p}"
    using assms(1) by (auto simp: finds_rows_def get_enabled_providers_by_type_def)
  with login_ldap_all_accepts[OF ps(2)] show ?thesis by blast
qed

lemma login_local_accepts:
  assumes "sql_ok (st_users (au_store A)) rows idf uq same" "login_local A now username pw d = Inr (u, tok)"
  shows "u \<in> set (rows d) \<and> us_username u = username \<and> us_provider u = ''local'' \<and>
    bc_compare (au_bcrypt A) (us_password_hash u) pw"
proof -
  obtain v where v: "get_user_by_username (au_store A) username d = Inr v"
    using assms(2) by (auto simp: login_local_def split: sum.splits)
  then have "v \<in> set (rows d) \<and> us_username v = username"
    using table_firstD[OF assms(1)] by (auto simp: get_user_by_username_def)
  with v assms(2) show ?thesis
    by (auto simp: login_local_def split: if_splits sum.splits)
qed

lemma resp_cookies_answers [simp]:
  "resp_cookies (auth_error k m) = []" "resp_cookies (respond k v) = []" "resp_cookies (http_redirect k url) = []"
  "resp_cookies (set_cookie c r) = c # resp_cookies r"
  by (simp_all add: auth_error_def respond_def http_redirect_def set_cookie_def)

lemma oidc_login_cookies:
  "c \<in> set (resp_cookies (handle_oidc_login J O1 raw1 raw2 p)) \<Longrightarrow> ck_name c \<noteq> ''k8ops_token''"
  by (auto simp: handle_oidc_login_def state_cookie_def state_cookie_name_def split: sum.splits)

lemma oidc_callback_state:
  "c \<in> set (resp_cookies (fst (handle_oidc_callback A J O1 now p rq d))) \<Longrightarrow>
   rq_query rq ''state'' \<noteq> [] \<and> rq_cookie rq (state_cookie_name (ap_name p)) = Some (rq_query rq ''state'')"
  by (auto simp: handle_oidc_callback_def verify_state_def Let_def split: if_splits option.splits)

section \<open>Properties\<close>

text \<open>C11. The login route lets nobody in without a password that somebody checked: an answer 200 means that
  the body named a user and a password that is not empty, and that either a stored local user has
  this name and a hash the password matches, or a stored and enabled LDAP provider has a directory
  that found one entry for the name and accepted a bind with the password.\<close>

theorem login_admits:
  assumes "sql_ok (st_users (au_store A)) users idf uq same" "finds_rows (st_providers (au_store A)) rows"
    and "handle_login A J L now ctx rq d = (resp, d1)" "resp_code resp = 200"
  shows "\<exists>username pw. Option.bind (rq_json rq) decode_credentials = Some (username, pw) \<and> pw \<noteq> [] \<and>
    ((\<exists>u \<in> set (users d). us_username u = username \<and> us_provider u = ''local'' \<and>
        bc_compare (au_bcrypt A) (us_password_hash u) pw) \<or>
     (\<exists>p \<in> set (rows d). ap_type p = ''ldap'' \<and> ap_enabled p \<and> directory_accepts J L p username pw))"
proof -
  obtain username pw where b: "Option.bind (rq_json rq) decode_credentials = Some (username, pw)" "pw \<noteq> []" "username \<noteq> []"
    using assms(3,4) by (auto simp: handle_login_def split: option.splits if_splits)
  show ?thesis
  proof (cases "login_local A now username pw d")
    case (Inr x)
    obtain u tok where "x = (u, tok)" by fastforce
    with login_local_accepts[OF assms(1)] Inr b(1,2) show ?thesis by metis
  next
    case (Inl e)
    then obtain x where "login_ldap A J L now username pw d = (Inr x, d1)"
      using assms(3,4) b by (auto simp: handle_login_def split: prod.splits sum.splits)
    from login_ldap_accepts[OF assms(2) this] b(1,2) show ?thesis by blast
  qed
qed

definition demo_codec :: json_codec where
  "demo_codec = \<lparr>jc_parse = (\<lambda>s. None), jc_render = (\<lambda>x. ''{}''), jc_rest = (\<lambda>s. no_settings)\<rparr>"

definition demo_directory :: directory where
  "demo_directory = \<lparr>ld_dial = (\<lambda>s t. Some ''no route''), ld_start_tls = (\<lambda>s k. None), ld_bind = (\<lambda>s d p. None),
     ld_search = (\<lambda>s b f. Inr []), ld_escape = (\<lambda>s. s)\<rparr>"

definition demo_login :: "string \<Rightarrow> http_req" where
  "demo_login pw = (demo_req ''POST'' ''/api/auth/login'' [] None)\<lparr>rq_json := Some (AObject
     [(''username'', AString ''eve''), (''password'', AString pw)])\<rparr>"

theorem login_admits_witness:
  "resp_code (fst (handle_login demo_auth demo_codec demo_directory 0 None (demo_login ''pw'') demo_db)) = 200 \<and>
   (\<exists>username pw. Option.bind (rq_json (demo_login ''pw'')) decode_credentials = Some (username, pw) \<and> pw \<noteq> [] \<and>
    ((\<exists>u \<in> set (md_users demo_db). us_username u = username \<and> us_provider u = ''local'' \<and>
        bc_compare (au_bcrypt demo_auth) (us_password_hash u) pw) \<or>
     (\<exists>p \<in> set (md_providers demo_db). ap_type p = ''ldap'' \<and> ap_enabled p \<and>
        directory_accepts demo_codec demo_directory p username pw)))"
proof -
  let ?r = "handle_login demo_auth demo_codec demo_directory 0 None (demo_login ''pw'') demo_db"
  have c: "resp_code (fst ?r) = 200"
    by (simp add: handle_login_def demo_login_def demo_req_def decode_credentials_def member_name_simps
        login_local_def get_user_by_username_def mem_store_def mem_table_def demo_db_def demo_user_def zero_user_def
        demo_bcrypt_def generate_token_def demo_jwt_def claims_for_def)
  have f: "finds_rows (st_providers (au_store demo_auth)) md_providers"
    by (auto simp: finds_rows_def mem_store_def mem_table_def)
  have u: "sql_ok (st_users (au_store demo_auth)) md_users us_id us_username (\<lambda>r r1. r1 = r\<lparr>us_id := us_id r1\<rparr>)"
    using mem_users by simp
  show ?thesis
    by (intro conjI c login_admits[OF u f, where ctx = None and resp = "fst ?r" and ?d1.0 = "snd ?r" and now = 0]) (simp_all add: c)
qed

text \<open>C12. The OIDC callback logs in only the browser that began the flow: whenever the answer sets a session
  cookie, the request carried the state cookie of the provider named in its path, not empty and
  equal to the state in its query; the provider is stored under that name, enabled and of type OIDC.\<close>

theorem callback_needs_state:
  assumes "sql_ok (st_providers (au_store A)) rows idf uq same"
    and "c \<in> set (resp_cookies (fst (handle_multi_oidc A J O1 raw1 raw2 now ctx rq d)))" "ck_name c = ''k8ops_token''"
  shows "\<exists>p \<in> set (rows d). ap_enabled p \<and> ap_type p = ''oidc'' \<and> rq_query rq ''state'' \<noteq> [] \<and>
    split_n (CHR ''/'') 2 (trim_prefix (rq_path rq) ''/api/auth/oidc/'') = [ap_name p, ''callback''] \<and>
    rq_cookie rq (state_cookie_name (ap_name p)) = Some (rq_query rq ''state'')"
proof -
  let ?r = "handle_multi_oidc A J O1 raw1 raw2 now ctx rq d"
  obtain name action where parts: "split_n (CHR ''/'') 2 (trim_prefix (rq_path rq) ''/api/auth/oidc/'') = [name, action]"
    using assms(2) by (auto simp: handle_multi_oidc_def split: list.splits)
  obtain p where p: "get_auth_provider (au_store A) name d = Inr p" "ap_enabled p" "ap_type p = ''oidc''"
    using assms(2) parts by (auto simp: handle_multi_oidc_def split: sum.splits if_splits)
  with table_firstD[OF assms(1)] have row: "p \<in> set (rows d)" "ap_name p = name"
    by (auto simp: get_auth_provider_def)
  have "action = ''callback''"
    using assms(2,3) parts p oidc_login_cookies[of c J O1 raw1 raw2 p]
    by (auto simp: handle_multi_oidc_def split: if_splits)
  moreover from this assms(2) parts p have "c \<in> set (resp_cookies (fst (handle_oidc_callback A J O1 now p rq d)))"
    by (simp add: handle_multi_oidc_def)
  ultimately show ?thesis using oidc_callback_state[of c A J O1 now p rq d] parts p(2,3) row by blast
qed

text \<open>A login at an identity provider, back with the state the browser holds.\<close>

definition demo_sso_provider :: auth_provider where
  "demo_sso_provider = \<lparr>ap_id = 1, ap_name = ''sso'', ap_type = ''oidc'', ap_display_name = ''SSO'', ap_icon = ''oidc'',
     ap_enabled = True, ap_priority = 0, ap_config = ''{}'', ap_created_at = 0\<rparr>"

definition oidc_codec :: json_codec where
  "oidc_codec = demo_codec\<lparr>jc_rest := (\<lambda>s. \<lparr>pv_ldap = None, pv_oidc = Some no_oidc\<rparr>)\<rparr>"

definition demo_idp :: "unit oidc_lib" where
  "demo_idp = \<lparr>ol_discover = (\<lambda>i. None), ol_auth_url = (\<lambda>c s n. s), ol_exchange = (\<lambda>c code. Inr ()),
     ol_id_token = (\<lambda>t. Some ''jwt''), ol_verify = (\<lambda>c t. Inr (Inr \<lparr>oc_email = ''a@b'', oc_name = ''Ann'',
       oc_username = ''ann'', oc_sub = ''7''\<rparr>)), ol_user_info = (\<lambda>t. None)\<rparr>"

definition demo_callback :: http_req where
  "demo_callback = (demo_req ''GET'' ''/api/auth/oidc/sso/callback'' [] None)\<lparr>
     rq_query := (\<lambda>k. if k = ''code'' then ''c1'' else if k = ''state'' then ''xyz'' else []),
     rq_cookie := (\<lambda>n. if n = ''oidc_state_sso'' then Some ''xyz'' else None)\<rparr>"

definition demo_sso :: mem_db where
  "demo_sso = demo_db\<lparr>md_providers := [demo_sso_provider]\<rparr>"

lemma demo_callback_path: "split_n (CHR ''/'') 2 (trim_prefix ''/api/auth/oidc/sso/callback'' ''/api/auth/oidc/'') = [''sso'', ''callback'']"
  by code_simp

lemma demo_sso_logs_in:
  "token_cookie (demo_token 3 ''s3cret'') 86400 \<in> set (resp_cookies (fst (handle_multi_oidc demo_auth oidc_codec demo_idp
     (Inr []) (Inr []) 0 None demo_callback demo_sso)))"
proof -
  have p: "get_auth_provider mem_store ''sso'' demo_sso = Inr demo_sso_provider"
    by (simp add: get_auth_provider_def mem_store_def mem_table_def demo_sso_def demo_sso_provider_def)
  have c: "new_oidc_handler oidc_codec demo_idp demo_sso_provider = Inr (with_scopes no_oidc)"
    by (simp add: new_oidc_handler_def parse_config_def oidc_codec_def demo_codec_def demo_sso_provider_def demo_idp_def)
  have x: "oidc_exchange demo_idp (with_scopes no_oidc) ''c1'' = Inr \<lparr>ou_provider_id = ''7'', ou_username = ''ann'',
      ou_email = ''a@b'', ou_display_name = ''Ann''\<rparr>"
    by (simp add: oidc_exchange_def demo_idp_def normalized_def nonempty_or_def)
  have n: "unique_username demo_auth ''ann'' ''oidc:sso'' demo_sso = ''ann''"
    by (simp add: unique_username_def numeral_eq_Suc get_user_by_username_def mem_store_def mem_table_def demo_sso_def
        demo_db_def demo_user_def zero_user_def)
  have u: "\<exists>u d1. upsert_oidc_user demo_auth 0 ''oidc:sso'' ''7'' ''ann'' ''a@b'' ''Ann'' demo_sso =
      (Inr (u, demo_token 3 ''s3cret''), d1)"
    using n
    by (simp add: upsert_oidc_user_def get_user_by_provider_def create_user_def mem_store_def mem_table_def demo_sso_def
        demo_db_def demo_user_def zero_user_def generate_token_def demo_jwt_def claims_for_def Let_def)
  then show ?thesis
    using p c x
    by (auto simp: handle_multi_oidc_def handle_oidc_callback_def demo_callback_def demo_req_def demo_callback_path
        state_cookie_name_def verify_state_def demo_sso_provider_def)
qed

theorem callback_needs_state_witness:
  "\<exists>p \<in> set (md_providers demo_sso). ap_enabled p \<and> ap_type p = ''oidc'' \<and> rq_query demo_callback ''state'' \<noteq> [] \<and>
    split_n (CHR ''/'') 2 (trim_prefix (rq_path demo_callback) ''/api/auth/oidc/'') = [ap_name p, ''callback''] \<and>
    rq_cookie demo_callback (state_cookie_name (ap_name p)) = Some (rq_query demo_callback ''state'')"
proof (rule callback_needs_state[OF _ demo_sso_logs_in])
  show "sql_ok (st_providers (au_store demo_auth)) md_providers ap_id ap_name (\<lambda>r r1. r1 = r\<lparr>ap_id := ap_id r1\<rparr>)"
    unfolding demo_auth_simps mem_store_def store.simps by (rule mem_table_sql) simp_all
  show "ck_name (token_cookie (demo_token 3 ''s3cret'') 86400) = ''k8ops_token''"
    by (simp add: token_cookie_def)
qed

end
