(* ===== verification/Provider.thy ===== *)
theory Provider
  imports Tools
begin

text \<open>
  Package \<open>provider\<close> (internal/provider/provider.go): messages, requests and responses, the
  interface every LLM backend implements and the table of backend factories.

  A backend acts on a world of type \<open>'w\<close>. \<open>stream_complete\<close> returns the chunks it passes to
  \<open>onDelta\<close>, in order, beside its result.
\<close>

record tool_call =
  tc_id :: string
  tc_name :: string
  tc_arguments :: string

record message =
  msg_role :: string
  msg_content :: string
  msg_tool_call_id :: string
  msg_tool_calls :: "tool_call list"

definition role_system :: string where "role_system = ''system''"
definition role_user :: string where "role_user = ''user''"
definition role_assistant :: string where "role_assistant = ''assistant''"
definition role_tool :: string where "role_tool = ''tool''"

lemmas role_defs = role_system_def role_user_def role_assistant_def role_tool_def

definition text_message :: "string \<Rightarrow> string \<Rightarrow> message" where
  "text_message role content = \<lparr>msg_role = role, msg_content = content, msg_tool_call_id = [],
     msg_tool_calls = []\<rparr>"

definition tool_message :: "string \<Rightarrow> string \<Rightarrow> message" where
  "tool_message call_id content = \<lparr>msg_role = role_tool, msg_content = content,
     msg_tool_call_id = call_id, msg_tool_calls = []\<rparr>"

record tool_function_schema =
  tfs_name :: string
  tfs_description :: string
  tfs_parameters :: any

record tool_definition =
  tdef_type :: string
  tdef_function :: tool_function_schema

record completion_request =
  cq_messages :: "message list"
  cq_tools :: "tool_definition list"
  cq_model :: string
  cq_max_tokens :: int
  cq_temperature :: rat

record completion_response =
  cp_content :: string
  cp_tool_calls :: "tool_call list"
  cp_prompt_tokens :: int
  cp_completion_tokens :: int

record provider_config =
  pc_type :: string
  pc_model :: string
  pc_api_key :: string
  pc_endpoint :: string
  pc_max_tokens :: int
  pc_temperature :: rat

record 'w provider =
  prov_name :: string
  complete :: "completion_request \<Rightarrow> 'w \<Rightarrow> completion_response result \<times> 'w"
  stream_complete :: "completion_request \<Rightarrow> 'w \<Rightarrow> (string list \<times> completion_response result) \<times> 'w"

section \<open>The order of messages\<close>

text \<open>
  What the chat APIs require of a list of messages: an assistant message with tool calls is
  followed by one tool message per call, in the order of the calls, and tool messages occur
  nowhere else. \<open>proto\<close> reads the list with the calls still to be answered.
\<close>

fun proto :: "string list \<Rightarrow> message list \<Rightarrow> string list option" where
  "proto pend [] = Some pend"
| "proto (i # pend) (m # ms) =
     (if msg_role m = role_tool \<and> msg_tool_call_id m = i then proto pend ms else None)"
| "proto [] (m # ms) = (if msg_role m = role_tool then None
     else proto (if msg_role m = role_assistant then map tc_id (msg_tool_calls m) else []) ms)"

definition protocol_ok :: "message list \<Rightarrow> bool" where
  "protocol_ok ms \<longleftrightarrow> proto [] ms = Some []"

lemma proto_append: "proto p (xs @ ys) = Option.bind (proto p xs) (\<lambda>q. proto q ys)"
  by (induction p xs rule: proto.induct) auto

lemma protocol_ok_text:
  "protocol_ok ms \<Longrightarrow> r \<noteq> role_tool \<Longrightarrow> protocol_ok (ms @ [text_message r s])"
  by (simp add: protocol_ok_def proto_append text_message_def)

lemma proto_answers:
  "map msg_tool_call_id rs = ids \<Longrightarrow> (\<And>r. r \<in> set rs \<Longrightarrow> msg_role r = role_tool) \<Longrightarrow>
   proto (ids @ rest) rs = Some rest"
  by (induction rs arbitrary: ids) auto

lemma protocol_ok_turn:
  assumes "protocol_ok ms" "msg_role m = role_assistant" "map msg_tool_call_id rs = map tc_id (msg_tool_calls m)"
    and "\<And>r. r \<in> set rs \<Longrightarrow> msg_role r = role_tool"
  shows "protocol_ok (ms @ m # rs)"
  using assms(1,2) proto_answers[OF assms(3,4), of "[]"]
  by (simp add: protocol_ok_def proto_append role_defs)

text \<open>A provider that refuses a list of messages out of order before it reads anything else.\<close>

definition strict :: "'w provider \<Rightarrow> 'w provider" where
  "strict p = p\<lparr>complete := (\<lambda>q w. if protocol_ok (cq_messages q) then complete p q w
     else (Inl ''messages out of order'', w)),
   stream_complete := (\<lambda>q w. if protocol_ok (cq_messages q) then stream_complete p q w
     else (([], Inl ''messages out of order''), w))\<rparr>"

section \<open>Factories\<close>

type_synonym 'w factories = "string \<rightharpoonup> (provider_config \<Rightarrow> 'w provider result)"

definition register_factory :: "string \<Rightarrow> (provider_config \<Rightarrow> 'w provider result) \<Rightarrow> 'w factories \<Rightarrow> 'w factories" where
  "register_factory name f m = m(name \<mapsto> f)"

text \<open>\<open>%v\<close> of a slice of strings.\<close>

fun join :: "string \<Rightarrow> string list \<Rightarrow> string" where
  "join sep [] = []"
| "join sep [s] = s"
| "join sep (s # t # ss) = s @ sep @ join sep (t # ss)"

definition show_strings :: "string list \<Rightarrow> string" where
  "show_strings ss = ''['' @ join '' '' ss @ '']''"

definition registered_types :: "string list \<Rightarrow> 'w factories \<Rightarrow> string list" where
  "registered_types ks m = filter (\<lambda>k. m k \<noteq> None) ks"

text \<open>\<open>ks\<close> is the order in which ranging over the table visits its keys.\<close>

definition provider_new :: "string list \<Rightarrow> 'w factories \<Rightarrow> provider_config \<Rightarrow> 'w provider result" where
  "provider_new ks m cfg = (case m (pc_type cfg) of
     None \<Rightarrow> Inl (''unknown provider type: '' @ pc_type cfg @ '' (registered: '' @
       show_strings (registered_types ks m) @ '')'')
   | Some f \<Rightarrow> f cfg)"

interpretation fac: keyed_store register_factory "\<lambda>m k. m k"
  by unfold_locales (simp add: register_factory_def)

lemma provider_new_registered:
  "distinct (map fst fs) \<Longrightarrow> (pc_type cfg, f) \<in> set fs \<Longrightarrow>
   provider_new ks (fac.put_all fs m) cfg = f cfg"
  by (simp add: provider_new_def fac.look_put_all_distinct)

lemma registered_types_order: "map_order m ks \<Longrightarrow> registered_types ks m = ks"
  by (auto simp: registered_types_def map_order_def filter_id_conv)

end
