(* ===== verification/Audit_Tool.thy ===== *)
theory Audit_Tool
  imports Access Tools Provider
begin

text \<open>
  The two tools with which the agent runs the audits of the dashboard (internal/tools/k8s/
  tools_audit.go), and what the dashboard answers them. The table of the audits is an argument: it
  has 2850 rows of a name, a path and a description and no logic.
\<close>

section \<open>The tools\<close>

record audit_endpoint =
  aep_name :: string
  aep_path :: string
  aep_desc :: string

text \<open>
  An HTTP client: the error of building a request, and the answer to a GET, whose body may fail to
  be read. \<open>pretty\<close> decodes a text as an object and indents it.
\<close>

record 'w http_client =
  hc_bad_url :: "string \<Rightarrow> string option"
  hc_get :: "string \<Rightarrow> 'w \<Rightarrow> (string + (int \<times> (string + string))) \<times> 'w"

definition audit_url :: "string \<Rightarrow> string \<Rightarrow> string" where
  "audit_url addr path = ''http://'' @ (if addr = [] then ''localhost:9090'' else addr) @ path"

definition audit_execute :: "audit_endpoint list \<Rightarrow> 'w http_client \<Rightarrow> (string \<Rightarrow> string option) \<Rightarrow> string \<Rightarrow> args \<Rightarrow>
    'w \<Rightarrow> exec_ret \<times> 'w" where
  "audit_execute R H pretty addr args w = (case get_string args ''audit_name'' of
     Inl e \<Rightarrow> (tool_fail e, w)
   | Inr name \<Rightarrow> (case List.find (\<lambda>a. aep_name a = name) R of
       None \<Rightarrow> (tool_fail (''unknown audit: '' @ name @ ''. Use k8s_list_audits to see available options.''), w)
     | Some a \<Rightarrow> (case hc_bad_url H (audit_url addr (aep_path a)) of
         Some e \<Rightarrow> (tool_fail (''failed to create request: '' @ e), w)
       | None \<Rightarrow> (case hc_get H (audit_url addr (aep_path a)) w of
           (Inl e, w1) \<Rightarrow> (tool_fail (''failed to call audit endpoint: '' @ e), w1)
         | (Inr (code, Inl e), w1) \<Rightarrow> (tool_fail (''failed to read response: '' @ e), w1)
         | (Inr (code, Inr body), w1) \<Rightarrow>
             if code \<noteq> 200 then (tool_fail (''audit returned HTTP '' @ show_int code @ '': '' @ body), w1)
             else (tool_ok (''Audit: '' @ name @ '' ('' @ aep_desc a @ '')'' @ newline @ newline @
               (case pretty body of Some s \<Rightarrow> s | None \<Rightarrow> body)), w1)))))"

definition audit_tool :: "audit_endpoint list \<Rightarrow> 'w http_client \<Rightarrow> (string \<Rightarrow> string option) \<Rightarrow> string \<Rightarrow> 'w tool" where
  "audit_tool R H pretty addr = \<lparr>tool_name = ''k8s_run_audit'',
     tool_description = ''Run a cluster audit or analysis tool. Returns structured JSON with findings, scores, and recommendations. '' @
       ''Available audit_name values: '' @ join '', '' (map aep_name R) @ ''. '' @
       ''Use this to quickly get health scores, compliance status, risk analysis, and operational insights without manually inspecting individual resources.'',
     tool_parameters = schema [(''audit_name'', Property ''string'' ''The audit to run (see available values above)''
       (map aep_name R) None None [])]
       [''audit_name''],
     tool_execute = audit_execute R H pretty addr\<rparr>"

definition audit_category :: "string \<Rightarrow> string" where
  "audit_category name =
     (let cat = takeWhile (\<lambda>c. c \<noteq> CHR '':'') name in if cat \<noteq> name \<and> cat \<noteq> [] then cat else ''other'')"

definition list_audits_tool :: "audit_endpoint list \<Rightarrow> (any \<Rightarrow> string) \<Rightarrow> 'w tool" where
  "list_audits_tool R render = \<lparr>tool_name = ''k8s_list_audits'',
     tool_description = ''List all available cluster audit and analysis tools that can be run via k8s_run_audit. '' @
       ''Returns audit names, descriptions, and categories.'',
     tool_parameters = schema [] [],
     tool_execute = (\<lambda>args w. (tool_ok (render (AObject [(''count'', AInt (int (length R))),
       (''audits'', AList (map (\<lambda>a. AObject [(''name'', AString (aep_name a)), (''category'', AString (audit_category (aep_name a))),
         (''description'', AString (aep_desc a))]) R))])), w))\<rparr>"

definition get_audit_endpoint_paths :: "audit_endpoint list \<Rightarrow> string list" where
  "get_audit_endpoint_paths R = map aep_path R"

section \<open>The dashboard as the server\<close>

text \<open>
  The request of the tool has no headers and no cookies. A plain answer is followed by a line break,
  another one is encoded as JSON; \<open>follow\<close> stands for what the client makes of a redirect.
\<close>

definition dashboard_reply :: "(any \<Rightarrow> string) \<Rightarrow> http_resp \<Rightarrow> string" where
  "dashboard_reply enc r = (case resp_body r of AString s \<Rightarrow> s @ newline | v \<Rightarrow> enc v)"

definition plain_get :: "string \<Rightarrow> http_req" where
  "plain_get path = \<lparr>rq_method = ''GET'', rq_path = path, rq_query = (\<lambda>k. []), rq_header = (\<lambda>n. []),
     rq_cookie = (\<lambda>n. None), rq_json = None, rq_raw_query = [], rq_remote_addr = ''127.0.0.1''\<rparr>"

definition dashboard_client :: "(http_req \<Rightarrow> 'd \<Rightarrow> http_resp \<times> 'd) \<Rightarrow> (any \<Rightarrow> string) \<Rightarrow>
    (string \<Rightarrow> 'd \<Rightarrow> (string + (int \<times> (string + string))) \<times> 'd) \<Rightarrow> (string \<Rightarrow> string option) \<Rightarrow> 'd http_client" where
  "dashboard_client server enc follow bad = \<lparr>hc_bad_url = bad,
     hc_get = (\<lambda>url d. case server (plain_get (trim_prefix url ''http://localhost:9090'')) d of
       (r, d1) \<Rightarrow> if resp_location r \<noteq> [] then follow (resp_location r) d1
         else (Inr (resp_code r, Inr (dashboard_reply enc r)), d1))\<rparr>"

section \<open>Properties\<close>

lemma audit_execute_runs:
  assumes "args ''audit_name'' = Some (AString name)" "List.find (\<lambda>a. aep_name a = name) R = Some a"
    and "bad (audit_url [] (aep_path a)) = None"
    and "server (plain_get (aep_path a)) d = (r, d1)" "resp_location r = []" "resp_code r \<noteq> 200"
  shows "audit_execute R (dashboard_client server enc follow bad) pretty ''localhost:9090'' args d =
    (tool_fail (''audit returned HTTP '' @ show_int (resp_code r) @ '': '' @ dashboard_reply enc r), d1)"
proof -
  have "trim_prefix (audit_url ''localhost:9090'' p) ''http://localhost:9090'' = p" "audit_url ''localhost:9090'' p = audit_url [] p" for p
    using trim_prefix_append[of "''http://localhost:9090''" p] by (simp_all add: audit_url_def)
  then show ?thesis
    using assms by (simp add: audit_execute_def get_string_def dashboard_client_def)
qed

lemma show_401: "show_int 401 = ''401''"
  by code_simp

text \<open>C26. No audit works while authentication is on: the tool sends no credentials, so whoever is
  chatting, and whatever the handler would answer, every audit of the table under /api/ is refused by
  the dashboard's own gate; the database and the cluster are left alone.\<close>

theorem audits_refused:
  assumes "args ''audit_name'' = Some (AString name)" "List.find (\<lambda>a. aep_name a = name) R = Some a"
    and "has_prefix (aep_path a) ''/api/''" "\<not> is_public_route (aep_path a)" "bad (audit_url [] (aep_path a)) = None"
  shows "tool_execute (audit_tool R (dashboard_client (serve s (Some A) now rest) enc follow bad) pretty ''localhost:9090'') args d =
    (tool_fail (''audit returned HTTP 401: '' @ json_error ''unauthorized'' @ newline), d)"
proof -
  have "serve s (Some A) now rest (plain_get (aep_path a)) d = (http_error 401 (json_error ''unauthorized''), d)"
    using assms(3,4)
    by (simp add: serve_def auth_middleware_def auth_gate_def turn_away_def plain_get_def is_api_request_def)
  from audit_execute_runs[where server = "serve s (Some A) now rest" and bad = bad and args = args and a = a and R = R and name = name, OF assms(1,2,5) this] show ?thesis
    by (simp add: audit_tool_def http_error_def respond_def dashboard_reply_def show_401)
qed

text \<open>The rows that stand for the table in examples; the path of the second one begins with a space.\<close>

definition hardening_row :: audit_endpoint where
  "hardening_row = \<lparr>aep_name = ''security:hardening-score'', aep_path = ''/api/security/hardening-score'',
     aep_desc = ''Comprehensive security hardening posture score''\<rparr>"

definition secret_rotation_row :: audit_endpoint where
  "secret_rotation_row = \<lparr>aep_name = ''security:secret-rotation'', aep_path = '' /api/security/secret-rotation-v2'',
     aep_desc = ''Secret rotation compliance & staleness tracker''\<rparr>"

theorem audits_refused_witness:
  "tool_execute (audit_tool [secret_rotation_row, hardening_row]
      (dashboard_client (serve demo_server (Some (demo_gate [])) 0 (\<lambda>user rcs rq c. (silent, c))) (\<lambda>v. [])
        (\<lambda>url c. (Inl [], c)) (\<lambda>url. None)) (\<lambda>s. None) ''localhost:9090'')
      [''audit_name'' \<mapsto> AString ''security:hardening-score''] (demo_at (demo_plan ''Pending'' True [])) =
    (tool_fail (''audit returned HTTP 401: '' @ json_error ''unauthorized'' @ newline), demo_at (demo_plan ''Pending'' True []))"
proof (rule audits_refused)
  show "List.find (\<lambda>a. aep_name a = ''security:hardening-score'') [secret_rotation_row, hardening_row] = Some hardening_row"
    by (simp add: secret_rotation_row_def hardening_row_def)
  show "has_prefix (aep_path hardening_row) ''/api/''" "\<not> is_public_route (aep_path hardening_row)"
    by code_simp+
qed simp_all

text \<open>A host name with a space is not a URL, so the audit of the second row cannot even be asked for.\<close>

lemma secret_rotation_unreachable:
  assumes "\<And>host path. CHR '' '' \<in> set host \<Longrightarrow> CHR ''/'' \<notin> set host \<Longrightarrow> hc_bad_url H (''http://'' @ host @ CHR ''/'' # path) \<noteq> None"
    and "args ''audit_name'' = Some (AString ''security:secret-rotation'')"
    and "List.find (\<lambda>a. aep_name a = ''security:secret-rotation'') R = Some secret_rotation_row"
  shows "\<exists>e. audit_execute R H pretty ''localhost:9090'' args w = (tool_fail (''failed to create request: '' @ e), w)"
proof -
  have "hc_bad_url H (''http://'' @ ''localhost:9090 '' @ CHR ''/'' # ''api/security/secret-rotation-v2'') \<noteq> None"
    by (rule assms(1)) simp_all
  then show ?thesis
    using assms(2,3) by (auto simp: audit_execute_def get_string_def audit_url_def secret_rotation_row_def)
qed

end
