(* ===== verification/Analysis.thy ===== *)
theory Analysis
  imports Http Token_Bucket "HOL-Library.Multiset"
begin

text \<open>
  What the analyses of the dashboard share: pieces of their texts, counting, percentages, the system
  namespaces (handlers_security.go) and the sorting of results. \<open>sort.Slice\<close> with a comparison is a parameter,
  of which the lemmas use that it permutes.
\<close>

definition em_dash :: string where "em_dash = [CHR 0xE2, CHR 0x80, CHR 0x94]"

text \<open>An entry that is appended when a condition holds.\<close>

definition entry_if :: "bool \<Rightarrow> 'a \<Rightarrow> 'a list" where
  "entry_if b x = (if b then [x] else [])"

definition how_many :: "('a \<Rightarrow> bool) \<Rightarrow> 'a list \<Rightarrow> nat" where
  "how_many P xs = length (filter P xs)"

definition is_system_namespace :: "string \<Rightarrow> bool" where
  "is_system_namespace ns \<longleftrightarrow> ns \<in> set [''kube-system'', ''kube-public'', ''kube-node-lease'']"

text \<open>A list that could not be read is left out.\<close>

definition listed :: "'e + 'a list \<Rightarrow> 'a list" where
  "listed r = (case r of Inl e \<Rightarrow> [] | Inr xs \<Rightarrow> xs)"

text \<open>Ages (handlers_resources.go).\<close>

definition age_time :: "time \<Rightarrow> time \<Rightarrow> string" where
  "age_time now t =
     (let d = time_sub now t in
      if d < minute then show_int (int64_of_f64 (dur_seconds d)) @ ''s''
      else if d < 60 * minute then show_int (int64_of_f64 (dur_minutes d)) @ ''m''
      else if d < 24 * (60 * minute) then show_int (int64_of_f64 (dur_hours d)) @ ''h''
      else show_int (int64_of_f64 (f64_div (dur_hours d) 24)) @ ''d'')"

type_synonym 'a slice_sort = "('a \<Rightarrow> 'a \<Rightarrow> bool) \<Rightarrow> 'a list \<Rightarrow> 'a list"

definition permuting :: "'a slice_sort \<Rightarrow> bool" where
  "permuting srt \<longleftrightarrow> (\<forall>before xs. mset (srt before xs) = mset xs)"

lemma entry_if_simps [simp]: "entry_if True x = [x]" "entry_if False x = []"
  by (simp_all add: entry_if_def)

lemma entry_if_Nil [simp]: "entry_if b x = [] \<longleftrightarrow> \<not> b"
  by (simp add: entry_if_def)

lemma set_entry_if [simp]: "set (entry_if b x) = (if b then {x} else {})"
  by (cases b) simp_all

lemma how_many_le: "how_many P xs \<le> length xs"
  by (simp add: how_many_def)

lemma how_many_disjoint:
  "(\<And>x. x \<in> set xs \<Longrightarrow> \<not> (P x \<and> Q x)) \<Longrightarrow> how_many P xs + how_many Q xs \<le> length xs"
  by (induction xs) (auto simp: how_many_def)

lemma how_many_none [simp]: "how_many (\<lambda>x. False) xs = 0" "how_many (\<lambda>x. True) xs = length xs"
  by (simp_all add: how_many_def)

lemma permuting_set: "permuting srt \<Longrightarrow> set (srt before xs) = set xs"
  unfolding permuting_def by (metis set_mset_mset)

lemma permuting_sum: "permuting srt \<Longrightarrow> sum_list (map f (srt before xs)) = (sum_list (map f xs) :: nat)"
  unfolding permuting_def by (metis mset_map sum_mset_sum_list)

lemma permuting_many: "permuting srt \<Longrightarrow> how_many P (srt before xs) = how_many P xs"
  unfolding permuting_def how_many_def by (metis mset_filter size_mset)

lemma permuting_length [simp]: "permuting srt \<Longrightarrow> length (srt before xs) = length xs"
  unfolding permuting_def by (metis size_mset)

lemma how_many_map: "how_many P (map f xs) = how_many (\<lambda>x. P (f x)) xs"
  by (simp add: how_many_def filter_map comp_def)

lemma how_many_cong: "(\<And>x. x \<in> set xs \<Longrightarrow> P x \<longleftrightarrow> Q x) \<Longrightarrow> how_many P xs = how_many Q xs"
  unfolding how_many_def by (metis filter_cong)

lemma how_many_or: "(\<And>x. \<not> (P x \<and> Q x)) \<Longrightarrow> how_many (\<lambda>x. P x \<or> Q x) xs = how_many P xs + how_many Q xs"
  by (induction xs) (auto simp: how_many_def)

lemma permuting_Nil [simp]: "permuting srt \<Longrightarrow> srt before [] = []"
  using permuting_set[of srt before "[]"] by simp

lemma permuting_id [simp]: "permuting (\<lambda>before xs. xs)"
  by (simp add: permuting_def)

section \<open>Percentages\<close>

text \<open>\<open>int(float64(part) / float64(whole) * weight)\<close>\<close>

definition ratio_points :: "nat \<Rightarrow> nat \<Rightarrow> int \<Rightarrow> int" where
  "ratio_points part whole weight =
     int64_of_f64 (f64_mul (f64_div (f64_of_int (int part)) (f64_of_int (int whole))) (of_int weight))"

text \<open>\<open>float64(part) / float64(whole) * 100\<close>\<close>

definition percent_of :: "int \<Rightarrow> int \<Rightarrow> rat" where
  "percent_of part whole = f64_mul (f64_div (f64_of_int part) (f64_of_int whole)) 100"

text \<open>The two roundings keep the points between 0 and the weight and near the exact value, for up to \<open>2 ^ 30\<close> items.\<close>

lemma ratio_rounding:
  assumes "part \<le> whole" "0 < whole" "whole \<le> 2 ^ 30" "0 \<le> w" "w \<le> 2 ^ 53"
  defines "q \<equiv> f64 (of_nat part / of_nat whole)"
  shows "0 \<le> f64 (q * of_int w) \<and> f64 (q * of_int w) \<le> of_int w"
    and "f64 (q * of_int w) \<le> of_nat part / of_nat whole * of_int w * (1 + 1 / 2 ^ 53) ^ 2"
proof -
  let ?r = "of_nat part / of_nat whole :: rat"
  have r: "0 \<le> ?r" "?r \<le> 1" using assms by auto
  have q: "0 \<le> q" "q \<le> 1" using f64_nonneg[OF r(1)] f64_mono[OF r] f64_int[of 1] by (simp_all add: q_def)
  have w: "0 \<le> q * of_int w" "q * of_int w \<le> of_int w" using q assms(4) by (auto simp: mult_left_le_one_le)
  show "0 \<le> f64 (q * of_int w) \<and> f64 (q * of_int w) \<le> of_int w"
    using f64_nonneg[OF w(1)] f64_mono[OF w] f64_int[OF assms(4,5)] by simp
  show "f64 (q * of_int w) \<le> ?r * of_int w * (1 + 1 / 2 ^ 53) ^ 2"
  proof (cases "part = 0 \<or> w = 0")
    case True
    then show ?thesis by (auto simp: q_def)
  next
    case False
    have two: "2 powi (- 1022) \<le> (2 :: rat) powi (- 30)" by (intro two_powi_mono) simp
    have "(of_nat whole :: rat) \<le> of_nat (2 ^ 30)" using assms(3) of_nat_le_iff by blast
    moreover have "(1 :: rat) \<le> of_nat part" using False by simp
    ultimately have lo: "2 powi (- 30) \<le> ?r" using assms(2) by (simp add: power_int_def field_simps)
    have "f64 (of_int 1 * 2 powi (- 30)) = of_int 1 * 2 powi (- 30)" by (intro f64_dyadic) auto
    then have "2 powi (- 30) \<le> q" using f64_mono[OF _ lo] by (simp add: q_def)
    moreover have "q * 1 \<le> q * of_int w" using q False assms(4) by (intro mult_left_mono) auto
    ultimately have "f64 (q * of_int w) \<le> q * of_int w * (1 + 1 / 2 ^ 53)" using two by (intro f64_upper) linarith
    also have "q \<le> ?r * (1 + 1 / 2 ^ 53)" unfolding q_def using two lo by (intro f64_upper) linarith
    then have "q * of_int w * (1 + 1 / 2 ^ 53) \<le> ?r * (1 + 1 / 2 ^ 53) * of_int w * (1 + 1 / 2 ^ 53)"
      using assms(4) by (intro mult_right_mono) auto
    finally show ?thesis by (simp add: power2_eq_square mult.assoc mult.left_commute)
  qed
qed

lemma ratio_points_floor:
  assumes "part \<le> whole" "0 < whole" "whole \<le> 2 ^ 30" "0 \<le> w" "w \<le> 2 ^ 53"
  shows "ratio_points part whole w = \<lfloor>f64 (f64 (of_nat part / of_nat whole) * of_int w)\<rfloor>"
proof -
  have n: "f64_of_int (int part) = of_nat part" "f64_of_int (int whole) = of_nat whole"
    using assms f64_of_int_exact[of "int part"] f64_of_int_exact[of "int whole"] by simp_all
  have b: "0 \<le> f64 (f64 (of_nat part / of_nat whole) * of_int w)" "f64 (f64 (of_nat part / of_nat whole) * of_int w) \<le> of_int w"
    using ratio_rounding(1)[OF assms] by auto
  have mx: "w \<le> max_int64" using assms(5) by (simp add: max_int64_def)
  have "\<lfloor>f64 (f64 (of_nat part / of_nat whole) * of_int w)\<rfloor> \<le> w" using b(2) by (simp add: floor_le_iff; linarith)
  then have "\<lfloor>f64 (f64 (of_nat part / of_nat whole) * of_int w)\<rfloor> \<le> max_int64" using mx by linarith
  then show ?thesis unfolding ratio_points_def n f64_mul_def f64_div_def using b(1) by (intro int64_of_f64_floor)
qed

lemma ratio_points_bounds:
  assumes "part \<le> whole" "0 < whole" "whole \<le> 2 ^ 30" "0 \<le> w" "w \<le> 2 ^ 53"
  shows "0 \<le> ratio_points part whole w" "ratio_points part whole w \<le> w"
    and "of_int (ratio_points part whole w) \<le> (of_nat part / of_nat whole * of_int w * (1 + 1 / 2 ^ 53) ^ 2 :: rat)"
proof -
  note f = ratio_points_floor[OF assms] and r = ratio_rounding[OF assms]
  show "0 \<le> ratio_points part whole w" using r(1) by (simp add: f)
  show "ratio_points part whole w \<le> w" using r(1) unfolding f by (simp add: floor_le_iff; linarith)
  show "of_int (ratio_points part whole w) \<le> (of_nat part / of_nat whole * of_int w * (1 + 1 / 2 ^ 53) ^ 2 :: rat)"
    using r(2) of_int_floor_le unfolding f by (rule order_trans[rotated])
qed

lemma ratio_points_all: "0 < n \<Longrightarrow> n \<le> 2 ^ 30 \<Longrightarrow> 0 \<le> w \<Longrightarrow> w \<le> 2 ^ 53 \<Longrightarrow> ratio_points n n w = w"
  using f64_int[of 1] f64_int[of w] by (simp add: ratio_points_floor)

lemma ratio_points_none: "ratio_points 0 n w = 0"
  by (simp add: ratio_points_def f64_mul_def f64_div_def f64_of_int_def int64_of_f64_def min_int64_def max_int64_def)

end
