(* ===== verification/Blast_Radius.thy ===== *)
theory Blast_Radius
  imports Analysis
begin

text \<open>
  The attack surface of pods (internal/dashboard/handlers_blast_radius.go): vectors and a score per pod, the figures of the
  namespaces, the heat map, the counts of vectors, the score of the cluster and recommendations. The order in
  which Go yields its maps and that of \<open>sort.Slice\<close> are parameters.
\<close>

section \<open>Pods\<close>

text \<open>Of a container its security context: privileged, escalation, non-root, the user and the added capabilities.\<close>

record blast_context =
  sx_privileged :: "bool option"
  sx_escalation :: "bool option"
  sx_non_root :: "bool option"
  sx_user :: "int option"
  sx_added :: "string list"

datatype blast_source = SecretSource | TokenSource | OtherSource

text \<open>A volume: the path of the host, whether it is a secret, and the sources when it is projected.\<close>

record blast_volume =
  bv_host_path :: "string option"
  bv_secret :: bool
  bv_sources :: "blast_source list"

record blast_pod =
  bp_namespace :: string
  bp_name :: string
  bp_phase :: string
  bp_host_network :: bool
  bp_host_pid :: bool
  bp_host_ipc :: bool
  bp_contexts :: "blast_context option list"
  bp_volumes :: "blast_volume list"
  bp_account :: string

section \<open>The score of a pod\<close>

text \<open>Points and vectors that are found, in their order.\<close>

type_synonym finds = "(int \<times> string) list"

definition host_finds :: "blast_pod \<Rightarrow> finds" where
  "host_finds p = entry_if (bp_host_network p) (30, ''hostNetwork'') @ entry_if (bp_host_pid p) (25, ''hostPID'') @
     entry_if (bp_host_ipc p) (20, ''hostIPC'')"

definition capability_finds :: "string \<Rightarrow> finds" where
  "capability_finds c = (let l = to_lower c in
     if l = ''sys_admin'' then [(25, ''CAP_SYS_ADMIN'')] else if l = ''net_admin'' then [(15, ''CAP_NET_ADMIN'')]
     else if l = ''all'' then [(20, ''CAP_ALL'')] else [])"

definition runs_as_root :: "blast_context \<Rightarrow> bool" where
  "runs_as_root x \<longleftrightarrow> sx_non_root x \<noteq> Some True \<and> (sx_user x = None \<or> sx_user x = Some 0)"

definition context_finds :: "blast_context option \<Rightarrow> finds" where
  "context_finds c = (case c of None \<Rightarrow> [] | Some x \<Rightarrow>
     entry_if (sx_privileged x = Some True) (40, ''privileged'') @
     entry_if (sx_escalation x = Some True) (15, ''allowPrivilegeEscalation'') @
     entry_if (runs_as_root x) (10, ''runsAsRoot'') @ concat (map capability_finds (sx_added x)))"

definition runtime_path :: "string \<Rightarrow> bool" where
  "runtime_path s \<longleftrightarrow> has_prefix s ''/'' \<and> (contains s ''docker'' \<or> contains s ''containerd'' \<or> contains s ''/var/run'')"

text \<open>Of the volumes: the score, the vectors and the number of secrets so far.\<close>

definition add_volume :: "blast_volume \<Rightarrow> int \<times> string list \<times> nat \<Rightarrow> int \<times> string list \<times> nat" where
  "add_volume v = (\<lambda>(score, vs, secrets).
     let (score1, vs1) = (case bv_host_path v of None \<Rightarrow> (score, vs)
       | Some path \<Rightarrow> let vs0 = (if ''hostPath'' \<in> set vs then vs else vs @ [''hostPath'']) in
           if runtime_path path then (score + 25, vs0 @ [''hostPath:containerRuntime'']) else (score + 15, vs0))
     in (score1 + 3 * int (how_many (\<lambda>s. s = TokenSource) (bv_sources v)), vs1,
         secrets + (if bv_secret v then 1 else 0) + how_many (\<lambda>s. s = SecretSource) (bv_sources v)))"

record blast_entry =
  bx_namespace :: string
  bx_pod :: string
  bx_score :: int
  bx_level :: string
  bx_vectors :: "string list"
  bx_account :: string
  bx_host :: string
  bx_secrets :: nat

definition risk_level :: "int \<Rightarrow> string" where
  "risk_level n = (if 70 \<le> n then ''critical'' else if 40 \<le> n then ''high'' else if 15 \<le> n then ''medium'' else ''low'')"

definition host_access :: "blast_pod \<Rightarrow> string" where
  "host_access p = (if bp_host_network p then ''network'' else ''none'') @ (if bp_host_pid p then ''+pid'' else [])"

definition pod_finds :: "blast_pod \<Rightarrow> finds" where
  "pod_finds p = host_finds p @ concat (map context_finds (bp_contexts p))"

definition blast_entry_of :: "blast_pod \<Rightarrow> blast_entry" where
  "blast_entry_of p = (let fs = pod_finds p;
       (score, vs, secrets) = fold add_volume (bp_volumes p) (sum_list (map fst fs), map snd fs, 0);
       (score1, vs1) = (if 3 < secrets then (score + 5, vs @ [''manySecrets'']) else (score, vs));
       capped = (if 100 < score1 then 100 else score1)
     in \<lparr>bx_namespace = bp_namespace p, bx_pod = bp_name p, bx_score = capped, bx_level = risk_level capped, bx_vectors = vs1,
         bx_account = bp_account p, bx_host = host_access p, bx_secrets = secrets\<rparr>)"

section \<open>The figures\<close>

record blast_summary =
  bg_pods :: nat
  bg_critical :: nat
  bg_high :: nat
  bg_medium :: nat
  bg_low :: nat
  bg_privileged :: nat
  bg_host_network :: nat
  bg_host_pid :: nat
  bg_host_path :: nat
  bg_host_ipc :: nat
  bg_escalation :: nat

definition looked_at :: "blast_pod \<Rightarrow> bool" where
  "looked_at p \<longleftrightarrow> bp_namespace p \<noteq> ''kube-system'' \<and> bp_namespace p \<noteq> ''k8ops-system'' \<and> bp_phase p = ''Running''"

text \<open>Containers are counted for privileged and escalation, volumes for host paths.\<close>

definition contexts_of :: "blast_pod list \<Rightarrow> blast_context list" where
  "contexts_of ps = concat (map (\<lambda>p. List.map_filter (\<lambda>c. c) (bp_contexts p)) ps)"

definition blast_summary_of :: "blast_pod list \<Rightarrow> blast_summary" where
  "blast_summary_of ps = (let es = map blast_entry_of ps; level = (\<lambda>l. how_many (\<lambda>e. bx_level e = l) es) in
     \<lparr>bg_pods = length ps, bg_critical = level ''critical'', bg_high = level ''high'', bg_medium = level ''medium'', bg_low = level ''low'',
      bg_privileged = how_many (\<lambda>x. sx_privileged x = Some True) (contexts_of ps), bg_host_network = how_many bp_host_network ps,
      bg_host_pid = how_many bp_host_pid ps, bg_host_path = how_many (\<lambda>v. bv_host_path v \<noteq> None) (concat (map bp_volumes ps)),
      bg_host_ipc = how_many bp_host_ipc ps, bg_escalation = how_many (\<lambda>x. sx_escalation x = Some True) (contexts_of ps)\<rparr>)"

record attack_vector =
  av_vector :: string
  av_count :: nat
  av_severity :: string
  av_mitigation :: string

definition vector_severity :: "string \<Rightarrow> string" where
  "vector_severity v =
     (if v \<in> set [''privileged'', ''CAP_SYS_ADMIN'', ''hostPath:containerRuntime''] then ''critical''
      else if v \<in> set [''hostNetwork'', ''hostPID'', ''CAP_ALL''] then ''high''
      else if v \<in> set [''hostIPC'', ''hostPath'', ''CAP_NET_ADMIN'', ''allowPrivilegeEscalation''] then ''medium'' else ''low'')"

definition mitigations :: "(string \<times> string) list" where
  "mitigations = [(''privileged'', ''Remove privileged: true; use specific capabilities instead''),
     (''hostNetwork'', ''Use ClusterIP service or hostPorts instead of hostNetwork''),
     (''hostPID'', ''Avoid hostPID; use pod-level process isolation''),
     (''hostIPC'', ''Avoid hostIPC; use shared volumes for IPC instead''),
     (''hostPath'', ''Replace hostPath with PVC, projected volume, or typed CSI driver''),
     (''hostPath:containerRuntime'', ''Remove container runtime socket mount; use API-based access''),
     (''CAP_SYS_ADMIN'', ''Remove CAP_SYS_ADMIN; it grants near-root access''),
     (''CAP_NET_ADMIN'', ''Remove CAP_NET_ADMIN unless doing network configuration''),
     (''CAP_ALL'', ''Remove CAP_ALL; add only specific needed capabilities''),
     (''allowPrivilegeEscalation'', ''Set allowPrivilegeEscalation: false''),
     (''runsAsRoot'', ''Set runAsNonRoot: true and use non-zero UID''), (''runAsRoot'', ''Set runAsNonRoot: true and use non-zero UID''),
     (''manySecrets'', ''Reduce number of mounted secrets; use IRSA/workload identity'')]"

definition vector_mitigation :: "string \<Rightarrow> string" where
  "vector_mitigation v = (case map_of mitigations v of Some s \<Rightarrow> s | None \<Rightarrow> ''Review and tighten security context'')"

definition attack_vector_of :: "blast_entry list \<Rightarrow> string \<Rightarrow> attack_vector" where
  "attack_vector_of es v = \<lparr>av_vector = v, av_count = count_list (concat (map bx_vectors es)) v, av_severity = vector_severity v,
     av_mitigation = vector_mitigation v\<rparr>"

record blast_ns =
  bn_namespace :: string
  bn_pods :: nat
  bn_avg :: int
  bn_max :: int
  bn_high :: nat

definition grave :: "blast_entry \<Rightarrow> bool" where
  "grave e \<longleftrightarrow> bx_level e = ''high'' \<or> bx_level e = ''critical''"

definition blast_ns_of :: "blast_entry list \<Rightarrow> string \<Rightarrow> blast_ns" where
  "blast_ns_of es ns = (let xs = filter (\<lambda>e. bx_namespace e = ns) es in
     \<lparr>bn_namespace = ns, bn_pods = length xs, bn_avg = sum_list (map bx_score xs) div int (length xs),
      bn_max = fold (\<lambda>e m. if m < bx_score e then bx_score e else m) xs 0, bn_high = how_many grave xs\<rparr>)"

record heat_entry =
  ht_range :: string
  ht_count :: nat
  ht_level :: string

definition heat_map :: "blast_entry list \<Rightarrow> heat_entry list" where
  "heat_map es = map (\<lambda>(r, lo, hi, l). \<lparr>ht_range = r, ht_count = how_many (\<lambda>e. lo \<le> bx_score e \<and> bx_score e < hi) es, ht_level = l\<rparr>)
     [(''0-14 (low)'', min_int64, 15, ''low''), (''15-39 (medium)'', 15, 40, ''medium''), (''40-69 (high)'', 40, 70, ''high''),
      (''70-100 (critical)'', 70, max_int64, ''critical'')]"

definition blast_score :: "nat \<Rightarrow> nat \<Rightarrow> int" where
  "blast_score critical high = (let s = 100 - int critical * 5 - int high * 3 in if s < 0 then 0 else s)"

definition blast_status :: "int \<Rightarrow> string" where
  "blast_status n = (if n < 50 then ''critical'' else if n < 80 then ''warning'' else ''healthy'')"

definition blast_recs :: "blast_summary \<Rightarrow> string list" where
  "blast_recs s = (let recs =
     entry_if (0 < bg_privileged s) (show_nat (bg_privileged s) @ '' privileged pod(s); remove privileged flag or use targeted capabilities'') @
     entry_if (0 < bg_host_network s \<or> 0 < bg_host_pid s) (show_nat (bg_host_network s + bg_host_pid s + bg_host_ipc s) @
       '' pod(s) with hostNetwork/hostPID/hostIPC access; restrict to system components only'') @
     entry_if (0 < bg_host_path s) (show_nat (bg_host_path s) @ '' pod(s) with hostPath mounts; use projected volumes or typed CSI drivers instead'') @
     entry_if (0 < bg_critical s) (show_nat (bg_critical s) @ '' critical-risk pod(s) identified; prioritize remediation'')
   in if recs = [] then [''Workload attack surface looks well-contained; no critical blast radius risks detected''] else recs)"

record blast_env =
  by_ns :: "string list \<Rightarrow> string list"
  by_vectors :: "string list \<Rightarrow> string list"
  by_sort_entries :: "blast_entry slice_sort"
  by_sort_ns :: "blast_ns slice_sort"
  by_sort_vectors :: "attack_vector slice_sort"

record blast_result =
  br_score :: int
  br_status :: string
  br_summary :: blast_summary
  br_high_risk :: "blast_entry list"
  br_namespaces :: "blast_ns list"
  br_heat :: "heat_entry list"
  br_vectors :: "attack_vector list"
  br_recs :: "string list"

definition analyze_blast_radius :: "blast_env \<Rightarrow> blast_pod list \<Rightarrow> blast_result" where
  "analyze_blast_radius E pods = (let ps = filter looked_at pods; es = map blast_entry_of ps; s = blast_summary_of ps;
       score = blast_score (bg_critical s) (bg_high s)
     in \<lparr>br_score = score, br_status = blast_status score, br_summary = s,
         br_high_risk = take 50 (filter grave (by_sort_entries E (\<lambda>a b. bx_score b < bx_score a) es)),
         br_namespaces = by_sort_ns E (\<lambda>a b. bn_max b < bn_max a) (map (blast_ns_of es) (by_ns E (remdups (map bx_namespace es)))),
         br_heat = heat_map es,
         br_vectors = by_sort_vectors E (\<lambda>a b. av_count b < av_count a) (map (attack_vector_of es) (by_vectors E (remdups (concat (map bx_vectors es))))),
         br_recs = blast_recs s\<rparr>)"

definition handle_blast_radius :: "blast_env \<Rightarrow> ('d \<Rightarrow> string + blast_pod list) option \<Rightarrow> 'd \<Rightarrow> http_resp + blast_result" where
  "handle_blast_radius E client d = (case client of
     None \<Rightarrow> Inl (write_error 503 ''kubernetes client not available'')
   | Some pods \<Rightarrow> (case pods d of
       Inl e \<Rightarrow> Inl (write_error 500 (''failed to list pods: '' @ e))
     | Inr ps \<Rightarrow> Inr (analyze_blast_radius E ps)))"

section \<open>Lemmas\<close>

text \<open>Points are never negative, so that the score of a pod is between 0 and 100 and its level that of its place in the heat map.\<close>

lemma capability_nonneg: "x \<in> set (capability_finds c) \<Longrightarrow> 0 \<le> fst x"
  by (auto simp: capability_finds_def Let_def split: if_splits)

lemma context_nonneg: "x \<in> set (context_finds c) \<Longrightarrow> 0 \<le> fst x"
  by (cases c) (auto simp: context_finds_def entry_if_def capability_nonneg split: if_splits)

lemma host_nonneg: "x \<in> set (host_finds p) \<Longrightarrow> 0 \<le> fst x"
  by (auto simp: host_finds_def entry_if_def split: if_splits)

lemma points_nonneg: "x \<in> set (pod_finds p) \<Longrightarrow> 0 \<le> fst x"
  by (auto simp: pod_finds_def host_nonneg context_nonneg simp del: split_paired_All)

lemma add_volume_nonneg: "0 \<le> fst s \<Longrightarrow> 0 \<le> fst (add_volume v s)"
  by (cases s) (auto simp: add_volume_def Let_def split: option.split)

lemma volumes_nonneg: "0 \<le> fst s \<Longrightarrow> 0 \<le> fst (fold add_volume vs s)"
  by (induction vs arbitrary: s) (simp_all add: add_volume_nonneg)

lemma blast_entry_score:
  "0 \<le> bx_score (blast_entry_of p) \<and> bx_score (blast_entry_of p) \<le> 100 \<and> bx_level (blast_entry_of p) = risk_level (bx_score (blast_entry_of p))"
proof -
  have "0 \<le> sum_list (map fst (pod_finds p))" by (rule sum_list_nonneg) (use points_nonneg in auto)
  then have "0 \<le> fst (fold add_volume (bp_volumes p) (sum_list (map fst (pod_finds p)), map snd (pod_finds p), 0))" by (intro volumes_nonneg) simp
  then show ?thesis by (auto simp: blast_entry_of_def Let_def split: prod.split)
qed

theorem heat_map_levels:
  "map ht_count (br_heat (analyze_blast_radius E pods)) =
     (let s = br_summary (analyze_blast_radius E pods) in [bg_low s, bg_medium s, bg_high s, bg_critical s])"
proof -
  have "how_many (\<lambda>e. lo \<le> bx_score e \<and> bx_score e < hi) (map blast_entry_of ps) = how_many (\<lambda>e. bx_level e = l) (map blast_entry_of ps)"
    if "\<And>n. 0 \<le> n \<Longrightarrow> n \<le> 100 \<Longrightarrow> (lo \<le> n \<and> n < hi) \<longleftrightarrow> risk_level n = l" for lo hi l ps
    unfolding how_many_map by (intro how_many_cong) (use that blast_entry_score in auto)
  then show ?thesis
    by (simp add: analyze_blast_radius_def Let_def heat_map_def blast_summary_of_def risk_level_def min_int64_def max_int64_def)
qed

text \<open>
  A container without a security context of its own is given no points, although it runs as root unless its image or the pod says
  otherwise: a pod without contexts and volumes, on its own network, is at no risk.\<close>

theorem default_containers_unseen:
  assumes "set (bp_contexts p) \<subseteq> {None}" "bp_volumes p = []" "\<not> bp_host_network p" "\<not> bp_host_pid p" "\<not> bp_host_ipc p"
  shows "bx_score (blast_entry_of p) = 0 \<and> bx_vectors (blast_entry_of p) = []"
proof -
  have "concat (map context_finds (bp_contexts p)) = []" using assms(1) by (auto simp: context_finds_def)
  then have "pod_finds p = []" using assms(3-5) by (simp add: pod_finds_def host_finds_def)
  then show ?thesis using assms(2) by (simp add: blast_entry_of_def Let_def)
qed

end
