(* ===== verification/Memory.thy ===== *)
theory Memory
  imports Provider
begin

text \<open>
  Package \<open>memory\<close> (internal/memory/conversation.go): a conversation with automatic context
  compression.

  Every method holds the conversation's lock, so each is one step on its state; the exception is
  \<open>compress\<close>, which gives the lock up during the call to the model. It is modelled as two steps,
  \<open>compress_begin\<close> and \<open>compress_end\<close>, between which other methods may run.
\<close>

record memory_item =
  mi_type :: string
  mi_content :: string
  mi_timestamp :: string

record 'w conversation =
  cv_id :: string
  cv_provider :: "'w provider"
  cv_messages :: "message list"
  cv_token_estimate :: int
  cv_max_tokens :: int
  cv_keep_recent :: int
  cv_memory :: "memory_item list"
  cv_created_at :: time
  cv_updated_at :: time

definition estimate_tokens :: "string \<Rightarrow> int" where
  "estimate_tokens s = int (length s div 4)"

definition estimate_messages_tokens :: "message list \<Rightarrow> int" where
  "estimate_messages_tokens ms = sum_list (map (\<lambda>m. estimate_tokens (msg_content m)) ms)"

definition new_conversation :: "time \<Rightarrow> string \<Rightarrow> 'w provider \<Rightarrow> string \<Rightarrow> 'w conversation" where
  "new_conversation now cid p system_prompt = \<lparr>cv_id = cid, cv_provider = p,
     cv_messages = [text_message role_system system_prompt], cv_token_estimate = 0,
     cv_max_tokens = 20000, cv_keep_recent = 8, cv_memory = [], cv_created_at = now, cv_updated_at = now\<rparr>"

definition add_message :: "time \<Rightarrow> message \<Rightarrow> 'w conversation \<Rightarrow> 'w conversation" where
  "add_message now m c = c\<lparr>cv_messages := cv_messages c @ [m],
     cv_token_estimate := cv_token_estimate c + estimate_tokens (msg_content m), cv_updated_at := now\<rparr>"

definition add_user_message :: "time \<Rightarrow> string \<Rightarrow> 'w conversation \<Rightarrow> 'w conversation" where
  "add_user_message now content = add_message now (text_message role_user content)"

definition add_assistant_message :: "time \<Rightarrow> message \<Rightarrow> 'w conversation \<Rightarrow> 'w conversation" where
  "add_assistant_message now m = add_message now m"

definition add_tool_result :: "time \<Rightarrow> string \<Rightarrow> string \<Rightarrow> 'w conversation \<Rightarrow> 'w conversation" where
  "add_tool_result now call_id content = add_message now (tool_message call_id content)"

definition add_memory :: "string \<Rightarrow> string \<Rightarrow> string \<Rightarrow> 'w conversation \<Rightarrow> 'w conversation" where
  "add_memory stamp ty content c = c\<lparr>cv_memory := cv_memory c @
     [\<lparr>mi_type = ty, mi_content = content, mi_timestamp = stamp\<rparr>]\<rparr>"

section \<open>Compression\<close>

definition needs_compression :: "'w conversation \<Rightarrow> bool" where
  "needs_compression c \<longleftrightarrow> cv_max_tokens c < cv_token_estimate c \<and>
     cv_keep_recent c + 1 < int (length (cv_messages c))"

definition nl :: "string \<Rightarrow> string" where "nl s = s @ newline"

definition summarizer_instructions :: string where
  "summarizer_instructions =
     nl ''You are a conversation summarizer. Summarize the following conversation history into:'' @
     nl ''1. Key findings and diagnoses (as bullet points)'' @
     nl ''2. Actions taken and their results'' @
     nl (nl ''3. Important context that should be remembered'') @
     nl (nl ''Be concise but preserve all critical technical details (pod names, error messages, IPs).'') @
     nl (nl ''--- CONVERSATION HISTORY ---'')"

definition quote_message :: "message \<Rightarrow> string" where
  "quote_message m =
     nl (nl (''['' @ msg_role m @ '']: '' @
       (if 500 < length (msg_content m) then take 500 (msg_content m) @ ''...'' else msg_content m))) @
     concat (map (\<lambda>tc. nl (''  -> Called tool: '' @ tc_name tc @ ''('' @ tc_arguments tc @ '')'')) (msg_tool_calls m))"

definition compression_prompt :: "message list \<Rightarrow> string" where
  "compression_prompt ms = summarizer_instructions @ concat (map quote_message ms)"

text \<open>What \<open>compress\<close> keeps in local variables while the lock is free.\<close>

record compression =
  cm_system :: message
  cm_count :: nat
  cm_recent :: "message list"
  cm_prompt :: string

definition compress_begin :: "'w conversation \<Rightarrow> compression option" where
  "compress_begin c =
     (let total = length (cv_messages c) - 1 in
      if int total \<le> cv_keep_recent c then None
      else let n = total - nat (cv_keep_recent c) in
        Some \<lparr>cm_system = hd (cv_messages c), cm_count = n,
          cm_recent = drop (1 + n) (cv_messages c),
          cm_prompt = compression_prompt (take n (drop 1 (cv_messages c)))\<rparr>)"

definition summary_message :: "nat \<Rightarrow> string \<Rightarrow> message" where
  "summary_message n summary = text_message role_system
     (nl (''[COMPRESSED CONTEXT - '' @ show_int (int n) @ '' messages compressed]'') @
      nl ''Previous conversation summary:'' @ nl summary @
      ''--- End of compressed context. Continue from here. ---'')"

definition compress_end :: "time \<Rightarrow> string \<Rightarrow> compression \<Rightarrow> string \<Rightarrow> 'w conversation \<Rightarrow> 'w conversation" where
  "compress_end now stamp k summary c =
     (let c1 = add_memory stamp ''summary'' summary c in
      c1\<lparr>cv_messages := cm_system k # summary_message (cm_count k) summary # cm_recent k,
         cv_token_estimate := estimate_tokens summary + estimate_messages_tokens (cm_recent k),
         cv_updated_at := now\<rparr>)"

definition compression_request :: "compression \<Rightarrow> completion_request" where
  "compression_request k = \<lparr>cq_messages = [text_message role_user (cm_prompt k)], cq_tools = [],
     cq_model = [], cq_max_tokens = 1500, cq_temperature = 0\<rparr>"

text \<open>
  \<open>compress\<close> with \<open>during\<close> the methods other goroutines run while the model is called.
\<close>

definition compress_with :: "('w conversation \<Rightarrow> 'w conversation) \<Rightarrow> time \<Rightarrow> string \<Rightarrow> 'w conversation \<Rightarrow> 'w \<Rightarrow>
    (string + bool) \<times> 'w conversation \<times> 'w" where
  "compress_with during now stamp c w = (case compress_begin c of
     None \<Rightarrow> (Inr False, c, w)
   | Some k \<Rightarrow> (case complete (cv_provider c) (compression_request k) w of
       (Inl err, w1) \<Rightarrow> (Inl (''compression LLM call failed: '' @ err), during c, w1)
     | (Inr resp, w1) \<Rightarrow> (Inr True, compress_end now stamp k (cp_content resp) (during c), w1)))"

definition maybe_compress :: "time \<Rightarrow> string \<Rightarrow> 'w conversation \<Rightarrow> 'w \<Rightarrow> (string + bool) \<times> 'w conversation \<times> 'w" where
  "maybe_compress now stamp c w =
     (if needs_compression c then compress_with (\<lambda>c. c) now stamp c w else (Inr False, c, w))"

section \<open>Reading\<close>

record conv_stats =
  sts_id :: string
  sts_message_count :: int
  sts_memory_count :: int
  sts_token_estimate :: int
  sts_created_at :: time
  sts_updated_at :: time
  sts_compressed :: bool

definition conv_stats_of :: "'w conversation \<Rightarrow> conv_stats" where
  "conv_stats_of c = \<lparr>sts_id = cv_id c, sts_message_count = int (length (cv_messages c)),
     sts_memory_count = int (length (cv_memory c)), sts_token_estimate = cv_token_estimate c,
     sts_created_at = cv_created_at c, sts_updated_at = cv_updated_at c, sts_compressed = (cv_memory c \<noteq> [])\<rparr>"

section \<open>Invariant\<close>

text \<open>
  The first message is the system prompt for ever, and the estimate never exceeds that of the
  messages after it (the summary block counts for less than it is).
\<close>

definition conv_ok :: "string \<Rightarrow> 'w conversation \<Rightarrow> bool" where
  "conv_ok sys c \<longleftrightarrow> cv_messages c \<noteq> [] \<and> hd (cv_messages c) = text_message role_system sys \<and>
     0 \<le> cv_token_estimate c \<and> cv_token_estimate c \<le> estimate_messages_tokens (tl (cv_messages c)) \<and>
     cv_keep_recent c = 8 \<and> cv_max_tokens c = 20000"

lemma estimate_nonneg [simp]: "0 \<le> estimate_tokens s" "0 \<le> estimate_messages_tokens ms"
  by (auto simp: estimate_tokens_def estimate_messages_tokens_def intro!: sum_list_nonneg)

lemma estimate_messages_simps [simp]:
  "estimate_messages_tokens [] = 0"
  "estimate_messages_tokens (m # ms) = estimate_tokens (msg_content m) + estimate_messages_tokens ms"
  "estimate_messages_tokens (ms @ ns) = estimate_messages_tokens ms + estimate_messages_tokens ns"
  by (simp_all add: estimate_messages_tokens_def)

lemma conv_ok_new [simp]: "conv_ok sys (new_conversation now cid p sys)"
  by (simp add: conv_ok_def new_conversation_def)

lemma conv_ok_add_message [inv_keep]: "conv_ok sys c \<Longrightarrow> conv_ok sys (add_message now m c)"
  by (auto simp: conv_ok_def add_message_def)

lemma conv_ok_add_memory [inv_keep]: "conv_ok sys c \<Longrightarrow> conv_ok sys (add_memory stamp ty s c)"
  by (simp add: conv_ok_def add_memory_def)

lemma estimate_summary: "estimate_tokens s \<le> estimate_tokens (msg_content (summary_message n s))"
  by (auto simp: estimate_tokens_def summary_message_def text_message_def nl_def intro!: div_le_mono)

lemma compress_begin_Some:
  assumes "conv_ok sys c" "compress_begin c = Some k"
  shows "cm_system k = text_message role_system sys" "length (cm_recent k) = 8"
    "\<exists>old. tl (cv_messages c) = old @ cm_recent k \<and> cm_count k = length old \<and> old \<noteq> [] \<and>
       cm_prompt k = compression_prompt old"
proof -
  let ?ms = "cv_messages c" and ?n = "length (cv_messages c) - 1 - 8"
  from assms have l: "9 < length ?ms" and k: "k = \<lparr>cm_system = hd ?ms, cm_count = ?n,
      cm_recent = drop (1 + ?n) ?ms, cm_prompt = compression_prompt (take ?n (drop 1 ?ms))\<rparr>"
    by (auto simp: compress_begin_def conv_ok_def Let_def split: if_splits)
  show "cm_system k = text_message role_system sys" "length (cm_recent k) = 8"
    using assms(1) l by (auto simp: k conv_ok_def)
  have "tl ?ms = take ?n (drop 1 ?ms) @ drop (1 + ?n) ?ms"
    by (metis append_take_drop_id drop_Suc drop_0 drop_drop add.commute One_nat_def)
  moreover have "length (take ?n (drop 1 ?ms)) = ?n" using l by simp
  moreover have "take ?n (drop 1 ?ms) \<noteq> []" using l by auto
  ultimately show "\<exists>old. tl ?ms = old @ cm_recent k \<and> cm_count k = length old \<and> old \<noteq> [] \<and>
       cm_prompt k = compression_prompt old"
    by (intro exI[of _ "take ?n (drop 1 ?ms)"]) (simp add: k)
qed

lemma conv_ok_compress_end [inv_keep]:
  assumes "conv_ok sys c" "conv_ok sys c0" "compress_begin c0 = Some k"
  shows "conv_ok sys (compress_end now stamp k s c)"
  using assms(1) compress_begin_Some(1)[OF assms(2,3)] estimate_summary[of s "cm_count k"]
  by (auto simp: conv_ok_def compress_end_def add_memory_def Let_def)

section \<open>Histories of a conversation\<close>

datatype conv_op = AddUser time string | AddAssistant time message | AddTool time string string
  | AddMem string string string

fun conv_exec :: "conv_op \<Rightarrow> 'w conversation \<Rightarrow> 'w conversation" where
  "conv_exec (AddUser t s) c = add_user_message t s c"
| "conv_exec (AddAssistant t m) c = add_assistant_message t m c"
| "conv_exec (AddTool t i s) c = add_tool_result t i s c"
| "conv_exec (AddMem t ty s) c = add_memory t ty s c"

inductive conv_reach :: "string \<Rightarrow> 'w conversation \<Rightarrow> bool" for sys where
  start: "conv_reach sys (new_conversation now cid p sys)"
| op: "conv_reach sys c \<Longrightarrow> conv_reach sys (conv_exec x c)"
| compress: "conv_reach sys c \<Longrightarrow>
    conv_reach sys (fst (snd (compress_with (fold conv_exec xs) now stamp c w)))"

lemma conv_ok_exec [inv_keep]: "conv_ok sys c \<Longrightarrow> conv_ok sys (conv_exec x c)"
  by (cases x) (auto simp: add_user_message_def add_assistant_message_def add_tool_result_def intro: inv_keep)

lemma conv_ok_fold: "conv_ok sys c \<Longrightarrow> conv_ok sys (fold conv_exec xs c)"
  by (induction xs arbitrary: c) (auto intro: inv_keep)

lemma conv_ok_compress_with:
  "conv_ok sys c \<Longrightarrow> conv_ok sys (fst (snd (compress_with (fold conv_exec xs) now stamp c w)))"
  by (auto simp: compress_with_def conv_ok_fold conv_ok_compress_end split: option.splits prod.splits sum.splits)

lemma conv_reach_ok: "conv_reach sys c \<Longrightarrow> conv_ok sys c"
  by (induction rule: conv_reach.induct) (auto intro: conv_ok_exec conv_ok_compress_with)

lemma compress_with_True:
  assumes "compress_with during now stamp c w = (Inr True, c1, w1)"
  obtains k and resp :: completion_response where "compress_begin c = Some k"
    "c1 = compress_end now stamp k (cp_content resp) (during c)"
proof (cases "compress_begin c")
  case None
  with assms show thesis by (simp add: compress_with_def)
next
  case (Some k)
  then obtain r w2 where "complete (cv_provider c) (compression_request k) w = (r, w2)" by fastforce
  then obtain resp where "r = Inr resp" using Some assms by (cases r) (auto simp: compress_with_def)
  with Some assms \<open>complete _ _ w = _\<close> show thesis
    by (intro that[OF Some, of resp]) (simp add: compress_with_def)
qed

lemma fold_add_user:
  "cv_messages (fold conv_exec (replicate n (AddUser t s)) c) = cv_messages c @ replicate n (text_message role_user s) \<and>
   cv_provider (fold conv_exec (replicate n (AddUser t s)) c) = cv_provider c"
  by (induction n arbitrary: c) (auto simp: add_user_message_def add_message_def)

lemma conv_reach_fold: "conv_reach sys c \<Longrightarrow> conv_reach sys (fold conv_exec xs c)"
  by (induction xs arbitrary: c) (auto intro: conv_reach.op)

text \<open>What compression does, from any reachable conversation and whatever other methods run
  while the model is called: the system prompt stays first, everything between it and the last
  eight messages is replaced by one summary block, these eight follow unchanged, the summary is
  appended to the memory, and the token estimate is that of the summary and the eight. The
  messages added during the call are in neither part: they are lost, while memory items added
  then are kept.\<close>

theorem compress_outcome:
  assumes "conv_reach sys c" "compress_with (fold conv_exec xs) now stamp c w = (Inr True, c1, w1)"
  shows "\<exists>old recent summary. tl (cv_messages c) = old @ recent \<and> old \<noteq> [] \<and> length recent = 8 \<and>
    cv_messages c1 = text_message role_system sys # summary_message (length old) summary # recent \<and>
    cv_memory c1 = cv_memory (fold conv_exec xs c) @
      [\<lparr>mi_type = ''summary'', mi_content = summary, mi_timestamp = stamp\<rparr>] \<and>
    cv_token_estimate c1 = estimate_tokens summary + estimate_messages_tokens recent"
proof -
  from compress_with_True[OF assms(2)] obtain k and resp :: completion_response where k: "compress_begin c = Some k"
    "c1 = compress_end now stamp k (cp_content resp) (fold conv_exec xs c)" .
  note b = compress_begin_Some[OF conv_reach_ok[OF assms(1)] k(1)]
  from b(3) obtain old where "tl (cv_messages c) = old @ cm_recent k" "cm_count k = length old" "old \<noteq> []"
    by blast
  with b(1,2) show ?thesis
    by (intro exI[of _ old] exI[of _ "cm_recent k"] exI[of _ "cp_content resp"])
      (simp add: k(2) compress_end_def add_memory_def Let_def)
qed

definition demo_provider :: "unit provider" where
  "demo_provider = \<lparr>prov_name = ''demo'',
     complete = (\<lambda>q w. (Inr \<lparr>cp_content = ''S'', cp_tool_calls = [], cp_prompt_tokens = 1, cp_completion_tokens = 1\<rparr>, w)),
     stream_complete = (\<lambda>q w. (([], Inl ''no stream''), w))\<rparr>"

definition demo_talk :: "nat \<Rightarrow> unit conversation" where
  "demo_talk n = fold conv_exec (replicate n (AddUser 1 ''hello'')) (new_conversation 0 ''c'' demo_provider ''sys'')"

lemma demo_talk_reach: "conv_reach ''sys'' (demo_talk n)"
  unfolding demo_talk_def by (blast intro: conv_reach.start conv_reach_fold)

theorem compress_outcome_witness:
  "AddUser 2 ''lost'' \<in> set [AddUser 2 ''lost''] \<and>
   ''lost'' \<notin> msg_content ` set (cv_messages (fst (snd (compress_with (fold conv_exec [AddUser 2 ''lost'']) 3 ''t'' (demo_talk 9) ()))))"
proof -
  obtain c1 where c1: "compress_with (fold conv_exec [AddUser 2 ''lost'']) 3 ''t'' (demo_talk 9) () = (Inr True, c1, ())"
    by (simp add: compress_with_def compress_begin_def demo_talk_def demo_provider_def numeral_eq_Suc
        new_conversation_def add_user_message_def add_message_def Let_def)
  have tl: "set (tl (cv_messages (demo_talk 9))) = {text_message role_user ''hello''}"
    by (simp add: demo_talk_def numeral_eq_Suc new_conversation_def add_user_message_def add_message_def)
  from compress_outcome[OF demo_talk_reach c1] obtain old recent summary where
    "tl (cv_messages (demo_talk 9)) = old @ recent"
    "cv_messages c1 = text_message role_system ''sys'' # summary_message (length old) summary # recent" by blast
  with tl have "set (cv_messages c1) \<subseteq> {text_message role_system ''sys'', summary_message (length old) summary,
      text_message role_user ''hello''}" by auto
  moreover have "msg_content (summary_message (length old) summary) \<noteq> ''lost''"
    by (simp add: summary_message_def text_message_def nl_def)
  ultimately show ?thesis using c1 by (auto simp: text_message_def)
qed

text \<open>When the last eight messages alone are over the threshold, compression does not help and
  starts again at once: MaybeCompress right after a compression calls the model again, to summarise
  nothing but the summary block it has just written.\<close>

theorem compress_again:
  assumes "conv_reach sys c" "compress_with (fold conv_exec xs) now stamp c w = (Inr True, c1, w1)"
    and "20000 < estimate_messages_tokens (drop 2 (cv_messages c1))"
  shows "needs_compression c1 \<and> (\<exists>k. compress_begin c1 = Some k \<and> cm_count k = 1 \<and>
    cm_prompt k = compression_prompt [cv_messages c1 ! 1] \<and> cm_recent k = drop 2 (cv_messages c1))"
proof -
  from compress_with_True[OF assms(2)] obtain k and resp :: completion_response where k: "compress_begin c = Some k"
    "c1 = compress_end now stamp k (cp_content resp) (fold conv_exec xs c)" .
  note b = compress_begin_Some[OF conv_reach_ok[OF assms(1)] k(1)]
  have ms: "cv_messages c1 = cm_system k # summary_message (cm_count k) (cp_content resp) # cm_recent k"
    "cv_token_estimate c1 = estimate_tokens (cp_content resp) + estimate_messages_tokens (cm_recent k)"
    by (simp_all add: k(2) compress_end_def add_memory_def Let_def)
  have "cv_max_tokens c1 = 20000" "cv_keep_recent c1 = 8"
    using conv_ok_compress_with[OF conv_reach_ok[OF assms(1)], of xs now stamp w] assms(2)
    by (simp_all add: conv_ok_def)
  moreover have "estimate_messages_tokens (cm_recent k) \<le> cv_token_estimate c1"
    unfolding ms(2) by simp
  ultimately show ?thesis
    using b(2) assms(3) ms(1) by (simp add: needs_compression_def compress_begin_def Let_def)
qed

definition demo_long :: "nat \<Rightarrow> unit conversation" where
  "demo_long n = fold conv_exec (replicate 8 (AddUser 1 (replicate n CHR ''x''))) (demo_talk 1)"

theorem compress_again_witness:
  "needs_compression (fst (snd (compress_with (fold conv_exec []) 3 ''t'' (demo_long 12000) ())))"
proof -
  let ?big = "\<lambda>n. text_message role_user (replicate n CHR ''x'')"
  have ms: "cv_messages (demo_long n) = text_message role_system ''sys'' # text_message role_user ''hello'' # replicate 8 (?big n)"
    "cv_provider (demo_long n) = demo_provider" for n
    unfolding demo_long_def demo_talk_def fold_add_user[THEN conjunct1] fold_add_user[THEN conjunct2]
    by (simp_all add: new_conversation_def)
  have reach: "conv_reach ''sys'' (demo_long n)" for n
    unfolding demo_long_def by (intro conv_reach_fold demo_talk_reach)
  have "\<exists>c1. compress_with (fold conv_exec []) 3 ''t'' (demo_long n) () = (Inr True, c1, ()) \<and>
      drop 2 (cv_messages c1) = replicate 8 (?big n)" for n
    using conv_reach_ok[OF reach[of n]] by (simp add: compress_with_def compress_begin_def conv_ok_def ms demo_provider_def
        compress_end_def add_memory_def Let_def)
  then obtain c1 where c1: "compress_with (fold conv_exec []) 3 ''t'' (demo_long 12000) () = (Inr True, c1, ())"
      "drop 2 (cv_messages c1) = replicate 8 (?big 12000)" by blast
  have "estimate_messages_tokens (replicate 8 (?big n)) = 8 * int (n div 4)" for n
    by (simp add: estimate_messages_tokens_def estimate_tokens_def text_message_def sum_list_replicate)
  with c1(2) have "20000 < estimate_messages_tokens (drop 2 (cv_messages c1))" by simp
  with compress_again[OF reach c1(1)] c1(1) show ?thesis by simp
qed

end
