(* ===== verification/Agent.thy ===== *)
theory Agent
  imports Provider
begin

text \<open>
  Package \<open>agent\<close> (internal/agent/agent.go): the observe-think-act loop of the controllers.

  Provider and tools act on a world \<open>'w\<close>; the deadline of the run is part of that world.
  \<open>parse\<close> is \<open>json.Unmarshal\<close> into an argument map. The order in which the registry lists its
  tools is an argument too.
\<close>

record 'w agent_config =
  ag_provider :: "'w provider option"
  ag_registry :: "'w registry option"
  ag_system_prompt :: string
  ag_max_steps :: int
  ag_timeout :: duration

definition new_agent :: "'w agent_config \<Rightarrow> 'w agent_config" where
  "new_agent cfg =
     (let cfg1 = (if ag_max_steps cfg = 0 then cfg\<lparr>ag_max_steps := 15\<rparr> else cfg) in
      if ag_timeout cfg1 = 0 then cfg1\<lparr>ag_timeout := 120 * second\<rparr> else cfg1)"

record trace_step =
  st_thought :: string
  st_action :: string
  st_action_input :: string
  st_observation :: string

record agent_result =
  ar_answer :: string
  ar_steps :: "trace_step list"
  ar_prompt :: int
  ar_completion :: int
  ar_total :: int

datatype run_outcome = Answered agent_result | RunError string | RunPanic

definition to_provider_tools :: "tool_def list \<Rightarrow> tool_definition list" where
  "to_provider_tools defs = map (\<lambda>d. \<lparr>tdef_type = td_type d,
     tdef_function = \<lparr>tfs_name = tf_name (td_function d), tfs_description = tf_description (td_function d),
       tfs_parameters = tf_parameters (td_function d)\<rparr>\<rparr>) defs"

section \<open>One tool call\<close>

definition clip :: "string \<Rightarrow> string" where
  "clip obs = (if 8000 < length obs then take 8000 obs @ newline @
     ''... (truncated, use more specific queries for full data)'' else obs)"

text \<open>The observation recorded and the text sent to the model; a nil result is \<open>None\<close>.\<close>

definition observe :: "exec_ret \<Rightarrow> (string \<times> string) option" where
  "observe ret = (case ret of
     (None, Some err) \<Rightarrow> (let o1 = ''Error executing tool: '' @ err in Some (o1, o1))
   | (Some r, Some err) \<Rightarrow> (let o1 = ''Error executing tool: '' @ err in
       Some (o1, if \<not> tr_success r \<and> tr_error r \<noteq> []
         then ''Error: '' @ tr_error r @ newline @ tr_output r else o1))
   | (None, None) \<Rightarrow> None
   | (Some r, None) \<Rightarrow>
       if \<not> tr_success r
       then (let o1 = ''Tool returned error: '' @ tr_error r @ newline @ tr_output r in
         Some (o1, if tr_error r \<noteq> [] then ''Error: '' @ tr_error r @ newline @ tr_output r else o1))
       else Some (clip (tr_output r), clip (tr_output r)))"

definition call_tool :: "(string \<Rightarrow> args result) \<Rightarrow> 'w registry \<Rightarrow> tool_call \<Rightarrow> 'w \<Rightarrow>
    (string \<times> string) option \<times> 'w" where
  "call_tool parse reg tc w = (case parse (tc_arguments tc) of
     Inl err \<Rightarrow> (let o1 = ''Error: failed to parse arguments: '' @ err in (Some (o1, o1), w))
   | Inr args \<Rightarrow> (case registry_get (tc_name tc) reg of
       None \<Rightarrow> (let o1 = ''Error: unknown tool '' @ [CHR 0x27] @ tc_name tc @ [CHR 0x27] in (Some (o1, o1), w))
     | Some t \<Rightarrow> (let (ret, w1) = tool_execute t args w in (observe ret, w1))))"

fun call_tools :: "(string \<Rightarrow> args result) \<Rightarrow> 'w registry \<Rightarrow> string \<Rightarrow> tool_call list \<Rightarrow> 'w \<Rightarrow>
    (trace_step list \<times> message list) option \<times> 'w" where
  "call_tools parse reg thought [] w = (Some ([], []), w)"
| "call_tools parse reg thought (tc # tcs) w = (case call_tool parse reg tc w of
     (None, w1) \<Rightarrow> (None, w1)
   | (Some (o1, txt), w1) \<Rightarrow> (case call_tools parse reg thought tcs w1 of
       (None, w2) \<Rightarrow> (None, w2)
     | (Some (ss, ms), w2) \<Rightarrow> (Some (\<lparr>st_thought = thought, st_action = tc_name tc,
         st_action_input = tc_arguments tc, st_observation = o1\<rparr> # ss, tool_message (tc_id tc) txt # ms), w2)))"

section \<open>The loop\<close>

definition agent_request :: "tool_definition list \<Rightarrow> message list \<Rightarrow> completion_request" where
  "agent_request tools ms = \<lparr>cq_messages = ms, cq_tools = tools, cq_model = [], cq_max_tokens = 4096,
     cq_temperature = f64 (1 / 10)\<rparr>"

definition totalled :: "agent_result \<Rightarrow> string \<Rightarrow> agent_result" where
  "totalled r answer = r\<lparr>ar_answer := answer, ar_total := ar_prompt r + ar_completion r\<rparr>"

text \<open>\<open>k\<close> steps remain of \<open>n\<close>; the step under way is number \<open>n - k\<close> from 0.\<close>

fun agent_loop :: "(string \<Rightarrow> args result) \<Rightarrow> 'w provider \<Rightarrow> 'w registry \<Rightarrow> tool_definition list \<Rightarrow>
    nat \<Rightarrow> nat \<Rightarrow> message list \<Rightarrow> agent_result \<Rightarrow> 'w \<Rightarrow> run_outcome \<times> 'w" where
  "agent_loop parse p reg tools n 0 ms res w =
     (Answered (totalled res ''Agent reached maximum steps without a final conclusion.''), w)"
| "agent_loop parse p reg tools n (Suc k) ms res w =
     (case complete p (agent_request tools ms) w of
        (Inl err, w1) \<Rightarrow> (RunError (''LLM completion failed at step '' @ show_int (int (n - k)) @ '': '' @ err), w1)
      | (Inr resp, w1) \<Rightarrow>
          (let res1 = res\<lparr>ar_prompt := ar_prompt res + cp_prompt_tokens resp,
                 ar_completion := ar_completion res + cp_completion_tokens resp\<rparr> in
           if cp_tool_calls resp = [] then (Answered (totalled res1 (cp_content resp)), w1)
           else (case call_tools parse reg (cp_content resp) (cp_tool_calls resp) w1 of
               (None, w2) \<Rightarrow> (RunPanic, w2)
             | (Some (ss, rs), w2) \<Rightarrow> agent_loop parse p reg tools n k
                 (ms @ \<lparr>msg_role = role_assistant, msg_content = cp_content resp, msg_tool_call_id = [],
                    msg_tool_calls = cp_tool_calls resp\<rparr> # rs)
                 (res1\<lparr>ar_steps := ar_steps res1 @ ss\<rparr>) w2)))"

definition empty_result :: agent_result where
  "empty_result = \<lparr>ar_answer = [], ar_steps = [], ar_prompt = 0, ar_completion = 0, ar_total = 0\<rparr>"

definition agent_run :: "(string \<Rightarrow> args result) \<Rightarrow> string list \<Rightarrow> 'w agent_config \<Rightarrow> string \<Rightarrow> 'w \<Rightarrow>
    run_outcome \<times> 'w" where
  "agent_run parse ks cfg user_message w = (case ag_provider cfg of
     None \<Rightarrow> (RunError ''agent provider is not configured'', w)
   | Some p \<Rightarrow>
       (let reg = (case ag_registry cfg of None \<Rightarrow> new_registry | Some r \<Rightarrow> r);
            n = nat (ag_max_steps cfg)
        in agent_loop parse p reg (to_provider_tools (definitions ks reg)) n n
             [text_message role_system (ag_system_prompt cfg), text_message role_user user_message]
             empty_result w))"

section \<open>Lemmas\<close>

lemma call_tools_answer:
  "call_tools parse reg th tcs w = (Some (ss, rs), w1) \<Longrightarrow>
   map msg_tool_call_id rs = map tc_id tcs \<and> (\<forall>r \<in> set rs. msg_role r = role_tool) \<and>
   map st_action ss = map tc_name tcs \<and> (\<forall>s \<in> set ss. st_thought s = th)"
proof (induction tcs arbitrary: w ss rs w1)
  case (Cons tc tcs)
  then obtain o1 body w2 xs ys where "call_tool parse reg tc w = (Some (o1, body), w2)"
    and rest: "call_tools parse reg th tcs w2 = (Some (xs, ys), w1)"
    and "ss = \<lparr>st_thought = th, st_action = tc_name tc, st_action_input = tc_arguments tc, st_observation = o1\<rparr> # xs"
    "rs = tool_message (tc_id tc) body # ys"
    by (auto split: prod.splits option.splits)
  with Cons.IH[OF rest] show ?case by (simp add: tool_message_def)
qed simp

lemma agent_loop_strict:
  "protocol_ok ms \<Longrightarrow> agent_loop parse (strict p) reg tools n k ms res w = agent_loop parse p reg tools n k ms res w"
proof (induction k arbitrary: ms res w)
  case (Suc k)
  let ?q = "agent_request tools ms"
  have c: "complete (strict p) ?q w = complete p ?q w"
    using Suc.prems by (simp add: strict_def agent_request_def)
  obtain r w1 where r: "complete p ?q w = (r, w1)" by fastforce
  show ?case
  proof (cases r)
    case (Inr resp)
    obtain x w2 where x: "call_tools parse reg (cp_content resp) (cp_tool_calls resp) w1 = (x, w2)" by fastforce
    show ?thesis
    proof (cases x)
      case (Some sr)
      obtain ss rs where sr: "sr = (ss, rs)" by fastforce
      let ?m = "\<lparr>msg_role = role_assistant, msg_content = cp_content resp, msg_tool_call_id = [],
        msg_tool_calls = cp_tool_calls resp\<rparr>"
      have "protocol_ok (ms @ ?m # rs)"
        using call_tools_answer[of parse reg "cp_content resp" "cp_tool_calls resp" w1 ss rs w2] x Some sr
        by (intro protocol_ok_turn Suc.prems) auto
      from Suc.IH[OF this] show ?thesis using r x c Inr Some sr by (simp add: Let_def)
    qed (use r x c Inr in \<open>simp add: Let_def\<close>)
  qed (use r c in simp)
qed simp

lemma call_tools_spends:
  "call_tools parse reg th tcs w = (Some (ss, rs), w1) \<Longrightarrow> length ss = length tcs"
  using call_tools_answer[of parse reg th tcs w ss rs w1] by (metis length_map)

text \<open>A run panics only when a tool returns neither a result nor an error.\<close>

definition total_tools :: "'w registry \<Rightarrow> bool" where
  "total_tools reg \<longleftrightarrow> (\<forall>n t args w. reg n = Some t \<longrightarrow> fst (tool_execute t args w) \<noteq> (None, None))"

lemma call_tools_total: "total_tools reg \<Longrightarrow> \<exists>x w1. call_tools parse reg th tcs w = (Some x, w1)"
proof (induction tcs arbitrary: w)
  case (Cons tc tcs)
  have "\<exists>x w1. call_tool parse reg tc w = (Some x, w1)"
    using Cons.prems
    by (auto simp: call_tool_def total_tools_def observe_def registry_get_def Let_def
        split: sum.splits option.splits prod.splits) (metis fst_conv)+
  then obtain x w1 where "call_tool parse reg tc w = (Some x, w1)" by blast
  with Cons.IH[OF Cons.prems, of w1] show ?case by (cases x) auto
qed simp

lemma agent_loop_no_panic: "total_tools reg \<Longrightarrow> fst (agent_loop parse p reg tools n k ms res w) \<noteq> RunPanic"
proof (induction k arbitrary: ms res w)
  case (Suc k)
  obtain r w1 where r: "complete p (agent_request tools ms) w = (r, w1)" by fastforce
  show ?case
  proof (cases r)
    case (Inr resp)
    with call_tools_total[OF Suc.prems, of parse "cp_content resp" "cp_tool_calls resp" w1] r Suc.IH[OF Suc.prems]
    show ?thesis by (auto simp: Let_def)
  qed (use r in simp)
qed simp

lemma agent_run_no_panic:
  "(\<And>reg. ag_registry cfg = Some reg \<Longrightarrow> total_tools reg) \<Longrightarrow> fst (agent_run parse ks cfg um w) \<noteq> RunPanic"
  by (auto simp: agent_run_def Let_def agent_loop_no_panic total_tools_def new_registry_def split: option.splits)

section \<open>Counting model calls\<close>

text \<open>The same provider and tools on a world that also counts the completions asked for.\<close>

definition counting :: "'w provider \<Rightarrow> (nat \<times> 'w) provider" where
  "counting p = \<lparr>prov_name = prov_name p,
     complete = (\<lambda>q (k, w). let (r, w1) = complete p q w in (r, Suc k, w1)),
     stream_complete = (\<lambda>q (k, w). let (r, w1) = stream_complete p q w in (r, Suc k, w1))\<rparr>"

definition beside_tool :: "'w tool \<Rightarrow> (nat \<times> 'w) tool" where
  "beside_tool t = \<lparr>tool_name = tool_name t, tool_description = tool_description t, tool_parameters = tool_parameters t,
     tool_execute = (\<lambda>args (k, w). let (r, w1) = tool_execute t args w in (r, k, w1))\<rparr>"

definition beside :: "'w registry \<Rightarrow> (nat \<times> 'w) registry" where
  "beside reg = (\<lambda>n. map_option beside_tool (reg n))"

definition counted :: "'w agent_config \<Rightarrow> (nat \<times> 'w) agent_config" where
  "counted cfg = \<lparr>ag_provider = map_option counting (ag_provider cfg), ag_registry = map_option beside (ag_registry cfg),
     ag_system_prompt = ag_system_prompt cfg, ag_max_steps = ag_max_steps cfg, ag_timeout = ag_timeout cfg\<rparr>"

lemma call_tool_beside:
  "call_tool parse (beside reg) tc (k, w) = (let (x, w1) = call_tool parse reg tc w in (x, k, w1))"
  by (simp add: call_tool_def registry_get_def beside_def beside_tool_def Let_def split: sum.split option.split prod.split)

lemma call_tools_beside:
  "call_tools parse (beside reg) th tcs (k, w) = (let (x, w1) = call_tools parse reg th tcs w in (x, k, w1))"
  by (induction tcs arbitrary: w) (simp_all add: call_tool_beside Let_def split: prod.split option.split)

lemma definitions_beside: "definitions ks (beside reg) = definitions ks reg"
  by (simp add: definitions_def registry_list_def beside_def beside_tool_def List.map_filter_def
      o_def option.map_sel)

lemma agent_loop_counts:
  "\<exists>k1 \<le> k + j. agent_loop parse (counting p) (beside reg) tools n j ms res (k, w) =
     (let (out, w1) = agent_loop parse p reg tools n j ms res w in (out, k1, w1))"
proof (induction j arbitrary: k ms res w)
  case 0
  then show ?case by (intro exI[of _ k]) simp
next
  case (Suc j)
  obtain r w1 where r: "complete p (agent_request tools ms) w = (r, w1)" by fastforce
  have c: "complete (counting p) (agent_request tools ms) (k, w) = (r, Suc k, w1)"
    by (simp add: counting_def r)
  show ?case
  proof (cases r)
    case (Inl e)
    with r c show ?thesis by (intro exI[of _ "Suc k"]) simp
  next
    case (Inr resp)
    obtain x w2 where x: "call_tools parse reg (cp_content resp) (cp_tool_calls resp) w1 = (x, w2)" by fastforce
    show ?thesis
    proof (cases "cp_tool_calls resp = [] \<or> x = None")
      case True
      with r c Inr x show ?thesis
        by (intro exI[of _ "Suc k"]) (auto simp: Let_def call_tools_beside)
    next
      case False
      then obtain ss rs where s: "x = Some (ss, rs)" by auto
      from Suc.IH[of "Suc k"] r c Inr x s False show ?thesis
        by (simp add: Let_def call_tools_beside)
    qed
  qed
qed

section \<open>Properties\<close>

text \<open>C24. The model only ever sees well-formed conversations: the agent behaves the same when its
  provider first checks that every assistant message with tool calls is followed by exactly one
  answer per call, in order, and that there are no other tool messages; also when arguments do not
  parse, tools are unknown or fail.\<close>

theorem agent_conversation_wellformed:
  "agent_run parse ks (cfg\<lparr>ag_provider := map_option strict (ag_provider cfg)\<rparr>) user_message w =
   agent_run parse ks cfg user_message w"
proof -
  have "protocol_ok [text_message role_system s, text_message role_user u]" for s u
    by (simp add: protocol_ok_def text_message_def role_defs)
  then show ?thesis
    by (simp add: agent_run_def agent_loop_strict Let_def split: option.split)
qed

text \<open>C25. A run of the agent ends after at most as many model calls as it has steps: on a world that counts
  them, the run gives the same outcome and leaves the same world, and the counter has grown by no more
  than the maximum of steps, whatever the provider and the tools do.\<close>

theorem agent_call_bound:
  "\<exists>k1 \<le> k + nat (ag_max_steps cfg). agent_run parse ks (counted cfg) user_message (k, w) =
     (fst (agent_run parse ks cfg user_message w), k1, snd (agent_run parse ks cfg user_message w))"
proof (cases "ag_provider cfg")
  case None
  then show ?thesis by (intro exI[of _ k]) (simp add: agent_run_def counted_def)
next
  case (Some p)
  let ?reg = "case ag_registry cfg of None \<Rightarrow> new_registry | Some r \<Rightarrow> r"
  have b: "(case ag_registry (counted cfg) of None \<Rightarrow> new_registry | Some r \<Rightarrow> r) = beside ?reg"
    by (simp add: counted_def new_registry_def beside_def split: option.split)
  have f: "ag_provider (counted cfg) = Some (counting p)" "ag_max_steps (counted cfg) = ag_max_steps cfg"
    "ag_system_prompt (counted cfg) = ag_system_prompt cfg"
    by (simp_all add: counted_def Some)
  show ?thesis
    using agent_loop_counts[of k "nat (ag_max_steps cfg)" parse p ?reg]
    by (simp add: agent_run_def b f Some definitions_beside Let_def split_beta)
qed

end
