(* ===== verification/Audit_Log.thy ===== *)
theory Audit_Log
  imports Http "HOL-Library.AList" "HOL-Library.List_Lexorder" "HOL-Library.Multiset"
begin

text \<open>
  Package \<open>audit\<close> (internal/audit/logger.go): the audit log with its ring buffer, its JSON-lines
  file with rotation and cleanup, and the queries; and the dashboard's event listing
  (internal/dashboard/handlers_audit.go).

  Files are an association list from paths to contents and modification times; a path in
  \<open>fs_denied\<close> can be neither created nor renamed. A file is a list of lines. Formatting of times
  and JSON are the fields of \<open>audit_env\<close>. Methods hold the logger's lock, so each is one step; lines
  to the structured logger are not modelled.
\<close>

section \<open>Events, files, logger\<close>

record audit_event =
  aev_id :: string
  aev_timestamp :: string
  aev_type :: string
  aev_severity :: string
  aev_actor :: string
  aev_action :: string
  aev_target :: string
  aev_namespace :: string
  aev_success :: bool
  aev_detail :: args
  aev_duration :: string
  aev_error :: string
  aev_source :: string

record audit_env =
  au_nano :: "time \<Rightarrow> string"
  au_stamp :: "time \<Rightarrow> string"
  au_parse :: "string \<Rightarrow> time option"
  au_encode :: "audit_event \<Rightarrow> string"
  au_decode :: "string \<Rightarrow> audit_event option"

record disk_file =
  f_lines :: "string list"
  f_mtime :: time

record filesystem =
  fs_files :: "(string \<times> disk_file) list"
  fs_denied :: "string list"

definition fs_look :: "filesystem \<Rightarrow> string \<Rightarrow> disk_file option" where
  "fs_look fs p = map_of (fs_files fs) p"

text \<open>Opening for append creates the file; renaming replaces the target.\<close>

definition fs_open_append :: "time \<Rightarrow> string \<Rightarrow> filesystem \<Rightarrow> string option \<times> filesystem" where
  "fs_open_append now p fs =
     (if p \<in> set (fs_denied fs) then (Some (''open '' @ p @ '': permission denied''), fs)
      else case fs_look fs p of
          Some _ \<Rightarrow> (None, fs)
        | None \<Rightarrow> (None, fs\<lparr>fs_files := AList.update p \<lparr>f_lines = [], f_mtime = now\<rparr> (fs_files fs)\<rparr>))"

definition fs_append :: "time \<Rightarrow> string \<Rightarrow> string \<Rightarrow> filesystem \<Rightarrow> filesystem" where
  "fs_append now p line fs = (case fs_look fs p of
     None \<Rightarrow> fs
   | Some f \<Rightarrow> fs\<lparr>fs_files := AList.update p \<lparr>f_lines = f_lines f @ [line], f_mtime = now\<rparr> (fs_files fs)\<rparr>)"

definition fs_rename :: "string \<Rightarrow> string \<Rightarrow> filesystem \<Rightarrow> string option \<times> filesystem" where
  "fs_rename p q fs = (case fs_look fs p of
     None \<Rightarrow> (Some (''rename '' @ p @ '' '' @ q @ '': no such file or directory''), fs)
   | Some f \<Rightarrow> if q \<in> set (fs_denied fs) then (Some (''rename '' @ p @ '' '' @ q @ '': permission denied''), fs)
       else (None, fs\<lparr>fs_files := AList.update q f (AList.delete p (fs_files fs))\<rparr>))"

definition fs_remove :: "string \<Rightarrow> filesystem \<Rightarrow> filesystem" where
  "fs_remove p fs = fs\<lparr>fs_files := AList.delete p (fs_files fs)\<rparr>"

definition file_bytes :: "disk_file \<Rightarrow> int" where
  "file_bytes f = sum_list (map (\<lambda>l. int (length l) + 1) (f_lines f))"

record logger =
  lg_path :: string
  lg_open :: bool
  lg_ring :: "audit_event option list"
  lg_ring_size :: nat
  lg_rptr :: nat
  lg_max_size :: int
  lg_max_age_days :: int

section \<open>Opening and rotating\<close>

definition open_file :: "time \<Rightarrow> logger \<Rightarrow> filesystem \<Rightarrow> string option \<times> logger \<times> filesystem" where
  "open_file now l fs = (case fs_open_append now (lg_path l) fs of
     (Some e, fs1) \<Rightarrow> (Some (''failed to open audit log file: '' @ e), l, fs1)
   | (None, fs1) \<Rightarrow> (None, l\<lparr>lg_open := True\<rparr>, fs1))"

definition dir_of :: "string \<Rightarrow> string" where
  "dir_of p = (case last_index (CHR ''/'') p of None \<Rightarrow> ''.'' | Some 0 \<Rightarrow> ''/'' | Some i \<Rightarrow> take i p)"

definition base_of :: "string \<Rightarrow> string" where
  "base_of p = (if p = [] then ''.'' else
     case last_index (CHR ''/'') p of None \<Rightarrow> p | Some i \<Rightarrow> drop (Suc i) p)"

definition blank_logger :: "string \<Rightarrow> logger" where
  "blank_logger path = \<lparr>lg_path = path, lg_open = False, lg_ring = replicate 500 None, lg_ring_size = 500,
     lg_rptr = 0, lg_max_size = 100 * 1024 * 1024, lg_max_age_days = 30\<rparr>"

definition new_logger :: "time \<Rightarrow> string \<Rightarrow> filesystem \<Rightarrow> (string + logger) \<times> filesystem" where
  "new_logger now path fs =
     (let l = blank_logger path in
      if path \<noteq> [] then
        if dir_of path \<in> set (fs_denied fs)
        then (Inl (''failed to create audit log dir: mkdir '' @ dir_of path @ '': permission denied''), fs)
        else (case open_file now l fs of
            (Some e, _, fs1) \<Rightarrow> (Inl e, fs1)
          | (None, l1, fs1) \<Rightarrow> (Inr l1, fs1))
      else (Inr l, fs))"

definition set_max_size :: "int \<Rightarrow> logger \<Rightarrow> logger" where
  "set_max_size bytes l = l\<lparr>lg_max_size := bytes\<rparr>"

definition set_max_age :: "int \<Rightarrow> logger \<Rightarrow> logger" where
  "set_max_age days l = l\<lparr>lg_max_age_days := days\<rparr>"

definition rotate_log :: "audit_env \<Rightarrow> time \<Rightarrow> logger \<Rightarrow> filesystem \<Rightarrow> string option \<times> logger \<times> filesystem" where
  "rotate_log E now l fs =
     (if \<not> lg_open l then (None, l, fs)
      else let l1 = l\<lparr>lg_open := False\<rparr> in
        case fs_rename (lg_path l) (lg_path l @ ''.'' @ au_stamp E now) fs of
          (Some e, fs1) \<Rightarrow> (case open_file now l1 fs1 of
              (_, l2, fs2) \<Rightarrow> (Some (''failed to rotate audit log: '' @ e), l2, fs2))
        | (None, fs1) \<Rightarrow> open_file now l1 fs1)"

definition maybe_rotate :: "audit_env \<Rightarrow> time \<Rightarrow> logger \<Rightarrow> filesystem \<Rightarrow> logger \<times> filesystem" where
  "maybe_rotate E now l fs =
     (if \<not> lg_open l \<or> lg_max_size l \<le> 0 then (l, fs)
      else case fs_look fs (lg_path l) of
          None \<Rightarrow> (l, fs)
        | Some f \<Rightarrow> if lg_max_size l \<le> file_bytes f then
              let l1 = l\<lparr>lg_open := False\<rparr>;
                  fs1 = snd (fs_rename (lg_path l) (lg_path l @ ''.'' @ au_stamp E now) fs)
              in snd (open_file now l1 fs1)
            else (l, fs))"

text \<open>\<open>days\<close> of 24 hours before \<open>now\<close>; the server's clock is in UTC.\<close>

definition days_before :: "int \<Rightarrow> time \<Rightarrow> time" where
  "days_before n now = now - n * 24 * 60 * minute"

definition stale :: "string \<Rightarrow> time \<Rightarrow> string \<times> disk_file \<Rightarrow> bool" where
  "stale base cutoff e \<longleftrightarrow> length base < length (base_of (fst e)) \<and> has_prefix (base_of (fst e)) base \<and>
     f_mtime (snd e) < cutoff"

definition cleanup_log :: "time \<Rightarrow> logger \<Rightarrow> filesystem \<Rightarrow> int \<times> filesystem" where
  "cleanup_log now l fs =
     (let dir = dir_of (lg_path l); base = base_of (lg_path l);
          cutoff = days_before (lg_max_age_days l) now;
          gone = filter (\<lambda>e. dir_of (fst e) = dir \<and> stale base cutoff e \<and> fst e \<notin> set (fs_denied fs)) (fs_files fs)
      in (int (length gone), fold (\<lambda>e. fs_remove (fst e)) gone fs))"

definition file_size :: "logger \<Rightarrow> filesystem \<Rightarrow> int result" where
  "file_size l fs = (if lg_path l = [] then Inr 0 else
     case fs_look fs (lg_path l) of
       None \<Rightarrow> Inl (''stat '' @ lg_path l @ '': no such file or directory'')
     | Some f \<Rightarrow> Inr (file_bytes f))"

section \<open>Logging\<close>

definition complete_event :: "audit_env \<Rightarrow> time \<Rightarrow> audit_event \<Rightarrow> audit_event" where
  "complete_event E now ev =
     (let ev1 = (if aev_id ev = [] then ev\<lparr>aev_id := show_int now\<rparr> else ev) in
      if aev_timestamp ev1 = [] then ev1\<lparr>aev_timestamp := au_nano E now\<rparr> else ev1)"

definition ring_push :: "audit_event \<Rightarrow> logger \<Rightarrow> logger" where
  "ring_push ev l = l\<lparr>lg_ring := (lg_ring l)[lg_rptr l := Some ev],
     lg_rptr := (lg_rptr l + 1) mod lg_ring_size l\<rparr>"

definition log_event :: "audit_env \<Rightarrow> time \<Rightarrow> audit_event \<Rightarrow> logger \<Rightarrow> filesystem \<Rightarrow> logger \<times> filesystem" where
  "log_event E now ev l fs =
     (let ev1 = complete_event E now ev;
          (l1, fs1) = maybe_rotate E now l fs;
          fs2 = (if lg_open l1 then fs_append now (lg_path l1) (au_encode E ev1) fs1 else fs1)
      in (ring_push ev1 l1, fs2))"

section \<open>Reading the ring\<close>

definition recent :: "int \<Rightarrow> logger \<Rightarrow> audit_event list" where
  "recent n l = List.map_filter (\<lambda>i. lg_ring l ! nat ((int (lg_rptr l) - 1 - int i + int (lg_ring_size l)) mod int (lg_ring_size l)))
     [0..<min (lg_ring_size l) (nat n)]"

fun filter_events :: "string \<Rightarrow> string \<Rightarrow> int \<Rightarrow> audit_event list \<Rightarrow> audit_event list \<Rightarrow> audit_event list" where
  "filter_events ty ns limit acc [] = acc"
| "filter_events ty ns limit acc (e # es) =
     (if ty \<noteq> [] \<and> aev_type e \<noteq> ty then filter_events ty ns limit acc es
      else if ns \<noteq> [] \<and> aev_namespace e \<noteq> ns then filter_events ty ns limit acc es
      else let acc1 = acc @ [e] in
        if limit \<le> int (length acc1) then acc1 else filter_events ty ns limit acc1 es)"

definition filter_log :: "string \<Rightarrow> string \<Rightarrow> int \<Rightarrow> logger \<Rightarrow> audit_event list" where
  "filter_log ty ns limit l = filter_events ty ns limit [] (recent (int (lg_ring_size l)) l)"

record audit_stats =
  as_total :: int
  as_by_type :: "string \<Rightarrow> int"
  as_by_severity :: "string \<Rightarrow> int"
  as_success :: int
  as_failure :: int

definition count_event :: "audit_event \<Rightarrow> audit_stats \<Rightarrow> audit_stats" where
  "count_event e s = s\<lparr>as_by_type := (as_by_type s)(aev_type e := as_by_type s (aev_type e) + 1),
     as_by_severity := (as_by_severity s)(aev_severity e := as_by_severity s (aev_severity e) + 1),
     as_success := as_success s + (if aev_success e then 1 else 0),
     as_failure := as_failure s + (if aev_success e then 0 else 1)\<rparr>"

definition log_stats :: "logger \<Rightarrow> audit_stats" where
  "log_stats l = (let all = recent (int (lg_ring_size l)) l in
     fold count_event all \<lparr>as_total = int (length all), as_by_type = (\<lambda>_. 0), as_by_severity = (\<lambda>_. 0),
       as_success = 0, as_failure = 0\<rparr>)"

section \<open>Queries\<close>

definition str_less :: "string \<Rightarrow> string \<Rightarrow> bool" where
  "str_less s t \<longleftrightarrow> map (of_char :: char \<Rightarrow> nat) s < map of_char t"

text \<open>Bounds that do not parse, and events whose timestamp does not, are not filtered.\<close>

definition in_window :: "audit_env \<Rightarrow> string \<Rightarrow> string \<Rightarrow> audit_event \<Rightarrow> bool" where
  "in_window E frm to e \<longleftrightarrow>
     \<not> (frm \<noteq> [] \<and> (case au_parse E frm of None \<Rightarrow> False | Some t \<Rightarrow>
          (case au_parse E (aev_timestamp e) of None \<Rightarrow> False | Some u \<Rightarrow> u < t))) \<and>
     \<not> (to \<noteq> [] \<and> (case au_parse E to of None \<Rightarrow> False | Some t \<Rightarrow>
          (case au_parse E (aev_timestamp e) of None \<Rightarrow> False | Some u \<Rightarrow> t < u)))"

definition selected :: "audit_env \<Rightarrow> string \<Rightarrow> string \<Rightarrow> string \<Rightarrow> audit_event \<Rightarrow> bool" where
  "selected E severity frm to e \<longleftrightarrow> (severity = [] \<or> aev_severity e = severity) \<and> in_window E frm to e"

text \<open>
  \<open>paginate\<close>. \<open>srt\<close> is \<open>sort.Slice\<close> with the newest timestamp string first, which leaves the order
  of equal timestamps open.
\<close>

definition paginate :: "audit_env \<Rightarrow> (audit_event list \<Rightarrow> audit_event list) \<Rightarrow> audit_event list \<Rightarrow> int \<Rightarrow> int \<Rightarrow>
    string \<Rightarrow> string \<Rightarrow> string \<Rightarrow> (audit_event list \<times> int) option" where
  "paginate E srt events page limit severity frm to =
     (let filtered = srt (filter (selected E severity frm to) events);
          tot = int (length filtered);
          page1 = (if page < 1 then 1 else page);
          limit1 = (if limit < 1 then 50 else limit);
          start = wrap64 ((page1 - 1) * limit1)
      in if tot \<le> start then Some ([], tot)
         else let e0 = wrap64 (start + limit1); e1 = (if tot < e0 then tot else e0)
           in map_option (\<lambda>xs. (xs, tot)) (go_slice filtered start e1))"

text \<open>A scanner gives up at a line that does not fit its buffer of 1 MiB.\<close>

definition scan_lines :: "string list \<Rightarrow> string list \<times> bool" where
  "scan_lines ls = (takeWhile (\<lambda>l. length l < 1048576) ls, \<forall>l \<in> set ls. length l < 1048576)"

definition decode_lines :: "audit_env \<Rightarrow> string list \<Rightarrow> audit_event list" where
  "decode_lines E ls = List.map_filter (\<lambda>l. if l = [] then None else au_decode E l) ls"

datatype 'a query = Found 'a | QueryError string | QueryPanic

definition of_page :: "'a option \<Rightarrow> 'a query" where
  "of_page p = (case p of None \<Rightarrow> QueryPanic | Some x \<Rightarrow> Found x)"

definition query_file :: "audit_env \<Rightarrow> (audit_event list \<Rightarrow> audit_event list) \<Rightarrow> int \<Rightarrow> int \<Rightarrow> string \<Rightarrow> string \<Rightarrow>
    string \<Rightarrow> logger \<Rightarrow> filesystem \<Rightarrow> (audit_event list \<times> int) query" where
  "query_file E srt page limit severity frm to l fs =
     (if lg_path l = [] then
        of_page (paginate E srt (recent (wrap64 (limit * page)) l) page limit severity frm to)
      else case fs_look fs (lg_path l) of
          None \<Rightarrow> Found ([], 0)
        | Some f \<Rightarrow>
            if lg_path l \<in> set (fs_denied fs) then QueryError ''failed to open audit file: permission denied''
            else if \<not> snd (scan_lines (f_lines f)) then QueryError ''error reading audit file: bufio.Scanner: token too long''
            else of_page (paginate E srt (decode_lines E (f_lines f)) page limit severity frm to))"

definition get_by_id :: "audit_env \<Rightarrow> string \<Rightarrow> logger \<Rightarrow> filesystem \<Rightarrow> audit_event option result" where
  "get_by_id E i l fs =
     (if lg_path l = [] then Inr (find (\<lambda>e. aev_id e = i) (recent (int (lg_ring_size l)) l))
      else case fs_look fs (lg_path l) of
          None \<Rightarrow> Inr None
        | Some f \<Rightarrow>
            if lg_path l \<in> set (fs_denied fs) then Inl ''failed to open audit file: permission denied''
            else (case find (\<lambda>e. aev_id e = i) (decode_lines E (fst (scan_lines (f_lines f)))) of
                Some e \<Rightarrow> Inr (Some e)
              | None \<Rightarrow> if snd (scan_lines (f_lines f)) then Inr None else Inl ''bufio.Scanner: token too long''))"

section \<open>Listing in the dashboard\<close>

definition parse_int :: "string \<Rightarrow> int \<Rightarrow> int" where
  "parse_int s fallback = (if s = [] then fallback else case atoi s of None \<Rightarrow> fallback | Some n \<Rightarrow> n)"

record audit_page =
  ap_items :: "audit_event list"
  ap_total :: int
  ap_page :: int
  ap_limit :: int

definition text_match :: "audit_env \<Rightarrow> string \<Rightarrow> string \<Rightarrow> string \<Rightarrow> audit_event \<Rightarrow> bool" where
  "text_match E actor action search ev = (let s = to_lower (au_encode E ev) in
     \<not> (actor \<noteq> [] \<and> \<not> contains s (dquote @ ''actor'' @ dquote @ '':'' @ dquote @ actor)) \<and>
     \<not> (action \<noteq> [] \<and> \<not> contains s (dquote @ ''action'' @ dquote @ '':'' @ dquote @ action)) \<and>
     \<not> (search \<noteq> [] \<and> \<not> contains s search))"

text \<open>\<open>q\<close> is the query of the URL; a missing parameter is the empty string.\<close>

definition handle_audit_events :: "audit_env \<Rightarrow> (audit_event list \<Rightarrow> audit_event list) \<Rightarrow> (string \<Rightarrow> string) \<Rightarrow>
    logger \<Rightarrow> filesystem \<Rightarrow> audit_page query" where
  "handle_audit_events E srt q l fs =
     (let page = parse_int (q ''page'') 1;
          limit0 = parse_int (q ''limit'') 50;
          limit = (if 500 < limit0 then 500 else limit0)
      in case query_file E srt page limit (q ''severity'') (q ''from'') (q ''to'') l fs of
           QueryError e \<Rightarrow> QueryError e
         | QueryPanic \<Rightarrow> QueryPanic
         | Found (events, tot) \<Rightarrow>
             (let actor = to_lower (q ''actor''); action = to_lower (q ''action''); search = to_lower (q ''q'');
                  kept = filter (text_match E actor action search) events
              in if actor \<noteq> [] \<or> action \<noteq> [] \<or> search \<noteq> []
                 then Found \<lparr>ap_items = kept, ap_total = int (length kept), ap_page = page, ap_limit = limit\<rparr>
                 else Found \<lparr>ap_items = events, ap_total = tot, ap_page = page, ap_limit = limit\<rparr>))"

section \<open>The ring is the list of the last events\<close>

definition ring_index :: "nat \<Rightarrow> nat \<Rightarrow> nat \<Rightarrow> nat" where
  "ring_index n p i = nat ((int p - 1 - int i + int n) mod int n)"

definition ring_holds :: "logger \<Rightarrow> audit_event list \<Rightarrow> bool" where
  "ring_holds l evs \<longleftrightarrow> 0 < lg_ring_size l \<and> length (lg_ring l) = lg_ring_size l \<and> lg_rptr l < lg_ring_size l \<and>
     (\<forall>i < lg_ring_size l. lg_ring l ! ring_index (lg_ring_size l) (lg_rptr l) i =
        (if i < length evs then Some (rev evs ! i) else None))"

lemma ring_index_less: "0 < n \<Longrightarrow> ring_index n p i < n"
  by (simp add: ring_index_def nat_less_iff)

lemma ring_index_0: "p < n \<Longrightarrow> ring_index n (Suc p mod n) 0 = p"
  by (simp add: ring_index_def zmod_int mod_simps)

lemma ring_index_Suc: "0 < n \<Longrightarrow> ring_index n (Suc p mod n) (Suc i) = ring_index n p i"
proof -
  have "(int (Suc p mod n) - (2 + int i - int n)) mod int n = (int (Suc p) - (2 + int i - int n)) mod int n"
    unfolding zmod_int by (rule mod_diff_left_eq)
  then show ?thesis by (simp add: ring_index_def algebra_simps)
qed

lemma ring_index_other:
  assumes "p < n" "Suc i < n"
  shows "ring_index n p i \<noteq> p"
proof
  assume "ring_index n p i = p"
  then have "(int p - 1 - int i + int n) mod int n = int p mod int n"
    using assms by (simp add: ring_index_def nat_eq_iff)
  then have "int n dvd (int p - 1 - int i + int n) - int p" by (simp only: mod_eq_dvd_iff)
  then have "int n dvd int n - ((int p - 1 - int i + int n) - int p)" by (rule dvd_diff[OF dvd_refl])
  then have "int n dvd int (Suc i)" by (simp add: algebra_simps)
  then show False using assms by (auto dest: zdvd_imp_le)
qed

lemma ring_holds_push:
  assumes "ring_holds l evs"
  shows "ring_holds (ring_push ev l) (evs @ [ev])"
proof -
  let ?n = "lg_ring_size l" and ?p = "lg_rptr l"
  have h: "0 < ?n" "length (lg_ring l) = ?n" "?p < ?n" using assms by (auto simp: ring_holds_def)
  have "(lg_ring l)[?p := Some ev] ! ring_index ?n (Suc ?p mod ?n) i =
      (if i < Suc (length evs) then Some ((ev # rev evs) ! i) else None)" if i: "i < ?n" for i
  proof (cases i)
    case 0
    with h show ?thesis by (simp add: ring_index_0)
  next
    case (Suc j)
    with i h(3) have "ring_index ?n ?p j \<noteq> ?p" by (intro ring_index_other) auto
    with Suc i h(1) assms show ?thesis by (simp add: ring_index_Suc ring_holds_def)
  qed
  with h show ?thesis by (auto simp: ring_holds_def ring_push_def)
qed

lemma ring_holds_blank: "ring_holds (blank_logger path) []"
  using ring_index_less[of 500] by (auto simp: ring_holds_def blank_logger_def)

lemma map_filter_index:
  "List.map_filter (\<lambda>i. if i < length xs then Some (xs ! i) else None) [0..<k] = take k xs"
proof (induction k)
  case (Suc k)
  have "take (Suc k) xs = take k xs @ (if k < length xs then [xs ! k] else [])"
    by (simp add: take_Suc_conv_app_nth)
  with Suc show ?case by (simp add: map_filter_def)
qed (simp add: map_filter_def)

lemma map_filter_cong_set:
  "(\<And>x. x \<in> set xs \<Longrightarrow> f x = g x) \<Longrightarrow> List.map_filter f xs = List.map_filter g xs"
  by (induction xs) (auto simp: map_filter_simps split: option.split)

lemma recent_ring:
  assumes "ring_holds l evs"
  shows "recent n l = take (min (lg_ring_size l) (nat n)) (rev evs)"
proof -
  let ?k = "min (lg_ring_size l) (nat n)"
  have "recent n l = List.map_filter (\<lambda>i. if i < length (rev evs) then Some (rev evs ! i) else None) [0..<?k]"
    unfolding recent_def using assms
    by (intro map_filter_cong_set) (auto simp: ring_holds_def ring_index_def)
  then show ?thesis by (simp only: map_filter_index)
qed

text \<open>What touches only file state leaves the ring alone.\<close>

definition same_ring :: "logger \<Rightarrow> logger \<Rightarrow> bool" where
  "same_ring l l1 \<longleftrightarrow> lg_ring l1 = lg_ring l \<and> lg_ring_size l1 = lg_ring_size l \<and> lg_rptr l1 = lg_rptr l \<and>
     lg_path l1 = lg_path l"

lemma same_ring_open_file: "same_ring l (fst (snd (open_file now l fs)))"
  by (auto simp: open_file_def same_ring_def split: prod.splits option.splits)

lemma same_ring_maybe_rotate: "same_ring l (fst (maybe_rotate E now l fs))"
  using same_ring_open_file[of "l\<lparr>lg_open := False\<rparr>" now]
  by (auto simp: maybe_rotate_def same_ring_def Let_def split: option.splits)

lemma same_ring_rotate: "same_ring l (fst (snd (rotate_log E now l fs)))"
  using same_ring_open_file[of "l\<lparr>lg_open := False\<rparr>" now]
  by (auto simp: rotate_log_def same_ring_def Let_def split: option.splits prod.splits) (metis fst_conv snd_conv)+

lemma ring_holds_same: "same_ring l l1 \<Longrightarrow> ring_holds l evs \<Longrightarrow> ring_holds l1 evs"
  by (simp add: ring_holds_def same_ring_def)

lemma ring_holds_log:
  "ring_holds l evs \<Longrightarrow> ring_holds (fst (log_event E now ev l fs)) (evs @ [complete_event E now ev])"
  using ring_holds_push ring_holds_same[OF same_ring_maybe_rotate[of l E now fs]]
  by (auto simp: log_event_def Let_def split: prod.split)

fun log_all :: "audit_env \<Rightarrow> (time \<times> audit_event) list \<Rightarrow> logger \<times> filesystem \<Rightarrow> logger \<times> filesystem" where
  "log_all E [] s = s"
| "log_all E ((now, ev) # es) s = log_all E es (log_event E now ev (fst s) (snd s))"

lemma ring_holds_log_all:
  "ring_holds (fst s) evs \<Longrightarrow>
   ring_holds (fst (log_all E es s)) (evs @ map (\<lambda>(now, ev). complete_event E now ev) es)"
proof (induction es arbitrary: s evs)
  case (Cons x es)
  obtain now ev where x: "x = (now, ev)" by fastforce
  have "ring_holds (fst (log_event E now ev (fst s) (snd s))) (evs @ [complete_event E now ev])"
    using Cons.prems by (rule ring_holds_log)
  from Cons.IH[OF this] show ?case by (simp add: x)
qed simp

section \<open>Histories\<close>

text \<open>What is done with a logger and, in \<open>Op_outside\<close>, with its files by others.\<close>

datatype audit_op = Op_log time audit_event | Op_rotate time | Op_cleanup time | Op_max_size int | Op_max_age int | Op_outside filesystem

fun audit_step :: "audit_env \<Rightarrow> audit_op \<Rightarrow> logger \<times> filesystem \<Rightarrow> logger \<times> filesystem" where
  "audit_step E (Op_log now ev) (l, fs) = log_event E now ev l fs"
| "audit_step E (Op_rotate now) (l, fs) = snd (rotate_log E now l fs)"
| "audit_step E (Op_cleanup now) (l, fs) = (l, snd (cleanup_log now l fs))"
| "audit_step E (Op_max_size b) (l, fs) = (set_max_size b l, fs)"
| "audit_step E (Op_max_age d) (l, fs) = (set_max_age d l, fs)"
| "audit_step E (Op_outside fs1) (l, fs) = (l, fs1)"

definition logged :: "audit_env \<Rightarrow> audit_op list \<Rightarrow> audit_event list" where
  "logged E ops = List.map_filter (\<lambda>x. case x of Op_log now ev \<Rightarrow> Some (complete_event E now ev) | _ \<Rightarrow> None) ops"

lemma logged_Cons: "logged E (x # ops) = logged E [x] @ logged E ops"
  by (cases x) (simp_all add: logged_def map_filter_simps)

lemma ring_holds_step:
  assumes "ring_holds (fst s) evs"
  shows "ring_holds (fst (audit_step E x s)) (evs @ logged E [x])" "lg_ring_size (fst (audit_step E x s)) = lg_ring_size (fst s)"
proof -
  obtain l fs where s: "s = (l, fs)" by (cases s)
  have r: "ring_holds l evs" using assms by (simp add: s)
  have log: "lg_ring_size (fst (log_event E now ev l fs)) = lg_ring_size l" for now ev
    using same_ring_maybe_rotate[of l E now fs] by (auto simp: log_event_def same_ring_def ring_push_def Let_def split: prod.split)
  have rot: "same_ring l (fst (snd (rotate_log E now l fs)))" for now by (rule same_ring_rotate)
  show "ring_holds (fst (audit_step E x s)) (evs @ logged E [x])"
  proof (cases x)
    case (Op_log now ev)
    then show ?thesis using ring_holds_log[OF r] by (simp add: s logged_def List.map_filter_def)
  next
    case (Op_rotate now)
    then show ?thesis using ring_holds_same[OF rot r] by (simp add: s logged_def List.map_filter_def)
  qed (use r in \<open>simp_all add: s logged_def List.map_filter_def ring_holds_def set_max_size_def set_max_age_def\<close>)
  show "lg_ring_size (fst (audit_step E x s)) = lg_ring_size (fst s)"
    by (cases x) (use log rot in \<open>simp_all add: s set_max_size_def set_max_age_def same_ring_def\<close>)
qed

lemma ring_holds_steps: "ring_holds (fst s) evs \<Longrightarrow> ring_holds (fst (fold (audit_step E) ops s)) (evs @ logged E ops)"
proof (induction ops arbitrary: s evs)
  case (Cons x ops)
  from Cons.IH[OF ring_holds_step(1)[OF Cons.prems, of E x]] show ?case
    by (simp add: logged_Cons[of E x ops])
qed (simp add: logged_def List.map_filter_def)

lemma ring_size_steps: "ring_holds (fst s) evs \<Longrightarrow> lg_ring_size (fst (fold (audit_step E) ops s)) = lg_ring_size (fst s)"
proof (induction ops arbitrary: s evs)
  case (Cons x ops)
  from Cons.IH[OF ring_holds_step(1)[OF Cons.prems, of E x]] ring_holds_step(2)[OF Cons.prems] show ?case by simp
qed simp

section \<open>Pages\<close>

lemma concat_chunks: "concat (map (\<lambda>k. take m (drop (k * m) xs)) [0..<n]) = take (n * m) xs"
proof (induction n)
  case (Suc n)
  have "take (Suc n * m) xs = take (n * m + m) xs" by (simp add: add.commute)
  with Suc show ?case by (simp only: take_add) simp
qed simp

lemma paginate_page:
  assumes "0 < limit" "int (Suc k) * int limit \<le> max_int64" and flt: "flt = srt (filter (selected E sev frm to) events)"
  shows "paginate E srt events (int k + 1) (int limit) sev frm to =
    Some (take limit (drop (k * limit) flt), int (length flt))"
proof -
  have "min_int64 \<le> int k * int limit" "min_int64 \<le> int k * int limit + int limit"
    by (rule order_trans[of _ 0]; simp add: min_int64_def)+
  moreover have "int k * int limit \<le> max_int64" "int k * int limit + int limit \<le> max_int64"
    using assms(2) by (auto simp: algebra_simps)
  ultimately have w: "wrap64 (int k * int limit) = int (k * limit)"
    "wrap64 (int (k * limit) + int limit) = int (k * limit) + int limit"
    by (simp_all add: wrap64_id)
  have d: "take (nat (int (length flt) - int (k * limit))) (drop (k * limit) flt) = drop (k * limit) flt"
    by (rule take_all) (simp only: length_drop nat_minus_as_int order_refl)
  show ?thesis
  proof (cases "k * limit < length flt")
    case True
    with assms(1) show ?thesis
      unfolding paginate_def Let_def flt[symmetric] using w d
      by (cases "int (length flt) < int (k * limit) + int limit") (auto simp: go_slice_def nat_add_distrib simp del: of_nat_mult)
  next
    case False
    with assms(1) show ?thesis
      unfolding paginate_def Let_def flt[symmetric] using w by (simp add: not_less del: of_nat_mult)
  qed
qed

section \<open>Properties\<close>

text \<open>C30. The ring buffer is the list of the last 500 events: whatever was done with a logger since NewLogger made it, with a file
  or without, logging (each time with a rotation when the file has grown), rotating, cleaning up, changing the limits, in any
  order and whatever else happened to the files meanwhile, Recent returns the newest of the events logged first, at most 500
  and at most as many as asked for.\<close>

theorem recent_is_last_events:
  assumes "new_logger now path fs = (Inr l, fs1)"
  shows "recent n (fst (fold (audit_step E) ops (l, fs1))) = take (min 500 (nat n)) (rev (logged E ops))"
proof -
  have l: "same_ring (blank_logger path) l"
    using assms same_ring_open_file[of "blank_logger path" now fs]
    by (auto simp: new_logger_def same_ring_def Let_def split: if_splits prod.splits option.splits)
  have "ring_holds (fst (fold (audit_step E) ops (l, fs1))) (logged E ops)"
    using ring_holds_steps[of "(l, fs1)" "[]"] ring_holds_same[OF l ring_holds_blank] by simp
  moreover have "lg_ring_size (fst (fold (audit_step E) ops (l, fs1))) = 500"
    using ring_size_steps[of "(l, fs1)" "[]" E ops] ring_holds_same[OF l ring_holds_blank] l
    by (simp add: same_ring_def blank_logger_def)
  ultimately show ?thesis by (simp add: recent_ring)
qed

text \<open>The pages of a query partition its result: with a page size of at least one and no page
  number so large that the offset leaves the 64-bit range, pages 1 to \<open>n\<close> are, one after the other,
  exactly the selected events in the sorted order, none longer than the page size, and every page
  reports the total.\<close>

theorem pages_partition:
  assumes "0 < limit" "int n * int limit \<le> max_int64" "flt = srt (filter (selected E sev frm to) events)"
    and "length flt \<le> n * limit"
  shows "\<exists>ps. map (\<lambda>k. paginate E srt events (int k + 1) (int limit) sev frm to) [0..<n] =
      map (\<lambda>xs. Some (xs, int (length flt))) ps \<and>
    concat ps = flt \<and> (\<forall>xs \<in> set ps. length xs \<le> limit)"
proof (intro exI conjI)
  let ?ps = "map (\<lambda>k. take limit (drop (k * limit) flt)) [0..<n]"
  have "int (Suc k) * int limit \<le> max_int64" if "k < n" for k
  proof -
    from that have "int (Suc k) * int limit \<le> int n * int limit" by (intro mult_right_mono) auto
    with assms(2) show ?thesis by linarith
  qed
  then show "map (\<lambda>k. paginate E srt events (int k + 1) (int limit) sev frm to) [0..<n] =
      map (\<lambda>xs. Some (xs, int (length flt))) ?ps"
    using paginate_page[of limit _ flt srt E sev frm to events, OF assms(1) _ assms(3)] by simp
  show "concat ?ps = flt" using assms(4) by (simp add: concat_chunks)
  show "\<forall>xs \<in> set ?ps. length xs \<le> limit" by simp
qed

definition demo_audit :: audit_env where
  "demo_audit = \<lparr>au_nano = show_int, au_stamp = (\<lambda>t. show_int (t div second)), au_parse = (\<lambda>s. None),
     au_encode = aev_id, au_decode = (\<lambda>s. None)\<rparr>"

definition demo_event :: "string \<Rightarrow> audit_event" where
  "demo_event i = \<lparr>aev_id = i, aev_timestamp = i, aev_type = [], aev_severity = ''info'', aev_actor = [], aev_action = [],
     aev_target = [], aev_namespace = [], aev_success = True, aev_detail = Map.empty, aev_duration = [],
     aev_error = [], aev_source = []\<rparr>"

text \<open>A log that is rotated at every event, and once by hand.\<close>

theorem recent_is_last_events_witness:
  "let s = fold (audit_step demo_audit) [Op_max_size 1, Op_log 1 (demo_event ''e''), Op_log second (demo_event ''f''), Op_rotate (2 * second),
       Op_log (3 * second) (demo_event ''g'')] ((blank_logger ''a'')\<lparr>lg_open := True\<rparr>, \<lparr>fs_files = [(''a'', \<lparr>f_lines = [], f_mtime = 0\<rparr>)], fs_denied = []\<rparr>)
   in recent 2 (fst s) = [demo_event ''g'', demo_event ''f''] \<and> map_option f_lines (fs_look (snd s) ''a.1'') = Some [''e''] \<and>
      map_option f_lines (fs_look (snd s) ''a.2'') = Some [''f''] \<and> map_option f_lines (fs_look (snd s) ''a'') = Some [''g'']"
proof -
  have n: "new_logger 0 ''a'' \<lparr>fs_files = [], fs_denied = []\<rparr> =
      (Inr ((blank_logger ''a'')\<lparr>lg_open := True\<rparr>), \<lparr>fs_files = [(''a'', \<lparr>f_lines = [], f_mtime = 0\<rparr>)], fs_denied = []\<rparr>)"
    by (simp add: new_logger_def open_file_def fs_open_append_def fs_look_def blank_logger_def)
  have t: "show_int 1 = ''1''" "show_int 2 = ''2''" by code_simp+
  show ?thesis unfolding Let_def recent_is_last_events[OF n]
    by (simp add: logged_def List.map_filter_def complete_event_def demo_event_def)
       (simp add: log_event_def rotate_log_def maybe_rotate_def set_max_size_def fs_look_def fs_rename_def fs_append_def open_file_def
         fs_open_append_def ring_push_def file_bytes_def demo_audit_def demo_event_def complete_event_def second_def blank_logger_def t Let_def)
qed

theorem pages_partition_witness:
  "\<exists>ps. map (\<lambda>k. paginate demo_audit rev (map demo_event [''1'', ''2'', ''3'']) (int k + 1) (int 2) ''info'' [] []) [0..<2] =
      map (\<lambda>xs. Some (xs, 3)) ps \<and> concat ps = map demo_event [''3'', ''2'', ''1'']"
proof -
  have f: "rev (filter (selected demo_audit ''info'' [] []) (map demo_event [''1'', ''2'', ''3''])) =
      map demo_event [''3'', ''2'', ''1'']"
    by (simp add: selected_def in_window_def demo_event_def)
  from pages_partition[of 2 2 _ rev demo_audit "''info''" "[]" "[]", OF _ _ f[symmetric]] show ?thesis
    by (auto simp: max_int64_def)
qed

text \<open>A page number from the URL can make the handler panic: the page number is not bounded, so
  when the 64-bit product of page offset and page size comes out negative, the slice expression of
  paginate has a negative bound.\<close>

theorem huge_page_panics:
  assumes "atoi (q ''page'') = Some page" "atoi (q ''limit'') = Some limit" "1 \<le> page" "1 \<le> limit" "limit \<le> 500"
    and "wrap64 ((page - 1) * limit) < 0"
    and "lg_path l = [] \<or> (\<exists>f. fs_look fs (lg_path l) = Some f \<and> lg_path l \<notin> set (fs_denied fs) \<and>
      snd (scan_lines (f_lines f)))"
  shows "handle_audit_events E srt q l fs = QueryPanic"
proof -
  have ne: "q ''page'' \<noteq> []" "q ''limit'' \<noteq> []" using assms(1,2) by (auto simp: atoi_def Let_def)
  have "paginate E srt evs page limit sev frm to = None" for evs sev frm to
    using assms(3,4,6) by (auto simp: paginate_def go_slice_def Let_def)
  then have "query_file E srt page limit (q ''severity'') (q ''from'') (q ''to'') l fs = QueryPanic"
    using assms(7) by (auto simp: query_file_def of_page_def)
  with assms(1,2,5) ne show ?thesis by (simp add: handle_audit_events_def parse_int_def)
qed

theorem huge_page_panics_witness:
  "handle_audit_events demo_audit rev ((\<lambda>_. [])(''page'' := ''4611686018427387905'', ''limit'' := ''2''))
     (blank_logger []) \<lparr>fs_files = [], fs_denied = []\<rparr> = QueryPanic"
proof (rule huge_page_panics)
  show "atoi (((\<lambda>_. [])(''page'' := ''4611686018427387905'', ''limit'' := ''2'')) ''page'') = Some 4611686018427387905"
    by (simp add: atoi_def is_digit_def digits_value_def min_int64_def max_int64_def)
  show "atoi (((\<lambda>_. [])(''page'' := ''4611686018427387905'', ''limit'' := ''2'')) ''limit'') = Some 2"
    by (simp add: atoi_def is_digit_def digits_value_def min_int64_def max_int64_def)
qed (simp_all add: wrap64_def blank_logger_def)

text \<open>Rotation keeps the log, once a second: rotating moves the log under its time-stamped name
  and starts an empty one, touching no other file; but the stamp has a resolution of one second, so
  rotating again within the same second overwrites the rotated log, and its events are in no file.\<close>

theorem rotation_per_second:
  assumes "lg_open l" "fs_look fs (lg_path l) = Some f" "fs_denied fs = []" "au_stamp E now2 = au_stamp E now"
    and "rot = lg_path l @ ''.'' @ au_stamp E now"
    and "(e1, l1, fs1) = rotate_log E now l fs" "(e2, l2, fs2) = rotate_log E now2 l1 fs1"
  shows "e1 = None \<and> lg_open l1 \<and> fs_look fs1 rot = Some f \<and>
    fs_look fs1 (lg_path l) = Some \<lparr>f_lines = [], f_mtime = now\<rparr> \<and>
    (\<forall>p. p \<noteq> rot \<longrightarrow> p \<noteq> lg_path l \<longrightarrow> fs_look fs1 p = fs_look fs p) \<and>
    e2 = None \<and> fs_look fs2 rot = Some \<lparr>f_lines = [], f_mtime = now\<rparr> \<and>
    (\<forall>p. p \<noteq> rot \<longrightarrow> p \<noteq> lg_path l \<longrightarrow> fs_look fs2 p = fs_look fs p)"
proof -
  have step: "rotate_log E t k s = (None, k, s\<lparr>fs_files := AList.update (lg_path k) \<lparr>f_lines = [], f_mtime = t\<rparr>
      (AList.update r g (AList.delete (lg_path k) (fs_files s)))\<rparr>)"
    if "lg_open k" "fs_look s (lg_path k) = Some g" "fs_denied s = []" "r = lg_path k @ ''.'' @ au_stamp E t" for t k s g r
    using that by (simp add: rotate_log_def fs_rename_def open_file_def fs_open_append_def fs_look_def Let_def
        update_conv' delete_conv')
  have 1: "e1 = None" "l1 = l" "fs1 = fs\<lparr>fs_files := AList.update (lg_path l) \<lparr>f_lines = [], f_mtime = now\<rparr>
      (AList.update rot f (AList.delete (lg_path l) (fs_files fs)))\<rparr>"
    using step[OF assms(1-3) assms(5)] assms(6) by auto
  have ne: "rot \<noteq> lg_path l" by (simp add: assms(5))
  have 2: "fs_look fs1 (lg_path l) = Some \<lparr>f_lines = [], f_mtime = now\<rparr>" "fs_denied fs1 = []"
    using assms(3) by (simp_all add: 1 fs_look_def update_conv')
  have "rotate_log E now2 l fs1 = (None, l, fs1\<lparr>fs_files := AList.update (lg_path l) \<lparr>f_lines = [], f_mtime = now2\<rparr>
      (AList.update rot \<lparr>f_lines = [], f_mtime = now\<rparr> (AList.delete (lg_path l) (fs_files fs1)))\<rparr>)"
    using step[OF assms(1) 2] assms(4,5) by simp
  with 1 assms(7) have 3: "e2 = None" "fs2 = fs1\<lparr>fs_files := AList.update (lg_path l) \<lparr>f_lines = [], f_mtime = now2\<rparr>
      (AList.update rot \<lparr>f_lines = [], f_mtime = now\<rparr> (AList.delete (lg_path l) (fs_files fs1)))\<rparr>"
    by auto
  show ?thesis
    using 1(1,2) 3(1) ne assms(1) unfolding 3(2) 1(3)
    by (simp add: fs_look_def update_conv' delete_conv')
qed

theorem rotation_per_second_witness:
  "let l = (blank_logger ''a'')\<lparr>lg_open := True\<rparr>;
       fs = \<lparr>fs_files = [(''a'', \<lparr>f_lines = [''event''], f_mtime = 0\<rparr>)], fs_denied = []\<rparr>;
       (e1, l1, fs1) = rotate_log demo_audit 5 l fs; (e2, l2, fs2) = rotate_log demo_audit 6 l1 fs1
   in map_option f_lines (fs_look fs1 ''a.0'') = Some [''event''] \<and> map_option f_lines (fs_look fs2 ''a.0'') = Some []"
proof -
  let ?l = "(blank_logger ''a'')\<lparr>lg_open := True\<rparr>"
  let ?fs = "\<lparr>fs_files = [(''a'', \<lparr>f_lines = [''event''], f_mtime = 0\<rparr>)], fs_denied = []\<rparr>"
  obtain e1 l1 fs1 where 1: "(e1, l1, fs1) = rotate_log demo_audit 5 ?l ?fs" by (metis prod_cases3)
  obtain e2 l2 fs2 where 2: "(e2, l2, fs2) = rotate_log demo_audit 6 l1 fs1" by (metis prod_cases3)
  have st: "show_int 0 = ''0''" by code_simp
  have "fs_look fs1 ''a.0'' = Some \<lparr>f_lines = [''event''], f_mtime = 0\<rparr> \<and>
      fs_look fs2 ''a.0'' = Some \<lparr>f_lines = [], f_mtime = 5\<rparr>"
    using rotation_per_second[OF _ _ _ _ refl 1 2] st
    by (simp add: demo_audit_def second_def blank_logger_def fs_look_def)
  then show ?thesis by (simp flip: 1 2 add: Let_def)
qed

end
