(* ===== verification/Chat.thy ===== *)
theory Chat
  imports Memory Agent Resilience Audit_Log
begin

text \<open>
  Package \<open>chat\<close> (internal/chat/engine.go): the table of conversations with its eviction, and the
  interactive run that streams events, retries the model behind the circuit breaker and executes
  tool calls.

  \<open>chat_env\<close> is what a run needs from its surroundings: the callback for stream events, the audit
  log (absent when it is nil), the clock, the timer of \<open>Retry\<close>, the JSON decoder, and the argument
  map seen as a dynamically typed value. The engine's
  maps are iterated in an order \<open>ks\<close> that the language leaves open. Metrics and log lines are not
  modelled. A run holds a pointer to its conversation and works on it in place; it is modelled on
  the conversation's value, which is put back under its identifier.
\<close>

section \<open>Events\<close>

datatype chat_data =
    DDelta string int
  | DThinking string int
  | DToolCall string string int
  | DToolResult string bool string string int
  | DAnswer string int int int int
  | DError string
  | DMemory "memory_item list"
  | DConversation string
  | DNothing

record stream_event =
  se_type :: string
  se_data :: chat_data
  se_timestamp :: string

record 'w chat_env =
  ch_emit :: "stream_event \<Rightarrow> 'w \<Rightarrow> 'w"
  ch_audit :: "(audit_event \<Rightarrow> 'w \<Rightarrow> 'w) option"
  ch_now :: "'w \<Rightarrow> time"
  ch_wait :: "duration \<Rightarrow> 'w \<Rightarrow> string option \<times> 'w"
  ch_parse :: "string \<Rightarrow> args result"
  ch_stamp :: "time \<Rightarrow> string"
  ch_value :: "args \<Rightarrow> any"
  ch_show_duration :: "duration \<Rightarrow> string"

definition emit :: "'w chat_env \<Rightarrow> string \<Rightarrow> chat_data \<Rightarrow> 'w \<Rightarrow> 'w" where
  "emit E ty d w = ch_emit E \<lparr>se_type = ty, se_data = d, se_timestamp = ch_stamp E (ch_now E w)\<rparr> w"

definition error_event :: "'w chat_env \<Rightarrow> string \<Rightarrow> 'w \<Rightarrow> 'w" where
  "error_event E msg = emit E ''error'' (DError msg)"

definition audit :: "'w chat_env \<Rightarrow> audit_event \<Rightarrow> 'w \<Rightarrow> 'w" where
  "audit E ev w = (case ch_audit E of None \<Rightarrow> w | Some write \<Rightarrow> write ev w)"

definition blank_event :: audit_event where
  "blank_event = \<lparr>aev_id = [], aev_timestamp = [], aev_type = [], aev_severity = [], aev_actor = [],
     aev_action = [], aev_target = [], aev_namespace = [], aev_success = False, aev_detail = Map.empty,
     aev_duration = [], aev_error = [], aev_source = []\<rparr>"

definition llm_failure_event :: "string \<Rightarrow> audit_event" where
  "llm_failure_event err = blank_event\<lparr>aev_type := ''llm_call'', aev_severity := ''critical'',
     aev_action := ''chat_completion'', aev_actor := ''dashboard-user'', aev_success := False, aev_error := err\<rparr>"

definition llm_success_event :: "string \<Rightarrow> int \<Rightarrow> completion_response \<Rightarrow> audit_event" where
  "llm_success_event cid step r = blank_event\<lparr>aev_type := ''llm_call'', aev_action := ''chat_completion'',
     aev_actor := ''dashboard-user'', aev_success := True, aev_severity := ''info'',
     aev_detail := [''step'' \<mapsto> AInt step, ''promptTokens'' \<mapsto> AInt (cp_prompt_tokens r),
       ''completionTokens'' \<mapsto> AInt (cp_completion_tokens r),
       ''hasToolCalls'' \<mapsto> ABool (cp_tool_calls r \<noteq> []), ''conversationId'' \<mapsto> AString cid]\<rparr>"

section \<open>The engine\<close>

definition cleanup_interval :: duration where "cleanup_interval = 5 * minute"
definition conversation_ttl :: duration where "conversation_ttl = 30 * minute"
definition max_conversations :: nat where "max_conversations = 1000"

record 'w engine =
  en_provider :: "'w \<Rightarrow> 'w provider option"
  en_registry :: "'w registry"
  en_max_steps :: nat
  en_timeout :: duration
  en_system_prompt :: string
  en_retry :: retry_config
  en_breaker :: breaker
  en_conversations :: "string \<rightharpoonup> 'w conversation"

definition new_engine :: "('w \<Rightarrow> 'w provider option) \<Rightarrow> 'w registry \<Rightarrow> string \<Rightarrow> 'w engine" where
  "new_engine provider_fn reg system_prompt = \<lparr>en_provider = provider_fn, en_registry = reg,
     en_max_steps = 15, en_timeout = 180 * second, en_system_prompt = system_prompt,
     en_retry = \<lparr>max_attempts = 5, initial_delay = 1 * second, max_delay = 30 * second, multiplier = 2\<rparr>,
     en_breaker = new_breaker 5 (60 * second), en_conversations = Map.empty\<rparr>"

definition remove_conv :: "string \<Rightarrow> (string \<rightharpoonup> 'v) \<Rightarrow> (string \<rightharpoonup> 'v)" where
  "remove_conv i m = m(i := None)"

definition activity :: "(string \<rightharpoonup> 'w conversation) \<Rightarrow> string \<Rightarrow> time" where
  "activity m i = (case m i of None \<Rightarrow> 0 | Some c \<Rightarrow> cv_updated_at c)"

definition evict_idle :: "time \<Rightarrow> string list \<Rightarrow> 'w engine \<Rightarrow> nat \<times> 'w engine" where
  "evict_idle now ks e =
     (let m = en_conversations e;
          idle = filter (\<lambda>i. conversation_ttl < time_sub now (activity m i)) ks;
          m1 = fold remove_conv idle m;
          ks1 = filter (\<lambda>i. m1 i \<noteq> None) ks;
          excess = take (length ks1 - max_conversations) (sort_key (activity m1) ks1);
          m2 = fold remove_conv excess m1
      in (length idle + length excess, e\<lparr>en_conversations := m2\<rparr>))"

fun find_oldest :: "(string \<Rightarrow> time) \<Rightarrow> string list \<Rightarrow> string \<Rightarrow> time \<Rightarrow> string" where
  "find_oldest act [] oid t = oid"
| "find_oldest act (i # is) oid t =
     (if oid = [] \<or> act i < t then find_oldest act is i (act i) else find_oldest act is oid t)"

definition evict_oldest :: "string list \<Rightarrow> (string \<rightharpoonup> 'w conversation) \<Rightarrow> (string \<rightharpoonup> 'w conversation)" where
  "evict_oldest ks m = (let oid = find_oldest (activity m) ks [] zero_time in
     if oid \<noteq> [] then remove_conv oid m else m)"

definition get_or_create :: "time \<Rightarrow> string list \<Rightarrow> 'w \<Rightarrow> string \<Rightarrow> 'w engine \<Rightarrow> 'w conversation option \<times> 'w engine" where
  "get_or_create now ks w i e = (case en_conversations e i of
     Some c \<Rightarrow> (Some c, e)
   | None \<Rightarrow> (case en_provider e w of
       None \<Rightarrow> (None, e)
     | Some p \<Rightarrow>
         (let m = (if max_conversations \<le> length ks then evict_oldest ks (en_conversations e) else en_conversations e);
              c = new_conversation now i p (en_system_prompt e)
          in (Some c, e\<lparr>en_conversations := m(i \<mapsto> c)\<rparr>))))"

definition conversation_stats :: "string list \<Rightarrow> 'w engine \<Rightarrow> conv_stats list" where
  "conversation_stats ks e = List.map_filter (\<lambda>i. map_option conv_stats_of (en_conversations e i)) ks"

definition delete_conversation :: "string \<Rightarrow> 'w engine \<Rightarrow> 'w engine" where
  "delete_conversation i e = e\<lparr>en_conversations := remove_conv i (en_conversations e)\<rparr>"

definition set_system_prompt :: "string \<Rightarrow> 'w engine \<Rightarrow> 'w engine" where
  "set_system_prompt s e = e\<lparr>en_system_prompt := s\<rparr>"

text \<open>The five characters of the provider's Chinese rate-limit message, in UTF-8.\<close>

definition busy_text :: string where
  "busy_text = [CHR 0xE8, CHR 0xAE, CHR 0xBF, CHR 0xE9, CHR 0x97, CHR 0xAE, CHR 0xE9, CHR 0x87, CHR 0x8F,
     CHR 0xE8, CHR 0xBF, CHR 0x87, CHR 0xE5, CHR 0xA4, CHR 0xA7]"

definition is_retryable_error :: "string \<Rightarrow> bool" where
  "is_retryable_error msg \<longleftrightarrow> (\<exists>s \<in> set [''429'', ''rate limit'', ''Too Many Requests'', busy_text,
     ''500'', ''502'', ''503'', ''Internal Server Error'', ''Bad Gateway'', ''Service Unavailable'',
     ''timeout'', ''deadline exceeded'', ''context deadline'',
     ''connection refused'', ''connection reset'', ''EOF'', ''no such host'']. contains msg s)"

section \<open>One call of the model\<close>

type_synonym 'w call_state = "completion_response option \<times> string option \<times> 'w"

definition emit_deltas :: "'w chat_env \<Rightarrow> int \<Rightarrow> string list \<Rightarrow> 'w \<Rightarrow> 'w" where
  "emit_deltas E step ds w = fold (\<lambda>d w. if d = [] then w else emit E ''thinking_delta'' (DDelta d step) w) ds w"

definition stream_once :: "'w chat_env \<Rightarrow> 'w provider \<Rightarrow> completion_request \<Rightarrow> int \<Rightarrow> 'w call_state \<Rightarrow>
    string option \<times> 'w call_state" where
  "stream_once E p req step st = (case st of (resp, lerr, w) \<Rightarrow>
     (case stream_complete p req w of ((ds, r), w1) \<Rightarrow>
       (let w2 = emit_deltas E step ds w1 in
        case r of
          Inl err \<Rightarrow> if is_retryable_error err then (Some err, resp, lerr, w2) else (None, resp, Some err, w2)
        | Inr x \<Rightarrow> (None, Some x, lerr, w2))))"

definition wait_state :: "'w chat_env \<Rightarrow> duration \<Rightarrow> 'w call_state \<Rightarrow> string option \<times> 'w call_state" where
  "wait_state E d st = (case st of (resp, lerr, w) \<Rightarrow>
     (let (e, w1) = ch_wait E d w in (e, resp, lerr, w1)))"

definition call_model :: "'w chat_env \<Rightarrow> retry_config \<Rightarrow> 'w provider \<Rightarrow> completion_request \<Rightarrow> int \<Rightarrow> 'w \<Rightarrow>
    (string + completion_response option) \<times> 'w" where
  "call_model E cfg p req step w =
     (case retry cfg (stream_once E p req step) (wait_state E) (None, None, w) of
        (Some rerr, _, _, w1) \<Rightarrow> (Inl rerr, w1)
      | (None, resp, Some lerr, w1) \<Rightarrow> (Inl lerr, w1)
      | (None, resp, None, w1) \<Rightarrow> (Inr resp, w1))"

section \<open>One tool call\<close>

definition chat_clip :: "string \<Rightarrow> string" where
  "chat_clip s = (if 8000 < length s then take 8000 s @ newline @ ''... (truncated)'' else s)"

text \<open>Output, error and success of the call; \<open>None\<close> is the panic on a nil result without error.\<close>

definition chat_outcome :: "exec_ret \<Rightarrow> (string \<times> string \<times> bool) option" where
  "chat_outcome ret = (case ret of
     (_, Some err) \<Rightarrow> Some ([], err, False)
   | (None, None) \<Rightarrow> None
   | (Some r, None) \<Rightarrow> if \<not> tr_success r then Some (tr_output r, tr_error r, False)
       else Some (chat_clip (tr_output r), [], True))"

definition tool_event :: "'w chat_env \<Rightarrow> string \<Rightarrow> args \<Rightarrow> exec_ret \<Rightarrow> duration \<Rightarrow> audit_event" where
  "tool_event E name args ret d = blank_event\<lparr>aev_type := ''tool_call'', aev_action := name,
     aev_actor := ''dashboard-user'',
     aev_success := (case ret of (Some r, None) \<Rightarrow> tr_success r | _ \<Rightarrow> False), aev_severity := ''info'',
     aev_detail := [''args'' \<mapsto> ch_value E args, ''duration'' \<mapsto> AString (ch_show_duration E d)],
     aev_duration := ch_show_duration E d\<rparr>"

definition exec_call :: "'w chat_env \<Rightarrow> 'w registry \<Rightarrow> tool_call \<Rightarrow> 'w \<Rightarrow> (string \<times> string \<times> bool) option \<times> 'w" where
  "exec_call E reg tc w = (case ch_parse E (tc_arguments tc) of
     Inl err \<Rightarrow> (Some ([], ''Failed to parse arguments: '' @ err, False), w)
   | Inr args \<Rightarrow> (case registry_get (tc_name tc) reg of
       None \<Rightarrow> (Some ([], ''Unknown tool: '' @ tc_name tc, False), w)
     | Some t \<Rightarrow> (case tool_execute t args w of (ret, w1) \<Rightarrow>
         (let w2 = audit E (tool_event E (tc_name tc) args ret (time_sub (ch_now E w1) (ch_now E w))) w1
          in (chat_outcome ret, w2)))))"

text \<open>The flag is false when the call panics; what was done before it stays done.\<close>

definition chat_call :: "'w chat_env \<Rightarrow> 'w registry \<Rightarrow> int \<Rightarrow> tool_call \<Rightarrow> 'w conversation \<Rightarrow> 'w \<Rightarrow>
    bool \<times> 'w conversation \<times> 'w" where
  "chat_call E reg step tc c w =
     (let w1 = emit E ''tool_call'' (DToolCall (tc_name tc) (tc_arguments tc) step) w in
      case exec_call E reg tc w1 of
        (None, w2) \<Rightarrow> (False, c, w2)
      | (Some (out, err, ok), w2) \<Rightarrow>
          (let w3 = emit E ''tool_result'' (DToolResult (tc_name tc) ok (truncate_text out 2000) err step) w2;
               body = (if err \<noteq> [] then ''Error: '' @ err @ newline @ out else out)
           in (True, add_tool_result (ch_now E w3) (tc_id tc) body c, w3)))"

fun chat_calls :: "'w chat_env \<Rightarrow> 'w registry \<Rightarrow> int \<Rightarrow> tool_call list \<Rightarrow> 'w conversation \<Rightarrow> 'w \<Rightarrow>
    bool \<times> 'w conversation \<times> 'w" where
  "chat_calls E reg step [] c w = (True, c, w)"
| "chat_calls E reg step (tc # tcs) c w = (case chat_call E reg step tc c w of
     (False, c1, w1) \<Rightarrow> (False, c1, w1)
   | (True, c1, w1) \<Rightarrow> chat_calls E reg step tcs c1 w1)"

section \<open>The run\<close>

datatype chat_result = ChatOk | ChatErr string | ChatPanic

definition chat_request :: "tool_definition list \<Rightarrow> message list \<Rightarrow> completion_request" where
  "chat_request tools ms = \<lparr>cq_messages = ms, cq_tools = tools, cq_model = [], cq_max_tokens = 4096,
     cq_temperature = f64 (1 / 10)\<rparr>"

definition assistant :: "string \<Rightarrow> tool_call list \<Rightarrow> message" where
  "assistant content tcs = \<lparr>msg_role = role_assistant, msg_content = content, msg_tool_call_id = [],
     msg_tool_calls = tcs\<rparr>"

definition deliver :: "'w chat_env \<Rightarrow> string \<Rightarrow> int \<Rightarrow> int \<Rightarrow> int \<Rightarrow> 'w conversation \<Rightarrow> 'w \<Rightarrow> 'w conversation \<times> 'w" where
  "deliver E content tp tcn steps c w =
     (let c1 = add_assistant_message (ch_now E w) (assistant content []) c;
          w1 = emit E ''answer'' (DAnswer content tp tcn (tp + tcn) steps) w
      in (c1, emit E ''done'' DNothing w1))"

definition max_steps_answer :: string where
  "max_steps_answer = ''I've reached the maximum number of analysis steps. Based on my investigation so far, I need more specific information to continue. Please provide additional context or narrow the scope.''"

text \<open>\<open>k\<close> of the \<open>n\<close> steps remain; the counters are the tokens used so far.\<close>

fun chat_loop :: "'w chat_env \<Rightarrow> retry_config \<Rightarrow> 'w provider \<Rightarrow> 'w registry \<Rightarrow> tool_definition list \<Rightarrow> string \<Rightarrow> nat \<Rightarrow>
    nat \<Rightarrow> int \<Rightarrow> int \<Rightarrow> 'w conversation \<Rightarrow> breaker \<Rightarrow> 'w \<Rightarrow> chat_result \<times> 'w conversation \<times> breaker \<times> 'w" where
  "chat_loop E cfg p reg tools cid n 0 tp tcn c cb w =
     (let (c1, w1) = deliver E max_steps_answer tp tcn (int n) c w in (ChatOk, c1, cb, w1))"
| "chat_loop E cfg p reg tools cid n (Suc k) tp tcn c cb w =
     (let step = int (n - k) in
      case cb_allow (ch_now E w) cb of
        (False, cb1) \<Rightarrow> (ChatErr ''circuit breaker open'', c, cb1,
          error_event E ''Circuit breaker is open: too many failures, please wait a moment.'' w)
      | (True, cb1) \<Rightarrow> (case call_model E cfg p (chat_request tools (cv_messages c)) step w of
          (Inl err, w1) \<Rightarrow>
            (let cb2 = cb_record_failure (ch_now E w1) cb1;
                 w2 = error_event E (''LLM call failed (after '' @ show_int (max_attempts cfg) @ '' retries): '' @ err) w1;
                 w3 = audit E (llm_failure_event err) w2
             in (ChatErr err, c, cb2, w3))
        | (Inr None, w1) \<Rightarrow> (ChatPanic, c, cb_record_success cb1, w1)
        | (Inr (Some r), w1) \<Rightarrow>
            (let cb2 = cb_record_success cb1;
                 tp1 = tp + cp_prompt_tokens r; tc1 = tcn + cp_completion_tokens r;
                 w2 = audit E (llm_success_event cid step r) w1
             in if cp_tool_calls r = [] then
                  (let (c1, w3) = deliver E (cp_content r) tp1 tc1 step c w2 in (ChatOk, c1, cb2, w3))
                else
                  (let w3 = (if cp_content r \<noteq> [] then emit E ''thinking'' (DThinking (cp_content r) step) w2 else w2);
                       c1 = add_assistant_message (ch_now E w3) (assistant (cp_content r) (cp_tool_calls r)) c
                   in case chat_calls E reg step (cp_tool_calls r) c1 w3 of
                        (False, c2, w4) \<Rightarrow> (ChatPanic, c2, cb2, w4)
                      | (True, c2, w4) \<Rightarrow> chat_loop E cfg p reg tools cid n k tp1 tc1 c2 cb2 w4))))"

text \<open>What comes before the loop: the user's message, and compression if it is needed.\<close>

definition prepare :: "'w chat_env \<Rightarrow> string \<Rightarrow> 'w conversation \<Rightarrow> 'w \<Rightarrow> 'w conversation \<times> 'w" where
  "prepare E user_message c w =
     (let c1 = add_user_message (ch_now E w) user_message c in
      case maybe_compress (ch_now E w) (ch_stamp E (ch_now E w)) c1 w of
        (Inr True, c2, w1) \<Rightarrow> (c2, emit E ''memory'' (DMemory (cv_memory c2)) w1)
      | (_, c2, w1) \<Rightarrow> (c2, w1))"

definition run_stream :: "'w chat_env \<Rightarrow> string list \<Rightarrow> string list \<Rightarrow> string \<Rightarrow> string \<Rightarrow> 'w registry option \<Rightarrow>
    'w engine \<Rightarrow> 'w \<Rightarrow> chat_result \<times> 'w engine \<times> 'w" where
  "run_stream E ks tool_order cid user_message reg e w =
     (case get_or_create (ch_now E w) ks w cid e of
        (None, e1) \<Rightarrow> (ChatErr ''no provider available'', e1,
          error_event E ''No provider configured. Please set up LLM config first.'' w)
      | (Some c, e1) \<Rightarrow>
          (let (c1, w1) = prepare E user_message c w in
           case en_provider e1 w1 of
             None \<Rightarrow> (ChatErr ''provider unavailable'', e1\<lparr>en_conversations := (en_conversations e1)(cid \<mapsto> c1)\<rparr>,
               error_event E ''Provider became unavailable during chat'' w1)
           | Some p \<Rightarrow>
               (let r = (case reg of None \<Rightarrow> en_registry e1 | Some r \<Rightarrow> r);
                    tools = to_provider_tools (definitions tool_order r);
                    (res, c2, cb, w2) = chat_loop E (en_retry e1) p r tools cid (en_max_steps e1) (en_max_steps e1)
                      0 0 c1 (en_breaker e1) w1
                in (res, e1\<lparr>en_conversations := (en_conversations e1)(cid \<mapsto> c2), en_breaker := cb\<rparr>, w2))))"

section \<open>The table of conversations\<close>

lemma fold_remove_conv: "fold remove_conv is m = (\<lambda>i. if i \<in> set is then None else m i)"
  by (induction "is" arbitrary: m) (auto simp: remove_conv_def)

lemma dom_fold_remove: "dom (fold remove_conv is m) = dom m - set is"
  by (auto simp: fold_remove_conv split: if_splits)

lemma find_oldest_min:
  "oid \<noteq> [] \<Longrightarrow> t = act oid \<Longrightarrow> [] \<notin> set is \<Longrightarrow>
   find_oldest act is oid t \<in> insert oid (set is) \<and> (\<forall>i \<in> insert oid (set is). act (find_oldest act is oid t) \<le> act i)"
proof (induction "is" arbitrary: oid t)
  case (Cons i "is")
  show ?case
  proof (cases "act i < t")
    case True
    with Cons.IH[of i "act i"] Cons.prems show ?thesis by (auto intro: order_trans less_imp_le)
  next
    case False
    with Cons.IH[of oid t] Cons.prems show ?thesis by force
  qed
qed simp

lemma find_oldest_list:
  assumes "is \<noteq> []" "[] \<notin> set is"
  shows "find_oldest act is [] t \<in> set is \<and> (\<forall>i \<in> set is. act (find_oldest act is [] t) \<le> act i)"
  using assms find_oldest_min[of "hd is" "act (hd is)" act "tl is"] by (cases "is") auto

inductive table_reach :: "'w engine \<Rightarrow> bool" where
  start: "table_reach (new_engine pf reg sp)"
| get: "table_reach e \<Longrightarrow> map_order (en_conversations e) ks \<Longrightarrow> i \<noteq> [] \<Longrightarrow> table_reach (snd (get_or_create now ks w i e))"
| delete: "table_reach e \<Longrightarrow> table_reach (delete_conversation i e)"
| evict: "table_reach e \<Longrightarrow> map_order (en_conversations e) ks \<Longrightarrow> table_reach (snd (evict_idle now ks e))"
| use: "table_reach e \<Longrightarrow> en_conversations e i = Some c \<Longrightarrow>
    table_reach (e\<lparr>en_conversations := (en_conversations e)(i \<mapsto> c1), en_breaker := cb\<rparr>)"

definition table_ok :: "'w engine \<Rightarrow> bool" where
  "table_ok e \<longleftrightarrow> finite (dom (en_conversations e)) \<and> card (dom (en_conversations e)) \<le> max_conversations \<and>
     [] \<notin> dom (en_conversations e)"

lemma map_order_length: "map_order m ks \<Longrightarrow> length ks = card (dom m)"
  by (metis distinct_card map_order_def)

lemma evict_oldest_one:
  assumes "map_order m ks" "[] \<notin> dom m" "dom m \<noteq> {}"
  shows "\<exists>v \<in> dom m. (\<forall>j \<in> dom m. activity m v \<le> activity m j) \<and> evict_oldest ks m = m(v := None)"
proof (rule bexI)
  let ?v = "find_oldest (activity m) ks [] zero_time"
  from assms have ks: "[] \<notin> set ks" "set ks = dom m" by (auto simp: map_order_def)
  then have "ks \<noteq> []" using assms(3) by (metis set_empty)
  note f = find_oldest_list[OF this ks(1), of "activity m" zero_time]
  then show "?v \<in> dom m" by (simp add: ks(2))
  then have "?v \<noteq> []" using assms(2) by metis
  with f show "(\<forall>j \<in> dom m. activity m ?v \<le> activity m j) \<and> evict_oldest ks m = m(?v := None)"
    by (simp add: ks(2) evict_oldest_def remove_conv_def Let_def)
qed

lemma get_or_create_new:
  assumes "table_ok e" "map_order (en_conversations e) ks" "en_conversations e i = None" "en_provider e w = Some p"
    and "c = new_conversation now i p (en_system_prompt e)"
  shows "get_or_create now ks w i e = (Some c, e\<lparr>en_conversations :=
      (if card (dom (en_conversations e)) < max_conversations then en_conversations e
       else evict_oldest ks (en_conversations e))(i \<mapsto> c)\<rparr>)"
  using assms map_order_length[OF assms(2)] by (auto simp: get_or_create_def Let_def)

lemma table_ok_get:
  assumes "table_ok e" "map_order (en_conversations e) ks" "i \<noteq> []"
  shows "table_ok (snd (get_or_create now ks w i e))"
proof (cases "en_conversations e i = None \<and> en_provider e w \<noteq> None")
  case True
  then obtain p where p: "en_provider e w = Some p" and n: "en_conversations e i = None" by blast
  let ?m = "en_conversations e"
  have fin: "finite (dom ?m)" using assms(1) by (simp add: table_ok_def)
  note g = get_or_create_new[OF assms(1,2) n p refl, of now]
  show ?thesis
  proof (cases "card (dom ?m) < max_conversations")
    case True
    with g assms n fin show ?thesis by (auto simp: table_ok_def card_insert_if)
  next
    case False
    then have "dom ?m \<noteq> {}" by (auto simp: max_conversations_def)
    then obtain v where v: "v \<in> dom ?m" "evict_oldest ks ?m = ?m(v := None)"
      using assms(1) evict_oldest_one[OF assms(2)] unfolding table_ok_def by blast
    have "card (dom ?m - {v}) = card (dom ?m) - 1" using fin v(1) by simp
    then have "card (insert i (dom ?m - {v})) \<le> max_conversations"
      using fin assms(1) n False by (auto simp: table_ok_def card_insert_if max_conversations_def)
    then show ?thesis using g assms(1,3) fin v(2) False by (simp add: table_ok_def)
  qed
next
  case False
  with assms(1) show ?thesis by (auto simp: get_or_create_def split: option.splits)
qed

lemma evict_idle_conversations:
  "\<exists>gone. en_conversations (snd (evict_idle now ks e)) = fold remove_conv gone (en_conversations e)"
proof -
  have "\<exists>gone. fold remove_conv b (fold remove_conv a m) = fold remove_conv gone m" for a b and m :: "string \<rightharpoonup> 'v"
    by (rule exI[of _ "a @ b"]) simp
  then show ?thesis by (simp add: evict_idle_def Let_def)
qed

lemma table_ok_restrict:
  assumes "table_ok e" "en_conversations e1 = fold remove_conv gone (en_conversations e)"
  shows "table_ok e1"
proof -
  have "dom (en_conversations e1) = dom (en_conversations e) - set gone"
    unfolding assms(2) by (rule dom_fold_remove)
  moreover have "card (dom (en_conversations e) - set gone) \<le> card (dom (en_conversations e))"
    using assms(1) by (intro card_mono) (auto simp: table_ok_def)
  ultimately show ?thesis using assms(1) by (auto simp: table_ok_def)
qed

lemma table_reach_ok: "table_reach e \<Longrightarrow> table_ok e"
proof (induction rule: table_reach.induct)
  case (delete e i)
  show ?case by (rule table_ok_restrict[OF delete.IH, of _ "[i]"]) (simp add: delete_conversation_def)
next
  case (evict e ks now)
  with evict_idle_conversations[of now ks e] show ?case by (auto intro: table_ok_restrict)
next
  case (use e i c c1 cb)
  then have "insert i (dom (en_conversations e)) = dom (en_conversations e)" by auto
  with use show ?case by (simp add: table_ok_def)
next
  case (start pf reg sp)
  show ?case by (simp add: table_ok_def new_engine_def)
next
  case (get e ks i now w)
  then show ?case by (intro table_ok_get)
qed

section \<open>Properties of the table\<close>

text \<open>C29. The table of conversations never holds more than 1000, in any history of lookups, deletions,
  cleanups and runs; and a lookup of an unknown name makes room only when the table is full, by
  removing one conversation that no other has been idle longer than.\<close>

theorem conversation_cap:
  assumes "table_reach e" "map_order (en_conversations e) ks" "i \<noteq> []" "en_conversations e i = None"
    and "en_provider e w = Some p" "(r, e1) = get_or_create now ks w i e"
  shows "card (dom (en_conversations e1)) \<le> 1000 \<and> r = Some (new_conversation now i p (en_system_prompt e)) \<and>
    (if card (dom (en_conversations e)) < 1000
     then en_conversations e1 = (en_conversations e)(i \<mapsto> new_conversation now i p (en_system_prompt e))
     else \<exists>v \<in> dom (en_conversations e).
       (\<forall>j \<in> dom (en_conversations e). activity (en_conversations e) v \<le> activity (en_conversations e) j) \<and>
       en_conversations e1 = (en_conversations e)(v := None, i \<mapsto> new_conversation now i p (en_system_prompt e)))"
proof -
  let ?m = "en_conversations e"
  have ok: "table_ok e" using assms(1) by (rule table_reach_ok)
  have "table_ok e1" using table_ok_get[OF ok assms(2,3), of now w] assms(6) by (metis snd_conv)
  then have "card (dom (en_conversations e1)) \<le> 1000" by (simp add: table_ok_def max_conversations_def)
  moreover have "r = Some (new_conversation now i p (en_system_prompt e))"
    and new: "en_conversations e1 = (if card (dom ?m) < 1000 then ?m else evict_oldest ks ?m)
       (i \<mapsto> new_conversation now i p (en_system_prompt e))"
    using get_or_create_new[OF ok assms(2,4,5) refl, of now] assms(6) by (simp_all add: max_conversations_def)
  moreover have "\<exists>v \<in> dom ?m. (\<forall>j \<in> dom ?m. activity ?m v \<le> activity ?m j) \<and>
      en_conversations e1 = ?m(v := None, i \<mapsto> new_conversation now i p (en_system_prompt e))"
    if "\<not> card (dom ?m) < 1000"
  proof -
    from that have "dom ?m \<noteq> {}" by auto
    then obtain v where "v \<in> dom ?m" "\<forall>j \<in> dom ?m. activity ?m v \<le> activity ?m j" "evict_oldest ks ?m = ?m(v := None)"
      using evict_oldest_one[OF assms(2)] ok unfolding table_ok_def by blast
    with new that show ?thesis by auto
  qed
  ultimately show ?thesis by simp
qed

definition demo_engine :: "unit engine" where
  "demo_engine = new_engine (\<lambda>w. Some demo_provider) Map.empty ''sys''"

theorem conversation_cap_witness:
  "en_conversations (snd (get_or_create 5 [] () ''a'' demo_engine)) =
     [''a'' \<mapsto> new_conversation 5 ''a'' demo_provider ''sys'']"
proof -
  have e: "en_conversations demo_engine = Map.empty" "en_provider demo_engine () = Some demo_provider"
    "en_system_prompt demo_engine = ''sys''" "table_reach demo_engine"
    by (simp_all add: demo_engine_def new_engine_def[symmetric] table_reach.start) (simp_all add: new_engine_def)
  have "map_order (en_conversations demo_engine) []" by (simp add: e(1) map_order_def)
  from conversation_cap[OF e(4) this _ _ e(2) prod.collapse, of "''a''" 5] show ?thesis
    by (simp add: e)
qed

text \<open>The cleanup removes exactly the conversations idle for more than 30 minutes and reports
  their number; the cap never adds to them, because the table is always within it.\<close>

theorem cleanup_removes_idle:
  assumes "table_reach e" "map_order (en_conversations e) ks" "(n, e1) = evict_idle now ks e"
    and "idle = {i. \<exists>c. en_conversations e i = Some c \<and> conversation_ttl < time_sub now (cv_updated_at c)}"
  shows "en_conversations e1 = (\<lambda>i. if i \<in> idle then None else en_conversations e i) \<and> n = card idle"
proof -
  let ?m = "en_conversations e"
  let ?idle = "filter (\<lambda>i. conversation_ttl < time_sub now (activity ?m i)) ks"
  let ?m1 = "fold remove_conv ?idle ?m"
  let ?ks1 = "filter (\<lambda>i. ?m1 i \<noteq> None) ks"
  have ok: "table_ok e" using assms(1) by (rule table_reach_ok)
  have ks: "distinct ks" "set ks = dom ?m" using assms(2) by (auto simp: map_order_def)
  have idle: "set ?idle = idle" unfolding assms(4) using ks by (auto simp: activity_def)
  have "length ?ks1 \<le> length ks" by simp
  also have "\<dots> \<le> max_conversations" using ok map_order_length[OF assms(2)] by (simp add: table_ok_def)
  finally have none: "take (length ?ks1 - max_conversations) xs = []" for xs :: "string list" by simp
  have "n = length ?idle" "en_conversations e1 = ?m1"
    using assms(3) unfolding evict_idle_def Let_def none by simp_all
  moreover have "length ?idle = card idle" using distinct_card[of ?idle] ks(1) idle by simp
  ultimately show ?thesis unfolding idle[symmetric] fold_remove_conv by auto
qed

theorem cleanup_removes_idle_witness:
  "en_conversations (snd (evict_idle (31 * minute) [''a''] (snd (get_or_create 0 [] () ''a'' demo_engine)))) = Map.empty"
proof -
  let ?e = "snd (get_or_create 0 [] () ''a'' demo_engine)"
  have m: "en_conversations ?e = [''a'' \<mapsto> new_conversation 0 ''a'' demo_provider ''sys'']"
    by (simp add: get_or_create_def demo_engine_def new_engine_def max_conversations_def Let_def)
  have r: "table_reach ?e"
    unfolding demo_engine_def by (intro table_reach.get table_reach.start) (auto simp: new_engine_def map_order_def)
  have "map_order (en_conversations ?e) [''a'']" by (simp add: m map_order_def)
  from cleanup_removes_idle[OF r this prod.collapse refl, of "31 * minute"] show ?thesis
    by (auto simp: m new_conversation_def conversation_ttl_def minute_def second_def time_sub_def
        max_int64_def min_int64_def)
qed

section \<open>What the model is sent\<close>

lemma stream_once_strict:
  "protocol_ok (cq_messages req) \<Longrightarrow> stream_once E (strict p) req step = stream_once E p req step"
  by (rule ext) (simp add: stream_once_def strict_def split: prod.split)

lemma call_model_strict:
  "protocol_ok (cq_messages req) \<Longrightarrow> call_model E cfg (strict p) req step w = call_model E cfg p req step w"
  by (simp add: call_model_def stream_once_strict)

lemma chat_calls_messages:
  "chat_calls E reg step tcs c w = (True, c1, w1) \<Longrightarrow>
   \<exists>rs. cv_messages c1 = cv_messages c @ rs \<and> map msg_tool_call_id rs = map tc_id tcs \<and>
     (\<forall>r \<in> set rs. msg_role r = role_tool)"
proof (induction tcs arbitrary: c w)
  case (Cons tc tcs)
  obtain ok c2 w2 where x: "chat_call E reg step tc c w = (ok, c2, w2)" by (metis prod_cases3)
  with Cons.prems have ok: "ok" "chat_calls E reg step tcs c2 w2 = (True, c1, w1)" by (auto split: bool.splits)
  with x obtain body where "cv_messages c2 = cv_messages c @ [tool_message (tc_id tc) body]"
    by (auto simp: chat_call_def add_tool_result_def add_message_def Let_def split: prod.splits option.splits)
  with Cons.IH[OF ok(2)] show ?case by (force simp: tool_message_def)
qed simp

lemma chat_loop_strict:
  "protocol_ok (cv_messages c) \<Longrightarrow>
   chat_loop E cfg (strict p) reg tools cid n k tp tcn c cb w = chat_loop E cfg p reg tools cid n k tp tcn c cb w \<and>
   (fst (chat_loop E cfg p reg tools cid n k tp tcn c cb w) \<noteq> ChatPanic \<longrightarrow>
    protocol_ok (cv_messages (fst (snd (chat_loop E cfg p reg tools cid n k tp tcn c cb w)))))"
proof (induction k arbitrary: tp tcn c cb w)
  case 0
  then show ?case
    by (auto simp: deliver_def add_assistant_message_def add_message_def assistant_def protocol_ok_def
        proto_append role_defs Let_def)
next
  case (Suc k)
  let ?step = "int (n - k)" and ?q = "chat_request tools (cv_messages c)"
  obtain go cb1 where cb: "cb_allow (ch_now E w) cb = (go, cb1)" by fastforce
  obtain r w1 where r: "call_model E cfg p ?q ?step w = (r, w1)" by fastforce
  have s: "call_model E cfg (strict p) ?q ?step w = (r, w1)"
    using r Suc.prems by (simp add: call_model_strict chat_request_def)
  consider "\<not> go" | err where "go" "r = Inl err" | "go" "r = Inr None" | x where "go" "r = Inr (Some x)"
    by (cases r; metis option.exhaust)
  then show ?case
  proof cases
    case (4 x)
    show ?thesis
    proof (cases "cp_tool_calls x = []")
      case True
      with 4 Suc.prems cb r s show ?thesis
        by (auto simp: deliver_def add_assistant_message_def add_message_def assistant_def protocol_ok_def
            proto_append role_defs Let_def)
    next
      case False
      let ?w2 = "audit E (llm_success_event cid ?step x) w1"
      let ?w3 = "if cp_content x \<noteq> [] then emit E ''thinking'' (DThinking (cp_content x) ?step) ?w2 else ?w2"
      let ?m = "assistant (cp_content x) (cp_tool_calls x)"
      let ?c1 = "add_assistant_message (ch_now E ?w3) ?m c"
      obtain ok c2 w4 where t: "chat_calls E reg ?step (cp_tool_calls x) ?c1 ?w3 = (ok, c2, w4)"
        by (metis prod_cases3)
      show ?thesis
      proof (cases ok)
        case True
        with t have "chat_calls E reg ?step (cp_tool_calls x) ?c1 ?w3 = (True, c2, w4)" by simp
        from chat_calls_messages[OF this] obtain rs where rs:
          "cv_messages c2 = cv_messages ?c1 @ rs" "map msg_tool_call_id rs = map tc_id (cp_tool_calls x)"
          "\<forall>r \<in> set rs. msg_role r = role_tool" by auto
        have "protocol_ok (cv_messages c @ ?m # rs)"
          using rs(2,3) by (intro protocol_ok_turn Suc.prems) (auto simp: assistant_def)
        then have "protocol_ok (cv_messages c2)"
          using rs(1) by (simp add: add_assistant_message_def add_message_def)
        note ih = Suc.IH[OF this, of "tp + cp_prompt_tokens x" "tcn + cp_completion_tokens x" "cb_record_success cb1" w4]
        show ?thesis using ih 4 False True cb r s t by (simp add: Let_def)
      qed (use 4 False cb r s t in \<open>simp add: Let_def\<close>)
    qed
  qed (use Suc.prems cb r s in \<open>simp_all add: Let_def\<close>)
qed

text \<open>C27. From a well-formed conversation the engine, too, only sends well-formed lists of messages
  to the model: its loop behaves the same when the provider first checks the order of messages, on
  every retry and after every failing or unknown tool; and it leaves the conversation well-formed,
  unless a tool panics.\<close>

theorem chat_conversation_wellformed:
  assumes "protocol_ok (cv_messages c)"
    and "(res, c1, cb1, w1) = chat_loop E cfg p reg tools cid n k 0 0 c cb w"
  shows "chat_loop E cfg (strict p) reg tools cid n k 0 0 c cb w = (res, c1, cb1, w1) \<and>
    (res \<noteq> ChatPanic \<longrightarrow> protocol_ok (cv_messages c1))"
  using chat_loop_strict[OF assms(1), of E cfg p reg tools cid n k 0 0 cb w] by (simp flip: assms(2))

definition demo_chat_env :: "unit chat_env" where
  "demo_chat_env = \<lparr>ch_emit = (\<lambda>e w. w), ch_audit = None, ch_now = (\<lambda>w. 0), ch_wait = (\<lambda>d w. (None, w)),
     ch_parse = (\<lambda>s. Inr Map.empty), ch_stamp = (\<lambda>t. []), ch_value = (\<lambda>a. ANil), ch_show_duration = (\<lambda>d. [])\<rparr>"

theorem chat_conversation_wellformed_witness:
  "let c = new_conversation 0 ''c'' demo_provider ''sys'' in
   fst (chat_loop demo_chat_env (en_retry demo_engine) (strict demo_provider) Map.empty [] ''c'' 15 15 0 0 c
     (en_breaker demo_engine) ()) =
   fst (chat_loop demo_chat_env (en_retry demo_engine) demo_provider Map.empty [] ''c'' 15 15 0 0 c
     (en_breaker demo_engine) ())"
proof -
  let ?c = "new_conversation 0 ''c'' demo_provider ''sys''"
  let ?r = "chat_loop demo_chat_env (en_retry demo_engine) demo_provider Map.empty [] ''c'' 15 15 0 0 ?c
     (en_breaker demo_engine) ()"
  have "protocol_ok (cv_messages ?c)" by (simp add: protocol_ok_def new_conversation_def text_message_def role_defs)
  moreover obtain res c1 cb1 w1 where r: "(res, c1, cb1, w1) = ?r" by (metis prod_cases4)
  ultimately have "chat_loop demo_chat_env (en_retry demo_engine) (strict demo_provider) Map.empty [] ''c'' 15 15 0 0 ?c
     (en_breaker demo_engine) () = (res, c1, cb1, w1)"
    by (intro chat_conversation_wellformed[THEN conjunct1])
  then show ?thesis by (simp only: Let_def r)
qed

text \<open>Compression can make a conversation unusable: it cuts between an assistant's tool calls and
  their answers. There is a well-formed conversation, of one long question, four tool calls and an
  answer, that MaybeCompress leaves with an answer to a call that is no longer there.\<close>

definition demo_exchange :: "nat \<Rightarrow> conv_op list" where
  "demo_exchange n = AddUser 1 (replicate n CHR ''x'') #
     concat (map (\<lambda>i. [AddAssistant 1 (assistant [] [\<lparr>tc_id = i, tc_name = ''t'', tc_arguments = ''{}''\<rparr>]),
       AddTool 1 i ''done'']) [''1'', ''2'', ''3'', ''4'']) @ [AddAssistant 1 (assistant ''answer'' [])]"

definition demo_exchanged :: "nat \<Rightarrow> unit conversation" where
  "demo_exchanged n = fold conv_exec (demo_exchange n) (new_conversation 0 ''c'' demo_provider ''sys'')"

lemma demo_exchanged_messages:
  "cv_messages (demo_exchanged n) = text_message role_system ''sys'' # text_message role_user (replicate n CHR ''x'') #
     concat (map (\<lambda>i. [assistant [] [\<lparr>tc_id = i, tc_name = ''t'', tc_arguments = ''{}''\<rparr>], tool_message i ''done''])
       [''1'', ''2'', ''3'', ''4'']) @ [assistant ''answer'' []]"
  "cv_token_estimate (demo_exchanged n) = int (n div 4) + 5" "cv_max_tokens (demo_exchanged n) = 20000"
  "cv_keep_recent (demo_exchanged n) = 8" "cv_provider (demo_exchanged n) = demo_provider"
  by (simp_all add: demo_exchanged_def demo_exchange_def new_conversation_def add_user_message_def
      add_assistant_message_def add_tool_result_def add_message_def estimate_tokens_def text_message_def
      tool_message_def assistant_def)

theorem compress_splits_calls:
  "\<exists>c :: unit conversation. conv_reach ''sys'' c \<and> protocol_ok (cv_messages c) \<and>
     (\<exists>c1. maybe_compress 2 ''t'' c () = (Inr True, c1, ()) \<and> \<not> protocol_ok (cv_messages c1))"
proof (rule exI[of _ "demo_exchanged 80000"], intro conjI)
  show "conv_reach ''sys'' (demo_exchanged n)" for n
    unfolding demo_exchanged_def by (intro conv_reach_fold conv_reach.start)
  show "protocol_ok (cv_messages (demo_exchanged n))" for n
    by (simp add: demo_exchanged_messages protocol_ok_def text_message_def tool_message_def assistant_def role_defs)
  have "\<exists>c1. maybe_compress 2 ''t'' (demo_exchanged n) () = (Inr True, c1, ()) \<and> \<not> protocol_ok (cv_messages c1)"
    if "20000 < int (n div 4) + 5" for n
    using that by (simp add: maybe_compress_def needs_compression_def compress_with_def compress_begin_def
        demo_exchanged_messages demo_provider_def compress_end_def add_memory_def Let_def protocol_ok_def
        summary_message_def text_message_def tool_message_def role_defs)
  from this[of 80000] show "\<exists>c1. maybe_compress 2 ''t'' (demo_exchanged 80000) () = (Inr True, c1, ()) \<and>
      \<not> protocol_ok (cv_messages c1)" by simp
qed

end
