(* ===== verification/Dash_Metrics.thy ===== *)
theory Dash_Metrics
  imports Go_Float Http
begin

text \<open>
  The response times the dashboard keeps of its own routes (internal/dashboard/
  handlers_performance.go) and the templates of their paths (normalizePath of middleware.go).
\<close>

section \<open>Samples\<close>

record api_sample =
  sm_method :: string
  sm_path :: string
  sm_duration :: duration
  sm_status :: int

record perf_tracker =
  pt_samples :: "api_sample list"
  pt_max_size :: nat

definition new_perf_tracker :: "nat \<Rightarrow> perf_tracker" where
  "new_perf_tracker n = \<lparr>pt_samples = [], pt_max_size = n\<rparr>"

text \<open>With room for no sample at all the slice expression of an empty slice panics, which is \<open>None\<close>.\<close>

definition record_sample :: "api_sample \<Rightarrow> perf_tracker \<Rightarrow> perf_tracker option" where
  "record_sample s t =
     (if pt_max_size t \<le> length (pt_samples t) then
        (if pt_samples t = [] then None else Some (t\<lparr>pt_samples := tl (pt_samples t) @ [s]\<rparr>))
      else Some (t\<lparr>pt_samples := pt_samples t @ [s]\<rparr>))"

text \<open>The \<open>p\<close>-th percentile of a sorted slice: \<open>math.Ceil\<close> of a float64 product picks the index.\<close>

definition percentile_index :: "int \<Rightarrow> int \<Rightarrow> int" where
  "percentile_index p n = (let i = int64_of_f64 (of_int \<lceil>f64_mul (f64_div (f64_of_int p) 100) (f64_of_int n)\<rceil>) - 1
     in if (if i < 0 then 0 else i) \<ge> n then n - 1 else if i < 0 then 0 else i)"

definition percentile :: "rat list \<Rightarrow> int \<Rightarrow> rat" where
  "percentile xs p = (if xs = [] then 0 else if length xs = 1 then xs ! 0
     else xs ! nat (percentile_index p (int (length xs))))"

record endpoint_stats =
  es_path :: string
  es_method :: string
  es_count :: int
  es_p50 :: rat
  es_p95 :: rat
  es_p99 :: rat
  es_max :: rat
  es_avg :: rat
  es_errors :: int

definition sample_ms :: "api_sample \<Rightarrow> rat" where
  "sample_ms s = f64_div (f64_of_int (go_div (sm_duration s) 1000)) 1000"

definition group_key :: "api_sample \<Rightarrow> string" where
  "group_key s = sm_method s @ '' '' @ sm_path s"

text \<open>\<open>strings.SplitN\<close> at the first space; every key has one.\<close>

definition key_parts :: "string \<Rightarrow> string \<times> string" where
  "key_parts k = (let m = takeWhile (\<lambda>c. c \<noteq> CHR '' '') k in (m, drop (length m + 1) k))"

definition group_stats :: "api_sample list \<Rightarrow> string \<Rightarrow> endpoint_stats" where
  "group_stats samples k =
     (let g = filter (\<lambda>s. group_key s = k) samples; ms = map sample_ms g; sorted = sort ms
      in \<lparr>es_path = snd (key_parts k), es_method = fst (key_parts k), es_count = int (length g),
          es_p50 = percentile sorted 50, es_p95 = percentile sorted 95, es_p99 = percentile sorted 99,
          es_max = fold (\<lambda>x m. if m < x then x else m) ms 0,
          es_avg = f64_div (fold (\<lambda>x s. f64_add s x) ms 0) (f64_of_int (int (length g))),
          es_errors = int (length (filter (\<lambda>s. 400 \<le> sm_status s) g))\<rparr>)"

text \<open>
  The statistics of every group, slowest first. \<open>order\<close> is what the iteration over the map and
  the unstable sort leave open: it arranges the list it is given.
\<close>

definition perf_stats :: "(endpoint_stats list \<Rightarrow> endpoint_stats list) \<Rightarrow> perf_tracker \<Rightarrow> endpoint_stats list" where
  "perf_stats order t = order (map (group_stats (pt_samples t)) (remdups (map group_key (pt_samples t))))"

definition slowest_first :: "endpoint_stats list \<Rightarrow> endpoint_stats list" where
  "slowest_first xs = sort_key (\<lambda>s. - es_p95 s) xs"

definition perf_summary :: "endpoint_stats list \<Rightarrow> int \<times> int \<times> rat \<times> rat option" where
  "perf_summary stats =
     (let reqs = sum_list (map es_count stats); errs = sum_list (map es_errors stats); p95s = sort (map es_p95 stats)
      in (reqs, errs, if 0 < reqs then f64_mul (f64_div (f64_of_int errs) (f64_of_int reqs)) 100 else 0,
          if stats \<noteq> [] then Some (percentile p95s 50) else None))"

section \<open>Templates of paths\<close>

fun join_slash :: "string list \<Rightarrow> string" where
  "join_slash [] = []"
| "join_slash [s] = s"
| "join_slash (s # t # ss) = s @ ''/'' @ join_slash (t # ss)"

definition normalize_path :: "string \<Rightarrow> string" where
  "normalize_path path0 =
     (let path = takeWhile (\<lambda>c. c \<noteq> CHR ''?'') path0; parts = split_on (CHR ''/'') path in
      if length parts \<le> 3 then path
      else if parts ! 1 = ''api'' then
        (if 5 \<le> length parts \<and> parts ! 2 = ''pods'' then join_slash (parts[3 := ''{ns}'', 4 := ''{name}''])
         else if parts ! 2 = ''nodes'' then join_slash (parts[3 := ''{node}''])
         else if parts ! 2 = ''diagnostics'' \<or> parts ! 2 = ''remediation'' then join_slash (parts[3 := ''{name}''])
         else path)
      else path)"

section \<open>Lemmas\<close>

text \<open>The ring keeps the last samples.\<close>

fun record_all :: "api_sample list \<Rightarrow> perf_tracker \<Rightarrow> perf_tracker option" where
  "record_all [] t = Some t"
| "record_all (s # ss) t = Option.bind (record_sample s t) (record_all ss)"

lemma record_last:
  assumes "0 < pt_max_size t" "length (pt_samples t) \<le> pt_max_size t"
  shows "record_all ss t = Some (t\<lparr>pt_samples :=
    drop (length (pt_samples t @ ss) - pt_max_size t) (pt_samples t @ ss)\<rparr>)"
  using assms
proof (induction ss arbitrary: t)
  case (Cons s ss)
  show ?case
  proof (cases "pt_max_size t \<le> length (pt_samples t)")
    case True
    with Cons.prems obtain x xs where x: "pt_samples t = x # xs" "pt_max_size t = Suc (length xs)"
      by (cases "pt_samples t") auto
    with True Cons.IH[of "t\<lparr>pt_samples := xs @ [s]\<rparr>"] Cons.prems show ?thesis
      by (simp add: record_sample_def)
  next
    case False
    with Cons.IH[of "t\<lparr>pt_samples := pt_samples t @ [s]\<rparr>"] Cons.prems show ?thesis
      by (simp add: record_sample_def)
  qed
qed simp

text \<open>The three quotients of the code are rounded down, by less than \<open>1 / 2 ^ 53\<close>.\<close>

lemma percent_quotient:
  assumes "p \<in> {50, 95, 99}"
  shows "f64_div (f64_of_int p) 100 \<le> of_int p / 100 \<and> of_int p / 100 - 1 / 2 ^ 53 \<le> f64_div (f64_of_int p) 100"
proof -
  have "f64 (1 / 2) = 1 / 2" "f64 (19 / 20) = 4278419646001971 / 4503599627370496" "f64 (99 / 100) = 4458563631096791 / 4503599627370496"
    by code_simp+
  with assms show ?thesis by (auto simp: f64_div_def f64_of_int_exact)
qed

lemma ceiling_product:
  assumes "p \<in> {50, 95, 99}" "0 < n" "n \<le> 2 ^ 40"
  shows "\<lceil>f64_mul (f64_div (f64_of_int p) 100) (f64_of_int n)\<rceil> = \<lceil>of_int (p * n) / (100 :: rat)\<rceil>"
proof -
  let ?c = "f64_div (f64_of_int p) 100" and ?m = "\<lceil>of_int (p * n) / (100 :: rat)\<rceil>"
  have n: "f64_of_int n = of_int n" using assms(2,3) by (simp add: f64_of_int_exact)
  have "0 < p * n" using assms(1,2) by auto
  have "p * n \<le> 100 * n" using assms(1,2) by auto
  then have "p * n \<le> 100 * 2 ^ 40" using assms(3) by linarith
  with \<open>0 < p * n\<close> have "(0 :: rat) < of_int (p * n)" "of_int (p * n) \<le> (of_int (100 * 2 ^ 40) :: rat)"
    by (simp_all only: of_int_0_less_iff of_int_le_iff)
  then have m: "0 < ?m" "?m \<le> 2 ^ 40" by (auto simp: ceiling_le_iff)
  have "(0 :: rat) \<le> of_int (?m - 1)" using m(1) by (intro iffD2[OF of_int_0_le_iff]) linarith
  then have m1: "(0 :: rat) \<le> of_int (?m - 1) + 1 / 2 ^ 7" by (rule add_nonneg_nonneg) simp
  have "0 \<le> ?c" using percent_quotient[OF assms(1)] assms(1) by auto
  have "?c * of_int n \<le> of_int (p * n) / 100"
    using mult_right_mono[OF conjunct1[OF percent_quotient[OF assms(1)]], of "of_int n"] assms(2) by simp
  also have "\<dots> \<le> of_int ?m" by linarith
  finally have "f64 (?c * of_int n) \<le> f64 (of_int ?m)"
    using \<open>0 \<le> ?c\<close> assms(2) by (intro f64_mono) auto
  then have up: "f64 (?c * of_int n) \<le> of_int ?m" using m by (simp add: f64_int)
  have "of_int (100 * (?m - 1)) < (of_int (p * n) :: rat)" by (simp add: field_simps) linarith
  then have "100 * (?m - 1) + 1 \<le> p * n" by (simp only: of_int_less_iff)
  then have "of_int (100 * (?m - 1) + 1) / 100 \<le> (of_int (p * n) / 100 :: rat)"
    by (intro divide_right_mono iffD2[OF of_int_le_iff]) simp_all
  moreover have "(of_int p / 100 - 1 / 2 ^ 53) * of_int n \<le> ?c * of_int n"
    using conjunct2[OF percent_quotient[OF assms(1)]] assms(2) by (intro mult_right_mono) auto
  moreover have "(of_int n :: rat) \<le> 2 ^ 40" using assms(3) by (metis of_int_le_iff of_int_numeral of_int_power)
  ultimately have "of_int (?m - 1) + 1 / 2 ^ 7 \<le> ?c * of_int n" by (simp add: field_simps)
  then have "f64 (of_int (?m - 1) + 1 / 2 ^ 7) \<le> f64 (?c * of_int n)"
    by (rule f64_mono[OF m1])
  moreover have "of_int (?m - 1) + 1 / 2 ^ 7 = of_int ((?m - 1) * 2 ^ 7 + 1) * (2 :: rat) powi (- 7)"
    by (simp add: power_int_minus field_simps)
  moreover have "f64 (of_int ((k - 1) * 2 ^ 7 + 1) * (2 :: rat) powi (- 7)) = of_int ((k - 1) * 2 ^ 7 + 1) * 2 powi (- 7)"
    if "0 < k" "k \<le> 2 ^ 40" for k :: int
    using that by (intro f64_dyadic) auto
  from this[OF m] have "f64 (of_int ((?m - 1) * 2 ^ 7 + 1) * (2 :: rat) powi (- 7)) = of_int ((?m - 1) * 2 ^ 7 + 1) * 2 powi (- 7)" .
  ultimately have "of_int (?m - 1) < f64 (?c * of_int n)" by (simp add: power_int_minus field_simps)
  with up show ?thesis unfolding f64_mul_def n by (intro ceiling_unique) auto
qed

lemma percentile_nth:
  assumes "p \<in> {50, 95, 99}" "xs \<noteq> []" "int (length xs) \<le> 2 ^ 40"
  shows "\<exists>i < length xs. percentile xs p = xs ! i \<and> 100 * int i < p * int (length xs) \<and> p * int (length xs) \<le> 100 * (int i + 1)"
proof -
  let ?n = "int (length xs)"
  let ?m = "\<lceil>of_int (p * ?n) / (100 :: rat)\<rceil>"
  have n: "0 < ?n" using assms(2) by simp
  have lo: "100 * (?m - 1) < p * ?n"
  proof -
    have "of_int (100 * (?m - 1)) < (of_int (p * ?n) :: rat)" by (simp add: field_simps) linarith
    then show ?thesis by (simp only: of_int_less_iff)
  qed
  have up: "p * ?n \<le> 100 * ?m"
  proof -
    have "(of_int (p * ?n) :: rat) \<le> of_int (100 * ?m)" by (simp add: field_simps) linarith
    then show ?thesis by (simp only: of_int_le_iff)
  qed
  have pn: "0 < p * ?n" "p * ?n \<le> 100 * ?n" using assms(1) n by auto
  with lo up have m: "0 < ?m" "?m \<le> ?n" by linarith+
  have "int64_of_f64 (of_int k) = k" if "0 < k" "k \<le> 2 ^ 40" for k :: int
    using that by (subst int64_of_f64_floor) (simp_all add: max_int64_def)
  then have "int64_of_f64 (of_int ?m) = ?m" using m assms(3) by (meson order_trans)
  then have idx: "percentile_index p ?n = ?m - 1"
    using m(1,2) by (simp add: percentile_index_def ceiling_product[OF assms(1) n assms(3)] del: of_int_mult)
  show ?thesis
  proof (cases "length xs = 1")
    case True
    then have "?n = 1" by simp
    with pn lo up show ?thesis using assms(2) True by (intro exI[of _ 0]) (auto simp: percentile_def)
  next
    case False
    then have "percentile xs p = xs ! nat (?m - 1)" using assms(2) idx by (simp add: percentile_def)
    moreover have "nat (k - 1) < length xs \<and> int (nat (k - 1)) = k - 1" if "0 < k" "k \<le> ?n" for k
      using that by linarith
    ultimately show ?thesis using m lo up by (metis diff_add_cancel)
  qed
qed

section \<open>Properties\<close>

text \<open>The reported percentiles are the nearest-rank percentiles: of the sorted response times of a
  route, at least the given share is not above the reported value and less than that share is below
  it, and the value is one of them; the float64 product never picks a neighbour.\<close>

theorem percentile_nearest_rank:
  assumes "p \<in> {50, 95, 99}" "sorted xs" "xs \<noteq> []" "int (length xs) \<le> 2 ^ 40"
  shows "percentile xs p \<in> set xs \<and>
    p * int (length xs) \<le> 100 * int (length (filter (\<lambda>x. x \<le> percentile xs p) xs)) \<and>
    100 * int (length (filter (\<lambda>x. x < percentile xs p) xs)) < p * int (length xs)"
proof -
  obtain i where i: "i < length xs" "percentile xs p = xs ! i" "100 * int i < p * int (length xs)"
    "p * int (length xs) \<le> 100 * (int i + 1)"
    using percentile_nth[OF assms(1,3,4)] by blast
  have "i + 1 = length (filter (\<lambda>x. x \<le> xs ! i) (take (i + 1) xs))"
    using i(1) sorted_nth_mono[OF assms(2)] by (subst filter_True) (auto simp: in_set_conv_nth)
  also have "\<dots> \<le> length (filter (\<lambda>x. x \<le> xs ! i) (take (i + 1) xs @ drop (i + 1) xs))"
    unfolding filter_append by simp
  finally have up: "i + 1 \<le> length (filter (\<lambda>x. x \<le> xs ! i) xs)" by simp
  have "filter (\<lambda>x. x < xs ! i) (drop i xs) = []"
    using sorted_nth_mono[OF assms(2)] by (auto simp: filter_empty_conv in_set_conv_nth not_less)
  then have "length (filter (\<lambda>x. x < xs ! i) (take i xs @ drop i xs)) \<le> length (take i xs)"
    unfolding filter_append using length_filter_le[of "\<lambda>x. x < xs ! i" "take i xs"] by (simp del: append_take_drop_id)
  then have down: "length (filter (\<lambda>x. x < xs ! i) xs) \<le> i" by simp
  from up down i show ?thesis by auto
qed

theorem percentile_nearest_rank_witness:
  "percentile [1, 2, 4, 8 :: rat] 95 \<in> set [1, 2, 4, 8] \<and>
   95 * int (length [1, 2, 4, 8 :: rat]) \<le> 100 * int (length (filter (\<lambda>x. x \<le> percentile [1, 2, 4, 8] 95) [1, 2, 4, 8])) \<and>
   100 * int (length (filter (\<lambda>x. x < percentile [1, 2, 4, 8] 95) [1, 2, 4, 8])) < 95 * int (length [1, 2, 4, 8 :: rat])"
  by (rule percentile_nearest_rank) simp_all

end
