(* ===== verification/Dash_Net.thy ===== *)
theory Dash_Net
  imports Access Dash_Metrics
begin

text \<open>
  What the dashboard wraps around all its routes (internal/dashboard/middleware.go and server.go): the
  request id, the metrics, the compression, the security headers and CORS; the check of the address
  for the metrics route; the counter of connections and the draining of the server.
\<close>

section \<open>Writers and replies\<close>

type_synonym headers = "string \<rightharpoonup> string"

text \<open>
  What a handler sees of the \<open>http.ResponseWriter\<close> it is given: the headers set so far, whether the
  value implements \<open>http.Flusher\<close>, and whether its \<open>Flush\<close> reaches the connection.
\<close>

record writer =
  wr_headers :: headers
  wr_flusher :: bool
  wr_reaches :: bool

text \<open>
  What it leaves: the headers, the status code when one was written, the body when one was, and
  whether the body goes out through the compressor. A body alone writes the code 200.
\<close>

record 'b reply =
  ry_headers :: headers
  ry_code :: "int option"
  ry_body :: "'b option"
  ry_gzip :: bool

type_synonym ('d, 'b) stage = "http_req \<Rightarrow> writer \<Rightarrow> 'd \<Rightarrow> 'b reply \<times> 'd"

definition server_writer :: writer where
  "server_writer = \<lparr>wr_headers = Map.empty, wr_flusher = True, wr_reaches = True\<rparr>"

section \<open>CORS\<close>

definition parse_cors_origins :: "string \<Rightarrow> string list" where
  "parse_cors_origins raw =
     (if trim_space raw = [] then [] else filter (\<lambda>x. x \<noteq> []) (map trim_space (split_on (CHR '','') raw)))"

definition is_origin_allowed :: "string list \<Rightarrow> string \<Rightarrow> bool" where
  "is_origin_allowed origins x = list_ex (\<lambda>a. a = x) origins"

definition cors_headers :: "string \<Rightarrow> headers \<Rightarrow> headers" where
  "cors_headers x h = h(''Access-Control-Allow-Origin'' \<mapsto> x,
     ''Access-Control-Allow-Methods'' \<mapsto> ''GET, POST, PUT, DELETE, OPTIONS'',
     ''Access-Control-Allow-Headers'' \<mapsto> ''Content-Type, Authorization'',
     ''Access-Control-Allow-Credentials'' \<mapsto> ''true'', ''Vary'' \<mapsto> ''Origin'')"

definition cors_middleware :: "string list \<Rightarrow> ('d, 'b) stage \<Rightarrow> ('d, 'b) stage" where
  "cors_middleware origins next_stage rq wr d =
     (let x = rq_header rq ''Origin'';
          h1 = (if x \<noteq> [] \<and> is_origin_allowed origins x then cors_headers x (wr_headers wr) else wr_headers wr)
      in if rq_method rq = ''OPTIONS'' then (\<lparr>ry_headers = h1, ry_code = Some 200, ry_body = None, ry_gzip = False\<rparr>, d)
         else next_stage rq (wr\<lparr>wr_headers := h1\<rparr>) d)"

section \<open>Headers, compression, metrics and request ids\<close>

definition security_headers :: "bool \<Rightarrow> headers \<Rightarrow> headers" where
  "security_headers tls h =
     (let h1 = h(''X-Content-Type-Options'' \<mapsto> ''nosniff'', ''X-Frame-Options'' \<mapsto> ''DENY'',
            ''X-XSS-Protection'' \<mapsto> ''1; mode=block'', ''Referrer-Policy'' \<mapsto> ''strict-origin-when-cross-origin'',
            ''Permissions-Policy'' \<mapsto> ''geolocation=(), microphone=(), camera=()'');
          h2 = (if tls then h1(''Strict-Transport-Security'' \<mapsto> ''max-age=31536000; includeSubDomains'') else h1)
      in h2(''Content-Security-Policy'' \<mapsto> ''default-src 'self'; img-src 'self' data:; style-src 'self' 'unsafe-inline'; script-src 'self' 'unsafe-inline'; connect-src 'self'; font-src 'self'; frame-ancestors 'none'' @ [CHR 0x27]))"

definition security_headers_middleware :: "bool \<Rightarrow> ('d, 'b) stage \<Rightarrow> ('d, 'b) stage" where
  "security_headers_middleware tls next_stage rq wr d =
     next_stage rq (wr\<lparr>wr_headers := security_headers tls (wr_headers wr)\<rparr>) d"

text \<open>The compressing writer is a flusher of its own, and passes a flush on when the writer below is one.\<close>

definition gzip_writer :: "writer \<Rightarrow> writer" where
  "gzip_writer wr = wr\<lparr>wr_flusher := True, wr_reaches := wr_flusher wr \<and> wr_reaches wr\<rparr>"

definition is_event_stream :: "headers \<Rightarrow> bool" where
  "is_event_stream h \<longleftrightarrow> (case h ''Content-Type'' of Some ct \<Rightarrow> contains ct ''text/event-stream'' | None \<Rightarrow> False)"

definition gzip_middleware :: "('d, 'b) stage \<Rightarrow> ('d, 'b) stage" where
  "gzip_middleware next_stage rq wr d =
     (if \<not> contains (rq_header rq ''Accept-Encoding'') ''gzip'' \<or> \<not> has_prefix (rq_path rq) ''/api/''
      then next_stage rq wr d
      else (case next_stage rq (gzip_writer wr) d of (r, d1) \<Rightarrow>
        (if ry_code r = None \<and> ry_body r = None \<or> is_event_stream (ry_headers r) then r
         else r\<lparr>ry_headers := (ry_headers r)(''Content-Encoding'' \<mapsto> ''gzip'', ''Content-Length'' := None), ry_gzip := True\<rparr>, d1)))"

text \<open>
  The tracker of response times; \<open>took\<close> is how long the request took. The writer that captures the
  status is a plain writer: it is no flusher. The counters of the metrics library are not kept.
\<close>

definition http_metrics_middleware :: "duration \<Rightarrow> ('d \<times> perf_tracker, 'b) stage \<Rightarrow> ('d \<times> perf_tracker, 'b) stage" where
  "http_metrics_middleware took next_stage rq wr dt =
     (let path = rq_path rq in
      if \<not> has_prefix path ''/api/'' \<and> path \<noteq> ''/healthz'' \<and> path \<noteq> ''/readyz'' then next_stage rq wr dt
      else (case next_stage rq (wr\<lparr>wr_flusher := False, wr_reaches := False\<rparr>) dt of (r, (d, t)) \<Rightarrow>
        (case record_sample \<lparr>sm_method = rq_method rq, sm_path = normalize_path path, sm_duration = took,
            sm_status = (case ry_code r of Some code \<Rightarrow> code | None \<Rightarrow> 200)\<rparr> t of
           None \<Rightarrow> (r, (d, t)) | Some t1 \<Rightarrow> (r, (d, t1)))))"

text \<open>\<open>fresh\<close> is what \<open>generateRequestID\<close> makes.\<close>

definition request_id_middleware :: "string \<Rightarrow> ('d, 'b) stage \<Rightarrow> ('d, 'b) stage" where
  "request_id_middleware fresh next_stage rq wr d =
     (let i = rq_header rq ''X-Request-ID'' in
      next_stage rq (wr\<lparr>wr_headers := (wr_headers wr)(''X-Request-ID'' \<mapsto> (if i = [] then fresh else i))\<rparr>) d)"

text \<open>The handler of the server, from the outside in; \<open>inner\<close> is authentication and the routes behind it.\<close>

definition full_handler :: "string \<Rightarrow> duration \<Rightarrow> bool \<Rightarrow> string list \<Rightarrow> ('d \<times> perf_tracker, 'b) stage \<Rightarrow>
    ('d \<times> perf_tracker, 'b) stage" where
  "full_handler fresh took tls origins inner =
     request_id_middleware fresh (http_metrics_middleware took (gzip_middleware
       (security_headers_middleware tls (cors_middleware origins inner))))"

section \<open>Local requests\<close>

text \<open>The host of a remote address, as the code strips its port.\<close>

definition remote_host :: "string \<Rightarrow> string" where
  "remote_host addr =
     (if has_prefix addr ''['' then
        (case last_index (CHR '']'') addr of Some i \<Rightarrow> if 0 < i then drop 1 (take i addr) else addr | None \<Rightarrow> addr)
      else (case last_index (CHR '':'') addr of Some i \<Rightarrow> if 0 < i then take i addr else addr | None \<Rightarrow> addr))"

definition local_only_middleware :: "(http_req \<Rightarrow> 'd \<Rightarrow> http_resp \<times> 'd) \<Rightarrow> http_req \<Rightarrow> 'd \<Rightarrow> http_resp \<times> 'd" where
  "local_only_middleware next_handler rq d =
     (let host = remote_host (rq_remote_addr rq) in
      if host \<noteq> ''127.0.0.1'' \<and> host \<noteq> ''::1'' \<and> host \<noteq> ''localhost''
      then (http_error 403 (json_error ''forbidden: metrics endpoint is accessible from localhost only''), d)
      else next_handler rq d)"

section \<open>Draining\<close>

datatype conn_state = StateNew | StateActive | StateIdle | StateHijacked | StateClosed

record drain_state =
  dr_draining :: bool
  dr_active :: int
  dr_shutdown :: bool

definition new_drain_state :: drain_state where
  "new_drain_state = \<lparr>dr_draining = False, dr_active = 0, dr_shutdown = False\<rparr>"

definition conn_state_tracker :: "conn_state \<Rightarrow> drain_state \<Rightarrow> drain_state" where
  "conn_state_tracker st s = (case st of
     StateNew \<Rightarrow> s\<lparr>dr_active := dr_active s + 1\<rparr> | StateActive \<Rightarrow> s\<lparr>dr_active := dr_active s + 1\<rparr>
   | StateIdle \<Rightarrow> s\<lparr>dr_active := dr_active s - 1\<rparr> | StateClosed \<Rightarrow> s\<lparr>dr_active := dr_active s - 1\<rparr>
   | StateHijacked \<Rightarrow> s\<lparr>dr_active := dr_active s - 1\<rparr>)"

text \<open>\<open>Stop\<close> up to the shutdown of the library's server.\<close>

definition mark_draining :: "drain_state \<Rightarrow> drain_state" where
  "mark_draining s = s\<lparr>dr_draining := True, dr_shutdown := True\<rparr>"

definition handle_drain_status :: "time \<Rightarrow> time \<Rightarrow> drain_state \<Rightarrow> http_resp" where
  "handle_drain_status start now s = write_json (AObject [(''draining'', ABool (dr_draining s)),
     (''shutdownInitiated'', ABool (dr_shutdown s)), (''activeConnections'', AInt (dr_active s)),
     (''uptimeSeconds'', AInt (int64_of_f64 (dur_seconds (time_sub now start))))])"

text \<open>The probes; \<open>api\<close> is the error of listing namespaces, absent when there is no client.\<close>

definition handle_healthz :: http_resp where
  "handle_healthz = respond 200 (AString (''ok'' @ newline))"

definition handle_readyz :: "string option option \<Rightarrow> drain_state \<Rightarrow> http_resp" where
  "handle_readyz api s =
     (if dr_draining s then respond 503 (AString (''draining'' @ newline))
      else (case api of
          None \<Rightarrow> respond 503 (AString (''k8s client not initialized'' @ newline))
        | Some (Some _) \<Rightarrow> respond 503 (AString (''k8s API unreachable'' @ newline))
        | Some None \<Rightarrow> respond 200 (AString (''ok'' @ newline))))"

definition handle_health :: "string \<Rightarrow> http_resp" where
  "handle_health now = write_json (AObject [(''status'', AString ''ok''), (''time'', AString now)])"

definition handle_version :: "string \<Rightarrow> string \<Rightarrow> string \<Rightarrow> http_resp" where
  "handle_version v commit built = write_json (AObject [(''version'', AString v), (''gitCommit'', AString commit),
     (''buildDate'', AString built), (''name'', AString ''k8ops'')])"

section \<open>Lemmas\<close>

text \<open>
  A preflight request is answered without touching anything but the response times, and every answer
  carries the security headers its handler does not change.
\<close>

lemma metrics_keep:
  "fst (snd (http_metrics_middleware took n rq wr dt)) =
     fst (snd (n rq (if has_prefix (rq_path rq) ''/api/'' \<or> rq_path rq \<in> {''/healthz'', ''/readyz''}
       then wr\<lparr>wr_flusher := False, wr_reaches := False\<rparr> else wr) dt))"
  "fst (http_metrics_middleware took n rq wr dt) =
     fst (n rq (if has_prefix (rq_path rq) ''/api/'' \<or> rq_path rq \<in> {''/healthz'', ''/readyz''}
       then wr\<lparr>wr_flusher := False, wr_reaches := False\<rparr> else wr) dt)"
  by (simp_all add: http_metrics_middleware_def Let_def split: prod.split option.split)

lemma gzip_keeps:
  "snd (gzip_middleware n rq wr d) = snd (n rq
     (if contains (rq_header rq ''Accept-Encoding'') ''gzip'' \<and> has_prefix (rq_path rq) ''/api/'' then gzip_writer wr else wr) d)"
  "k \<notin> {''Content-Encoding'', ''Content-Length''} \<Longrightarrow> ry_headers (fst (gzip_middleware n rq wr d)) k = ry_headers (fst (n rq
     (if contains (rq_header rq ''Accept-Encoding'') ''gzip'' \<and> has_prefix (rq_path rq) ''/api/'' then gzip_writer wr else wr) d)) k"
  "ry_body (fst (gzip_middleware n rq wr d)) = ry_body (fst (n rq
     (if contains (rq_header rq ''Accept-Encoding'') ''gzip'' \<and> has_prefix (rq_path rq) ''/api/'' then gzip_writer wr else wr) d))"
  by (auto simp: gzip_middleware_def split: prod.split)

lemmas full_handler_simps =
  full_handler_def request_id_middleware_def metrics_keep gzip_keeps security_headers_middleware_def cors_middleware_def Let_def

lemma preflight_answered:
  "rq_method rq = ''OPTIONS'' \<Longrightarrow> fst (snd (full_handler fresh took tls origins f rq wr (d, t))) = d"
  by (simp add: full_handler_simps)

lemma security_headers_everywhere:
  assumes "\<And>wr dt. ry_headers (fst (inner rq wr dt)) ''X-Frame-Options'' = wr_headers wr ''X-Frame-Options''"
  shows "ry_headers (fst (full_handler fresh took tls origins inner rq wr dt)) ''X-Frame-Options'' = Some ''DENY''"
  by (simp add: full_handler_simps security_headers_def cors_headers_def assms gzip_writer_def)

lemma cors_origin_listed:
  assumes "\<And>wr d. ry_headers (fst (f rq wr d)) ''Access-Control-Allow-Origin'' = wr_headers wr ''Access-Control-Allow-Origin''"
    and "ry_headers (fst (cors_middleware origins f rq wr d)) ''Access-Control-Allow-Origin'' = Some x"
    and "wr_headers wr ''Access-Control-Allow-Origin'' = None"
  shows "x \<in> set origins \<and> x = rq_header rq ''Origin''"
  using assms by (auto simp: cors_middleware_def cors_headers_def Let_def is_origin_allowed_def list_ex_iff split: if_splits)

text \<open>
  What a route of the API is given: a writer that flushes only when the client asks for compression,
  and whose flush never reaches the connection.
\<close>

definition outer_headers :: "string \<Rightarrow> bool \<Rightarrow> string list \<Rightarrow> http_req \<Rightarrow> headers \<Rightarrow> headers" where
  "outer_headers fresh tls origins rq h =
     (let i = rq_header rq ''X-Request-ID''; x = rq_header rq ''Origin'';
          h1 = security_headers tls (h(''X-Request-ID'' \<mapsto> (if i = [] then fresh else i)))
      in if x \<noteq> [] \<and> is_origin_allowed origins x then cors_headers x h1 else h1)"

lemma inner_writer:
  assumes "has_prefix (rq_path rq) ''/api/''" "rq_method rq \<noteq> ''OPTIONS''"
    and "wr1 = \<lparr>wr_headers = outer_headers fresh tls origins rq (wr_headers wr),
      wr_flusher = contains (rq_header rq ''Accept-Encoding'') ''gzip'', wr_reaches = False\<rparr>"
  shows "ry_body (fst (full_handler fresh took tls origins inner rq wr dt)) = ry_body (fst (inner rq wr1 dt))"
    "fst (snd (full_handler fresh took tls origins inner rq wr dt)) = fst (snd (inner rq wr1 dt))"
  using assms by (cases wr; simp add: full_handler_simps gzip_writer_def outer_headers_def)+

text \<open>
  The life of a connection in \<open>net/http\<close>: new, then active and idle in turn, and closed or taken over
  from any state. The counter returns to where it was only for connections that end from idle or
  without a request; one that ends while active is counted for ever.
\<close>

inductive conn_life :: "conn_state list \<Rightarrow> bool" where
  new: "conn_life [StateNew]"
| active: "conn_life (ss @ [s]) \<Longrightarrow> s = StateNew \<or> s = StateIdle \<Longrightarrow> conn_life (ss @ [s, StateActive])"
| idle: "conn_life (ss @ [StateActive]) \<Longrightarrow> conn_life (ss @ [StateActive, StateIdle])"

definition conn_count :: "conn_state list \<Rightarrow> int" where
  "conn_count ss = dr_active (fold conn_state_tracker ss new_drain_state)"

lemma conn_count_snoc:
  "conn_count [] = 0" "conn_count (ss @ [s]) = conn_count ss + (if s = StateNew \<or> s = StateActive then 1 else - 1)"
  by (simp_all add: conn_count_def new_drain_state_def conn_state_tracker_def split: conn_state.split)

lemma conn_life_count: "conn_life ss \<Longrightarrow> ss \<noteq> [] \<and> last ss \<noteq> StateClosed \<and> last ss \<noteq> StateHijacked \<and>
    conn_count ss = (if last ss = StateActive then 2 else 1)"
proof (induction rule: conn_life.induct)
  case new
  show ?case using conn_count_snoc(2)[of "[]" StateNew] by (simp add: conn_count_snoc(1))
next
  case (active ss s)
  then show ?case using conn_count_snoc(2)[of "ss @ [s]" StateActive] by auto
next
  case (idle ss)
  then show ?case using conn_count_snoc(2)[of "ss @ [StateActive]" StateIdle] by auto
qed

lemma closed_connection_count:
  assumes "conn_life ss" "s = StateClosed \<or> s = StateHijacked"
  shows "conn_count (ss @ [s]) = (if last ss = StateActive then 1 else 0)"
  using conn_life_count[OF assms(1)] assms(2) by (auto simp: conn_count_snoc(2))

text \<open>With authentication on, a probe without credentials is sent to the login page, draining or not.\<close>

lemma readyz_redirected:
  assumes "rq_path rq = ''/readyz'' \<or> rq_path rq = ''/healthz''" "rq_header rq ''Authorization'' = []" "rq_cookie rq ''k8ops_token'' = None"
  shows "serve s (Some A) now rest rq d = (http_redirect 303 ''/login.html'', d)"
proof -
  have "\<not> is_public_route ''/readyz''" "\<not> is_public_route ''/healthz''" by code_simp+
  with assms show ?thesis
    by (auto simp: serve_def auth_middleware_def auth_gate_def turn_away_def is_api_request_def has_prefix_def)
qed

end
