(* ===== verification/Chat_Handlers.thy ===== *)
theory Chat_Handlers
  imports Chat Access Json Dash_Net
begin

text \<open>
  The chat endpoint of the dashboard (internal/dashboard/handlers_chat.go): the limit per user, the
  registry of tools with the user's clients, the request that becomes a run of the chat engine, and
  the management of conversations.
\<close>

section \<open>The limit per user\<close>

record user_rate_limiter =
  ul_limiters :: "string \<rightharpoonup> rate_limiter"
  ul_burst :: int
  ul_refill :: int

definition new_user_rate_limiter :: "int \<Rightarrow> int \<Rightarrow> user_rate_limiter" where
  "new_user_rate_limiter burst refill_per_sec = \<lparr>ul_limiters = Map.empty, ul_burst = burst, ul_refill = refill_per_sec\<rparr>"

definition ul_allow :: "time \<Rightarrow> string \<Rightarrow> user_rate_limiter \<Rightarrow> bool \<times> user_rate_limiter" where
  "ul_allow now name u =
     (let rl = (case ul_limiters u name of None \<Rightarrow> new_rate_limiter now (ul_burst u) (ul_refill u) | Some rl \<Rightarrow> rl)
      in case rl_allow now rl of (ok, rl1) \<Rightarrow> (ok, u\<lparr>ul_limiters := (ul_limiters u)(name \<mapsto> rl1)\<rparr>))"

definition ul_cleanup :: "user_rate_limiter \<Rightarrow> user_rate_limiter" where
  "ul_cleanup u =
     (if card (dom (ul_limiters u)) < 100 then u
      else if 500 < card (dom (ul_limiters u)) then u\<lparr>ul_limiters := Map.empty\<rparr> else u)"

section \<open>Tools with the user's rights\<close>

text \<open>\<open>tools_for\<close> gives the tools over a client that impersonates, or fails; \<open>None\<close> is the nil registry.\<close>

definition build_impersonated_registry :: "(impersonation \<Rightarrow> string + 'w tool list) \<Rightarrow> user option \<Rightarrow> 'w registry option" where
  "build_impersonated_registry tools_for user = (case user of
     None \<Rightarrow> None
   | Some u \<Rightarrow> (case tools_for (impersonate_as u) of
       Inl _ \<Rightarrow> None | Inr ts \<Rightarrow> Some (fold register ts new_registry)))"

section \<open>The endpoint\<close>

record 'w chat_server =
  ct_engine :: "'w engine option"
  ct_limiter :: "user_rate_limiter option"

definition chat_user :: "user option \<Rightarrow> string" where
  "chat_user user = (case user of Some u \<Rightarrow> if us_username u \<noteq> [] then us_username u else ''anonymous'' | None \<Rightarrow> ''anonymous'')"

definition decode_chat_request :: "any \<Rightarrow> (string \<times> string) option" where
  "decode_chat_request x = into_struct (\<lambda>ms r. do {
     m \<leftarrow> into_member into_string ''message'' ms [];
     c \<leftarrow> into_member into_string ''conversationId'' ms [];
     Some (m, c) }) x ([], [])"

text \<open>
  An answer that is not a stream of events, or the result of the run whose events went out. The
  pings of a slow run are not kept. \<open>flusher\<close> tells whether the writer of the request is one.
\<close>

datatype chat_answer = ChatReply http_resp | ChatStream chat_result

definition stream_chat :: "'w chat_env \<Rightarrow> string list \<Rightarrow> string list \<Rightarrow> string \<Rightarrow> string \<Rightarrow> 'w registry option \<Rightarrow>
    'w engine \<Rightarrow> 'w \<Rightarrow> chat_result \<times> 'w engine \<times> 'w" where
  "stream_chat E ks tool_order cid msg reg e w =
     (case run_stream E ks tool_order cid msg reg e (emit E ''conversation'' (DConversation cid) w) of
        (ChatErr m, e1, w1) \<Rightarrow> (ChatErr m, e1, error_event E m w1)
      | (res, e1, w1) \<Rightarrow> (res, e1, w1))"

definition handle_chat :: "'w chat_env \<Rightarrow> (impersonation \<Rightarrow> string + 'w tool list) \<Rightarrow> string list \<Rightarrow> string list \<Rightarrow> bool \<Rightarrow>
    user option \<Rightarrow> http_req \<Rightarrow> 'w chat_server \<Rightarrow> 'w \<Rightarrow> chat_answer \<times> 'w chat_server \<times> 'w" where
  "handle_chat E tools_for ks tool_order flusher user rq s w = (case ct_engine s of
     None \<Rightarrow> (ChatReply (write_error 503 ''chat engine not initialized''), s, w)
   | Some e \<Rightarrow>
       (let u0 = (case ct_limiter s of None \<Rightarrow> new_user_rate_limiter 20 10 | Some u \<Rightarrow> u);
            (ok, u1) = ul_allow (ch_now E w) (chat_user user) u0
        in if \<not> ok then (ChatReply (respond 429 (AObject [(''error'', AString ''rate limit exceeded''),
               (''hint'', AString ''too many chat requests, please slow down'')])), s\<lparr>ct_limiter := Some u1\<rparr>, w)
           else (let s1 = s\<lparr>ct_limiter := Some (ul_cleanup u1)\<rparr> in
             if rq_method rq \<noteq> ''POST'' then (ChatReply (write_error 405 ''method not allowed''), s1, w)
             else (case Option.bind (rq_json rq) decode_chat_request of
                 None \<Rightarrow> (ChatReply (write_error 400 ''invalid request body''), s1, w)
               | Some (msg, cid0) \<Rightarrow>
                   if msg = [] then (ChatReply (write_error 400 ''message is required''), s1, w)
                   else if \<not> flusher then (ChatReply (write_error 500 ''streaming not supported''), s1, w)
                   else (let cid = (if cid0 = [] then ''conv-'' @ show_int (ch_now E w) else cid0);
                             (res, e1, w1) = stream_chat E ks tool_order cid msg (build_impersonated_registry tools_for user) e w
                         in (ChatStream res, s1\<lparr>ct_engine := Some e1\<rparr>, w1))))))"

text \<open>
  The endpoint as a route of the server. A refusal writes its code before it names a content type;
  only the one of the limit names it in time, and the headers of a stream are set before the writer
  is asked whether it can flush.
\<close>

definition chat_headers :: "chat_answer \<Rightarrow> headers \<Rightarrow> headers" where
  "chat_headers a h =
     (let stream = h(''Content-Type'' \<mapsto> ''text/event-stream'', ''Cache-Control'' \<mapsto> ''no-cache'', ''Connection'' \<mapsto> ''keep-alive'') in
      case a of ChatStream _ \<Rightarrow> stream
      | ChatReply r \<Rightarrow> if resp_code r = 500 then stream
          else if resp_code r = 429 then h(''Content-Type'' \<mapsto> ''application/json'') else h)"

definition chat_route :: "'w chat_env \<Rightarrow> (impersonation \<Rightarrow> string + 'w tool list) \<Rightarrow> string list \<Rightarrow> string list \<Rightarrow> user option \<Rightarrow>
    (('w \<times> 'w chat_server) \<times> perf_tracker, chat_answer) stage" where
  "chat_route E tools_for ks tool_order user rq wr d = (case d of ((w, s), t) \<Rightarrow>
     (case handle_chat E tools_for ks tool_order (wr_flusher wr) user rq s w of (a, s1, w1) \<Rightarrow>
       (\<lparr>ry_headers = chat_headers a (wr_headers wr), ry_code = Some (case a of ChatReply r \<Rightarrow> resp_code r | ChatStream _ \<Rightarrow> 200),
         ry_body = Some a, ry_gzip = False\<rparr>, ((w1, s1), t))))"

definition handle_conversations :: "(conv_stats \<Rightarrow> any) \<Rightarrow> string list \<Rightarrow> http_req \<Rightarrow> 'w engine option \<Rightarrow>
    http_resp \<times> 'w engine option" where
  "handle_conversations show_stats ks rq e0 = (case e0 of
     None \<Rightarrow> (write_json (AObject [(''conversations'', AList [])]), None)
   | Some e \<Rightarrow>
       if rq_method rq = ''DELETE'' then
         (write_json (AObject [(''status'', AString ''deleted'')]),
          Some (if rq_query rq ''id'' \<noteq> [] then delete_conversation (rq_query rq ''id'') e else e))
       else (write_json (AObject [(''conversations'', AList (map show_stats (conversation_stats ks e)))]), Some e))"

section \<open>Lemmas\<close>

text \<open>A request that is refused leaves the conversations alone, and the limit holds whatever the request says.\<close>

lemma refused_chat:
  assumes "handle_chat E tools_for ks tool_order flusher user rq s w = (ChatReply r, s1, w1)"
  shows "ct_engine s1 = ct_engine s \<and> w1 = w"
  using assms by (auto simp: handle_chat_def Let_def split: option.splits prod.splits if_splits)

lemma chat_limited:
  assumes "ct_engine s \<noteq> None" "ct_limiter s = Some u" "\<not> fst (ul_allow (ch_now E w) (chat_user user) u)"
  shows "\<exists>r s1. handle_chat E tools_for ks tool_order flusher user rq s w = (ChatReply r, s1, w) \<and> resp_code r = 429"
  using assms by (auto simp: handle_chat_def Let_def respond_def split: prod.splits)

text \<open>
  A conversation belongs to nobody: who asks decides only about the tools and the limit, and a user
  without a client of their own runs with the tools of the engine. Two users with the same tools get
  the same run on the same conversation.
\<close>

lemma conversation_shared:
  assumes "ct_engine s = Some e" "ct_limiter s = Some u" "fst (ul_allow (ch_now E w) (chat_user user1) u)"
    "fst (ul_allow (ch_now E w) (chat_user user2) u)"
    and "build_impersonated_registry tools_for user1 = build_impersonated_registry tools_for user2"
  shows "fst (handle_chat E tools_for ks tool_order flusher user1 rq s w) = fst (handle_chat E tools_for ks tool_order flusher user2 rq s w) \<and>
    ct_engine (fst (snd (handle_chat E tools_for ks tool_order flusher user1 rq s w))) =
    ct_engine (fst (snd (handle_chat E tools_for ks tool_order flusher user2 rq s w)))"
  using assms by (auto simp: handle_chat_def Let_def split: prod.splits option.splits)

lemma anyone_deletes:
  "rq_method rq = ''DELETE'' \<Longrightarrow> rq_query rq ''id'' = cid \<Longrightarrow> cid \<noteq> [] \<Longrightarrow>
   \<exists>e1. snd (handle_conversations show_stats ks rq (Some e)) = Some e1 \<and> en_conversations e1 cid = None"
  by (simp add: handle_conversations_def delete_conversation_def remove_conv_def)

section \<open>Properties\<close>

text \<open>C28. The chat works only for clients that ask for compression: behind the middlewares of the
  server a request that the endpoint would accept is answered 500 when its Accept-Encoding does not
  mention gzip, with the conversations as they were, since the writer that measures the status is
  not a flusher; with gzip the same request becomes a run of the engine.\<close>

theorem chat_needs_gzip:
  assumes "ct_engine s = Some e" "ct_limiter s = Some u" "fst (ul_allow (ch_now E w) (chat_user user) u)"
    and "rq_method rq = ''POST''" "rq_path rq = ''/api/chat''"
    and "Option.bind (rq_json rq) decode_chat_request = Some (msg, cid)" "msg \<noteq> []"
    and "full_handler fresh took tls origins (chat_route E tools_for ks tool_order user) rq server_writer ((w, s), t) = (r, d)"
  shows "if contains (rq_header rq ''Accept-Encoding'') ''gzip'' then \<exists>res. ry_body r = Some (ChatStream res)
    else ry_body r = Some (ChatReply (write_error 500 ''streaming not supported'')) \<and>
      fst (fst d) = w \<and> ct_engine (snd (fst d)) = Some e"
proof -
  have p: "has_prefix (rq_path rq) ''/api/''" "rq_method rq \<noteq> ''OPTIONS''" using assms(4,5) by (simp_all add: has_prefix_def)
  note inner_writer[OF p refl, of fresh took tls origins "chat_route E tools_for ks tool_order user" server_writer "((w, s), t)",
    unfolded assms(8) fst_conv snd_conv]
  then show ?thesis
    using assms(1-4,6,7) by (auto simp: chat_route_def handle_chat_def Let_def split: prod.split)
qed

definition chat_post :: "string \<Rightarrow> http_req" where
  "chat_post enc = \<lparr>rq_method = ''POST'', rq_path = ''/api/chat'', rq_query = (\<lambda>k. []),
     rq_header = (\<lambda>n. if n = ''Accept-Encoding'' then enc else []), rq_cookie = (\<lambda>n. None),
     rq_json = Some (AObject [(''message'', AString ''hello'')]), rq_raw_query = [], rq_remote_addr = []\<rparr>"

definition demo_chat_server :: "unit chat_server" where
  "demo_chat_server = \<lparr>ct_engine = Some demo_engine, ct_limiter = Some (new_user_rate_limiter 20 10)\<rparr>"

definition demo_chat_answer :: "string \<Rightarrow> chat_answer option" where
  "demo_chat_answer enc = ry_body (fst (full_handler ''1'' 0 False [] (chat_route demo_chat_env (\<lambda>i. Inl ''none'') [] [] None)
     (chat_post enc) server_writer (((), demo_chat_server), new_perf_tracker 5000)))"

theorem chat_needs_gzip_witness:
  "demo_chat_answer ''br'' = Some (ChatReply (write_error 500 ''streaming not supported'')) \<and>
   (\<exists>res. demo_chat_answer ''gzip, br'' = Some (ChatStream res))"
proof -
  have decoded: "Option.bind (rq_json (chat_post enc)) decode_chat_request = Some (''hello'', [])" for enc
    by (simp add: chat_post_def decode_chat_request_def member_name_simps)
  have allowed: "fst (ul_allow (ch_now demo_chat_env ()) (chat_user None) (new_user_rate_limiter 20 10))"
    by (simp add: demo_chat_env_def) code_simp
  have all: "if contains (rq_header (chat_post enc) ''Accept-Encoding'') ''gzip'' then \<exists>res. demo_chat_answer enc = Some (ChatStream res)
    else demo_chat_answer enc = Some (ChatReply (write_error 500 ''streaming not supported''))" for enc
  proof -
    obtain r d where run: "full_handler ''1'' 0 False [] (chat_route demo_chat_env (\<lambda>i. Inl ''none'') [] [] None)
      (chat_post enc) server_writer (((), demo_chat_server), new_perf_tracker 5000) = (r, d)" by (rule prod.exhaust)
    have "ct_engine demo_chat_server = Some demo_engine" "ct_limiter demo_chat_server = Some (new_user_rate_limiter 20 10)"
      by (simp_all add: demo_chat_server_def)
    from chat_needs_gzip[OF this allowed _ _ decoded _ run] show ?thesis
      unfolding demo_chat_answer_def run fst_conv by (simp add: chat_post_def split: if_splits)
  qed
  have "\<not> contains ''br'' ''gzip''" "contains ''gzip, br'' ''gzip''" by code_simp+
  with all[of "''br''"] all[of "''gzip, br''"] show ?thesis by (simp add: chat_post_def)
qed

end
