(* ===== verification/Collector.thy ===== *)
theory Collector
  imports Controller
begin

text \<open>
  Package \<open>collector\<close> (internal/collector/collector.go): events of the cluster become diagnostic
  reports, at most one per object and cool-down. The watch is the sequence of what it delivers, with
  the times at which the collector reads the clock; the client that creates reports is a parameter
  over the state \<open>'c\<close> of the cluster.
\<close>

section \<open>Events\<close>

record k8s_event =
  ke_reason :: string
  ke_message :: string
  ke_object :: resource_ref

text \<open>What a watch delivers; \<open>OtherItem\<close> is a deletion, a bookmark, an error or another object.\<close>

datatype watch_item = Added k8s_event | Modified k8s_event | OtherItem

record collector =
  co_processed :: "string \<rightharpoonup> time"
  co_cooldown :: duration
  co_dedup_window :: duration

definition new_event_collector :: collector where
  "new_event_collector = \<lparr>co_processed = Map.empty, co_cooldown = 5 * minute, co_dedup_window = 10 * minute\<rparr>"

definition trigger_patterns :: "string list" where
  "trigger_patterns = [''BackOff'', ''CrashLoopBackOff'', ''Failed'', ''Unhealthy'', ''FailedScheduling'',
     ''ImagePullBackOff'', ''ErrImagePull'', ''OOMKilled'', ''Evicted'', ''NodeNotReady'', ''SystemOOM'', ''ContainerCreating'']"

definition should_trigger :: "string \<Rightarrow> bool" where
  "should_trigger reason = list_ex (\<lambda>p. contains reason p) trigger_patterns"

definition dedup_key :: "resource_ref \<Rightarrow> string" where
  "dedup_key ref = rr_kind ref @ ''/'' @ rr_namespace ref @ ''/'' @ rr_name ref"

definition auto_report :: "k8s_event \<Rightarrow> diagnostic_report" where
  "auto_report ev = \<lparr>dr_meta = \<lparr>om_name = [],
       om_generate_name = ''auto-'' @ to_lower (rr_kind (ke_object ev)) @ ''-'' @ to_lower (ke_reason ev) @ ''-'',
       om_namespace = rr_namespace (ke_object ev),
       om_labels = [''aiops.ggai.dev/auto'' \<mapsto> ''true'', ''aiops.ggai.dev/reason'' \<mapsto> ke_reason ev],
       om_finalizers = [], om_deleting = False, om_created = 0\<rparr>,
     dr_spec = \<lparr>drs_trigger = \<lparr>dt_type = ''event'', dt_resource_ref = Some (ke_object ev),
         dt_event_message = ke_message ev, dt_reason = ke_reason ev\<rparr>,
       drs_analysis = None, drs_resource_scope = None\<rparr>,
     dr_status = \<lparr>dst_phase = ''Pending'', dst_findings = [], dst_summary = [], dst_confidence = 0,
       dst_ai_model = [], dst_analyzed_at = None, dst_error = [], dst_agent_trace = []\<rparr>\<rparr>"

section \<open>The watch\<close>

text \<open>Whether an event is reported, and the table after it was; old entries are removed on the way.\<close>

definition due :: "time \<Rightarrow> k8s_event \<Rightarrow> collector \<Rightarrow> bool" where
  "due t ev s \<longleftrightarrow> should_trigger (ke_reason ev) \<and>
     (case co_processed s (dedup_key (ke_object ev)) of None \<Rightarrow> True | Some prev \<Rightarrow> \<not> time_sub t prev < co_cooldown s)"

definition clean_old :: "time \<Rightarrow> duration \<Rightarrow> (string \<rightharpoonup> time) \<Rightarrow> (string \<rightharpoonup> time)" where
  "clean_old t window m = (\<lambda>k. case m k of None \<Rightarrow> None | Some u \<Rightarrow> if window < time_sub t u then None else Some u)"

definition mark_processed :: "time \<Rightarrow> time \<Rightarrow> k8s_event \<Rightarrow> collector \<Rightarrow> collector" where
  "mark_processed t1 t2 ev s =
     s\<lparr>co_processed := clean_old t2 (co_dedup_window s) ((co_processed s)(dedup_key (ke_object ev) \<mapsto> t1))\<rparr>"

text \<open>The clock is read for the comparison, for the new entry and for the cleaning.\<close>

type_synonym clock = "time \<times> time \<times> time"

type_synonym 'c creator = "diagnostic_report \<Rightarrow> 'c \<Rightarrow> api_error option \<times> 'c"

definition collect_event :: "'c creator \<Rightarrow> clock \<Rightarrow> k8s_event \<Rightarrow> collector \<times> 'c \<Rightarrow> collector \<times> 'c" where
  "collect_event create ts ev sc = (case ts of (t0, t1, t2) \<Rightarrow>
     if due t0 ev (fst sc) then (mark_processed t1 t2 ev (fst sc), snd (create (auto_report ev) (snd sc))) else sc)"

definition watch_item_step :: "'c creator \<Rightarrow> clock \<times> watch_item \<Rightarrow> collector \<times> 'c \<Rightarrow> collector \<times> 'c" where
  "watch_item_step create x sc = (case x of
     (ts, Added ev) \<Rightarrow> collect_event create ts ev sc
   | (ts, Modified ev) \<Rightarrow> collect_event create ts ev sc
   | (ts, OtherItem) \<Rightarrow> sc)"

text \<open>A watch that cannot be opened is an error; otherwise it delivers until it is closed.\<close>

type_synonym session = "string + (clock \<times> watch_item) list"

definition do_watch :: "'c creator \<Rightarrow> session \<Rightarrow> collector \<times> 'c \<Rightarrow> string option \<times> (collector \<times> 'c)" where
  "do_watch create session sc = (case session of
     Inl e \<Rightarrow> (Some e, sc) | Inr xs \<Rightarrow> (None, fold (watch_item_step create) xs sc))"

text \<open>The watch is opened again until the context ends; the pause after an error only takes time.\<close>

definition watch_events :: "'c creator \<Rightarrow> session list \<Rightarrow> collector \<times> 'c \<Rightarrow> collector \<times> 'c" where
  "watch_events create sessions sc = fold (\<lambda>x sc. snd (do_watch create x sc)) sessions sc"

section \<open>What the collector promises\<close>

text \<open>
  The specification keeps the time of the last report of every object for ever. \<open>delivered\<close> are the
  events of all watches, and \<open>clocks_ok\<close> says that the clock does not go back.
\<close>

definition item_events :: "clock \<times> watch_item \<Rightarrow> (clock \<times> k8s_event) list" where
  "item_events x = (case x of (ts, Added ev) \<Rightarrow> [(ts, ev)] | (ts, Modified ev) \<Rightarrow> [(ts, ev)] | (ts, OtherItem) \<Rightarrow> [])"

definition delivered :: "session list \<Rightarrow> (clock \<times> k8s_event) list" where
  "delivered sessions = concat (map (\<lambda>x. case x of Inl _ \<Rightarrow> [] | Inr xs \<Rightarrow> concat (map item_events xs)) sessions)"

fun clocks_ok :: "time \<Rightarrow> (clock \<times> k8s_event) list \<Rightarrow> bool" where
  "clocks_ok t [] = True"
| "clocks_ok t (((t0, t1, t2), ev) # xs) = (t \<le> t0 \<and> t0 \<le> t1 \<and> t1 \<le> t2 \<and> clocks_ok t2 xs)"

fun reported :: "duration \<Rightarrow> (clock \<times> k8s_event) list \<Rightarrow> (string \<rightharpoonup> time) \<Rightarrow> (time \<times> k8s_event) list" where
  "reported cool [] l = []"
| "reported cool (((t0, t1, t2), ev) # xs) l =
     (let k = dedup_key (ke_object ev) in
      if should_trigger (ke_reason ev) \<and> (case l k of None \<Rightarrow> True | Some u \<Rightarrow> cool \<le> time_sub t0 u)
      then (t1, ev) # reported cool xs (l(k \<mapsto> t1)) else reported cool xs l)"

definition create_all :: "'c creator \<Rightarrow> k8s_event list \<Rightarrow> 'c \<Rightarrow> 'c" where
  "create_all create evs c = fold (\<lambda>ev c. snd (create (auto_report ev) c)) evs c"

section \<open>Lemmas\<close>

lemma time_sub_mono: "t \<le> u \<Longrightarrow> time_sub t v \<le> time_sub u v"
  by (auto simp: time_sub_def)

lemma fold_items:
  "fold (watch_item_step create) xs sc = fold (\<lambda>(ts, ev). collect_event create ts ev) (concat (map item_events xs)) sc"
  by (induction xs arbitrary: sc) (auto simp: watch_item_step_def item_events_def split: watch_item.split)

lemma watch_events_delivered:
  "watch_events create sessions sc = fold (\<lambda>(ts, ev). collect_event create ts ev) (delivered sessions) sc"
  unfolding watch_events_def delivered_def
  by (induction sessions arbitrary: sc) (auto simp: do_watch_def fold_items split: sum.split)

text \<open>
  A table is as good as the specification's when it has the same entries, but for those older than
  the window; since the window is not shorter than the cool-down, these decide nothing.
\<close>

definition forgets_old :: "time \<Rightarrow> collector \<Rightarrow> (string \<rightharpoonup> time) \<Rightarrow> bool" where
  "forgets_old t s l \<longleftrightarrow> co_cooldown s \<le> co_dedup_window s \<and>
     (\<forall>k. co_processed s k = l k \<or> (co_processed s k = None \<and> (\<exists>u. l k = Some u \<and> co_dedup_window s < time_sub t u)))"

lemma forgets_old_later: "forgets_old t s l \<Longrightarrow> t \<le> t' \<Longrightarrow> forgets_old t' s l"
  unfolding forgets_old_def using time_sub_mono by (meson order_less_le_trans)

lemma due_forgets_old:
  assumes "forgets_old t s l" "t \<le> t0"
  shows "due t0 ev s \<longleftrightarrow> should_trigger (ke_reason ev) \<and>
    (case l (dedup_key (ke_object ev)) of None \<Rightarrow> True | Some u \<Rightarrow> co_cooldown s \<le> time_sub t0 u)"
proof -
  let ?k = "dedup_key (ke_object ev)"
  have "co_processed s ?k = l ?k \<or> (co_processed s ?k = None \<and> (\<exists>u. l ?k = Some u \<and> co_dedup_window s < time_sub t0 u))"
    and "co_cooldown s \<le> co_dedup_window s"
    using forgets_old_later[OF assms] by (auto simp: forgets_old_def)
  then show ?thesis by (auto simp: due_def not_less split: option.split)
qed

lemma forgets_old_mark:
  assumes "forgets_old t s l" "t \<le> t2"
  shows "forgets_old t2 (mark_processed t1 t2 ev s) (l(dedup_key (ke_object ev) \<mapsto> t1))"
proof -
  have le: "co_cooldown s \<le> co_dedup_window s" and
    old: "co_processed s k = l k \<or> (co_processed s k = None \<and> (\<exists>u. l k = Some u \<and> co_dedup_window s < time_sub t2 u))" for k
    using forgets_old_later[OF assms] by (auto simp: forgets_old_def)
  have "clean_old t2 (co_dedup_window s) ((co_processed s)(k0 \<mapsto> t1)) k = (l(k0 \<mapsto> t1)) k \<or>
      (clean_old t2 (co_dedup_window s) ((co_processed s)(k0 \<mapsto> t1)) k = None \<and>
       (\<exists>u. (l(k0 \<mapsto> t1)) k = Some u \<and> co_dedup_window s < time_sub t2 u))" for k k0
    using old[of k] by (auto simp: clean_old_def split: option.split)
  with le show ?thesis by (simp add: forgets_old_def mark_processed_def)
qed

lemma mark_processed_params [simp]:
  "co_cooldown (mark_processed t1 t2 ev s) = co_cooldown s" "co_dedup_window (mark_processed t1 t2 ev s) = co_dedup_window s"
  by (simp_all add: mark_processed_def)

lemma collect_reports:
  assumes "forgets_old t s l" "clocks_ok t xs"
  shows "snd (fold (\<lambda>(ts, ev). collect_event create ts ev) xs (s, c)) = create_all create (map snd (reported (co_cooldown s) xs l)) c"
  using assms
proof (induction "co_cooldown s" xs l arbitrary: s t c rule: reported.induct)
  case (2 t0 t1 t2 ev xs l)
  have ts: "t \<le> t0" "t0 \<le> t1" "t1 \<le> t2" "clocks_ok t2 xs" using "2.prems"(2) by auto
  note due_iff = due_forgets_old[OF "2.prems"(1) ts(1), of ev]
  show ?case
  proof (cases "due t0 ev s")
    case True
    have "forgets_old t2 (mark_processed t1 t2 ev s) (l(dedup_key (ke_object ev) \<mapsto> t1))"
      using forgets_old_mark[OF "2.prems"(1)] ts by simp
    from "2.hyps"(1)[OF refl _ _ this ts(4)] True True[unfolded due_iff] show ?thesis
      by (simp add: collect_event_def create_all_def Let_def)
  next
    case False
    from "2.hyps"(2)[OF refl _ refl forgets_old_later[OF "2.prems"(1)] ts(4)] False False[unfolded due_iff] ts show ?thesis
      by (auto simp add: collect_event_def Let_def)
  qed
qed (simp add: create_all_def)

abbreviation same_object :: "k8s_event \<Rightarrow> k8s_event \<Rightarrow> bool" where
  "same_object a b \<equiv> dedup_key (ke_object a) = dedup_key (ke_object b)"

lemma time_sub_anti: "u \<le> v \<Longrightarrow> time_sub t v \<le> time_sub t u"
  by (auto simp: time_sub_def)

definition past :: "time \<Rightarrow> (string \<rightharpoonup> time) \<Rightarrow> bool" where
  "past t l \<longleftrightarrow> (\<forall>k u. l k = Some u \<longrightarrow> u \<le> t)"

lemma past_upd: "past t l \<Longrightarrow> t \<le> t' \<Longrightarrow> u \<le> t' \<Longrightarrow> past t' (l(k \<mapsto> u))"
  by (fastforce simp: past_def)

lemma past_later: "past t l \<Longrightarrow> t \<le> t' \<Longrightarrow> past t' l"
  by (fastforce simp: past_def)

lemma reported_after:
  assumes "clocks_ok t xs" "past t l" "(u, ev) \<in> set (reported cool xs l)" "l (dedup_key (ke_object ev)) = Some v"
  shows "cool \<le> time_sub u v"
  using assms
proof (induction cool xs l arbitrary: t v rule: reported.induct)
  case (2 cool t0 t1 t2 e xs l)
  let ?k = "dedup_key (ke_object e)"
  have ts: "t \<le> t0" "t0 \<le> t1" "t1 \<le> t2" "clocks_ok t2 xs" using "2.prems"(1) by auto
  show ?case
  proof (cases "should_trigger (ke_reason e) \<and> (case l ?k of None \<Rightarrow> True | Some u \<Rightarrow> cool \<le> time_sub t0 u)")
    case True
    then consider "u = t1" "ev = e" | "(u, ev) \<in> set (reported cool xs (l(?k \<mapsto> t1)))"
      using "2.prems"(3) by (auto simp: Let_def split: if_splits)
    then show ?thesis
    proof cases
      case 1
      then have "cool \<le> time_sub t0 v" using True "2.prems"(4) by simp
      then show ?thesis using time_sub_mono[OF ts(2), of v] 1 by simp
    next
      case 2
      have "past t2 (l(?k \<mapsto> t1))" using past_upd[OF "2.prems"(2)] ts by simp
      note IH = "2.IH"(1)[OF refl True ts(4) this 2]
      show ?thesis
      proof (cases "same_object ev e")
        case same: True
        then have "cool \<le> time_sub u t1" using IH[where v = t1] by simp
        moreover have "v \<le> t1" using "2.prems"(2,4) ts by (fastforce simp: past_def)
        ultimately show ?thesis using time_sub_anti[of v t1 u] by simp
      next
        case False
        then show ?thesis using IH "2.prems"(4) by simp
      qed
    qed
  next
    case False
    then have "(u, ev) \<in> set (reported cool xs l)" using "2.prems"(3) by (auto simp: Let_def split: if_splits)
    then show ?thesis using "2.IH"(2)[OF refl False ts(4)] past_later[OF "2.prems"(2)] ts "2.prems"(4) by simp
  qed
qed simp

lemma reported_spaced:
  assumes "clocks_ok t xs" "past t l"
  shows "sorted_wrt (\<lambda>a b. same_object (snd a) (snd b) \<longrightarrow> cool \<le> time_sub (fst b) (fst a)) (reported cool xs l)"
  using assms
proof (induction cool xs l arbitrary: t rule: reported.induct)
  case (2 cool t0 t1 t2 e xs l)
  let ?k = "dedup_key (ke_object e)"
  have ts: "t \<le> t0" "t0 \<le> t1" "t1 \<le> t2" "clocks_ok t2 xs" using "2.prems"(1) by auto
  show ?case
  proof (cases "should_trigger (ke_reason e) \<and> (case l ?k of None \<Rightarrow> True | Some u \<Rightarrow> cool \<le> time_sub t0 u)")
    case True
    define l1 where "l1 = l(?k \<mapsto> t1)"
    have rs: "reported cool (((t0, t1, t2), e) # xs) l = (t1, e) # reported cool xs l1" using True by (simp add: Let_def l1_def)
    have past1: "past t2 l1" unfolding l1_def using past_upd[OF "2.prems"(2)] ts by simp
    have "cool \<le> time_sub (fst b) t1" if "b \<in> set (reported cool xs l1)" "same_object e (snd b)" for b
      using reported_after[OF ts(4) past1, of "fst b" "snd b" cool t1] that by (simp add: l1_def)
    with "2.IH"(1)[OF refl True ts(4) past1[unfolded l1_def]] show ?thesis unfolding rs l1_def[symmetric] by simp
  next
    case False
    then have "reported cool (((t0, t1, t2), e) # xs) l = reported cool xs l" by (auto simp: Let_def)
    with "2.IH"(2)[OF refl False ts(4)] past_later[OF "2.prems"(2)] ts show ?thesis by simp
  qed
qed simp

lemma clocks_ok_later: "clocks_ok t xs \<Longrightarrow> ((t0, t1, t2), ev) \<in> set xs \<Longrightarrow> t \<le> t0 \<and> t0 \<le> t1"
  by (induction t xs rule: clocks_ok.induct) fastforce+

lemma reported_complete:
  assumes "clocks_ok t xs" "((t0, t1, t2), ev) \<in> set xs" "should_trigger (ke_reason ev)" "0 < cool"
  shows "(\<exists>(u, e) \<in> set (reported cool xs l). same_object e ev \<and> time_sub t0 u < cool \<and> u \<le> t1) \<or>
    (\<exists>u. l (dedup_key (ke_object ev)) = Some u \<and> time_sub t0 u < cool)"
  using assms
proof (induction cool xs l arbitrary: t rule: reported.induct)
  case (2 cool s0 s1 s2 e xs l)
  let ?k = "dedup_key (ke_object e)" and ?rs = "reported cool (((s0, s1, s2), e) # xs) l"
  have ts: "t \<le> s0" "s0 \<le> s1" "s1 \<le> s2" "clocks_ok s2 xs" using "2.prems"(1) by auto
  show ?case
  proof (cases "should_trigger (ke_reason e) \<and> (case l ?k of None \<Rightarrow> True | Some u \<Rightarrow> cool \<le> time_sub s0 u)")
    case True
    define l1 where "l1 = l(?k \<mapsto> s1)"
    have l1: "l1 (dedup_key (ke_object ev)) = (if same_object ev e then Some s1 else l (dedup_key (ke_object ev)))"
      by (simp add: l1_def)
    have rs: "?rs = (s1, e) # reported cool xs l1" using True by (simp add: Let_def l1_def)
    consider "t0 = s0" "t1 = s1" "ev = e" | "((t0, t1, t2), ev) \<in> set xs" using "2.prems"(2) by auto
    then show ?thesis
    proof cases
      case 1
      have "time_sub s0 s1 < cool" using ts(2) "2.prems"(4) by (simp add: time_sub_def min_int64_def max_int64_def)
      with 1 show ?thesis unfolding rs by simp
    next
      case 2
      have "s1 \<le> t1" using clocks_ok_later[OF ts(4) 2] ts by simp
      with "2.IH"(1)[OF refl True ts(4) 2 "2.prems"(3,4)] show ?thesis
        unfolding rs l1_def[symmetric] l1 by (auto split: if_splits)
    qed
  next
    case False
    then have rs: "?rs = reported cool xs l" by (auto simp: Let_def)
    consider "t0 = s0" "t1 = s1" "ev = e" | "((t0, t1, t2), ev) \<in> set xs" using "2.prems"(2) by auto
    then show ?thesis
    proof cases
      case 1
      with False "2.prems"(3) show ?thesis by (auto split: option.splits)
    next
      case 2
      show ?thesis unfolding rs by (rule "2.IH"(2)[OF refl False ts(4) 2 "2.prems"(3,4)])
    qed
  qed
qed simp

section \<open>Properties\<close>

text \<open>C22. The collector reports every object at most once per cool-down and misses none, although it
  forgets old entries: what it asks the API server to create are the reports of a list of events in
  which two reports of one object lie at least five minutes apart, and every event with one of the
  listed reasons is in it or arrived within five minutes of the report of its object.\<close>

theorem one_report_per_cooldown:
  assumes "clocks_ok t (delivered sessions)"
  defines "rs \<equiv> reported (5 * minute) (delivered sessions) Map.empty"
  shows "snd (watch_events create sessions (new_event_collector, c)) = create_all create (map snd rs) c \<and>
    sorted_wrt (\<lambda>a b. same_object (snd a) (snd b) \<longrightarrow> 5 * minute \<le> time_sub (fst b) (fst a)) rs \<and>
    (\<forall>t0 t1 t2 ev. ((t0, t1, t2), ev) \<in> set (delivered sessions) \<and> should_trigger (ke_reason ev) \<longrightarrow>
      (\<exists>(u, e) \<in> set rs. same_object e ev \<and> time_sub t0 u < 5 * minute \<and> u \<le> t1))"
proof (intro conjI allI impI)
  have "forgets_old t new_event_collector Map.empty" by (simp add: forgets_old_def new_event_collector_def minute_def second_def)
  from collect_reports[OF this assms(1)]
  show "snd (watch_events create sessions (new_event_collector, c)) = create_all create (map snd rs) c"
    by (simp add: watch_events_delivered rs_def new_event_collector_def)
  show "sorted_wrt (\<lambda>a b. same_object (snd a) (snd b) \<longrightarrow> 5 * minute \<le> time_sub (fst b) (fst a)) rs"
    unfolding rs_def by (rule reported_spaced[OF assms(1)]) (simp add: past_def)
next
  fix t0 t1 t2 ev assume "((t0, t1, t2), ev) \<in> set (delivered sessions) \<and> should_trigger (ke_reason ev)"
  then show "\<exists>(u, e) \<in> set rs. same_object e ev \<and> time_sub t0 u < 5 * minute \<and> u \<le> t1"
    using reported_complete[OF assms(1), of t0 t1 t2 ev "5 * minute" Map.empty] by (simp add: rs_def minute_def second_def)
qed

text \<open>A crashing pod, reported at once, and again when a new watch delivers the same old event.\<close>

definition demo_crash :: k8s_event where
  "demo_crash = \<lparr>ke_reason = ''BackOff'', ke_message = ''back-off restarting failed container'',
     ke_object = \<lparr>rr_api_version = ''v1'', rr_kind = ''Pod'', rr_namespace = ''web'', rr_name = ''api''\<rparr>\<rparr>"

definition count_reports :: "nat creator" where
  "count_reports r n = (None, Suc n)"

theorem one_report_per_cooldown_witness:
  "snd (watch_events count_reports
     [Inr [((0, 0, 0), Added demo_crash), ((minute, minute, minute), Modified demo_crash)], Inl ''refused'',
      Inr [((5 * minute, 5 * minute, 5 * minute), Added demo_crash)]] (new_event_collector, 0)) = 2"
proof -
  let ?xs = "[Inr [((0, 0, 0), Added demo_crash), ((minute, minute, minute), Modified demo_crash)], Inl ''refused'',
      Inr [((5 * minute, 5 * minute, 5 * minute), Added demo_crash)]]"
  have d: "delivered ?xs = [((0, 0, 0), demo_crash), ((minute, minute, minute), demo_crash),
      ((5 * minute, 5 * minute, 5 * minute), demo_crash)]"
    by (simp add: delivered_def item_events_def)
  have "should_trigger (ke_reason demo_crash)" by code_simp
  then have "reported (5 * minute) (delivered ?xs) Map.empty = [(0, demo_crash), (5 * minute, demo_crash)]"
    unfolding d by (simp add: Let_def minute_def second_def time_sub_def min_int64_def max_int64_def)
  moreover have "clocks_ok 0 (delivered ?xs)" unfolding d by (simp add: minute_def second_def)
  ultimately show ?thesis
    using one_report_per_cooldown[of 0 ?xs count_reports 0] by (simp add: create_all_def count_reports_def)
qed

text \<open>No event of an object without a namespace, such as a node that is not ready, leads to a report:
  the report is created in the namespace of the object, and an API server that refuses namespaced
  objects without a namespace refuses it; the object is marked as processed all the same.\<close>

theorem node_events_lost:
  assumes "\<And>r c. om_namespace (dr_meta r) = [] \<Longrightarrow> \<exists>e. create r c = (Some e, c)"
    and "rr_namespace (ke_object ev) = []"
  shows "snd (collect_event create ts ev (s, c)) = c"
  using assms(1)[of "auto_report ev" c] assms(2)
  by (auto simp: collect_event_def auto_report_def split: prod.split)

definition demo_creator :: "nat creator" where
  "demo_creator r n = (if om_namespace (dr_meta r) = []
     then (Some \<lparr>ae_reason = OtherReason, ae_message = ''an empty namespace may not be set during creation''\<rparr>, n) else (None, Suc n))"

definition demo_node_event :: k8s_event where
  "demo_node_event = \<lparr>ke_reason = ''NodeNotReady'', ke_message = ''Node n1 status is now: NodeNotReady'',
     ke_object = \<lparr>rr_api_version = ''v1'', rr_kind = ''Node'', rr_namespace = [], rr_name = ''n1''\<rparr>\<rparr>"

theorem node_events_lost_witness:
  "snd (collect_event demo_creator (0, 0, 0) demo_node_event (new_event_collector, 0)) = 0"
  by (rule node_events_lost) (simp_all add: demo_creator_def demo_node_event_def)

end
