(* ===== verification/Cost.thy ===== *)
theory Cost
  imports Go_Float Tools "HOL-Library.List_Lexorder" "HOL-Library.Char_ord" "HOL-Library.Multiset"
begin

text \<open>
  The cost estimator (internal/cost/pricing.go and estimator.go). A pod is what the estimator reads of
  it; the quantities of its containers are the float64 values \<open>AsApproximateFloat64\<close> gives, absent
  when the resource is not named.
\<close>

section \<open>Prices\<close>

record pricing =
  pg_cpu :: rat
  pg_ram :: rat
  pg_currency :: string

definition default_pricing :: pricing where
  "default_pricing = \<lparr>pg_cpu = 28, pg_ram = 7 / 2, pg_currency = ''USD''\<rparr>"

definition aws_pricing :: pricing where
  "aws_pricing = \<lparr>pg_cpu = 31, pg_ram = 4, pg_currency = ''USD''\<rparr>"

definition azure_pricing :: pricing where
  "azure_pricing = \<lparr>pg_cpu = 27, pg_ram = f64 (32 / 10), pg_currency = ''USD''\<rparr>"

definition gcp_pricing :: pricing where
  "gcp_pricing = \<lparr>pg_cpu = 26, pg_ram = f64 (33 / 10), pg_currency = ''USD''\<rparr>"

text \<open>\<open>parse\<close> is \<open>strconv.ParseFloat\<close>, of the finite numbers.\<close>

definition apply_env_overrides :: "(string \<Rightarrow> rat option) \<Rightarrow> (string \<Rightarrow> string) \<Rightarrow> pricing \<Rightarrow> pricing" where
  "apply_env_overrides parse env p =
     (let set_price = (\<lambda>k old. if env k = [] then old else (case parse (env k) of
            Some f \<Rightarrow> if 0 \<le> f then f else old | None \<Rightarrow> old))
      in p\<lparr>pg_cpu := set_price ''K8OPS_CPU_PRICE'' (pg_cpu p), pg_ram := set_price ''K8OPS_RAM_PRICE'' (pg_ram p)\<rparr>)"

definition pricing_from_env :: "(string \<Rightarrow> rat option) \<Rightarrow> (string \<Rightarrow> string) \<Rightarrow> pricing" where
  "pricing_from_env parse env =
     (let cloud = env ''K8OPS_CLOUD_PROVIDER'' in apply_env_overrides parse env
        (if cloud = ''aws'' then aws_pricing else if cloud = ''azure'' then azure_pricing
         else if cloud = ''gcp'' then gcp_pricing else default_pricing))"

section \<open>Pods\<close>

record pod_container =
  pc_name :: string
  pc_req_cpu :: "rat option"
  pc_req_ram :: "rat option"
  pc_lim_cpu :: "rat option"
  pc_lim_ram :: "rat option"

record cost_pod =
  cp_namespace :: string
  cp_name :: string
  cp_owners :: "(string \<times> string) list"
  cp_containers :: "pod_container list"

definition resource_to_float :: "rat option \<Rightarrow> rat" where
  "resource_to_float q = (case q of None \<Rightarrow> 0 | Some x \<Rightarrow> x)"

definition ram_gb :: "rat option \<Rightarrow> rat" where
  "ram_gb q = f64_div (resource_to_float q) 1000000000"

text \<open>The value is scaled, a half is added and the rest is cut off, which is towards zero.\<close>

definition round_to :: "rat \<Rightarrow> nat \<Rightarrow> rat" where
  "round_to v decimals = f64_div (f64_of_int (int64_of_f64 (f64_add (f64_mul v (10 ^ decimals)) (1 / 2)))) (10 ^ decimals)"

section \<open>The summary\<close>

record ns_agg =
  na_pods :: int
  na_cpu :: rat
  na_ram :: rat
  na_workloads :: "string list"

record namespace_cost =
  nc_namespace :: string
  nc_pods :: int
  nc_cpu :: rat
  nc_ram :: rat
  nc_monthly :: rat
  nc_percentage :: rat
  nc_top :: "string list"

record cost_summary =
  cs_total :: rat
  cs_pods :: int
  cs_cpu :: rat
  cs_ram :: rat
  cs_namespaces :: "namespace_cost list"

definition owner_kinds :: "string list" where
  "owner_kinds = [''ReplicaSet'', ''Deployment'', ''StatefulSet'', ''DaemonSet'', ''Job'']"

definition add_container :: "pod_container \<Rightarrow> ns_agg \<Rightarrow> ns_agg" where
  "add_container c a = a\<lparr>na_cpu := f64_add (na_cpu a) (resource_to_float (pc_req_cpu c)),
     na_ram := f64_add (na_ram a) (ram_gb (pc_req_ram c))\<rparr>"

definition empty_agg :: ns_agg where
  "empty_agg = \<lparr>na_pods = 0, na_cpu = 0, na_ram = 0, na_workloads = []\<rparr>"

definition add_pod :: "cost_pod \<Rightarrow> (string \<rightharpoonup> ns_agg) \<Rightarrow> (string \<rightharpoonup> ns_agg)" where
  "add_pod p m =
     (if cp_namespace p = [] then m
      else (let a = (case m (cp_namespace p) of None \<Rightarrow> empty_agg | Some a \<Rightarrow> a);
                a1 = a\<lparr>na_pods := na_pods a + 1,
                  na_workloads := fold (\<lambda>(k, n) ws. if k \<in> set owner_kinds then List.insert n ws else ws) (cp_owners p) (na_workloads a)\<rparr>
            in m(cp_namespace p \<mapsto> fold add_container (cp_containers p) a1)))"

definition agg_cost :: "pricing \<Rightarrow> ns_agg \<Rightarrow> rat" where
  "agg_cost pr a = f64_add (f64_mul (na_cpu a) (pg_cpu pr)) (f64_mul (na_ram a) (pg_ram pr))"

definition namespace_cost_of :: "pricing \<Rightarrow> string \<Rightarrow> ns_agg \<Rightarrow> namespace_cost" where
  "namespace_cost_of pr ns a = \<lparr>nc_namespace = ns, nc_pods = na_pods a, nc_cpu = round_to (na_cpu a) 3,
     nc_ram = round_to (na_ram a) 3, nc_monthly = round_to (agg_cost pr a) 2, nc_percentage = 0,
     nc_top = take 5 (sorted_list_of_set (set (na_workloads a)))\<rparr>"

text \<open>\<open>ks\<close> is the order in which the map is iterated; equal costs may come in any order, here that of \<open>ks\<close>.\<close>

definition cost_summary_of :: "pricing \<Rightarrow> string list \<Rightarrow> cost_pod list \<Rightarrow> cost_summary" where
  "cost_summary_of pr ks pods =
     (let m = fold add_pod pods Map.empty;
          as = List.map_filter (\<lambda>k. map_option (Pair k) (m k)) ks;
          total = fold (\<lambda>(k, a) t. f64_add t (agg_cost pr a)) as 0;
          nss = sort_key (\<lambda>n. - nc_monthly n) (map (\<lambda>(k, a). namespace_cost_of pr k a) as);
          shares = map (\<lambda>n. if 0 < total then n\<lparr>nc_percentage := round_to (f64_mul (f64_div (nc_monthly n) total) 100) 1\<rparr> else n) nss
      in \<lparr>cs_total = round_to total 2, cs_pods = sum_list (map nc_pods nss),
          cs_cpu = round_to (fold (\<lambda>n t. f64_add t (nc_cpu n)) nss 0) 3,
          cs_ram = round_to (fold (\<lambda>n t. f64_add t (nc_ram n)) nss 0) 3, cs_namespaces = shares\<rparr>)"

definition estimator_summary :: "pricing \<Rightarrow> string list \<Rightarrow> string + cost_pod list \<Rightarrow> string + cost_summary" where
  "estimator_summary pr ks listed = (case listed of
     Inl e \<Rightarrow> Inl (''failed to list pods: '' @ e) | Inr pods \<Rightarrow> Inr (cost_summary_of pr ks pods))"

section \<open>Recommendations\<close>

record recommendation =
  rc_workload :: string
  rc_container :: string
  rc_current :: "rat \<times> rat"
  rc_limit :: "rat \<times> rat"
  rc_recommended :: "rat \<times> rat"
  rc_savings :: rat
  rc_savings_pct :: rat
  rc_reason :: string

text \<open>Whether a limit is more than three times its request.\<close>

definition over_ratio :: "rat \<Rightarrow> rat \<Rightarrow> bool" where
  "over_ratio req cap \<longleftrightarrow> 0 < req \<and> 0 < cap \<and> 3 < f64_div cap req"

definition recommended :: "rat \<Rightarrow> rat \<Rightarrow> rat" where
  "recommended req cap = (let r = f64_mul req 2 in if r = 0 then cap else r)"

definition container_savings :: "pricing \<Rightarrow> rat \<Rightarrow> rat \<Rightarrow> rat \<Rightarrow> rat \<Rightarrow> rat" where
  "container_savings pr req_cpu req_ram lim_cpu lim_ram =
     f64_add (f64_mul (f64_sub lim_cpu (recommended req_cpu lim_cpu)) (pg_cpu pr))
       (f64_mul (f64_sub lim_ram (recommended req_ram lim_ram)) (pg_ram pr))"

text \<open>\<open>say\<close> makes the sentence about one resource: its name, the limit, the ratio and the request.\<close>

definition recommend :: "pricing \<Rightarrow> (string \<Rightarrow> rat \<Rightarrow> rat \<Rightarrow> rat \<Rightarrow> string) \<Rightarrow> cost_pod \<Rightarrow> pod_container \<Rightarrow>
    (rat \<times> recommendation) option" where
  "recommend pr say p c =
     (let rq_cpu = resource_to_float (pc_req_cpu c); rq_ram = ram_gb (pc_req_ram c);
          lm_cpu = resource_to_float (pc_lim_cpu c); lm_ram = ram_gb (pc_lim_ram c)
      in if rq_cpu = 0 \<and> rq_ram = 0 then None
         else if \<not> over_ratio rq_cpu lm_cpu \<and> \<not> over_ratio rq_ram lm_ram then None
         else (let r1 = (if over_ratio rq_cpu lm_cpu then say ''CPU'' lm_cpu (f64_div lm_cpu rq_cpu) rq_cpu else []);
                   r2 = (if over_ratio rq_ram lm_ram then say ''RAM'' lm_ram (f64_div lm_ram rq_ram) rq_ram else []);
                   savings = container_savings pr rq_cpu rq_ram lm_cpu lm_ram;
                   current = f64_add (f64_mul lm_cpu (pg_cpu pr)) (f64_mul lm_ram (pg_ram pr));
                   pct = (if 0 < current then f64_mul (f64_div savings current) 100 else 0)
               in if savings \<le> 0 then None
                  else Some (savings, \<lparr>rc_workload = cp_namespace p @ ''/'' @ cp_name p, rc_container = pc_name c,
                    rc_current = (round_to rq_cpu 3, round_to rq_ram 3), rc_limit = (round_to lm_cpu 3, round_to lm_ram 3),
                    rc_recommended = (round_to (recommended rq_cpu lm_cpu) 3, round_to (recommended rq_ram lm_ram) 3),
                    rc_savings = round_to savings 2, rc_savings_pct = round_to pct 1,
                    rc_reason = (if r1 \<noteq> [] \<and> r2 \<noteq> [] then r1 @ ''; '' @ r2 else r1 @ r2)\<rparr>)))"

definition recommendations_of :: "pricing \<Rightarrow> (string \<Rightarrow> rat \<Rightarrow> rat \<Rightarrow> rat \<Rightarrow> string) \<Rightarrow> cost_pod list \<Rightarrow> rat \<times> recommendation list" where
  "recommendations_of pr say pods =
     (let found = List.map_filter (\<lambda>(p, c). recommend pr say p c)
            (concat (map (\<lambda>p. map (Pair p) (cp_containers p)) (filter (\<lambda>p. cp_namespace p \<noteq> []) pods)))
      in (round_to (fold (\<lambda>(s, r) t. f64_add t s) found 0) 2, sort_key (\<lambda>r. - rc_savings r) (map snd found)))"

section \<open>Lemmas\<close>

lemma fold_containers_pods: "na_pods (fold add_container cs a) = na_pods a"
  by (induction cs arbitrary: a) (simp_all add: add_container_def)

definition pods_in :: "(string \<rightharpoonup> ns_agg) \<Rightarrow> string \<Rightarrow> int" where
  "pods_in m k = (case m k of None \<Rightarrow> 0 | Some a \<Rightarrow> na_pods a)"

lemma pods_in_fold:
  "pods_in (fold add_pod pods m) k = pods_in m k + (if k = [] then 0 else int (length (filter (\<lambda>p. cp_namespace p = k) pods)))"
proof (induction pods arbitrary: m)
  case (Cons p ps)
  have "pods_in (add_pod p m) k = pods_in m k + (if k \<noteq> [] \<and> cp_namespace p = k then 1 else 0)"
    by (auto simp: pods_in_def add_pod_def Let_def fold_containers_pods empty_agg_def split: option.split)
  then show ?case using Cons.IH[of "add_pod p m"] by auto
qed simp

lemma dom_fold_pods: "dom (fold add_pod pods m) = dom m \<union> (cp_namespace ` set pods - {[]})"
proof (induction pods arbitrary: m)
  case (Cons p ps)
  have "dom (add_pod p m) = (if cp_namespace p = [] then dom m else insert (cp_namespace p) (dom m))"
    by (simp add: add_pod_def Let_def)
  then show ?case using Cons.IH[of "add_pod p m"] by auto
qed simp

lemma sum_counts:
  assumes "finite A"
  shows "(\<Sum>k \<in> A. int (length (filter (\<lambda>p. f p = k) ps))) = int (length (filter (\<lambda>p. f p \<in> A) ps))"
proof (induction ps)
  case (Cons p ps)
  have "int (length (filter (\<lambda>p. f p = k) (p # ps))) = (if f p = k then 1 else 0) + int (length (filter (\<lambda>p. f p = k) ps))" for k
    by simp
  with Cons.IH assms show ?case by (simp only: sum.distrib) (simp add: sum.delta)
qed simp

text \<open>Every pod of a namespace is counted once, whatever the order of the map.\<close>

lemma summary_counts_pods:
  assumes "map_order (fold add_pod pods Map.empty) ks"
  shows "cs_pods (cost_summary_of pr ks pods) = int (length (filter (\<lambda>p. cp_namespace p \<noteq> []) pods))"
proof -
  let ?m = "fold add_pod pods Map.empty"
  have ks: "distinct ks" "set ks = dom ?m" using assms by (auto simp: map_order_def)
  have "sum_list (map nc_pods (map (\<lambda>(k, a). namespace_cost_of pr k a) (List.map_filter (\<lambda>k. map_option (Pair k) (?m k)) xs))) =
      sum_list (map (pods_in ?m) xs)" for xs
    by (induction xs) (auto simp: map_filter_simps pods_in_def namespace_cost_of_def split: option.split)
  moreover have "sum_list (map nc_pods (sort_key (\<lambda>n. - nc_monthly n) ns)) = sum_list (map nc_pods ns)" for ns :: "namespace_cost list"
  proof -
    have "mset (map nc_pods (sort_key (\<lambda>n. - nc_monthly n) ns)) = mset (map nc_pods ns)" by simp
    from arg_cong[OF this, of sum_mset] show ?thesis by (simp only: sum_mset_sum_list)
  qed
  ultimately have "cs_pods (cost_summary_of pr ks pods) = sum_list (map (pods_in ?m) ks)"
    by (simp add: cost_summary_of_def Let_def)
  also have "\<dots> = (\<Sum>k \<in> set ks. pods_in ?m k)" using ks(1) by (simp add: sum_list_distinct_conv_sum_set)
  also have "\<dots> = (\<Sum>k \<in> set ks. int (length (filter (\<lambda>p. cp_namespace p = k) pods)))"
    using ks(2) dom_fold_pods[of pods Map.empty] by (intro sum.cong) (auto simp: pods_in_fold, simp_all add: pods_in_def)
  also have "\<dots> = int (length (filter (\<lambda>p. cp_namespace p \<in> set ks) pods))"
    by (rule sum_counts) simp
  also have "filter (\<lambda>p. cp_namespace p \<in> set ks) pods = filter (\<lambda>p. cp_namespace p \<noteq> []) pods"
    using ks(2) dom_fold_pods[of pods Map.empty] by (intro filter_cong) auto
  finally show ?thesis .
qed

text \<open>A recommendation is made only when it saves, and only for a container one of whose limits is more
  than three times its request; nothing keeps what is recommended below the limit.\<close>

lemma recommend_saves:
  assumes "recommend pr say p c = Some (s, r)"
  shows "0 < s \<and> s = container_savings pr (resource_to_float (pc_req_cpu c)) (ram_gb (pc_req_ram c))
      (resource_to_float (pc_lim_cpu c)) (ram_gb (pc_lim_ram c)) \<and>
    (over_ratio (resource_to_float (pc_req_cpu c)) (resource_to_float (pc_lim_cpu c)) \<or>
     over_ratio (ram_gb (pc_req_ram c)) (ram_gb (pc_lim_ram c)))"
  using assms by (auto simp: recommend_def Let_def split: if_splits)

lemma recommended_above_limit:
  "container_savings default_pricing 1 4 16 5 = 763 / 2 \<and> recommended 4 5 = 8"
  by code_simp

end
