(* ===== verification/Dash_Backup.thy ===== *)
theory Dash_Backup
  imports Analysis "HOL-Library.List_Lexorder" "HOL-Library.Char_ord"
begin

text \<open>
  Backups of the database file (internal/dashboard/handlers_backup.go): the file system as a list of clean absolute
  paths, the functions of packages os, io and path/filepath on it, and the handlers. The disk is a parameter: it may refuse any
  call and may stop a copy after some bytes. There are no symbolic links, and nobody else writes during a handler.

  \<open>db_path\<close> is the main file of the database. SQLite runs in WAL mode (internal/auth/store.go), so what was committed last stands
  in the write-ahead log beside it, \<open>wal_path\<close>, until a checkpoint; what SQLite reads from the two files is a parameter.
\<close>

section \<open>The file system\<close>

datatype fs_node = Fs_dir | Fs_file string time

type_synonym fs = "(string \<times> fs_node) list"

datatype io_call = Io_mkdir string | Io_open string | Io_create string | Io_stat string | Io_remove string | Io_read_dir string | Io_info string

text \<open>\<open>dk_cut\<close>: a copy from one path to another stops after some bytes with an error.\<close>

record disk =
  dk_refuses :: "io_call \<Rightarrow> string option"
  dk_cut :: "string \<Rightarrow> string \<Rightarrow> (nat \<times> string) option"

definition fs_put :: "string \<Rightarrow> fs_node \<Rightarrow> fs \<Rightarrow> fs" where
  "fs_put p n fs = (p, n) # filter (\<lambda>(q, _). q \<noteq> p) fs"

definition fs_drop :: "string \<Rightarrow> fs \<Rightarrow> fs" where
  "fs_drop p fs = filter (\<lambda>(q, _). q \<noteq> p) fs"

text \<open>The name of a path in a directory.\<close>

definition name_in :: "string \<Rightarrow> string \<Rightarrow> string option" where
  "name_in dir p = (let name = drop (length dir + 1) p in
     if has_prefix p (dir @ ''/'') \<and> name \<noteq> [] \<and> CHR ''/'' \<notin> set name then Some name else None)"

definition has_children :: "string \<Rightarrow> fs \<Rightarrow> bool" where
  "has_children dir fs = list_ex (\<lambda>(p, _). name_in dir p \<noteq> None) fs"

text \<open>Package path/filepath: \<open>Base\<close>, and \<open>Join\<close> of an absolute path and a name.\<close>

definition filepath_base :: "string \<Rightarrow> string" where
  "filepath_base s = (if s = [] then ''.'' else
     let t = dropWhile (\<lambda>c. c = CHR ''/'') (rev s); u = rev (takeWhile (\<lambda>c. c \<noteq> CHR ''/'') t) in
     if u = [] then ''/'' else u)"

fun clean_segments :: "string list \<Rightarrow> string list \<Rightarrow> string list" where
  "clean_segments acc [] = rev acc"
| "clean_segments acc (x # xs) =
     (if x = [] \<or> x = ''.'' then clean_segments acc xs
      else if x = ''..'' then clean_segments (tl acc) xs
      else clean_segments (x # acc) xs)"

definition filepath_join :: "string \<Rightarrow> string \<Rightarrow> string" where
  "filepath_join dir name = (case clean_segments [] (split_on (CHR ''/'') (dir @ ''/'' @ name)) of
     [] \<Rightarrow> ''/'' | xs \<Rightarrow> concat (map (\<lambda>x. ''/'' @ x) xs))"

definition parent_dir :: "string \<Rightarrow> string" where
  "parent_dir p = (case last_index (CHR ''/'') p of Some i \<Rightarrow> if i = 0 then ''/'' else take i p | None \<Rightarrow> ''.'')"

definition is_dir :: "string \<Rightarrow> fs \<Rightarrow> bool" where
  "is_dir p fs \<longleftrightarrow> p = ''/'' \<or> map_of fs p = Some Fs_dir"

text \<open>\<open>os.MkdirAll\<close>: what exists is passed over, and the parent comes first.\<close>

definition mkdir_one :: "disk \<Rightarrow> string \<Rightarrow> fs \<Rightarrow> string option \<times> fs" where
  "mkdir_one D p fs = (case map_of fs p of
     Some Fs_dir \<Rightarrow> (None, fs)
   | Some (Fs_file _ _) \<Rightarrow> (Some (''mkdir '' @ p @ '': not a directory''), fs)
   | None \<Rightarrow> (case dk_refuses D (Io_mkdir p) of Some e \<Rightarrow> (Some e, fs) | None \<Rightarrow> (None, fs_put p Fs_dir fs)))"

definition mkdir_all :: "disk \<Rightarrow> string \<Rightarrow> fs \<Rightarrow> string option \<times> fs" where
  "mkdir_all D p fs = (case map_of fs p of
     None \<Rightarrow> if parent_dir p = ''/'' then mkdir_one D p fs else
       (case mkdir_one D (parent_dir p) fs of (Some e, fs1) \<Rightarrow> (Some e, fs1) | (None, fs1) \<Rightarrow> mkdir_one D p fs1)
   | Some _ \<Rightarrow> mkdir_one D p fs)"

definition os_open :: "disk \<Rightarrow> string \<Rightarrow> fs \<Rightarrow> string option" where
  "os_open D p fs = (case dk_refuses D (Io_open p) of
     Some e \<Rightarrow> Some e
   | None \<Rightarrow> if map_of fs p = None then Some (''open '' @ p @ '': no such file or directory'') else None)"

definition os_create :: "disk \<Rightarrow> time \<Rightarrow> string \<Rightarrow> fs \<Rightarrow> string + fs" where
  "os_create D now p fs = (case dk_refuses D (Io_create p) of
     Some e \<Rightarrow> Inl e
   | None \<Rightarrow> if \<not> is_dir (parent_dir p) fs then Inl (''open '' @ p @ '': no such file or directory'')
       else if is_dir p fs then Inl (''open '' @ p @ '': is a directory'')
       else Inr (fs_put p (Fs_file [] now) fs))"

text \<open>\<open>os.IsNotExist\<close> of the error of \<open>os.Stat\<close>.\<close>

definition os_missing :: "disk \<Rightarrow> string \<Rightarrow> fs \<Rightarrow> bool" where
  "os_missing D p fs \<longleftrightarrow> dk_refuses D (Io_stat p) = None \<and> map_of fs p = None"

definition os_remove :: "disk \<Rightarrow> string \<Rightarrow> fs \<Rightarrow> string + fs" where
  "os_remove D p fs = (case dk_refuses D (Io_remove p) of
     Some e \<Rightarrow> Inl e
   | None \<Rightarrow> (case map_of fs p of
       None \<Rightarrow> Inl (''remove '' @ p @ '': no such file or directory'')
     | Some (Fs_file _ _) \<Rightarrow> Inr (fs_drop p fs)
     | Some Fs_dir \<Rightarrow> if has_children p fs then Inl (''remove '' @ p @ '': directory not empty'') else Inr (fs_drop p fs)))"

text \<open>\<open>io.Copy\<close> of an opened file into a created one.\<close>

definition io_copy :: "disk \<Rightarrow> time \<Rightarrow> string \<Rightarrow> string \<Rightarrow> fs \<Rightarrow> (string + nat) \<times> fs" where
  "io_copy D now src dst fs = (case map_of fs src of
     Some (Fs_file bytes _) \<Rightarrow> (case dk_cut D src dst of
         None \<Rightarrow> (Inr (length bytes), fs_put dst (Fs_file bytes now) fs)
       | Some (k, e) \<Rightarrow> (Inl e, fs_put dst (Fs_file (take k bytes) now) fs))
   | _ \<Rightarrow> (Inl (''read '' @ src @ '': is a directory''), fs))"

section \<open>The handlers\<close>

definition backup_dir :: string where "backup_dir = ''/data/backups''"
definition db_path :: string where "db_path = ''/data/k8ops.db''"

text \<open>\<open>bs_stamp\<close> formats the time of a backup as \<open>20060102-150405\<close>, \<open>bs_json_time\<close> one in JSON.\<close>

record backup_server =
  bs_disk :: disk
  bs_stamp :: "time \<Rightarrow> string"
  bs_json_time :: "time \<Rightarrow> string"

record backup_info =
  bi_name :: string
  bi_size :: int
  bi_created_at :: time
  bi_type :: string

definition size_mb :: "int \<Rightarrow> rat" where
  "size_mb n = f64_div (f64_div (f64_of_int n) 1024) 1024"

text \<open>\<open>os.ReadDir\<close> sorts by name; directories and entries without information are left out.\<close>

definition backup_entry :: "disk \<Rightarrow> string \<times> fs_node \<Rightarrow> backup_info option" where
  "backup_entry D = (\<lambda>(p, n). case (name_in backup_dir p, n) of
     (Some name, Fs_file bytes t) \<Rightarrow> if dk_refuses D (Io_info p) \<noteq> None then None else
       Some \<lparr>bi_name = name, bi_size = int (length bytes), bi_created_at = t, bi_type = (if contains name ''audit'' then ''audit'' else ''full'')\<rparr>
   | _ \<Rightarrow> None)"

definition list_backups :: "disk \<Rightarrow> backup_info slice_sort \<Rightarrow> fs \<Rightarrow> string + backup_info list" where
  "list_backups D srt fs = (case dk_refuses D (Io_read_dir backup_dir) of
     Some e \<Rightarrow> Inl e
   | None \<Rightarrow> (case map_of fs backup_dir of
       None \<Rightarrow> Inl (''open '' @ backup_dir @ '': no such file or directory'')
     | Some (Fs_file _ _) \<Rightarrow> Inl (''readdirent '' @ backup_dir @ '': not a directory'')
     | Some Fs_dir \<Rightarrow> Inr (srt (\<lambda>a b. bi_created_at b < bi_created_at a) (List.map_filter (backup_entry D) (sort_key fst fs)))))"

definition backup_json :: "backup_server \<Rightarrow> time \<Rightarrow> backup_info \<Rightarrow> any" where
  "backup_json S now b = AObject [(''name'', AString (bi_name b)), (''sizeBytes'', AInt (bi_size b)), (''sizeMB'', AFloat (size_mb (bi_size b))),
     (''createdAt'', AString (bs_json_time S (bi_created_at b))), (''age'', AString (age_time now (bi_created_at b))), (''type'', AString (bi_type b))]"

definition handle_backup_list :: "backup_server \<Rightarrow> backup_info slice_sort \<Rightarrow> time \<Rightarrow> fs \<Rightarrow> http_resp" where
  "handle_backup_list S srt now fs = (case list_backups (bs_disk S) srt fs of
     Inl e \<Rightarrow> write_json (AObject [(''backups'', AList []), (''summary'', AObject [(''count'', AInt 0), (''totalSizeMB'', AInt 0),
       (''backupDir'', AString backup_dir), (''available'', ABool False), (''error'', AString e)])])
   | Inr bs \<Rightarrow> write_json (AObject [(''backups'', AList (map (backup_json S now) bs)), (''summary'', AObject [(''count'', AInt (int (length bs))),
       (''totalSizeMB'', AFloat (size_mb (sum_list (map bi_size bs)))), (''backupDir'', AString backup_dir), (''available'', ABool True)])]))"

definition backup_name :: "backup_server \<Rightarrow> time \<Rightarrow> string" where
  "backup_name S t = ''k8ops-db-'' @ bs_stamp S t @ ''.db''"

definition handle_backup_create :: "backup_server \<Rightarrow> time \<Rightarrow> fs \<Rightarrow> http_resp \<times> fs" where
  "handle_backup_create S now fs = (let D = bs_disk S; path = filepath_join backup_dir (backup_name S now) in
     case mkdir_all D backup_dir fs of
       (Some e, fs1) \<Rightarrow> (write_error 500 (''failed to create backup dir: '' @ e), fs1)
     | (None, fs1) \<Rightarrow> (case os_open D db_path fs1 of
         Some e \<Rightarrow> (write_error 500 (''failed to open database: '' @ e), fs1)
       | None \<Rightarrow> (case os_create D now path fs1 of
           Inl e \<Rightarrow> (write_error 500 (''failed to create backup file: '' @ e), fs1)
         | Inr fs2 \<Rightarrow> (case io_copy D now db_path path fs2 of
             (Inl e, fs3) \<Rightarrow> (write_error 500 (''backup copy failed: '' @ e), fs3)
           | (Inr n, fs3) \<Rightarrow> (write_json (AObject [(''success'', ABool True), (''name'', AString (filepath_base path)),
               (''sizeMB'', AFloat (size_mb (int n))), (''path'', AString path), (''message'', AString ''backup created successfully'')]), fs3)))))"

text \<open>The name in the query, or the last of at least four segments of the path.\<close>

definition trim_slashes :: "string \<Rightarrow> string" where
  "trim_slashes s = rev (dropWhile (\<lambda>c. c = CHR ''/'') (rev (dropWhile (\<lambda>c. c = CHR ''/'') s)))"

definition delete_name :: "http_req \<Rightarrow> string" where
  "delete_name rq = (if rq_query rq ''name'' \<noteq> [] then rq_query rq ''name'' else
     let parts = split_on (CHR ''/'') (trim_slashes (rq_path rq)) in if 4 \<le> length parts then last parts else [])"

definition handle_backup_delete :: "backup_server \<Rightarrow> http_req \<Rightarrow> fs \<Rightarrow> http_resp \<times> fs" where
  "handle_backup_delete S rq fs = (let D = bs_disk S; name = delete_name rq; path = filepath_join backup_dir name in
     if name = [] then (write_error 400 ''backup name required'', fs)
     else if filepath_base name \<noteq> name then (write_error 400 ''invalid backup name'', fs)
     else if os_missing D path fs then (write_error 404 (''backup not found: '' @ name), fs)
     else (case os_remove D path fs of
         Inl e \<Rightarrow> (write_error 500 (''failed to delete: '' @ e), fs)
       | Inr fs1 \<Rightarrow> (write_json (AObject [(''success'', ABool True), (''message'', AString (''backup deleted: '' @ name))]), fs1)))"

definition handle_backup_restore :: "backup_server \<Rightarrow> time \<Rightarrow> http_req \<Rightarrow> fs \<Rightarrow> http_resp \<times> fs" where
  "handle_backup_restore S now rq fs = (let D = bs_disk S; name = rq_query rq ''name''; path = filepath_join backup_dir name in
     if name = [] then (write_error 400 ''backup name required (?name=)'', fs)
     else if filepath_base name \<noteq> name then (write_error 400 ''invalid backup name'', fs)
     else if os_missing D path fs then (write_error 404 (''backup not found: '' @ name), fs)
     else (case os_open D path fs of
         Some e \<Rightarrow> (write_error 500 (''failed to open backup: '' @ e), fs)
       | None \<Rightarrow> (case os_create D now db_path fs of
           Inl e \<Rightarrow> (write_error 500 (''failed to open database for write: '' @ e), fs)
         | Inr fs1 \<Rightarrow> (case io_copy D now path db_path fs1 of
             (Inl e, fs2) \<Rightarrow> (write_error 500 (''restore copy failed: '' @ e), fs2)
           | (Inr n, fs2) \<Rightarrow> (write_json (AObject [(''success'', ABool True), (''restoredFrom'', AString name), (''sizeMB'', AFloat (size_mb (int n))),
               (''message'', AString (''restore completed '' @ em_dash @ '' restart pod to apply changes'')),
               (''note'', AString ''The restored data will be active after the pod restarts'')]), fs2)))))"

definition handle_backup_dispatch :: "backup_server \<Rightarrow> backup_info slice_sort \<Rightarrow> time \<Rightarrow> http_req \<Rightarrow> fs \<Rightarrow> http_resp \<times> fs" where
  "handle_backup_dispatch S srt now rq fs =
     (if rq_method rq = ''GET'' then (handle_backup_list S srt now fs, fs)
      else if rq_method rq = ''POST'' then handle_backup_create S now fs
      else if rq_method rq = ''DELETE'' then handle_backup_delete S rq fs
      else (write_error 405 ''method not allowed'', fs))"

section \<open>Lemmas\<close>

lemma map_of_fs [simp]: "map_of (fs_put p n fs) = (map_of fs)(p \<mapsto> n)" "map_of (fs_drop p fs) = (map_of fs)(p := None)"
  by (induction fs) (auto simp: fs_put_def fs_drop_def fun_eq_iff)

definition content_at :: "string \<Rightarrow> fs \<Rightarrow> string option" where
  "content_at p fs = (case map_of fs p of Some (Fs_file bytes _) \<Rightarrow> Some bytes | _ \<Rightarrow> None)"

definition wal_path :: string where "wal_path = db_path @ ''-wal''"

text \<open>A name that is its own base has no slash, but it may be one, or dots.\<close>

lemma base_itself: "filepath_base n = n \<Longrightarrow> n = ''/'' \<or> CHR ''/'' \<notin> set n"
  by (auto simp: filepath_base_def Let_def split: if_splits) (metis set_rev set_takeWhileD)+

lemma split_backup: "CHR ''/'' \<notin> set n \<Longrightarrow> split_on (CHR ''/'') (backup_dir @ ''/'' @ n) = [[], ''data'', ''backups'', n]"
  using split_on_skip[of "CHR ''/''" "[]" "''data/backups/'' @ n"] split_on_skip[of "CHR ''/''" "''data''" "''backups/'' @ n"]
    split_on_skip[of "CHR ''/''" "''backups''" n] by (simp add: backup_dir_def split_on_no_sep)

lemma join_plain:
  assumes "CHR ''/'' \<notin> set n" "n \<notin> {[], ''.'', ''..''}"
  shows "filepath_join backup_dir n = backup_dir @ ''/'' @ n"
  unfolding filepath_join_def split_backup[OF assms(1)] using assms(2) by (simp add: backup_dir_def)

lemma join_dots: "filepath_join backup_dir ''.'' = backup_dir" "filepath_join backup_dir ''..'' = ''/data''" "filepath_join backup_dir ''/'' = backup_dir"
  by (code_simp)+

lemma name_in_plain: "CHR ''/'' \<notin> set n \<Longrightarrow> n \<noteq> [] \<Longrightarrow> name_in dir (dir @ ''/'' @ n) = Some n"
  by (simp add: name_in_def Let_def has_prefix_def)

lemma own_base_path:
  assumes "filepath_base n = n" "n \<noteq> []"
  shows "name_in backup_dir (filepath_join backup_dir n) = Some n \<or> filepath_join backup_dir n \<in> {backup_dir, ''/data''}"
proof (cases "n \<in> {''/'', ''.'', ''..''}")
  case False
  then have "CHR ''/'' \<notin> set n" "n \<notin> {[], ''.'', ''..''}" using base_itself[OF assms(1)] assms(2) by auto
  then show ?thesis using join_plain name_in_plain assms(2) by metis
qed (auto simp: join_dots)

lemma db_path_apart [simp]: "db_path \<noteq> backup_dir" "db_path \<noteq> ''/data''" "name_in backup_dir db_path = None"
    "wal_path \<noteq> backup_dir" "wal_path \<noteq> ''/data''" "name_in backup_dir wal_path = None" "wal_path \<noteq> db_path"
  by (code_simp)+

lemma own_base_not_db:
  assumes "filepath_base n = n" "n \<noteq> []"
  shows "filepath_join backup_dir n \<noteq> db_path" "filepath_join backup_dir n \<noteq> wal_path"
proof -
  have no: "p \<noteq> filepath_join backup_dir n" if "name_in backup_dir p = None" "p \<noteq> backup_dir" "p \<noteq> ''/data''" for p
    using own_base_path[OF assms] that by auto
  show "filepath_join backup_dir n \<noteq> db_path" "filepath_join backup_dir n \<noteq> wal_path"
    using no[of db_path] no[of wal_path] by simp_all
qed

lemma copy_stores:
  assumes "io_copy D now src dst fs = (Inr n, fs1)"
  obtains bytes t where "map_of fs src = Some (Fs_file bytes t)" "map_of fs1 = (map_of fs)(dst \<mapsto> Fs_file bytes now)"
  using assms by (auto simp: io_copy_def split: option.splits fs_node.splits prod.splits)

lemma create_empties: "os_create D now p fs = Inr fs1 \<Longrightarrow> map_of fs1 = (map_of fs)(p \<mapsto> Fs_file [] now)"
  by (auto simp: os_create_def split: option.splits if_splits)

lemma mkdir_keeps:
  assumes "mkdir_all D p fs = (r, fs1)" "map_of fs q = Some n"
  shows "map_of fs1 q = Some n"
  using assms by (auto simp: mkdir_all_def mkdir_one_def split: option.splits fs_node.splits if_splits prod.splits)

lemma mkdir_adds:
  assumes "mkdir_all D p fs = (r, fs1)" "map_of fs1 q = Some (Fs_file b t)"
  shows "map_of fs q = Some (Fs_file b t)"
  using assms by (auto simp: mkdir_all_def mkdir_one_def split: option.splits fs_node.splits if_splits prod.splits)

text \<open>The database is what SQLite makes of the bytes of the main file and of the write-ahead log.\<close>

definition database_content :: "(string option \<Rightarrow> string option \<Rightarrow> 'v) \<Rightarrow> fs \<Rightarrow> 'v" where
  "database_content sqlite fs = sqlite (content_at db_path fs) (content_at wal_path fs)"

lemma mkdir_contents: "mkdir_all D p fs = (r, fs1) \<Longrightarrow> content_at q fs1 = content_at q fs"
  by (auto simp: content_at_def dest: mkdir_keeps mkdir_adds split: option.splits fs_node.splits)

text \<open>What a successful backup and a successful restore leave.\<close>

lemma create_copies:
  assumes "handle_backup_create S now fs = (r, fs1)" "resp_code r = 200" "filepath_join backup_dir (backup_name S now) \<noteq> db_path"
  shows "content_at (filepath_join backup_dir (backup_name S now)) fs1 = content_at db_path fs" "content_at db_path fs \<noteq> None"
proof -
  let ?p = "filepath_join backup_dir (backup_name S now)"
  obtain f1 f2 n where m: "mkdir_all (bs_disk S) backup_dir fs = (None, f1)" and c: "os_create (bs_disk S) now ?p f1 = Inr f2"
    and k: "io_copy (bs_disk S) now db_path ?p f2 = (Inr n, fs1)"
    using assms(1,2) by (auto simp: handle_backup_create_def Let_def split: prod.splits option.splits sum.splits)
  from k obtain b t where b: "map_of f2 db_path = Some (Fs_file b t)" "map_of fs1 = (map_of f2)(?p \<mapsto> Fs_file b now)"
    by (rule copy_stores)
  then have "map_of f1 db_path = Some (Fs_file b t)" using create_empties[OF c] assms(3) by simp
  from mkdir_adds[OF m this] b show "content_at ?p fs1 = content_at db_path fs" "content_at db_path fs \<noteq> None"
    by (simp_all add: content_at_def)
qed

lemma restore_base:
  assumes "handle_backup_restore S now rq fs = (r, fs1)" "resp_code r = 200"
  shows "filepath_base (rq_query rq ''name'') = rq_query rq ''name''"
proof (rule ccontr)
  assume "filepath_base (rq_query rq ''name'') \<noteq> rq_query rq ''name''"
  then have "resp_code (fst (handle_backup_restore S now rq fs)) = 400"
    by (cases "rq_query rq ''name'' = []")
      (simp_all only: handle_backup_restore_def Let_def if_True if_False simp_thms fst_conv resp_code_simps)
  then show False using assms by simp
qed

lemma restore_copies:
  assumes "handle_backup_restore S now rq fs = (r, fs1)" "resp_code r = 200"
    and "filepath_join backup_dir (rq_query rq ''name'') \<noteq> db_path"
  shows "content_at db_path fs1 = content_at (filepath_join backup_dir (rq_query rq ''name'')) fs"
proof -
  let ?p = "filepath_join backup_dir (rq_query rq ''name'')"
  obtain f1 n where c: "os_create (bs_disk S) now db_path fs = Inr f1"
    and k: "io_copy (bs_disk S) now ?p db_path f1 = (Inr n, fs1)"
    using assms(1,2) by (auto simp: handle_backup_restore_def Let_def split: prod.splits option.splits sum.splits if_splits)
  from k obtain b t where "map_of f1 ?p = Some (Fs_file b t)" "map_of fs1 = (map_of f1)(db_path \<mapsto> Fs_file b now)" by (rule copy_stores)
  then show "content_at db_path fs1 = content_at ?p fs" using create_empties[OF c] assms(3) by (simp add: content_at_def)
qed

lemma create_leaves:
  assumes "handle_backup_create S now fs = (r, fs1)" "resp_code r = 200" "q \<noteq> filepath_join backup_dir (backup_name S now)"
  shows "content_at q fs1 = content_at q fs"
proof -
  let ?p = "filepath_join backup_dir (backup_name S now)"
  obtain f1 f2 n where m: "mkdir_all (bs_disk S) backup_dir fs = (None, f1)" and c: "os_create (bs_disk S) now ?p f1 = Inr f2"
    and k: "io_copy (bs_disk S) now db_path ?p f2 = (Inr n, fs1)"
    using assms(1,2) by (auto simp: handle_backup_create_def Let_def split: prod.splits option.splits sum.splits)
  from k obtain b t where "map_of fs1 = (map_of f2)(?p \<mapsto> Fs_file b now)" by (rule copy_stores)
  then have "content_at q fs1 = content_at q f1" using create_empties[OF c] assms(3) by (simp add: content_at_def)
  with mkdir_contents[OF m] show ?thesis by simp
qed

lemma restore_leaves:
  assumes "handle_backup_restore S now rq fs = (r, fs1)" "resp_code r = 200" "q \<noteq> db_path"
  shows "content_at q fs1 = content_at q fs"
proof -
  let ?p = "filepath_join backup_dir (rq_query rq ''name'')"
  obtain f1 n where c: "os_create (bs_disk S) now db_path fs = Inr f1"
    and k: "io_copy (bs_disk S) now ?p db_path f1 = (Inr n, fs1)"
    using assms(1,2) by (auto simp: handle_backup_restore_def Let_def split: prod.splits option.splits sum.splits if_splits)
  from k obtain b t where "map_of fs1 = (map_of f1)(db_path \<mapsto> Fs_file b now)" by (rule copy_stores)
  then show ?thesis using create_empties[OF c] assms(3) by (simp add: content_at_def)
qed

section \<open>Properties\<close>

text \<open>C34. A backup is the main file of the database without its write-ahead log, and a restore puts it beside the log of the time of
  the restore: when a backup was taken and later, after any changes to other files, restored under its name, and both handlers
  answered 200, then the backup held the bytes of the main file alone and left the database as it was, and the database is now what
  SQLite reads from the main file of the first time and the log of the second: the one that was backed up when the log is the same
  again, while content that was committed to the log only is in no backup.\<close>

theorem backup_without_wal:
  assumes "handle_backup_create S t fs = (r, fs1)" "resp_code r = 200"
    and "content_at (filepath_join backup_dir (backup_name S t)) fs2 = content_at (filepath_join backup_dir (backup_name S t)) fs1"
    and "rq_query rq ''name'' = backup_name S t" "handle_backup_restore S2 t2 rq fs2 = (r2, fs3)" "resp_code r2 = 200"
  shows "content_at (filepath_join backup_dir (backup_name S t)) fs1 = content_at db_path fs \<and> content_at db_path fs \<noteq> None \<and>
    database_content sqlite fs1 = database_content sqlite fs \<and>
    database_content sqlite fs3 = sqlite (content_at db_path fs) (content_at wal_path fs2)"
proof -
  let ?n = "backup_name S t" and ?p = "filepath_join backup_dir (backup_name S t)"
  have base: "filepath_base ?n = ?n" using restore_base[OF assms(5,6)] assms(4) by simp
  have "?n \<noteq> []" by (simp add: backup_name_def)
  note ne = own_base_not_db[OF base this]
  note c = create_copies[OF assms(1,2) ne(1)]
  have "content_at q fs1 = content_at q fs" if "q \<noteq> ?p" for q
    using create_leaves[OF assms(1,2) that] .
  then have "database_content sqlite fs1 = database_content sqlite fs" using ne by (simp add: database_content_def)
  moreover have m: "content_at db_path fs3 = content_at db_path fs" "content_at wal_path fs3 = content_at wal_path fs2"
    using restore_copies[OF assms(5,6)] restore_leaves[OF assms(5,6), of wal_path] ne(1) assms(3,4) c(1) by simp_all
  ultimately show ?thesis using c by (simp add: database_content_def m)
qed

text \<open>C35. What a deletion removes: nothing, or one entry that lies directly in the backup directory, or, when the name
  is a slash or dots, the backup directory or its parent, if it has nothing in it; the database stays.\<close>

theorem deletion_confined:
  "(snd (handle_backup_delete S rq fs) = fs \<or>
    (\<exists>p. snd (handle_backup_delete S rq fs) = fs_drop p fs \<and> (name_in backup_dir p = Some (delete_name rq) \<or> p \<in> {backup_dir, ''/data''}) \<and>
      \<not> (is_dir p fs \<and> has_children p fs))) \<and>
   map_of (snd (handle_backup_delete S rq fs)) db_path = map_of fs db_path"
proof -
  let ?p = "filepath_join backup_dir (delete_name rq)"
  consider "snd (handle_backup_delete S rq fs) = fs"
    | fs1 where "filepath_base (delete_name rq) = delete_name rq" "delete_name rq \<noteq> []" "os_remove (bs_disk S) ?p fs = Inr fs1"
        "snd (handle_backup_delete S rq fs) = fs1"
  proof (cases "delete_name rq = [] \<or> filepath_base (delete_name rq) \<noteq> delete_name rq \<or> os_missing (bs_disk S) ?p fs")
    case True
    then have "snd (handle_backup_delete S rq fs) = fs"
      by (elim disjE) (simp_all only: handle_backup_delete_def Let_def if_True if_False simp_thms snd_conv split: if_split)
    then show ?thesis by (rule that(1))
  next
    case False
    then have e: "snd (handle_backup_delete S rq fs) = (case os_remove (bs_disk S) ?p fs of Inl e \<Rightarrow> fs | Inr fs1 \<Rightarrow> fs1)"
      unfolding handle_backup_delete_def Let_def by (simp split: sum.split)
    show ?thesis by (cases "os_remove (bs_disk S) ?p fs") (use that e False in simp_all)
  qed
  then show ?thesis
  proof cases
    case 2
    note p = own_base_path[OF 2(1,2)]
    have "?p \<noteq> ''/''" using p by (auto simp: backup_dir_def name_in_def has_prefix_def Let_def)
    with 2(3) have r: "fs1 = fs_drop ?p fs" "\<not> (is_dir ?p fs \<and> has_children ?p fs)"
      by (auto simp: os_remove_def is_dir_def split: option.splits fs_node.splits if_splits)
    have "map_of fs1 db_path = map_of fs db_path" using own_base_not_db[OF 2(1,2)] by (simp add: r(1))
    then show ?thesis unfolding 2(4) using r p by blast
  qed simp
qed

text \<open>A restore from the backup directory itself empties the database: with the name of a dot, when the disk refuses nothing,
  the answer is 500, and by then the file of the database has been truncated.\<close>

theorem restore_of_dot_empties:
  assumes "rq_query rq ''name'' = ''.''" "map_of fs backup_dir = Some Fs_dir" "map_of fs ''/data'' = Some Fs_dir"
    and "map_of fs db_path \<noteq> Some Fs_dir" "\<forall>c. dk_refuses (bs_disk S) c = None"
  shows "resp_code (fst (handle_backup_restore S now rq fs)) = 500 \<and> content_at db_path (snd (handle_backup_restore S now rq fs)) = Some []"
proof -
  have b: "filepath_base ''.'' = ''.''" "parent_dir db_path = ''/data''" "db_path \<noteq> ''/''" by code_simp+
  then have "os_create (bs_disk S) now db_path fs = Inr (fs_put db_path (Fs_file [] now) fs)"
    using assms(3,4,5) by (simp add: os_create_def is_dir_def)
  then show ?thesis using b assms(1,2,5)
    by (simp add: handle_backup_restore_def Let_def join_dots os_missing_def os_open_def io_copy_def content_at_def
        db_path_apart(1)[symmetric])
qed

definition calm_disk :: disk where
  "calm_disk = \<lparr>dk_refuses = \<lambda>c. None, dk_cut = \<lambda>src dst. None\<rparr>"

definition demo_backups :: backup_server where
  "demo_backups = \<lparr>bs_disk = calm_disk, bs_stamp = \<lambda>t. ''20250101-000000'', bs_json_time = \<lambda>t. []\<rparr>"

definition demo_data :: fs where
  "demo_data = [(''/data'', Fs_dir), (db_path, Fs_file ''users and keys'' 0)]"

definition named_request :: "string \<Rightarrow> http_req" where
  "named_request name = \<lparr>rq_method = ''POST'', rq_path = ''/api/system/backup/restore'', rq_query = (\<lambda>k. name), rq_header = (\<lambda>k. []),
     rq_cookie = (\<lambda>k. None), rq_json = None, rq_raw_query = [], rq_remote_addr = []\<rparr>"

definition demo_later :: fs where
  "demo_later = fs_put db_path (Fs_file ''nothing'' 7) (snd (handle_backup_create demo_backups 5 demo_data))"

text \<open>The log adds to what the main file holds; keys were committed after the last checkpoint before the backup, and a checkpoint
  has emptied the log when it is restored.\<close>

definition demo_sqlite :: "string option \<Rightarrow> string option \<Rightarrow> string" where
  "demo_sqlite m w = (case m of None \<Rightarrow> [] | Some b \<Rightarrow> b @ (case w of None \<Rightarrow> [] | Some c \<Rightarrow> c))"

definition demo_wal_data :: fs where
  "demo_wal_data = [(''/data'', Fs_dir), (db_path, Fs_file ''users'' 0), (wal_path, Fs_file '' and keys'' 1)]"

definition demo_checkpointed :: fs where
  "demo_checkpointed = fs_put db_path (Fs_file ''users and keys'' 7) (fs_put wal_path (Fs_file [] 7)
     (snd (handle_backup_create demo_backups 5 demo_wal_data)))"

theorem backup_without_wal_witness:
  "database_content demo_sqlite demo_wal_data = ''users and keys'' \<and> database_content demo_sqlite demo_checkpointed = ''users and keys'' \<and>
   database_content demo_sqlite (snd (handle_backup_restore demo_backups 9 (named_request (backup_name demo_backups 5)) demo_checkpointed)) = ''users''"
proof -
  let ?rq = "named_request (backup_name demo_backups 5)" and ?p = "filepath_join backup_dir (backup_name demo_backups 5)"
  have c: "resp_code (fst (handle_backup_create demo_backups 5 demo_wal_data)) = 200" by code_simp
  have "?p \<noteq> db_path" "?p \<noteq> wal_path" by code_simp+
  then have k: "content_at ?p demo_checkpointed = content_at ?p (snd (handle_backup_create demo_backups 5 demo_wal_data))"
    by (simp add: demo_checkpointed_def content_at_def)
  have r: "resp_code (fst (handle_backup_restore demo_backups 9 ?rq demo_checkpointed)) = 200" by code_simp
  have q: "rq_query ?rq ''name'' = backup_name demo_backups 5" by (simp add: named_request_def)
  have v: "database_content demo_sqlite demo_wal_data = ''users and keys''" "database_content demo_sqlite demo_checkpointed = ''users and keys''"
    "demo_sqlite (content_at db_path demo_wal_data) (content_at wal_path demo_checkpointed) = ''users''" by code_simp+
  show ?thesis
    using backup_without_wal[OF prod.collapse[symmetric] c k q prod.collapse[symmetric] r, where sqlite = demo_sqlite] v by simp
qed

theorem restore_of_dot_empties_witness:
  "content_at db_path (snd (handle_backup_restore demo_backups 9 (named_request ''.'') demo_later)) = Some []"
proof -
  have "map_of demo_later backup_dir = Some Fs_dir" "map_of demo_later ''/data'' = Some Fs_dir" "map_of demo_later db_path \<noteq> Some Fs_dir"
    by (code_simp)+
  moreover have "rq_query (named_request ''.'') ''name'' = ''.''" by (simp add: named_request_def)
  moreover have "\<forall>c. dk_refuses (bs_disk demo_backups) c = None" by (simp add: demo_backups_def calm_disk_def)
  ultimately show ?thesis using restore_of_dot_empties[of "named_request ''.''" demo_later demo_backups 9] by blast
qed

end
