(* ===== verification/Dash_Cache.thy ===== *)
theory Dash_Cache
  imports Auth_Store Http
begin

text \<open>
  The response cache of the dashboard (internal/dashboard/cache.go) and the audit summary that is
  computed from it (handler_batch.go). A handler answers with a status code and the bytes of a body;
  the cache stands beside the world it acts on.
\<close>

section \<open>The cache\<close>

record cache_entry =
  ce_data :: string
  ce_expires_at :: time

record response_cache =
  rc_entries :: "string \<rightharpoonup> cache_entry"
  rc_ttl :: duration

definition new_response_cache :: "duration \<Rightarrow> response_cache" where
  "new_response_cache ttl = \<lparr>rc_entries = Map.empty, rc_ttl = ttl\<rparr>"

definition cache_get :: "time \<Rightarrow> string \<Rightarrow> response_cache \<Rightarrow> string option" where
  "cache_get now k c = (case rc_entries c k of
     None \<Rightarrow> None | Some e \<Rightarrow> if ce_expires_at e < now then None else Some (ce_data e))"

definition cache_set :: "time \<Rightarrow> string \<Rightarrow> string \<Rightarrow> response_cache \<Rightarrow> response_cache" where
  "cache_set now k data c =
     c\<lparr>rc_entries := (rc_entries c)(k \<mapsto> \<lparr>ce_data = data, ce_expires_at = now + rc_ttl c\<rparr>)\<rparr>"

definition cache_invalidate :: "string \<Rightarrow> response_cache \<Rightarrow> response_cache" where
  "cache_invalidate k c = c\<lparr>rc_entries := (rc_entries c)(k := None)\<rparr>"

definition cache_invalidate_prefix :: "string \<Rightarrow> response_cache \<Rightarrow> response_cache" where
  "cache_invalidate_prefix p c = c\<lparr>rc_entries := (\<lambda>k. if has_prefix k p then None else rc_entries c k)\<rparr>"

record page =
  pg_code :: int
  pg_body :: string
  pg_hit :: bool

text \<open>A handler with its user, its request and the world.\<close>

type_synonym 'd page_handler = "user option \<Rightarrow> http_req \<Rightarrow> 'd \<Rightarrow> page \<times> 'd"

definition user_key :: "user option \<Rightarrow> string" where
  "user_key user = (case user of None \<Rightarrow> ''anon'' | Some u \<Rightarrow> us_role u @ '':'' @ us_allowed_namespaces u)"

definition cache_key :: "user option \<Rightarrow> http_req \<Rightarrow> string" where
  "cache_key user rq = user_key user @ '':'' @ rq_path rq @ ''?'' @ rq_raw_query rq"

definition cacheable :: "string \<Rightarrow> bool" where
  "cacheable body \<longleftrightarrow> 0 < length body \<and> length body < 5 * 1024 * 1024"

text \<open>
  The middleware, whose first argument is the time to live its routes give it. It looks at the
  clock when it reads the cache and again when it writes it.
\<close>

definition cache_middleware :: "duration \<Rightarrow> 'd page_handler \<Rightarrow> time \<Rightarrow> time \<Rightarrow> (response_cache \<times> 'd) page_handler" where
  "cache_middleware ttl next_handler t1 t2 user rq cd =
     (let k = cache_key user rq;
          c = (if rq_query rq ''refresh'' = ''true'' then cache_invalidate k (fst cd) else fst cd)
      in case cache_get t1 k c of
           Some data \<Rightarrow> (\<lparr>pg_code = 200, pg_body = data, pg_hit = True\<rparr>, (c, snd cd))
         | None \<Rightarrow> (case next_handler user rq (snd cd) of
             (p, d) \<Rightarrow> (p, (if cacheable (pg_body p) then cache_set t2 k (pg_body p) c else c, d))))"

section \<open>The audit summary\<close>

record audit_entry =
  ae_score :: int
  ae_grade :: string
  ae_summary :: "any option"
  ae_status :: string

definition entry_with :: "string \<Rightarrow> audit_entry" where
  "entry_with st = \<lparr>ae_score = 0, ae_grade = [], ae_summary = None, ae_status = st\<rparr>"

record audit_summary =
  as_timestamp :: time
  as_cached :: bool
  as_cache_age :: int
  as_count :: int
  as_ok :: int
  as_pending :: int
  as_results :: "string \<rightharpoonup> audit_entry"

text \<open>
  The members of an object decoded into a map: of a repeated name the last counts. A score is a
  number; \<open>trunc\<close> is its conversion to an integer.
\<close>

definition last_member :: "string \<Rightarrow> (string \<times> any) list \<Rightarrow> any option" where
  "last_member k ms = map_of (rev ms) k"

definition entry_of :: "(any \<Rightarrow> int option) \<Rightarrow> (string \<times> any) list \<Rightarrow> audit_entry" where
  "entry_of trunc ms = \<lparr>
     ae_score = (case Option.bind (last_member ''healthScore'' ms) trunc of Some i \<Rightarrow> i | None \<Rightarrow> 0),
     ae_grade = (case last_member ''grade'' ms of Some (AString s) \<Rightarrow> s | _ \<Rightarrow> []),
     ae_summary = (case last_member ''summary'' ms of Some (AObject x) \<Rightarrow> Some (AObject x) | _ \<Rightarrow> None),
     ae_status = ''ok''\<rparr>"

definition warm_key :: "string \<Rightarrow> string" where
  "warm_key path = ''anon:'' @ path @ ''?''"

text \<open>What a path contributes to the summary; \<open>parse\<close> is the value of a JSON text.\<close>

definition path_entry :: "(string \<Rightarrow> any option) \<Rightarrow> (any \<Rightarrow> int option) \<Rightarrow> time \<Rightarrow> response_cache \<Rightarrow> string \<Rightarrow> audit_entry" where
  "path_entry parse trunc now c path = (case cache_get now (warm_key path) c of
     None \<Rightarrow> entry_with ''pending''
   | Some data \<Rightarrow> (case members (parse data) of
       None \<Rightarrow> entry_with ''error'' | Some ms \<Rightarrow> entry_of trunc ms))"

fun count_paths :: "(string \<Rightarrow> audit_entry) \<Rightarrow> string list \<Rightarrow> audit_summary \<Rightarrow> audit_summary" where
  "count_paths f [] s = s"
| "count_paths f (p # ps) s = count_paths f ps
     (s\<lparr>as_results := (as_results s)(p \<mapsto> f p),
        as_pending := as_pending s + (if ae_status (f p) = ''pending'' then 1 else 0),
        as_ok := as_ok s + (if ae_status (f p) = ''ok'' then 1 else 0)\<rparr>)"

definition rebuild_batch_summary :: "(string \<Rightarrow> any option) \<Rightarrow> (any \<Rightarrow> int option) \<Rightarrow> string list \<Rightarrow> time \<Rightarrow> response_cache \<Rightarrow>
    audit_summary" where
  "rebuild_batch_summary parse trunc paths now c =
     (let s = count_paths (path_entry parse trunc now c) paths
            \<lparr>as_timestamp = now, as_cached = False, as_cache_age = 0, as_count = 0, as_ok = 0, as_pending = 0,
             as_results = Map.empty\<rparr>
      in s\<lparr>as_count := int (card (dom (as_results s)))\<rparr>)"

text \<open>
  The request of the warmer has no user, no query and no headers, and goes straight to the routes.
  A job is a path with the times at which the cache is read and written. The six workers take the
  paths in turn; the model takes them one after the other.
\<close>

definition warm_request :: "string \<Rightarrow> http_req" where
  "warm_request path = \<lparr>rq_method = ''GET'', rq_path = path, rq_query = (\<lambda>k. []), rq_header = (\<lambda>n. []),
     rq_cookie = (\<lambda>n. None), rq_json = None, rq_raw_query = [], rq_remote_addr = []\<rparr>"

definition warm_path :: "(time \<Rightarrow> time \<Rightarrow> (response_cache \<times> 'd) page_handler) \<Rightarrow> string \<times> time \<times> time \<Rightarrow>
    response_cache \<times> 'd \<Rightarrow> response_cache \<times> 'd" where
  "warm_path routes job cd = (case job of (path, t1, t2) \<Rightarrow>
     (case cache_get t1 (warm_key path) (fst cd) of
        Some _ \<Rightarrow> cd
      | None \<Rightarrow> (case routes t1 t2 None (warm_request path) cd of
          (p, (c, d)) \<Rightarrow> (if cacheable (pg_body p) then cache_set t2 (warm_key path) (pg_body p) c else c, d))))"

definition warm_paths :: "(time \<Rightarrow> time \<Rightarrow> (response_cache \<times> 'd) page_handler) \<Rightarrow> (string \<times> time \<times> time) list \<Rightarrow>
    response_cache \<times> 'd \<Rightarrow> response_cache \<times> 'd" where
  "warm_paths routes jobs cd = fold (warm_path routes) jobs cd"

text \<open>
  The batch summary kept between the requests: its data and when it was built. The handler looks at
  neither its user nor its request.
\<close>

type_synonym batch = "(audit_summary \<times> time) option"

text \<open>A round of the warmer ends with a new summary.\<close>

definition warm_audit_cache :: "(string \<Rightarrow> any option) \<Rightarrow> (any \<Rightarrow> int option) \<Rightarrow> (time \<Rightarrow> time \<Rightarrow> (response_cache \<times> 'd) page_handler) \<Rightarrow>
    (string \<times> time \<times> time) list \<Rightarrow> time \<Rightarrow> response_cache \<times> 'd \<Rightarrow> (response_cache \<times> 'd) \<times> batch" where
  "warm_audit_cache parse trunc routes jobs now cd =
     (let cd1 = warm_paths routes jobs cd
      in (cd1, Some (rebuild_batch_summary parse trunc (map fst jobs) now (fst cd1), now)))"

definition handle_audit_summary :: "(string \<Rightarrow> any option) \<Rightarrow> (any \<Rightarrow> int option) \<Rightarrow> string list \<Rightarrow> time \<Rightarrow> response_cache \<Rightarrow>
    batch \<Rightarrow> audit_summary \<times> batch" where
  "handle_audit_summary parse trunc paths now c b =
     (let fresh = (rebuild_batch_summary parse trunc paths now c)\<lparr>as_cached := False, as_cache_age := 0\<rparr> in
      case b of
        None \<Rightarrow> (fresh, Some (fresh, now))
      | Some (s, built) \<Rightarrow>
          if time_sub now built < 5 * minute then
            (let s1 = s\<lparr>as_cached := True, as_cache_age := go_div (time_sub now built) second\<rparr> in (s1, Some (s1, built)))
          else (fresh, Some (fresh, now)))"

section \<open>Lemmas\<close>

lemma cache_get_other:
  "k \<noteq> l \<Longrightarrow> cache_get now k (cache_set t l x c) = cache_get now k c"
  "k \<noteq> l \<Longrightarrow> cache_get now k (cache_invalidate l c) = cache_get now k c"
  by (simp_all add: cache_get_def cache_set_def cache_invalidate_def)

lemma cache_get_set: "now \<le> t + rc_ttl c \<Longrightarrow> cache_get now k (cache_set t k x c) = Some x"
  by (simp add: cache_get_def cache_set_def)

lemma rc_ttl_simps [simp]: "rc_ttl (cache_set t k x c) = rc_ttl c" "rc_ttl (cache_invalidate k c) = rc_ttl c"
  by (simp_all add: cache_set_def cache_invalidate_def)

text \<open>A request behind the cache: its route's time to live and handler, the two times, user and request.\<close>

type_synonym 'd cached_request = "duration \<times> 'd page_handler \<times> time \<times> time \<times> user option \<times> http_req"

definition key_of :: "'d cached_request \<Rightarrow> string" where
  "key_of r = (case r of (ttl, h, t1, t2, user, rq) \<Rightarrow> cache_key user rq)"

definition serve_cached :: "'d cached_request \<Rightarrow> response_cache \<times> 'd \<Rightarrow> response_cache \<times> 'd" where
  "serve_cached r cd = (case r of (ttl, h, t1, t2, user, rq) \<Rightarrow> snd (cache_middleware ttl h t1 t2 user rq cd))"

lemma serve_cached_other: "key_of r \<noteq> k \<Longrightarrow> cache_get now k (fst (serve_cached r cd)) = cache_get now k (fst cd)"
  by (cases r) (auto simp: serve_cached_def key_of_def cache_middleware_def Let_def cache_get_other split: option.split prod.split)

lemma fold_serve_other:
  "\<forall>r \<in> set rs. key_of r \<noteq> k \<Longrightarrow> cache_get now k (fst (fold serve_cached rs cd)) = cache_get now k (fst cd)"
  by (induction rs arbitrary: cd) (simp_all add: serve_cached_other)

lemma warm_key_request: "cache_key None (warm_request path) = warm_key path"
  by (simp add: cache_key_def user_key_def warm_request_def warm_key_def)

lemma warm_key_inj [simp]: "warm_key p = warm_key q \<longleftrightarrow> p = q"
  by (simp add: warm_key_def)

text \<open>What the warmer leaves in an empty cache when the handlers only read.\<close>

definition warmed :: "(string \<Rightarrow> page) \<Rightarrow> time \<Rightarrow> string set \<Rightarrow> response_cache \<Rightarrow> bool" where
  "warmed pg t0 ps c \<longleftrightarrow> rc_ttl c = 10 * minute \<and>
     (\<forall>k e. rc_entries c k = Some e \<longrightarrow> t0 + 10 * minute \<le> ce_expires_at e \<and>
        (\<exists>p \<in> ps. k = warm_key p \<and> ce_data e = pg_body (pg p))) \<and>
     (\<forall>p \<in> ps. cacheable (pg_body (pg p)) \<longrightarrow> rc_entries c (warm_key p) \<noteq> None)"

lemma warmed_set:
  assumes "warmed pg t0 ps c" "t0 \<le> t"
  shows "warmed pg t0 (insert p ps) (cache_set t (warm_key p) (pg_body (pg p)) c)"
  using assms by (auto simp: warmed_def cache_set_def)

lemma warmed_insert: "warmed pg t0 ps c \<Longrightarrow> \<not> cacheable (pg_body (pg p)) \<or> rc_entries c (warm_key p) \<noteq> None \<Longrightarrow>
    warmed pg t0 (insert p ps) c"
  by (fastforce simp: warmed_def)

lemma cache_set_twice: "cache_set t k x (cache_set t k x c) = cache_set t k x c"
  by (simp add: cache_set_def)

lemma warm_path_warmed:
  assumes "warmed pg t0 ps c" "h None (warm_request p) d = (pg p, d)" "t0 \<le> t2"
  obtains c1 where "warm_path (cache_middleware ttl h) (p, t1, t2) (c, d) = (c1, d)" "warmed pg t0 (insert p ps) c1"
proof (cases "cache_get t1 (warm_key p) c")
  case (Some x)
  then have "rc_entries c (warm_key p) \<noteq> None" by (auto simp: cache_get_def split: option.splits)
  with assms(1) Some that[of c] show ?thesis by (simp add: warm_path_def warmed_insert)
next
  case None
  have "rq_query (warm_request p) ''refresh'' \<noteq> ''true''" by (simp add: warm_request_def)
  with None assms(2) have "warm_path (cache_middleware ttl h) (p, t1, t2) (c, d) =
      (if cacheable (pg_body (pg p)) then cache_set t2 (warm_key p) (pg_body (pg p)) c else c, d)"
    by (simp add: warm_path_def cache_middleware_def warm_key_request cache_set_twice)
  with that[OF this] warmed_set[OF assms(1,3)] warmed_insert[OF assms(1)] show ?thesis by simp
qed

lemma warm_paths_warmed:
  assumes "warmed pg t0 ps c" "\<forall>(p, t1, t2) \<in> set jobs. t0 \<le> t2 \<and> h None (warm_request p) d = (pg p, d)"
  shows "\<exists>c1. warm_paths (cache_middleware ttl h) jobs (c, d) = (c1, d) \<and> warmed pg t0 (fst ` set jobs \<union> ps) c1"
  using assms
proof (induction jobs arbitrary: ps c)
  case (Cons j js)
  obtain p t1 t2 where j: "j = (p, t1, t2)" by (metis prod_cases3)
  with Cons.prems obtain c1 where c1: "warm_path (cache_middleware ttl h) (p, t1, t2) (c, d) = (c1, d)"
    "warmed pg t0 (insert p ps) c1"
    using warm_path_warmed[OF Cons.prems(1), of h p d t2 ttl t1] by auto
  moreover from Cons.IH[OF c1(2)] Cons.prems(2) obtain c2 where
    "warm_paths (cache_middleware ttl h) js (c1, d) = (c2, d)" "warmed pg t0 (fst ` set js \<union> insert p ps) c2"
    by auto
  ultimately show ?case by (auto simp: warm_paths_def j)
qed (simp add: warm_paths_def)

lemma warmed_get:
  assumes "warmed pg t0 ps c" "p \<in> ps" "cacheable (pg_body (pg p))" "now \<le> t0 + 10 * minute"
  shows "cache_get now (warm_key p) c = Some (pg_body (pg p))"
proof -
  obtain e where "rc_entries c (warm_key p) = Some e" using assms(1-3) by (auto simp: warmed_def)
  with assms(1,4) show ?thesis by (fastforce simp: warmed_def cache_get_def)
qed

lemma as_results_count: "as_results (count_paths f ps s) p = (if p \<in> set ps then Some (f p) else as_results s p)"
  by (induction ps arbitrary: s) auto

text \<open>No user with a role of its own shares a key with the warmer.\<close>

lemma user_key_not_anon:
  assumes "CHR '':'' \<notin> set (us_role u)" "us_role u \<noteq> ''anon''"
  shows "cache_key (Some u) rq \<noteq> warm_key p"
proof
  have tw: "takeWhile (\<lambda>c. c \<noteq> CHR '':'') (us_role u @ CHR '':'' # x) = us_role u" for x
    using assms(1) by (subst takeWhile_append2) auto
  assume "cache_key (Some u) rq = warm_key p"
  then have "us_role u @ CHR '':'' # (us_allowed_namespaces u @ '':'' @ rq_path rq @ ''?'' @ rq_raw_query rq) =
      ''anon'' @ CHR '':'' # (p @ ''?'')"
    by (simp add: cache_key_def user_key_def warm_key_def)
  from arg_cong[OF this, of "takeWhile (\<lambda>c. c \<noteq> CHR '':'')"] have "us_role u = ''anon''"
    unfolding tw by simp
  with assms(2) show False by simp
qed

section \<open>Properties\<close>

text \<open>C15. What the cache replays: the answer to a request that missed the cache, whatever its status
  code, is given out with status 200 to every request of the same path and query by a user with the
  same role and namespaces, whatever the method, for the ten minutes of the cache and not for the
  time to live of the route; requests with another query, such as one that asks for a refresh,
  change nothing of this.\<close>

theorem cache_replays:
  assumes "rc_ttl (fst cd) = 10 * minute" "cache_get t1 (cache_key user rq) (fst cd) = None"
    and "h user rq (snd cd) = (p, d)" "cacheable (pg_body p)"
    and "\<forall>r \<in> set others. key_of r \<noteq> cache_key user rq"
    and "cache_key user2 rq2 = cache_key user rq" "rq_query rq2 ''refresh'' \<noteq> ''true''" "t \<le> t2 + 10 * minute"
  shows "fst (cache_middleware ttl2 h2 t t' user2 rq2
      (fold serve_cached others (snd (cache_middleware ttl h t1 t2 user rq cd)))) =
    \<lparr>pg_code = 200, pg_body = pg_body p, pg_hit = True\<rparr>"
proof -
  let ?k = "cache_key user rq"
  let ?c = "if rq_query rq ''refresh'' = ''true'' then cache_invalidate ?k (fst cd) else fst cd"
  have "cache_get t1 ?k ?c = None" using assms(2) by (simp add: cache_get_def cache_invalidate_def)
  then have "snd (cache_middleware ttl h t1 t2 user rq cd) = (cache_set t2 ?k (pg_body p) ?c, d)"
    using assms(3,4) by (simp add: cache_middleware_def Let_def)
  then have "cache_get t ?k (fst (fold serve_cached others (snd (cache_middleware ttl h t1 t2 user rq cd)))) =
      Some (pg_body p)"
    using fold_serve_other[OF assms(5), of t] assms(1,8) by (simp add: cache_get_set)
  with assms(6,7) show ?thesis by (simp add: cache_middleware_def Let_def)
qed

definition demo_viewer :: "string \<Rightarrow> user" where
  "demo_viewer name = zero_user\<lparr>us_username := name, us_role := ''viewer''\<rparr>"

definition demo_get :: "string \<Rightarrow> http_req" where
  "demo_get m = (warm_request ''/api/pods'')\<lparr>rq_method := m\<rparr>"

definition demo_page :: page where
  "demo_page = \<lparr>pg_code = 500, pg_body = ''boom'', pg_hit = False\<rparr>"

text \<open>A failure met by one viewer is another viewer's success nine minutes later.\<close>

theorem cache_replays_witness:
  "\<exists>c. fst (cache_middleware 0 (\<lambda>user rq d. (demo_page, d)) (540 * second) 0 (Some (demo_viewer ''bob'')) (demo_get ''POST'')
      (snd (cache_middleware (30 * second) (\<lambda>user rq d. (demo_page, d)) 0 0 (Some (demo_viewer ''ann'')) (demo_get ''GET'')
        (c, ()))))
    = \<lparr>pg_code = 200, pg_body = ''boom'', pg_hit = True\<rparr>"
proof -
  have "fst (cache_middleware 0 (\<lambda>user rq d. (demo_page, d)) (540 * second) 0 (Some (demo_viewer ''bob'')) (demo_get ''POST'')
      (fold serve_cached [] (snd (cache_middleware (30 * second) (\<lambda>user rq d. (demo_page, d)) 0 0 (Some (demo_viewer ''ann''))
        (demo_get ''GET'') (new_response_cache (10 * minute), ()))))) =
    \<lparr>pg_code = 200, pg_body = pg_body demo_page, pg_hit = True\<rparr>"
    by (rule cache_replays[where d = "()"])
      (simp_all add: new_response_cache_def cache_get_def cacheable_def demo_page_def cache_key_def user_key_def
        demo_viewer_def zero_user_def demo_get_def warm_request_def minute_def second_def)
  then show ?thesis by (auto simp: demo_page_def)
qed

text \<open>The audit summary shows everybody what the server itself may see: after a round of the warmer
  on an empty cache, the entry of every audited path comes from the answer the handler gave without
  a user, that is with the server's own clients, and is the same for all who ask; a user who asks
  for the audited path itself gets the answer made with the user's own clients.\<close>

theorem summary_shows_all:
  assumes "\<forall>(q, t1, t2) \<in> set jobs. t0 \<le> t2 \<and> h None (warm_request q) d = (pg q, d)"
    and "now0 \<le> t0 + 10 * minute" "now \<le> t0 + 10 * minute" "p \<in> fst ` set jobs"
    and "cacheable (pg_body (pg p))" "members (parse (pg_body (pg p))) = Some ms"
    and "CHR '':'' \<notin> set (us_role u)" "us_role u \<noteq> ''anon''"
    and "warm_audit_cache parse trunc (cache_middleware ttl h) jobs now0 (new_response_cache (10 * minute), d) = ((c, d1), b)"
  shows "as_results (fst (handle_audit_summary parse trunc (map fst jobs) now c b)) p = Some (entry_of trunc ms) \<and>
    fst (cache_middleware ttl h now t' (Some u) (warm_request p) (c, d1)) = fst (h (Some u) (warm_request p) d)"
proof -
  have "warmed pg t0 {} (new_response_cache (10 * minute))" by (simp add: warmed_def new_response_cache_def)
  from warm_paths_warmed[OF this, of jobs h d ttl] assms(1,9)
  have w: "warmed pg t0 (fst ` set jobs) c" "d1 = d" by (auto simp: warm_audit_cache_def Let_def)
  have built: "as_results (rebuild_batch_summary parse trunc (map fst jobs) n c) p = Some (entry_of trunc ms)"
    if "n \<le> t0 + 10 * minute" for n
    using warmed_get[OF w(1) assms(4,5) that] assms(4,6)
    by (simp add: path_entry_def rebuild_batch_summary_def Let_def as_results_count)
  have "b = Some (rebuild_batch_summary parse trunc (map fst jobs) now0 c, now0)"
    using assms(9) by (auto simp: warm_audit_cache_def Let_def)
  then have "as_results (fst (handle_audit_summary parse trunc (map fst jobs) now c b)) p = Some (entry_of trunc ms)"
    using built[OF assms(2)] built[OF assms(3)] by (simp add: handle_audit_summary_def Let_def)
  moreover have "rc_entries c (cache_key (Some u) (warm_request p)) = None"
    using w(1) user_key_not_anon[OF assms(7,8)] unfolding warmed_def by (metis option.exhaust)
  then have "fst (cache_middleware ttl h now t' (Some u) (warm_request p) (c, d1)) = fst (h (Some u) (warm_request p) d)"
    unfolding w(2) by (simp add: cache_middleware_def cache_get_def warm_request_def split: prod.split)
  ultimately show ?thesis ..
qed

text \<open>A handler that forbids its users what the server may do.\<close>

definition demo_audit_handler :: "int page_handler" where
  "demo_audit_handler user rq d = (case user of
     None \<Rightarrow> (\<lparr>pg_code = 200, pg_body = ''{}'', pg_hit = False\<rparr>, d)
   | Some _ \<Rightarrow> (\<lparr>pg_code = 403, pg_body = ''forbidden'', pg_hit = False\<rparr>, d))"

theorem summary_shows_all_witness:
  "let parse = (\<lambda>s. Some (AObject [(''grade'', AString ''F'')]));
       (cd, b) = warm_audit_cache parse (\<lambda>x. None) (cache_middleware 0 demo_audit_handler) [(''/api/security/pods'', 0, second)]
         second (new_response_cache (10 * minute), 0)
   in as_results (fst (handle_audit_summary parse (\<lambda>x. None) [''/api/security/pods''] minute (fst cd) b)) ''/api/security/pods'' =
       Some \<lparr>ae_score = 0, ae_grade = ''F'', ae_summary = None, ae_status = ''ok''\<rparr> \<and>
     pg_code (fst (cache_middleware 0 demo_audit_handler minute minute (Some (demo_viewer ''eve''))
       (warm_request ''/api/security/pods'') cd)) = 403"
proof -
  let ?parse = "\<lambda>s. Some (AObject [(''grade'', AString ''F'')])"
  obtain c d1 b where run: "warm_audit_cache ?parse (\<lambda>x. None) (cache_middleware 0 demo_audit_handler)
      [(''/api/security/pods'', 0, second)] second (new_response_cache (10 * minute), 0 :: int) = ((c, d1), b)"
    by (metis prod.exhaust)
  have "as_results (fst (handle_audit_summary ?parse (\<lambda>x. None) (map fst [(''/api/security/pods'', 0 :: time, second)]) minute
      c b)) ''/api/security/pods'' = Some (entry_of (\<lambda>x. None) [(''grade'', AString ''F'')]) \<and>
    fst (cache_middleware 0 demo_audit_handler minute minute (Some (demo_viewer ''eve'')) (warm_request ''/api/security/pods'') (c, d1)) =
      fst (demo_audit_handler (Some (demo_viewer ''eve'')) (warm_request ''/api/security/pods'') 0)"
    by (rule summary_shows_all[where ?t0.0 = 0 and d = 0 and pg = "\<lambda>q. \<lparr>pg_code = 200, pg_body = ''{}'', pg_hit = False\<rparr>",
          OF _ _ _ _ _ _ _ _ run])
      (simp_all add: demo_audit_handler_def second_def minute_def cacheable_def members_def demo_viewer_def zero_user_def)
  then show ?thesis
    unfolding Let_def run by (simp add: entry_of_def last_member_def demo_audit_handler_def)
qed

end
