(* ===== verification/Dash_Compat.thy ===== *)
theory Dash_Compat
  imports Http "HOL-Library.List_Lexorder" "HOL-Library.Char_ord"
begin

text \<open>
  What the dashboard makes of a cluster's version and nodes (internal/dashboard/handlers_compat.go):
  the cloud, the distribution, the features and whether the version is supported. The labels of a
  node are a list, in the order in which Go's map gives them.
\<close>

record compat_node =
  cn_provider_id :: string
  cn_labels :: "(string \<times> string) list"
  cn_arch :: string
  cn_os :: string

section \<open>Clouds\<close>

definition provider_prefix :: "string \<Rightarrow> string" where
  "provider_prefix s = (case index_of ''://'' s of Some i \<Rightarrow> if 0 < i then take i s else s | None \<Rightarrow> s)"

definition known_clouds :: "(string \<times> string) list" where
  "known_clouds = [(''aws'', ''aws''), (''gce'', ''gcp''), (''azure'', ''azure''), (''vsphere'', ''vsphere''),
     (''openstack'', ''openstack''), (''digitalocean'', ''digitalocean''), (''linode'', ''linode''), (''scaleway'', ''scaleway''),
     (''alibaba'', ''alibaba''), (''alicloud'', ''alibaba''), (''tencent'', ''tencent''), (''huawei'', ''huawei''),
     (''huaweicloud'', ''huawei''), (''oracle'', ''oracle''), (''oci'', ''oracle''), (''ibm'', ''ibm''), (''ibmcloud'', ''ibm''),
     (''baidu'', ''baidu''), (''bcc'', ''baidu''), (''cloudstack'', ''cloudstack''), (''k3s'', ''k3s''), (''k3os'', ''k3s''), (''rke2'', ''rke2'')]"

definition cloud_of_node :: "compat_node \<Rightarrow> string option" where
  "cloud_of_node n = (let p = to_lower (provider_prefix (cn_provider_id n)) in
     if cn_provider_id n = [] then None
     else if p = ''external'' then
       (case map_of (cn_labels n) ''kubernetes.io/hostname'' of Some v \<Rightarrow> if v \<noteq> [] then Some ''bare-metal'' else None | None \<Rightarrow> None)
     else map_of known_clouds p)"

definition labelled_aws :: "compat_node \<Rightarrow> bool" where
  "labelled_aws n \<longleftrightarrow> map_of (cn_labels n) ''kubernetes.io/cloud-provider-aws'' \<noteq> None \<or>
     (case map_of (cn_labels n) ''topology.kubernetes.io/zone'' of Some v \<Rightarrow> has_prefix v ''aws-'' | None \<Rightarrow> False)"

definition detect_cloud_provider :: "compat_node list \<Rightarrow> string" where
  "detect_cloud_provider ns = (case List.map_filter cloud_of_node ns of
     cloud # _ \<Rightarrow> cloud
   | [] \<Rightarrow> if list_ex labelled_aws ns then ''aws''
       else if list_all (\<lambda>n. cn_provider_id n = []) ns \<and> ns \<noteq> [] then ''bare-metal'' else ''unknown'')"

section \<open>Distributions\<close>

text \<open>The markers in the version, in the order in which they are looked for.\<close>

definition version_markers :: "(string \<times> string) list" where
  "version_markers = [(''-eks-'', ''eks''), (''-gke.'', ''gke''), (''-aks'', ''aks''), (''azure'', ''aks''), (''-oke-'', ''oke''), (''oracle'', ''oke''),
     (''-ack'', ''ack''), (''aliyun'', ''ack''), (''-tke'', ''tke''), (''tencent'', ''tke''), (''-k3s'', ''k3s''), (''k3s'', ''k3s''),
     (''-rke2'', ''rke2''), (''rke2'', ''rke2''), (''+rke'', ''rke''), (''-kk8s'', ''kk8s''), (''-openshift'', ''openshift'')]"

text \<open>The markers in labels; the flag says that the key is looked at as well.\<close>

definition label_markers :: "(string \<times> bool \<times> string) list" where
  "label_markers = [(''openshift'', True, ''openshift''), (''rke2'', True, ''rke2''), (''k3s'', True, ''k3s''), (''talos'', True, ''talos''),
     (''minikube'', True, ''minikube''), (''kind'', True, ''kind''), (''microk8s'', False, ''microk8s''), (''doks'', False, ''doks''),
     (''digitalocean'', False, ''doks'')]"

definition label_distribution :: "string \<times> string \<Rightarrow> string option" where
  "label_distribution = (\<lambda>(k, v). map_option (\<lambda>(m, in_key, distro). distro)
     (find (\<lambda>(m, in_key, distro). in_key \<and> contains (to_lower k) m \<or> contains (to_lower v) m) label_markers))"

definition detect_distribution :: "string \<Rightarrow> compat_node list \<Rightarrow> string" where
  "detect_distribution version ns = (case find (\<lambda>(m, distro). contains (to_lower version) m) version_markers of
     Some (m, distro) \<Rightarrow> distro
   | None \<Rightarrow> (case List.map_filter label_distribution (concat (map cn_labels ns)) of distro # _ \<Rightarrow> distro | [] \<Rightarrow> ''vanilla''))"

definition is_managed_cloud :: "string \<Rightarrow> bool" where
  "is_managed_cloud distro \<longleftrightarrow> distro \<in> set [''eks'', ''gke'', ''aks'', ''oke'', ''ack'', ''tke'', ''doks'', ''lke'']"

section \<open>Versions\<close>

definition min_kubernetes_version :: string where
  "min_kubernetes_version = ''1.25''"

text \<open>\<open>minor[:strings.IndexAny(minor, "-+")]\<close>, unless the index is not positive.\<close>

definition strip_suffix_marks :: "string \<Rightarrow> string" where
  "strip_suffix_marks s = (let t = takeWhile (\<lambda>c. c \<noteq> CHR ''-'' \<and> c \<noteq> CHR ''+'') s in if t = [] then s else t)"

text \<open>Major and minor version are compared as strings.\<close>

definition compare_version :: "string \<Rightarrow> string \<Rightarrow> bool \<times> string" where
  "compare_version major minor =
     (if major \<noteq> ''1'' then
        (if ''1'' < major then (True, [])
         else (False, ''Kubernetes '' @ major @ ''.'' @ minor @ '' is below minimum required '' @ min_kubernetes_version))
      else if ''25'' \<le> minor then (True, [])
      else (False, ''Kubernetes v'' @ major @ ''.'' @ minor @ '' is below minimum required v'' @ min_kubernetes_version))"

definition check_version_compatibility :: "string \<Rightarrow> bool \<times> string" where
  "check_version_compatibility version = (case split_on (CHR ''.'') (trim_prefix version ''v'') of
     major # minor # _ \<Rightarrow> compare_version major (strip_suffix_marks minor)
   | _ \<Rightarrow> (False, ''unable to parse Kubernetes version: '' @ version))"

section \<open>Nodes\<close>

definition is_control_plane :: "compat_node \<Rightarrow> bool" where
  "is_control_plane n \<longleftrightarrow> list_ex (\<lambda>(k, v). has_prefix k ''node-role.kubernetes.io/control-plane'' \<or>
     has_prefix k ''node-role.kubernetes.io/master'') (cn_labels n)"

definition count_if :: "('a \<Rightarrow> bool) \<Rightarrow> 'a list \<Rightarrow> int" where
  "count_if P xs = int (length (filter P xs))"

definition node_summary_json :: "compat_node list \<Rightarrow> any" where
  "node_summary_json ns = AObject [(''totalNodes'', AInt (int (length ns))), (''controlPlane'', AInt (count_if is_control_plane ns)),
     (''worker'', AInt (count_if (\<lambda>n. \<not> is_control_plane n) ns)), (''bareMetalNodes'', AInt (count_if (\<lambda>n. cn_provider_id n = []) ns)),
     (''virtualNodes'', AInt (count_if (\<lambda>n. cn_provider_id n \<noteq> []) ns))]"

definition feature_labels :: "(string \<times> string) list" where
  "feature_labels = [(''nvidia.com/gpu.present'', ''gpu-nodes''), (''intel.com/sgx'', ''sgx-nodes''),
     (''node.kubernetes.io/instance-type'', ''cloud-provider-managed''), (''topology.kubernetes.io/zone'', ''multi-zone''),
     (''topology.kubernetes.io/region'', ''multi-region-capable'')]"

definition detect_features :: "compat_node list \<Rightarrow> string list" where
  "detect_features ns =
     map snd (filter (\<lambda>(label, feature). list_ex (\<lambda>n. map_of (cn_labels n) label \<noteq> None) ns) feature_labels) @
     (if list_ex (\<lambda>n. cn_arch n = ''arm64'') ns then [''arm64-nodes''] else []) @
     (if list_ex (\<lambda>n. cn_os n = ''windows'') ns then [''windows-nodes''] else [])"

record cluster_compat =
  cm_cloud_provider :: string
  cm_distribution :: string
  cm_managed :: bool
  cm_k8s_version :: string
  cm_compatible :: bool
  cm_warning :: string
  cm_features :: "string list"
  cm_node_info :: any

definition detect_cluster_compat :: "string \<Rightarrow> compat_node list \<Rightarrow> cluster_compat" where
  "detect_cluster_compat version ns = (let distro = detect_distribution version ns; chk = check_version_compatibility version in
     \<lparr>cm_cloud_provider = detect_cloud_provider ns, cm_distribution = distro, cm_managed = is_managed_cloud distro,
      cm_k8s_version = version, cm_compatible = fst chk, cm_warning = snd chk, cm_features = detect_features ns,
      cm_node_info = node_summary_json ns\<rparr>)"

definition compat_json :: "cluster_compat \<Rightarrow> any" where
  "compat_json c = AObject ([(''cloudProvider'', AString (cm_cloud_provider c)), (''distribution'', AString (cm_distribution c)),
     (''managed'', ABool (cm_managed c)), (''k8sVersion'', AString (cm_k8s_version c)), (''minVersion'', AString min_kubernetes_version),
     (''compatible'', ABool (cm_compatible c))] @ (if cm_warning c = [] then [] else [(''warning'', AString (cm_warning c))]) @
     (if cm_features c = [] then [] else [(''features'', AList (map AString (cm_features c)))]) @ [(''nodeInfo'', cm_node_info c)])"

definition supported_apis :: "string list" where
  "supported_apis = [''policy/v1 (PDB)'', ''autoscaling/v2 (HPA)'', ''networking.k8s.io/v1 (Ingress)'', ''batch/v1 (CronJob)'']"

definition handle_compatibility :: "('d \<Rightarrow> string + string) \<Rightarrow> ('d \<Rightarrow> string + compat_node list) \<Rightarrow> 'd \<Rightarrow> http_resp" where
  "handle_compatibility server_version nodes d = (case server_version d of
     Inl e \<Rightarrow> write_k8s_error (Some e)
   | Inr version \<Rightarrow> (case nodes d of
       Inl e \<Rightarrow> write_k8s_error (Some e)
     | Inr ns \<Rightarrow> (let c = detect_cluster_compat version ns in
         write_json (compat_json (c\<lparr>cm_features := cm_features c @ supported_apis\<rparr>)))))"

section \<open>Lemmas\<close>

text \<open>The two counts of the nodes add up.\<close>

lemma node_counts: "count_if P xs + count_if (\<lambda>x. \<not> P x) xs = int (length xs)"
  unfolding count_if_def using sum_length_filter_compl[of P xs] by linarith

lemma digit_chars: "n < 10 \<Longrightarrow> digit_char n \<noteq> CHR ''.''" "n < 10 \<Longrightarrow> digit_char n \<noteq> CHR ''-''" "n < 10 \<Longrightarrow> digit_char n \<noteq> CHR ''+''"
proof -
  have "list_all (\<lambda>n. digit_char n \<noteq> CHR ''.'' \<and> digit_char n \<noteq> CHR ''-'' \<and> digit_char n \<noteq> CHR ''+'') [0..<10]" by code_simp
  then show "n < 10 \<Longrightarrow> digit_char n \<noteq> CHR ''.''" "n < 10 \<Longrightarrow> digit_char n \<noteq> CHR ''-''" "n < 10 \<Longrightarrow> digit_char n \<noteq> CHR ''+''"
    by (simp_all add: list_all_iff)
qed

definition supported_minor :: "nat \<Rightarrow> bool" where
  "supported_minor n \<longleftrightarrow> 25 \<le> n"

definition release :: "nat \<Rightarrow> string \<Rightarrow> string" where
  "release n rest = ''v1.'' @ show_nat n @ ''.'' @ rest"

lemma show_nat_one: "n < 10 \<Longrightarrow> show_nat n = [digit_char n]"
  by (subst show_nat.simps) simp

lemma show_nat_two: "10 \<le> n \<Longrightarrow> n < 100 \<Longrightarrow> show_nat n = [digit_char (n div 10), digit_char (n mod 10)]"
  by (subst show_nat.simps) (simp add: show_nat_one)

text \<open>The digits of a number hold none of the characters at which the version is cut.\<close>

lemma show_nat_marks: "set (show_nat n) \<inter> {CHR ''.'', CHR ''-'', CHR ''+''} = {}"
proof (induction n rule: show_nat.induct)
  case (1 n)
  show ?case
  proof (cases "n < 10")
    case True
    then show ?thesis using digit_chars[OF True] by (auto simp: show_nat_one)
  next
    case False
    have "show_nat n = show_nat (n div 10) @ [digit_char (n mod 10)]" by (subst show_nat.simps) (simp add: False)
    then show ?thesis using 1 False digit_chars[of "n mod 10"] by auto
  qed
qed

lemma show_nat_not_nil: "show_nat n \<noteq> []"
  by (subst show_nat.simps) simp

text \<open>What the comparison of the strings says of the minor versions, by evaluation.\<close>

definition minor_accepted :: "nat \<Rightarrow> bool" where
  "minor_accepted n \<longleftrightarrow> (if n < 10 then 3 \<le> n else if n < 100 then supported_minor n else False)"

lemma upt_upto: "n < m \<Longrightarrow> n \<in> set [0..<m]"
  by simp

lemma compare_minors: "n < 200 \<Longrightarrow> (''25'' \<le> show_nat n) = minor_accepted n"
proof -
  assume n: "n < 200"
  have "list_all (\<lambda>n. (''25'' \<le> show_nat n) = minor_accepted n) [0..<200]" by code_simp
  from bspec[OF this[unfolded list_all_iff] upt_upto[OF n]] show ?thesis .
qed

lemma strip_release: "rest = [] \<or> hd rest \<in> {CHR ''-'', CHR ''+''} \<Longrightarrow> strip_suffix_marks (show_nat n @ rest) = show_nat n"
proof -
  assume r: "rest = [] \<or> hd rest \<in> {CHR ''-'', CHR ''+''}"
  have all: "\<And>c. c \<in> set (show_nat n) \<Longrightarrow> c \<noteq> CHR ''-'' \<and> c \<noteq> CHR ''+''" using show_nat_marks[of n] by blast
  have "takeWhile (\<lambda>c. c \<noteq> CHR ''-'' \<and> c \<noteq> CHR ''+'') (show_nat n @ rest) = show_nat n @ takeWhile (\<lambda>c. c \<noteq> CHR ''-'' \<and> c \<noteq> CHR ''+'') rest"
    using all by (intro takeWhile_append2) blast
  moreover have "takeWhile (\<lambda>c. c \<noteq> CHR ''-'' \<and> c \<noteq> CHR ''+'') rest = []" using r by (cases rest) auto
  ultimately show ?thesis by (simp add: strip_suffix_marks_def Let_def show_nat_not_nil)
qed

lemma check_release: "check_version_compatibility (release n rest) = compare_version ''1'' (show_nat n)"
proof -
  have p: "trim_prefix (release n rest) ''v'' = ''1'' @ CHR ''.'' # show_nat n @ CHR ''.'' # rest"
    unfolding release_def by (simp add: trim_prefix_def has_prefix_def)
  have "CHR ''.'' \<notin> set (show_nat n)" using show_nat_marks[of n] by blast
  then have "split_on (CHR ''.'') (''1'' @ CHR ''.'' # show_nat n @ CHR ''.'' # rest) = ''1'' # show_nat n # split_on (CHR ''.'') rest"
    by (simp add: split_on_skip)
  then show ?thesis unfolding check_version_compatibility_def p using strip_release[of "[]" n] by simp
qed

text \<open>The version is compared as text. Of the releases \<open>v1.N.rest\<close> with \<open>N\<close> below 200 the two-digit ones are accepted exactly from
  1.25 on, as the documentation says; but the one-digit ones from 1.3 to 1.9 are accepted as well, and from 1.100 to 1.199 every
  release is refused, whatever follows the minor version.\<close>

lemma version_as_text: "n < 200 \<Longrightarrow> fst (check_version_compatibility (release n rest)) = minor_accepted n"
  using check_release[of n rest] compare_minors[of n] by (auto simp: compare_version_def)

lemma version_as_text_witness:
  "fst (check_version_compatibility (release 28 ''4-eks-123456'')) \<and> fst (check_version_compatibility (release 9 ''11'')) \<and>
   \<not> fst (check_version_compatibility (release 24 ''17'')) \<and> \<not> fst (check_version_compatibility (release 100 ''0''))"
  by (simp add: version_as_text minor_accepted_def supported_minor_def)

end
