(* ===== verification/K8s_Tools.thy ===== *)
theory K8s_Tools
  imports Remediation_Tools Json "HOL-Library.List_Lexorder" "HOL-Library.Char_ord"
begin

text \<open>
  Package \<open>k8s\<close>, the tools for any resource, nodes, events, logs and the cluster (internal/tools/k8s/
  tools.go, tools_cluster.go, tools_events.go, tools_exec.go, tools_extra.go).

  The client libraries are a parameter, the record \<open>k8s_reader\<close>, over objects of type \<open>'o\<close> and the
  state \<open>'c\<close> of the cluster; errors are their texts. A result is rendered by \<open>kr_indent\<close>.
\<close>

section \<open>What the tools read\<close>

record list_options =
  lo_labels :: string
  lo_fields :: string
  lo_limit :: int

record log_options =
  lg_container :: string
  lg_tail :: "int option"
  lg_previous :: bool

record api_resource =
  arr_name :: string
  arr_kind :: string
  arr_namespaced :: bool

record node_item =
  nd_name :: string
  nd_version :: string
  nd_os :: string
  nd_arch :: string
  nd_cpu :: string
  nd_memory :: string
  nd_conditions :: "(string \<times> string) list"
  nd_labels :: "string list"
  nd_json :: any

record namespace_item =
  nm_name :: string
  nm_phase :: string
  nm_created :: time

record event_item =
  ev_kind_of :: string
  ev_reason_of :: string
  ev_text :: string
  ev_object_kind :: string
  ev_object_name :: string
  ev_object_namespace :: string
  ev_count :: int
  ev_last :: time
  ev_first :: time

record drain_pod =
  dp_namespace :: string
  dp_name :: string
  dp_version :: string
  dp_owner_kinds :: "string list"
  dp_mirror :: bool

record exec_result =
  xr_stdout :: string
  xr_stderr :: string
  xr_error :: "string option"

record ('o, 'c) k8s_reader =
  kr_get :: "gvr \<Rightarrow> string \<Rightarrow> string \<Rightarrow> 'c \<Rightarrow> string + 'o"
  kr_list :: "gvr \<Rightarrow> string \<Rightarrow> list_options \<Rightarrow> 'c \<Rightarrow> string + 'o list"
  kr_clientset :: "'c \<Rightarrow> string option"
  kr_stream_logs :: "string \<Rightarrow> string \<Rightarrow> log_options \<Rightarrow> 'c \<Rightarrow> string + (string + string)"
  kr_discover :: "'c \<Rightarrow> string + (string \<times> api_resource list) list"
  kr_get_node :: "string \<Rightarrow> 'c \<Rightarrow> string + node_item"
  kr_nodes :: "'c \<Rightarrow> string + node_item list"
  kr_namespaces :: "'c \<Rightarrow> string + namespace_item list"
  kr_events :: "string \<Rightarrow> list_options \<Rightarrow> 'c \<Rightarrow> string + event_item list"
  kr_version :: "'c \<Rightarrow> string + (string \<times> any) list"
  kr_patch_node :: "string \<Rightarrow> string \<Rightarrow> 'c \<Rightarrow> string option \<times> 'c"
  kr_pods_on :: "string \<Rightarrow> 'c \<Rightarrow> string + drain_pod list"
  kr_delete_pod :: "string \<Rightarrow> string \<Rightarrow> int \<Rightarrow> string \<Rightarrow> 'c \<Rightarrow> string option \<times> 'c"
  kr_exec :: "string \<Rightarrow> string \<Rightarrow> string \<Rightarrow> string list \<Rightarrow> 'c \<Rightarrow> (string + exec_result) \<times> 'c"
  kr_json :: "'o \<Rightarrow> any"
  kr_name :: "'o \<Rightarrow> string"
  kr_namespace :: "'o \<Rightarrow> string"
  kr_created :: "'o \<Rightarrow> string"
  kr_phase :: "'o \<Rightarrow> string option"
  kr_event_json :: "'o \<Rightarrow> any option"
  kr_indent :: "any \<Rightarrow> string"
  kr_now :: "'c \<Rightarrow> time"
  kr_stamp :: "time \<Rightarrow> string"

definition fail_or :: "string + 'v \<Rightarrow> ('v \<Rightarrow> exec_ret) \<Rightarrow> exec_ret" where
  "fail_or r f = (case r of Inl e \<Rightarrow> tool_fail e | Inr v \<Rightarrow> f v)"

definition with_error :: "string \<Rightarrow> string + 'v \<Rightarrow> string + 'v" where
  "with_error label r = (case r of Inl e \<Rightarrow> Inl (label @ '': '' @ e) | Inr v \<Rightarrow> Inr v)"

text \<open>The typed clients need a client set first.\<close>

definition typed :: "('o, 'c) k8s_reader \<Rightarrow> ('c \<Rightarrow> exec_ret) \<Rightarrow> 'c \<Rightarrow> exec_ret" where
  "typed R f c = (case kr_clientset R c of Some e \<Rightarrow> tool_fail e | None \<Rightarrow> f c)"

text \<open>\<open>map[string]any{"count": len(xs), name: xs}\<close>, rendered.\<close>

definition counted_list :: "('o, 'c) k8s_reader \<Rightarrow> string \<Rightarrow> any list \<Rightarrow> exec_ret" where
  "counted_list R name xs = tool_ok (kr_indent R (AObject [(''count'', AInt (int (length xs))), (name, AList xs)]))"

section \<open>Any resource\<close>

definition get_resource :: "('o, 'c) k8s_reader \<Rightarrow> args \<Rightarrow> 'c \<Rightarrow> exec_ret" where
  "get_resource R args c =
     (let kind = string_or_empty (get_string args ''kind''); name = string_or_empty (get_string args ''name'');
          namespace = get_string_default args ''namespace'' ''default''
      in fail_or (parse_gvr (string_or_empty (get_string args ''apiVersion'')) kind) (\<lambda>g.
         fail_or (with_error (''failed to get '' @ kind @ ''/'' @ name) (kr_get R g namespace name c)) (\<lambda>obj.
         tool_ok (kr_indent R (kr_json R obj)))))"

definition item_summary :: "('o, 'c) k8s_reader \<Rightarrow> 'o \<Rightarrow> any" where
  "item_summary R obj = AObject ([(''name'', AString (kr_name R obj))] @ omit_string ''namespace'' (kr_namespace R obj) @
     omit_string ''status'' (case kr_phase R obj of Some p \<Rightarrow> p | None \<Rightarrow> []) @ omit_string ''created'' (kr_created R obj))"

definition list_resources :: "('o, 'c) k8s_reader \<Rightarrow> args \<Rightarrow> 'c \<Rightarrow> exec_ret" where
  "list_resources R args c =
     (let kind = string_or_empty (get_string args ''kind'')
      in fail_or (parse_gvr (string_or_empty (get_string args ''apiVersion'')) kind) (\<lambda>g.
         fail_or (with_error (''failed to list '' @ kind) (kr_list R g (get_string_default args ''namespace'' [])
             \<lparr>lo_labels = get_string_default args ''labelSelector'' [], lo_fields = get_string_default args ''fieldSelector'' [],
              lo_limit = get_int_default args ''limit'' 100\<rparr> c)) (\<lambda>objs.
         counted_list R ''items'' (map (item_summary R) objs))))"

definition events_gvr :: gvr where
  "events_gvr = \<lparr>gvr_group = [], gvr_version = ''v1'', gvr_resource = ''events''\<rparr>"

definition describe_resource :: "('o, 'c) k8s_reader \<Rightarrow> args \<Rightarrow> 'c \<Rightarrow> exec_ret" where
  "describe_resource R args c =
     (let kind = string_or_empty (get_string args ''kind''); name = string_or_empty (get_string args ''name'');
          namespace = get_string_default args ''namespace'' ''default''
      in fail_or (parse_gvr (string_or_empty (get_string args ''apiVersion'')) kind) (\<lambda>g.
         fail_or (with_error (''failed to get '' @ kind @ ''/'' @ name) (kr_get R g namespace name c)) (\<lambda>obj.
         let evs = (if namespace = [] then [] else (case kr_list R events_gvr namespace
               \<lparr>lo_labels = [], lo_fields = ''involvedObject.name='' @ name @ '',involvedObject.kind='' @ kind, lo_limit = 20\<rparr> c of
             Inl _ \<Rightarrow> [] | Inr es \<Rightarrow> List.map_filter (kr_event_json R) es))
         in tool_ok (kr_indent R (AObject [(''resource'', kr_json R obj), (''events'', if evs = [] then ANil else AList evs)])))))"

definition get_pod_logs :: "('o, 'c) k8s_reader \<Rightarrow> args \<Rightarrow> 'c \<Rightarrow> exec_ret" where
  "get_pod_logs R args = typed R (\<lambda>c.
     let n = get_int_default args ''tailLines'' 100 in
     fail_or (with_error ''failed to get logs'' (kr_stream_logs R (get_string_default args ''namespace'' ''default'')
         (string_or_empty (get_string args ''name''))
         \<lparr>lg_container = get_string_default args ''container'' [], lg_tail = (if 0 < n then Some n else None),
          lg_previous = get_bool args ''previous''\<rparr> c)) (\<lambda>body. fail_or body tool_ok))"

definition list_api_resources :: "('o, 'c) k8s_reader \<Rightarrow> args \<Rightarrow> 'c \<Rightarrow> exec_ret" where
  "list_api_resources R args = typed R (\<lambda>c.
     fail_or (with_error ''failed to discover resources'' (kr_discover R c)) (\<lambda>groups.
     counted_list R ''resources'' (concat (map (\<lambda>(gv, rs). map (\<lambda>r. AObject [(''name'', AString (arr_name r)),
       (''kind'', AString (arr_kind r)), (''apiVersion'', AString gv), (''namespaced'', ABool (arr_namespaced r))]) rs) groups))))"

section \<open>Nodes\<close>

definition node_status :: "(string \<times> string) list \<Rightarrow> string" where
  "node_status conditions = (if (''Ready'', ''False'') \<in> set conditions then ''NotReady'' else ''Ready'')"

text \<open>The roles come in the order in which the labels are visited.\<close>

definition node_role :: "string list \<Rightarrow> string" where
  "node_role labels =
     (let role = fold (\<lambda>k r. if has_prefix k ''node-role.kubernetes.io/''
          then (if r \<noteq> [] then r @ '','' else r) @ trim_prefix k ''node-role.kubernetes.io/'' else r) labels []
      in if role = [] then ''worker'' else role)"

text \<open>A map keeps the last value of a key.\<close>

definition conditions_json :: "(string \<times> string) list \<Rightarrow> any" where
  "conditions_json conditions = AObject (map (\<lambda>k. (k, AString (the (map_of (rev conditions) k)))) (remdups (map fst conditions)))"

definition node_summary :: "node_item \<Rightarrow> any" where
  "node_summary n = AObject [(''name'', AString (nd_name n)), (''status'', AString (node_status (nd_conditions n))),
     (''role'', AString (node_role (nd_labels n))), (''version'', AString (nd_version n)), (''os'', AString (nd_os n)),
     (''arch'', AString (nd_arch n)), (''cpu'', AString (nd_cpu n)), (''memory'', AString (nd_memory n)),
     (''conditions'', conditions_json (nd_conditions n))]"

definition get_nodes :: "('o, 'c) k8s_reader \<Rightarrow> args \<Rightarrow> 'c \<Rightarrow> exec_ret" where
  "get_nodes R args = typed R (\<lambda>c. let name = get_string_default args ''name'' [] in
     if name \<noteq> [] then fail_or (kr_get_node R name c) (\<lambda>n. tool_ok (kr_indent R (nd_json n)))
     else fail_or (kr_nodes R c) (\<lambda>ns. counted_list R ''nodes'' (map node_summary ns)))"

section \<open>The cluster\<close>

definition cluster_info :: "('o, 'c) k8s_reader \<Rightarrow> args \<Rightarrow> 'c \<Rightarrow> exec_ret" where
  "cluster_info R args = typed R (\<lambda>c. fail_or (kr_version R c) (\<lambda>info. tool_ok (kr_indent R (AObject (info @
     (case kr_nodes R c of Inl _ \<Rightarrow> [] | Inr ns \<Rightarrow> [(''nodeCount'', AInt (int (length ns)))]) @
     (case kr_namespaces R c of Inl _ \<Rightarrow> [] | Inr ns \<Rightarrow> [(''namespaceCount'', AInt (int (length ns)))]))))))"

definition format_age :: "time \<Rightarrow> time \<Rightarrow> string" where
  "format_age now t =
     (let d = max 0 (time_sub now t) in
      if d < 60 * minute then show_int (int64_of_f64 (dur_minutes d)) @ ''m''
      else if d < 24 * (60 * minute) then show_int (int64_of_f64 (dur_hours d)) @ ''h''
      else show_int (int64_of_f64 (f64_div (dur_hours d) 24)) @ ''d'')"

definition get_namespaces :: "('o, 'c) k8s_reader \<Rightarrow> args \<Rightarrow> 'c \<Rightarrow> exec_ret" where
  "get_namespaces R args = typed R (\<lambda>c. fail_or (kr_namespaces R c) (\<lambda>ns. counted_list R ''namespaces''
     (map (\<lambda>n. AObject [(''name'', AString (nm_name n)), (''status'', AString (nm_phase n)),
       (''age'', AString (format_age (kr_now R c) (nm_created n)))]) ns)))"

section \<open>Draining a node\<close>

text \<open>The pods that are deleted, with the errors; a deletion carries the version that was listed.\<close>

definition is_daemon_set_pod :: "drain_pod \<Rightarrow> bool" where
  "is_daemon_set_pod p = list_ex (\<lambda>k. k = ''DaemonSet'') (dp_owner_kinds p)"

definition drain_skips :: "drain_pod \<Rightarrow> bool" where
  "drain_skips p \<longleftrightarrow> is_daemon_set_pod p \<or> dp_mirror p"

fun delete_pods :: "('o, 'c) k8s_reader \<Rightarrow> drain_pod list \<Rightarrow> 'c \<Rightarrow> (int \<times> int \<times> string list) \<times> 'c" where
  "delete_pods R [] c = ((0, 0, []), c)"
| "delete_pods R (p # ps) c =
     (if drain_skips p then (case delete_pods R ps c of ((ev, sk, es), c2) \<Rightarrow> ((ev, sk + 1, es), c2))
      else (case kr_delete_pod R (dp_namespace p) (dp_name p) 30 (dp_version p) c of
          (Some e, c1) \<Rightarrow> (case delete_pods R ps c1 of ((ev, sk, es), c2) \<Rightarrow>
            ((ev, sk, (dp_namespace p @ ''/'' @ dp_name p @ '': '' @ e) # es), c2))
        | (None, c1) \<Rightarrow> (case delete_pods R ps c1 of ((ev, sk, es), c2) \<Rightarrow> ((ev + 1, sk, es), c2))))"

text \<open>The arguments but the name of the node decide nothing.\<close>

definition drain_node :: "('o, 'c) k8s_reader \<Rightarrow> args \<Rightarrow> 'c \<Rightarrow> exec_ret \<times> 'c" where
  "drain_node R args c =
     (let node = string_or_empty (get_string args ''node'') in
      case kr_clientset R c of Some e \<Rightarrow> (tool_fail e, c)
      | None \<Rightarrow> (case kr_patch_node R node (cordon_patch True) c of
          (Some e, c1) \<Rightarrow> (tool_fail (''failed to cordon: '' @ e), c1)
        | (None, c1) \<Rightarrow> (case kr_pods_on R node c1 of
            Inl e \<Rightarrow> (tool_fail (''failed to list pods: '' @ e), c1)
          | Inr pods \<Rightarrow> (case delete_pods R pods c1 of ((ev, sk, es), c2) \<Rightarrow>
              (tool_ok (kr_indent R (AObject ([(''node'', AString node), (''evicted'', AInt ev), (''skipped'', AInt sk)] @
                (if es \<noteq> [] then [(''errors'', AStrings es)] else [])))), c2)))))"

section \<open>Events\<close>

definition event_matches :: "args \<Rightarrow> event_item \<Rightarrow> bool" where
  "event_matches args e \<longleftrightarrow>
     (get_bool args ''warning'' \<longrightarrow> ev_kind_of e = ''Warning'') \<and>
     (let kind = get_string_default args ''kind'' [] in kind \<noteq> [] \<longrightarrow> ev_object_kind e = kind) \<and>
     (let name = get_string_default args ''name'' [] in name \<noteq> [] \<longrightarrow> ev_object_name e = name)"

text \<open>The loop appends a match before it looks at the limit.\<close>

fun first_matches :: "(event_item \<Rightarrow> bool) \<Rightarrow> int \<Rightarrow> event_item list \<Rightarrow> event_item list \<Rightarrow> event_item list" where
  "first_matches P limit found [] = found"
| "first_matches P limit found (e # es) =
     (if \<not> P e then first_matches P limit found es
      else if int (length (found @ [e])) \<ge> limit then found @ [e]
      else first_matches P limit (found @ [e]) es)"

definition event_json :: "(time \<Rightarrow> string) \<Rightarrow> event_item \<Rightarrow> any" where
  "event_json stamp e = AObject [(''type'', AString (ev_kind_of e)), (''reason'', AString (ev_reason_of e)), (''message'', AString (ev_text e)),
     (''object'', AString (ev_object_kind e @ ''/'' @ ev_object_name e)), (''namespace'', AString (ev_object_namespace e)),
     (''count'', AInt (ev_count e)), (''lastTimestamp'', AString (stamp (ev_last e))), (''firstTimestamp'', AString (stamp (ev_first e)))]"

text \<open>The events shown: what the server lists, filtered up to the limit, newest first; equal times keep their order.\<close>

definition selected_events :: "args \<Rightarrow> event_item list \<Rightarrow> event_item list" where
  "selected_events args es = sort_key (\<lambda>e. - ev_last e) (first_matches (event_matches args) (get_int_default args ''limit'' 50) [] es)"

definition get_events :: "('o, 'c) k8s_reader \<Rightarrow> args \<Rightarrow> 'c \<Rightarrow> exec_ret" where
  "get_events R args = typed R (\<lambda>c.
     let reason = get_string_default args ''reason'' [] in
     fail_or (kr_events R (get_string_default args ''namespace'' [])
         \<lparr>lo_labels = [], lo_fields = (if reason \<noteq> [] then ''reason='' @ reason else []),
          lo_limit = wrap64 (get_int_default args ''limit'' 50 * 2)\<rparr> c)
       (\<lambda>es. counted_list R ''events'' (map (event_json (kr_stamp R)) (selected_events args es))))"

section \<open>Commands in a pod\<close>

definition exec_in_pod :: "('o, 'c) k8s_reader \<Rightarrow> args \<Rightarrow> 'c \<Rightarrow> exec_ret \<times> 'c" where
  "exec_in_pod R args c = (case kr_clientset R c of Some e \<Rightarrow> (tool_fail e, c)
   | None \<Rightarrow> (case kr_exec R (get_string_default args ''namespace'' ''default'') (string_or_empty (get_string args ''name''))
         (get_string_default args ''container'' []) [''/bin/sh'', ''-c'', string_or_empty (get_string args ''command'')] c of
       (Inl e, c1) \<Rightarrow> (tool_fail (''exec setup failed: '' @ e), c1)
     | (Inr r, c1) \<Rightarrow> (case xr_error r of
         Some e \<Rightarrow> ((Some \<lparr>tr_success = False, tr_output = xr_stderr r, tr_error = ''exec failed: '' @ e\<rparr>, None), c1)
       | None \<Rightarrow> (tool_ok (if xr_stdout r = [] \<and> xr_stderr r \<noteq> [] then xr_stderr r else xr_stdout r), c1))))"

end
