(* ===== verification/Dash_Cluster.thy ===== *)
theory Dash_Cluster
  imports Analysis Dash_Compat K8s_Tools
begin

text \<open>
  The pages of the cluster (internal/dashboard/server.go): the overview, the configuration, nodes, events and
  pods. The clients of the request are a record; a list that failed is left out where the code leaves it out. The order
  in which Go yields the labels of a node is that of the list, the order of \<open>sort.Slice\<close> a parameter.
\<close>

section \<open>Objects and clients\<close>

text \<open>
  Allocatable resources of a node as text, in milli-cores and in bytes, and its number of pods. The requests of a pod
  are the milli-cores and bytes of its containers, an absent one 0, as the library reads it.
\<close>

record cluster_node =
  cl_name :: string
  cl_version :: string
  cl_os :: string
  cl_arch :: string
  cl_cpu :: string
  cl_memory :: string
  cl_milli :: int
  cl_bytes :: int
  cl_pods :: int
  cl_unschedulable :: bool
  cl_conditions :: "(string \<times> string) list"
  cl_labels :: "(string \<times> string) list"
  cl_provider_id :: string

record cluster_pod =
  up_namespace :: string
  up_name :: string
  up_node :: string
  up_phase :: string
  up_requests :: "(int \<times> int) list"
  up_restarts :: "int list"
  up_created :: time

text \<open>Events are listed by namespace and options, pods by namespace and limit; a limit of 0 is none.\<close>

record 'd cluster_client =
  lc_nodes :: "'d \<Rightarrow> string + cluster_node list"
  lc_namespaces :: "'d \<Rightarrow> string + string list"
  lc_reports :: "'d \<Rightarrow> string + diagnostic_report list"
  lc_plans :: "'d \<Rightarrow> string + remediation_plan list"
  lc_configs :: "'d \<Rightarrow> string + k8ops_config list"
  lc_events :: "string \<Rightarrow> list_options \<Rightarrow> 'd \<Rightarrow> string + event_item list"
  lc_pods :: "string \<Rightarrow> nat \<Rightarrow> 'd \<Rightarrow> string + cluster_pod list"
  lc_version :: "'d \<Rightarrow> string + string"

definition compat_node_of :: "cluster_node \<Rightarrow> compat_node" where
  "compat_node_of n = \<lparr>cn_provider_id = cl_provider_id n, cn_labels = cl_labels n, cn_arch = cl_arch n, cn_os = cl_os n\<rparr>"

section \<open>The overview\<close>

definition node_ready :: "cluster_node \<Rightarrow> bool" where
  "node_ready n = fold (\<lambda>(t, s) ready. if t = ''Ready'' then s = ''True'' else ready) (cl_conditions n) False"

definition count_by :: "string list \<Rightarrow> string \<rightharpoonup> nat" where
  "count_by xs = fold (\<lambda>x m. m(x \<mapsto> (case m x of Some n \<Rightarrow> n + 1 | None \<Rightarrow> 1))) xs Map.empty"

record cluster_overview =
  ov_nodes :: "(nat \<times> nat \<times> nat) option"
  ov_namespaces :: "nat option"
  ov_diagnostics :: "(nat \<times> (string \<rightharpoonup> nat)) option"
  ov_remediations :: "(nat \<times> (string \<rightharpoonup> nat)) option"
  ov_warnings :: "nat option"
  ov_version :: "(string \<times> cluster_compat) option"

definition when_listed :: "('a list \<Rightarrow> 'b) \<Rightarrow> 'e + 'a list \<Rightarrow> 'b option" where
  "when_listed f r = (case r of Inl e \<Rightarrow> None | Inr xs \<Rightarrow> Some (f xs))"

definition warning_options :: list_options where
  "warning_options = \<lparr>lo_labels = [], lo_fields = ''type=Warning'', lo_limit = 100\<rparr>"

definition handle_cluster_overview :: "'d cluster_client \<Rightarrow> 'd \<Rightarrow> cluster_overview" where
  "handle_cluster_overview C d =
     \<lparr>ov_nodes = when_listed (\<lambda>ns. (length ns, how_many node_ready ns, how_many (\<lambda>n. \<not> node_ready n) ns)) (lc_nodes C d),
      ov_namespaces = when_listed length (lc_namespaces C d),
      ov_diagnostics = when_listed (\<lambda>xs. (length xs, count_by (map (\<lambda>x. phase_or_pending (dst_phase (dr_status x))) xs))) (lc_reports C d),
      ov_remediations = when_listed (\<lambda>xs. (length xs, count_by (map (\<lambda>x. phase_or_pending (rst_phase (rp_status x))) xs))) (lc_plans C d),
      ov_warnings = when_listed length (lc_events C [] warning_options d),
      ov_version = (case lc_version C d of Inl e \<Rightarrow> None
        | Inr v \<Rightarrow> Some (v, detect_cluster_compat v (map compat_node_of (listed (lc_nodes C d)))))\<rparr>"

record config_info =
  fi_name :: string
  fi_provider :: string
  fi_model :: string
  fi_auto :: bool
  fi_risk :: string
  fi_dry_run :: bool

text \<open>\<open>None\<close> is the answer that nothing is configured.\<close>

definition config_info_of :: "k8ops_config \<Rightarrow> config_info" where
  "config_info_of c = (let s = kc_spec c in
     \<lparr>fi_name = om_name (kc_meta c), fi_provider = ps_type (kcs_provider s), fi_model = ps_model (kcs_provider s),
      fi_auto = ar_enabled (kcs_auto_remediation s), fi_risk = max_risk_level (kcs_auto_remediation s),
      fi_dry_run = ar_dry_run (kcs_auto_remediation s)\<rparr>)"

definition handle_config :: "'d cluster_client \<Rightarrow> 'd \<Rightarrow> http_resp + config_info option" where
  "handle_config C d = (case lc_configs C d of
     Inl e \<Rightarrow> Inl (write_k8s_error (Some e))
   | Inr [] \<Rightarrow> Inr None
   | Inr (c # cs) \<Rightarrow> Inr (Some (config_info_of c)))"

section \<open>Nodes\<close>

record node_use =
  tu_cpu :: int
  tu_mem :: int
  tu_pods :: nat

definition no_use :: node_use where
  "no_use = \<lparr>tu_cpu = 0, tu_mem = 0, tu_pods = 0\<rparr>"

definition finished_pod :: "cluster_pod \<Rightarrow> bool" where
  "finished_pod p \<longleftrightarrow> up_phase p = ''Succeeded'' \<or> up_phase p = ''Failed''"

definition add_request :: "int \<times> int \<Rightarrow> node_use \<Rightarrow> node_use" where
  "add_request = (\<lambda>(c, b) u. u\<lparr>tu_cpu := wrap64 (tu_cpu u + c), tu_mem := wrap64 (tu_mem u + b)\<rparr>)"

definition use_of :: "(string \<rightharpoonup> node_use) \<Rightarrow> string \<Rightarrow> node_use" where
  "use_of m k = (case m k of Some u \<Rightarrow> u | None \<Rightarrow> no_use)"

definition add_pod_use :: "cluster_pod \<Rightarrow> (string \<rightharpoonup> node_use) \<Rightarrow> (string \<rightharpoonup> node_use)" where
  "add_pod_use p m = (if up_node p = [] \<or> finished_pod p then m else
     (let u = use_of m (up_node p) in m(up_node p \<mapsto> fold add_request (up_requests p) (u\<lparr>tu_pods := tu_pods u + 1\<rparr>))))"

definition use_per_node :: "cluster_pod list \<Rightarrow> string \<rightharpoonup> node_use" where
  "use_per_node ps = fold add_pod_use ps Map.empty"

record node_info =
  ni_name :: string
  ni_status :: string
  ni_role :: string
  ni_version :: string
  ni_cpu :: string
  ni_memory :: string
  ni_os :: string
  ni_arch :: string
  ni_conditions :: "string \<rightharpoonup> string"
  ni_unschedulable :: bool
  ni_cpu_pct :: rat
  ni_mem_pct :: rat
  ni_cpu_requests :: string
  ni_mem_requests :: string
  ni_pods :: nat
  ni_capacity :: int

definition shown_status :: "cluster_node \<Rightarrow> string" where
  "shown_status n = fold (\<lambda>(t, s) st. if t = ''Ready'' \<and> s = ''False'' then ''NotReady'' else st) (cl_conditions n) ''Ready''"

definition shown_role :: "cluster_node \<Rightarrow> string" where
  "shown_role n = (let role = fold (\<lambda>(k, v) r. if has_prefix k ''node-role.kubernetes.io/'' then trim_prefix k ''node-role.kubernetes.io/'' else r)
       (cl_labels n) [] in if role = [] then ''worker'' else role)"

definition gigabytes :: "int \<Rightarrow> string" where
  "gigabytes b = fixed1 (f64_div (f64_div (f64_div (f64_of_int b) 1024) 1024) 1024) @ ''Gi''"

definition node_info_of :: "(string \<rightharpoonup> node_use) \<Rightarrow> cluster_node \<Rightarrow> node_info" where
  "node_info_of m n = (let u = use_of m (cl_name n) in
     \<lparr>ni_name = cl_name n, ni_status = shown_status n, ni_role = shown_role n, ni_version = cl_version n, ni_cpu = cl_cpu n, ni_memory = cl_memory n,
      ni_os = cl_os n, ni_arch = cl_arch n, ni_conditions = map_of (rev (cl_conditions n)), ni_unschedulable = cl_unschedulable n,
      ni_cpu_pct = (if 0 < cl_milli n then percent_of (tu_cpu u) (cl_milli n) else 0),
      ni_mem_pct = (if 0 < cl_bytes n then percent_of (tu_mem u) (cl_bytes n) else 0),
      ni_cpu_requests = (if 0 < cl_milli n then show_int (tu_cpu u) @ ''m / '' @ show_int (cl_milli n) @ ''m'' else []),
      ni_mem_requests = (if 0 < cl_bytes n then gigabytes (tu_mem u) @ '' / '' @ gigabytes (cl_bytes n) else []),
      ni_pods = tu_pods u, ni_capacity = cl_pods n\<rparr>)"

definition handle_nodes :: "node_info slice_sort \<Rightarrow> 'd cluster_client \<Rightarrow> 'd \<Rightarrow> http_resp + node_info list" where
  "handle_nodes srt C d = (case lc_nodes C d of
     Inl e \<Rightarrow> Inl (write_k8s_error (Some e))
   | Inr ns \<Rightarrow> Inr (srt (\<lambda>a b. ni_name a < ni_name b) (map (node_info_of (use_per_node (listed (lc_pods C [] 0 d)))) ns)))"

section \<open>Events and pods\<close>

record event_row =
  el_type :: string
  el_reason :: string
  el_message :: string
  el_object :: string
  el_namespace :: string
  el_count :: int
  el_last :: string

definition event_row_of :: "(time \<Rightarrow> string) \<Rightarrow> event_item \<Rightarrow> event_row" where
  "event_row_of stamp e = \<lparr>el_type = ev_kind_of e, el_reason = ev_reason_of e, el_message = truncate_text (ev_text e) 300,
     el_object = ev_object_kind e @ ''/'' @ ev_object_name e, el_namespace = ev_object_namespace e, el_count = ev_count e, el_last = stamp (ev_last e)\<rparr>"

definition event_options :: "http_req \<Rightarrow> list_options" where
  "event_options rq = \<lparr>lo_labels = [], lo_fields = (if rq_query rq ''warning'' = ''true'' then ''type=Warning'' else []), lo_limit = 50\<rparr>"

definition handle_events :: "(time \<Rightarrow> string) \<Rightarrow> event_row slice_sort \<Rightarrow> 'd cluster_client \<Rightarrow> http_req \<Rightarrow> 'd \<Rightarrow> http_resp + event_row list" where
  "handle_events stamp srt C rq d = (case lc_events C (rq_query rq ''namespace'') (event_options rq) d of
     Inl e \<Rightarrow> Inl (write_k8s_error (Some e))
   | Inr es \<Rightarrow> Inr (srt (\<lambda>a b. el_last b < el_last a) (map (event_row_of stamp) es)))"

definition format_duration :: "duration \<Rightarrow> string" where
  "format_duration d = (if 24 * (60 * minute) < d then fixed0 (f64_div (dur_hours d) 24) @ ''d''
     else if 60 * minute < d then fixed0 (dur_hours d) @ ''h'' else fixed0 (dur_minutes d) @ ''m'')"

record pod_row =
  ol_name :: string
  ol_namespace :: string
  ol_phase :: string
  ol_node :: string
  ol_restarts :: int
  ol_age :: string

definition pod_row_of :: "time \<Rightarrow> cluster_pod \<Rightarrow> pod_row" where
  "pod_row_of now p = \<lparr>ol_name = up_name p, ol_namespace = up_namespace p, ol_phase = up_phase p, ol_node = up_node p,
     ol_restarts = fold (\<lambda>r n. wrap32 (n + r)) (up_restarts p) 0, ol_age = format_duration (time_sub now (up_created p))\<rparr>"

definition pod_row_before :: "pod_row \<Rightarrow> pod_row \<Rightarrow> bool" where
  "pod_row_before a b = (if ol_namespace a \<noteq> ol_namespace b then ol_namespace a < ol_namespace b else ol_name a < ol_name b)"

definition handle_pods :: "time \<Rightarrow> pod_row slice_sort \<Rightarrow> 'd cluster_client \<Rightarrow> http_req \<Rightarrow> 'd \<Rightarrow> http_resp + pod_row list" where
  "handle_pods now srt C rq d = (case lc_pods C (rq_query rq ''namespace'') 200 d of
     Inl e \<Rightarrow> Inl (write_k8s_error (Some e))
   | Inr ps \<Rightarrow> Inr (srt pod_row_before (map (pod_row_of now) ps)))"

section \<open>Lemmas\<close>

lemma count_by_count: "count_by xs x = (if x \<in> set xs then Some (count_list xs x) else None)"
proof (induction xs rule: rev_induct)
  case (snoc y ys)
  have "count_by (ys @ [y]) = (count_by ys)(y \<mapsto> (case count_by ys y of Some n \<Rightarrow> n + 1 | None \<Rightarrow> 1))" by (simp add: count_by_def)
  then show ?case using snoc.IH by (cases "x = y"; cases "y \<in> set ys") simp_all
qed (simp add: count_by_def)

text \<open>The readiness of a node: the value of the last Ready condition, but any of them that is False counts for the status.\<close>

definition ready_unknown :: "cluster_node \<Rightarrow> bool" where
  "ready_unknown n \<longleftrightarrow> map_of (cl_conditions n) ''Ready'' \<notin> {Some ''True'', Some ''False''}"

lemma readiness:
  assumes "distinct (map fst (cl_conditions n))"
  shows "node_ready n \<longleftrightarrow> map_of (cl_conditions n) ''Ready'' = Some ''True''"
    and "shown_status n = (if map_of (cl_conditions n) ''Ready'' = Some ''False'' then ''NotReady'' else ''Ready'')"
proof -
  have skip: "fold (\<lambda>(t, s) b. if t = ''Ready'' then f s b else b) cs z = z" if "''Ready'' \<notin> fst ` set cs"
    for f :: "string \<Rightarrow> 'b \<Rightarrow> 'b" and cs z using that by (induction cs arbitrary: z) auto
  have run: "fold (\<lambda>(t, s) b. if t = ''Ready'' then f s b else b) cs z = (case map_of cs ''Ready'' of Some s \<Rightarrow> f s z | None \<Rightarrow> z)"
    if "distinct (map fst cs)" for f :: "string \<Rightarrow> 'b \<Rightarrow> 'b" and cs z using that by (induction cs arbitrary: z) (auto simp: skip)
  show "node_ready n \<longleftrightarrow> map_of (cl_conditions n) ''Ready'' = Some ''True''"
    unfolding node_ready_def using run[OF assms, of "\<lambda>s b. s = ''True''" False] by (simp split: option.split)
  have "(\<lambda>(t, s) st. if t = ''Ready'' \<and> s = ''False'' then ''NotReady'' else st) =
      (\<lambda>(t, s) st. if t = ''Ready'' then (if s = ''False'' then ''NotReady'' else st) else st)" by (auto simp: fun_eq_iff)
  then show "shown_status n = (if map_of (cl_conditions n) ''Ready'' = Some ''False'' then ''NotReady'' else ''Ready'')"
    unfolding shown_status_def using run[OF assms, of "\<lambda>s st. if s = ''False'' then ''NotReady'' else st" "''Ready''"]
    by (simp split: option.split)
qed

text \<open>C21. A node whose kubelet no longer reports is Unknown: the overview counts it as not ready, the list of nodes shows it as
  Ready. When the conditions of each node have one entry per type, the nodes the overview counts as not ready are those the list
  shows as NotReady and those whose Ready condition is neither True nor False, so the two pages agree exactly when there is no such node.\<close>

theorem unreachable_nodes_ready:
  assumes "lc_nodes C d = Inr ns" "\<forall>n \<in> set ns. distinct (map fst (cl_conditions n))" "permuting srt"
    and "handle_nodes srt C d = Inr xs" "ov_nodes (handle_cluster_overview C d) = Some (nodes, ready, not_ready)"
  shows "nodes = length xs \<and> ready + not_ready = nodes \<and>
    not_ready = how_many (\<lambda>x. ni_status x = ''NotReady'') xs + how_many ready_unknown ns"
proof -
  define m where "m = use_per_node (listed (lc_pods C [] 0 d))"
  have xs: "xs = srt (\<lambda>a b. ni_name a < ni_name b) (map (node_info_of m) ns)" using assms(1,4) by (simp add: handle_nodes_def m_def)
  have ov: "nodes = length ns" "ready = how_many node_ready ns" "not_ready = how_many (\<lambda>n. \<not> node_ready n) ns"
    using assms(1,5) by (auto simp: handle_cluster_overview_def when_listed_def)
  have "how_many (\<lambda>x. ni_status x = ''NotReady'') xs = how_many (\<lambda>n. map_of (cl_conditions n) ''Ready'' = Some ''False'') ns"
    unfolding xs permuting_many[OF assms(3)] how_many_map
    by (intro how_many_cong) (use assms(2) in \<open>simp add: node_info_of_def Let_def readiness(2)\<close>)
  moreover have "not_ready = how_many (\<lambda>n. map_of (cl_conditions n) ''Ready'' = Some ''False'' \<or> ready_unknown n) ns"
    unfolding ov(3)
  proof (intro how_many_cong)
    fix n assume "n \<in> set ns"
    then have "node_ready n \<longleftrightarrow> map_of (cl_conditions n) ''Ready'' = Some ''True''" using assms(2) readiness(1) by blast
    then show "\<not> node_ready n \<longleftrightarrow> map_of (cl_conditions n) ''Ready'' = Some ''False'' \<or> ready_unknown n" by (auto simp: ready_unknown_def)
  qed
  moreover have "\<dots> = how_many (\<lambda>n. map_of (cl_conditions n) ''Ready'' = Some ''False'') ns + how_many ready_unknown ns"
    by (intro how_many_or) (simp add: ready_unknown_def)
  moreover have "length xs = length ns" using assms(3) by (simp add: xs)
  moreover have "how_many node_ready ns + how_many (\<lambda>n. \<not> node_ready n) ns = length ns"
    unfolding how_many_def by (rule sum_length_filter_compl)
  ultimately show ?thesis using ov by simp
qed

section \<open>The use of a node\<close>

definition placed_on :: "string \<Rightarrow> cluster_pod \<Rightarrow> bool" where
  "placed_on k p \<longleftrightarrow> up_node p = k \<and> k \<noteq> [] \<and> \<not> finished_pod p"

lemma add_requests:
  "tu_pods (fold add_request rs u) = tu_pods u"
  "wrap64 (tu_cpu u) = tu_cpu u \<Longrightarrow> tu_cpu (fold add_request rs u) = wrap64 (tu_cpu u + sum_list (map fst rs))"
  "wrap64 (tu_mem u) = tu_mem u \<Longrightarrow> tu_mem (fold add_request rs u) = wrap64 (tu_mem u + sum_list (map snd rs))"
proof (induction rs arbitrary: u)
  case (Cons r rs)
  obtain c b where r: "r = (c, b)" by (cases r)
  have w: "wrap64 (wrap64 x) = wrap64 x" for x using wrap64_add[of x 0] by simp
  { case 1 show ?case using Cons.IH(1) by (simp add: add_request_def r) }
  { case 2 show ?case using Cons.IH(2)[of "add_request r u"] by (simp add: add_request_def r w wrap64_sums ac_simps) }
  { case 3 show ?case using Cons.IH(3)[of "add_request r u"] by (simp add: add_request_def r w wrap64_sums ac_simps) }
qed simp_all

lemma use_per_node_sums:
  fixes k ps
  defines "qs \<equiv> filter (placed_on k) ps"
  shows "use_of (use_per_node ps) k = \<lparr>tu_cpu = wrap64 (sum_list (map fst (concat (map up_requests qs)))),
    tu_mem = wrap64 (sum_list (map snd (concat (map up_requests qs)))), tu_pods = length qs\<rparr>"
  unfolding qs_def
proof (induction ps rule: rev_induct)
  case Nil
  show ?case by (simp add: use_per_node_def use_of_def no_use_def wrap64_id min_int64_def max_int64_def)
next
  case (snoc p ps)
  have w: "wrap64 (wrap64 x) = wrap64 x" for x using wrap64_add[of x 0] by simp
  have step: "use_per_node (ps @ [p]) = add_pod_use p (use_per_node ps)" by (simp add: use_per_node_def)
  show ?case
  proof (cases "placed_on k p")
    case True
    define u where "u = use_of (use_per_node ps) k"
    have "use_of (use_per_node (ps @ [p])) k = fold add_request (up_requests p) (u\<lparr>tu_pods := tu_pods u + 1\<rparr>)"
      using True by (simp add: step add_pod_use_def placed_on_def u_def use_of_def Let_def)
    moreover have "u = \<lparr>tu_cpu = wrap64 (sum_list (map fst (concat (map up_requests (filter (placed_on k) ps))))),
      tu_mem = wrap64 (sum_list (map snd (concat (map up_requests (filter (placed_on k) ps))))), tu_pods = length (filter (placed_on k) ps)\<rparr>"
      using snoc.IH by (simp add: u_def)
    ultimately show ?thesis using True by (intro node_use.equality) (simp_all add: add_requests w wrap64_sums ac_simps)
  next
    case False
    then have "use_of (use_per_node (ps @ [p])) k = use_of (use_per_node ps) k"
      by (auto simp: step add_pod_use_def placed_on_def use_of_def Let_def)
    then show ?thesis using False snoc.IH by simp
  qed
qed

text \<open>
  The figures of a node: its pods that have not finished and their requests, whatever the order of the pods; and every such pod on a
  listed node is counted in one entry.\<close>

theorem node_figures_exact:
  assumes "lc_nodes C d = Inr ns" "lc_pods C [] 0 d = Inr ps" "permuting srt" "handle_nodes srt C d = Inr xs"
  shows "x \<in> set xs \<Longrightarrow> \<exists>n \<in> set ns. ni_name x = cl_name n \<and> ni_pods x = how_many (placed_on (cl_name n)) ps \<and>
      ni_cpu_pct x = (if 0 < cl_milli n then
        percent_of (wrap64 (\<Sum>p \<leftarrow> filter (placed_on (cl_name n)) ps. \<Sum>r \<leftarrow> up_requests p. fst r)) (cl_milli n) else 0)"
    and "distinct (map cl_name ns) \<Longrightarrow> (\<Sum>x \<leftarrow> xs. ni_pods x) = how_many (\<lambda>p. \<exists>n \<in> set ns. placed_on (cl_name n) p) ps"
proof -
  have xs: "xs = srt (\<lambda>a b. ni_name a < ni_name b) (map (node_info_of (use_per_node ps)) ns)"
    using assms(1,2,4) by (simp add: handle_nodes_def listed_def)
  have inner: "sum_list (map fst (concat (map up_requests qs))) = (\<Sum>p \<leftarrow> qs. \<Sum>r \<leftarrow> up_requests p. fst r)" for qs
    by (induction qs) simp_all
  show "\<exists>n \<in> set ns. ni_name x = cl_name n \<and> ni_pods x = how_many (placed_on (cl_name n)) ps \<and>
      ni_cpu_pct x = (if 0 < cl_milli n then
        percent_of (wrap64 (\<Sum>p \<leftarrow> filter (placed_on (cl_name n)) ps. \<Sum>r \<leftarrow> up_requests p. fst r)) (cl_milli n) else 0)"
    if inside: "x \<in> set xs"
  proof -
    obtain n where "n \<in> set ns" "x = node_info_of (use_per_node ps) n" using inside permuting_set[OF assms(3)] by (auto simp: xs)
    then show ?thesis by (intro bexI[of _ n]) (simp_all add: node_info_of_def Let_def use_per_node_sums how_many_def inner)
  qed
  have total_pods: "(\<Sum>n \<leftarrow> ns. how_many (placed_on (cl_name n)) ps) = how_many (\<lambda>p. \<exists>n \<in> set ns. placed_on (cl_name n) p) ps"
    if "distinct (map cl_name ns)" for ns
    using that
  proof (induction ns)
    case (Cons n ns)
    then have "how_many (\<lambda>p. placed_on (cl_name n) p \<or> (\<exists>n \<in> set ns. placed_on (cl_name n) p)) ps =
        how_many (placed_on (cl_name n)) ps + how_many (\<lambda>p. \<exists>n \<in> set ns. placed_on (cl_name n) p) ps"
      by (intro how_many_or) (force simp: placed_on_def)
    then show ?case using Cons by simp
  qed simp
  show "(\<Sum>x \<leftarrow> xs. ni_pods x) = how_many (\<lambda>p. \<exists>n \<in> set ns. placed_on (cl_name n) p) ps" if "distinct (map cl_name ns)"
    unfolding xs permuting_sum[OF assms(3)] total_pods[OF that, symmetric]
    by (simp add: node_info_of_def Let_def use_per_node_sums how_many_def comp_def)
qed

section \<open>Pages that are cut\<close>

text \<open>
  The API server answers a list with a limit with its first entries, in the order of their keys; the page of events
  sorts these by time and asks for no more: with more than 50 events the newest can be missing.\<close>

theorem newest_events_missed:
  assumes "\<And>p. lc_events C (rq_query rq ''namespace'') p d = Inr (take (nat (lo_limit p)) (es (lo_fields p)))" "permuting srt"
    and "handle_events stamp srt C rq d = Inr xs"
  shows "set xs = event_row_of stamp ` set (take 50 (es (lo_fields (event_options rq))))"
    and "length xs = min 50 (length (es (lo_fields (event_options rq))))"
proof -
  have "xs = srt (\<lambda>a b. el_last b < el_last a) (map (event_row_of stamp) (take 50 (es (lo_fields (event_options rq)))))"
    using assms(1)[of "event_options rq"] assms(3) by (simp add: handle_events_def event_options_def)
  then show "set xs = event_row_of stamp ` set (take 50 (es (lo_fields (event_options rq))))"
    and "length xs = min 50 (length (es (lo_fields (event_options rq))))"
    using assms(2) by (simp_all add: permuting_set min.commute)
qed

text \<open>Ages are rounded to even: a day and a half and two days and a half read the same.\<close>

lemma ages_rounded: "format_duration (36 * (60 * minute)) = ''2d''" "format_duration (60 * (60 * minute)) = ''2d''"
    "format_duration (24 * (60 * minute)) = ''24h''"
  by code_simp+

section \<open>Examples\<close>

definition demo_cluster_node :: "string \<Rightarrow> string \<Rightarrow> cluster_node" where
  "demo_cluster_node name status = \<lparr>cl_name = name, cl_version = ''v1.30.1'', cl_os = ''linux'', cl_arch = ''amd64'', cl_cpu = ''2'', cl_memory = ''4Gi'',
     cl_milli = 2000, cl_bytes = 4294967296, cl_pods = 110, cl_unschedulable = False,
     cl_conditions = [(''MemoryPressure'', ''False''), (''Ready'', status)], cl_labels = [(''node-role.kubernetes.io/worker'', [])], cl_provider_id = []\<rparr>"

definition demo_cluster_pod :: "string \<Rightarrow> string \<Rightarrow> cluster_pod" where
  "demo_cluster_pod node phase = \<lparr>up_namespace = ''web'', up_name = ''p'', up_node = node, up_phase = phase, up_requests = [(500, 1048576), (250, 0)],
     up_restarts = [1, 2], up_created = 0\<rparr>"

definition demo_cluster_event :: "time \<Rightarrow> event_item" where
  "demo_cluster_event t = \<lparr>ev_kind_of = ''Warning'', ev_reason_of = ''BackOff'', ev_text = [], ev_object_kind = ''Pod'', ev_object_name = ''p'',
     ev_object_namespace = ''web'', ev_count = 1, ev_last = t, ev_first = 0\<rparr>"

definition demo_cluster_client :: "unit cluster_client" where
  "demo_cluster_client = \<lparr>lc_nodes = (\<lambda>d. Inr [demo_cluster_node ''b'' ''Unknown'', demo_cluster_node ''a'' ''True'']),
     lc_namespaces = (\<lambda>d. Inr [''web'']), lc_reports = (\<lambda>d. Inr []), lc_plans = (\<lambda>d. Inr []), lc_configs = (\<lambda>d. Inr []),
     lc_events = (\<lambda>ns p d. Inr (take (nat (lo_limit p)) (map demo_cluster_event [0..60]))),
     lc_pods = (\<lambda>ns k d. Inr [demo_cluster_pod ''a'' ''Running'', demo_cluster_pod ''a'' ''Failed'', demo_cluster_pod ''b'' ''Pending'']),
     lc_version = (\<lambda>d. Inr ''v1.30.1'')\<rparr>"

definition by_name :: "node_info slice_sort" where
  "by_name before xs = sort_key ni_name xs"

lemma by_name_permuting: "permuting by_name"
  by (simp add: permuting_def by_name_def)

theorem unreachable_nodes_ready_witness:
  "ov_nodes (handle_cluster_overview demo_cluster_client ()) = Some (2, 1, 1) \<and>
   (\<exists>xs. handle_nodes by_name demo_cluster_client () = Inr xs \<and> map ni_status xs = [''Ready'', ''Ready''] \<and>
      how_many ready_unknown [demo_cluster_node ''b'' ''Unknown'', demo_cluster_node ''a'' ''True''] = 1)"
proof -
  let ?ns = "[demo_cluster_node ''b'' ''Unknown'', demo_cluster_node ''a'' ''True'']"
  define xs where "xs = by_name (\<lambda>a b. ni_name a < ni_name b) (map (node_info_of (use_per_node (listed (lc_pods demo_cluster_client [] 0 ())))) ?ns)"
  have xs: "handle_nodes by_name demo_cluster_client () = Inr xs" by (simp add: handle_nodes_def demo_cluster_client_def xs_def)
  have ov: "ov_nodes (handle_cluster_overview demo_cluster_client ()) = Some (2, 1, 1)" by code_simp
  have st: "map ni_status xs = [''Ready'', ''Ready'']" unfolding xs_def by code_simp
  then have "how_many (\<lambda>x. ni_status x = ''NotReady'') xs = 0" unfolding how_many_def by (auto simp: filter_empty_conv dest: arg_cong[where f = set])
  moreover have "2 = length xs \<and> 1 + 1 = (2 :: nat) \<and> 1 = how_many (\<lambda>x. ni_status x = ''NotReady'') xs + how_many ready_unknown ?ns"
    by (intro unreachable_nodes_ready[of demo_cluster_client "()" ?ns by_name xs, OF _ _ by_name_permuting xs ov])
      (simp_all add: demo_cluster_client_def demo_cluster_node_def)
  ultimately show ?thesis using xs ov st by auto
qed

end
