(* ===== verification/Dash_Actions.thy ===== *)
theory Dash_Actions
  imports Access K8s_Tools Audit_Log
begin

text \<open>
  The routes of the dashboard that act on workloads, nodes and pods (internal/dashboard/
  handlers_scale.go, handlers_node_cordon.go, handlers_pod_actions.go, handlers_pod_actions_extra.go)
  and their place behind the gate of the server. The client set of a request, the impersonating one
  or the server's own, is a parameter; a request without one is \<open>None\<close>.
\<close>

section \<open>Clients\<close>

text \<open>What the handlers touch of an object, and the rest of it; annotations are those of the pod template.
  The client library hands out the values of a secret as bytes, decoded already.\<close>

record 'o workload =
  wl_replicas :: "int option"
  wl_annotations :: "string \<rightharpoonup> string"
  wl_object :: 'o

record 'o node_object =
  no_unschedulable :: bool
  no_object :: 'o

record pod_object =
  px_statuses :: "(string \<times> bool) list"
  px_containers :: "(string \<times> string) list"

record ('o, 'd) clientset =
  cl_get_workload :: "string \<Rightarrow> string \<Rightarrow> string \<Rightarrow> 'd \<Rightarrow> string + 'o workload"
  cl_update_workload :: "string \<Rightarrow> string \<Rightarrow> 'o workload \<Rightarrow> 'd \<Rightarrow> (string + 'o workload) \<times> 'd"
  cl_get_node :: "string \<Rightarrow> 'd \<Rightarrow> string + 'o node_object"
  cl_update_node :: "'o node_object \<Rightarrow> 'd \<Rightarrow> string option \<times> 'd"
  cl_get_pod :: "string \<Rightarrow> string \<Rightarrow> 'd \<Rightarrow> string + pod_object"
  cl_delete_pod :: "string \<Rightarrow> string \<Rightarrow> 'd \<Rightarrow> string option \<times> 'd"
  cl_logs :: "string \<Rightarrow> string \<Rightarrow> log_options \<Rightarrow> bool \<Rightarrow> 'd \<Rightarrow> string + string"
  cl_exec :: "string \<Rightarrow> string \<Rightarrow> string \<Rightarrow> string list \<Rightarrow> 'd \<Rightarrow> (string + exec_result) \<times> 'd"
  cl_config_map :: "string \<Rightarrow> string \<Rightarrow> 'd \<Rightarrow> string + (string \<times> string) list"
  cl_secret :: "string \<Rightarrow> string \<Rightarrow> 'd \<Rightarrow> string + (string \<times> string) list"

type_synonym ('o, 'd) act_server = "(('o, 'd) clientset option, 'd) dash_server"
type_synonym ('o, 'd) act_handler = "(('o, 'd) clientset option, 'd) dash_handler"

record 'd action_env =
  dv_audit :: "(audit_event \<Rightarrow> 'd \<Rightarrow> 'd) option"
  dv_stamp :: "'d \<Rightarrow> string"
  dv_json :: "any \<Rightarrow> string"
  dv_flusher :: bool

definition client_of :: "('o, 'd) act_server \<Rightarrow> (('o, 'd) clientset option, 'd) request_clients option \<Rightarrow>
    ('o, 'd) clientset option" where
  "client_of s rcs = rqc_clientset (clients_from_req s rcs)"

text \<open>A handler that calls a nil client panics; net/http recovers, and the client gets no answer.\<close>

definition no_answer :: http_resp where
  "no_answer = respond 0 ANil"

definition user_action :: "string \<Rightarrow> string \<Rightarrow> string \<Rightarrow> string \<Rightarrow> args \<Rightarrow> audit_event" where
  "user_action severity action target namespace detail =
     \<lparr>aev_id = [], aev_timestamp = [], aev_type = ''user_action'', aev_severity = severity, aev_actor = ''dashboard-user'',
      aev_action = action, aev_target = target, aev_namespace = namespace, aev_success = True, aev_detail = detail,
      aev_duration = [], aev_error = [], aev_source = []\<rparr>"

definition audited :: "'d action_env \<Rightarrow> audit_event \<Rightarrow> 'd \<Rightarrow> 'd" where
  "audited E ev d = (case dv_audit E of None \<Rightarrow> d | Some f \<Rightarrow> f ev d)"

section \<open>Requests\<close>

definition into_int32 :: "int decoder" where
  "into_int32 x v = (case x of AInt i \<Rightarrow> if - (2 ^ 31) \<le> i \<and> i < 2 ^ 31 then Some i else None
     | ANil \<Rightarrow> Some v | _ \<Rightarrow> None)"

record target_request =
  tq_namespace :: string
  tq_kind :: string
  tq_name :: string
  tq_replicas :: int

definition empty_target :: target_request where
  "empty_target = \<lparr>tq_namespace = [], tq_kind = [], tq_name = [], tq_replicas = 0\<rparr>"

definition decode_scale :: "any \<Rightarrow> target_request option" where
  "decode_scale x = into_struct (\<lambda>ms q. do {
     namespace \<leftarrow> into_member into_string ''namespace'' ms (tq_namespace q);
     kind \<leftarrow> into_member into_string ''kind'' ms (tq_kind q);
     name \<leftarrow> into_member into_string ''name'' ms (tq_name q);
     replicas \<leftarrow> into_member into_int32 ''replicas'' ms (tq_replicas q);
     Some \<lparr>tq_namespace = namespace, tq_kind = kind, tq_name = name, tq_replicas = replicas\<rparr> }) x empty_target"

definition decode_rollout :: "any \<Rightarrow> target_request option" where
  "decode_rollout x = into_struct (\<lambda>ms q. do {
     namespace \<leftarrow> into_member into_string ''namespace'' ms (tq_namespace q);
     kind \<leftarrow> into_member into_string ''kind'' ms (tq_kind q);
     name \<leftarrow> into_member into_string ''name'' ms (tq_name q);
     Some (q\<lparr>tq_namespace := namespace, tq_kind := kind, tq_name := name\<rparr>) }) x empty_target"

definition decode_pod_delete :: "any \<Rightarrow> target_request option" where
  "decode_pod_delete x = into_struct (\<lambda>ms q. do {
     namespace \<leftarrow> into_member into_string ''namespace'' ms (tq_namespace q);
     name \<leftarrow> into_member into_string ''name'' ms (tq_name q);
     Some (q\<lparr>tq_namespace := namespace, tq_name := name\<rparr>) }) x empty_target"

definition decode_cordon :: "any \<Rightarrow> (string \<times> bool option) option" where
  "decode_cordon x = into_struct (\<lambda>ms q. do {
     name \<leftarrow> into_member into_string ''name'' ms (fst q);
     unschedulable \<leftarrow> into_member (into_ptr False into_bool) ''unschedulable'' ms (snd q);
     Some (name, unschedulable) }) x ([], None)"

definition decode_pod_exec :: "any \<Rightarrow> (string \<times> string) option" where
  "decode_pod_exec x = into_struct (\<lambda>ms q. do {
     command \<leftarrow> into_member into_string ''command'' ms (fst q);
     container \<leftarrow> into_member into_string ''container'' ms (snd q);
     Some (command, container) }) x ([], [])"

section \<open>Scaling\<close>

definition singular :: "string \<Rightarrow> string" where
  "singular kind = trim_suffix kind ''s''"

definition replicas_of :: "'o workload \<Rightarrow> int" where
  "replicas_of w = (case wl_replicas w of Some n \<Rightarrow> n | None \<Rightarrow> 0)"

definition workload_target :: "string \<Rightarrow> string \<Rightarrow> string \<Rightarrow> string" where
  "workload_target kind namespace name = kind @ ''/'' @ namespace @ ''/'' @ name"

definition scale_workload :: "'d action_env \<Rightarrow> ('o, 'd) clientset \<Rightarrow> string \<Rightarrow> string \<Rightarrow> string \<Rightarrow> int \<Rightarrow> 'd \<Rightarrow> http_resp \<times> 'd" where
  "scale_workload E cs kind namespace name n d = (case cl_get_workload cs kind namespace name d of
     Inl e \<Rightarrow> (write_error 404 (kind @ '' '' @ namespace @ ''/'' @ name @ '' not found: '' @ e), d)
   | Inr w \<Rightarrow> (case cl_update_workload cs kind namespace (w\<lparr>wl_replicas := Some n\<rparr>) d of
       (Inl e, d1) \<Rightarrow> (write_error 500 (''failed to scale '' @ kind @ '': '' @ e), d1)
     | (Inr w1, d1) \<Rightarrow> (write_json (AObject [(''success'', ABool True), (''kind'', AString kind), (''namespace'', AString namespace),
           (''name'', AString name), (''replicas'', AInt32 (replicas_of w1))]),
         audited E (user_action ''warning'' ''scale'' (workload_target kind namespace name) namespace
           [''oldReplicas'' \<mapsto> AInt32 (replicas_of w), ''newReplicas'' \<mapsto> AInt32 (replicas_of w1)]) d1)))"

definition scalable_kinds :: "string list" where
  "scalable_kinds = [''deployment'', ''deployments'', ''statefulset'', ''statefulsets'']"

text \<open>The order of the checks: the names, the number, the kind, the client.\<close>

definition handle_scale :: "'d action_env \<Rightarrow> ('o, 'd) act_server \<Rightarrow> ('o, 'd) act_handler" where
  "handle_scale E s user rcs rq d =
     (if rq_method rq \<noteq> ''POST'' then (write_error 405 ''method not allowed'', d)
      else case Option.bind (rq_json rq) decode_scale of
        None \<Rightarrow> (write_error 400 ''invalid request body'', d)
      | Some q \<Rightarrow>
          let namespace = trim_space (tq_namespace q); name = trim_space (tq_name q); kind = to_lower (trim_space (tq_kind q)) in
          if namespace = [] \<or> name = [] then (write_error 400 ''namespace and name are required'', d)
          else if tq_replicas q < 0 \<or> 1000 < tq_replicas q then (write_error 400 ''replicas must be between 0 and 1000'', d)
          else if kind \<notin> set scalable_kinds then (write_error 400 ''only deployment and statefulset can be scaled'', d)
          else (case client_of s rcs of
              None \<Rightarrow> (write_error 503 ''kubernetes client not available'', d)
            | Some cs \<Rightarrow> scale_workload E cs (singular kind) namespace name (tq_replicas q) d))"

section \<open>Restarting a rollout\<close>

definition restartable_kinds :: "string list" where
  "restartable_kinds = scalable_kinds @ [''daemonset'', ''daemonsets'']"

definition restart_workload :: "'d action_env \<Rightarrow> ('o, 'd) clientset \<Rightarrow> string \<Rightarrow> string \<Rightarrow> string \<Rightarrow> 'd \<Rightarrow> http_resp \<times> 'd" where
  "restart_workload E cs kind namespace name d = (case cl_get_workload cs kind namespace name d of
     Inl e \<Rightarrow> (write_error 404 (kind @ '' not found: '' @ e), d)
   | Inr w \<Rightarrow> (case cl_update_workload cs kind namespace
         (w\<lparr>wl_annotations := (wl_annotations w)(''kubectl.kubernetes.io/restartedAt'' \<mapsto> dv_stamp E d)\<rparr>) d of
       (Inl e, d1) \<Rightarrow> (write_error 500 (''failed to restart '' @ kind @ '': '' @ e), d1)
     | (Inr w1, d1) \<Rightarrow> (write_json (AObject [(''success'', ABool True), (''kind'', AString kind), (''namespace'', AString namespace),
           (''name'', AString name), (''message'', AString ''rollout restart triggered'')]),
         audited E (user_action ''warning'' ''rollout_restart'' (workload_target kind namespace name) namespace Map.empty) d1)))"

definition handle_rollout_restart :: "'d action_env \<Rightarrow> ('o, 'd) act_server \<Rightarrow> ('o, 'd) act_handler" where
  "handle_rollout_restart E s user rcs rq d =
     (if rq_method rq \<noteq> ''POST'' then (write_error 405 ''method not allowed'', d)
      else case Option.bind (rq_json rq) decode_rollout of
        None \<Rightarrow> (write_error 400 ''invalid request body'', d)
      | Some q \<Rightarrow>
          let namespace = trim_space (tq_namespace q); name = trim_space (tq_name q); kind = to_lower (trim_space (tq_kind q)) in
          if namespace = [] \<or> name = [] then (write_error 400 ''namespace and name are required'', d)
          else if kind \<notin> set restartable_kinds
          then (write_error 400 ''only deployment, statefulset, and daemonset support rollout restart'', d)
          else (case client_of s rcs of
              None \<Rightarrow> (write_error 503 ''kubernetes client not available'', d)
            | Some cs \<Rightarrow> restart_workload E cs (singular kind) namespace name d))"

section \<open>Deleting a pod, cordoning a node\<close>

definition handle_pod_delete :: "'d action_env \<Rightarrow> ('o, 'd) act_server \<Rightarrow> ('o, 'd) act_handler" where
  "handle_pod_delete E s user rcs rq d =
     (if rq_method rq \<noteq> ''POST'' then (write_error 405 ''method not allowed'', d)
      else case Option.bind (rq_json rq) decode_pod_delete of
        None \<Rightarrow> (write_error 400 ''invalid request body'', d)
      | Some q \<Rightarrow>
          let namespace = trim_space (tq_namespace q); name = trim_space (tq_name q) in
          if namespace = [] \<or> name = [] then (write_error 400 ''namespace and name are required'', d)
          else (case client_of s rcs of
              None \<Rightarrow> (write_error 503 ''kubernetes client not available'', d)
            | Some cs \<Rightarrow> (case cl_delete_pod cs namespace name d of
                (Some e, d1) \<Rightarrow> (write_error 500 (''failed to delete pod: '' @ e), d1)
              | (None, d1) \<Rightarrow> (write_json (AObject [(''success'', ABool True), (''namespace'', AString namespace), (''name'', AString name),
                    (''message'', AString ''pod deleted, controller will recreate it if managed'')]),
                  audited E (user_action ''critical'' ''pod_delete'' (workload_target ''pod'' namespace name) namespace Map.empty) d1))))"

definition cordon :: "'d action_env \<Rightarrow> ('o, 'd) clientset \<Rightarrow> string \<Rightarrow> bool \<Rightarrow> 'd \<Rightarrow> http_resp \<times> 'd" where
  "cordon E cs name b d = (case cl_get_node cs name d of
     Inl e \<Rightarrow> (write_error 404 (''node not found: '' @ e), d)
   | Inr n \<Rightarrow> (case cl_update_node cs (n\<lparr>no_unschedulable := b\<rparr>) d of
       (Some e, d1) \<Rightarrow> (write_error 500 (''failed to update node: '' @ e), d1)
     | (None, d1) \<Rightarrow> (let action = (if b then ''cordoned'' else ''uncordoned'') in
         (write_json (AObject [(''success'', ABool True), (''name'', AString name), (''unschedulable'', ABool b),
            (''message'', AString (''node '' @ name @ '' '' @ action))]),
          audited E (user_action (if b then ''warning'' else ''info'') action (''node/'' @ name) []
            [''unschedulable'' \<mapsto> ABool b]) d1))))"

definition handle_node_cordon :: "'d action_env \<Rightarrow> ('o, 'd) act_server \<Rightarrow> ('o, 'd) act_handler" where
  "handle_node_cordon E s user rcs rq d =
     (if rq_method rq \<noteq> ''POST'' then (write_error 405 ''method not allowed'', d)
      else case Option.bind (rq_json rq) decode_cordon of
        None \<Rightarrow> (write_error 400 ''invalid request body'', d)
      | Some (raw, unschedulable) \<Rightarrow>
          let name = trim_space raw in
          if name = [] then (write_error 400 ''node name is required'', d)
          else (case unschedulable of
              None \<Rightarrow> (write_error 400 ''unschedulable field is required (true=cordon, false=uncordon)'', d)
            | Some b \<Rightarrow> (case client_of s rcs of
                None \<Rightarrow> (write_error 503 ''kubernetes client not available'', d)
              | Some cs \<Rightarrow> cordon E cs name b d)))"

section \<open>Pods\<close>

definition pod_path :: "string \<Rightarrow> string list" where
  "pod_path path = split_on (CHR ''/'') (trim_prefix path ''/api/pods/'')"

definition log_event_text :: "'d action_env \<Rightarrow> string \<Rightarrow> string" where
  "log_event_text E line = ''data: '' @ dv_json E (AObject [(''line'', AString line)]) @ newline @ newline"

definition log_end :: string where
  "log_end = ''data: {'' @ dquote @ ''done'' @ dquote @ '':true}'' @ newline @ newline"

definition handle_pod_logs :: "'d action_env \<Rightarrow> ('o, 'd) act_server \<Rightarrow> ('o, 'd) act_handler" where
  "handle_pod_logs E s user rcs rq d = (case pod_path (rq_path rq) of
     ns # name # _ \<Rightarrow> (case client_of s rcs of
         None \<Rightarrow> (no_answer, d)
       | Some cs \<Rightarrow>
           let tl = rq_query rq ''tailLines''; n = (if tl \<noteq> [] then scan_int tl 500 else 500) in
           case cl_logs cs ns name \<lparr>lg_container = rq_query rq ''container'', lg_tail = (if 0 < n then Some n else None),
               lg_previous = False\<rparr> (rq_query rq ''follow'' = ''true'') d of
             Inl e \<Rightarrow> (write_error 500 (''failed to open log stream: '' @ e), d)
           | Inr bytes \<Rightarrow> if \<not> dv_flusher E then (write_error 500 ''streaming not supported'', d)
               else (respond 200 (AString (concat (map (log_event_text E) (fitting bytes)) @ log_end)), d))
   | _ \<Rightarrow> (write_error 400 ''invalid path, expected /api/pods/{ns}/{name}/logs'', d))"

definition exec_output :: "exec_result \<Rightarrow> string" where
  "exec_output r = (if xr_stderr r \<noteq> []
     then (if xr_stdout r \<noteq> [] then xr_stdout r @ newline else []) @ ''[stderr]'' @ newline @ xr_stderr r
     else xr_stdout r)"

definition handle_pod_exec :: "'d action_env \<Rightarrow> ('o, 'd) act_server \<Rightarrow> ('o, 'd) act_handler" where
  "handle_pod_exec E s user rcs rq d = (case pod_path (rq_path rq) of
     ns # name # act # _ \<Rightarrow>
       if act \<noteq> ''exec'' then (write_error 400 ''invalid path, expected /api/pods/{ns}/{name}/exec'', d)
       else (case Option.bind (rq_json rq) decode_pod_exec of
           None \<Rightarrow> (write_error 400 ''invalid body'', d)
         | Some (command0, container) \<Rightarrow>
             let command = (if command0 = [] then ''env | head -20'' else command0) in
             (case client_of s rcs of
                None \<Rightarrow> (no_answer, d)
              | Some cs \<Rightarrow> (case cl_exec cs ns name container [''/bin/sh'', ''-c'', command] d of
                  (Inl e, d1) \<Rightarrow> (write_error 500 (''failed to create executor: '' @ e), d1)
                | (Inr r, d1) \<Rightarrow> (write_json (AObject [(''success'', ABool (xr_error r = None)), (''output'', AString (exec_output r)),
                    (''error'', AString (case xr_error r of None \<Rightarrow> [] | Some e \<Rightarrow> e))]), d1))))
   | _ \<Rightarrow> (write_error 400 ''invalid path, expected /api/pods/{ns}/{name}/exec'', d))"

definition handle_containers :: "('o, 'd) act_server \<Rightarrow> ('o, 'd) act_handler" where
  "handle_containers s user rcs rq d = (case pod_path (rq_path rq) of
     ns # name # _ \<Rightarrow> (case client_of s rcs of
         None \<Rightarrow> (no_answer, d)
       | Some cs \<Rightarrow> (case cl_get_pod cs ns name d of
           Inl e \<Rightarrow> (write_k8s_error (Some e), d)
         | Inr p \<Rightarrow> (write_json (AObject [(''containers'', AList (map (\<lambda>(c, image). AObject [(''name'', AString c),
             (''image'', AString image), (''ready'', ABool (map_of (rev (px_statuses p)) c = Some True))]) (px_containers p)))]), d)))
   | _ \<Rightarrow> (write_error 400 ''invalid path'', d))"

text \<open>The pattern \<open>/api/pods/\<close>. What follows the action in the path is not looked at.\<close>

definition handle_pod_actions :: "'d action_env \<Rightarrow> ('o, 'd) act_server \<Rightarrow> ('o, 'd) act_handler" where
  "handle_pod_actions E s user rcs rq d = (case pod_path (rq_path rq) of
     _ # _ # action # _ \<Rightarrow>
       if action = ''logs'' then handle_pod_logs E s user rcs rq d
       else if action = ''exec'' then
         (if rq_method rq = ''POST'' then handle_pod_exec E s user rcs rq d else (write_error 405 ''POST required for exec'', d))
       else if action = ''containers'' then handle_containers s user rcs rq d
       else (write_error 400 (''unknown action: '' @ action), d)
   | _ \<Rightarrow> (write_error 400 ''expected /api/pods/{ns}/{name}/{action}'', d))"

text \<open>The patterns of this group; \<open>rest\<close> stands for the others.\<close>

definition actions_mux :: "'d action_env \<Rightarrow> ('o, 'd) act_server \<Rightarrow> ('o, 'd) act_handler \<Rightarrow> ('o, 'd) act_handler" where
  "actions_mux E s rest user rcs rq d =
     (if clean_path (rq_path rq) \<and> has_prefix (rq_path rq) ''/api/pods/'' then handle_pod_actions E s user rcs rq d
      else if rq_path rq = ''/api/scale'' then handle_scale E s user rcs rq d
      else if rq_path rq = ''/api/pod/delete'' then handle_pod_delete E s user rcs rq d
      else if rq_path rq = ''/api/rollout/restart'' then handle_rollout_restart E s user rcs rq d
      else if rq_path rq = ''/api/node/cordon'' then handle_node_cordon E s user rcs rq d
      else rest user rcs rq d)"

section \<open>Lemmas\<close>

lemma pod_path_exec:
  assumes "plain_segment ns" "plain_segment name"
  shows "pod_path (''/api/pods/'' @ ns @ ''/'' @ name @ ''/exec/x.js'') = [ns, name, ''exec'', ''x.js'']"
  unfolding pod_path_def trim_prefix_append using assms by (simp add: plain_segment_def split_on_skip split_on_no_sep)

lemma clean_exec_path:
  assumes "plain_segment ns" "plain_segment name"
  shows "clean_path (''/api/pods/'' @ ns @ ''/'' @ name @ ''/exec/x.js'')"
proof -
  have "split_on (CHR ''/'') (ns @ CHR ''/'' # name @ ''/exec/x.js'') = [ns, name, ''exec'', ''x.js'']"
    using assms by (simp add: plain_segment_def split_on_skip split_on_no_sep)
  then show ?thesis using assms by (simp add: clean_path_def plain_segment_def)
qed

text \<open>The kinds that pass the checks, without their plural.\<close>

lemma scalable_singular: "kind \<in> set scalable_kinds \<Longrightarrow> singular kind \<in> {''deployment'', ''statefulset''}"
proof -
  have "list_all (\<lambda>k. singular k \<in> set [''deployment'', ''statefulset'']) scalable_kinds" by code_simp
  then show "kind \<in> set scalable_kinds \<Longrightarrow> singular kind \<in> {''deployment'', ''statefulset''}" by (simp add: list_all_iff)
qed

lemma restartable_singular:
  "kind \<in> set restartable_kinds \<Longrightarrow> singular kind \<in> {''deployment'', ''statefulset'', ''daemonset''}"
proof -
  have "list_all (\<lambda>k. singular k \<in> set [''deployment'', ''statefulset'', ''daemonset'']) restartable_kinds" by code_simp
  then show "kind \<in> set restartable_kinds \<Longrightarrow> singular kind \<in> {''deployment'', ''statefulset'', ''daemonset''}"
    by (simp add: list_all_iff)
qed

text \<open>An answer with a code below 400 means that the object was read and its change stored.\<close>

lemma scale_workload_done:
  assumes "scale_workload E cs kind ns name n d = (r, d1)"
  shows "d1 = d \<and> 400 \<le> resp_code r \<or>
    (\<exists>w res d2. cl_get_workload cs kind ns name d = Inr w \<and>
      cl_update_workload cs kind ns (w\<lparr>wl_replicas := Some n\<rparr>) d = (res, d2) \<and>
      (case res of Inl e \<Rightarrow> d1 = d2 \<and> resp_code r = 500
       | Inr w1 \<Rightarrow> resp_code r = 200 \<and> d1 = audited E (user_action ''warning'' ''scale'' (workload_target kind ns name) ns
           [''oldReplicas'' \<mapsto> AInt32 (replicas_of w), ''newReplicas'' \<mapsto> AInt32 (replicas_of w1)]) d2))"
proof (cases "cl_get_workload cs kind ns name d")
  case (Inr w)
  obtain res d2 where u: "cl_update_workload cs kind ns (w\<lparr>wl_replicas := Some n\<rparr>) d = (res, d2)" by (metis surj_pair)
  with Inr assms show ?thesis by (intro disjI2 exI[of _ w] exI[of _ res] exI[of _ d2]) (auto simp: scale_workload_def split: sum.splits)
qed (use assms in \<open>auto simp: scale_workload_def\<close>)

section \<open>A concrete cluster\<close>

definition demo_clientset :: "(unit, demo_cluster) clientset" where
  "demo_clientset = \<lparr>
     cl_get_workload = (\<lambda>k ns n d. Inr \<lparr>wl_replicas = Some 1, wl_annotations = Map.empty, wl_object = ()\<rparr>),
     cl_update_workload = (\<lambda>k ns w d. (Inr w, demo_log (show_int (replicas_of w)) d)),
     cl_get_node = (\<lambda>n d. Inl ''not found''), cl_update_node = (\<lambda>n d. (None, d)),
     cl_get_pod = (\<lambda>ns n d. Inl ''not found''), cl_delete_pod = (\<lambda>ns n d. (None, demo_log n d)),
     cl_logs = (\<lambda>ns n q f d. Inr []),
     cl_exec = (\<lambda>ns n c cmd d. (Inr \<lparr>xr_stdout = ''root'', xr_stderr = [], xr_error = None\<rparr>, demo_log (concat cmd) d)),
     cl_config_map = (\<lambda>ns n d. Inr []),
     cl_secret = (\<lambda>ns n d. if n = ''db'' then Inr [(''user'', ''YWRtaW4=''), (''password'', ''s3cr3t!'')] else Inl ''not found'')\<rparr>"

definition demo_act_server :: "(unit, demo_cluster) act_server" where
  "demo_act_server = \<lparr>ds_clientset = Some demo_clientset, ds_k8s_client = demo_api, ds_new_for_config = (\<lambda>im. Inr None),
     ds_client_new = (\<lambda>im. Inr demo_api), ds_auth_required = True\<rparr>"

definition demo_act_env :: "demo_cluster action_env" where
  "demo_act_env = \<lparr>dv_audit = None, dv_stamp = (\<lambda>d. []), dv_json = (\<lambda>v. []), dv_flusher = False\<rparr>"

definition demo_action_post :: "any \<Rightarrow> http_req" where
  "demo_action_post body = (demo_req ''POST'' [] [] None)\<lparr>rq_json := Some body\<rparr>"

section \<open>Properties\<close>

text \<open>C6. Anyone can run a command in any pod: a POST without credentials to the exec path of a pod with
  /x.js behind it passes the gate as a static asset, the dispatcher of the pods ignores what follows
  the action, and the command runs with the server's own rights. Without the suffix the request is
  answered 401.\<close>

theorem unauthenticated_exec:
  assumes "plain_segment ns" "plain_segment name" "ds_clientset s = Some cs"
    and "rq_method rq = ''POST''" "rq_header rq ''Authorization'' = []" "rq_cookie rq ''k8ops_token'' = None"
    and "Option.bind (rq_json rq) decode_pod_exec = Some (command, container)" "command \<noteq> []"
    and "cl_exec cs ns name container [''/bin/sh'', ''-c'', command] d = (Inr r, d1)"
  shows "serve s (Some A) now (actions_mux E s rest) (rq\<lparr>rq_path := ''/api/pods/'' @ ns @ ''/'' @ name @ ''/exec/x.js''\<rparr>) d =
      (write_json (AObject [(''success'', ABool (xr_error r = None)), (''output'', AString (exec_output r)),
         (''error'', AString (case xr_error r of None \<Rightarrow> [] | Some e \<Rightarrow> e))]), d1) \<and>
    serve s (Some A) now (actions_mux E s rest) (rq\<lparr>rq_path := ''/api/pods/'' @ ns @ ''/'' @ name @ ''/exec''\<rparr>) d =
      (http_error 401 (json_error ''unauthorized''), d)"
proof
  let ?path = "''/api/pods/'' @ ns @ ''/'' @ name @ ''/exec/x.js''"
  have "has_suffix ((''/api/pods/'' @ ns @ ''/'' @ name) @ ''/exec/x.js'') ''.js''"
    by (subst has_suffix_long) (simp_all add: has_suffix_def suffix_def)
  then have "is_public_route ?path" by (simp add: is_public_route_def)
  moreover have "has_prefix ?path ''/api/pods/''" "\<not> has_prefix ?path ''/api/remediation/''" by (simp_all add: has_prefix_def)
  ultimately show "serve s (Some A) now (actions_mux E s rest) (rq\<lparr>rq_path := ?path\<rparr>) d =
      (write_json (AObject [(''success'', ABool (xr_error r = None)), (''output'', AString (exec_output r)),
         (''error'', AString (case xr_error r of None \<Rightarrow> [] | Some e \<Rightarrow> e))]), d1)"
    using assms pod_path_exec[OF assms(1,2)] clean_exec_path[OF assms(1,2)]
    by (simp add: serve_def auth_middleware_def auth_gate_def impersonation_middleware_def mux_def actions_mux_def
        handle_pod_actions_def handle_pod_exec_def client_of_def clients_from_req_def)
next
  let ?path = "''/api/pods/'' @ ns @ ''/'' @ name @ ''/exec''"
  have "has_suffix ((''/api/pods/'' @ ns @ ''/'' @ name) @ ''/exec'') x = has_suffix ''/exec'' x" if "length x \<le> 5" for x
    using that by (intro has_suffix_long) auto
  then have "\<not> is_public_route ?path"
    by (auto simp: is_public_route_def has_suffix_def suffix_def has_prefix_def)
  moreover have "is_api_request ?path" by (simp add: is_api_request_def has_prefix_def)
  ultimately show "serve s (Some A) now (actions_mux E s rest) (rq\<lparr>rq_path := ?path\<rparr>) d =
      (http_error 401 (json_error ''unauthorized''), d)"
    using assms(5,6) by (simp add: serve_def auth_middleware_def auth_gate_def turn_away_def)
qed

theorem unauthenticated_exec_witness:
  "dm_log (snd (serve demo_act_server (Some (demo_gate [])) 0 (actions_mux demo_act_env demo_act_server (\<lambda>user rcs rq c. (silent, c)))
      ((demo_action_post (AObject [(''command'', AString ''id'')]))\<lparr>rq_path := ''/api/pods/web/p/exec/x.js''\<rparr>)
      (demo_at (demo_plan ''Pending'' True [])))) = [''/bin/sh-cid'']"
proof -
  let ?rq = "demo_action_post (AObject [(''command'', AString ''id'')])" and ?d = "demo_at (demo_plan ''Pending'' True [])"
  let ?r = "\<lparr>xr_stdout = ''root'', xr_stderr = [], xr_error = None\<rparr>"
  have "Option.bind (rq_json ?rq) decode_pod_exec = Some (''id'', [])"
    by (simp add: demo_action_post_def decode_pod_exec_def member_name_simps)
  moreover have "cl_exec demo_clientset ''web'' ''p'' [] [''/bin/sh'', ''-c'', ''id''] ?d = (Inr ?r, demo_log ''/bin/sh-cid'' ?d)"
    by (simp add: demo_clientset_def)
  ultimately show ?thesis
    using unauthenticated_exec[of "''web''" "''p''" demo_act_server demo_clientset ?rq "''id''" "[]" ?d ?r _ "demo_gate []" 0 demo_act_env
      "\<lambda>user rcs rq c. (silent, c)"]
    by (simp add: plain_segment_def demo_act_server_def demo_action_post_def demo_req_def demo_log_def demo_at_def)
qed

text \<open>C9. What a request to scale can do: nothing, or it stores the workload it read, a deployment or a
  stateful set, with nothing changed but the number of replicas, which is between 0 and 1000, and
  with the client of the request; every change that is stored is audited, and the answer is 200 then
  and only then.\<close>

theorem scale_effect:
  assumes "handle_scale E s user rcs rq d = (r, d1)"
  shows "d1 = d \<and> 400 \<le> resp_code r \<or>
    (\<exists>cs kind ns name n w res d2. client_of s rcs = Some cs \<and> kind \<in> {''deployment'', ''statefulset''} \<and>
      ns \<noteq> [] \<and> name \<noteq> [] \<and> 0 \<le> n \<and> n \<le> 1000 \<and> cl_get_workload cs kind ns name d = Inr w \<and>
      cl_update_workload cs kind ns (w\<lparr>wl_replicas := Some n\<rparr>) d = (res, d2) \<and>
      (case res of Inl e \<Rightarrow> d1 = d2 \<and> resp_code r = 500
       | Inr w1 \<Rightarrow> resp_code r = 200 \<and> d1 = audited E (user_action ''warning'' ''scale'' (workload_target kind ns name) ns
           [''oldReplicas'' \<mapsto> AInt32 (replicas_of w), ''newReplicas'' \<mapsto> AInt32 (replicas_of w1)]) d2))"
proof (cases "d1 = d \<and> 400 \<le> resp_code r")
  case False
  then obtain q cs where q: "Option.bind (rq_json rq) decode_scale = Some q" "client_of s rcs = Some cs"
    "trim_space (tq_namespace q) \<noteq> []" "trim_space (tq_name q) \<noteq> []" "0 \<le> tq_replicas q" "tq_replicas q \<le> 1000"
    "to_lower (trim_space (tq_kind q)) \<in> set scalable_kinds"
    "scale_workload E cs (singular (to_lower (trim_space (tq_kind q)))) (trim_space (tq_namespace q)) (trim_space (tq_name q))
       (tq_replicas q) d = (r, d1)"
    using assms unfolding handle_scale_def Let_def by (auto split: if_splits option.splits)
  note s = scale_workload_done[OF q(8)] scalable_singular[OF q(7)]
  from s(1) False show ?thesis
    by (intro disjI2 exI[of _ cs] exI[of _ "singular (to_lower (trim_space (tq_kind q)))"] exI[of _ "trim_space (tq_namespace q)"]
        exI[of _ "trim_space (tq_name q)"] exI[of _ "tq_replicas q"]) (use q s(2) in blast)
qed simp

theorem scale_effect_witness:
  "dm_log (snd (handle_scale demo_act_env demo_act_server None None (demo_action_post (AObject [(''namespace'', AString ''web''),
     (''kind'', AString ''Deployments''), (''name'', AString ''shop''), (''replicas'', AInt 3)])) (demo_at (demo_plan ''Pending'' True [])))) = [''3'']"
proof -
  let ?rq = "demo_action_post (AObject [(''namespace'', AString ''web''),
     (''kind'', AString ''Deployments''), (''name'', AString ''shop''), (''replicas'', AInt 3)])"
  let ?d = "demo_at (demo_plan ''Pending'' True [])"
  have "Option.bind (rq_json ?rq) decode_scale =
      Some \<lparr>tq_namespace = ''web'', tq_kind = ''Deployments'', tq_name = ''shop'', tq_replicas = 3\<rparr>"
    by (simp add: demo_action_post_def decode_scale_def empty_target_def member_name_simps into_int32_def)
  moreover have "trim_space ''web'' = ''web''" "trim_space ''shop'' = ''shop''" "to_lower (trim_space ''Deployments'') = ''deployments''"
    "singular ''deployments'' = ''deployment''" "''deployments'' \<in> set scalable_kinds" "show_int 3 = ''3''" by code_simp+
  ultimately have r: "handle_scale demo_act_env demo_act_server None None ?rq ?d =
      (fst (handle_scale demo_act_env demo_act_server None None ?rq ?d), demo_log ''3'' ?d)"
    by (simp add: handle_scale_def demo_action_post_def demo_req_def client_of_def clients_from_req_def demo_act_server_def
        scale_workload_def demo_clientset_def replicas_of_def audited_def demo_act_env_def)
  from scale_effect[OF r] show ?thesis by (subst r) (auto simp: demo_log_def demo_at_def)
qed

end
