(* ===== verification/Dash_Manifests.thy ===== *)
theory Dash_Manifests
  imports Dash_Actions Analysis
begin

text \<open>
  The routes of the dashboard over arbitrary objects (internal/dashboard/handlers_crd_yaml.go,
  handlers_resource_data.go): custom resource definitions and their instances, the YAML of an object, applying a manifest,
  and the data of config maps and secrets. All but the last use the server's own dynamic client;
  \<open>None\<close> is a nil one.
\<close>

section \<open>The dynamic client\<close>

text \<open>\<open>dy_spec\<close> is the spec, its fields printed, in the order in which Go's map gives them.\<close>

record ('o, 'd) dyn_client =
  dy_get :: "gvr \<Rightarrow> string \<Rightarrow> string \<Rightarrow> 'd \<Rightarrow> string + 'o"
  dy_list :: "gvr \<Rightarrow> string \<Rightarrow> int \<Rightarrow> 'd \<Rightarrow> string + 'o list"
  dy_apply :: "gvr \<Rightarrow> string \<Rightarrow> string \<Rightarrow> 'o \<Rightarrow> bool \<Rightarrow> 'd \<Rightarrow> string option \<times> 'd"

record 'o object_codec =
  oc_yaml :: "'o \<Rightarrow> string + string"
  oc_yaml_to_json :: "string \<Rightarrow> string + string"
  oc_decode :: "string \<Rightarrow> string + 'o"
  oc_kind :: "'o \<Rightarrow> string"
  oc_name :: "'o \<Rightarrow> string"
  oc_namespace :: "'o \<Rightarrow> string"
  oc_created :: "'o \<Rightarrow> time"
  oc_spec :: "'o \<Rightarrow> (string \<times> string) list option"
  oc_without_managed_fields :: "'o \<Rightarrow> 'o"

definition gvr_of :: "string \<Rightarrow> string \<Rightarrow> string \<Rightarrow> gvr" where
  "gvr_of grp version resource = \<lparr>gvr_group = grp, gvr_version = version, gvr_resource = resource\<rparr>"

section \<open>Custom resource definitions\<close>

record crd =
  xd_name :: string
  xd_group :: string
  xd_versions :: "(string \<times> bool) list"
  xd_kind :: string
  xd_plural :: string
  xd_scope :: string

definition served_version :: "crd \<Rightarrow> string" where
  "served_version x = (case filter snd (xd_versions x) of (v, _) # _ \<Rightarrow> v | [] \<Rightarrow> [])"

text \<open>The list is limited to one item, so is the count.\<close>

definition crd_count :: "('o, 'd) dyn_client option \<Rightarrow> bool \<Rightarrow> crd \<Rightarrow> 'd \<Rightarrow> int" where
  "crd_count dyn with_counts x d = (case dyn of
     Some D \<Rightarrow> if with_counts \<and> served_version x \<noteq> []
       then (case dy_list D (gvr_of (xd_group x) (served_version x) (xd_plural x)) [] 1 d of
           Inr os \<Rightarrow> int (length os) | Inl _ \<Rightarrow> 0)
       else 0
   | None \<Rightarrow> 0)"

definition crd_json :: "crd \<Rightarrow> int \<Rightarrow> any" where
  "crd_json x n = AObject ([(''name'', AString (xd_name x)), (''group'', AString (xd_group x)), (''version'', AString (served_version x)),
     (''kind'', AString (xd_kind x)), (''plural'', AString (xd_plural x)), (''scope'', AString (xd_scope x))] @ omit_int ''count'' n)"

text \<open>The definitions are listed with the client of the request, their instances with the server's.\<close>

definition handle_crds :: "('d \<Rightarrow> string + crd list) \<Rightarrow> ('o, 'd) dyn_client option \<Rightarrow> http_req \<Rightarrow> 'd \<Rightarrow> http_resp" where
  "handle_crds list_crds dyn rq d = (case list_crds d of
     Inl e \<Rightarrow> write_k8s_error (Some e)
   | Inr xs \<Rightarrow> write_json (AObject [(''count'', AInt (int (length xs))),
       (''items'', AList (map (\<lambda>x. crd_json x (crd_count dyn (rq_query rq ''with_counts'' = ''true'') x d)) xs))]))"

definition instance_json :: "'o object_codec \<Rightarrow> time \<Rightarrow> 'o \<Rightarrow> any" where
  "instance_json C now x = AObject [(''name'', AString (oc_name C x)), (''namespace'', AString (oc_namespace C x)),
     (''age'', AString (age_time now (oc_created C x))),
     (''detail'', AObject (case oc_spec C x of None \<Rightarrow> [] | Some fs \<Rightarrow> map (\<lambda>(k, v). (k, AString v)) (take 5 fs)))]"

definition handle_crd_resources :: "'o object_codec \<Rightarrow> ('o, 'd) dyn_client option \<Rightarrow> time \<Rightarrow> http_req \<Rightarrow> 'd \<Rightarrow> http_resp" where
  "handle_crd_resources C dyn now rq d =
     (let grp = rq_query rq ''group''; version = rq_query rq ''version''; resource = rq_query rq ''resource'' in
      if resource = [] \<or> version = [] then write_error 400 ''resource and version are required''
      else (case dyn of
          None \<Rightarrow> write_error 500 ''dynamic client not available''
        | Some D \<Rightarrow> (case dy_list D (gvr_of grp version resource) (rq_query rq ''namespace'') 500 d of
            Inl e \<Rightarrow> write_k8s_error (Some e)
          | Inr os \<Rightarrow> write_json (AObject [(''gvr'', AString (grp @ ''/'' @ version @ ''/'' @ resource)),
              (''count'', AInt (int (length os))), (''items'', AList (map (instance_json C now) os))]))))"

section \<open>YAML\<close>

text \<open>The names the switch knows; it compares exactly.\<close>

definition builtin_kinds :: "(string list \<times> gvr) list" where
  "builtin_kinds = [
     ([''pods'', ''pod'', ''po''], gvr_of [] ''v1'' ''pods''),
     ([''services'', ''service'', ''svc''], gvr_of [] ''v1'' ''services''),
     ([''namespaces'', ''namespace'', ''ns''], gvr_of [] ''v1'' ''namespaces''),
     ([''configmaps'', ''configmap'', ''cm''], gvr_of [] ''v1'' ''configmaps''),
     ([''secrets'', ''secret''], gvr_of [] ''v1'' ''secrets''),
     ([''nodes'', ''node'', ''no''], gvr_of [] ''v1'' ''nodes''),
     ([''deployments'', ''deployment'', ''deploy''], gvr_of ''apps'' ''v1'' ''deployments''),
     ([''statefulsets'', ''statefulset'', ''sts''], gvr_of ''apps'' ''v1'' ''statefulsets''),
     ([''daemonsets'', ''daemonset'', ''ds''], gvr_of ''apps'' ''v1'' ''daemonsets''),
     ([''ingresses'', ''ingress'', ''ing''], gvr_of ''networking.k8s.io'' ''v1'' ''ingresses''),
     ([''replicasets'', ''replicaset'', ''rs''], gvr_of ''apps'' ''v1'' ''replicasets''),
     ([''jobs''], gvr_of ''batch'' ''v1'' ''jobs''),
     ([''cronjobs''], gvr_of ''batch'' ''v1'' ''cronjobs''),
     ([''persistentvolumes'', ''persistentvolume'', ''pv''], gvr_of [] ''v1'' ''persistentvolumes''),
     ([''persistentvolumeclaims'', ''persistentvolumeclaim'', ''pvc''], gvr_of [] ''v1'' ''persistentvolumeclaims''),
     ([''serviceaccounts'', ''serviceaccount'', ''sa''], gvr_of [] ''v1'' ''serviceaccounts''),
     ([''roles''], gvr_of ''rbac.authorization.k8s.io'' ''v1'' ''roles''),
     ([''rolebindings''], gvr_of ''rbac.authorization.k8s.io'' ''v1'' ''rolebindings''),
     ([''clusterroles''], gvr_of ''rbac.authorization.k8s.io'' ''v1'' ''clusterroles''),
     ([''clusterrolebindings''], gvr_of ''rbac.authorization.k8s.io'' ''v1'' ''clusterrolebindings''),
     ([''networkpolicies'', ''networkpolicy'', ''netpol''], gvr_of ''networking.k8s.io'' ''v1'' ''networkpolicies''),
     ([''storageclasses'', ''storageclass'', ''sc''], gvr_of ''storage.k8s.io'' ''v1'' ''storageclasses''),
     ([''hpas'', ''horizontalpodautoscaler''], gvr_of ''autoscaling'' ''v2'' ''horizontalpodautoscalers'')]"

definition builtin_gvr :: "string \<Rightarrow> string + gvr" where
  "builtin_gvr kind = (case find (\<lambda>(ks, g). kind \<in> set ks) builtin_kinds of
     Some (_, g) \<Rightarrow> Inr g | None \<Rightarrow> Inl (''unsupported kind: '' @ kind))"

definition yaml_target :: "http_req \<Rightarrow> string + gvr" where
  "yaml_target rq = (let grp = rq_query rq ''group''; resource = rq_query rq ''resource'' in
     if grp \<noteq> [] \<or> resource \<noteq> [] then
       (if resource = [] then Inl ''resource is required for dynamic resources'' else Inr (gvr_of grp (rq_query rq ''version'') resource))
     else builtin_gvr (to_lower (rq_query rq ''kind'')))"

definition handle_yaml :: "'o object_codec \<Rightarrow> ('o, 'd) dyn_client option \<Rightarrow> http_req \<Rightarrow> 'd \<Rightarrow> http_resp" where
  "handle_yaml C dyn rq d =
     (let name = rq_query rq ''name'' in
      if name = [] then write_error 400 ''name is required''
      else (case yaml_target rq of
          Inl e \<Rightarrow> write_error 400 e
        | Inr g \<Rightarrow> (case dyn of
            None \<Rightarrow> write_error 500 ''dynamic client not available''
          | Some D \<Rightarrow> (case dy_get D g (rq_query rq ''namespace'') name d of
              Inl e \<Rightarrow> write_k8s_error (Some e)
            | Inr x \<Rightarrow> (case oc_yaml C x of
                Inl e \<Rightarrow> write_error 500 (''failed to marshal YAML: '' @ e)
              | Inr y \<Rightarrow> write_json (AObject [(''name'', AString name), (''yaml'', AString y)]))))))"

definition decode_apply :: "any \<Rightarrow> (string \<times> bool) option" where
  "decode_apply x = into_struct (\<lambda>ms q. do {
     yaml \<leftarrow> into_member into_string ''yaml'' ms (fst q);
     dry \<leftarrow> into_member into_bool ''dryRun'' ms (snd q);
     Some (yaml, dry) }) x ([], False)"

definition parse_yaml_object :: "'o object_codec \<Rightarrow> string \<Rightarrow> string + 'o" where
  "parse_yaml_object C yaml = (case oc_yaml_to_json C yaml of
     Inl e \<Rightarrow> Inl (''YAML parse error: '' @ e)
   | Inr json \<Rightarrow> (case oc_decode C json of
       Inl e \<Rightarrow> Inl (''failed to decode object: '' @ e)
     | Inr x \<Rightarrow> if oc_name C x = [] then Inl ''metadata.name is required''
         else (case builtin_gvr (oc_kind C x) of Inl e \<Rightarrow> Inl e | Inr g \<Rightarrow> Inr x)))"

text \<open>\<open>bad_body\<close> is the text of the decoder's error.\<close>

definition handle_yaml_apply :: "'o object_codec \<Rightarrow> ('o, 'd) dyn_client option \<Rightarrow> string \<Rightarrow> http_req \<Rightarrow> 'd \<Rightarrow> http_resp \<times> 'd" where
  "handle_yaml_apply C dyn bad_body rq d =
     (if rq_method rq \<noteq> ''POST'' then (write_error 405 ''method not allowed'', d)
      else (case Option.bind (rq_json rq) decode_apply of
          None \<Rightarrow> (write_error 400 (''invalid request body: '' @ bad_body), d)
        | Some (yaml, dry) \<Rightarrow>
            if yaml = [] then (write_error 400 ''yaml field is required'', d)
            else (case parse_yaml_object C yaml of
                Inl e \<Rightarrow> (write_error 400 e, d)
              | Inr x \<Rightarrow> (case (dyn, builtin_gvr (oc_kind C x)) of
                  (Some D, Inr g) \<Rightarrow>
                    (case dy_apply D g (oc_namespace C x) (oc_name C x) (oc_without_managed_fields C x) dry d of
                       (Some e, d1) \<Rightarrow> (write_error 422 (''apply failed: '' @ e), d1)
                     | (None, d1) \<Rightarrow> (write_json (AObject [(''status'', AString ''applied''), (''kind'', AString (oc_kind C x)),
                         (''name'', AString (oc_name C x)), (''dryRun'', ABool dry),
                         (''message'', AString (oc_kind C x @ ''/'' @ oc_name C x @ '' applied successfully''))]), d1))
                | _ \<Rightarrow> (write_error 500 ''dynamic client not available'', d)))))"

section \<open>Base64\<close>

text \<open>
  \<open>base64.StdEncoding.DecodeString\<close>: the position, the values of the current group of four and what
  is left. An error is the offset that \<open>CorruptInputError\<close> reports. Line ends are skipped.
\<close>

definition b64_value :: "char \<Rightarrow> nat option" where
  "b64_value c = (let n = of_char c in
     if 65 \<le> n \<and> n \<le> 90 then Some (n - 65) else if 97 \<le> n \<and> n \<le> 122 then Some (n - 71)
     else if 48 \<le> n \<and> n \<le> 57 then Some (n + 4) else if n = 43 then Some 62 else if n = 47 then Some 63 else None)"

definition is_line_end :: "char \<Rightarrow> bool" where
  "is_line_end c \<longleftrightarrow> c = CHR 0x0A \<or> c = CHR 0x0D"

fun b64_bytes :: "nat list \<Rightarrow> string" where
  "b64_bytes (a # b # q) = char_of (a * 4 + b div 16) #
     (case q of [] \<Rightarrow> [] | c # q1 \<Rightarrow> char_of (b mod 16 * 16 + c div 4) #
        (case q1 of [] \<Rightarrow> [] | e # _ \<Rightarrow> [char_of (c mod 4 * 64 + e)]))"
| "b64_bytes _ = []"

definition b64_end :: "nat \<Rightarrow> nat list \<Rightarrow> string \<Rightarrow> nat + string" where
  "b64_end si q s = (let rest = dropWhile is_line_end s in
     if rest \<noteq> [] then Inl (si + (length s - length rest)) else Inr (b64_bytes q))"

text \<open>A padding character, which stood at \<open>si\<close>, with \<open>s\<close> behind it.\<close>

definition b64_pad :: "nat \<Rightarrow> nat list \<Rightarrow> string \<Rightarrow> nat + string" where
  "b64_pad si q s =
     (if length q < 2 then Inl si
      else if length q = 2 then
        (let rest = dropWhile is_line_end s; k = length s - length rest in case rest of
             [] \<Rightarrow> Inl (Suc si + length s)
           | c # t \<Rightarrow> if c \<noteq> CHR ''='' then Inl (si + k) else b64_end (Suc (Suc (si + k))) q t)
      else b64_end (Suc si) q s)"

fun b64_run :: "nat \<Rightarrow> nat list \<Rightarrow> string \<Rightarrow> nat + string" where
  "b64_run si q [] = (if q = [] then Inr [] else Inl (si - length q))"
| "b64_run si q (c # s) = (case b64_value c of
     Some v \<Rightarrow> if length q = 3 then map_sum (\<lambda>e. e) (\<lambda>t. b64_bytes (q @ [v]) @ t) (b64_run (Suc si) [] s)
       else b64_run (Suc si) (q @ [v]) s
   | None \<Rightarrow> if is_line_end c then b64_run (Suc si) q s
       else if c \<noteq> CHR ''='' then Inl si else b64_pad si q s)"

definition b64_decode :: "string \<Rightarrow> string + string" where
  "b64_decode s = (case b64_run 0 [] s of
     Inl n \<Rightarrow> Inl (''illegal base64 data at input byte '' @ show_nat n) | Inr t \<Rightarrow> Inr t)"

section \<open>Data of config maps and secrets\<close>

definition shown_secret :: "string \<Rightarrow> string" where
  "shown_secret v = (case b64_decode v of Inr t \<Rightarrow> t | Inl e \<Rightarrow> ''<decode error: '' @ e @ ''>'')"

definition data_items :: "(string \<Rightarrow> string) \<Rightarrow> (string \<times> string) list \<Rightarrow> (string \<times> string) list" where
  "data_items f m = map (\<lambda>(k, v). (k, f v)) (sort_key fst m)"

definition data_response :: "string \<Rightarrow> string \<Rightarrow> string \<Rightarrow> (string \<times> string) list \<Rightarrow> http_resp" where
  "data_response kind ns name items = write_json (AObject [(''kind'', AString kind), (''namespace'', AString ns), (''name'', AString name),
     (''items'', if items = [] then ANil else AList (map (\<lambda>(k, v). AObject [(''key'', AString k), (''value'', AString v)]) items)),
     (''count'', AInt (int (length items)))])"

definition handle_resource_data :: "('o, 'd) act_server \<Rightarrow> ('o, 'd) act_handler" where
  "handle_resource_data s user rcs rq d =
     (if rq_method rq \<noteq> ''GET'' then write_error 405 ''method not allowed''
      else let kind = to_lower (trim_space (rq_query rq ''kind'')); ns = trim_space (rq_query rq ''namespace'');
               name = trim_space (rq_query rq ''name'') in
        if ns = [] \<or> name = [] then write_error 400 ''namespace and name are required''
        else (case client_of s rcs of
            None \<Rightarrow> write_error 503 ''kubernetes client not available''
          | Some cs \<Rightarrow>
              if kind \<in> {''configmap'', ''configmaps'', ''cm''} then (case cl_config_map cs ns name d of
                  Inl e \<Rightarrow> write_error 404 (''configmap not found: '' @ e)
                | Inr m \<Rightarrow> data_response kind ns name (data_items (\<lambda>v. v) m))
              else if kind \<in> {''secret'', ''secrets''} then (case cl_secret cs ns name d of
                  Inl e \<Rightarrow> write_error 404 (''secret not found: '' @ e)
                | Inr m \<Rightarrow> data_response kind ns name (data_items shown_secret m))
              else write_error 400 ''only configmap and secret are supported for data viewer''), d)"

text \<open>The patterns of this group that no cache is put around; \<open>rest\<close> stands for the others.\<close>

definition manifests_mux :: "'p object_codec \<Rightarrow> ('p, 'd) dyn_client option \<Rightarrow> string \<Rightarrow> ('o, 'd) act_server \<Rightarrow>
    ('o, 'd) act_handler \<Rightarrow> ('o, 'd) act_handler" where
  "manifests_mux C dyn bad_body s rest user rcs rq d =
     (if rq_path rq = ''/api/yaml'' then (handle_yaml C dyn rq d, d)
      else if rq_path rq = ''/api/yaml/apply'' then handle_yaml_apply C dyn bad_body rq d
      else if rq_path rq = ''/api/resource/data'' then handle_resource_data s user rcs rq d
      else rest user rcs rq d)"

section \<open>Lemmas\<close>

text \<open>The switch knows no kind that begins with a capital letter, as the kinds of manifests do.\<close>

definition is_capital :: "char \<Rightarrow> bool" where
  "is_capital c \<longleftrightarrow> (of_char c :: nat) \<in> {65..90}"

lemma builtin_gvr_capital: "is_capital c \<Longrightarrow> builtin_gvr (c # k) = Inl (''unsupported kind: '' @ c # k)"
proof -
  assume "is_capital c"
  moreover have "list_all (\<lambda>(ks, g). list_all (\<lambda>x. x \<noteq> [] \<and> \<not> is_capital (hd x)) ks) builtin_kinds" by code_simp
  ultimately have "list_all (\<lambda>(ks, g). c # k \<notin> set ks) builtin_kinds" by (fastforce simp: list_all_iff)
  then have "find (\<lambda>(ks, g). c # k \<in> set ks) builtin_kinds = None" by (auto simp: find_None_iff list_all_iff)
  then show ?thesis by (simp add: builtin_gvr_def)
qed

text \<open>Decoding stops at every character that is not of the alphabet, a line end or padding.\<close>

definition foreign :: "char \<Rightarrow> bool" where
  "foreign c \<longleftrightarrow> b64_value c = None \<and> \<not> is_line_end c \<and> c \<noteq> CHR ''=''"

lemma dropWhile_foreign: "c \<in> set s \<Longrightarrow> foreign c \<Longrightarrow> c \<in> set (dropWhile is_line_end s)"
  by (induction s) (auto simp: foreign_def)

lemma b64_end_foreign:
  assumes "c \<in> set s" "foreign c"
  shows "\<not> is_ok (b64_end si q s)"
proof -
  have "dropWhile is_line_end s \<noteq> []" using dropWhile_foreign[OF assms] by (metis empty_iff list.set(1))
  then show ?thesis by (simp add: b64_end_def Let_def del: dropWhile_eq_Nil_conv)
qed

lemma b64_pad_foreign:
  assumes "c \<in> set s" "foreign c"
  shows "\<not> is_ok (b64_pad si q s)"
proof (cases "dropWhile is_line_end s")
  case Nil
  with dropWhile_foreign[OF assms] show ?thesis by simp
next
  case (Cons x t)
  with dropWhile_foreign[OF assms] have "x = CHR ''='' \<Longrightarrow> c \<in> set t" using assms(2) by (auto simp: foreign_def)
  then have "x = CHR ''='' \<Longrightarrow> \<not> is_ok (b64_end i q t)" for i using b64_end_foreign[OF _ assms(2)] by blast
  with Cons b64_end_foreign[OF assms] show ?thesis by (simp add: b64_pad_def Let_def)
qed

lemma b64_run_foreign: "c \<in> set s \<Longrightarrow> foreign c \<Longrightarrow> \<not> is_ok (b64_run si q s)"
proof (induction si q s rule: b64_run.induct)
  case (2 si q x s)
  show ?case
  proof (cases "c = x")
    case True
    with 2 show ?thesis by (auto simp: foreign_def)
  next
    case False
    with 2 b64_pad_foreign[of c s] show ?thesis by (auto simp: is_ok_def split: option.split sum.splits)
  qed
qed simp

text \<open>Encoding, as \<open>kubectl\<close> and the API server write the values of a secret.\<close>

definition b64_chars :: string where
  "b64_chars = ''ABCDEFGHIJKLMNOPQRSTUVWXYZabcdefghijklmnopqrstuvwxyz0123456789+/''"

fun b64_encode :: "string \<Rightarrow> string" where
  "b64_encode [] = []"
| "b64_encode [x] = (let a = of_char x in [b64_chars ! (a div 4), b64_chars ! (a mod 4 * 16), CHR ''='', CHR ''=''])"
| "b64_encode [x, y] = (let a = of_char x; b = of_char y in
     [b64_chars ! (a div 4), b64_chars ! (a mod 4 * 16 + b div 16), b64_chars ! (b mod 16 * 4), CHR ''=''])"
| "b64_encode (x # y # z # s) = (let a = of_char x; b = of_char y; e = of_char z in
     [b64_chars ! (a div 4), b64_chars ! (a mod 4 * 16 + b div 16), b64_chars ! (b mod 16 * 4 + e div 64), b64_chars ! (e mod 64)]
     @ b64_encode s)"

lemma b64_value_chars: "n < 64 \<Longrightarrow> b64_value (b64_chars ! n) = Some n"
proof -
  have "map b64_value b64_chars = map Some [0..<64]" by (simp add: b64_chars_def b64_value_def upt_rec)
  moreover from this have "length b64_chars = 64" by (metis length_map length_upt diff_zero)
  ultimately show "n < 64 \<Longrightarrow> b64_value (b64_chars ! n) = Some n" by (metis nth_map nth_upt add_0 length_map length_upt diff_zero)
qed

lemma b64_padding: "b64_value (CHR ''='') = None" "\<not> is_line_end (CHR ''='')"
  by code_simp+

lemma byte_bounds: "(of_char x :: nat) div 4 < 64" "(of_char x :: nat) mod 4 * 16 + of_char y div 16 < 64"
  "(of_char y :: nat) mod 16 * 4 + of_char z div 64 < 64" "(of_char x :: nat) mod 4 * 16 < 64" "(of_char y :: nat) mod 16 * 4 < 64"
proof -
  have b: "(of_char x :: nat) < 256" "(of_char y :: nat) < 256" "(of_char z :: nat) < 256" by simp_all
  show "(of_char x :: nat) div 4 < 64" using b(1) by (simp add: div_less_iff_less_mult)
  have m: "(of_char x :: nat) mod 4 \<le> 3" "(of_char y :: nat) mod 16 \<le> 15" by auto
  then show "(of_char x :: nat) mod 4 * 16 < 64" "(of_char y :: nat) mod 16 * 4 < 64" by linarith+
  have "(of_char y :: nat) div 16 < 16" using b(2) by (simp add: div_less_iff_less_mult)
  with m(1) show "(of_char x :: nat) mod 4 * 16 + of_char y div 16 < 64" by linarith
  have "(of_char z :: nat) div 64 < 4" using b(3) by (simp add: div_less_iff_less_mult)
  with m(2) show "(of_char y :: nat) mod 16 * 4 + of_char z div 64 < 64" by linarith
qed

lemma byte_parts:
  "(a :: nat) div 4 * 4 + (a mod 4 * 16 + b div 16) div 16 = a" if "b < 256" for a b
proof -
  have "b div 16 < 16" using that by (simp add: div_less_iff_less_mult)
  then have "(a mod 4 * 16 + b div 16) div 16 = a mod 4" by simp
  then show ?thesis by simp
qed

lemma byte_of_groups:
  fixes a b e :: nat
  assumes "a < 256" "b < 256" "e < 256"
  shows "a div 4 * 4 + (a mod 4 * 16 + b div 16) div 16 = a"
    "(a mod 4 * 16 + b div 16) mod 16 * 16 + (b mod 16 * 4 + e div 64) div 4 = b"
    "(b mod 16 * 4 + e div 64) mod 4 * 64 + e mod 64 = e"
    "a div 4 * 4 + a mod 4 * 16 div 16 = a" "(a mod 4 * 16 + b div 16) mod 16 * 16 + b mod 16 * 4 div 4 = b"
proof -
  have s: "b div 16 < 16" "e div 64 < 4" using assms by auto
  show "a div 4 * 4 + (a mod 4 * 16 + b div 16) div 16 = a" using byte_parts[OF assms(2)] .
  have "(a mod 4 * 16 + b div 16) mod 16 = b div 16" using s by simp
  moreover have "(b mod 16 * 4 + e div 64) div 4 = b mod 16" "(b mod 16 * 4 + e div 64) mod 4 = e div 64" using s by simp_all
  ultimately show "(a mod 4 * 16 + b div 16) mod 16 * 16 + (b mod 16 * 4 + e div 64) div 4 = b"
    "(b mod 16 * 4 + e div 64) mod 4 * 64 + e mod 64 = e" by simp_all
  show "a div 4 * 4 + a mod 4 * 16 div 16 = a" by simp
  have "(a mod 4 * 16 + b div 16) mod 16 = b div 16" using s by simp
  then show "(a mod 4 * 16 + b div 16) mod 16 * 16 + b mod 16 * 4 div 4 = b" by simp
qed

lemma groups_back:
  "b64_bytes [of_char x div 4, of_char x mod 4 * 16 + of_char y div 16, of_char y mod 16 * 4 + of_char z div 64, of_char z mod 64] = [x, y, z]"
  "b64_bytes [of_char x div 4, of_char x mod 4 * 16 + of_char y div 16, of_char y mod 16 * 4] = [x, y]"
  "b64_bytes [of_char x div 4, of_char x mod 4 * 16] = [x]"
  unfolding b64_bytes.simps list.case byte_of_groups[OF nat_of_char_less_256 nat_of_char_less_256 nat_of_char_less_256] char_of_char
  by (rule refl)+

lemma b64_run_encode: "b64_run si [] (b64_encode s) = Inr s"
proof (induction s arbitrary: si rule: b64_encode.induct)
  case (2 x)
  show ?case by (simp add: Let_def b64_value_chars byte_bounds b64_padding b64_pad_def b64_end_def groups_back del: b64_bytes.simps)
next
  case (3 x y)
  show ?case by (simp add: Let_def b64_value_chars byte_bounds b64_padding b64_pad_def b64_end_def groups_back del: b64_bytes.simps)
next
  case (4 x y z s)
  then show ?case by (simp add: Let_def b64_value_chars byte_bounds groups_back del: b64_bytes.simps)
qed simp

lemma b64_round_trip: "b64_decode (b64_encode s) = Inr s"
  by (simp add: b64_decode_def b64_run_encode)

lemma set_data_items: "set (data_items f m) = (\<lambda>(k, v). (k, f v)) ` set m"
  by (simp add: data_items_def)

section \<open>Properties\<close>

text \<open>The YAML of every object, secrets included, is shown to every user that passes the gate: the route
  reads with the server's own client, whatever the role of the user and whatever the impersonating
  clients may do.\<close>

theorem yaml_ignores_rights:
  assumes "auth_gate A now rq d = (Inr (Some u), d1)" "rq_path rq = ''/api/yaml''" "rq_query rq ''name'' \<noteq> []"
    and "yaml_target rq = Inr g" "dy_get D g (rq_query rq ''namespace'') (rq_query rq ''name'') d1 = Inr x" "oc_yaml C x = Inr y"
  shows "serve s (Some A) now (manifests_mux C (Some D) bad s rest) rq d =
    (write_json (AObject [(''name'', AString (rq_query rq ''name'')), (''yaml'', AString y)]), d1)"
  using assms by (auto simp: serve_def auth_middleware_def impersonation_middleware_def mux_def clean_path_def has_prefix_def
      manifests_mux_def handle_yaml_def split: sum.split)

definition demo_dyn :: "(string, demo_cluster) dyn_client" where
  "demo_dyn = \<lparr>dy_get = (\<lambda>g ns n d. if gvr_resource g = ''secrets'' \<and> ns = ''kube-system'' then Inr ''s3cr3t'' else Inl ''not found''),
     dy_list = (\<lambda>g ns n d. Inr []), dy_apply = (\<lambda>g ns n x dry d. (None, demo_log n d))\<rparr>"

text \<open>Objects are their values here; what is decoded is a Deployment named shop.\<close>

definition demo_manifest_codec :: "string object_codec" where
  "demo_manifest_codec = \<lparr>oc_yaml = (\<lambda>x. Inr (''value: '' @ x)), oc_yaml_to_json = Inr, oc_decode = Inr, oc_kind = (\<lambda>x. ''Deployment''),
     oc_name = (\<lambda>x. ''shop''), oc_namespace = (\<lambda>x. ''web''), oc_created = (\<lambda>x. 0), oc_spec = (\<lambda>x. None),
     oc_without_managed_fields = (\<lambda>x. x)\<rparr>"

definition demo_query :: "string \<Rightarrow> (string \<times> string) list \<Rightarrow> http_req" where
  "demo_query path qs = (demo_req ''GET'' path [] (Some (demo_token 2 ''s3cret'')))
     \<lparr>rq_query := (\<lambda>k. case map_of qs k of Some v \<Rightarrow> v | None \<Rightarrow> [])\<rparr>"

theorem yaml_ignores_rights_witness:
  "fst (serve demo_act_server (Some (demo_gate [demo_user 2 ''eve'' ''ns-viewer''])) 0
      (manifests_mux demo_manifest_codec (Some demo_dyn) [] demo_act_server (\<lambda>user rcs rq c. (silent, c)))
      (demo_query ''/api/yaml'' [(''kind'', ''secret''), (''namespace'', ''kube-system''), (''name'', ''root'')])
      (demo_at (demo_plan ''Pending'' True []))) =
    write_json (AObject [(''name'', AString ''root''), (''yaml'', AString ''value: s3cr3t'')])"
proof -
  let ?rq = "demo_query ''/api/yaml'' [(''kind'', ''secret''), (''namespace'', ''kube-system''), (''name'', ''root'')]"
  let ?A = "demo_gate [demo_user 2 ''eve'' ''ns-viewer'']" and ?d = "demo_at (demo_plan ''Pending'' True [])"
  have "fst (auth_gate ?A 0 ?rq ?d) = Inr (Some (demo_user 2 ''eve'' ''ns-viewer''))" by code_simp
  moreover have "snd (auth_gate ?A 0 ?rq ?d) = ?d" by (rule auth_gate_cookie) (simp add: demo_query_def demo_req_def)
  ultimately have g: "auth_gate ?A 0 ?rq ?d = (Inr (Some (demo_user 2 ''eve'' ''ns-viewer'')), ?d)" by (metis prod.collapse)
  have "yaml_target ?rq = builtin_gvr ''secret''"
    by (simp add: yaml_target_def demo_query_def to_lower_def lower_char_def Let_def)
  also have "\<dots> = Inr (gvr_of [] ''v1'' ''secrets'')" by code_simp
  finally have t: "yaml_target ?rq = Inr (gvr_of [] ''v1'' ''secrets'')" .
  have q: "rq_path ?rq = ''/api/yaml''" "rq_query ?rq ''name'' = ''root''" "rq_query ?rq ''namespace'' = ''kube-system''"
    by (simp_all add: demo_query_def demo_req_def)
  show ?thesis using yaml_ignores_rights[OF g q(1) _ t, of demo_dyn "''s3cr3t''" demo_manifest_codec "''value: s3cr3t''" demo_act_server "[]"
      "\<lambda>user rcs rq c. (silent, c)"] q(2,3)
    by (simp add: demo_dyn_def demo_manifest_codec_def gvr_of_def)
qed

text \<open>C20. No manifest can be applied: a manifest whose kind begins with a capital letter, as every kind of
  Kubernetes does, is answered 400 as unsupported, and nothing is stored.\<close>

theorem manifests_refused:
  assumes "rq_method rq = ''POST''" "Option.bind (rq_json rq) decode_apply = Some (yaml, dry)" "yaml \<noteq> []"
    and "oc_yaml_to_json C yaml = Inr json" "oc_decode C json = Inr x" "oc_name C x \<noteq> []"
    and "oc_kind C x = c # k" "is_capital c"
  shows "handle_yaml_apply C dyn bad rq d = (write_error 400 (''unsupported kind: '' @ oc_kind C x), d)"
  using assms by (simp add: handle_yaml_apply_def parse_yaml_object_def builtin_gvr_capital)

theorem manifests_refused_witness:
  "handle_yaml_apply demo_manifest_codec (Some demo_dyn) [] (demo_action_post (AObject [(''yaml'', AString ''kind: Deployment'')]))
      (demo_at (demo_plan ''Pending'' True [])) =
     (write_error 400 ''unsupported kind: Deployment'', demo_at (demo_plan ''Pending'' True []))"
proof -
  let ?rq = "demo_action_post (AObject [(''yaml'', AString ''kind: Deployment'')])"
  have "Option.bind (rq_json ?rq) decode_apply = Some (''kind: Deployment'', False)"
    by (simp add: demo_action_post_def decode_apply_def member_name_simps)
  then show ?thesis
    using manifests_refused[of ?rq "''kind: Deployment''" False demo_manifest_codec "''kind: Deployment''" "''kind: Deployment''" "CHR ''D''"
        "''eployment''" "Some demo_dyn" "[]" "demo_at (demo_plan ''Pending'' True [])"]
    by (simp add: demo_manifest_codec_def demo_action_post_def demo_req_def is_capital_def)
qed

text \<open>The data of a secret are decoded twice: a value with a character outside the alphabet of base64,
  such as a dash or a full stop, is shown as a decoding error, and a value is shown as it is only
  when it was encoded once more before it was stored.\<close>

theorem secret_values_misread:
  assumes "rq_method rq = ''GET''" "trim_space (rq_query rq ''namespace'') = ns" "trim_space (rq_query rq ''name'') = name"
    and "ns \<noteq> []" "name \<noteq> []" "to_lower (trim_space (rq_query rq ''kind'')) = ''secret''"
    and "client_of s rcs = Some cs" "cl_secret cs ns name d = Inr m" "(k, v) \<in> set m"
  shows "\<exists>items. handle_resource_data s user rcs rq d = (data_response ''secret'' ns name items, d) \<and>
    (\<forall>c \<in> set v. foreign c \<longrightarrow> (\<exists>n. (k, ''<decode error: illegal base64 data at input byte '' @ show_nat n @ ''>'') \<in> set items)) \<and>
    (\<forall>w. v = b64_encode w \<longrightarrow> (k, w) \<in> set items)"
proof (intro exI conjI)
  let ?items = "data_items shown_secret m"
  show "handle_resource_data s user rcs rq d = (data_response ''secret'' ns name ?items, d)"
    using assms by (simp add: handle_resource_data_def)
  have in_items: "(k, shown_secret v) \<in> set ?items" using assms(9) by (force simp: set_data_items)
  show "\<forall>c \<in> set v. foreign c \<longrightarrow> (\<exists>n. (k, ''<decode error: illegal base64 data at input byte '' @ show_nat n @ ''>'') \<in> set ?items)"
  proof (intro ballI impI)
    fix c assume "c \<in> set v" "foreign c"
    from b64_run_foreign[OF this, of 0 "[]"] obtain n where "b64_run 0 [] v = Inl n"
      by (cases "b64_run 0 [] v") (simp_all add: is_ok_def)
    with in_items show "\<exists>n. (k, ''<decode error: illegal base64 data at input byte '' @ show_nat n @ ''>'') \<in> set ?items"
      by (auto simp: shown_secret_def b64_decode_def)
  qed
  show "\<forall>w. v = b64_encode w \<longrightarrow> (k, w) \<in> set ?items"
    using in_items by (auto simp: shown_secret_def b64_round_trip)
qed

theorem secret_values_misread_witness:
  "\<exists>items n. handle_resource_data demo_act_server None None
      (demo_query ''/api/resource/data'' [(''kind'', ''Secret''), (''namespace'', ''web''), (''name'', ''db'')]) (demo_at (demo_plan ''Pending'' True [])) =
      (data_response ''secret'' ''web'' ''db'' items, demo_at (demo_plan ''Pending'' True [])) \<and>
    (''password'', ''<decode error: illegal base64 data at input byte '' @ show_nat n @ ''>'') \<in> set items"
proof -
  let ?rq = "demo_query ''/api/resource/data'' [(''kind'', ''Secret''), (''namespace'', ''web''), (''name'', ''db'')]"
  have q: "trim_space (rq_query ?rq ''namespace'') = ''web''" "trim_space (rq_query ?rq ''name'') = ''db''"
    "to_lower (trim_space (rq_query ?rq ''kind'')) = ''secret''" "foreign (CHR ''!'')" by code_simp+
  have "client_of demo_act_server None = Some demo_clientset"
    "cl_secret demo_clientset ''web'' ''db'' (demo_at (demo_plan ''Pending'' True [])) = Inr [(''user'', ''YWRtaW4=''), (''password'', ''s3cr3t!'')]"
    by (simp_all add: client_of_def clients_from_req_def demo_act_server_def demo_clientset_def)
  from secret_values_misread[OF _ q(1,2) _ _ q(3) this, of "''password''" "''s3cr3t!''" None] q(4)
  show ?thesis by (auto simp: demo_query_def demo_req_def)
qed

end
