(* ===== verification/Dash_Notify.thy ===== *)
theory Dash_Notify
  imports Access
begin

text \<open>
  Notifications (internal/dashboard/handlers_slack.go, handlers_alert_webhooks.go): the message to Slack, and the two routes for
  Prometheus Alertmanager, which do nothing. The request to Slack is a parameter that answers with an error or a
  status and changes the world; \<open>indent\<close> is \<open>MarshalIndent\<close>, which a decoded value cannot fail.
\<close>

record slack_payload =
  sp_type :: string
  sp_message :: string
  sp_details :: any

text \<open>Null clears a field of type \<open>any\<close>.\<close>

definition slack_any :: "string \<Rightarrow> (string \<times> any) list \<Rightarrow> any" where
  "slack_any k ms = fold (\<lambda>(n, x) v. if equal_fold n k then x else v) ms ANil"

definition decode_slack_payload :: "any option \<Rightarrow> slack_payload option" where
  "decode_slack_payload body = (case members body of None \<Rightarrow> None
   | Some ms \<Rightarrow> (case (decode_string ''type'' ms, decode_string ''message'' ms) of
       (Some t, Some m) \<Rightarrow> Some \<lparr>sp_type = t, sp_message = m, sp_details = slack_any ''details'' ms\<rparr>
     | _ \<Rightarrow> None))"

definition slack_block :: "string \<Rightarrow> string \<Rightarrow> string \<Rightarrow> any" where
  "slack_block kind text_kind s = AObject [(''type'', AString kind), (''text'', AObject [(''type'', AString text_kind), (''text'', AString s)])]"

definition slack_message :: "(any \<Rightarrow> string) \<Rightarrow> slack_payload \<Rightarrow> any" where
  "slack_message indent p = AObject [(''text'', AString (sp_message p)), (''blocks'', AList
     ([slack_block ''header'' ''plain_text'' (sp_type p), slack_block ''section'' ''mrkdwn'' (sp_message p)] @
      (if sp_details p = ANil then []
       else [slack_block ''section'' ''mrkdwn'' (''```json'' @ newline @ indent (sp_details p) @ newline @ ''```'')])))]"

record 'd slack_env =
  sk_url :: string
  sk_indent :: "any \<Rightarrow> string"
  sk_post :: "string \<Rightarrow> any \<Rightarrow> 'd \<Rightarrow> (string + int) \<times> 'd"

definition send_slack :: "'d slack_env \<Rightarrow> slack_payload \<Rightarrow> 'd \<Rightarrow> http_resp \<times> 'd" where
  "send_slack S p d = (case sk_post S (sk_url S) (slack_message (sk_indent S) p) d of
     (Inl e, d1) \<Rightarrow> (write_error 502 ''failed to send slack notification'', d1)
   | (Inr code, d1) \<Rightarrow> if 300 \<le> code then (write_error 502 (''slack webhook returned '' @ show_int code), d1)
       else (write_json (AObject [(''status'', AString ''sent''), (''type'', AString (sp_type p))]), d1))"

definition handle_slack_webhook :: "'d slack_env \<Rightarrow> ('cs, 'd) dash_handler" where
  "handle_slack_webhook S user rcs rq d =
     (if rq_method rq \<noteq> ''POST'' then (write_error 405 ''method not allowed'', d)
      else if (case user of None \<Rightarrow> True | Some u \<Rightarrow> us_role u \<noteq> ''admin'') then (write_error 403 ''admin role required'', d)
      else if sk_url S = [] then (write_error 503 ''SLACK_WEBHOOK_URL not configured'', d)
      else (case decode_slack_payload (rq_json rq) of
          None \<Rightarrow> (write_error 400 ''invalid request body'', d)
        | Some p \<Rightarrow> if sp_message p = [] then (write_error 400 ''message is required'', d) else send_slack S p d))"

definition slack_route :: "'d slack_env \<Rightarrow> ('cs, 'd) dash_handler" where
  "slack_route S = admin_only_middleware (handle_slack_webhook S)"

definition handle_alertmanager_webhook :: "('cs, 'd) dash_handler" where
  "handle_alertmanager_webhook user rcs rq d = (write_json (AObject [(''status'', AString ''received'')]), d)"

definition handle_alert_test :: "('cs, 'd) dash_handler" where
  "handle_alert_test user rcs rq d =
     (write_json (AObject [(''status'', AString ''ok''), (''message'', AString ''alert test endpoint working'')]), d)"

section \<open>Lemmas\<close>

text \<open>A message goes out exactly for a POST of an administrator that has a message, when the address is set, and it is the one of the request.
  Without authentication there is no user, so that none goes out.\<close>

lemma slack_sends:
  "slack_route S user rcs rq d =
     (case (user, decode_slack_payload (rq_json rq)) of
        (Some u, Some p) \<Rightarrow>
          if us_role u = ''admin'' \<and> rq_method rq = ''POST'' \<and> sk_url S \<noteq> [] \<and> sp_message p \<noteq> [] then send_slack S p d
          else (fst (slack_route S user rcs rq d), d)
      | _ \<Rightarrow> (fst (slack_route S user rcs rq d), d))"
  by (simp add: slack_route_def admin_only_middleware_def handle_slack_webhook_def split: option.split)

theorem slack_only_admins:
  assumes "snd (slack_route S user rcs rq d) \<noteq> d"
  shows "\<exists>u p. user = Some u \<and> us_role u = ''admin'' \<and> rq_method rq = ''POST'' \<and> decode_slack_payload (rq_json rq) = Some p \<and>
    sp_message p \<noteq> [] \<and> slack_route S user rcs rq d = send_slack S p d"
proof (cases "\<exists>u p. user = Some u \<and> decode_slack_payload (rq_json rq) = Some p \<and> us_role u = ''admin'' \<and> rq_method rq = ''POST'' \<and>
    sk_url S \<noteq> [] \<and> sp_message p \<noteq> []")
  case True
  then show ?thesis by (subst slack_sends) auto
next
  case False
  then have "slack_route S user rcs rq d = (fst (slack_route S user rcs rq d), d)"
    by (subst slack_sends) (auto split: option.split)
  then have "snd (slack_route S user rcs rq d) = d" by (metis snd_conv)
  then show ?thesis using assms by blast
qed

text \<open>The details of a payload are those of its last member, and null removes them.\<close>

lemma details_last: "slack_any k (ms @ [(n, x)]) = (if equal_fold n k then x else slack_any k ms)"
  by (simp add: slack_any_def)

end
