(* ===== verification/Dash_Rbac.thy ===== *)
theory Dash_Rbac
  imports Access Json "HOL-Library.List_Lexorder" "HOL-Library.Char_ord"
begin

text \<open>
  The routes that manage roles and their bindings (internal/dashboard/handlers_rbac.go), all behind
  \<open>auth.AdminOnly\<close>. Without authentication the server has no authenticator; the handlers get it as
  an option. Time stamps of rows are left out of the answers.
\<close>

section \<open>Answers\<close>

definition role_summary_json :: "role_def \<Rightarrow> any" where
  "role_summary_json r = AObject [(''name'', AString (rd_name r)), (''ruleCount'', AInt (int (length (rd_description r)))),
     (''scope'', AString (rd_scope r)), (''builtin'', ABool (rd_builtin r)), (''bindings'', ANil)]"

definition role_json :: "role_def \<Rightarrow> any" where
  "role_json r = AObject [(''id'', AInt (rd_id r)), (''name'', AString (rd_name r)), (''display_name'', AString (rd_display_name r)),
     (''description'', AString (rd_description r)), (''group'', AString (rd_group r)), (''scope'', AString (rd_scope r)),
     (''builtin'', ABool (rd_builtin r))]"

definition binding_summary_json :: "role_binding_def \<Rightarrow> any" where
  "binding_summary_json b = AObject ([(''id'', AInt (rb_id b)), (''roleName'', AString (rb_role_name b)),
     (''k8sRoleName'', AString (rb_k8s_role_name b))] @ omit_string ''namespace'' (rb_namespace b))"

definition binding_json :: "role_binding_def \<Rightarrow> any" where
  "binding_json b = AObject [(''id'', AInt (rb_id b)), (''role_name'', AString (rb_role_name b)), (''k8s_role_kind'', AString (rb_k8s_role_kind b)),
     (''k8s_role_name'', AString (rb_k8s_role_name b)), (''namespace'', AString (rb_namespace b))]"

definition items_json :: "any list \<Rightarrow> http_resp" where
  "items_json xs = write_json (AObject [(''items'', AList xs)])"

definition no_auth :: http_resp where
  "no_auth = write_error 500 ''auth not initialized''"

definition not_allowed :: http_resp where
  "not_allowed = write_error 405 ''method not allowed''"

section \<open>Requests\<close>

definition into_uint :: "int decoder" where
  "into_uint x v = (case x of AInt i \<Rightarrow> if 0 \<le> i \<and> i < 2 ^ 64 then Some i else None | ANil \<Rightarrow> Some v | _ \<Rightarrow> None)"

definition empty_role :: role_def where
  "empty_role = \<lparr>rd_id = 0, rd_name = [], rd_display_name = [], rd_description = [], rd_group = [], rd_scope = [], rd_builtin = False\<rparr>"

definition decode_role :: "any \<Rightarrow> role_def option" where
  "decode_role x = into_struct (\<lambda>ms r. do {
     i \<leftarrow> into_member into_uint ''id'' ms (rd_id r);
     name \<leftarrow> into_member into_string ''name'' ms (rd_name r);
     display \<leftarrow> into_member into_string ''display_name'' ms (rd_display_name r);
     desc \<leftarrow> into_member into_string ''description'' ms (rd_description r);
     grp \<leftarrow> into_member into_string ''group'' ms (rd_group r);
     scope \<leftarrow> into_member into_string ''scope'' ms (rd_scope r);
     builtin \<leftarrow> into_member into_bool ''builtin'' ms (rd_builtin r);
     Some \<lparr>rd_id = i, rd_name = name, rd_display_name = display, rd_description = desc, rd_group = grp,
       rd_scope = scope, rd_builtin = builtin\<rparr> }) x empty_role"

text \<open>\<open>createClusterRoleReq\<close>: the scope of the request is decoded but not used.\<close>

definition decode_create_role :: "any \<Rightarrow> (string \<times> string \<times> string) option" where
  "decode_create_role x = into_struct (\<lambda>ms q. do {
     name \<leftarrow> into_member into_string ''name'' ms (fst q);
     display \<leftarrow> into_member into_string ''displayName'' ms (fst (snd q));
     desc \<leftarrow> into_member into_string ''description'' ms (snd (snd q));
     scope \<leftarrow> into_member into_string ''scope'' ms [];
     Some (name, display, desc) }) x ([], [], [])"

definition decode_add_binding :: "any \<Rightarrow> role_binding_def option" where
  "decode_add_binding x = into_struct (\<lambda>ms b. do {
     role \<leftarrow> into_member into_string ''roleName'' ms (rb_role_name b);
     kind \<leftarrow> into_member into_string ''k8sRoleKind'' ms (rb_k8s_role_kind b);
     name \<leftarrow> into_member into_string ''k8sRoleName'' ms (rb_k8s_role_name b);
     ns \<leftarrow> into_member into_string ''namespace'' ms (rb_namespace b);
     Some (b\<lparr>rb_role_name := role, rb_k8s_role_kind := kind, rb_k8s_role_name := name, rb_namespace := ns\<rparr>) }) x
     \<lparr>rb_id = 0, rb_role_name = [], rb_k8s_role_kind = [], rb_k8s_role_name = [], rb_namespace = []\<rparr>"

text \<open>\<open>fmt.Sscanf(s, "%d", &id)\<close> into a uint: the digits in front, no sign.\<close>

definition scan_uint :: "string \<Rightarrow> int option" where
  "scan_uint s = (let t = dropWhile (\<lambda>c. is_space c \<and> c \<noteq> CHR 0x0A) s; ds = takeWhile is_digit t
     in if ds \<noteq> [] \<and> digits_value ds < 2 ^ 64 then Some (digits_value ds) else None)"

section \<open>Roles\<close>

definition list_scoped_roles :: "'d authenticator option \<Rightarrow> string \<Rightarrow> 'd \<Rightarrow> http_resp" where
  "list_scoped_roles auth scope d = (case auth of None \<Rightarrow> no_auth
   | Some A \<Rightarrow> (case list_role_defs (au_store A) d of
       Inl _ \<Rightarrow> write_error 500 ''failed to list roles''
     | Inr rs \<Rightarrow> items_json (map role_summary_json (filter (\<lambda>r. rd_scope r = scope) rs))))"

definition create_scoped_role :: "'d authenticator option \<Rightarrow> string \<Rightarrow> any option \<Rightarrow> 'd \<Rightarrow> http_resp \<times> 'd" where
  "create_scoped_role auth scope body d = (case auth of None \<Rightarrow> (no_auth, d)
   | Some A \<Rightarrow> (case Option.bind body decode_create_role of
       None \<Rightarrow> (write_error 400 ''invalid request body'', d)
     | Some (name, display, desc) \<Rightarrow>
         if name = [] then (write_error 400 ''name is required'', d)
         else (case create_role_def (au_store A) \<lparr>rd_id = 0, rd_name = name, rd_display_name = display, rd_description = desc,
               rd_group = ''k8ops:'' @ name, rd_scope = scope, rd_builtin = False\<rparr> d of
             (Inl _, d1) \<Rightarrow> (write_error 500 ''failed to create role'', d1)
           | (Inr r, d1) \<Rightarrow> (write_json (role_json r), d1))))"

definition handle_scoped_roles :: "'d authenticator option \<Rightarrow> string \<Rightarrow> http_req \<Rightarrow> 'd \<Rightarrow> http_resp \<times> 'd" where
  "handle_scoped_roles auth scope rq d =
     (if rq_method rq = ''GET'' then (list_scoped_roles auth scope d, d)
      else if rq_method rq = ''POST'' then create_scoped_role auth scope (rq_json rq) d
      else (not_allowed, d))"

text \<open>The scope in the path plays no part in a deletion.\<close>

definition handle_role_by_name :: "'d authenticator option \<Rightarrow> string \<Rightarrow> http_req \<Rightarrow> 'd \<Rightarrow> http_resp \<times> 'd" where
  "handle_role_by_name auth base rq d =
     (let name = trim_prefix (rq_path rq) base in
      if name = [] then (write_error 400 ''role name is required'', d)
      else if rq_method rq \<noteq> ''DELETE'' then (not_allowed, d)
      else (case auth of None \<Rightarrow> (no_auth, d)
        | Some A \<Rightarrow> (case delete_role_def (au_store A) name d of
            (Some _, d1) \<Rightarrow> (write_error 500 ''failed to delete role'', d1)
          | (None, d1) \<Rightarrow> (write_json (AObject [(''status'', AString ''deleted'')]), d1))))"

definition handle_role_defs :: "'d authenticator option \<Rightarrow> http_req \<Rightarrow> 'd \<Rightarrow> http_resp \<times> 'd" where
  "handle_role_defs auth rq d = (case auth of None \<Rightarrow> (no_auth, d)
   | Some A \<Rightarrow>
       if rq_method rq = ''GET'' then ((case list_role_defs (au_store A) d of
           Inl _ \<Rightarrow> write_error 500 ''failed to list role defs'' | Inr rs \<Rightarrow> items_json (map role_json rs)), d)
       else if rq_method rq = ''POST'' then (case Option.bind (rq_json rq) decode_role of
           None \<Rightarrow> (write_error 400 ''invalid request body'', d)
         | Some r \<Rightarrow> (case create_role_def (au_store A) r d of
             (Inl _, d1) \<Rightarrow> (write_error 500 ''failed to create role def'', d1)
           | (Inr r1, d1) \<Rightarrow> (write_json (role_json r1), d1)))
       else (not_allowed, d))"

section \<open>Bindings\<close>

definition list_bindings_route :: "'d authenticator option \<Rightarrow> 'd \<Rightarrow> http_resp" where
  "list_bindings_route auth d = (case auth of None \<Rightarrow> no_auth
   | Some A \<Rightarrow> (case list_role_bindings (au_store A) [] d of
       Inl _ \<Rightarrow> write_error 500 ''failed to list bindings'' | Inr bs \<Rightarrow> items_json (map binding_summary_json bs)))"

definition create_binding_route :: "'d authenticator option \<Rightarrow> any option \<Rightarrow> 'd \<Rightarrow> http_resp \<times> 'd" where
  "create_binding_route auth body d = (case auth of None \<Rightarrow> (no_auth, d)
   | Some A \<Rightarrow> (case Option.bind body decode_add_binding of
       None \<Rightarrow> (write_error 400 ''invalid request body'', d)
     | Some b \<Rightarrow>
         if rb_role_name b = [] \<or> rb_k8s_role_name b = [] then (write_error 400 ''roleName and k8sRoleName required'', d)
         else (case add_role_binding (au_store A) b d of
             (Inl _, d1) \<Rightarrow> (write_error 500 ''failed to create binding'', d1)
           | (Inr b1, d1) \<Rightarrow> (write_json (binding_json b1), d1))))"

definition handle_role_bindings :: "'d authenticator option \<Rightarrow> http_req \<Rightarrow> 'd \<Rightarrow> http_resp \<times> 'd" where
  "handle_role_bindings auth rq d =
     (if rq_method rq = ''GET'' then (list_bindings_route auth d, d)
      else if rq_method rq = ''POST'' then create_binding_route auth (rq_json rq) d
      else (not_allowed, d))"

definition handle_role_binding_by_name :: "'d authenticator option \<Rightarrow> http_req \<Rightarrow> 'd \<Rightarrow> http_resp \<times> 'd" where
  "handle_role_binding_by_name auth rq d =
     (let s = trim_prefix (rq_path rq) ''/api/rbac/rolebindings/'' in
      if rq_method rq = ''DELETE'' \<and> s \<noteq> [] then (case auth of None \<Rightarrow> (no_auth, d)
        | Some A \<Rightarrow> (case scan_uint s of
            Some i \<Rightarrow>
              if 0 < i then (case remove_role_binding (au_store A) i d of
                  (Some _, d1) \<Rightarrow> (write_error 500 ''failed to delete binding'', d1)
                | (None, d1) \<Rightarrow> (write_json (AObject [(''status'', AString ''deleted'')]), d1))
              else (write_error 400 ''invalid binding ID'', d)
          | None \<Rightarrow> (write_error 400 ''invalid binding ID'', d)))
      else (not_allowed, d))"

section \<open>Lists for the forms\<close>

definition handle_list_namespaces :: "('d \<Rightarrow> string + string list) \<Rightarrow> 'd \<Rightarrow> http_resp" where
  "handle_list_namespaces names d = (case names d of
     Inl _ \<Rightarrow> write_error 500 ''failed to list namespaces'' | Inr ns \<Rightarrow> items_json (map AString (sort ns)))"

definition subject_json :: "user \<Rightarrow> any" where
  "subject_json u = AObject [(''id'', AInt (us_id u)), (''username'', AString (us_username u)), (''role'', AString (us_role u)),
     (''provider'', AString (us_provider u))]"

definition handle_list_subjects :: "'d authenticator option \<Rightarrow> 'd \<Rightarrow> http_resp" where
  "handle_list_subjects auth d = items_json (map subject_json (case auth of None \<Rightarrow> []
     | Some A \<Rightarrow> (case list_users (au_store A) d of Inl _ \<Rightarrow> [] | Inr us \<Rightarrow> us)))"

definition role_mapping_json :: "role_binding_def list \<Rightarrow> role_def \<Rightarrow> any" where
  "role_mapping_json bs r = (let mine = filter (\<lambda>b. rb_role_name b = rd_name r) bs in
     AObject [(''roleName'', AString (rd_name r)), (''bindings'', if mine = [] then ANil else AList (map binding_summary_json mine))])"

definition handle_role_mapping :: "'d authenticator option \<Rightarrow> 'd \<Rightarrow> http_resp" where
  "handle_role_mapping auth d = (case auth of None \<Rightarrow> no_auth
   | Some A \<Rightarrow> (case list_role_defs (au_store A) d of
       Inl _ \<Rightarrow> write_error 500 ''failed to list roles''
     | Inr rs \<Rightarrow> items_json (map (role_mapping_json (case list_role_bindings (au_store A) [] d of Inl _ \<Rightarrow> [] | Inr bs \<Rightarrow> bs)) rs)))"

record discovered =
  dd_name :: string
  dd_singular :: string
  dd_namespaced :: bool
  dd_kind :: string
  dd_verbs :: "string list"
  dd_short_names :: "string list"
  dd_categories :: "string list"

definition extract_group :: "string \<Rightarrow> string" where
  "extract_group gv = (case last_index (CHR ''/'') gv of Some i \<Rightarrow> take i gv | None \<Rightarrow> [])"

definition extract_version :: "string \<Rightarrow> string" where
  "extract_version gv = (case last_index (CHR ''/'') gv of Some i \<Rightarrow> drop (Suc i) gv | None \<Rightarrow> gv)"

text \<open>The function of the package that is called \<open>contains\<close> looks at the end of the string only.\<close>

definition rbac_contains :: "string \<Rightarrow> string \<Rightarrow> bool" where
  "rbac_contains s sub \<longleftrightarrow> has_suffix s sub"

definition strings_json :: "string list \<Rightarrow> any" where
  "strings_json ss = (if ss = [] then ANil else AList (map AString ss))"

definition discovered_json :: "string \<Rightarrow> discovered \<Rightarrow> any" where
  "discovered_json gv r = AObject ([(''name'', AString (dd_name r)), (''singularName'', AString (dd_singular r)),
     (''namespaced'', ABool (dd_namespaced r)), (''kind'', AString (dd_kind r))] @ omit_string ''group'' (extract_group gv) @
     omit_string ''version'' (extract_version gv) @ [(''verbs'', strings_json (dd_verbs r))] @
     omit_list ''shortNames'' (map AString (dd_short_names r)) @ omit_list ''categories'' (map AString (dd_categories r)))"

text \<open>Discovery may give resources together with an error.\<close>

definition handle_api_resources :: "('d \<Rightarrow> (string \<times> discovered list) list \<times> string option) \<Rightarrow> 'd \<Rightarrow> http_resp" where
  "handle_api_resources discover d = (case discover d of (groups, err) \<Rightarrow>
     if err \<noteq> None \<and> groups = [] then write_k8s_error err
     else items_json (map (\<lambda>(gv, r). discovered_json gv r) (sort_key (\<lambda>(gv, r). dd_name r)
       (filter (\<lambda>(gv, r). \<not> rbac_contains (dd_name r) ''/'') (concat (map (\<lambda>(gv, rs). map (Pair gv) rs) groups))))))"

section \<open>Routes\<close>

text \<open>Every pattern is wrapped in \<open>AdminOnly\<close> by itself; \<open>rest\<close> stands for the other patterns of the server.\<close>

record 'd role_server =
  rv_auth :: "'d authenticator option"
  rv_namespaces :: "'d \<Rightarrow> string + string list"
  rv_discover :: "'d \<Rightarrow> (string \<times> discovered list) list \<times> string option"

definition rbac_route :: "'d role_server \<Rightarrow> string \<Rightarrow> (http_req \<Rightarrow> 'd \<Rightarrow> http_resp \<times> 'd) option" where
  "rbac_route V path = (let auth = rv_auth V in
     if path = ''/api/rbac/clusterroles'' then Some (handle_scoped_roles auth ''cluster'')
     else if has_prefix path ''/api/rbac/clusterroles/'' then Some (handle_role_by_name auth ''/api/rbac/clusterroles/'')
     else if path = ''/api/rbac/roles'' then Some (handle_scoped_roles auth ''namespace'')
     else if has_prefix path ''/api/rbac/roles/'' then Some (handle_role_by_name auth ''/api/rbac/roles/'')
     else if path = ''/api/rbac/rolebindings'' then Some (handle_role_bindings auth)
     else if has_prefix path ''/api/rbac/rolebindings/'' then Some (handle_role_binding_by_name auth)
     else if path = ''/api/rbac/namespaces'' then Some (\<lambda>rq d. (handle_list_namespaces (rv_namespaces V) d, d))
     else if path = ''/api/rbac/subjects'' then Some (\<lambda>rq d. (handle_list_subjects auth d, d))
     else if path = ''/api/rbac/role-mapping'' then Some (\<lambda>rq d. (handle_role_mapping auth d, d))
     else if path = ''/api/rbac/role-defs'' then Some (handle_role_defs auth)
     else if path = ''/api/rbac/api-resources'' then Some (\<lambda>rq d. (handle_api_resources (rv_discover V) d, d))
     else None)"

definition register_rbac_routes :: "'d role_server \<Rightarrow> 'd handler \<Rightarrow> 'd handler" where
  "register_rbac_routes V rest user rq d = (case rbac_route V (rq_path rq) of
     Some h \<Rightarrow> admin_only (\<lambda>_. h) user rq d | None \<Rightarrow> rest user rq d)"

section \<open>Lemmas\<close>

text \<open>The laws of the two tables the routes write to.\<close>

definition role_tables_ok :: "'d store \<Rightarrow> ('d \<Rightarrow> role_def list) \<Rightarrow> ('d \<Rightarrow> role_binding_def list) \<Rightarrow> bool" where
  "role_tables_ok S roles binds \<longleftrightarrow>
     (\<exists>same. sql_ok (st_roles S) roles rd_id rd_name same) \<and>
     (\<exists>uq same. sql_ok (st_bindings S) binds rb_id uq same) \<and> leaves (st_bindings S) roles \<and> leaves (st_roles S) binds"

text \<open>What every step keeps: the built-in roles, and that no two roles have the same key.\<close>

definition keeps_builtin :: "role_def list \<Rightarrow> role_def list \<Rightarrow> bool" where
  "keeps_builtin rs rs1 \<longleftrightarrow> (distinct (map rd_id rs) \<longrightarrow>
     distinct (map rd_id rs1) \<and> (\<forall>r \<in> set rs. rd_builtin r \<longrightarrow> r \<in> set rs1))"

lemma keeps_builtin_refl [simp]: "keeps_builtin rs rs"
  by (simp add: keeps_builtin_def)

lemma create_role_keeps:
  assumes "role_tables_ok S roles binds" "create_role_def S r d = (res, d1)"
  shows "keeps_builtin (roles d) (roles d1)"
proof -
  obtain same where ok: "sql_ok (st_roles S) roles rd_id rd_name same" using assms(1) by (auto simp: role_tables_ok_def)
  show ?thesis
  proof (cases res)
    case (Inl e)
    with assms(2) table_create_failD[OF ok] show ?thesis by (simp add: create_role_def_def)
  next
    case (Inr r1)
    with assms(2) have "roles d1 = roles d @ [r1]" "rd_id r1 \<notin> rd_id ` set (roles d)"
      using table_createD[OF ok, of r d r1 d1] by (simp_all add: create_role_def_def)
    then show ?thesis by (simp add: keeps_builtin_def)
  qed
qed

lemma binding_ops_leave_roles:
  assumes "role_tables_ok S roles binds"
  shows "roles (snd (add_role_binding S b d)) = roles d" "roles (snd (remove_role_binding S i d)) = roles d"
    "roles (snd (t_delete (st_bindings S) P d)) = roles d"
proof -
  have l: "leaves (st_bindings S) roles" using assms by (simp add: role_tables_ok_def)
  then show "roles (snd (add_role_binding S b d)) = roles d" "roles (snd (t_delete (st_bindings S) P d)) = roles d"
    by (simp_all add: leaves_def add_role_binding_def)
  show "roles (snd (remove_role_binding S i d)) = roles d"
    using l by (simp add: remove_role_binding_def leaves_def split: prod.split sum.split) (metis snd_conv)
qed

lemma delete_role_keeps:
  assumes "role_tables_ok S roles binds" "delete_role_def S name d = (res, d1)"
  shows "keeps_builtin (roles d) (roles d1)"
proof (cases "t_first (st_roles S) (\<lambda>r. rd_name r = name) d")
  case (Inr role)
  obtain same where ok: "sql_ok (st_roles S) roles rd_id rd_name same" using assms(1) by (auto simp: role_tables_ok_def)
  have role: "role \<in> set (roles d)" using table_firstD[OF ok Inr] by simp
  show ?thesis
  proof (cases "rd_builtin role")
    case False
    define dm where "dm = snd (t_delete (st_bindings S) (\<lambda>b. rb_role_name b = name) d)"
    have dm: "roles dm = roles d" unfolding dm_def by (rule binding_ops_leave_roles[OF assms(1)])
    obtain x d2 where del: "t_delete (st_roles S) (\<lambda>r. rd_name r = name \<and> rd_id r = rd_id role) dm = (x, d2)" by (metis surj_pair)
    with assms(2) Inr False have d1: "d1 = d2" by (auto simp: delete_role_def_def Let_def dm_def split: sum.splits)
    consider "roles d2 = roles d" | "roles d2 = filter (\<lambda>r. \<not> (rd_name r = name \<and> rd_id r = rd_id role)) (roles d)"
      using table_delete_cases[OF ok, of _ dm] del dm by (metis snd_conv)
    then show ?thesis
    proof cases
      case 2
      have "r = role" if "distinct (map rd_id (roles d))" "r \<in> set (roles d)" "rd_id r = rd_id role" for r
        using that role by (auto simp: distinct_map inj_on_def)
      with 2 False d1 show ?thesis by (auto simp: keeps_builtin_def distinct_map_filter)
    qed (simp add: d1)
  qed (use assms(2) Inr in \<open>simp add: delete_role_def_def\<close>)
qed (use assms(2) in \<open>simp add: delete_role_def_def\<close>)

lemma rbac_step_keeps:
  assumes ok: "\<And>A. rv_auth V = Some A \<Longrightarrow> role_tables_ok (au_store A) roles binds"
    and "rbac_route V path = Some h" "h rq d = (r, d1)"
  shows "keeps_builtin (roles d) (roles d1)"
proof -
  note c = create_role_keeps[OF ok] and b = binding_ops_leave_roles[OF ok] and x = delete_role_keeps[OF ok]
  have scoped: "keeps_builtin (roles d) (roles d1)" if "handle_scoped_roles (rv_auth V) scope rq d = (r, d1)" for scope
    using that c by (auto simp: handle_scoped_roles_def create_scoped_role_def split: if_splits option.splits prod.splits sum.splits)
  have by_name: "keeps_builtin (roles d) (roles d1)" if "handle_role_by_name (rv_auth V) base rq d = (r, d1)" for base
    using that x by (auto simp: handle_role_by_name_def Let_def split: if_splits option.splits prod.splits)
  have defs: "keeps_builtin (roles d) (roles d1)" if "handle_role_defs (rv_auth V) rq d = (r, d1)"
    using that c by (auto simp: handle_role_defs_def split: if_splits option.splits prod.splits sum.splits)
  have add: "roles d1 = roles d" if "rv_auth V = Some A" "add_role_binding (au_store A) bnd d = (res, d1)" for A bnd res
    using b(1)[OF that(1), of bnd d] that(2) by simp
  have rem: "roles d1 = roles d" if "rv_auth V = Some A" "remove_role_binding (au_store A) i d = (res, d1)" for A i res
    using b(2)[OF that(1), of i d] that(2) by simp
  have binds: "roles d1 = roles d" if "handle_role_bindings (rv_auth V) rq d = (r, d1)"
    using that add by (auto simp: handle_role_bindings_def create_binding_route_def split: if_splits option.splits prod.splits sum.splits)
  have bind: "roles d1 = roles d" if "handle_role_binding_by_name (rv_auth V) rq d = (r, d1)"
    using that rem by (auto simp: handle_role_binding_by_name_def Let_def split: if_splits option.splits prod.splits)
  show ?thesis using assms(2,3) scoped by_name defs binds bind
    by (auto simp: rbac_route_def Let_def split: if_splits)
qed

section \<open>Runs\<close>

text \<open>Requests of the users the gate let through, one after the other.\<close>

definition rbac_step :: "'d role_server \<Rightarrow> user option \<times> http_req \<Rightarrow> 'd \<Rightarrow> 'd" where
  "rbac_step V = (\<lambda>(user, rq) d. snd (register_rbac_routes V (\<lambda>user rq d. (silent, d)) user rq d))"

definition rbac_run :: "'d role_server \<Rightarrow> (user option \<times> http_req) list \<Rightarrow> 'd \<Rightarrow> 'd" where
  "rbac_run V = fold (rbac_step V)"

definition by_admin :: "user option \<times> http_req \<Rightarrow> bool" where
  "by_admin q = (case fst q of Some u \<Rightarrow> us_role u = ''admin'' | None \<Rightarrow> False)"

lemma rbac_step_other: "\<not> by_admin q \<Longrightarrow> rbac_step V q d = d"
  by (auto simp: rbac_step_def register_rbac_routes_def admin_only_def by_admin_def split: prod.splits option.splits)

lemma rbac_step_ok:
  assumes "\<And>A. rv_auth V = Some A \<Longrightarrow> role_tables_ok (au_store A) roles binds"
  shows "keeps_builtin (roles d) (roles (rbac_step V q d))"
proof (cases "rbac_route V (rq_path (snd q))")
  case (Some h)
  then show ?thesis using rbac_step_keeps[OF assms Some, of "snd q" d "fst (h (snd q) d)"]
    by (auto simp: rbac_step_def register_rbac_routes_def admin_only_def split: prod.splits option.splits)
qed (auto simp: rbac_step_def register_rbac_routes_def split: prod.splits)

lemma rbac_run_keeps:
  assumes "\<And>A. rv_auth V = Some A \<Longrightarrow> role_tables_ok (au_store A) roles binds"
  shows "keeps_builtin (roles d) (roles (rbac_run V qs d))"
proof (induction qs arbitrary: d)
  case (Cons q qs)
  from Cons.IH[of "rbac_step V q d"] rbac_step_ok[OF assms, where d = d and q = q] show ?case
    by (auto simp: rbac_run_def keeps_builtin_def)
qed (simp add: rbac_run_def)

definition demo_role_store :: "mem_db store" where
  "demo_role_store = mem_store\<lparr>st_bindings := mem_table md_bindings (\<lambda>rs d. d\<lparr>md_bindings := rs\<rparr>) rb_id (\<lambda>i r. r\<lparr>rb_id := i\<rparr>)
     (\<lambda>b. rb_role_name b @ ''/'' @ rb_k8s_role_name b)\<rparr>"

lemma demo_role_tables: "role_tables_ok demo_role_store md_roles md_bindings"
proof -
  have "sql_ok (st_roles demo_role_store) md_roles rd_id rd_name (\<lambda>r r1. r1 = r\<lparr>rd_id := rd_id r1\<rparr>)"
    "sql_ok (st_bindings demo_role_store) md_bindings rb_id (\<lambda>b. rb_role_name b @ ''/'' @ rb_k8s_role_name b)
       (\<lambda>r r1. r1 = r\<lparr>rb_id := rb_id r1\<rparr>)"
    unfolding demo_role_store_def mem_store_def store.simps by (rule mem_table_sql, simp_all)+
  moreover have "leaves (st_bindings demo_role_store) md_roles" "leaves (st_roles demo_role_store) md_bindings"
    unfolding demo_role_store_def mem_store_def store.simps by (simp_all add: mem_table_leaves)
  ultimately show ?thesis unfolding role_tables_ok_def by blast
qed

definition demo_role_server :: "mem_db role_server" where
  "demo_role_server = \<lparr>rv_auth = Some (demo_auth\<lparr>au_store := demo_role_store\<rparr>), rv_namespaces = (\<lambda>d. Inr []), rv_discover = (\<lambda>d. ([], None))\<rparr>"

section \<open>Properties\<close>

text \<open>C19. Whatever requests arrive at the routes of roles and bindings, the built-in roles stay as they are,
  and only the requests of administrators have any effect.\<close>

theorem builtin_roles_stay:
  assumes "\<And>A. rv_auth V = Some A \<Longrightarrow> role_tables_ok (au_store A) roles binds" "distinct (map rd_id (roles d))"
  shows "(\<forall>r \<in> set (roles d). rd_builtin r \<longrightarrow> r \<in> set (roles (rbac_run V qs d))) \<and>
    rbac_run V qs d = rbac_run V (filter by_admin qs) d"
proof
  show "\<forall>r \<in> set (roles d). rd_builtin r \<longrightarrow> r \<in> set (roles (rbac_run V qs d))"
    using rbac_run_keeps[OF assms(1), where d = d and qs = qs] assms(2) by (simp add: keeps_builtin_def)
  show "rbac_run V qs d = rbac_run V (filter by_admin qs) d"
    by (induction qs arbitrary: d) (simp_all add: rbac_run_def rbac_step_other)
qed

theorem builtin_roles_stay_witness:
  "builtin_role ''viewer'' ''Viewer'' ''Cluster-wide read-only'' ''k8ops:viewer'' ''cluster'' \<in>
    set (md_roles (rbac_run demo_role_server [(Some (demo_user 1 ''root'' ''admin''), demo_req ''DELETE'' ''/api/rbac/roles/viewer'' [] None)]
      \<lparr>md_users = [], md_keys = [], md_roles = [builtin_role ''viewer'' ''Viewer'' ''Cluster-wide read-only'' ''k8ops:viewer'' ''cluster''],
       md_bindings = [], md_providers = []\<rparr>))"
proof -
  have "role_tables_ok (au_store A) md_roles md_bindings" if "rv_auth demo_role_server = Some A" for A
    using that demo_role_tables by (auto simp: demo_role_server_def)
  from conjunct1[OF builtin_roles_stay[OF this, where d = "\<lparr>md_users = [], md_keys = [], md_roles = [builtin_role ''viewer'' ''Viewer'' ''Cluster-wide read-only'' ''k8ops:viewer'' ''cluster''],
       md_bindings = [], md_providers = []\<rparr>"]]
  show ?thesis by (simp add: builtin_role_def)
qed

end
