(* ===== verification/Dash_Reports.thy ===== *)
theory Dash_Reports
  imports Access Audit_Log Resilience
begin

text \<open>
  The pages of reports, plans and suggestions (internal/dashboard/handlers_diagnostics.go): three
  lists, the history of the diagnostic reports with its filters and pages, and one report as
  markdown. The deciding route of the plans is in Remediation and Access.

  The client of the request lists and reads, an absent one is \<open>None\<close>. \<open>stamp\<close> formats a time as
  RFC 3339, \<open>parse_stamp\<close> and \<open>parse_date\<close> read one; \<open>srt\<close> is \<open>sort.Slice\<close> by a string, the greatest
  first, which leaves the order of equal strings open.
\<close>

section \<open>Clients and formats\<close>

record 'd report_client =
  pc_reports :: "string \<Rightarrow> 'd \<Rightarrow> string + diagnostic_report list"
  pc_report :: "string \<Rightarrow> string \<Rightarrow> 'd \<Rightarrow> string + diagnostic_report"
  pc_plans :: "'d \<Rightarrow> string + remediation_plan list"
  pc_suggestions :: "'d \<Rightarrow> string + optimization_suggestion list"

record report_env =
  pe_stamp :: "time \<Rightarrow> string"
  pe_parse_stamp :: "string \<Rightarrow> time option"
  pe_parse_date :: "string \<Rightarrow> time option"
  pe_percent :: "rat \<Rightarrow> string"

type_synonym 'a sorter = "('a \<Rightarrow> string) \<Rightarrow> 'a list \<Rightarrow> 'a list"

definition no_ctrl_client :: http_resp where
  "no_ctrl_client = write_error 503 ''controller runtime client not initialized''"

definition counted_page :: "any list \<Rightarrow> http_resp" where
  "counted_page xs = write_json (AObject [(''count'', AInt (int (length xs))), (''items'', AList xs)])"

section \<open>The lists\<close>

definition report_json :: "report_env \<Rightarrow> diagnostic_report \<Rightarrow> any" where
  "report_json E d = AObject [(''name'', AString (om_name (dr_meta d))), (''namespace'', AString (om_namespace (dr_meta d))),
     (''phase'', AString (phase_or_pending (dst_phase (dr_status d)))), (''trigger'', AString (dt_reason (drs_trigger (dr_spec d)))),
     (''summary'', AString (truncate_text (dst_summary (dr_status d)) 200)), (''confidence'', AFloat (dst_confidence (dr_status d))),
     (''findings'', AInt (int (length (dst_findings (dr_status d))))), (''created'', AString (pe_stamp E (om_created (dr_meta d))))]"

definition handle_diagnostics :: "report_env \<Rightarrow> diagnostic_report sorter \<Rightarrow> 'd report_client option \<Rightarrow> http_req \<Rightarrow> 'd \<Rightarrow> http_resp" where
  "handle_diagnostics E srt client rq d = (case client of
     None \<Rightarrow> no_ctrl_client
   | Some C \<Rightarrow> (case pc_reports C (rq_query rq ''namespace'') d of
       Inl e \<Rightarrow> write_k8s_error (Some e)
     | Inr ds \<Rightarrow> counted_page (map (report_json E) (srt (\<lambda>x. pe_stamp E (om_created (dr_meta x))) ds))))"

definition plan_json :: "report_env \<Rightarrow> remediation_plan \<Rightarrow> any" where
  "plan_json E p = AObject [(''name'', AString (om_name (rp_meta p))), (''namespace'', AString (om_namespace (rp_meta p))),
     (''phase'', AString (phase_or_pending (rst_phase (rp_status p)))), (''mode'', AString (rps_mode (rp_spec p))),
     (''actions'', AInt (int (length (rps_actions (rp_spec p))))), (''summary'', AString (truncate_text (rst_summary (rp_status p)) 200)),
     (''diagnosticRef'', AString (rps_diagnostic_ref (rp_spec p))), (''created'', AString (pe_stamp E (om_created (rp_meta p)))),
     (''approvedBy'', AString (rst_approved_by (rp_status p)))]"

definition handle_remediations :: "report_env \<Rightarrow> remediation_plan sorter \<Rightarrow> 'd report_client option \<Rightarrow> 'd \<Rightarrow> http_resp" where
  "handle_remediations E srt client d = (case client of
     None \<Rightarrow> no_ctrl_client
   | Some C \<Rightarrow> (case pc_plans C d of
       Inl e \<Rightarrow> write_k8s_error (Some e)
     | Inr ps \<Rightarrow> counted_page (map (plan_json E) (srt (\<lambda>x. pe_stamp E (om_created (rp_meta x))) ps))))"

definition suggestion_json :: "report_env \<Rightarrow> optimization_suggestion \<Rightarrow> any" where
  "suggestion_json E p = AObject [(''name'', AString (om_name (op_meta p))), (''namespace'', AString (om_namespace (op_meta p))),
     (''phase'', AString (phase_or_pending (ost_phase (op_status p)))), (''scope'', AString (os_type (osp_scope (op_spec p)))),
     (''summary'', AString (truncate_text (ost_summary (op_status p)) 200)),
     (''suggestions'', AInt (int (length (ost_suggestions (op_status p))))),
     (''estimatedSavings'', AString (ost_total_estimated_savings (op_status p))),
     (''created'', AString (pe_stamp E (om_created (op_meta p))))]"

definition handle_optimizations :: "report_env \<Rightarrow> optimization_suggestion sorter \<Rightarrow> 'd report_client option \<Rightarrow> 'd \<Rightarrow> http_resp" where
  "handle_optimizations E srt client d = (case client of
     None \<Rightarrow> no_ctrl_client
   | Some C \<Rightarrow> (case pc_suggestions C d of
       Inl e \<Rightarrow> write_k8s_error (Some e)
     | Inr ps \<Rightarrow> counted_page (map (suggestion_json E) (srt (\<lambda>x. pe_stamp E (om_created (op_meta x))) ps))))"

section \<open>The history\<close>

text \<open>A bound that cannot be read is no bound, nor is the zero time; a date as the upper bound is the last second of its day.\<close>

definition set_bound :: "time option \<Rightarrow> time option" where
  "set_bound b = (if b = Some zero_time then None else b)"

definition history_from :: "report_env \<Rightarrow> string \<Rightarrow> time option" where
  "history_from E s = set_bound (if s = [] then None else case pe_parse_stamp E s of Some t \<Rightarrow> Some t | None \<Rightarrow> pe_parse_date E s)"

definition history_to :: "report_env \<Rightarrow> string \<Rightarrow> time option" where
  "history_to E s = set_bound (if s = [] then None else case pe_parse_stamp E s of Some t \<Rightarrow> Some t
     | None \<Rightarrow> map_option (\<lambda>t. t + (24 * 60 * minute - second)) (pe_parse_date E s))"

definition history_selects :: "string \<Rightarrow> time option \<Rightarrow> time option \<Rightarrow> diagnostic_report \<Rightarrow> bool" where
  "history_selects status frm to d \<longleftrightarrow>
     (status = [] \<or> equal_fold (phase_or_pending (dst_phase (dr_status d))) status) \<and>
     (case frm of None \<Rightarrow> True | Some t \<Rightarrow> t \<le> om_created (dr_meta d)) \<and>
     (case to of None \<Rightarrow> True | Some t \<Rightarrow> om_created (dr_meta d) \<le> t)"

definition history_item :: "report_env \<Rightarrow> diagnostic_report \<Rightarrow> any" where
  "history_item E d = AObject [(''id'', AString (om_name (dr_meta d))), (''namespace'', AString (om_namespace (dr_meta d))),
     (''summary'', AString (truncate_text (dst_summary (dr_status d)) 200)),
     (''status'', AString (phase_or_pending (dst_phase (dr_status d)))), (''createdAt'', AString (pe_stamp E (om_created (dr_meta d))))]"

definition page_number :: "string \<Rightarrow> int" where
  "page_number s = (case (if s = [] then None else atoi s) of Some v \<Rightarrow> if 0 < v then v else 1 | None \<Rightarrow> 1)"

definition page_size :: "string \<Rightarrow> int" where
  "page_size s = (case (if s = [] then None else atoi s) of Some v \<Rightarrow> if 0 < v \<and> v \<le> 100 then v else 20 | None \<Rightarrow> 20)"

definition total_pages :: "int \<Rightarrow> int \<Rightarrow> int" where
  "total_pages n size_of = (let k = go_div (n + size_of - 1) size_of in if k = 0 then 1 else k)"

text \<open>The bounds of the page, computed in 64 bits and cut to the length, and the slice; \<open>None\<close> is a panic.\<close>

definition history_slice :: "int \<Rightarrow> int \<Rightarrow> 'a list \<Rightarrow> 'a list option" where
  "history_slice page size_of xs =
     (let n = int (length xs); start = wrap64 (wrap64 (page - 1) * size_of); stop = wrap64 (start + size_of) in
      go_slice xs (min start n) (min stop n))"

definition history_answer :: "report_env \<Rightarrow> int \<Rightarrow> int \<Rightarrow> diagnostic_report list \<Rightarrow> http_resp option" where
  "history_answer E page size_of ds = map_option (\<lambda>xs. write_json (AObject [(''count'', AInt (int (length ds))), (''page'', AInt page),
       (''pageSize'', AInt size_of), (''totalPages'', AInt (total_pages (int (length ds)) size_of)),
       (''items'', AList (map (history_item E) xs))])) (history_slice page size_of ds)"

definition history_list :: "report_env \<Rightarrow> diagnostic_report sorter \<Rightarrow> http_req \<Rightarrow> diagnostic_report list \<Rightarrow> diagnostic_report list" where
  "history_list E srt rq ds = srt (\<lambda>x. pe_stamp E (om_created (dr_meta x)))
     (filter (history_selects (rq_query rq ''status'') (history_from E (rq_query rq ''from'')) (history_to E (rq_query rq ''to''))) ds)"

definition handle_diagnostics_history :: "report_env \<Rightarrow> diagnostic_report sorter \<Rightarrow> 'd report_client option \<Rightarrow> http_req \<Rightarrow> 'd \<Rightarrow>
    http_resp option" where
  "handle_diagnostics_history E srt client rq d = (case client of
     None \<Rightarrow> Some no_ctrl_client
   | Some C \<Rightarrow> (case pc_reports C (rq_query rq ''namespace'') d of
       Inl e \<Rightarrow> Some (write_k8s_error (Some e))
     | Inr ds \<Rightarrow> history_answer E (page_number (rq_query rq ''page'')) (page_size (rq_query rq ''pageSize'')) (history_list E srt rq ds)))"

section \<open>One report\<close>

definition bq :: "string \<Rightarrow> string" where
  "bq s = [CHR 0x60] @ s @ [CHR 0x60]"

definition md_row :: "string \<Rightarrow> string \<Rightarrow> string" where
  "md_row k v = ''| '' @ k @ '' | '' @ v @ '' |'' @ newline"

definition when_set :: "string \<Rightarrow> string \<Rightarrow> string" where
  "when_set s t = (if s = [] then [] else t)"

definition evidence_md :: "evidence \<Rightarrow> string" where
  "evidence_md e = ''- *'' @ ev_type e @ ''* ('' @ ev_source e @ ''): '' @ bq (truncate_text (ev_message e) 200) @ newline"

definition action_md :: "suggested_action \<Rightarrow> string" where
  "action_md a = ''- ['' @ sa_type a @ ''/'' @ sa_risk a @ '' risk] '' @ sa_description a @ newline"

definition listed_md :: "string \<Rightarrow> string list \<Rightarrow> string" where
  "listed_md title ls = (if ls = [] then [] else ''**'' @ title @ '':**'' @ newline @ newline @ concat ls @ newline)"

definition finding_md :: "nat \<times> finding \<Rightarrow> string" where
  "finding_md = (\<lambda>(i, f). ''### '' @ show_nat (Suc i) @ ''. ['' @ fi_severity f @ ''] '' @ fi_category f @ newline @ newline @
     fi_description f @ newline @ newline @
     when_set (fi_root_cause f) (''**Root Cause:** '' @ fi_root_cause f @ newline @ newline) @
     listed_md ''Evidence'' (map evidence_md (fi_evidence f)) @
     listed_md ''Suggested Actions'' (map action_md (fi_suggested_actions f)))"

definition report_md :: "report_env \<Rightarrow> diagnostic_report \<Rightarrow> string" where
  "report_md E d = (let s = dr_status d; reason = dt_reason (drs_trigger (dr_spec d)) in
     ''# Diagnostic Report: '' @ om_name (dr_meta d) @ newline @ newline @
     ''| Field | Value |'' @ newline @ ''|---|---|'' @ newline @
     md_row ''Namespace'' (bq (om_namespace (dr_meta d))) @
     when_set (dst_phase s) (md_row ''Phase'' (''**'' @ dst_phase s @ ''**'')) @
     when_set reason (md_row ''Trigger'' reason) @
     (if 0 < dst_confidence s then md_row ''Confidence'' (pe_percent E (f64_mul (dst_confidence s) 100) @ ''%'') else []) @
     when_set (dst_ai_model s) (md_row ''AI Model'' (bq (dst_ai_model s))) @
     (case dst_analyzed_at s of None \<Rightarrow> [] | Some t \<Rightarrow> md_row ''Analyzed At'' (pe_stamp E t)) @
     when_set (dst_error s) (md_row ''Error'' (dst_error s)) @
     when_set (dst_summary s) (newline @ ''## Summary'' @ newline @ newline @ dst_summary s @ newline) @
     (if dst_findings s = [] then [] else newline @ ''## Findings ('' @ show_nat (length (dst_findings s)) @ '')'' @ newline @ newline @
        concat (map finding_md (List.enumerate 0 (dst_findings s)))))"

definition handle_diagnostic_detail :: "report_env \<Rightarrow> 'd report_client \<Rightarrow> http_req \<Rightarrow> 'd \<Rightarrow> http_resp" where
  "handle_diagnostic_detail E C rq d = (case split_on (CHR ''/'') (trim_prefix (rq_path rq) ''/api/diagnostics/'') of
     ns # name # _ \<Rightarrow> (case pc_report C ns name d of
         Inl e \<Rightarrow> write_error 404 e
       | Inr r \<Rightarrow> write_json (AObject [(''name'', AString (om_name (dr_meta r))), (''namespace'', AString (om_namespace (dr_meta r))),
           (''phase'', AString (dst_phase (dr_status r))), (''markdown'', AString (report_md E r))]))
   | _ \<Rightarrow> write_error 400 ''expected /api/diagnostics/{namespace}/{name}'')"

section \<open>Lemmas\<close>

lemma history_slice_page:
  assumes "0 < k" "int (Suc i) * int k \<le> max_int64"
  shows "history_slice (int i + 1) (int k) xs = Some (take k (drop (i * k) xs))"
proof -
  have l: "min_int64 \<le> x" if "0 \<le> x" for x using that by (simp add: min_int64_def)
  have "int i * 1 \<le> int (Suc i) * int k" using assms(1) by (intro mult_mono) auto
  then have "int i \<le> max_int64" using assms(2) by linarith
  then have p: "wrap64 (int i + 1 - 1) = int i" by (simp add: wrap64_id l)
  have "int i * int k \<le> max_int64" "int i * int k + int k \<le> max_int64" using assms(2) by (auto simp: algebra_simps)
  then have w: "wrap64 (int i * int k) = int (i * k)" "wrap64 (int (i * k) + int k) = int (i * k) + int k"
    by (simp_all add: wrap64_id l)
  show ?thesis
  proof (cases "i * k \<le> length xs")
    case True
    then show ?thesis unfolding history_slice_def Let_def p w
      by (cases "i * k + k \<le> length xs") (auto simp: go_slice_def min_def simp del: of_nat_mult)
  next
    case False
    then show ?thesis unfolding history_slice_def Let_def p w
      by (auto simp: go_slice_def min_def simp del: of_nat_mult)
  qed
qed

lemma total_pages_bounds:
  assumes "0 < k"
  shows "n \<le> nat (total_pages (int n) (int k)) * k" "int (nat (total_pages (int n) (int k))) * int k \<le> int n + int k"
proof -
  define q where "q = (n + k - 1) div k"
  have "go_div (int n + int k - 1) (int k) = int q"
    using assms by (simp add: go_div_nonneg q_def zdiv_int of_nat_diff)
  then have t: "nat (total_pages (int n) (int k)) = (if q = 0 then 1 else q)" by (simp add: total_pages_def Let_def)
  have "n + k - 1 < (q + 1) * k" using assms dividend_less_div_times[of k "n + k - 1"] by (simp add: q_def algebra_simps)
  then have "n \<le> q * k" using assms by (simp add: algebra_simps)
  moreover have "q * k \<le> n + k - 1" by (simp add: q_def)
  ultimately show "n \<le> nat (total_pages (int n) (int k)) * k" "int (nat (total_pages (int n) (int k))) * int k \<le> int n + int k"
    unfolding t using assms by (auto simp flip: of_nat_mult of_nat_add)
qed

section \<open>Properties\<close>

text \<open>C40. The pages of the history: with a page size that is accepted, the pages from the first to the last
  that the answer counts give every report that was selected, once and in order; but a page number
  close to the greatest integer makes the slice go below zero, which panics, whatever the reports.\<close>

theorem history_pages:
  assumes "0 < k" "k \<le> 100" "int (length xs) + 100 \<le> max_int64"
  shows "\<exists>ps. map (\<lambda>i. history_slice (int i + 1) (int k) xs) [0..<nat (total_pages (int (length xs)) (int k))] = map Some ps \<and>
      concat ps = xs \<and> (\<forall>p \<in> set ps. length p \<le> k) \<and>
    history_slice (2 ^ 62) 20 xs = None"
proof (intro exI conjI)
  let ?n = "nat (total_pages (int (length xs)) (int k))"
  let ?ps = "map (\<lambda>i. take k (drop (i * k) xs)) [0..<?n]"
  note b = total_pages_bounds[OF assms(1), of "length xs"]
  have "int (Suc i) * int k \<le> max_int64" if "i < ?n" for i
  proof -
    have "int (Suc i) * int k \<le> int ?n * int k" using that by (intro mult_right_mono) auto
    with b(2) assms(2,3) show ?thesis by linarith
  qed
  then have "history_slice (int i + 1) (int k) xs = Some (take k (drop (i * k) xs))" if "i < ?n" for i
    using history_slice_page[OF assms(1)] that by blast
  then show "map (\<lambda>i. history_slice (int i + 1) (int k) xs) [0..<?n] = map Some ?ps" by auto
  show "concat ?ps = xs" using b(1) by (simp add: concat_chunks)
  show "\<forall>p \<in> set ?ps. length p \<le> k" by simp
  show "history_slice (2 ^ 62) 20 xs = None"
    by (simp add: history_slice_def wrap64_def go_slice_def Let_def)
qed

theorem history_pages_witness:
  "\<exists>ps. map (\<lambda>i. history_slice (int i + 1) 2 ''abcde'') [0..<nat (total_pages 5 2)] = map Some ps \<and> concat ps = ''abcde''"
  using history_pages[of 2 "''abcde''"] by (auto simp: max_int64_def)

end
