(* ===== verification/Drain_Impact.thy ===== *)
theory Drain_Impact
  imports Analysis
begin

text \<open>
  The simulated drain of one node (internal/dashboard/handlers_drain_impact.go): the pods that would be evicted, whether they
  can be rescheduled, the capacity of the other nodes and the verdict. A quantity is its value as a float, as the library
  approximates it; the order of \<open>sort.Slice\<close> is a parameter.
\<close>

section \<open>Objects\<close>

text \<open>A taint is its key, value and effect; an owner its kind, its name and whether it is the controller.\<close>

record drainable_node =
  dn_name :: string
  dn_cpu :: rat
  dn_mem :: rat
  dn_slots :: "int option"
  dn_taints :: "(string \<times> string \<times> string) list"
  dn_labels :: "string \<rightharpoonup> string"

record drained_pod =
  dw_namespace :: string
  dw_name :: string
  dw_node :: string
  dw_phase :: string
  dw_owners :: "(string \<times> string \<times> bool) list"
  dw_mirror :: string
  dw_requests :: "(rat option \<times> rat option) list"
  dw_selector :: "(string \<times> string) list"
  dw_tolerations :: "(string \<times> string) list"

record drain_node_info =
  dj_name :: string
  dj_role :: string
  dj_cpu :: rat
  dj_mem :: rat
  dj_slots :: int
  dj_taints :: "string list"
  dj_zone :: string

definition label_or_nil :: "drainable_node \<Rightarrow> string \<Rightarrow> string" where
  "label_or_nil n k = (case dn_labels n k of Some v \<Rightarrow> v | None \<Rightarrow> [])"

definition extract_node_info :: "drainable_node \<Rightarrow> drain_node_info" where
  "extract_node_info n = \<lparr>dj_name = dn_name n,
     dj_role = (if dn_labels n ''node-role.kubernetes.io/control-plane'' \<noteq> None then ''control-plane''
       else if dn_labels n ''node-role.kubernetes.io/master'' \<noteq> None then ''master'' else ''worker''),
     dj_cpu = dn_cpu n, dj_mem = f64_div (dn_mem n) 1000000000, dj_slots = (case dn_slots n of Some k \<Rightarrow> k | None \<Rightarrow> 0),
     dj_taints = map (\<lambda>(k, v, e). k @ ''='' @ v @ '':'' @ e) (dn_taints n), dj_zone = label_or_nil n ''topology.kubernetes.io/zone''\<rparr>"

section \<open>Capacity\<close>

record drain_capacity =
  dc_nodes :: nat
  dc_cpu :: rat
  dc_mem :: rat
  dc_slots :: int
  dc_cpu_needed :: rat
  dc_mem_needed :: rat
  dc_slots_needed :: int

definition others_of :: "string \<Rightarrow> drainable_node list \<Rightarrow> drainable_node list" where
  "others_of target ns = filter (\<lambda>n. dn_name n \<noteq> target) ns"

definition uses_others :: "string \<Rightarrow> drained_pod \<Rightarrow> bool" where
  "uses_others target p \<longleftrightarrow> dw_node p \<noteq> [] \<and> dw_node p \<noteq> target \<and> (dw_phase p = ''Running'' \<or> dw_phase p = ''Pending'')"

definition free_cpu :: "drainable_node list \<Rightarrow> drained_pod list \<Rightarrow> rat" where
  "free_cpu ns ps = fold (\<lambda>p x. fold (\<lambda>(c, m) x. case c of Some v \<Rightarrow> f64_sub x v | None \<Rightarrow> x) (dw_requests p) x) ps
     (fold (\<lambda>n x. f64_add x (dn_cpu n)) ns 0)"

definition free_mem :: "drainable_node list \<Rightarrow> drained_pod list \<Rightarrow> rat" where
  "free_mem ns ps = fold (\<lambda>p x. fold (\<lambda>(c, m) x. case m of Some v \<Rightarrow> f64_sub x (f64_div v 1000000000) | None \<Rightarrow> x) (dw_requests p) x) ps
     (fold (\<lambda>n x. f64_add x (f64_div (dn_mem n) 1000000000)) ns 0)"

definition free_slots :: "drainable_node list \<Rightarrow> drained_pod list \<Rightarrow> int" where
  "free_slots ns ps = sum_list (List.map_filter dn_slots ns) - int (length ps)"

definition pod_cpu :: "drained_pod \<Rightarrow> rat" where
  "pod_cpu p = fold (\<lambda>(c, m) x. case c of Some v \<Rightarrow> f64_add x v | None \<Rightarrow> x) (dw_requests p) 0"

definition pod_mem :: "drained_pod \<Rightarrow> rat" where
  "pod_mem p = fold (\<lambda>(c, m) x. case m of Some v \<Rightarrow> f64_add x (f64_div v 1000000000) | None \<Rightarrow> x) (dw_requests p) 0"

definition drain_capacity_of :: "string \<Rightarrow> drainable_node list \<Rightarrow> drained_pod list \<Rightarrow> drained_pod list \<Rightarrow> drain_capacity" where
  "drain_capacity_of target ns ps evicted = (let others = others_of target ns; using = filter (uses_others target) ps in
     \<lparr>dc_nodes = length others, dc_cpu = free_cpu others using, dc_mem = free_mem others using, dc_slots = free_slots others using,
      dc_cpu_needed = fold (\<lambda>p x. f64_add x (pod_cpu p)) evicted 0, dc_mem_needed = fold (\<lambda>p x. f64_add x (pod_mem p)) evicted 0,
      dc_slots_needed = int (length evicted)\<rparr>)"

definition fits_cpu :: "drain_capacity \<Rightarrow> bool" where "fits_cpu c \<longleftrightarrow> dc_cpu_needed c \<le> dc_cpu c"
definition fits_mem :: "drain_capacity \<Rightarrow> bool" where "fits_mem c \<longleftrightarrow> dc_mem_needed c \<le> dc_mem c"
definition fits_slots :: "drain_capacity \<Rightarrow> bool" where "fits_slots c \<longleftrightarrow> dc_slots_needed c \<le> dc_slots c"
definition overall_fit :: "drain_capacity \<Rightarrow> bool" where "overall_fit c \<longleftrightarrow> fits_cpu c \<and> fits_mem c \<and> fits_slots c"

section \<open>Pods\<close>

definition controller_of :: "drained_pod \<Rightarrow> string \<times> string" where
  "controller_of p = (case find (\<lambda>(kind, name, controls). controls) (dw_owners p) of Some (kind, name, _) \<Rightarrow> (kind, name) | None \<Rightarrow> ([], []))"

definition daemon_pod :: "drained_pod \<Rightarrow> bool" where
  "daemon_pod p \<longleftrightarrow> fst (controller_of p) = ''DaemonSet''"

definition static_pod :: "drained_pod \<Rightarrow> bool" where
  "static_pod p \<longleftrightarrow> fst (controller_of p) = [] \<and> dw_mirror p \<noteq> []"

definition evicted_pods :: "string \<Rightarrow> drained_pod list \<Rightarrow> drained_pod list" where
  "evicted_pods target ps = filter (\<lambda>p. dw_node p = target \<and> \<not> daemon_pod p \<and> \<not> static_pod p) ps"

definition selector_fits :: "drainable_node list \<Rightarrow> drained_pod \<Rightarrow> bool" where
  "selector_fits others p \<longleftrightarrow> dw_selector p = [] \<or> list_ex (\<lambda>n. list_all (\<lambda>(k, v). label_or_nil n k = v) (dw_selector p)) others"

definition drain_tolerates :: "drained_pod \<Rightarrow> string \<times> string \<times> string \<Rightarrow> bool" where
  "drain_tolerates p = (\<lambda>(key, value, effect). list_ex (\<lambda>(k, e). k = key \<and> (e = [] \<or> e = effect)) (dw_tolerations p))"

definition barring_taints :: "drainable_node list \<Rightarrow> drained_pod \<Rightarrow> (string \<times> string \<times> string) list" where
  "barring_taints others p = filter (\<lambda>t. \<not> drain_tolerates p t \<and> snd (snd t) = ''NoSchedule'') (concat (map dn_taints others))"

record drain_pod_impact =
  dz_name :: string
  dz_namespace :: string
  dz_kind :: string
  dz_owner :: string
  dz_pdb :: bool
  dz_can_reschedule :: bool
  dz_reason :: string
  dz_risk :: string

text \<open>The reason is that of the last taint; taints count only when at most one node remains.\<close>

definition rescheduling :: "drainable_node list \<Rightarrow> drained_pod \<Rightarrow> bool \<times> string" where
  "rescheduling others p =
     (if \<not> selector_fits others p then (False, ''NodeSelector does not match any remaining node'')
      else if length others \<le> 1 \<and> barring_taints others p \<noteq> [] then
        (False, ''Taint '' @ fst (last (barring_taints others p)) @ '' on remaining node not tolerated'')
      else (True, []))"

text \<open>\<open>pdbs\<close>: the namespace of each budget and whether its selector has labels.\<close>

definition has_pdb :: "(string \<times> bool) list \<Rightarrow> string \<Rightarrow> bool" where
  "has_pdb pdbs ns \<longleftrightarrow> (ns, True) \<in> set pdbs"

definition pod_impact :: "(string \<times> bool) list \<Rightarrow> drainable_node list \<Rightarrow> drained_pod \<Rightarrow> drain_pod_impact" where
  "pod_impact pdbs others p = \<lparr>dz_name = dw_name p, dz_namespace = dw_namespace p, dz_kind = fst (controller_of p), dz_owner = snd (controller_of p),
     dz_pdb = has_pdb pdbs (dw_namespace p), dz_can_reschedule = fst (rescheduling others p), dz_reason = snd (rescheduling others p),
     dz_risk = (if has_pdb pdbs (dw_namespace p) then ''PDB may block eviction'' else [])\<rparr>"

section \<open>The verdict\<close>

record drain_summary =
  dy_total :: nat
  dy_daemon :: nat
  dy_static :: nat
  dy_protected :: nat
  dy_reschedulable :: nat
  dy_stranded :: nat
  dy_critical :: nat

record drain_blip =
  dv_service :: string
  dv_namespace :: string
  dv_type :: string
  dv_duration :: string
  dv_description :: string

definition impact_type_for_pod :: "drain_pod_impact \<Rightarrow> string" where
  "impact_type_for_pod i = (if \<not> dz_can_reschedule i then ''unavailable'' else if dz_pdb i then ''degraded'' else ''transient'')"

definition impact_desc_for_pod :: "drain_pod_impact \<Rightarrow> string" where
  "impact_desc_for_pod i = (if \<not> dz_can_reschedule i then
       (if dz_reason i \<noteq> [] then dz_reason i else ''Pod cannot be rescheduled on remaining nodes'')
     else if dz_pdb i then ''PDB may delay or block eviction'' else ''Brief disruption during rescheduling'')"

definition drain_blip_of :: "drain_pod_impact \<Rightarrow> drain_blip" where
  "drain_blip_of i = \<lparr>dv_service = dz_owner i, dv_namespace = dz_namespace i, dv_type = impact_type_for_pod i, dv_duration = ''transient'',
     dv_description = impact_desc_for_pod i\<rparr>"

definition drain_summary_of :: "string \<Rightarrow> drained_pod list \<Rightarrow> drain_pod_impact list \<Rightarrow> drain_summary" where
  "drain_summary_of target ps xs = (let here = filter (\<lambda>p. dw_node p = target) ps; stranded = how_many (\<lambda>i. \<not> dz_can_reschedule i) xs in
     \<lparr>dy_total = length xs, dy_daemon = how_many daemon_pod here, dy_static = how_many static_pod here, dy_protected = how_many dz_pdb xs,
      dy_reschedulable = how_many dz_can_reschedule xs, dy_stranded = stranded, dy_critical = stranded + how_many dz_pdb xs\<rparr>)"

text \<open>Whether the drain is safe, and its risk.\<close>

definition drain_verdict :: "drain_capacity \<Rightarrow> nat \<Rightarrow> bool \<times> string" where
  "drain_verdict c critical =
     (if dc_nodes c = 0 then (False, ''critical'')
      else if \<not> overall_fit c then (False, ''high'')
      else if 0 < critical then (critical \<le> 2, if 5 < critical then ''high'' else ''medium'')
      else (True, ''low''))"

text \<open>The Chinese texts of the recommendations, as the bytes of their UTF-8 encoding.\<close>

definition zh_cpu_short :: string where
  "zh_cpu_short = ''CPU '' @ [CHR 0xE4, CHR 0xB8, CHR 0x8D, CHR 0xE8, CHR 0xB6, CHR 0xB3] @ '': '' @ [CHR 0xE5, CHR 0x89, CHR 0xA9,
     CHR 0xE4, CHR 0xBD, CHR 0x99] @ '' ''"

definition zh_mem_short :: string where
  "zh_mem_short = [CHR 0xE5, CHR 0x86, CHR 0x85, CHR 0xE5, CHR 0xAD, CHR 0x98, CHR 0xE4, CHR 0xB8, CHR 0x8D, CHR 0xE8, CHR 0xB6,
     CHR 0xB3] @ '': '' @ [CHR 0xE5, CHR 0x89, CHR 0xA9, CHR 0xE4, CHR 0xBD, CHR 0x99] @ '' ''"

definition zh_slots_short :: string where
  "zh_slots_short = ''Pod '' @ [CHR 0xE6, CHR 0xA7, CHR 0xBD, CHR 0xE4, CHR 0xBD, CHR 0x8D, CHR 0xE4, CHR 0xB8, CHR 0x8D, CHR 0xE8, CHR 0xB6,
     CHR 0xB3] @ '': '' @ [CHR 0xE5, CHR 0x89, CHR 0xA9, CHR 0xE4, CHR 0xBD, CHR 0x99] @ '' ''"

definition zh_cores_needed :: string where
  "zh_cores_needed = '' '' @ [CHR 0xE6, CHR 0xA0, CHR 0xB8, CHR 0xEF, CHR 0xBC, CHR 0x8C, CHR 0xE9, CHR 0x9C, CHR 0x80, CHR 0xE8, CHR 0xA6,
     CHR 0x81] @ '' ''"

definition zh_cores :: string where
  "zh_cores = '' '' @ [CHR 0xE6, CHR 0xA0, CHR 0xB8]"

definition zh_gb_needed :: string where
  "zh_gb_needed = '' GB'' @ [CHR 0xEF, CHR 0xBC, CHR 0x8C, CHR 0xE9, CHR 0x9C, CHR 0x80, CHR 0xE8, CHR 0xA6, CHR 0x81] @ '' ''"

definition zh_needed :: string where
  "zh_needed = [CHR 0xEF, CHR 0xBC, CHR 0x8C, CHR 0xE9, CHR 0x9C, CHR 0x80, CHR 0xE8, CHR 0xA6, CHR 0x81] @ '' ''"

definition zh_protected :: string where
  "zh_protected = '' '' @ [CHR 0xE4, CHR 0xB8, CHR 0xAA] @ '' Pod '' @ [CHR 0xE5, CHR 0x8F, CHR 0x97] @ '' PDB '' @ [CHR 0xE4, CHR 0xBF,
     CHR 0x9D, CHR 0xE6, CHR 0x8A, CHR 0xA4, CHR 0xEF, CHR 0xBC, CHR 0x8C, CHR 0xE9, CHR 0xA9, CHR 0xB1, CHR 0xE9, CHR 0x80,
     CHR 0x90, CHR 0xE5, CHR 0x8F, CHR 0xAF, CHR 0xE8, CHR 0x83, CHR 0xBD, CHR 0xE8, CHR 0xA2, CHR 0xAB, CHR 0xE6, CHR 0x8B,
     CHR 0x92, CHR 0xE7, CHR 0xBB, CHR 0x9D]"

definition zh_stranded :: string where
  "zh_stranded = '' '' @ [CHR 0xE4, CHR 0xB8, CHR 0xAA] @ '' Pod '' @ [CHR 0xE6, CHR 0x97, CHR 0xA0, CHR 0xE6, CHR 0xB3, CHR 0x95,
     CHR 0xE9, CHR 0x87, CHR 0x8D, CHR 0xE6, CHR 0x96, CHR 0xB0, CHR 0xE8, CHR 0xB0, CHR 0x83, CHR 0xE5, CHR 0xBA, CHR 0xA6,
     CHR 0xEF, CHR 0xBC, CHR 0x8C, CHR 0xE5, CHR 0xB0, CHR 0x86, CHR 0xE5, CHR 0xAF, CHR 0xBC, CHR 0xE8, CHR 0x87, CHR 0xB4,
     CHR 0xE6, CHR 0x9C, CHR 0x8D, CHR 0xE5, CHR 0x8A, CHR 0xA1, CHR 0xE4, CHR 0xB8, CHR 0xAD, CHR 0xE6, CHR 0x96, CHR 0xAD]"

definition zh_safe :: string where
  "zh_safe = [CHR 0xE8, CHR 0x8A, CHR 0x82, CHR 0xE7, CHR 0x82, CHR 0xB9, CHR 0xE5, CHR 0x8F, CHR 0xAF, CHR 0xE4, CHR 0xBB, CHR 0xA5,
     CHR 0xE5, CHR 0xAE, CHR 0x89, CHR 0xE5, CHR 0x85, CHR 0xA8, CHR 0xE6, CHR 0x8E, CHR 0x92, CHR 0xE7, CHR 0xA9, CHR 0xBA,
     CHR 0xEF, CHR 0xBC, CHR 0x8C, CHR 0xE5, CHR 0xBB, CHR 0xBA, CHR 0xE8, CHR 0xAE, CHR 0xAE, CHR 0xE5, CHR 0x9C, CHR 0xA8,
     CHR 0xE4, CHR 0xBD, CHR 0x8E, CHR 0xE5, CHR 0xB3, CHR 0xB0, CHR 0xE6, CHR 0x9C, CHR 0x9F, CHR 0xE6, CHR 0x89, CHR 0xA7,
     CHR 0xE8, CHR 0xA1, CHR 0x8C]"

definition zh_unsafe :: string where
  "zh_unsafe = [CHR 0xE5, CHR 0xBB, CHR 0xBA, CHR 0xE8, CHR 0xAE, CHR 0xAE, CHR 0xE5, CHR 0x85, CHR 0x88, CHR 0xE6, CHR 0x89, CHR 0xA9,
     CHR 0xE5, CHR 0xAE, CHR 0xB9, CHR 0xE8, CHR 0x8A, CHR 0x82, CHR 0xE7, CHR 0x82, CHR 0xB9, CHR 0xE6, CHR 0x88, CHR 0x96,
     CHR 0xE8, CHR 0xBF, CHR 0x81, CHR 0xE7, CHR 0xA7, CHR 0xBB, CHR 0xE5, CHR 0x85, CHR 0xB3, CHR 0xE9, CHR 0x94, CHR 0xAE,
     CHR 0xE5, CHR 0xB7, CHR 0xA5, CHR 0xE4, CHR 0xBD, CHR 0x9C, CHR 0xE8, CHR 0xB4, CHR 0x9F, CHR 0xE8, CHR 0xBD, CHR 0xBD,
     CHR 0xE5, CHR 0x90, CHR 0x8E, CHR 0xE5, CHR 0x86, CHR 0x8D, CHR 0xE6, CHR 0x8E, CHR 0x92, CHR 0xE7, CHR 0xA9, CHR 0xBA]"

definition build_drain_recs :: "drain_capacity \<Rightarrow> drain_summary \<Rightarrow> bool \<Rightarrow> string list" where
  "build_drain_recs c s safe =
     (if dc_nodes c = 0 then [''CRITICAL: This is the only node '' @ em_dash @ '' draining will cause total service outage'']
      else entry_if (\<not> fits_cpu c) (zh_cpu_short @ fixed1 (dc_cpu c) @ zh_cores_needed @ fixed1 (dc_cpu_needed c) @ zh_cores) @
        entry_if (\<not> fits_mem c) (zh_mem_short @ fixed1 (dc_mem c) @ zh_gb_needed @ fixed1 (dc_mem_needed c) @ '' GB'') @
        entry_if (\<not> fits_slots c) (zh_slots_short @ show_int (dc_slots c) @ zh_needed @ show_int (dc_slots_needed c)) @
        entry_if (0 < dy_protected s) (show_nat (dy_protected s) @ zh_protected) @
        entry_if (0 < dy_stranded s) (show_nat (dy_stranded s) @ zh_stranded) @
        [if safe then zh_safe else zh_unsafe])"

record drain_report =
  dr_info :: drain_node_info
  dr_summary :: drain_summary
  dr_affected :: "drain_pod_impact list"
  dr_capacity :: drain_capacity
  dr_services :: "drain_blip list"
  dr_safe :: bool
  dr_risk :: string
  dr_recs :: "string list"

definition impact_before :: "drain_pod_impact \<Rightarrow> drain_pod_impact \<Rightarrow> bool" where
  "impact_before a b = (if dz_can_reschedule a \<noteq> dz_can_reschedule b then \<not> dz_can_reschedule a else dz_pdb a \<and> \<not> dz_pdb b)"

definition drain_impact_of :: "drain_pod_impact slice_sort \<Rightarrow> drainable_node \<Rightarrow> drainable_node list \<Rightarrow> drained_pod list \<Rightarrow> (string \<times> bool) list \<Rightarrow> drain_report" where
  "drain_impact_of srt node ns ps pdbs = (let target = dn_name node; evicted = evicted_pods target ps;
       xs = map (pod_impact pdbs (others_of target ns)) evicted; c = drain_capacity_of target ns ps evicted;
       s = drain_summary_of target ps xs; v = drain_verdict c (dy_critical s)
     in \<lparr>dr_info = extract_node_info node, dr_summary = s, dr_affected = srt impact_before xs, dr_capacity = c,
         dr_services = map drain_blip_of (filter (\<lambda>i. \<not> dz_can_reschedule i \<or> dz_pdb i) xs), dr_safe = fst v, dr_risk = snd v,
         dr_recs = build_drain_recs c s (fst v)\<rparr>)"

record 'd drain_client =
  dk_nodes :: "'d \<Rightarrow> string + drainable_node list"
  dk_pods :: "'d \<Rightarrow> string + drained_pod list"
  dk_pdbs :: "'d \<Rightarrow> string + (string \<times> bool) list"

text \<open>\<open>quote\<close> is \<open>%q\<close>.\<close>

definition handle_drain_impact :: "drain_pod_impact slice_sort \<Rightarrow> (string \<Rightarrow> string) \<Rightarrow> 'd drain_client option \<Rightarrow> http_req \<Rightarrow> 'd \<Rightarrow>
    http_resp + drain_report" where
  "handle_drain_impact srt quote client rq d = (case client of
     None \<Rightarrow> Inl (write_error 503 ''kubernetes client not available'')
   | Some C \<Rightarrow> let target = rq_query rq ''node'' in
      if target = [] then Inl (write_error 400 (''missing '' @ [CHR 0x27] @ ''node'' @ [CHR 0x27] @ '' query parameter''))
      else let ns = listed (dk_nodes C d) in
       (case find (\<lambda>n. dn_name n = target) ns of
          None \<Rightarrow> Inl (write_error 404 (''node '' @ quote target @ '' not found''))
        | Some node \<Rightarrow> Inr (drain_impact_of srt node ns (listed (dk_pods C d)) (listed (dk_pdbs C d)))))"

section \<open>Lemmas\<close>

lemma drain_answer:
  assumes "handle_drain_impact srt quote client rq d = Inr r"
  obtains C node where "client = Some C" "find (\<lambda>n. dn_name n = rq_query rq ''node'') (listed (dk_nodes C d)) = Some node"
    "dn_name node = rq_query rq ''node''" "rq_query rq ''node'' \<noteq> []"
    "r = drain_impact_of srt node (listed (dk_nodes C d)) (listed (dk_pods C d)) (listed (dk_pdbs C d))"
  using assms by (auto simp: handle_drain_impact_def Let_def find_Some_iff split: option.splits if_splits)

text \<open>Every pod on the node is counted once: as one of a daemon set, as a static one, or as evicted, and then as reschedulable or not.\<close>

lemma how_many_three:
  assumes "\<And>x. \<not> (P x \<and> Q x)"
  shows "how_many P xs + how_many Q xs + length (filter (\<lambda>x. \<not> P x \<and> \<not> Q x) xs) = length xs"
  using assms by (induction xs) (auto simp: how_many_def)

theorem drain_counts:
  assumes "handle_drain_impact srt quote (Some C) rq d = Inr r" "permuting srt" "dk_pods C d = Inr ps"
  shows "dy_daemon (dr_summary r) + dy_static (dr_summary r) + dy_total (dr_summary r) = how_many (\<lambda>p. dw_node p = rq_query rq ''node'') ps \<and>
    dy_reschedulable (dr_summary r) + dy_stranded (dr_summary r) = dy_total (dr_summary r) \<and> length (dr_affected r) = dy_total (dr_summary r)"
proof -
  obtain node where node: "dn_name node = rq_query rq ''node''" "r = drain_impact_of srt node (listed (dk_nodes C d)) ps (listed (dk_pdbs C d))"
    by (rule drain_answer[OF assms(1)]) (use assms(3) in \<open>simp add: listed_def\<close>)
  define xs where "xs = map (pod_impact (listed (dk_pdbs C d)) (others_of (dn_name node) (listed (dk_nodes C d)))) (evicted_pods (dn_name node) ps)"
  have r: "dr_summary r = drain_summary_of (dn_name node) ps xs" "length (dr_affected r) = length xs"
    using assms(2) by (simp_all add: node(2) drain_impact_of_def Let_def xs_def)
  let ?here = "filter (\<lambda>p. dw_node p = dn_name node) ps"
  have "length xs = length (filter (\<lambda>p. \<not> daemon_pod p \<and> \<not> static_pod p) ?here)"
    by (simp add: xs_def evicted_pods_def conj_commute)
  moreover have "how_many daemon_pod ?here + how_many static_pod ?here + length (filter (\<lambda>p. \<not> daemon_pod p \<and> \<not> static_pod p) ?here) = length ?here"
    by (rule how_many_three) (simp add: daemon_pod_def static_pod_def)
  moreover have "how_many dz_can_reschedule xs + how_many (\<lambda>i. \<not> dz_can_reschedule i) xs = length xs"
    unfolding how_many_def by (rule sum_length_filter_compl)
  moreover have "how_many (\<lambda>p. dw_node p = dn_name node) ps = length ?here" by (simp add: how_many_def)
  ultimately show ?thesis unfolding r(2) unfolding r(1) node(1)[symmetric] drain_summary_of_def Let_def by simp
qed

text \<open>
  When a drain is called safe: another node is left, the sums of the requests fit, and at most two pods are stranded or
  in a namespace with a budget. Up to two pods that no node takes do not make it unsafe.\<close>

theorem safe_to_drain_exact:
  assumes "handle_drain_impact srt quote client rq d = Inr r"
  shows "dr_safe r \<longleftrightarrow> dc_nodes (dr_capacity r) \<noteq> 0 \<and> overall_fit (dr_capacity r) \<and> dy_stranded (dr_summary r) + dy_protected (dr_summary r) \<le> 2"
  by (rule drain_answer[OF assms]) (auto simp: drain_impact_of_def Let_def drain_verdict_def drain_summary_of_def)

text \<open>With two other nodes or more their taints play no part: a pod is reschedulable as soon as its selector fits one of them.\<close>

lemma taints_ignored:
  assumes "2 \<le> length others"
  shows "dz_can_reschedule (pod_impact pdbs others p) \<longleftrightarrow> selector_fits others p"
  using assms by (simp add: pod_impact_def rescheduling_def)

text \<open>Two pods that only run on nodes that no longer exist are stranded, and the drain is called safe.\<close>

definition demo_drain_node :: "string \<Rightarrow> drainable_node" where
  "demo_drain_node name = \<lparr>dn_name = name, dn_cpu = 4, dn_mem = 8000000000, dn_slots = Some 110, dn_taints = [], dn_labels = Map.empty\<rparr>"

definition demo_drained :: "string \<Rightarrow> drained_pod" where
  "demo_drained name = \<lparr>dw_namespace = ''db'', dw_name = name, dw_node = ''a'', dw_phase = ''Running'', dw_owners = [(''StatefulSet'', ''pg'', True)],
     dw_mirror = [], dw_requests = [(Some 1, Some 1000000000)], dw_selector = [(''disk'', ''ssd'')], dw_tolerations = []\<rparr>"

lemma stranded_called_safe:
  "let r = drain_impact_of (\<lambda>before xs. xs) (demo_drain_node ''a'') [demo_drain_node ''a'', demo_drain_node ''b''] [demo_drained ''pg-0'', demo_drained ''pg-1''] []
   in dr_safe r \<and> dy_stranded (dr_summary r) = 2 \<and> dr_risk r = ''medium''"
  by code_simp

end
