(* ===== verification/Host_Tools.thy ===== *)
theory Host_Tools
  imports Remediation_Props "HOL-Library.Word"
begin

text \<open>
  Package \<open>host\<close> (internal/tools/host/tools.go, tools_extra.go, disk_unix.go): the tools that look at
  the node. All but the disk figures are shell commands that are put together from the arguments and
  run by the tool \<open>host_exec\<close>, which is modelled beside the remediation tools. What the operating
  system tells of itself is a parameter.
\<close>

section \<open>Commands\<close>

text \<open>\<open>execTool.Execute(ctx, {command, timeout})\<close>.\<close>

definition run_command :: "('o, 'c) kube \<Rightarrow> string \<Rightarrow> int \<Rightarrow> 'c \<Rightarrow> exec_ret \<times> 'c" where
  "run_command K command seconds c = host_exec K [''command'' \<mapsto> AString command, ''timeout'' \<mapsto> AInt seconds] c"

definition quoted :: "string \<Rightarrow> string" where
  "quoted s = [CHR 0x27] @ s @ [CHR 0x27]"

text \<open>A command, or the message of an argument that does not make one.\<close>

definition network_command :: "args \<Rightarrow> string + string" where
  "network_command args =
     (let action = string_or_empty (get_string args ''action''); target = get_string_default args ''target'' [] in
      if action = ''interfaces'' then Inr ''ip addr show 2>/dev/null || ifconfig 2>/dev/null''
      else if action = ''routes'' then Inr ''ip route show 2>/dev/null || route -n 2>/dev/null''
      else if action = ''connections'' then Inr ''ss -tlnp 2>/dev/null || netstat -tlnp 2>/dev/null''
      else if action = ''dns_test'' then
        (let t = (if target = [] then ''kubernetes.default'' else target)
         in Inr (''nslookup '' @ t @ '' 2>/dev/null || dig '' @ t @ '' 2>/dev/null || host '' @ t))
      else if action = ''ping'' then
        (if target = [] then Inl ''target required for ping'' else Inr (''ping -c 4 -W 2 '' @ target))
      else if action = ''port_check'' then
        (if target = [] then Inl ''target required for port_check''
         else Inr (''timeout 5 bash -c '' @ quoted (''echo > /dev/tcp/'' @ target @ ''/'' @ show_int (get_int_default args ''port'' 80)) @
           '' 2>/dev/null && echo OPEN || echo CLOSED''))
      else Inl (''unknown action: '' @ action))"

definition process_command :: "args \<Rightarrow> string" where
  "process_command args = ''ps aux --sort=-%'' @
     (if get_string_default args ''sortBy'' ''cpu'' = ''memory'' then ''mem'' else ''cpu'') @
     '' | head -'' @ show_int (get_int_default args ''limit'' 20)"

definition service_command :: "args \<Rightarrow> string + string" where
  "service_command args =
     (let service = string_or_empty (get_string args ''service''); action = get_string_default args ''action'' ''status'' in
      if action = ''status'' then Inr (''systemctl status '' @ service)
      else if action = ''list'' then Inr ''systemctl list-units --type=service --state=running | head -30''
      else if action = ''logs'' then
        Inr (''journalctl -u '' @ service @ '' --no-pager -n '' @ show_int (get_int_default args ''lines'' 50))
      else Inl (''unknown action: '' @ action))"

definition dmesg_command :: "args \<Rightarrow> string" where
  "dmesg_command args =
     (let n = show_int (get_int_default args ''lines'' 100); pat = get_string_default args ''filter'' [] in
      if pat = [] then ''dmesg --time-format iso | tail -'' @ n
      else ''dmesg --time-format iso | grep -i '' @ quoted pat @ '' | tail -'' @ n)"

definition echo_text :: "string \<Rightarrow> string" where
  "echo_text s = ''echo '' @ dquote @ s @ dquote"

definition runtime_command :: "args \<Rightarrow> string + string" where
  "runtime_command args =
     (let action = string_or_empty (get_string args ''action''); n = show_int (get_int_default args ''lines'' 50) in
      if action = ''info'' then Inr (''ctr version 2>/dev/null && '' @ echo_text ''---containerd---'' @
        '' && crictl info 2>/dev/null || docker info 2>/dev/null || '' @ echo_text ''No container runtime CLI found'')
      else if action = ''containers'' then Inr (''crictl ps 2>/dev/null || docker ps 2>/dev/null || ctr task ls 2>/dev/null || '' @
        echo_text ''No container runtime CLI found'')
      else if action = ''images'' then Inr (''crictl images 2>/dev/null | head -30 || docker images 2>/dev/null | head -30 || '' @
        echo_text ''No container runtime CLI found'')
      else if action = ''logs'' then Inr (''journalctl -u containerd --no-pager -n '' @ n @
        '' 2>/dev/null || journalctl -u docker --no-pager -n '' @ n @ '' 2>/dev/null || '' @ echo_text ''No runtime service logs found'')
      else if action = ''version'' then
        Inr ''containerd --version 2>/dev/null; docker --version 2>/dev/null; crictl --version 2>/dev/null''
      else Inl (''unknown action: '' @ action))"

definition kubelet_command :: "args \<Rightarrow> string + string" where
  "kubelet_command args =
     (let action = string_or_empty (get_string args ''action''); n = show_int (get_int_default args ''lines'' 50) in
      if action = ''status'' then Inr ''systemctl status kubelet 2>/dev/null || pgrep -a kubelet''
      else if action = ''logs'' then Inr (''journalctl -u kubelet --no-pager -n '' @ n)
      else if action = ''config'' then Inr (''cat /var/lib/kubelet/config.yaml 2>/dev/null || cat /etc/kubernetes/kubelet.conf 2>/dev/null || echo '' @
        quoted ''kubelet config not found'')
      else if action = ''errors'' then Inr (''journalctl -u kubelet --no-pager -n 200 -p err 2>/dev/null | tail -'' @ n)
      else Inl (''unknown action: '' @ action))"

definition iptables_command :: "args \<Rightarrow> string" where
  "iptables_command args =
     (let t = get_string_default args ''table'' ''nat''; chain = get_string_default args ''chain'' [] in
      if get_bool args ''ipvs'' then ''ipvsadm -Ln 2>/dev/null || echo '' @ quoted ''ipvsadm not found''
      else if t = ''all'' then ''iptables-save 2>/dev/null | head -200''
      else if chain \<noteq> [] then ''iptables -t '' @ t @ '' -L '' @ chain @ '' -n -v 2>/dev/null || echo '' @ quoted ''iptables not available''
      else ''iptables -t '' @ t @ '' -L -n -v 2>/dev/null | head -100 || echo '' @ quoted ''iptables not available'')"

definition mounts_command :: "args \<Rightarrow> string" where
  "mounts_command args = (if get_bool args ''readOnly'' then ''findmnt -ro 2>/dev/null || cat /proc/mounts | grep '' @ quoted '' ro,''
     else ''findmnt --json 2>/dev/null || cat /proc/mounts'')"

definition disk_io_command :: string where
  "disk_io_command = echo_text ''=== IOSTAT ==='' @ '' && iostat -x 1 1 2>/dev/null || '' @ echo_text ''iostat not available'' @ '' && '' @
     echo_text ''=== TOP IO PROCESSES ==='' @ '' && iotop -b -n 1 -o 2>/dev/null | head -20 || '' @ echo_text ''iotop not available''"

definition memory_command :: string where
  "memory_command = echo_text ''=== MEMORY ==='' @ '' && free -h && '' @ echo_text [] @ '' && '' @ echo_text ''=== MEMINFO ==='' @
     '' && head -20 /proc/meminfo && '' @ echo_text [] @ '' && '' @ echo_text ''=== SLAB ==='' @
     '' && cat /proc/slabinfo 2>/dev/null | head -10 || '' @ echo_text ''slabinfo not accessible''"

definition run_or_fail :: "('o, 'c) kube \<Rightarrow> string + string \<Rightarrow> int \<Rightarrow> 'c \<Rightarrow> exec_ret \<times> 'c" where
  "run_or_fail K command seconds c = (case command of Inl e \<Rightarrow> (tool_fail e, c) | Inr s \<Rightarrow> run_command K s seconds c)"

section \<open>Figures of the host\<close>

text \<open>What \<open>statfs\<close> answers; the code computes in 64-bit words.\<close>

record statfs =
  sf_blocks :: "64 word"
  sf_bsize :: "64 word"
  sf_bfree :: "64 word"
  sf_bavail :: "64 word"
  sf_files :: "64 word"
  sf_ffree :: "64 word"

record host_facts =
  hf_hostname :: string
  hf_os :: string
  hf_arch :: string
  hf_cpus :: int
  hf_uptime :: "string option"
  hf_statfs :: "string \<Rightarrow> string + statfs"
  hf_percent :: "rat \<Rightarrow> string"

text \<open>\<open>%.1f\<close> of a quotient of float64 values; a division by zero gives NaN or infinity.\<close>

definition usage_percent :: "(rat \<Rightarrow> string) \<Rightarrow> 64 word \<Rightarrow> 64 word \<Rightarrow> string" where
  "usage_percent show_rat used whole =
     (if whole = 0 then (if used = 0 then ''NaN'' else ''+Inf'')
      else show_rat (f64_mul (f64_div (f64_of_int (uint used)) (f64_of_int (uint whole))) 100))"

record disk_figures =
  df_total :: "64 word"
  df_used :: "64 word"
  df_free :: "64 word"
  df_avail :: "64 word"
  df_inodes_used :: "64 word"

definition disk_figures_of :: "statfs \<Rightarrow> disk_figures" where
  "disk_figures_of s = \<lparr>df_total = sf_blocks s * sf_bsize s, df_used = sf_blocks s * sf_bsize s - sf_bfree s * sf_bsize s,
     df_free = sf_bfree s * sf_bsize s, df_avail = sf_bavail s * sf_bsize s, df_inodes_used = sf_files s - sf_ffree s\<rparr>"

definition disk_usage :: "host_facts \<Rightarrow> string \<Rightarrow> string + (string \<times> any) list" where
  "disk_usage H path = (case hf_statfs H path of
     Inl e \<Rightarrow> Inl e
   | Inr s \<Rightarrow> (let f = disk_figures_of s in Inr [(''path'', AString path), (''total_bytes'', AInt (uint (df_total f))),
       (''used_bytes'', AInt (uint (df_used f))), (''free_bytes'', AInt (uint (df_free f))),
       (''avail_bytes'', AInt (uint (df_avail f))), (''usage_percent'', AString (usage_percent (hf_percent H) (df_used f) (df_total f))),
       (''inodes'', AObject [(''total'', AInt (uint (sf_files s))), (''used'', AInt (uint (df_inodes_used f))),
         (''free'', AInt (uint (sf_ffree s))),
         (''usage_percent'', AString (usage_percent (hf_percent H) (df_inodes_used f) (sf_files s)))])]))"

definition output_of :: "exec_ret \<Rightarrow> string" where
  "output_of r = (case r of (Some t, _) \<Rightarrow> tr_output t | (None, _) \<Rightarrow> [])"

definition host_disk_usage :: "host_facts \<Rightarrow> ('o, 'c) kube \<Rightarrow> args \<Rightarrow> 'c \<Rightarrow> exec_ret \<times> 'c" where
  "host_disk_usage H K args c =
     (let path0 = get_string_default args ''path'' []; path = (if path0 = [] then ''/'' else path0) in
      case disk_usage H path of
        Inl e \<Rightarrow> (tool_fail (''failed to stat '' @ path @ '': '' @ e), c)
      | Inr figures \<Rightarrow> (case run_command K ''df -h'' 10 c of
          ((t, None), c1) \<Rightarrow> (tool_ok (json_indent K (figures @ [(''df_output'', AString (output_of (t, None)))])), c1)
        | ((t, Some e), c1) \<Rightarrow> (tool_ok (json_indent K figures), c1)))"

text \<open>The key of a command's output is its first fifteen bytes.\<close>

definition info_output :: "string \<Rightarrow> exec_ret \<Rightarrow> (string \<times> any) list" where
  "info_output command r = (case r of (t, None) \<Rightarrow> [(''cmd_'' @ take 15 command, AString (output_of r))] | (t, Some e) \<Rightarrow> [])"

definition host_info :: "host_facts \<Rightarrow> ('o, 'c) kube \<Rightarrow> args \<Rightarrow> 'c \<Rightarrow> exec_ret \<times> 'c" where
  "host_info H K args c =
     (let facts = [(''hostname'', AString (hf_hostname H)), (''goOS'', AString (hf_os H)), (''goArch'', AString (hf_arch H)),
            (''numCPU'', AInt (hf_cpus H))] @
            (case map_option fields_of (hf_uptime H) of Some (p # _) \<Rightarrow> [(''uptime_seconds'', AString p)] | _ \<Rightarrow> []) @
            [(''cmd_uname'', AString []), (''cmd_os_release'', AString [])];
          (r1, c1) = run_command K ''uname -a'' 5 c;
          (r2, c2) = run_command K ''cat /etc/os-release | head -5'' 5 c1
      in (tool_ok (json_indent K (facts @ info_output ''uname -a'' r1 @ info_output ''cat /etc/os-release | head -5'' r2)), c2))"

text \<open>The mounts are printed again when they are a JSON object; \<open>pretty\<close> decodes and indents.\<close>

definition host_mounts :: "(string \<Rightarrow> string option) \<Rightarrow> ('o, 'c) kube \<Rightarrow> args \<Rightarrow> 'c \<Rightarrow> exec_ret \<times> 'c" where
  "host_mounts pretty K args c = (case run_command K (mounts_command args) 10 c of
     ((Some t, None), c1) \<Rightarrow> (case (if tr_success t then pretty (tr_output t) else None) of
         Some s \<Rightarrow> (tool_ok s, c1) | None \<Rightarrow> ((Some t, None), c1))
   | (r, c1) \<Rightarrow> (r, c1))"
section \<open>The tools\<close>

definition param_enum :: "string \<Rightarrow> string list \<Rightarrow> any option \<Rightarrow> property" where
  "param_enum desc en d = Property ''string'' desc en d None []"

definition host_disk_usage_tool :: "host_facts \<Rightarrow> ('o, 'c) kube \<Rightarrow> 'c tool" where
  "host_disk_usage_tool H K = \<lparr>tool_name = ''host_disk_usage'',
     tool_description = ''Check disk usage on the host node. Shows mount points, total/used/available space, and inode usage.'',
     tool_parameters = schema [(''path'', param_default ''string'' ''Specific path to check (empty for all mounts)'' (AString []))] [],
     tool_execute = host_disk_usage H K\<rparr>"

definition host_network_tool :: "('o, 'c) kube \<Rightarrow> 'c tool" where
  "host_network_tool K = \<lparr>tool_name = ''host_network_check'',
     tool_description = ''Check network status on the host node: interfaces, routes, connections, DNS, and connectivity tests.'',
     tool_parameters = schema [(''action'', param_enum ''What to check''
         [''interfaces'', ''routes'', ''connections'', ''dns_test'', ''ping'', ''port_check''] None),
       (''target'', param_default ''string'' ''Target host/IP for ping/dns/port check'' (AString [])),
       (''port'', param_default ''integer'' ''Port number for port_check'' (AInt 0))] [''action''],
     tool_execute = (\<lambda>args. run_or_fail K (network_command args) 15)\<rparr>"

definition host_process_tool :: "('o, 'c) kube \<Rightarrow> 'c tool" where
  "host_process_tool K = \<lparr>tool_name = ''host_processes'',
     tool_description = ''List top processes on the host node by CPU or memory usage.'',
     tool_parameters = schema [(''sortBy'', param_enum ''Sort by'' [''cpu'', ''memory''] (Some (AString ''cpu''))),
       (''limit'', param_default ''integer'' ''Number of processes to show'' (AInt 20))] [],
     tool_execute = (\<lambda>args. run_command K (process_command args) 10)\<rparr>"

definition host_service_tool :: "('o, 'c) kube \<Rightarrow> 'c tool" where
  "host_service_tool K = \<lparr>tool_name = ''host_service_status'',
     tool_description = ''Check systemd service status on the host node (e.g. kubelet, containerd, docker).'',
     tool_parameters = schema [(''service'', param ''string'' ''Service name (e.g. 'kubelet', 'containerd'). Empty for all.''),
       (''action'', param_enum ''Action'' [''status'', ''list'', ''logs''] (Some (AString ''status''))),
       (''lines'', param_default ''integer'' ''Log lines for 'logs' action'' (AInt 50))] [''service''],
     tool_execute = (\<lambda>args. run_or_fail K (service_command args) 15)\<rparr>"

definition host_info_tool :: "host_facts \<Rightarrow> ('o, 'c) kube \<Rightarrow> 'c tool" where
  "host_info_tool H K = \<lparr>tool_name = ''host_info'',
     tool_description = ''Get host system information: hostname, OS, kernel, CPU, memory, uptime.'',
     tool_parameters = schema [] [], tool_execute = host_info H K\<rparr>"

definition host_dmesg_tool :: "('o, 'c) kube \<Rightarrow> 'c tool" where
  "host_dmesg_tool K = \<lparr>tool_name = ''host_dmesg'',
     tool_description = ''Read kernel ring buffer messages (dmesg). Critical for diagnosing: '' @
       ''OOM killer events, hardware errors, filesystem corruption, driver issues, '' @ ''network errors, and kernel panics.'',
     tool_parameters = schema [(''lines'', param_default ''integer'' ''Last N lines'' (AInt 100)),
       (''filter'', param_default ''string'' ''Grep filter (e.g. 'oom', 'error')'' (AString []))] [],
     tool_execute = (\<lambda>args. run_command K (dmesg_command args) 10)\<rparr>"

definition host_container_runtime_tool :: "('o, 'c) kube \<Rightarrow> 'c tool" where
  "host_container_runtime_tool K = \<lparr>tool_name = ''host_container_runtime'',
     tool_description = ''Check container runtime (containerd/docker/cri-o) status, running containers, '' @
       ''image storage, and recent errors. Essential for diagnosing container runtime issues.'',
     tool_parameters = schema [(''action'', param_enum ''What to check'' [''info'', ''containers'', ''images'', ''logs'', ''version'']
         (Some (AString ''info''))),
       (''lines'', param_default ''integer'' ''Log lines for 'logs' action'' (AInt 50))] [''action''],
     tool_execute = (\<lambda>args. run_or_fail K (runtime_command args) 15)\<rparr>"

definition host_kubelet_tool :: "('o, 'c) kube \<Rightarrow> 'c tool" where
  "host_kubelet_tool K = \<lparr>tool_name = ''host_kubelet'',
     tool_description = ''Check kubelet health: process status, configuration, logs, and recent errors. '' @
       ''Critical for diagnosing node-level scheduling and pod lifecycle issues.'',
     tool_parameters = schema [(''action'', param_enum ''What to check'' [''status'', ''logs'', ''config'', ''errors'']
         (Some (AString ''status''))),
       (''lines'', param_default ''integer'' ''Log lines'' (AInt 50))] [''action''],
     tool_execute = (\<lambda>args. run_or_fail K (kubelet_command args) 15)\<rparr>"

definition host_iptables_tool :: "('o, 'c) kube \<Rightarrow> 'c tool" where
  "host_iptables_tool K = \<lparr>tool_name = ''host_iptables'',
     tool_description = ''Check iptables/IPVS rules on the host. Essential for diagnosing: '' @
       ''service connectivity issues, NodePort/LoadBalancer problems, '' @ ''network policy blocks, kube-proxy configuration issues.'',
     tool_parameters = schema [(''table'', param_enum ''Table name'' [''nat'', ''filter'', ''mangle'', ''all''] (Some (AString ''nat''))),
       (''chain'', param_default ''string'' ''Chain name (e.g. 'KUBE-SERVICES')'' (AString [])),
       (''ipvs'', param_default ''boolean'' ''Show IPVS rules instead'' (ABool False))] [],
     tool_execute = (\<lambda>args. run_command K (iptables_command args) 10)\<rparr>"

definition host_mounts_tool :: "(string \<Rightarrow> string option) \<Rightarrow> ('o, 'c) kube \<Rightarrow> 'c tool" where
  "host_mounts_tool pretty K = \<lparr>tool_name = ''host_mounts'',
     tool_description = ''Get filesystem mount information on the host node. '' @
       ''Shows all mount points, filesystem types, mount options. '' @
       ''Useful for diagnosing PV mount failures, disk full issues, and read-only filesystems.'',
     tool_parameters = schema [(''readOnly'', param_default ''boolean'' ''Only show read-only mounts'' (ABool False))] [],
     tool_execute = host_mounts pretty K\<rparr>"

definition host_disk_io_tool :: "('o, 'c) kube \<Rightarrow> 'c tool" where
  "host_disk_io_tool K = \<lparr>tool_name = ''host_disk_io'',
     tool_description = ''Check disk I/O statistics on the host. Shows per-device read/write rates and '' @
       ''top processes by I/O. Useful for diagnosing slow disk performance.'',
     tool_parameters = schema [] [], tool_execute = (\<lambda>args. run_command K disk_io_command 15)\<rparr>"

definition host_memory_info_tool :: "('o, 'c) kube \<Rightarrow> 'c tool" where
  "host_memory_info_tool K = \<lparr>tool_name = ''host_memory_info'',
     tool_description = ''Get detailed host memory information including total, free, cached, swap usage, '' @
       ''and cgroup memory limits. More detailed than 'free -h'.'',
     tool_parameters = schema [] [], tool_execute = (\<lambda>args. run_command K memory_command 10)\<rparr>"

section \<open>Lemmas\<close>

lemma run_command_answers: "answers (fst (run_command K s n c))"
  by (simp add: run_command_def host_exec_answers)

lemma run_or_fail_answers: "answers (fst (run_or_fail K r n c))"
  by (simp add: run_or_fail_def run_command_answers split: sum.split)

text \<open>No tool of the host returns a nil result or an error.\<close>

lemma host_tools_answer:
  "t \<in> {host_disk_usage_tool H K, host_network_tool K, host_process_tool K, host_service_tool K, host_info_tool H K,
      host_dmesg_tool K, host_container_runtime_tool K, host_kubelet_tool K, host_iptables_tool K, host_disk_io_tool K,
      host_memory_info_tool K, host_mounts_tool pretty K} \<Longrightarrow> answers (fst (tool_execute t args c))"
proof (elim insertE emptyE; hypsubst)
  show "answers (fst (tool_execute (host_disk_usage_tool H K) args c))"
    by (auto simp: host_disk_usage_tool_def host_disk_usage_def Let_def split: sum.split prod.split option.split)
  show "answers (fst (tool_execute (host_info_tool H K) args c))"
    by (simp add: host_info_tool_def host_info_def Let_def split: prod.split)
  have "answers (fst (run_command K (mounts_command args) 10 c))" by (rule run_command_answers)
  then show "answers (fst (tool_execute (host_mounts_tool pretty K) args c))"
    by (auto simp: host_mounts_tool_def host_mounts_def answers_def tool_ok_def split: prod.splits option.splits)
qed (simp_all add: host_network_tool_def host_process_tool_def host_service_tool_def host_dmesg_tool_def
    host_container_runtime_tool_def host_kubelet_tool_def host_iptables_tool_def host_disk_io_tool_def
    host_memory_info_tool_def run_command_answers run_or_fail_answers)

text \<open>The figures of a disk whose size fits in 64 bits are the exact ones.\<close>

lemma disk_used_exact:
  assumes "uint (sf_blocks s) * uint (sf_bsize s) < 2 ^ 64" "uint (sf_bfree s) \<le> uint (sf_blocks s)"
  shows "uint (df_used (disk_figures_of s)) = (uint (sf_blocks s) - uint (sf_bfree s)) * uint (sf_bsize s)"
proof -
  have b: "0 \<le> uint (sf_bsize s)" by simp
  then have f: "uint (sf_bfree s) * uint (sf_bsize s) \<le> uint (sf_blocks s) * uint (sf_bsize s)"
    using assms(2) by (simp add: mult_right_mono)
  then have "uint (sf_bfree s * sf_bsize s) = uint (sf_bfree s) * uint (sf_bsize s)"
    "uint (sf_blocks s * sf_bsize s) = uint (sf_blocks s) * uint (sf_bsize s)"
    using assms(1) by (simp_all add: uint_word_ariths mod_pos_pos_trivial)
  with f uint_sub_lem[of "sf_bfree s * sf_bsize s" "sf_blocks s * sf_bsize s"] show ?thesis
    by (simp add: disk_figures_of_def left_diff_distrib)
qed

text \<open>
  What a POSIX shell makes of a line without double quotes and backslashes: commands are separated
  by semicolons outside single quotes.
\<close>

fun shell_parts :: "bool \<Rightarrow> string \<Rightarrow> string \<Rightarrow> string list" where
  "shell_parts q w [] = [w]"
| "shell_parts q w (c # s) =
     (if c = CHR 0x27 then shell_parts (\<not> q) (w @ [c]) s
      else if c = CHR '';'' \<and> \<not> q then w # shell_parts q [] s
      else shell_parts q (w @ [c]) s)"

lemma shell_parts_plain:
  "CHR 0x27 \<notin> set x \<Longrightarrow> CHR '';'' \<notin> set x \<Longrightarrow> shell_parts q w (x @ s) = shell_parts q (w @ x) s"
  by (induction x arbitrary: w) auto

lemma shell_parts_inner:
  "CHR 0x27 \<notin> set x \<Longrightarrow> CHR '';'' \<notin> set x \<Longrightarrow> shell_parts False w (CHR '';'' # x @ CHR '';'' # s) = w # x # shell_parts False [] s"
  by (simp add: shell_parts_plain)

section \<open>Properties\<close>

text \<open>The diagnostic tools the chat offers to every user run any command on the host: whatever the
  command, the model can be led to ask for the kernel log with a filter, or for a ping with a target,
  such that the line given to the shell has that command as one of its own.\<close>

theorem host_tools_run_anything:
  assumes "CHR 0x27 \<notin> set cmd" "CHR '';'' \<notin> set cmd"
  shows "(\<exists>pat line. tool_execute (host_dmesg_tool K) [''filter'' \<mapsto> AString pat] c = run_command K line 10 c \<and>
      cmd \<in> set (shell_parts False [] line)) \<and>
    (\<exists>target line. tool_execute (host_network_tool K) [''action'' \<mapsto> AString ''ping'', ''target'' \<mapsto> AString target] c =
      run_command K line 15 c \<and> cmd \<in> set (shell_parts False [] line))"
proof
  let ?pat = "''x'' @ CHR 0x27 # CHR '';'' # cmd @ CHR '';'' # CHR 0x27 # ''x''"
  have "tool_execute (host_dmesg_tool K) [''filter'' \<mapsto> AString ?pat] c =
      run_command K (''dmesg --time-format iso | grep -i '' @ quoted ?pat @ '' | tail -'' @ show_int 100) 10 c"
    by (simp add: host_dmesg_tool_def dmesg_command_def get_string_default_def get_int_default_def)
  moreover have "cmd \<in> set (shell_parts False [] (''dmesg --time-format iso | grep -i '' @ quoted ?pat @ '' | tail -'' @ show_int 100))"
    using assms by (simp add: quoted_def shell_parts_plain)
  ultimately show "\<exists>pat line. tool_execute (host_dmesg_tool K) [''filter'' \<mapsto> AString pat] c = run_command K line 10 c \<and>
      cmd \<in> set (shell_parts False [] line)" by blast
next
  let ?target = "''localhost'' @ CHR '';'' # cmd @ '';''"
  have "tool_execute (host_network_tool K) [''action'' \<mapsto> AString ''ping'', ''target'' \<mapsto> AString ?target] c =
      run_command K (''ping -c 4 -W 2 '' @ ?target) 15 c"
    by (simp add: host_network_tool_def network_command_def run_or_fail_def get_string_default_def string_or_empty_def get_string_def)
  moreover have "cmd \<in> set (shell_parts False [] (''ping -c 4 -W 2 '' @ ?target))"
    using assms by (simp add: shell_parts_plain)
  ultimately show "\<exists>target line. tool_execute (host_network_tool K) [''action'' \<mapsto> AString ''ping'', ''target'' \<mapsto> AString target] c =
      run_command K line 15 c \<and> cmd \<in> set (shell_parts False [] line)" by blast
qed

theorem host_tools_run_anything_witness:
  "(\<exists>pat line. tool_execute (host_dmesg_tool demo_kube) [''filter'' \<mapsto> AString pat] (demo_at (demo_plan ''Pending'' True [])) =
      run_command demo_kube line 10 (demo_at (demo_plan ''Pending'' True [])) \<and> ''reboot'' \<in> set (shell_parts False [] line)) \<and>
   (\<exists>target line. tool_execute (host_network_tool demo_kube) [''action'' \<mapsto> AString ''ping'', ''target'' \<mapsto> AString target]
      (demo_at (demo_plan ''Pending'' True [])) = run_command demo_kube line 15 (demo_at (demo_plan ''Pending'' True [])) \<and>
      ''reboot'' \<in> set (shell_parts False [] line))"
  by (rule host_tools_run_anything) simp_all

end
