(* ===== verification/Union_Find.thy ===== *)
theory Union_Find
  imports Main "HOL-Library.Multiset"
begin

text \<open>
  The union-find structure of correlateSignals (internal/dashboard/handlers_incident_correlation.go): \<open>find\<close> with path compression, \<open>union\<close>
  without ranks, and the groups of equal roots. A search that does not end is \<open>None\<close>.
\<close>

section \<open>The code\<close>

partial_function (option) find_root :: "nat list \<Rightarrow> nat \<Rightarrow> (nat \<times> nat list) option" where
  "find_root p x = (if p ! x \<noteq> x then Option.bind (find_root p (p ! x)) (\<lambda>(r, q). Some (r, q[x := r])) else Some (x, p))"

declare find_root.simps [code]

definition unite :: "nat list \<Rightarrow> nat \<times> nat \<Rightarrow> nat list option" where
  "unite p = (\<lambda>(x, y). Option.bind (find_root p x) (\<lambda>(px, q). Option.bind (find_root q y) (\<lambda>(py, q2).
     Some (if px \<noteq> py then q2[px := py] else q2))))"

fun unite_all :: "nat list \<Rightarrow> (nat \<times> nat) list \<Rightarrow> nat list option" where
  "unite_all p [] = Some p"
| "unite_all p (e # es) = Option.bind (unite p e) (\<lambda>q. unite_all q es)"

fun collect :: "nat list \<Rightarrow> nat list \<Rightarrow> (nat \<Rightarrow> nat list) \<Rightarrow> (nat \<Rightarrow> nat list) option" where
  "collect p [] g = Some g"
| "collect p (i # is) g = Option.bind (find_root p i) (\<lambda>(r, q). collect q is (g(r := g r @ [i])))"

text \<open>The pairs of the two loops for which the condition holds.\<close>

definition index_pairs :: "nat \<Rightarrow> (nat \<Rightarrow> nat \<Rightarrow> bool) \<Rightarrow> (nat \<times> nat) list" where
  "index_pairs n link = concat (map (\<lambda>i. map (Pair i) (filter (link i) [Suc i..<n])) [0..<n])"

text \<open>\<open>order\<close> gives the roots in the order of Go's map; groups of one are left out.\<close>

definition linked_groups :: "(nat list \<Rightarrow> nat list) \<Rightarrow> nat \<Rightarrow> (nat \<Rightarrow> nat \<Rightarrow> bool) \<Rightarrow> nat list list option" where
  "linked_groups order n link = Option.bind (unite_all [0..<n] (index_pairs n link)) (\<lambda>p.
     Option.bind (collect p [0..<n] (\<lambda>_. [])) (\<lambda>g.
       Some (filter (\<lambda>is. 2 \<le> length is) (map g (order (filter (\<lambda>r. g r \<noteq> []) [0..<n]))))))"

section \<open>Roots\<close>

inductive root :: "nat list \<Rightarrow> nat \<Rightarrow> nat \<Rightarrow> bool" for p where
  root_self: "p ! x = x \<Longrightarrow> root p x x"
| root_step: "p ! x \<noteq> x \<Longrightarrow> root p (p ! x) r \<Longrightarrow> root p x r"

inductive_cases rootE: "root p x r"

definition forest :: "nat list \<Rightarrow> bool" where
  "forest p \<longleftrightarrow> (\<forall>x < length p. p ! x < length p \<and> (\<exists>r. root p x r))"

lemma root_unique: "root p x r \<Longrightarrow> root p x s \<Longrightarrow> r = s"
  by (induction rule: root.induct) (auto elim: rootE)

lemma root_fixed: "root p x r \<Longrightarrow> p ! r = r"
  by (induction rule: root.induct) auto

lemma root_of_root: "root p x r \<Longrightarrow> root p r r"
  by (intro root_self root_fixed)

lemma root_bound: "root p x r \<Longrightarrow> forest p \<Longrightarrow> x < length p \<Longrightarrow> r < length p"
  by (induction rule: root.induct) (auto simp: forest_def)

lemma forest_root: "forest p \<Longrightarrow> x < length p \<Longrightarrow> \<exists>r. root p x r"
  by (simp add: forest_def)

lemma root_function: "forest p \<Longrightarrow> \<exists>rep. \<forall>x < length p. \<forall>s. root p x s \<longleftrightarrow> s = rep x"
  using forest_root root_unique by metis

text \<open>Two trees with the same roots.\<close>

definition same_roots :: "nat list \<Rightarrow> nat list \<Rightarrow> bool" where
  "same_roots p q \<longleftrightarrow> length q = length p \<and> (\<forall>x < length p. \<forall>r. root q x r \<longleftrightarrow> root p x r)"

text \<open>It is enough that every root stays one.\<close>

lemma forest_by_roots:
  assumes "forest p" "length q = length p" "\<And>x. x < length p \<Longrightarrow> q ! x < length p"
    and "\<And>x r. x < length p \<Longrightarrow> root p x r \<Longrightarrow> root q x (f r)"
  shows "forest q" "x < length p \<Longrightarrow> root q x s \<longleftrightarrow> (\<exists>r. root p x r \<and> s = f r)"
proof -
  show "forest q" using assms(2-4) forest_root[OF assms(1)] unfolding forest_def by metis
  assume x: "x < length p"
  then obtain r where r: "root p x r" using forest_root[OF assms(1)] by blast
  show "root q x s \<longleftrightarrow> (\<exists>r. root p x r \<and> s = f r)"
    using assms(4)[OF x] r root_unique[OF assms(4)[OF x r]] by blast
qed

lemma compress:
  assumes "forest p" "x < length p" "root p x r"
  shows "forest (p[x := r])" "same_roots p (p[x := r])"
proof -
  have r: "p ! r = r" "r < length p" using root_fixed root_bound assms by auto
  have keep: "root (p[x := r]) y s" if "root p y s" for y s
    using that
  proof (induction rule: root.induct)
    case (root_self y)
    then have "y = x \<Longrightarrow> r = x" using root_unique[OF assms(3)] root.root_self by metis
    with root_self show ?case using assms(2) by (intro root.root_self) (auto simp: nth_list_update)
  next
    case (root_step y s)
    show ?case
    proof (cases "y = x")
      case True
      then have "s = r" using root_unique[OF assms(3)] root.root_step[OF root_step.hyps] by simp
      moreover have "r \<noteq> x" using r root_step.hyps(1) True by auto
      moreover have "root (p[x := r]) r r" using calculation(2) r(1) by (intro root.root_self) simp
      ultimately show ?thesis using True assms(2) root.root_step[of "p[x := r]" x r] by simp
    next
      case False
      then have e: "p[x := r] ! y = p ! y" by simp
      show ?thesis using root.root_step[of "p[x := r]" y s] root_step.hyps(1) root_step.IH unfolding e by blast
    qed
  qed
  have b: "p[x := r] ! y < length p" if "y < length p" for y
    using that assms(1) r by (cases "y = x") (simp_all add: forest_def)
  note f = forest_by_roots[OF assms(1) length_list_update b, of id, simplified, OF keep]
  then show "forest (p[x := r])" "same_roots p (p[x := r])" by (auto simp: same_roots_def)
qed

lemma find_root_correct:
  assumes "root p x r" "forest p" "x < length p"
  obtains q where "find_root p x = Some (r, q)" "forest q" "same_roots p q"
  using assms
proof (induction arbitrary: thesis rule: root.induct)
  case (root_self x)
  then show ?case by (auto simp: find_root.simps[of p x] same_roots_def)
next
  case (root_step x r)
  then have "p ! x < length p" by (simp add: forest_def)
  then obtain q where q: "find_root p (p ! x) = Some (r, q)" "forest q" "same_roots p q" using root_step by blast
  then have "root q x r" "x < length q" using root_step by (auto simp: same_roots_def intro: root.root_step)
  note c = compress[OF q(2) this(2,1)]
  have "find_root p x = Some (r, q[x := r])" using root_step(1) q(1) by (simp add: find_root.simps[of p x])
  then show ?case using c q(3) by (intro root_step.prems(1)[of "q[x := r]"]) (auto simp: same_roots_def)
qed

lemma link_roots:
  assumes "forest p" "p ! a = a" "p ! b = b" "a \<noteq> b" "a < length p" "b < length p"
  shows "forest (p[a := b])" "x < length p \<Longrightarrow> root (p[a := b]) x s \<longleftrightarrow> (\<exists>r. root p x r \<and> s = (if r = a then b else r))"
proof -
  have keep: "root (p[a := b]) y (if s = a then b else s)" if "root p y s" for y s
    using that
  proof (induction rule: root.induct)
    case (root_self y)
    show ?case
    proof (cases "y = a")
      case True
      have "root (p[a := b]) b b" using assms by (intro root.root_self) auto
      then show ?thesis using True assms root.root_step[of "p[a := b]" a b] by simp
    qed (use root_self in \<open>auto intro: root.root_self\<close>)
  next
    case (root_step y s)
    then have "y \<noteq> a" using assms(2) by auto
    then have "p[a := b] ! y = p ! y" by simp
    then show ?case using root_step by (metis root.root_step)
  qed
  have b: "p[a := b] ! y < length p" if "y < length p" for y
    using that assms by (cases "y = a") (simp_all add: forest_def)
  from forest_by_roots[OF assms(1) length_list_update b, of "\<lambda>r. if r = a then b else r"] keep
  show "forest (p[a := b])" "x < length p \<Longrightarrow> root (p[a := b]) x s \<longleftrightarrow> (\<exists>r. root p x r \<and> s = (if r = a then b else r))"
    by blast+
qed

section \<open>Unions\<close>

text \<open>The elements with the same root.\<close>

definition together :: "nat list \<Rightarrow> (nat \<times> nat) set" where
  "together p = {(x, y). x < length p \<and> y < length p \<and> (\<exists>r. root p x r \<and> root p y r)}"

lemma together_same_roots: "same_roots p q \<Longrightarrow> together q = together p"
  by (auto simp: same_roots_def together_def)

lemma together_sym: "(x, y) \<in> together p \<Longrightarrow> (y, x) \<in> together p"
  by (auto simp: together_def)

lemma together_trans: "(x, y) \<in> together p \<Longrightarrow> (y, z) \<in> together p \<Longrightarrow> (x, z) \<in> together p"
  unfolding together_def using root_unique by blast

lemma together_refl: "forest p \<Longrightarrow> x < length p \<Longrightarrow> (x, x) \<in> together p"
  by (auto simp: together_def forest_def)

lemma unite_correct:
  assumes "forest p" "a < length p" "b < length p"
  obtains q where "unite p (a, b) = Some q" "forest q" "length q = length p"
    "together q = together p \<union> {(x, y). (x, a) \<in> together p \<and> (y, b) \<in> together p \<or> (y, a) \<in> together p \<and> (x, b) \<in> together p}"
proof -
  obtain ra rb where r: "root p a ra" "root p b rb" using forest_root assms by metis
  obtain q1 where q1: "find_root p a = Some (ra, q1)" "forest q1" "same_roots p q1" by (rule find_root_correct[OF r(1) assms(1,2)])
  have l1: "length q1 = length p" "root q1 b rb" "root q1 a ra" using q1(3) r assms by (auto simp: same_roots_def)
  obtain q2 where q2: "find_root q1 b = Some (rb, q2)" "forest q2" "same_roots q1 q2"
    using find_root_correct[OF l1(2) q1(2)] l1(1) assms(3) by metis
  have l2: "length q2 = length p" "root q2 a ra" "root q2 b rb" using q2(3) l1 assms by (auto simp: same_roots_def)
  have t: "together q2 = together p" using together_same_roots q1(3) q2(3) by simp
  have ab: "(x, a) \<in> together q2 \<longleftrightarrow> x < length q2 \<and> root q2 x ra" "(x, b) \<in> together q2 \<longleftrightarrow> x < length q2 \<and> root q2 x rb" for x
    using l2 assms root_unique by (auto simp: together_def)
  let ?q = "if ra \<noteq> rb then q2[ra := rb] else q2"
  have u: "unite p (a, b) = Some ?q" using q1(1) q2(1) by (simp add: unite_def)
  have "forest ?q \<and> together ?q = together q2 \<union> {(x, y). (x, a) \<in> together q2 \<and> (y, b) \<in> together q2 \<or> (y, a) \<in> together q2 \<and> (x, b) \<in> together q2}"
  proof (cases "ra = rb")
    case True
    then show ?thesis using q2(2) ab by (auto simp: together_def)
  next
    case False
    have bd: "ra < length q2" "rb < length q2" "q2 ! ra = ra" "q2 ! rb = rb"
      using l2 assms root_bound[OF _ q2(2)] root_fixed by metis+
    note lk = link_roots[OF q2(2) bd(3,4) False bd(1,2)]
    obtain rep where rep: "root q2 x s \<longleftrightarrow> s = rep x" if "x < length q2" for x s using root_function[OF q2(2)] by blast
    have tg: "together q2 = {(x, y). x < length q2 \<and> y < length q2 \<and> rep x = rep y}" by (auto simp: together_def rep)
    have "rep a = ra" "rep b = rb" "a < length q2" "b < length q2" using l2 assms rep by auto
    moreover have "root (q2[ra := rb]) x s \<longleftrightarrow> s = (if rep x = ra then rb else rep x)" if "x < length q2" for x s
      using lk(2)[OF that] rep[OF that] by auto
    then have "(x, y) \<in> together (q2[ra := rb]) \<longleftrightarrow> x < length q2 \<and> y < length q2 \<and>
        (if rep x = ra then rb else rep x) = (if rep y = ra then rb else rep y)" for x y
      by (cases "x < length q2"; cases "y < length q2") (simp_all add: together_def)
    ultimately have "(x, y) \<in> together (q2[ra := rb]) \<longleftrightarrow> (x, y) \<in> together q2 \<or> (x, a) \<in> together q2 \<and> (y, b) \<in> together q2 \<or>
        (y, a) \<in> together q2 \<and> (x, b) \<in> together q2" for x y
      using False by (cases "rep x = ra"; cases "rep y = ra") (auto simp: tg)
    then have "together (q2[ra := rb]) =
        together q2 \<union> {(x, y). (x, a) \<in> together q2 \<and> (y, b) \<in> together q2 \<or> (y, a) \<in> together q2 \<and> (x, b) \<in> together q2}" by (auto simp del: split_paired_All)
    then show ?thesis using lk(1) False by simp
  qed
  then show ?thesis using that[OF u] l2(1) unfolding t by simp
qed

text \<open>All unions: what ends up together is what the pairs connect.\<close>

definition linked :: "(nat \<times> nat) set \<Rightarrow> (nat \<times> nat) set" where
  "linked E = (E \<union> E\<inverse>)\<^sup>*"

lemma linked_mono: "E \<subseteq> F \<Longrightarrow> linked E \<subseteq> linked F"
  unfolding linked_def by (intro rtrancl_mono) auto

lemma linked_sym: "(x, y) \<in> linked E \<Longrightarrow> (y, x) \<in> linked E"
  unfolding linked_def using sym_rtrancl[OF sym_Un_converse] by (meson symD)

lemma linked_trans: "(x, y) \<in> linked E \<Longrightarrow> (y, z) \<in> linked E \<Longrightarrow> (x, z) \<in> linked E"
  unfolding linked_def by (rule rtrancl_trans)

lemma linked_edge: "(x, y) \<in> E \<Longrightarrow> (x, y) \<in> linked E"
  unfolding linked_def by auto

lemma linked_in_together:
  assumes "(x, y) \<in> linked E" "E \<subseteq> together p" "forest p" "x < length p"
  shows "(x, y) \<in> together p"
  using assms(1) unfolding linked_def
proof (induction rule: rtrancl_induct)
  case base
  then show ?case using together_refl assms(3,4) by simp
next
  case (step y z)
  then have "(y, z) \<in> together p" using assms(2) together_sym by blast
  then show ?case using step.IH together_trans by blast
qed

lemma unite_all_correct:
  assumes "forest p" "set es \<subseteq> {..<length p} \<times> {..<length p}" "together p \<subseteq> linked D" "D \<subseteq> together p"
  shows "\<exists>q. unite_all p es = Some q \<and> forest q \<and> length q = length p \<and> together q \<subseteq> linked (D \<union> set es) \<and> D \<union> set es \<subseteq> together q"
  using assms
proof (induction es arbitrary: p D)
  case (Cons e es)
  obtain a b where e: "e = (a, b)" "a < length p" "b < length p" using Cons.prems(2) by (cases e) auto
  obtain q where q: "unite p e = Some q" "forest q" "length q = length p"
    "together q = together p \<union> {(x, y). (x, a) \<in> together p \<and> (y, b) \<in> together p \<or> (y, a) \<in> together p \<and> (x, b) \<in> together p}"
    unfolding e(1) by (rule unite_correct[OF Cons.prems(1) e(2,3)])
  let ?D = "insert (a, b) D"
  have D: "together p \<subseteq> linked ?D" using Cons.prems(3) linked_mono[of D ?D] by blast
  have "(x, y) \<in> linked ?D" if "(x, a) \<in> together p" "(y, b) \<in> together p" for x y
    using that D linked_edge[of a b ?D] linked_trans linked_sym by (meson insertI1 subsetD)
  then have "together q \<subseteq> linked ?D" using D linked_sym unfolding q(4) by blast
  moreover have "?D \<subseteq> together q" using Cons.prems(4) together_refl[OF Cons.prems(1)] e(2,3) unfolding q(4) by auto
  ultimately obtain q' where "unite_all q es = Some q' \<and> forest q' \<and> length q' = length q \<and> together q' \<subseteq> linked (?D \<union> set es) \<and>
      ?D \<union> set es \<subseteq> together q'"
    using Cons.IH[OF q(2), of ?D] Cons.prems(2) q(3) by auto
  then show ?case using q(1,3) e(1) by auto
qed auto

section \<open>Groups\<close>

lemma forest_start: "forest [0..<n]" "together [0..<n] = {(x, y). x < n \<and> x = y}"
proof -
  have r: "root [0..<n] x r \<longleftrightarrow> r = x" if "x < n" for x r
    using that root_unique root.root_self[of "[0..<n]" x] by fastforce
  then show "forest [0..<n]" "together [0..<n] = {(x, y). x < n \<and> x = y}" by (auto simp: forest_def together_def)
qed

lemma collect_correct:
  assumes "forest p" "set is \<subseteq> {..<length p}"
  shows "collect p is g = Some (\<lambda>r. g r @ filter (\<lambda>i. root p i r) is)"
  using assms
proof (induction "is" arbitrary: p g)
  case (Cons i "is")
  then obtain r where r: "root p i r" using forest_root[OF Cons.prems(1), of i] by auto
  obtain q where q: "find_root p i = Some (r, q)" "forest q" "same_roots p q"
    using find_root_correct[OF r Cons.prems(1)] Cons.prems(2) by auto
  have "filter (\<lambda>j. root q j s) is = filter (\<lambda>j. root p j s) is" for s
    using q(3) Cons.prems(2) by (intro filter_cong) (auto simp: same_roots_def)
  moreover have "root p i s \<longleftrightarrow> s = r" for s using r root_unique by metis
  moreover have "set is \<subseteq> {..<length q}" using q(3) Cons.prems(2) by (auto simp: same_roots_def)
  ultimately show ?case using Cons.IH[OF q(2)] q(1) by (auto simp: fun_eq_iff)
qed simp

lemma index_pairs_set: "set (index_pairs n link) = {(i, j). i < j \<and> j < n \<and> link i j}"
proof -
  have "Pair i ` {j. Suc i \<le> j \<and> j < n \<and> link i j} = {(x, j). x = i \<and> i < j \<and> j < n \<and> link i j}" for i by auto
  then show ?thesis by (auto simp: index_pairs_def)
qed

text \<open>The groups are the connected components with at least two elements.\<close>

lemma linked_groups_correct:
  fixes n :: nat and link :: "nat \<Rightarrow> nat \<Rightarrow> bool"
  assumes "\<And>xs. mset (order xs) = mset xs"
  defines "E \<equiv> {(i, j). i < j \<and> j < n \<and> link i j}"
  obtains gs where "linked_groups order n link = Some gs" "distinct (concat gs)"
    "\<And>g. g \<in> set gs \<Longrightarrow> 2 \<le> length g \<and> sorted g \<and> set g \<subseteq> {..<n}"
    "\<And>i j. i < n \<Longrightarrow> j < n \<Longrightarrow> i \<noteq> j \<Longrightarrow> (\<exists>g \<in> set gs. i \<in> set g \<and> j \<in> set g) \<longleftrightarrow> (i, j) \<in> linked E"
proof -
  have "set (index_pairs n link) \<subseteq> {..<length [0..<n]} \<times> {..<length [0..<n]}" by (auto simp: index_pairs_set)
  moreover have "together [0..<n] \<subseteq> linked {}" by (auto simp: forest_start linked_def)
  ultimately obtain p where p: "unite_all [0..<n] (index_pairs n link) = Some p" "forest p" "length p = n" "together p \<subseteq> linked E" "E \<subseteq> together p"
    using unite_all_correct[OF forest_start(1), of "index_pairs n link" n "{}"] by (auto simp: index_pairs_set E_def)
  define g where "g = (\<lambda>r. filter (\<lambda>i. root p i r) [0..<n])"
  define rs where "rs = order (filter (\<lambda>r. g r \<noteq> []) [0..<n])"
  have ms: "mset rs = mset (filter (\<lambda>r. g r \<noteq> []) [0..<n])" unfolding rs_def by (rule assms(1))
  have rs: "distinct rs" "set rs = {r. r < n \<and> g r \<noteq> []}"
    using mset_eq_imp_distinct_iff[OF ms] mset_eq_setD[OF ms] by auto
  let ?gs = "filter (\<lambda>is. 2 \<le> length is) (map g rs)"
  have "collect p [0..<n] (\<lambda>_. []) = Some g" using collect_correct[OF p(2), of "[0..<n]"] p(3) by (simp add: g_def lessThan_atLeast0)
  then have "linked_groups order n link = Some ?gs" using p(1) by (simp add: linked_groups_def rs_def)
  moreover have "distinct (concat (filter (\<lambda>is. 2 \<le> length is) (map g rs)))" if "distinct rs" for rs
    using that by (induction rs) (auto simp: g_def dest: root_unique)
  then have "distinct (concat ?gs)" using rs(1) by blast
  moreover have "2 \<le> length h \<and> sorted h \<and> set h \<subseteq> {..<n}" if "h \<in> set ?gs" for h
    using that by (auto simp: g_def sorted_wrt_filter)
  moreover have "(\<exists>h \<in> set ?gs. i \<in> set h \<and> j \<in> set h) \<longleftrightarrow> (i, j) \<in> linked E" if "i < n" "j < n" "i \<noteq> j" for i j
  proof -
    have "(\<exists>h \<in> set ?gs. i \<in> set h \<and> j \<in> set h) \<longleftrightarrow> (i, j) \<in> together p"
    proof
      assume "\<exists>h \<in> set ?gs. i \<in> set h \<and> j \<in> set h"
      then show "(i, j) \<in> together p" using that p(3) by (auto simp: g_def together_def)
    next
      assume "(i, j) \<in> together p"
      then obtain r where r: "root p i r" "root p j r" by (auto simp: together_def)
      then have m: "i \<in> set (g r)" "j \<in> set (g r)" using that by (auto simp: g_def)
      have "r < n" using root_bound[OF r(1) p(2)] that(1) p(3) by simp
      moreover have "2 \<le> length (g r)"
        using m that(3) card_mono[of "set (g r)" "{i, j}"] card_length[of "g r"] by auto
      ultimately have "g r \<in> set ?gs" using m rs(2) by auto
      then show "\<exists>h \<in> set ?gs. i \<in> set h \<and> j \<in> set h" using m by blast
    qed
    also have "\<dots> \<longleftrightarrow> (i, j) \<in> linked E"
      using p(3-5) linked_in_together[OF _ p(5,2)] that(1) by auto
    finally show ?thesis .
  qed
  ultimately show thesis by (rule that)
qed

end
