(* ===== verification/Incidents.thy ===== *)
theory Incidents
  imports Analysis Union_Find "HOL-Library.List_Lexorder" "HOL-Library.Char_ord"
begin

text \<open>
  The correlation of signals to incidents (internal/dashboard/handlers_incident_correlation.go): the signals of events, pods and
  nodes, which of them belong together, the clusters with their root causes, the orphans, the score and the
  recommendations. The order of a map of strings and \<open>sort.Slice\<close> are parameters.
\<close>

section \<open>Signals\<close>

record signal =
  sg_time :: time
  sg_source :: string
  sg_namespace :: string
  sg_name :: string
  sg_kind :: string
  sg_node :: string
  sg_reason :: string
  sg_message :: string
  sg_severity :: string
  sg_category :: string
  sg_causal :: bool

definition truncate_msg :: "string \<Rightarrow> nat \<Rightarrow> string" where
  "truncate_msg s m = truncate_text (trim_space s) m"

definition critical_reasons :: "string list" where
  "critical_reasons = [''OOMKilling'', ''OOMKilled'', ''CrashLoopBackOff'', ''BackOff'', ''NodeNotReady'', ''EvictionThreshold'', ''Evicted'',
     ''FailedScheduling'', ''FailedMount'', ''FailedAttachVolume'', ''Unhealthy'']"

definition classify_event_severity :: "string \<Rightarrow> string" where
  "classify_event_severity reason = (if reason \<in> set critical_reasons then ''critical'' else ''warning'')"

text \<open>The categories in the order in which they are tried, with their markers.\<close>

definition signal_markers :: "(string list \<times> string) list" where
  "signal_markers =
     [([''schedul'', ''nodeaffinity'', ''taint'', ''toleration'', ''not fit''], ''scheduling''),
      ([''memory'', ''oom'', ''diskpressure'', ''disk'', ''cpupress'', ''pressure'', ''pidpressure'', ''evict''], ''resource-pressure''),
      ([''network'', ''dns'', ''connect'', ''timeout'', ''unreachable'', ''refused''], ''networking''),
      ([''volume'', ''mount'', ''pvc'', ''attach'', ''storage''], ''storage''),
      ([''configmap'', ''secret'', ''config'', ''env''], ''config''),
      ([''image'', ''pull'', ''crash'', ''backoff'', ''exit''], ''application''),
      ([''auth'', ''rbac'', ''certificate'', ''denied'', ''forbidden''], ''security'')]"

definition categorize_signal :: "string \<Rightarrow> string \<Rightarrow> string" where
  "categorize_signal reason message = (let combined = to_lower reason @ '' '' @ to_lower message in
     case find (\<lambda>(ms, c). list_ex (contains combined) ms) signal_markers of Some (ms, c) \<Rightarrow> c | None \<Rightarrow> ''unknown'')"

definition is_causal_reason :: "string \<Rightarrow> bool" where
  "is_causal_reason reason \<longleftrightarrow> reason \<in> set [''NodeNotReady'', ''MemoryPressure'', ''DiskPressure'', ''PIDPressure'', ''NetworkUnavailable'',
     ''FailedScheduling'', ''FailedMount'', ''FailedAttachVolume'', ''Evicted'', ''EvictionThreshold'', ''NodeSysctlChange'']"

definition classify_phase_severity :: "string \<Rightarrow> string" where
  "classify_phase_severity phase = (if phase = ''Failed'' then ''critical'' else if phase = ''Pending'' then ''warning'' else ''info'')"

definition classify_node_condition :: "string \<Rightarrow> string" where
  "classify_node_condition t = (if t = ''MemoryPressure'' \<or> t = ''DiskPressure'' then ''critical'' else ''warning'')"

record warning_event =
  we_last :: time
  we_created :: time
  we_kind :: string
  we_name :: string
  we_namespace :: string
  we_reason :: string
  we_message :: string

text \<open>The word behind the first \<open>node\<close> in the message.\<close>

definition extract_node_from_event :: "warning_event \<Rightarrow> string" where
  "extract_node_from_event e = (if we_kind e = ''Node'' then we_name e else
     case index_of ''node '' (we_message e) of
       Some i \<Rightarrow> (let rest = drop (i + 5) (we_message e); w = takeWhile (\<lambda>c. c \<noteq> CHR '' '') rest in if length w < length rest then w else [])
     | None \<Rightarrow> [])"

definition event_signals :: "time \<Rightarrow> warning_event \<Rightarrow> signal list" where
  "event_signals cutoff e = (let t = if we_last e = zero_time then we_created e else we_last e in
     entry_if (\<not> t < cutoff) \<lparr>sg_time = t, sg_source = ''event'', sg_namespace = we_namespace e, sg_name = we_name e, sg_kind = we_kind e,
       sg_node = extract_node_from_event e, sg_reason = we_reason e, sg_message = truncate_msg (we_message e) 200,
       sg_severity = classify_event_severity (we_reason e), sg_category = categorize_signal (we_reason e) (we_message e),
       sg_causal = is_causal_reason (we_reason e)\<rparr>)"

text \<open>The reason a container waits for, and the reason, the end and the exit code of its last termination.\<close>

record watched_container =
  cs_name :: string
  cs_waiting :: "string option"
  cs_last :: "(string \<times> time \<times> int) option"
  cs_restarts :: int

record signal_pod =
  sp_namespace :: string
  sp_name :: string
  sp_node :: string
  sp_phase :: string
  sp_start :: "time option"
  sp_containers :: "watched_container list"

definition pod_signal :: "signal_pod \<Rightarrow> time \<Rightarrow> string \<Rightarrow> string \<Rightarrow> string \<Rightarrow> string \<Rightarrow> signal" where
  "pod_signal p t reason message severity category = \<lparr>sg_time = t, sg_source = ''pod-status'', sg_namespace = sp_namespace p, sg_name = sp_name p,
     sg_kind = ''Pod'', sg_node = sp_node p, sg_reason = reason, sg_message = message, sg_severity = severity, sg_category = category, sg_causal = False\<rparr>"

definition container_signals :: "time \<Rightarrow> time \<Rightarrow> signal_pod \<Rightarrow> watched_container \<Rightarrow> signal list" where
  "container_signals cutoff now p c =
     entry_if (cs_waiting c = Some ''CrashLoopBackOff'')
       (pod_signal p now ''CrashLoopBackOff'' (''Container '' @ cs_name c @ '' in CrashLoopBackOff'') ''critical'' ''application'') @
     (case cs_last c of
        Some (reason, finished, code) \<Rightarrow> entry_if (reason = ''OOMKilled'' \<and> (finished = zero_time \<or> cutoff < finished))
          (pod_signal p finished ''OOMKilled'' (''Container '' @ cs_name c @ '' killed by OOM (exit '' @ show_int code @ '')'') ''critical'' ''resource-pressure'')
      | None \<Rightarrow> [])"

text \<open>The restarts are summed up as 32-bit integers.\<close>

definition total_restarts :: "signal_pod \<Rightarrow> int" where
  "total_restarts p = signed_take_bit 31 (sum_list (map cs_restarts (sp_containers p)))"

definition pod_signals :: "time \<Rightarrow> time \<Rightarrow> signal_pod \<Rightarrow> signal list" where
  "pod_signals cutoff now p = concat (map (container_signals cutoff now p) (sp_containers p)) @
     entry_if (5 \<le> total_restarts p) (pod_signal p now ''HighRestartCount''
       (''Pod has '' @ show_int (total_restarts p) @ '' total container restarts'') ''warning'' ''application'') @
     (case sp_start p of
        Some t \<Rightarrow> entry_if (sp_phase p \<noteq> ''Running'' \<and> sp_phase p \<noteq> ''Succeeded'' \<and> cutoff < t) (pod_signal p t (''Phase:'' @ sp_phase p)
          (''Pod is in '' @ sp_phase p @ '' phase'') (classify_phase_severity (sp_phase p)) ''scheduling'')
      | None \<Rightarrow> [])"

record node_condition =
  nc_type :: string
  nc_status :: string
  nc_transition :: time
  nc_message :: string

definition condition_signals :: "time \<Rightarrow> string \<Rightarrow> node_condition \<Rightarrow> signal list" where
  "condition_signals cutoff node c =
     entry_if (nc_status c = ''True'' \<and> nc_type c \<noteq> ''Ready'' \<and> nc_transition c \<noteq> zero_time \<and> \<not> nc_transition c < cutoff)
       \<lparr>sg_time = nc_transition c, sg_source = ''node-condition'', sg_namespace = [], sg_name = node, sg_kind = ''Node'', sg_node = node,
        sg_reason = nc_type c, sg_message = ''Node '' @ node @ '': '' @ nc_type c @ '' is True ('' @ truncate_msg (nc_message c) 150 @ '')'',
        sg_severity = classify_node_condition (nc_type c), sg_category = ''resource-pressure'', sg_causal = True\<rparr>"

definition node_signals :: "time \<Rightarrow> string \<times> node_condition list \<Rightarrow> signal list" where
  "node_signals cutoff = (\<lambda>(name, cs). concat (map (condition_signals cutoff name) cs))"

section \<open>Correlation\<close>

definition proximity_window :: duration where
  "proximity_window = 5 * minute"

definition time_apart :: "signal \<Rightarrow> signal \<Rightarrow> duration" where
  "time_apart a b = (let d = time_sub (sg_time b) (sg_time a) in if d < 0 then wrap64 (- d) else d)"

definition same_resource :: "signal \<Rightarrow> signal \<Rightarrow> bool" where
  "same_resource a b \<longleftrightarrow> sg_name a = sg_name b \<and> sg_kind a = sg_kind b \<and> sg_namespace a = sg_namespace b"

definition causal_link :: "signal \<Rightarrow> signal \<Rightarrow> bool" where
  "causal_link a b \<longleftrightarrow> (sg_causal a \<or> sg_causal b) \<and> (sg_category a = sg_category b \<or> sg_namespace a = sg_namespace b)"

definition correlated :: "signal \<Rightarrow> signal \<Rightarrow> bool" where
  "correlated a b \<longleftrightarrow> (let near = time_apart a b \<le> proximity_window in
     if \<not> near \<and> \<not> same_resource a b then False
     else same_resource a b \<or> (sg_node a \<noteq> [] \<and> sg_node a = sg_node b) \<or>
       (sg_namespace a \<noteq> [] \<and> sg_namespace a = sg_namespace b \<and> near) \<or> causal_link a b)"

definition signal_groups :: "(nat list \<Rightarrow> nat list) \<Rightarrow> signal list \<Rightarrow> nat list list option" where
  "signal_groups order ss = linked_groups order (length ss) (\<lambda>i j. correlated (ss ! i) (ss ! j))"

section \<open>Clusters\<close>

definition is_alnum :: "string \<Rightarrow> bool" where
  "is_alnum s \<longleftrightarrow> s \<noteq> [] \<and> list_all (\<lambda>c. is_digit c \<or> CHR ''a'' \<le> c \<and> c \<le> CHR ''z'') s"

definition is_numeric :: "string \<Rightarrow> bool" where
  "is_numeric s \<longleftrightarrow> s \<noteq> [] \<and> list_all is_digit s"

definition hash_like :: "string \<Rightarrow> bool" where
  "hash_like s \<longleftrightarrow> length s = 5 \<and> is_alnum s"

definition extract_workload_name :: "string \<Rightarrow> string" where
  "extract_workload_name pod = (let parts = split_on (CHR ''-'') pod; n = length parts in
     if 3 \<le> n \<and> hash_like (last parts) \<and> hash_like (parts ! (n - 2)) then join_with ''-'' (take (n - 2) parts)
     else if 2 \<le> n \<and> is_numeric (last parts) then join_with ''-'' (butlast parts)
     else pod)"

record root_cause =
  rg_description :: string
  rg_signal :: signal
  rg_confidence :: int
  rg_category :: string

definition causal_confidence :: "signal list \<Rightarrow> signal \<Rightarrow> int" where
  "causal_confidence ss s = (let conf = 60 + (if sg_category s = ''resource-pressure'' then 20 else if sg_category s = ''scheduling'' then 15
       else if sg_category s = ''storage'' then 10 else 0) + (if ss \<noteq> [] \<and> sg_time s = sg_time (hd ss) then 10 else 0)
     in if 100 < conf then 100 else conf)"

definition find_root_cause :: "(signal \<times> int) slice_sort \<Rightarrow> signal list \<Rightarrow> root_cause option" where
  "find_root_cause srt ss = (case ss of
     [] \<Rightarrow> None
   | earliest # _ \<Rightarrow>
       (case srt (\<lambda>a b. snd b < snd a) (map (\<lambda>s. (s, causal_confidence ss s)) (filter sg_causal ss)) of
          [] \<Rightarrow> Some \<lparr>rg_description = ''Earliest detected signal: '' @ sg_reason earliest @ '' '' @ em_dash @ '' '' @ truncate_msg (sg_message earliest) 100,
                 rg_signal = earliest, rg_confidence = 30, rg_category = sg_category earliest\<rparr>
        | (s, conf) # _ \<Rightarrow> Some \<lparr>rg_description = sg_reason s @ '': '' @ truncate_msg (sg_message s) 100, rg_signal = s, rg_confidence = conf,
                 rg_category = sg_category s\<rparr>))"

text \<open>The first value, in the order of a map, with the most signals.\<close>

definition most_common :: "(string list \<Rightarrow> string list) \<Rightarrow> string \<Rightarrow> (signal \<Rightarrow> string) \<Rightarrow> signal list \<Rightarrow> string" where
  "most_common mo start f ss = fst (fold (\<lambda>k (best, m). let n = how_many (\<lambda>s. f s = k) ss in if m < n then (k, n) else (best, m))
     (mo (remdups (map f ss))) (start, 0))"

definition title_start :: "string \<Rightarrow> string" where
  "title_start category =
     (if category = ''resource-pressure'' then ''Resource pressure incident'' else if category = ''scheduling'' then ''Scheduling failure cascade''
      else if category = ''networking'' then ''Network connectivity incident'' else if category = ''storage'' then ''Storage/volume incident''
      else if category = ''config'' then ''Configuration/misconfiguration incident'' else if category = ''application'' then ''Application failure cascade''
      else if category = ''security'' then ''Security-related incident'' else ''Correlated incident'')"

definition build_incident_title :: "(string list \<Rightarrow> string list) \<Rightarrow> string \<Rightarrow> string \<Rightarrow> string \<Rightarrow> signal list \<Rightarrow> string" where
  "build_incident_title mo category ns node ss = (let
       scope = (if node \<noteq> [] then ''node '' @ node else if ns \<noteq> [] then ''namespace '' @ ns else ns);
       worst = most_common mo [] sg_reason ss
     in title_start category @ '' in '' @ scope @ '' ('' @ (if title_start category = ''Correlated incident'' \<and> worst = [] then
          show_nat (length ss) @ '' signals'' else worst) @ '')'')"

record incident =
  ic_id :: string
  ic_title :: string
  ic_severity :: string
  ic_start :: time
  ic_end :: time
  ic_minutes :: rat
  ic_namespace :: string
  ic_node :: string
  ic_signals :: "signal list"
  ic_root :: "root_cause option"
  ic_pods :: nat
  ic_namespaces :: "string list"
  ic_nodes :: "string list"
  ic_workloads :: "string list"
  ic_key :: string
  ic_category :: string

definition cluster_severity :: "signal list \<Rightarrow> string" where
  "cluster_severity ss = (let crit = how_many (\<lambda>s. sg_severity s = ''critical'') ss; warn = how_many (\<lambda>s. sg_severity s = ''warning'') ss in
     if 2 \<le> crit then ''critical'' else if 1 \<le> crit \<or> 5 \<le> warn then ''high'' else if 2 \<le> warn then ''medium'' else ''low'')"

text \<open>A zero time counts as not set.\<close>

definition bounds_of :: "time list \<Rightarrow> time \<times> time" where
  "bounds_of ts = fold (\<lambda>t (lo, hi). (if lo = zero_time \<or> t < lo then t else lo, if hi = zero_time \<or> hi < t then t else hi)) ts (zero_time, zero_time)"

definition nonempty :: "string list \<Rightarrow> string list" where
  "nonempty xs = remdups (filter (\<lambda>x. x \<noteq> []) xs)"

record incident_env =
  ie_map :: "string list \<Rightarrow> string list"
  ie_roots :: "nat list \<Rightarrow> nat list"
  ie_sort_signals :: "signal slice_sort"
  ie_sort_candidates :: "(signal \<times> int) slice_sort"
  ie_sort_incidents :: "incident slice_sort"

definition build_incident_cluster :: "incident_env \<Rightarrow> signal list \<Rightarrow> nat list \<Rightarrow> string \<Rightarrow> incident" where
  "build_incident_cluster E signals is ident = (let found = map (\<lambda>i. signals ! i) is;
       ss = ie_sort_signals E (\<lambda>a b. sg_time a < sg_time b) found;
       (lo, hi) = bounds_of (map sg_time found);
       nss = nonempty (map sg_namespace found); nodes = nonempty (map sg_node found);
       pods = filter (\<lambda>s. sg_kind s = ''Pod'') found;
       ns = (case ie_map E nss of x # _ \<Rightarrow> x | [] \<Rightarrow> []); node = (case nodes of [x] \<Rightarrow> x | _ \<Rightarrow> []);
       category = most_common (ie_map E) ''unknown'' sg_category ss
     in \<lparr>ic_id = ident, ic_title = build_incident_title (ie_map E) category ns node ss, ic_severity = cluster_severity ss,
         ic_start = lo, ic_end = hi,
         ic_minutes = (if lo \<noteq> zero_time \<and> hi \<noteq> zero_time then max 0 (dur_minutes (time_sub hi lo)) else 0),
         ic_namespace = ns, ic_node = node, ic_signals = ss, ic_root = find_root_cause (ie_sort_candidates E) ss,
         ic_pods = length (remdups (map sg_name pods)), ic_namespaces = sort nss, ic_nodes = sort nodes,
         ic_workloads = sort (nonempty (map (\<lambda>s. extract_workload_name (sg_name s)) pods)),
         ic_key = (if node \<noteq> [] then ''node:'' @ node else ns), ic_category = category\<rparr>)"

definition incident_id :: "nat \<Rightarrow> string" where
  "incident_id n = ''INC-'' @ replicate (3 - length (show_nat n)) (CHR ''0'') @ show_nat n"

text \<open>\<open>None\<close> would be a search for a root that does not end.\<close>

definition correlate_signals :: "incident_env \<Rightarrow> signal list \<Rightarrow> incident list option" where
  "correlate_signals E signals = (if signals = [] then Some [] else
     map_option (\<lambda>gs. map (\<lambda>(k, is). build_incident_cluster E signals is (incident_id (Suc k))) (enumerate 0 gs))
       (signal_groups (ie_roots E) signals))"

section \<open>The result\<close>

definition signal_equal :: "signal \<Rightarrow> signal \<Rightarrow> bool" where
  "signal_equal a b \<longleftrightarrow> sg_time a = sg_time b \<and> sg_source a = sg_source b \<and> sg_namespace a = sg_namespace b \<and> sg_name a = sg_name b \<and>
     sg_reason a = sg_reason b"

text \<open>Every signal of an incident marks the first signal that equals it.\<close>

definition marked :: "signal list \<Rightarrow> incident list \<Rightarrow> nat list" where
  "marked signals incs = List.map_filter (\<lambda>x. find (\<lambda>i. signal_equal (signals ! i) x) [0..<length signals]) (concat (map ic_signals incs))"

definition orphan_signals :: "signal list \<Rightarrow> incident list \<Rightarrow> signal list" where
  "orphan_signals signals incs = map (\<lambda>i. signals ! i) (filter (\<lambda>i. i \<notin> set (marked signals incs)) [0..<length signals])"

definition severity_order :: "string \<Rightarrow> nat" where
  "severity_order s = (if s = ''high'' then 1 else if s = ''medium'' then 2 else if s = ''low'' then 3 else 0)"

definition incident_before :: "incident \<Rightarrow> incident \<Rightarrow> bool" where
  "incident_before a b \<longleftrightarrow> (if severity_order (ic_severity a) \<noteq> severity_order (ic_severity b)
     then severity_order (ic_severity a) < severity_order (ic_severity b) else length (ic_signals b) < length (ic_signals a))"

record incident_summary =
  iy_signals :: nat
  iy_incidents :: nat
  iy_critical :: nat
  iy_high :: nat
  iy_medium :: nat
  iy_low :: nat
  iy_orphans :: nat
  iy_namespaces :: nat
  iy_nodes :: nat

definition summarize_incidents :: "signal list \<Rightarrow> incident list \<Rightarrow> signal list \<Rightarrow> incident_summary" where
  "summarize_incidents signals incs orphans = (let sev = (\<lambda>x. how_many (\<lambda>i. ic_severity i = x) incs) in
     \<lparr>iy_signals = length signals, iy_incidents = length incs, iy_critical = sev ''critical'', iy_high = sev ''high'', iy_medium = sev ''medium'',
      iy_low = sev ''low'', iy_orphans = length orphans, iy_namespaces = length (nonempty (map sg_namespace signals)),
      iy_nodes = length (nonempty (map sg_node signals))\<rparr>)"

definition severity_cost :: "string \<Rightarrow> int" where
  "severity_cost s = (if s = ''critical'' then 25 else if s = ''high'' then 15 else if s = ''medium'' then 8 else if s = ''low'' then 3 else 0)"

definition incident_score :: "incident list \<Rightarrow> int" where
  "incident_score incs = (let score = 100 - (\<Sum>i\<leftarrow>incs. severity_cost (ic_severity i)) in if score < 0 then 0 else score)"

definition category_advice :: "(string \<times> string) list" where
  "category_advice =
     [(''resource-pressure'', ''Resource pressure detected '' @ em_dash @ '' review node capacity, resource requests/limits, and consider autoscaling''),
      (''scheduling'', ''Scheduling failures detected '' @ em_dash @ '' check node resources, taints/tolerations, and affinity rules''),
      (''storage'', ''Storage issues detected '' @ em_dash @ '' verify PVC binding, storage class availability, and CSI driver health''),
      (''networking'', ''Network issues detected '' @ em_dash @ '' check CNI health, DNS resolution, and service connectivity''),
      (''config'', ''Configuration issues detected '' @ em_dash @ '' verify ConfigMap/Secret references and mount paths'')]"

text \<open>\<open>quote\<close> is the verb \<open>%q\<close>; every category is advised on where it comes first.\<close>

definition generate_incident_recommendations :: "(string \<Rightarrow> string) \<Rightarrow> incident_summary \<Rightarrow> incident list \<Rightarrow> int \<Rightarrow> string list" where
  "generate_incident_recommendations quote z incs score = (let
       seen = foldl (\<lambda>cs i. if ic_category i \<in> set cs then cs else cs @ [ic_category i]) [] incs;
       recs = entry_if (0 < iy_critical z) (show_nat (iy_critical z) @ '' critical incident(s) detected '' @ em_dash @ '' immediate investigation required'') @
         (case incs of
            worst # _ \<Rightarrow> (case ic_root worst of
                Some rg \<Rightarrow> [''Incident '' @ quote (ic_title worst) @ '' likely caused by: '' @ rg_description rg @ '' (confidence: '' @ show_int (rg_confidence rg) @ ''%)'']
              | None \<Rightarrow> []) @
              entry_if (0 < ic_pods worst) (''Incident '' @ quote (ic_title worst) @ '' affects '' @ show_nat (ic_pods worst) @ '' pod(s) across '' @
                show_nat (length (ic_namespaces worst)) @ '' namespace(s)'')
          | [] \<Rightarrow> []) @
         List.map_filter (map_of category_advice) seen @
         entry_if (10 < iy_orphans z) (show_nat (iy_orphans z) @ '' uncorrelated warning signals '' @ em_dash @ '' review for potential isolated issues'') @
         entry_if (score < 50) (''Cluster incident health score is '' @ show_int score @ ''/100 '' @ em_dash @ '' multiple active incidents require attention'')
     in recs @ entry_if (recs = [] \<and> iy_signals z = 0)
          (''No warning signals detected in the analysis window '' @ em_dash @ '' cluster appears healthy''))"

record incident_result =
  ir_summary :: incident_summary
  ir_incidents :: "incident list"
  ir_orphans :: "signal list"
  ir_recs :: "string list"
  ir_score :: int

definition incident_result_of :: "incident_env \<Rightarrow> (string \<Rightarrow> string) \<Rightarrow> signal list \<Rightarrow> incident_result option" where
  "incident_result_of E quote signals = map_option (\<lambda>incs.
     let orphans = take 50 (orphan_signals signals incs); sorted = ie_sort_incidents E incident_before incs;
         z = summarize_incidents signals sorted orphans; score = incident_score sorted
     in \<lparr>ir_summary = z, ir_incidents = sorted, ir_orphans = orphans, ir_recs = generate_incident_recommendations quote z sorted score, ir_score = score\<rparr>)
     (correlate_signals E signals)"

definition window_minutes :: "http_req \<Rightarrow> int" where
  "window_minutes rq = (let w = rq_query rq ''window''; v = scan_int w 60 in if w \<noteq> [] \<and> 0 < v \<and> v \<le> 360 then v else 60)"

record 'd incident_client =
  iq_events :: "string \<Rightarrow> 'd \<Rightarrow> string + warning_event list"
  iq_pods :: "string \<Rightarrow> 'd \<Rightarrow> string + signal_pod list"
  iq_nodes :: "'d \<Rightarrow> string + (string \<times> node_condition list) list"

text \<open>The clock is read twice, for the window and for the scan.\<close>

definition collect_signals :: "'d incident_client \<Rightarrow> http_req \<Rightarrow> time \<Rightarrow> time \<Rightarrow> 'd \<Rightarrow> signal list" where
  "collect_signals C rq t0 now d = (let cutoff = t0 - window_minutes rq * minute; ns = rq_query rq ''namespace'' in
     concat (map (event_signals cutoff) (listed (iq_events C ns d))) @
     concat (map (pod_signals cutoff now) (listed (iq_pods C ns d))) @
     concat (map (node_signals cutoff) (listed (iq_nodes C d))))"

definition handle_incident_correlation :: "incident_env \<Rightarrow> (string \<Rightarrow> string) \<Rightarrow> 'd incident_client option \<Rightarrow> http_req \<Rightarrow> time \<Rightarrow> time \<Rightarrow> 'd \<Rightarrow>
    (http_resp + incident_result) option" where
  "handle_incident_correlation E quote client rq t0 now d = (case client of
     None \<Rightarrow> Some (Inl (write_error 503 ''kubernetes client not available''))
   | Some C \<Rightarrow> map_option Inr (incident_result_of E quote
       (ie_sort_signals E (\<lambda>a b. sg_time a < sg_time b) (collect_signals C rq t0 now d))))"

section \<open>Lemmas\<close>

lemma wrap64_minus: "min_int64 < d \<Longrightarrow> d < 0 \<Longrightarrow> wrap64 (- d) = - d"
  by (intro wrap64_id) (auto simp: min_int64_def max_int64_def)

lemma same_resource_correlated: "same_resource a b \<Longrightarrow> correlated a b"
  by (simp add: correlated_def)

text \<open>What the words of a message and the names of pods give.\<close>

lemma node_of_eviction:
  assumes "we_kind e = ''Pod''" "we_message e = ''The node was low on resource: memory.''"
  shows "extract_node_from_event e = ''was''"
proof -
  have "(case index_of ''node '' ''The node was low on resource: memory.'' of
      Some i \<Rightarrow> (let rest = drop (i + 5) ''The node was low on resource: memory.''; w = takeWhile (\<lambda>c. c \<noteq> CHR '' '') rest in
        if length w < length rest then w else []) | None \<Rightarrow> []) = ''was''" by code_simp
  then show ?thesis unfolding extract_node_from_event_def assms by simp
qed

lemma workload_of_pod:
  assumes "CHR ''-'' \<notin> set hash" "CHR ''-'' \<notin> set rand" "length hash \<noteq> 5" "\<not> is_numeric rand" "CHR ''-'' \<notin> set app"
  shows "extract_workload_name (app @ ''-'' @ hash @ ''-'' @ rand) = app @ ''-'' @ hash @ ''-'' @ rand"
  using assms by (simp add: extract_workload_name_def split_on_skip split_on_no_sep hash_like_def Let_def)

lemma incident_score_bounds: "0 \<le> incident_score incs \<and> incident_score incs \<le> 100"
proof -
  have "0 \<le> (\<Sum>i\<leftarrow>incs. severity_cost (ic_severity i))" by (intro sum_list_nonneg) (auto simp: severity_cost_def)
  then show ?thesis by (simp add: incident_score_def Let_def)
qed

lemma find_first:
  assumes "find P [0..<n] = Some i" "j < i"
  shows "\<not> P j"
  using assms by (auto simp: find_Some_iff)

text \<open>The second of two equal signals is never marked.\<close>

lemma second_unmarked:
  assumes "i < j" "j < length signals" "signal_equal (signals ! i) (signals ! j)"
  shows "j \<notin> set (marked signals incs)"
proof
  assume "j \<in> set (marked signals incs)"
  then obtain x where x: "find (\<lambda>i. signal_equal (signals ! i) x) [0..<length signals] = Some j"
    by (auto simp: marked_def List.map_filter_def)
  then have "signal_equal (signals ! j) x" by (auto simp: find_Some_iff)
  then have "signal_equal (signals ! i) x" using assms(3) by (simp add: signal_equal_def)
  then show False using find_first[OF x assms(1)] by simp
qed

text \<open>The pairs of signals that belong together.\<close>

definition signal_links :: "signal list \<Rightarrow> (nat \<times> nat) set" where
  "signal_links ss = {(i, j). i < j \<and> j < length ss \<and> correlated (ss ! i) (ss ! j)}"

definition are_components :: "signal list \<Rightarrow> nat list list \<Rightarrow> bool" where
  "are_components ss gs \<longleftrightarrow> distinct (concat gs) \<and> list_all (\<lambda>g. 2 \<le> length g \<and> list_all (\<lambda>i. i < length ss) g) gs \<and>
     (\<forall>i < length ss. \<forall>j < length ss. i \<noteq> j \<longrightarrow> (\<exists>g \<in> set gs. i \<in> set g \<and> j \<in> set g) = ((i, j) \<in> linked (signal_links ss)))"

lemma signal_groups_correct:
  assumes "\<And>xs. mset (order xs) = mset xs"
  shows "\<exists>gs. signal_groups order ss = Some gs \<and> are_components ss gs"
proof (rule linked_groups_correct[OF assms, of "length ss" "\<lambda>i j. correlated (ss ! i) (ss ! j)"])
  fix gs
  assume g: "linked_groups order (length ss) (\<lambda>i j. correlated (ss ! i) (ss ! j)) = Some gs" "distinct (concat gs)"
    "\<And>g. g \<in> set gs \<Longrightarrow> 2 \<le> length g \<and> sorted g \<and> set g \<subseteq> {..<length ss}"
    "\<And>i j. i < length ss \<Longrightarrow> j < length ss \<Longrightarrow> i \<noteq> j \<Longrightarrow> (\<exists>g \<in> set gs. i \<in> set g \<and> j \<in> set g) \<longleftrightarrow>
      (i, j) \<in> linked {(i, j). i < j \<and> j < length ss \<and> correlated (ss ! i) (ss ! j)}"
  from g(2-4) have "are_components ss gs" unfolding are_components_def signal_links_def list_all_iff by blast
  then show ?thesis using g(1) by (auto simp: signal_groups_def)
qed

lemma cluster_signals: "ic_signals (build_incident_cluster E ss is k) = ie_sort_signals E (\<lambda>a b. sg_time a < sg_time b) (map (\<lambda>i. ss ! i) is)"
  by (simp add: build_incident_cluster_def Let_def split: prod.split)

lemma enumerate_map: "map (\<lambda>(k, x). f x) (enumerate n xs) = map f xs"
  by (induction xs arbitrary: n) simp_all

lemma correlate_signals_groups:
  assumes "signal_groups (ie_roots E) ss = Some gs" "permuting (ie_sort_signals E)" "\<And>xs. mset (ie_roots E xs) = mset xs"
  obtains incs where "correlate_signals E ss = Some incs" "map (\<lambda>i. mset (ic_signals i)) incs = map (\<lambda>g. mset (map (\<lambda>i. ss ! i) g)) gs"
proof (cases "ss = []")
  case True
  then have "list_all (\<lambda>g. 2 \<le> length g \<and> list_all (\<lambda>i. False) g) gs"
    using signal_groups_correct[OF assms(3), of ss] assms(1) by (auto simp: are_components_def)
  then have "gs = []" by (cases gs) (auto simp: list_all_iff neq_Nil_conv dest!: list_all_length[THEN iffD1] split: list.splits)
  then show ?thesis using True that[of "[]"] by (simp add: correlate_signals_def)
next
  case False
  let ?incs = "map (\<lambda>(k, is). build_incident_cluster E ss is (incident_id (Suc k))) (enumerate 0 gs)"
  have m: "mset (ic_signals (build_incident_cluster E ss is k)) = mset (map (\<lambda>i. ss ! i) is)" for "is" k
    using assms(2) by (simp add: cluster_signals permuting_def)
  have "map (\<lambda>i. mset (ic_signals i)) ?incs = map (\<lambda>(k, is). mset (map (\<lambda>i. ss ! i) is)) (enumerate 0 gs)"
    unfolding map_map by (intro map_cong[OF refl]) (auto simp del: mset_map simp: m)
  then show ?thesis using that[of ?incs] assms(1) False enumerate_map[of "\<lambda>is. mset (map (\<lambda>i. ss ! i) is)"]
    by (simp add: correlate_signals_def del: mset_map)
qed

section \<open>Properties\<close>

text \<open>C36. The incidents are the connected components of the correlation: the search always ends, no signal is in two incidents or
  twice in one, every incident has at least two signals, and two signals are in the same incident exactly when a chain of
  correlated signals leads from one to the other, in whatever order the map gives the groups.\<close>

theorem incidents_are_components:
  assumes "\<forall>xs. mset (ie_roots E xs) = mset xs" "permuting (ie_sort_signals E)"
  shows "\<exists>gs incs. signal_groups (ie_roots E) ss = Some gs \<and> correlate_signals E ss = Some incs \<and>
    map (\<lambda>i. mset (ic_signals i)) incs = map (\<lambda>g. mset (map (\<lambda>i. ss ! i) g)) gs \<and>
    distinct (concat gs) \<and> list_all (\<lambda>g. 2 \<le> length g \<and> list_all (\<lambda>i. i < length ss) g) gs \<and>
    (\<forall>i < length ss. \<forall>j < length ss. i \<noteq> j \<longrightarrow>
      (\<exists>g \<in> set gs. i \<in> set g \<and> j \<in> set g) = ((i, j) \<in> linked (signal_links ss)))"
proof -
  obtain gs where g: "signal_groups (ie_roots E) ss = Some gs" "are_components ss gs"
    using signal_groups_correct[of "ie_roots E" ss] assms(1) by blast
  obtain incs where "correlate_signals E ss = Some incs" "map (\<lambda>i. mset (ic_signals i)) incs = map (\<lambda>g. mset (map (\<lambda>i. ss ! i) g)) gs"
    by (rule correlate_signals_groups[OF g(1) assms(2) assms(1)[rule_format]])
  then show ?thesis using g unfolding are_components_def by blast
qed

text \<open>Of two signals with the same time, source, resource and reason, like two containers of a pod in a crash loop, the second is
  listed as an orphan although it is a part of an incident.\<close>

theorem second_signal_orphaned:
  assumes "i < j" "j < length ss" "signal_equal (ss ! i) (ss ! j)" "sg_kind (ss ! i) = sg_kind (ss ! j)"
    and "\<forall>xs. mset (ie_roots E xs) = mset xs" "permuting (ie_sort_signals E)"
  shows "\<exists>incs. correlate_signals E ss = Some incs \<and> ss ! j \<in> set (orphan_signals ss incs) \<and>
    list_ex (\<lambda>inc. list_ex (\<lambda>x. x = ss ! j) (ic_signals inc)) incs"
proof -
  obtain gs where g: "signal_groups (ie_roots E) ss = Some gs" "are_components ss gs"
    using signal_groups_correct[of "ie_roots E" ss] assms(5) by blast
  obtain incs where c: "correlate_signals E ss = Some incs" "map (\<lambda>i. mset (ic_signals i)) incs = map (\<lambda>g. mset (map (\<lambda>i. ss ! i) g)) gs"
    by (rule correlate_signals_groups[OF g(1) assms(6) assms(5)[rule_format]])
  have "same_resource (ss ! i) (ss ! j)" using assms(3,4) by (simp add: same_resource_def signal_equal_def)
  then have "(i, j) \<in> signal_links ss" using assms(1,2) same_resource_correlated by (simp add: signal_links_def)
  then have "(i, j) \<in> linked (signal_links ss)" by (rule linked_edge)
  moreover have "i < length ss" "i \<noteq> j" using assms(1,2) by simp_all
  ultimately obtain h where h: "h \<in> set gs" "j \<in> set h" using g(2) assms(2) unfolding are_components_def by blast
  then have "mset (map (\<lambda>i. ss ! i) h) \<in> set (map (\<lambda>i. mset (ic_signals i)) incs)" unfolding c(2) by auto
  then obtain inc where inc: "inc \<in> set incs" "mset (ic_signals inc) = mset (map (\<lambda>i. ss ! i) h)" by auto
  then have "ss ! j \<in> set (ic_signals inc)" using h(2) mset_eq_setD[OF inc(2)] by auto
  moreover have "ss ! j \<in> set (orphan_signals ss incs)"
    using second_unmarked[OF assms(1-3), of incs] assms(2) by (auto simp: orphan_signals_def)
  ultimately show ?thesis using c(1) inc(1) by (auto simp: list_ex_iff)
qed

definition demo_incidents :: incident_env where
  "demo_incidents = \<lparr>ie_map = id, ie_roots = id, ie_sort_signals = (\<lambda>b xs. xs), ie_sort_candidates = (\<lambda>b xs. xs), ie_sort_incidents = (\<lambda>b xs. xs)\<rparr>"

definition crashing :: "string \<Rightarrow> signal" where
  "crashing ns = \<lparr>sg_time = 0, sg_source = ''pod-status'', sg_namespace = ns, sg_name = ''web-0'', sg_kind = ''Pod'', sg_node = [],
     sg_reason = ''CrashLoopBackOff'', sg_message = [], sg_severity = ''critical'', sg_category = ''application'', sg_causal = False\<rparr>"

lemma demo_incidents_permuting: "permuting (ie_sort_signals demo_incidents)" "\<forall>xs. mset (ie_roots demo_incidents xs) = mset xs"
  by (simp_all add: demo_incidents_def)

theorem incidents_are_components_witness:
  "\<exists>incs. correlate_signals demo_incidents [crashing ''a'', crashing ''b'', crashing ''a''] = Some incs \<and> length incs = 1"
proof -
  have "signal_groups (ie_roots demo_incidents) [crashing ''a'', crashing ''b'', crashing ''a''] = Some [[0, 2]]" by code_simp
  with incidents_are_components[OF demo_incidents_permuting(2,1), of "[crashing ''a'', crashing ''b'', crashing ''a'']"]
  obtain incs where "correlate_signals demo_incidents [crashing ''a'', crashing ''b'', crashing ''a''] = Some incs"
    "map (\<lambda>i. mset (ic_signals i)) incs = map (\<lambda>g. mset (map (\<lambda>i. [crashing ''a'', crashing ''b'', crashing ''a''] ! i) g)) [[0, 2]]" by auto
  then show ?thesis using map_eq_imp_length_eq by fastforce
qed

theorem second_signal_orphaned_witness:
  "\<exists>incs. correlate_signals demo_incidents [crashing ''a'', crashing ''a''] = Some incs \<and>
     crashing ''a'' \<in> set (orphan_signals [crashing ''a'', crashing ''a''] incs) \<and>
     list_ex (\<lambda>inc. list_ex (\<lambda>x. x = crashing ''a'') (ic_signals inc)) incs"
  using second_signal_orphaned[of 0 1 "[crashing ''a'', crashing ''a'']", OF _ _ _ _ demo_incidents_permuting(2,1)]
  by (simp add: signal_equal_def)

end
