(* ===== verification/K8s_Objects.thy ===== *)
theory K8s_Objects
  imports K8s_Tools "HOL-Library.Multiset"
begin

text \<open>
  Package \<open>k8s\<close>, the tools for the common kinds of objects (internal/tools/k8s/tools_network.go,
  tools_hpa.go, tools_pdb.go, tools_storage.go, tools_top.go). An object is the record of the fields
  a tool reads; optional pointers are options. A tool that panics gives \<open>None\<close>. Lists that are sorted
  keep the order of equal elements, which the library leaves open.
\<close>

section \<open>Objects\<close>

record service_port =
  vp_name :: string
  vp_port :: int
  vp_target :: string
  vp_protocol :: string

record service_item =
  vc_name :: string
  vc_namespace :: string
  vc_type :: string
  vc_cluster_ip :: string
  vc_external_ips :: "string list"
  vc_ports :: "service_port list"
  vc_selector :: "(string \<times> string) list"

record config_map_item =
  cm_name :: string
  cm_namespace :: string
  cm_data :: "(string \<times> string) list"
  cm_binary :: "(string \<times> string) list"

record service_backend =
  sb_name :: string
  sb_port_name :: string
  sb_port_number :: int

text \<open>A rule has its paths when it has an HTTP part; a path has a service or another resource.\<close>

record ingress_rule =
  ir_host :: string
  ir_paths :: "service_backend option list option"

record ingress_item =
  ig_name :: string
  ig_namespace :: string
  ig_class :: "string option"
  ig_rules :: "ingress_rule list"
  ig_tls :: int
  ig_load_balancers :: "(string \<times> string) list"

record policy_item =
  np_name :: string
  np_namespace :: string
  np_labels :: "(string \<times> string) list"
  np_types :: "string list"
  np_ingress :: int
  np_egress :: int

datatype container_state = Running | Waiting string string | Terminated string string | NoState

record container_status =
  cz_name :: string
  cz_restarts :: int
  cz_ready :: bool
  cz_image :: string
  cz_state :: container_state

record pod_status =
  po_name :: string
  po_namespace :: string
  po_phase :: string
  po_node :: string
  po_ip :: string
  po_qos :: string
  po_created :: time
  po_containers :: "container_status list"
  po_conditions :: "(string \<times> string) list"

record hpa_item =
  hp_name :: string
  hp_namespace :: string
  hp_target_kind :: string
  hp_target_name :: string
  hp_min :: "int option"
  hp_max :: int
  hp_current :: int
  hp_desired :: int

record pdb_item =
  pb_name :: string
  pb_namespace :: string
  pb_min_available :: "string option"
  pb_max_unavailable :: "string option"
  pb_healthy :: int
  pb_desired :: int
  pb_allowed :: int

record claim_item =
  pvc_name :: string
  pvc_namespace :: string
  pvc_phase :: string
  pvc_capacity :: "string option"
  pvc_class :: "string option"
  pvc_volume :: string

record volume_item =
  pv_name :: string
  pv_phase :: string
  pv_capacity :: "string option"
  pv_claim :: "(string \<times> string) option"
  pv_reason :: string

record storage_class_item =
  stc_name :: string
  stc_provisioner :: string
  stc_annotations :: "(string \<times> string) list"

record node_metrics =
  nu_name :: string
  nu_cpu :: string
  nu_cpu_milli :: int
  nu_memory :: string
  nu_memory_bytes :: int

text \<open>The usage of a container: milli-cores and bytes, when they are reported.\<close>

record pod_metrics =
  pu_name :: string
  pu_namespace :: string
  pu_containers :: "(int option \<times> int option) list"

text \<open>The clients of the objects, beside those of the other tools.\<close>

record ('o, 'c) object_reader = "('o, 'c) k8s_reader" +
  or_service :: "string \<Rightarrow> string \<Rightarrow> 'c \<Rightarrow> string + service_item"
  or_services :: "string \<Rightarrow> 'c \<Rightarrow> string + service_item list"
  or_endpoints :: "string \<Rightarrow> string \<Rightarrow> 'c \<Rightarrow> string + string list list"
  or_config_map :: "string \<Rightarrow> string \<Rightarrow> 'c \<Rightarrow> string + config_map_item"
  or_ingresses :: "string \<Rightarrow> 'c \<Rightarrow> string + ingress_item list"
  or_policies :: "string \<Rightarrow> 'c \<Rightarrow> string + policy_item list"
  or_pods :: "string \<Rightarrow> string \<Rightarrow> 'c \<Rightarrow> string + pod_status list"
  or_hpa :: "string \<Rightarrow> string \<Rightarrow> 'c \<Rightarrow> string + any"
  or_hpas :: "string \<Rightarrow> 'c \<Rightarrow> string + hpa_item list"
  or_pdbs :: "string \<Rightarrow> 'c \<Rightarrow> string + pdb_item list"
  or_claims :: "string \<Rightarrow> 'c \<Rightarrow> string + claim_item list"
  or_volumes :: "'c \<Rightarrow> string + volume_item list"
  or_storage_classes :: "'c \<Rightarrow> string + storage_class_item list"
  or_metrics_client :: "'c \<Rightarrow> string option"
  or_node_metrics :: "'c \<Rightarrow> string + node_metrics list"
  or_pod_metrics :: "string \<Rightarrow> 'c \<Rightarrow> string + pod_metrics list"

definition client :: "('o, 'c) object_reader \<Rightarrow> ('o, 'c) k8s_reader" where
  "client R = k8s_reader.truncate R"

abbreviation typed_with :: "('o, 'c) object_reader \<Rightarrow> ('c \<Rightarrow> exec_ret) \<Rightarrow> 'c \<Rightarrow> exec_ret" where
  "typed_with R \<equiv> typed (client R)"

abbreviation counted_objects :: "('o, 'c) object_reader \<Rightarrow> string \<Rightarrow> any list \<Rightarrow> exec_ret" where
  "counted_objects R \<equiv> counted_list (client R)"

section \<open>Services\<close>

definition show_labels :: "(string \<times> string) list \<Rightarrow> string" where
  "show_labels ls = join_with '','' (sort (map (\<lambda>(k, v). k @ ''='' @ v) ls))"

record service_info =
  vi_item :: service_item
  vi_selector :: string
  vi_has_endpoints :: bool
  vi_ips :: "string list"

definition build_svc_info :: "service_item \<Rightarrow> service_info" where
  "build_svc_info s = \<lparr>vi_item = s, vi_selector = (if vc_selector s \<noteq> [] then show_labels (vc_selector s) else []),
     vi_has_endpoints = False, vi_ips = []\<rparr>"

definition with_endpoints :: "('o, 'c) object_reader \<Rightarrow> 'c \<Rightarrow> service_info \<Rightarrow> service_info" where
  "with_endpoints R c i = (case or_endpoints R (vc_namespace (vi_item i)) (vc_name (vi_item i)) c of
     Inl _ \<Rightarrow> i | Inr subsets \<Rightarrow> i\<lparr>vi_has_endpoints := subsets \<noteq> [], vi_ips := concat subsets\<rparr>)"

definition list_or_nil :: "any list \<Rightarrow> any" where
  "list_or_nil xs = (if xs = [] then ANil else AList xs)"

definition service_json :: "service_info \<Rightarrow> any" where
  "service_json i = (let s = vi_item i in AObject ([(''name'', AString (vc_name s)), (''namespace'', AString (vc_namespace s)),
       (''type'', AString (vc_type s)), (''clusterIP'', AString (vc_cluster_ip s))] @
     omit_list ''externalIPs'' (map AString (vc_external_ips s)) @
     [(''ports'', list_or_nil (map (\<lambda>p. AObject [(''name'', AString (vp_name p)), (''port'', AInt (vp_port p)),
        (''targetPort'', AString (vp_target p)), (''protocol'', AString (vp_protocol p))]) (vc_ports s)))] @
     omit_string ''selector'' (vi_selector i) @ [(''hasEndpoints'', ABool (vi_has_endpoints i))] @
     omit_list ''endpointIPs'' (map AString (vi_ips i))))"

definition get_services :: "('o, 'c) object_reader \<Rightarrow> args \<Rightarrow> 'c \<Rightarrow> exec_ret" where
  "get_services R args = typed_with R (\<lambda>c.
     let namespace = get_string_default args ''namespace'' []; name = get_string_default args ''name'' [] in
     fail_or (if name \<noteq> [] \<and> namespace \<noteq> [] then map_sum (\<lambda>e. e) (\<lambda>s. [s]) (or_service R namespace name c)
         else or_services R namespace c) (\<lambda>ss.
     let infos = map (with_endpoints R c \<circ> build_svc_info) ss in
     tool_ok (kr_indent (client R) (AObject [(''count'', AInt (int (length infos))), (''services'', list_or_nil (map service_json infos))]))))"

section \<open>ConfigMaps\<close>

definition shorten_value :: "string \<Rightarrow> string" where
  "shorten_value v = (if 1000 < length v then take 1000 v @ ''... (truncated)'' else v)"

definition get_config_map :: "('o, 'c) object_reader \<Rightarrow> args \<Rightarrow> 'c \<Rightarrow> exec_ret" where
  "get_config_map R args = typed_with R (\<lambda>c.
     let key = get_string_default args ''key'' [] in
     fail_or (or_config_map R (get_string_default args ''namespace'' ''default'') (string_or_empty (get_string args ''name'')) c) (\<lambda>m.
     tool_ok (kr_indent (client R) (AObject [(''name'', AString (cm_name m)), (''namespace'', AString (cm_namespace m)),
       (''data'', AObject (map (\<lambda>(k, v). (k, AString (shorten_value v)))
          (filter (\<lambda>(k, v). key = [] \<or> k = key) (cm_data m)))),
       (''binaryKeyCount'', AInt (int (length (cm_binary m))))]))))"

section \<open>Ingresses and policies\<close>

definition backend_text :: "service_backend \<Rightarrow> string" where
  "backend_text b = sb_name b @ '':'' @ (if 0 < sb_port_number b then show_int (sb_port_number b) else sb_port_name b)"

text \<open>The HTTP part of a rule and the service of a path are pointers; the code dereferences them, and \<open>None\<close> is the panic of a nil one.\<close>

definition rule_backends :: "ingress_rule \<Rightarrow> string list option" where
  "rule_backends r = Option.bind (ir_paths r) (\<lambda>ps. those (map (map_option backend_text) ps))"

definition address_of :: "(string \<times> string) list \<Rightarrow> string" where
  "address_of lbs = fold (\<lambda>(ip, host) a. if ip \<noteq> [] then ip else if host \<noteq> [] then host else a) lbs []"

definition ingress_json :: "ingress_item \<Rightarrow> any option" where
  "ingress_json g = map_option (\<lambda>backends. AObject ([(''name'', AString (ig_name g)), (''namespace'', AString (ig_namespace g)),
     (''class'', AString (case ig_class g of Some s \<Rightarrow> s | None \<Rightarrow> [])),
     (''hosts'', list_or_nil (map AString (filter (\<lambda>h. h \<noteq> []) (map ir_host (ig_rules g))))),
     (''backends'', list_or_nil (map AString (concat backends))),
     (''tlsEnabled'', ABool (0 < ig_tls g))] @ omit_string ''ipAddress'' (address_of (ig_load_balancers g))))
     (those (map rule_backends (ig_rules g)))"

definition get_ingress :: "('o, 'c) object_reader \<Rightarrow> args \<Rightarrow> 'c \<Rightarrow> exec_ret option" where
  "get_ingress R args c = (case kr_clientset R c of
     Some e \<Rightarrow> Some (tool_fail e)
   | None \<Rightarrow> (case or_ingresses R (get_string_default args ''namespace'' []) c of
       Inl e \<Rightarrow> Some (tool_fail e)
     | Inr gs \<Rightarrow> map_option (counted_objects R ''ingresses'') (those (map ingress_json gs))))"

definition policy_json :: "policy_item \<Rightarrow> any" where
  "policy_json p = AObject [(''name'', AString (np_name p)), (''namespace'', AString (np_namespace p)),
     (''podSelector'', AString (if np_labels p \<noteq> [] then show_labels (np_labels p) else ''<all pods>'')),
     (''policyTypes'', list_or_nil (map AString (np_types p))), (''ingressRules'', AInt (np_ingress p)),
     (''egressRules'', AInt (np_egress p))]"

definition get_network_policies :: "('o, 'c) object_reader \<Rightarrow> args \<Rightarrow> 'c \<Rightarrow> exec_ret" where
  "get_network_policies R args = typed_with R (\<lambda>c.
     fail_or (or_policies R (get_string_default args ''namespace'' []) c) (\<lambda>ps. counted_objects R ''networkPolicies'' (map policy_json ps)))"

section \<open>Pods\<close>

definition state_json :: "container_state \<Rightarrow> (string \<times> any) list" where
  "state_json s = (case s of
     Running \<Rightarrow> [(''state'', AString ''running'')]
   | Waiting r m \<Rightarrow> (''state'', AString ''waiting'') # omit_string ''reason'' r @ omit_string ''message'' m
   | Terminated r m \<Rightarrow> (''state'', AString ''terminated'') # omit_string ''reason'' r @ omit_string ''message'' m
   | NoState \<Rightarrow> [(''state'', AString [])])"

definition container_json :: "container_status \<Rightarrow> any" where
  "container_json c = AObject ((''name'', AString (cz_name c)) # state_json (cz_state c) @
     [(''restarts'', AInt (cz_restarts c)), (''ready'', ABool (cz_ready c)), (''image'', AString (cz_image c))])"

text \<open>The sum of the restarts is a 32-bit integer.\<close>

definition restarts_of :: "pod_status \<Rightarrow> int" where
  "restarts_of p = fold (\<lambda>c n. wrap32 (n + cz_restarts c)) (po_containers p) 0"

definition pod_json :: "time \<Rightarrow> pod_status \<Rightarrow> any" where
  "pod_json now p = AObject [(''name'', AString (po_name p)), (''namespace'', AString (po_namespace p)), (''phase'', AString (po_phase p)),
     (''node'', AString (po_node p)), (''podIP'', AString (po_ip p)), (''qosClass'', AString (po_qos p)),
     (''age'', AString (format_age now (po_created p))), (''totalRestarts'', AInt (restarts_of p)),
     (''containers'', list_or_nil (map container_json (po_containers p))), (''conditions'', conditions_json (po_conditions p))]"

definition phase_rank :: "string \<Rightarrow> int" where
  "phase_rank phase = (case map_of [(''Failed'', 0), (''Pending'', 1), (''Running'', 2), (''Succeeded'', 3), (''Unknown'', 4)] phase of
     Some n \<Rightarrow> n | None \<Rightarrow> 0)"

definition wants_pod :: "bool \<Rightarrow> pod_status \<Rightarrow> bool" where
  "wants_pod failed_only p \<longleftrightarrow> \<not> failed_only \<or> po_phase p = ''Failed'' \<or> po_phase p = ''Pending''"

definition pods_shown :: "bool \<Rightarrow> pod_status list \<Rightarrow> pod_status list" where
  "pods_shown failed_only ps =
     sort_key (\<lambda>p. phase_rank (po_phase p)) (sort_key (\<lambda>p. - restarts_of p) (filter (wants_pod failed_only) ps))"

definition get_pod_status :: "('o, 'c) object_reader \<Rightarrow> args \<Rightarrow> 'c \<Rightarrow> exec_ret" where
  "get_pod_status R args = typed_with R (\<lambda>c.
     fail_or (or_pods R (get_string_default args ''namespace'' []) (get_string_default args ''labelSelector'' []) c) (\<lambda>ps.
     counted_objects R ''pods'' (map (pod_json (kr_now R c)) (pods_shown (get_bool args ''failed'') ps))))"

section \<open>Autoscalers, budgets and storage\<close>

definition hpa_json :: "hpa_item \<Rightarrow> any" where
  "hpa_json h = AObject [(''name'', AString (hp_name h)), (''namespace'', AString (hp_namespace h)),
     (''target'', AString (if hp_target_kind h \<noteq> [] then hp_target_kind h @ ''/'' @ hp_target_name h else [])),
     (''minReplicas'', AInt (case hp_min h of Some n \<Rightarrow> n | None \<Rightarrow> 1)), (''maxReplicas'', AInt (hp_max h)),
     (''currentReplicas'', AInt (hp_current h)), (''desiredReplicas'', AInt (hp_desired h))]"

definition get_hpa :: "('o, 'c) object_reader \<Rightarrow> args \<Rightarrow> 'c \<Rightarrow> exec_ret" where
  "get_hpa R args = typed_with R (\<lambda>c.
     let namespace = get_string_default args ''namespace'' []; name = get_string_default args ''name'' [] in
     if name \<noteq> [] then fail_or (or_hpa R namespace name c) (\<lambda>h. tool_ok (kr_indent R h))
     else fail_or (with_error ''HPA list failed'' (or_hpas R namespace c)) (\<lambda>hs. counted_objects R ''hpas'' (map hpa_json hs)))"

definition string_of :: "string option \<Rightarrow> string" where
  "string_of s = (case s of Some x \<Rightarrow> x | None \<Rightarrow> [])"

definition pdb_json :: "pdb_item \<Rightarrow> any" where
  "pdb_json p = AObject ([(''name'', AString (pb_name p)), (''namespace'', AString (pb_namespace p))] @
     omit_string ''minAvailable'' (string_of (pb_min_available p)) @ omit_string ''maxUnavailable'' (string_of (pb_max_unavailable p)) @
     [(''currentHealthy'', AInt (pb_healthy p)), (''desiredHealthy'', AInt (pb_desired p)), (''allowedDisruptions'', AInt (pb_allowed p))])"

definition get_pdb :: "('o, 'c) object_reader \<Rightarrow> args \<Rightarrow> 'c \<Rightarrow> exec_ret" where
  "get_pdb R args = typed_with R (\<lambda>c.
     fail_or (or_pdbs R (get_string_default args ''namespace'' []) c) (\<lambda>ps. counted_objects R ''pdbs'' (map pdb_json ps)))"

definition claim_json :: "claim_item \<Rightarrow> any" where
  "claim_json p = AObject [(''name'', AString (pvc_name p)), (''namespace'', AString (pvc_namespace p)), (''status'', AString (pvc_phase p)),
     (''capacity'', AString (string_of (pvc_capacity p))), (''storageClass'', AString (string_of (pvc_class p))),
     (''volumeName'', AString (pvc_volume p))]"

definition volume_json :: "volume_item \<Rightarrow> any" where
  "volume_json p = AObject ([(''name'', AString (pv_name p)), (''status'', AString (pv_phase p)),
     (''capacity'', AString (string_of (pv_capacity p))),
     (''claim'', AString (case pv_claim p of Some (ns, n) \<Rightarrow> ns @ ''/'' @ n | None \<Rightarrow> []))] @ omit_string ''reason'' (pv_reason p))"

definition is_default_class :: "storage_class_item \<Rightarrow> bool" where
  "is_default_class s = list_ex (\<lambda>(k, v). k = ''storageclass.kubernetes.io/is-default-class'' \<and> v = ''true'') (stc_annotations s)"

definition storage_class_json :: "storage_class_item \<Rightarrow> any" where
  "storage_class_json s = AObject [(''name'', AString (stc_name s)), (''provisioner'', AString (stc_provisioner s)),
     (''default'', ABool (is_default_class s))]"

text \<open>A list that fails leaves its part out.\<close>

definition storage_part :: "bool \<Rightarrow> string \<Rightarrow> string + any list \<Rightarrow> (string \<times> any) list" where
  "storage_part wanted name r = (if wanted then (case r of Inl _ \<Rightarrow> [] | Inr xs \<Rightarrow> [(name, AList xs)]) else [])"

definition get_storage :: "('o, 'c) object_reader \<Rightarrow> args \<Rightarrow> 'c \<Rightarrow> exec_ret" where
  "get_storage R args = typed_with R (\<lambda>c.
     let ty = get_string_default args ''type'' ''all''; warn = get_bool args ''warning'' in
     tool_ok (kr_indent (client R) (AObject (
       storage_part (ty = ''pvc'' \<or> ty = ''all'') ''pvcs'' (map_sum (\<lambda>e. e)
         (\<lambda>ps. map claim_json (filter (\<lambda>p. warn \<longrightarrow> pvc_phase p = ''Pending'' \<or> pvc_phase p = ''Lost'') ps))
         (or_claims R (get_string_default args ''namespace'' []) c)) @
       storage_part (ty = ''pv'' \<or> ty = ''all'') ''pvs'' (map_sum (\<lambda>e. e)
         (\<lambda>ps. map volume_json (filter (\<lambda>p. warn \<longrightarrow> pv_phase p = ''Pending'' \<or> pv_phase p = ''Failed'' \<or> pv_phase p = ''Released'') ps))
         (or_volumes R c)) @
       storage_part (ty = ''storageclass'' \<or> ty = ''all'') ''storageclasses'' (map_sum (\<lambda>e. e) (map storage_class_json)
         (or_storage_classes R c))))))"

section \<open>Usage\<close>

record usage_item =
  gu_name :: string
  gu_namespace :: string
  gu_cpu :: string
  gu_cpu_milli :: int
  gu_memory :: string
  gu_memory_mb :: rat

definition memory_mb :: "int \<Rightarrow> rat" where
  "memory_mb b = f64_div (f64_div (f64_of_int b) 1024) 1024"

definition node_usage :: "node_metrics \<Rightarrow> usage_item" where
  "node_usage m = \<lparr>gu_name = nu_name m, gu_namespace = [], gu_cpu = nu_cpu m, gu_cpu_milli = nu_cpu_milli m,
     gu_memory = nu_memory m, gu_memory_mb = memory_mb (nu_memory_bytes m)\<rparr>"

definition add_usage :: "int option \<times> int option \<Rightarrow> int \<times> int \<Rightarrow> int \<times> int" where
  "add_usage u s = (case u of (cpu, mem) \<Rightarrow>
     (case cpu of Some n \<Rightarrow> wrap64 (fst s + n) | None \<Rightarrow> fst s, case mem of Some n \<Rightarrow> wrap64 (snd s + n) | None \<Rightarrow> snd s))"

definition pod_usage :: "pod_metrics \<Rightarrow> usage_item" where
  "pod_usage m = (case fold add_usage (pu_containers m) (0, 0) of (cpu, mem) \<Rightarrow>
     \<lparr>gu_name = pu_name m, gu_namespace = pu_namespace m, gu_cpu = show_int cpu @ ''m'', gu_cpu_milli = cpu,
      gu_memory = show_int (go_div (go_div mem 1024) 1024) @ ''Mi'', gu_memory_mb = memory_mb mem\<rparr>)"

definition usage_items :: "('o, 'c) object_reader \<Rightarrow> args \<Rightarrow> 'c \<Rightarrow> string + usage_item list" where
  "usage_items R args c =
     (if get_string_default args ''resource'' ''pods'' = ''nodes''
      then with_error ''failed to get node metrics (is metrics-server installed?)'' (map_sum (\<lambda>e. e) (map node_usage) (or_node_metrics R c))
      else with_error ''failed to get pod metrics (is metrics-server installed?)''
        (map_sum (\<lambda>e. e) (map pod_usage) (or_pod_metrics R (get_string_default args ''namespace'' []) c)))"

definition sort_usage :: "string \<Rightarrow> usage_item list \<Rightarrow> usage_item list" where
  "sort_usage by_what us = (if by_what = ''memory'' then sort_key (\<lambda>u. - gu_memory_mb u) us else sort_key (\<lambda>u. - gu_cpu_milli u) us)"

definition usage_item_json :: "usage_item \<Rightarrow> any" where
  "usage_item_json u = AObject ([(''name'', AString (gu_name u))] @ omit_string ''namespace'' (gu_namespace u) @
     [(''cpu'', AString (gu_cpu u)), (''cpuMillis'', AInt (gu_cpu_milli u)), (''memory'', AString (gu_memory u)),
      (''memoryMB'', AFloat (gu_memory_mb u))])"

text \<open>\<open>results[:limit]\<close> panics when the limit is negative.\<close>

definition cut_usage :: "int \<Rightarrow> usage_item list \<Rightarrow> usage_item list option" where
  "cut_usage limit us = (if limit < int (length us) then go_slice us 0 limit else Some us)"

definition get_top :: "('o, 'c) object_reader \<Rightarrow> args \<Rightarrow> 'c \<Rightarrow> exec_ret option" where
  "get_top R args c = (case or_metrics_client R c of
     Some e \<Rightarrow> Some (tool_fail (''metrics client error: '' @ e))
   | None \<Rightarrow> (case usage_items R args c of
       Inl e \<Rightarrow> Some (tool_fail e)
     | Inr us \<Rightarrow> map_option (\<lambda>us. tool_ok (kr_indent R (AObject [(''resource'', AString (get_string_default args ''resource'' ''pods'')),
           (''count'', AInt (int (length us))), (''items'', list_or_nil (map usage_item_json us))])))
         (cut_usage (get_int_default args ''limit'' 20) (sort_usage (get_string_default args ''sortBy'' ''cpu'') us))))"

section \<open>Lemmas\<close>

lemma first_matches_take:
  "int (length found) < max 1 limit \<Longrightarrow> first_matches P limit found es = found @ take (max 1 (nat limit) - length found) (filter P es)"
proof (induction P limit found es rule: first_matches.induct)
  case (2 P limit found e es)
  show ?case
  proof (cases "P e \<and> \<not> limit \<le> int (length (found @ [e]))")
    case True
    then have "int (length (found @ [e])) < max 1 limit" by simp
    with "2.IH"(2) True have "first_matches P limit (found @ [e]) es =
        (found @ [e]) @ take (max 1 (nat limit) - length (found @ [e])) (filter P es)" by simp
    moreover have "max 1 (nat limit) - length found = Suc (max 1 (nat limit) - length (found @ [e]))" using True by auto
    ultimately show ?thesis using True by simp
  next
    case False
    show ?thesis
    proof (cases "P e")
      case True
      with False have "limit \<le> int (length (found @ [e]))" by simp
      moreover from this have "max 1 (nat limit) - length found = Suc 0" using "2.prems" by (auto simp: max_def split: if_splits)
      ultimately show ?thesis using True by simp
    qed (use "2.IH"(1) "2.prems" in simp)
  qed
qed simp

text \<open>Draining deletes the pods that are neither of a DaemonSet nor mirrors, one after the other.\<close>

definition try_delete :: "('o, 'c) k8s_reader \<Rightarrow> drain_pod \<Rightarrow> 'c \<Rightarrow> 'c" where
  "try_delete R p c = snd (kr_delete_pod R (dp_namespace p) (dp_name p) 30 (dp_version p) c)"

lemma delete_pods_effect: "snd (delete_pods R ps c) = fold (try_delete R) (filter (\<lambda>p. \<not> drain_skips p) ps) c"
proof (induction ps arbitrary: c)
  case (Cons p ps)
  show ?case
  proof (cases "kr_delete_pod R (dp_namespace p) (dp_name p) 30 (dp_version p) c")
    case (Pair r c1)
    with Cons.IH[of c] Cons.IH[of c1] show ?thesis
      by (cases "delete_pods R ps c"; cases "delete_pods R ps c1") (auto simp: try_delete_def split: option.split)
  qed
qed simp

lemma drain_ignores_arguments:
  "args ''node'' = args' ''node'' \<Longrightarrow> drain_node R args c = drain_node R args' c"
  by (simp add: drain_node_def get_string_def)

lemma drain_effect:
  assumes "kr_clientset R c = None" "kr_patch_node R node (cordon_patch True) c = (None, c1)" "kr_pods_on R node c1 = Inr pods"
    and "args ''node'' = Some (AString node)"
  shows "snd (drain_node R args c) = fold (try_delete R) (filter (\<lambda>p. \<not> drain_skips p) pods) c1"
  using assms delete_pods_effect[of R pods c1]
  by (cases "delete_pods R pods c1") (auto simp: drain_node_def get_string_def string_or_empty_def)

text \<open>A node whose readiness is unknown, as after the kubelet died, is shown as ready.\<close>

lemma unknown_is_ready: "node_status [(''Ready'', ''Unknown'')] = ''Ready''"
  by (simp add: node_status_def)

section \<open>Properties\<close>

lemma those_None: "those xs = None \<longleftrightarrow> None \<in> set xs"
  by (induction xs) (auto split: option.split)

lemma cut_usage_None: "cut_usage n us = None \<longleftrightarrow> n < 0"
  by (auto simp: cut_usage_def go_slice_def)

lemma rule_backends_None: "rule_backends r = None \<longleftrightarrow> ir_paths r = None \<or> (\<exists>ps. ir_paths r = Some ps \<and> None \<in> set ps)"
  by (cases "ir_paths r") (auto simp: rule_backends_def those_None)

text \<open>Which reading tools panic: the usage of pods and nodes exactly when the metrics are there and the
  limit is negative, and the list of ingresses exactly when some rule has no HTTP part or a path
  without a service, which the API server admits.\<close>

theorem reading_tools_panic:
  "(get_top R args c = None \<longleftrightarrow> or_metrics_client R c = None \<and> is_ok (usage_items R args c) \<and> get_int_default args ''limit'' 20 < 0) \<and>
   (get_ingress R args c = None \<longleftrightarrow> kr_clientset R c = None \<and>
     (\<exists>gs g r. or_ingresses R (get_string_default args ''namespace'' []) c = Inr gs \<and> g \<in> set gs \<and> r \<in> set (ig_rules g) \<and>
       (ir_paths r = None \<or> (\<exists>ps. ir_paths r = Some ps \<and> None \<in> set ps))))"
proof
  show "get_top R args c = None \<longleftrightarrow> or_metrics_client R c = None \<and> is_ok (usage_items R args c) \<and> get_int_default args ''limit'' 20 < 0"
    by (auto simp: get_top_def cut_usage_None split: option.split sum.split)
next
  have "those (map ingress_json gs) = None \<longleftrightarrow> (\<exists>g \<in> set gs. \<exists>r \<in> set (ig_rules g). rule_backends r = None)" for gs
    by (auto simp: those_None image_iff ingress_json_def) (metis option.map_disc_iff image_eqI those_None set_map)+
  then show "get_ingress R args c = None \<longleftrightarrow> kr_clientset R c = None \<and>
     (\<exists>gs g r. or_ingresses R (get_string_default args ''namespace'' []) c = Inr gs \<and> g \<in> set gs \<and> r \<in> set (ig_rules g) \<and>
       (ir_paths r = None \<or> (\<exists>ps. ir_paths r = Some ps \<and> None \<in> set ps)))"
    unfolding rule_backends_None[symmetric] by (auto simp: get_ingress_def split: option.split sum.split)
qed

text \<open>The events a tool call shows are the first matches in the order of the API server, as many as
  the limit says but at least one, sorted afterwards: newest first among these, which need not be
  the newest of all.\<close>

theorem events_shown:
  "mset (selected_events args es) =
     mset (take (max 1 (nat (get_int_default args ''limit'' 50))) (filter (event_matches args) es)) \<and>
   sorted_wrt (\<lambda>a b. ev_last b \<le> ev_last a) (selected_events args es)"
proof
  show "mset (selected_events args es) =
      mset (take (max 1 (nat (get_int_default args ''limit'' 50))) (filter (event_matches args) es))"
    using first_matches_take[of "[]" "get_int_default args ''limit'' 50"] by (simp add: selected_events_def)
  have "sorted (map (\<lambda>e. - ev_last e) (selected_events args es))" by (simp add: selected_events_def)
  then show "sorted_wrt (\<lambda>a b. ev_last b \<le> ev_last a) (selected_events args es)" by (simp add: sorted_wrt_map)
qed

end
