(* ===== verification/Node_Failure.thy ===== *)
theory Node_Failure
  imports Analysis "HOL-Library.List_Lexorder" "HOL-Library.Char_ord"
begin

text \<open>
  The simulation of node failures (internal/dashboard/handlers_node_failure_sim.go): which pods a node takes with
  it, which of them another node would take, the risk and the score. The nodes are given in the
  order in which Go's map yields them; their names differ. CPU is in thousandths, memory in bytes.
\<close>

section \<open>Nodes and pods\<close>

record nfs_node =
  fn_name :: string
  fn_ready :: bool
  fn_cpu :: int
  fn_mem :: int
  fn_taints :: "(string \<times> string) list"
  fn_labels :: "string \<rightharpoonup> string"

record nfs_pod =
  fp_namespace :: string
  fp_name :: string
  fp_node :: string
  fp_phase :: string
  fp_owners :: "(string \<times> string) list"
  fp_requests :: "(int \<times> int) list"
  fp_selector :: "(string \<times> string) list"
  fp_tolerations :: "(string \<times> string) list"

record nfs_deployment =
  fd_namespace :: string
  fd_name :: string
  fd_replicas :: "int option"

definition megabytes :: "int \<Rightarrow> rat" where
  "megabytes b = f64_div (f64_of_int b) 1048576"

definition cpu_request :: "nfs_pod \<Rightarrow> int" where
  "cpu_request p = sum_list (map fst (fp_requests p))"

definition mem_request :: "nfs_pod \<Rightarrow> rat \<Rightarrow> rat" where
  "mem_request p z = fold (\<lambda>(_, b) x. f64_add x (megabytes b)) (fp_requests p) z"

definition nfs_daemon_set_pod :: "nfs_pod \<Rightarrow> bool" where
  "nfs_daemon_set_pod p \<longleftrightarrow> list_ex (\<lambda>(kind, _). kind = ''DaemonSet'') (fp_owners p)"

section \<open>Rescheduling\<close>

definition tolerates :: "nfs_pod \<Rightarrow> string \<times> string \<Rightarrow> bool" where
  "tolerates p = (\<lambda>(key, effect). list_ex (\<lambda>(k, e). k = key \<and> (e = effect \<or> e = [])) (fp_tolerations p))"

definition blocking :: "string \<times> string \<Rightarrow> bool" where
  "blocking = (\<lambda>(key, effect). effect = ''NoSchedule'' \<or> effect = ''NoExecute'')"

definition accepts :: "nfs_pod \<Rightarrow> nfs_node \<Rightarrow> bool" where
  "accepts p n \<longleftrightarrow> fn_ready n \<and> cpu_request p \<le> fn_cpu n \<and> mem_request p 0 \<le> megabytes (fn_mem n) \<and>
     list_all (\<lambda>(k, v). (case fn_labels n k of Some w \<Rightarrow> w | None \<Rightarrow> []) = v) (fp_selector p) \<and>
     list_all (tolerates p) (filter blocking (fn_taints n))"

definition nfs_can_reschedule :: "nfs_pod \<Rightarrow> string \<Rightarrow> nfs_node list \<Rightarrow> bool" where
  "nfs_can_reschedule p failed ns \<longleftrightarrow> list_ex (\<lambda>n. fn_name n \<noteq> failed \<and> accepts p n) ns"

section \<open>One node\<close>

record nfs_entry =
  fe_node :: string
  fe_ready :: bool
  fe_pods :: nat
  fe_affected :: nat
  fe_can :: nat
  fe_cannot :: nat
  fe_single :: nat
  fe_cpu :: string
  fe_mem :: rat
  fe_workloads :: "string list"
  fe_risk :: string

text \<open>The pods the simulation counts: bound to a node, not ended, of no daemon set and outside kube-system.\<close>

definition nfs_counted :: "nfs_pod \<Rightarrow> bool" where
  "nfs_counted p \<longleftrightarrow> fp_node p \<noteq> [] \<and> fp_phase p \<noteq> ''Succeeded'' \<and> fp_phase p \<noteq> ''Failed'' \<and> \<not> nfs_daemon_set_pod p \<and>
     fp_namespace p \<noteq> ''kube-system''"

definition pods_on :: "nfs_pod list \<Rightarrow> string \<Rightarrow> nfs_pod list" where
  "pods_on ps node = filter (\<lambda>p. fp_node p = node) (filter nfs_counted ps)"

definition replica_map :: "nfs_deployment list \<Rightarrow> string \<rightharpoonup> int" where
  "replica_map ds = fold (\<lambda>d m. m(fd_namespace d @ ''/'' @ fd_name d \<mapsto> (case fd_replicas d of Some n \<Rightarrow> n | None \<Rightarrow> 1))) ds Map.empty"

text \<open>The name of the first owner.\<close>

definition workload_name :: "nfs_pod \<Rightarrow> string" where
  "workload_name p = (case fp_owners p of (_, n) # _ \<Rightarrow> n | [] \<Rightarrow> [])"

definition single_replica :: "(string \<rightharpoonup> int) \<Rightarrow> nfs_pod \<Rightarrow> bool" where
  "single_replica m p \<longleftrightarrow> workload_name p \<noteq> [] \<and>
     (case m (fp_namespace p @ ''/'' @ workload_name p) of Some n \<Rightarrow> n \<le> 1 | None \<Rightarrow> False)"

definition workload_labels :: "(string \<rightharpoonup> int) \<Rightarrow> nfs_pod list \<Rightarrow> string list" where
  "workload_labels m ps = take 5 (sort (remdups (map (\<lambda>p. workload_name p @ (if single_replica m p then '' (1 replica)'' else []))
     (filter (\<lambda>p. workload_name p \<noteq> []) ps))))"

definition nfs_assess_risk :: "nat \<Rightarrow> nat \<Rightarrow> nat \<Rightarrow> string" where
  "nfs_assess_risk single cannot affected =
     (if 0 < single then ''critical'' else if 5 < cannot then ''critical'' else if 10 < affected then ''high''
      else if 0 < cannot then ''medium'' else ''low'')"

definition simulate_node :: "(string \<rightharpoonup> int) \<Rightarrow> nfs_node list \<Rightarrow> nfs_pod list \<Rightarrow> nfs_node \<Rightarrow> nfs_entry" where
  "simulate_node m ns ps n = (let on = pods_on ps (fn_name n); can = how_many (\<lambda>p. nfs_can_reschedule p (fn_name n) ns) on;
       cannot = how_many (\<lambda>p. \<not> nfs_can_reschedule p (fn_name n) ns) on; single = how_many (single_replica m) on in
     \<lparr>fe_node = fn_name n, fe_ready = fn_ready n, fe_pods = length on, fe_affected = length on, fe_can = can, fe_cannot = cannot,
      fe_single = single, fe_cpu = show_int (sum_list (map cpu_request on)) @ ''m'', fe_mem = fold mem_request on 0,
      fe_workloads = workload_labels m on, fe_risk = nfs_assess_risk single cannot (length on)\<rparr>)"

section \<open>The cluster\<close>

record nfs_issue =
  fi_sev :: string
  fi_kind :: string
  fi_resource :: string
  fi_message :: string

definition node_issues :: "nfs_entry \<Rightarrow> nfs_issue list" where
  "node_issues e =
     entry_if (10 < fe_affected e) \<lparr>fi_sev = ''warning'', fi_kind = ''high-impact-node'', fi_resource = fe_node e,
       fi_message = ''Node '' @ fe_node e @ '' failure would affect '' @ show_nat (fe_affected e) @ '' pods ('' @
         show_nat (fe_cannot e) @ '' cannot reschedule)''\<rparr> @
     entry_if (0 < fe_single e) \<lparr>fi_sev = ''critical'', fi_kind = ''single-replica-on-node'', fi_resource = fe_node e,
       fi_message = ''Node '' @ fe_node e @ '' hosts '' @ show_nat (fe_single e) @ '' single-replica workload(s) '' @ em_dash @
         '' failure causes permanent downtime''\<rparr>"

record nfs_summary =
  fs_nodes :: nat
  fs_pods :: nat
  fs_affected_avg :: nat
  fs_max_affected :: nat
  fs_critical :: nat
  fs_cannot_avg :: nat
  fs_single :: nat
  fs_score :: int

definition nfs_score :: "nfs_summary \<Rightarrow> int" where
  "nfs_score s = (if fs_nodes s = 0 then 100 else
     let score = 100 - int (fs_single s) * 12 - int (fs_critical s) * 6 - int (fs_cannot_avg s) * 4 in
     if score < 0 then 0 else score)"

definition nfs_summarize :: "nat \<Rightarrow> nfs_entry list \<Rightarrow> nfs_summary" where
  "nfs_summarize pods es =
     \<lparr>fs_nodes = length es, fs_pods = pods, fs_affected_avg = sum_list (map fe_affected es) div length es,
      fs_max_affected = fold max (map fe_affected es) 0, fs_critical = how_many (\<lambda>e. 10 < fe_affected e) es,
      fs_cannot_avg = sum_list (map fe_cannot es) div length es, fs_single = how_many (\<lambda>e. 0 < fe_single e) es, fs_score = 0\<rparr>"

definition nfs_gen_recs :: "nfs_summary \<Rightarrow> string list" where
  "nfs_gen_recs s =
     entry_if (0 < fs_single s) (show_nat (fs_single s) @ '' node(s) host single-replica workloads '' @ em_dash @
       '' node failure causes permanent downtime, scale to 2+ replicas'') @
     entry_if (0 < fs_critical s) (show_nat (fs_critical s) @ '' node(s) would affect >10 pods on failure '' @ em_dash @
       '' distribute workloads with pod anti-affinity'') @
     entry_if (15 < fs_max_affected s) (''Worst-case: '' @ show_nat (fs_max_affected s) @ '' pods lost in a single node failure '' @ em_dash @
       '' add nodes or spread pods'') @
     entry_if (2 < fs_cannot_avg s) (''Average '' @ show_nat (fs_cannot_avg s) @ '' pod(s) per node cannot reschedule after failure '' @ em_dash @
       '' check affinity/taints/resource constraints'') @
     entry_if (fs_score s < 60) (''Cluster resilience score is '' @ show_int (fs_score s) @ ''/100 '' @ em_dash @
       '' multiple nodes pose single points of failure'') @
     entry_if (fs_single s = 0 \<and> fs_critical s = 0) (''No critical node failure risks detected '' @ em_dash @ '' good resilience posture'')"

definition nfs_issue_rank :: "string \<Rightarrow> nat" where
  "nfs_issue_rank s = (if s = ''critical'' then 0 else if s = ''warning'' then 1 else if s = ''info'' then 2 else 3)"

record nfs_result =
  fr_summary :: nfs_summary
  fr_by_node :: "nfs_entry list"
  fr_critical :: "nfs_entry list"
  fr_single :: "nfs_entry list"
  fr_issues :: "nfs_issue list"
  fr_recs :: "string list"

definition node_failure_sim :: "nfs_entry slice_sort \<Rightarrow> nfs_issue slice_sort \<Rightarrow> nfs_node list \<Rightarrow> nfs_pod list \<Rightarrow> nfs_deployment list \<Rightarrow>
    nfs_result" where
  "node_failure_sim srt isrt ns ps ds = (let es = map (simulate_node (replica_map ds) ns ps) ns; s0 = nfs_summarize (length ps) es;
       s = s0\<lparr>fs_score := nfs_score s0\<rparr> in
     \<lparr>fr_summary = s, fr_by_node = srt (\<lambda>a b. fe_affected b < fe_affected a) es, fr_critical = filter (\<lambda>e. 10 < fe_affected e) es,
      fr_single = filter (\<lambda>e. 0 < fe_single e) es,
      fr_issues = isrt (\<lambda>a b. nfs_issue_rank (fi_sev a) < nfs_issue_rank (fi_sev b)) (concat (map node_issues es)),
      fr_recs = nfs_gen_recs s\<rparr>)"

record 'd nfs_client =
  fc_nodes :: "'d \<Rightarrow> string + nfs_node list"
  fc_pods :: "'d \<Rightarrow> string + nfs_pod list"
  fc_deployments :: "'d \<Rightarrow> string + nfs_deployment list"

definition handle_node_failure_sim :: "nfs_entry slice_sort \<Rightarrow> nfs_issue slice_sort \<Rightarrow> 'd nfs_client option \<Rightarrow> 'd \<Rightarrow> http_resp + nfs_result" where
  "handle_node_failure_sim srt isrt client d = (case client of
     None \<Rightarrow> Inl (write_error 503 ''kubernetes client not available'')
   | Some C \<Rightarrow> (case fc_nodes C d of
       Inl e \<Rightarrow> Inl (write_k8s_error (Some e))
     | Inr ns \<Rightarrow> (case fc_pods C d of
         Inl e \<Rightarrow> Inl (write_k8s_error (Some e))
       | Inr ps \<Rightarrow> (case fc_deployments C d of
           Inl e \<Rightarrow> Inl (write_k8s_error (Some e))
         | Inr ds \<Rightarrow> Inr (node_failure_sim srt isrt ns ps ds)))))"

section \<open>Lemmas\<close>

lemma how_many_split: "how_many P xs + how_many (\<lambda>x. \<not> P x) xs = length xs"
  unfolding how_many_def by (rule sum_length_filter_compl)

lemma entry_parts: "fe_can (simulate_node m ns ps n) + fe_cannot (simulate_node m ns ps n) = fe_affected (simulate_node m ns ps n)"
  by (simp add: simulate_node_def Let_def how_many_split)

lemma entry_affected [simp]: "fe_affected (simulate_node m ns ps n) = length (pods_on ps (fn_name n))"
  by (simp add: simulate_node_def Let_def)

text \<open>Every counted pod on one of the nodes is counted for one of them.\<close>

lemma pods_on_sum:
  assumes "distinct (map fn_name ns)"
  shows "(\<Sum>n\<leftarrow>ns. length (pods_on ps (fn_name n))) = length (filter (\<lambda>p. nfs_counted p \<and> fp_node p \<in> fn_name ` set ns) ps)"
  using assms
proof (induction ns)
  case (Cons n ns)
  have "length (filter (\<lambda>p. nfs_counted p \<and> fp_node p \<in> insert (fn_name n) (fn_name ` set ns)) ps) =
      length (filter (\<lambda>p. nfs_counted p \<and> fp_node p = fn_name n) ps) + length (filter (\<lambda>p. nfs_counted p \<and> fp_node p \<in> fn_name ` set ns) ps)"
    using Cons.prems by (induction ps) auto
  then show ?case using Cons by (simp add: pods_on_def conj_commute)
qed simp

lemma replica_map_None:
  "(\<And>d. d \<in> set ds \<Longrightarrow> fd_namespace d @ ''/'' @ fd_name d \<noteq> k) \<Longrightarrow> replica_map ds k = None"
proof -
  assume "\<And>d. d \<in> set ds \<Longrightarrow> fd_namespace d @ ''/'' @ fd_name d \<noteq> k"
  moreover have "fold (\<lambda>d m. m(fd_namespace d @ ''/'' @ fd_name d \<mapsto> (case fd_replicas d of Some n \<Rightarrow> n | None \<Rightarrow> 1))) ds m k = m k"
    if "\<And>d. d \<in> set ds \<Longrightarrow> fd_namespace d @ ''/'' @ fd_name d \<noteq> k" for m using that by (induction ds arbitrary: m) auto
  ultimately show ?thesis by (simp add: replica_map_def)
qed

lemma nfs_score_bounds: "0 \<le> nfs_score s \<and> nfs_score s \<le> 100"
  by (simp add: nfs_score_def Let_def)

text \<open>What runs on the other nodes plays no part: any number of pods fits a node that has room for one.\<close>

definition big_pod :: nfs_pod where
  "big_pod = \<lparr>fp_namespace = ''web'', fp_name = ''big'', fp_node = ''a'', fp_phase = ''Running'', fp_owners = [], fp_requests = [(1000, 0)],
     fp_selector = [], fp_tolerations = []\<rparr>"

definition small_node :: "string \<Rightarrow> nfs_node" where
  "small_node name = \<lparr>fn_name = name, fn_ready = True, fn_cpu = 1000, fn_mem = 1048576, fn_taints = [], fn_labels = Map.empty\<rparr>"

lemma load_ignored:
  "fe_can (simulate_node Map.empty [small_node ''a'', small_node ''b''] (replicate k big_pod) (small_node ''a'')) = k"
proof -
  have "nfs_can_reschedule big_pod ''a'' [small_node ''a'', small_node ''b'']" by code_simp
  moreover have "nfs_counted big_pod" by code_simp
  ultimately show ?thesis
    by (simp add: simulate_node_def Let_def pods_on_def how_many_def filter_replicate big_pod_def[THEN arg_cong, of fp_node] small_node_def[of "''a''", THEN arg_cong, of fn_name])
qed

section \<open>Properties\<close>

text \<open>The simulation loses no pod: over all nodes the affected pods are those that are counted and bound to one of the
  nodes, every affected pod is either one that can be rescheduled or one that cannot, and the score is between 0 and 100.\<close>

theorem simulation_counts:
  assumes "distinct (map fn_name ns)" "permuting srt"
  shows "(\<Sum>e\<leftarrow>fr_by_node (node_failure_sim srt isrt ns ps ds). fe_affected e) =
      length (filter (\<lambda>p. nfs_counted p \<and> fp_node p \<in> fn_name ` set ns) ps) \<and>
    list_all (\<lambda>e. fe_can e + fe_cannot e = fe_affected e) (fr_by_node (node_failure_sim srt isrt ns ps ds)) \<and>
    0 \<le> fs_score (fr_summary (node_failure_sim srt isrt ns ps ds)) \<and> fs_score (fr_summary (node_failure_sim srt isrt ns ps ds)) \<le> 100"
  using pods_on_sum[OF assms(1), of ps] nfs_score_bounds
  by (auto simp: node_failure_sim_def Let_def permuting_sum[OF assms(2)] permuting_set[OF assms(2)] list_all_iff entry_parts[simplified] comp_def)

text \<open>A workload with a single replica is never reported: the owner of a pod of a deployment is a replica set, whose name
  is not the deployment's, and the replicas are looked up under the owner's name. Whenever no first owner has the name of a deployment
  of the namespace, no node counts as one with single-replica workloads, however few replicas the deployments have.\<close>

theorem single_replicas_missed:
  assumes "\<forall>p \<in> set ps. \<forall>d \<in> set ds. fd_namespace d @ ''/'' @ fd_name d \<noteq> fp_namespace p @ ''/'' @ workload_name p"
  shows "fr_single (node_failure_sim srt isrt ns ps ds) = [] \<and> fs_single (fr_summary (node_failure_sim srt isrt ns ps ds)) = 0"
proof -
  have "\<not> single_replica (replica_map ds) p" if "p \<in> set ps" for p
    using that assms replica_map_None[of ds "fp_namespace p @ ''/'' @ workload_name p"] by (auto simp: single_replica_def)
  then have "fe_single (simulate_node (replica_map ds) ns ps n) = 0" for n
    by (auto simp: simulate_node_def Let_def how_many_def pods_on_def filter_empty_conv)
  then show ?thesis by (simp add: node_failure_sim_def Let_def nfs_summarize_def how_many_def comp_def)
qed

definition lone_pod :: nfs_pod where
  "lone_pod = big_pod\<lparr>fp_owners := [(''ReplicaSet'', ''shop-5d9c8b7f6d'')]\<rparr>"

definition lone_deployment :: nfs_deployment where
  "lone_deployment = \<lparr>fd_namespace = ''web'', fd_name = ''shop'', fd_replicas = Some 1\<rparr>"

theorem simulation_counts_witness:
  "(\<Sum>e\<leftarrow>fr_by_node (node_failure_sim (\<lambda>before xs. xs) (\<lambda>before xs. xs) [small_node ''a'', small_node ''b''] [lone_pod, big_pod] []). fe_affected e) = 2"
proof -
  have "filter (\<lambda>p. nfs_counted p \<and> fp_node p \<in> fn_name ` set [small_node ''a'', small_node ''b'']) [lone_pod, big_pod] = [lone_pod, big_pod]"
    by (simp add: nfs_counted_def nfs_daemon_set_pod_def lone_pod_def big_pod_def small_node_def)
  then show ?thesis
    using simulation_counts[of "[small_node ''a'', small_node ''b'']" "\<lambda>before xs. xs" "\<lambda>before xs. xs" "[lone_pod, big_pod]" "[]"]
    by (simp add: small_node_def)
qed

theorem single_replicas_missed_witness:
  "fr_single (node_failure_sim (\<lambda>before xs. xs) (\<lambda>before xs. xs) [small_node ''a'', small_node ''b''] [lone_pod] [lone_deployment]) = [] \<and>
   fd_replicas lone_deployment = Some 1"
  using single_replicas_missed[of "[lone_pod]" "[lone_deployment]"] by (simp add: lone_pod_def big_pod_def lone_deployment_def workload_name_def)

end
