(* ===== verification/Net.thy ===== *)
theory Net
  imports Provider Json
begin

text \<open>
  What the LLM backends share of \<open>net/http\<close>: one POST and the reading of its reply.

  The network and the JSON parser are the record \<open>net\<close>: sending a request, the error of a URL that
  does not parse, the value of a JSON text, the text of the error \<open>json.Unmarshal\<close> reports for it
  and the text \<open>json.Marshal\<close> writes. The body of a request is the JSON value that is sent. A
  response is its status and the bytes of its body up to the end or to a read error.
\<close>

record http_call =
  hc_url :: string
  hc_headers :: "(string \<times> string) list"
  hc_body :: any

record raw_response =
  raw_status :: int
  raw_body :: string
  raw_error :: "string option"

record 'w net =
  net_url_error :: "string \<Rightarrow> string option"
  net_do :: "http_call \<Rightarrow> 'w \<Rightarrow> raw_response result \<times> 'w"
  net_json :: "string \<Rightarrow> any option"
  net_json_error :: "string \<Rightarrow> string"
  net_render :: "any \<Rightarrow> string"

text \<open>\<open>io.ReadAll\<close>.\<close>

definition read_all :: "raw_response \<Rightarrow> string result" where
  "read_all r = (case raw_error r of None \<Rightarrow> Inr (raw_body r) | Some e \<Rightarrow> Inl e)"

definition post :: "'w net \<Rightarrow> string \<Rightarrow> (string \<times> string) list \<Rightarrow> any \<Rightarrow> 'w \<Rightarrow> raw_response result \<times> 'w" where
  "post N url headers body w = (case net_url_error N url of
     Some e \<Rightarrow> (Inl (''create request: '' @ e), w)
   | None \<Rightarrow> (case net_do N \<lparr>hc_url = url, hc_headers = headers, hc_body = body\<rparr> w of
       (Inl e, w1) \<Rightarrow> (Inl (''http request: '' @ e), w1)
     | (Inr r, w1) \<Rightarrow> (Inr r, w1)))"

definition status_error :: "string \<Rightarrow> int \<Rightarrow> string \<Rightarrow> string" where
  "status_error vendor code body = vendor @ '' API error (status '' @ show_int code @ ''): '' @ body"

text \<open>The reply to a call that is not streamed, decoded.\<close>

definition read_reply :: "'w net \<Rightarrow> string \<Rightarrow> (any \<Rightarrow> 'r option) \<Rightarrow> raw_response result \<Rightarrow> 'r result" where
  "read_reply N vendor decode r = (case r of
     Inl e \<Rightarrow> Inl e
   | Inr raw \<Rightarrow> (case read_all raw of
       Inl e \<Rightarrow> Inl (''read response: '' @ e)
     | Inr body \<Rightarrow>
         if raw_status raw \<noteq> 200 then Inl (status_error vendor (raw_status raw) body)
         else (case Option.bind (net_json N body) decode of
           None \<Rightarrow> Inl (''unmarshal response: '' @ net_json_error N body)
         | Some v \<Rightarrow> Inr v)))"

text \<open>A backend without streaming of its own hands over the whole content at once.\<close>

definition stream_whole :: "completion_response result \<times> 'w \<Rightarrow> (string list \<times> completion_response result) \<times> 'w" where
  "stream_whole rw = (case rw of
     (Inl e, w) \<Rightarrow> (([], Inl e), w)
   | (Inr r, w) \<Rightarrow> ((if cp_content r = [] then [] else [cp_content r], Inr r), w))"

lemma post_ok:
  "net_url_error N url = None \<Longrightarrow> net_do N \<lparr>hc_url = url, hc_headers = hs, hc_body = b\<rparr> w = (Inr r, w1) \<Longrightarrow>
   post N url hs b w = (Inr r, w1)"
  by (simp add: post_def)

lemma read_reply_ok:
  "net_json N body = Some x \<Longrightarrow> decode x = Some v \<Longrightarrow>
   read_reply N vendor decode (Inr \<lparr>raw_status = 200, raw_body = body, raw_error = None\<rparr>) = Inr v"
  by (simp add: read_reply_def read_all_def)

end
