(* ===== verification/Openai.thy ===== *)
theory Openai
  imports Net
begin

text \<open>
  Package \<open>openai\<close> (internal/provider/openai/openai.go): the backend for chat-completion APIs that
  speak OpenAI's protocol. A panic of the stream is \<open>None\<close>.
\<close>

section \<open>Requests\<close>

record openai =
  oa_api_key :: string
  oa_endpoint :: string
  oa_model :: string

text \<open>The maximum of tokens and the temperature of the configuration are read and dropped.\<close>

definition new_openai :: "provider_config \<Rightarrow> openai" where
  "new_openai cfg = \<lparr>oa_api_key = pc_api_key cfg,
     oa_endpoint = (if pc_endpoint cfg = [] then ''https://api.openai.com/v1'' else pc_endpoint cfg),
     oa_model = (if pc_model cfg = [] then ''gpt-4o'' else pc_model cfg)\<rparr>"

record oai_tool_call =
  otc_id :: string
  otc_type :: string
  otc_name :: string
  otc_arguments :: string

record oai_message =
  om_role :: string
  om_content :: string
  om_tool_call_id :: string
  om_tool_calls :: "oai_tool_call list"

record oai_request =
  or_model :: string
  or_messages :: "oai_message list"
  or_tools :: "tool_definition list"
  or_max_tokens :: int
  or_temperature :: rat

definition to_oai_call :: "tool_call \<Rightarrow> oai_tool_call" where
  "to_oai_call tc = \<lparr>otc_id = tc_id tc, otc_type = ''function'', otc_name = tc_name tc,
     otc_arguments = tc_arguments tc\<rparr>"

definition to_oai_message :: "message \<Rightarrow> oai_message" where
  "to_oai_message m = \<lparr>om_role = msg_role m, om_content = msg_content m, om_tool_call_id = msg_tool_call_id m,
     om_tool_calls = map to_oai_call (msg_tool_calls m)\<rparr>"

definition build_request :: "openai \<Rightarrow> completion_request \<Rightarrow> oai_request" where
  "build_request p q = \<lparr>or_model = (if cq_model q = [] then oa_model p else cq_model q),
     or_messages = map to_oai_message (cq_messages q), or_tools = cq_tools q,
     or_max_tokens = cq_max_tokens q, or_temperature = cq_temperature q\<rparr>"

definition oai_call_json :: "oai_tool_call \<Rightarrow> any" where
  "oai_call_json c = AObject [(''id'', AString (otc_id c)), (''type'', AString (otc_type c)),
     (''function'', AObject [(''name'', AString (otc_name c)), (''arguments'', AString (otc_arguments c))])]"

definition oai_message_json :: "oai_message \<Rightarrow> any" where
  "oai_message_json m = AObject ((''role'', AString (om_role m)) # omit_string ''content'' (om_content m) @
     omit_string ''tool_call_id'' (om_tool_call_id m) @
     omit_list ''tool_calls'' (map oai_call_json (om_tool_calls m)))"

definition tool_json :: "tool_definition \<Rightarrow> any" where
  "tool_json t = AObject [(''type'', AString (tdef_type t)), (''function'', AObject
     [(''name'', AString (tfs_name (tdef_function t))), (''description'', AString (tfs_description (tdef_function t))),
      (''parameters'', tfs_parameters (tdef_function t))])]"

definition oai_request_members :: "oai_request \<Rightarrow> (string \<times> any) list" where
  "oai_request_members r = [(''model'', AString (or_model r)),
     (''messages'', AList (map oai_message_json (or_messages r)))] @
     omit_list ''tools'' (map tool_json (or_tools r)) @ omit_int ''max_tokens'' (or_max_tokens r) @
     omit_float ''temperature'' (or_temperature r)"

definition bearer :: "openai \<Rightarrow> (string \<times> string) list" where
  "bearer p = (if oa_api_key p = [] then [] else [(''Authorization'', ''Bearer '' @ oa_api_key p)])"

definition send :: "'w net \<Rightarrow> openai \<Rightarrow> (string \<times> string) list \<Rightarrow> any \<Rightarrow> 'w \<Rightarrow> raw_response result \<times> 'w" where
  "send N p headers = post N (oa_endpoint p @ ''/chat/completions'')
     ((''Content-Type'', ''application/json'') # headers @ bearer p)"

section \<open>Complete\<close>

record oai_response =
  ores_choices :: "(string \<times> oai_tool_call list) list"
  ores_prompt :: int
  ores_completion :: int
  ores_error :: "string option"

definition into_oai_function :: "(string \<times> any) list \<Rightarrow> oai_tool_call \<Rightarrow> oai_tool_call option" where
  "into_oai_function ms c = do {
     n \<leftarrow> into_member into_string ''name'' ms (otc_name c);
     a \<leftarrow> into_member into_string ''arguments'' ms (otc_arguments c);
     Some (c\<lparr>otc_name := n, otc_arguments := a\<rparr>) }"

definition into_oai_call :: "oai_tool_call decoder" where
  "into_oai_call = into_struct (\<lambda>ms c. do {
     i \<leftarrow> into_member into_string ''id'' ms (otc_id c);
     t \<leftarrow> into_member into_string ''type'' ms (otc_type c);
     into_member (into_struct into_oai_function) ''function'' ms (c\<lparr>otc_id := i, otc_type := t\<rparr>) })"

definition empty_oai_call :: oai_tool_call where
  "empty_oai_call = \<lparr>otc_id = [], otc_type = [], otc_name = [], otc_arguments = []\<rparr>"

text \<open>A choice is its content and tool calls; its index and the role are decoded and not read.\<close>

definition into_oai_message :: "(string \<times> any) list \<Rightarrow> string \<times> oai_tool_call list \<Rightarrow> (string \<times> oai_tool_call list) option" where
  "into_oai_message ms v = do {
     _ \<leftarrow> into_member into_string ''role'' ms [];
     c \<leftarrow> into_member into_string ''content'' ms (fst v);
     t \<leftarrow> into_member (into_slice empty_oai_call into_oai_call) ''tool_calls'' ms (snd v);
     Some (c, t) }"

definition into_oai_choice :: "(string \<times> oai_tool_call list) decoder" where
  "into_oai_choice = into_struct (\<lambda>ms v. do {
     _ \<leftarrow> into_member into_int ''index'' ms 0;
     into_member (into_struct into_oai_message) ''message'' ms v })"

definition into_usage :: "(int \<times> int) decoder" where
  "into_usage = into_struct (\<lambda>ms u. do {
     a \<leftarrow> into_member into_int ''prompt_tokens'' ms (fst u);
     b \<leftarrow> into_member into_int ''completion_tokens'' ms (snd u);
     Some (a, b) })"

definition into_oai_error :: "string decoder" where
  "into_oai_error = into_struct (\<lambda>ms m. do {
     m1 \<leftarrow> into_member into_string ''message'' ms m;
     _ \<leftarrow> into_member into_string ''type'' ms [];
     _ \<leftarrow> into_member into_string ''code'' ms [];
     Some m1 })"

definition decode_response :: "any \<Rightarrow> oai_response option" where
  "decode_response x = into_struct (\<lambda>ms r. do {
     cs \<leftarrow> into_member (into_slice ([], []) into_oai_choice) ''choices'' ms [];
     u \<leftarrow> into_member into_usage ''usage'' ms (0, 0);
     e \<leftarrow> into_member (into_ptr [] into_oai_error) ''error'' ms None;
     Some \<lparr>ores_choices = cs, ores_prompt = fst u, ores_completion = snd u, ores_error = e\<rparr> })
     x \<lparr>ores_choices = [], ores_prompt = 0, ores_completion = 0, ores_error = None\<rparr>"

definition from_oai_call :: "oai_tool_call \<Rightarrow> tool_call" where
  "from_oai_call c = \<lparr>tc_id = otc_id c, tc_name = otc_name c, tc_arguments = otc_arguments c\<rparr>"

definition oai_result :: "oai_response \<Rightarrow> completion_response result" where
  "oai_result r = (case ores_error r of
     Some e \<Rightarrow> Inl (''openai error: '' @ e)
   | None \<Rightarrow> (case ores_choices r of
       [] \<Rightarrow> Inl ''no choices in response''
     | (content, calls) # _ \<Rightarrow> Inr \<lparr>cp_content = content, cp_tool_calls = map from_oai_call calls,
         cp_prompt_tokens = ores_prompt r, cp_completion_tokens = ores_completion r\<rparr>))"

definition oai_complete :: "'w net \<Rightarrow> openai \<Rightarrow> completion_request \<Rightarrow> 'w \<Rightarrow> completion_response result \<times> 'w" where
  "oai_complete N p q w =
     (let (r, w1) = send N p [] (AObject (oai_request_members (build_request p q))) w in
      (case read_reply N ''openai'' decode_response r of Inl e \<Rightarrow> Inl e | Inr v \<Rightarrow> oai_result v, w1))"

section \<open>StreamComplete\<close>

record delta_call =
  dc_index :: int
  dc_id :: string
  dc_name :: string
  dc_arguments :: string

record delta =
  dl_content :: string
  dl_calls :: "delta_call list"

record chunk =
  ch_choices :: "delta list"
  ch_usage :: "(int \<times> int) option"

definition into_delta_function :: "(string \<times> any) list \<Rightarrow> delta_call \<Rightarrow> delta_call option" where
  "into_delta_function ms c = do {
     n \<leftarrow> into_member into_string ''name'' ms (dc_name c);
     a \<leftarrow> into_member into_string ''arguments'' ms (dc_arguments c);
     Some (c\<lparr>dc_name := n, dc_arguments := a\<rparr>) }"

definition into_delta_call :: "delta_call decoder" where
  "into_delta_call = into_struct (\<lambda>ms c. do {
     k \<leftarrow> into_member into_int ''index'' ms (dc_index c);
     i \<leftarrow> into_member into_string ''id'' ms (dc_id c);
     into_member (into_struct into_delta_function) ''function'' ms (c\<lparr>dc_index := k, dc_id := i\<rparr>) })"

definition empty_delta_call :: delta_call where
  "empty_delta_call = \<lparr>dc_index = 0, dc_id = [], dc_name = [], dc_arguments = []\<rparr>"

definition empty_delta :: delta where
  "empty_delta = \<lparr>dl_content = [], dl_calls = []\<rparr>"

definition into_delta :: "(string \<times> any) list \<Rightarrow> delta \<Rightarrow> delta option" where
  "into_delta ms d = do {
     c \<leftarrow> into_member into_string ''content'' ms (dl_content d);
     t \<leftarrow> into_member (into_slice empty_delta_call into_delta_call) ''tool_calls'' ms (dl_calls d);
     Some \<lparr>dl_content = c, dl_calls = t\<rparr> }"

definition into_stream_choice :: "delta decoder" where
  "into_stream_choice = into_struct (into_member (into_struct into_delta) ''delta'')"

definition decode_chunk :: "any \<Rightarrow> chunk option" where
  "decode_chunk x = into_struct (\<lambda>ms c. do {
     cs \<leftarrow> into_member (into_slice empty_delta into_stream_choice) ''choices'' ms [];
     u \<leftarrow> into_member (into_ptr (0, 0) into_usage) ''usage'' ms None;
     Some \<lparr>ch_choices = cs, ch_usage = u\<rparr> }) x \<lparr>ch_choices = [], ch_usage = None\<rparr>"

definition sse_lines :: "raw_response \<Rightarrow> string list \<times> string option" where
  "sse_lines r = (let ls = raw_lines (raw_body r); fit = takeWhile (\<lambda>l. length l < max_line) ls in
     (map drop_cr fit, if length fit < length ls then Some ''bufio.Scanner: token too long'' else raw_error r))"

record stream_state =
  sst_content :: string
  sst_calls :: "tool_call list"
  sst_usage :: "int \<times> int"
  sst_deltas :: "string list"

definition empty_call :: tool_call where
  "empty_call = \<lparr>tc_id = [], tc_name = [], tc_arguments = []\<rparr>"

text \<open>The list is grown up to the index; a negative index is out of range.\<close>

definition add_call :: "delta_call \<Rightarrow> tool_call list \<Rightarrow> tool_call list option" where
  "add_call d calls =
     (if dc_index d < 0 then None
      else (let i = nat (dc_index d);
                cs = calls @ replicate (Suc i - length calls) empty_call;
                c = cs ! i
            in Some (cs[i := \<lparr>tc_id = (if dc_id d \<noteq> [] then dc_id d else tc_id c),
                 tc_name = (if dc_name d \<noteq> [] then dc_name d else tc_name c),
                 tc_arguments = tc_arguments c @ dc_arguments d\<rparr>])))"

fun add_calls :: "delta_call list \<Rightarrow> tool_call list \<Rightarrow> tool_call list option" where
  "add_calls [] calls = Some calls"
| "add_calls (d # ds) calls = (case add_call d calls of None \<Rightarrow> None | Some cs \<Rightarrow> add_calls ds cs)"

fun add_choices :: "delta list \<Rightarrow> stream_state \<Rightarrow> stream_state option" where
  "add_choices [] s = Some s"
| "add_choices (d # ds) s =
     (let s1 = (if dl_content d \<noteq> [] then s\<lparr>sst_content := sst_content s @ dl_content d,
            sst_deltas := sst_deltas s @ [dl_content d]\<rparr> else s) in
      case add_calls (dl_calls d) (sst_calls s1) of
        None \<Rightarrow> None
      | Some cs \<Rightarrow> add_choices ds (s1\<lparr>sst_calls := cs\<rparr>))"

definition add_chunk :: "chunk \<Rightarrow> stream_state \<Rightarrow> stream_state option" where
  "add_chunk c s = add_choices (ch_choices c)
     (case ch_usage c of None \<Rightarrow> s | Some u \<Rightarrow> s\<lparr>sst_usage := u\<rparr>)"

text \<open>The loop over the lines; the flag says that it ended at \<open>[DONE]\<close>, before the scanner did.\<close>

fun read_lines :: "(string \<Rightarrow> any option) \<Rightarrow> string list \<Rightarrow> stream_state \<Rightarrow> (stream_state \<times> bool) option" where
  "read_lines json [] s = Some (s, False)"
| "read_lines json (l # ls) s =
     (if \<not> has_prefix l ''data: '' then read_lines json ls s
      else (let data = trim_prefix l ''data: '' in
        if data = ''[DONE]'' then Some (s, True)
        else (case Option.bind (json data) decode_chunk of
            None \<Rightarrow> read_lines json ls s
          | Some c \<Rightarrow> (case add_chunk c s of None \<Rightarrow> None | Some s1 \<Rightarrow> read_lines json ls s1))))"

definition empty_stream :: stream_state where
  "empty_stream = \<lparr>sst_content = [], sst_calls = [], sst_usage = (0, 0), sst_deltas = []\<rparr>"

definition streamed :: "stream_state \<Rightarrow> completion_response" where
  "streamed s = \<lparr>cp_content = sst_content s, cp_tool_calls = sst_calls s,
     cp_prompt_tokens = fst (sst_usage s), cp_completion_tokens = snd (sst_usage s)\<rparr>"

definition read_stream :: "(string \<Rightarrow> any option) \<Rightarrow> raw_response \<Rightarrow> (string list \<times> completion_response result) option" where
  "read_stream json r = (let (ls, err) = sse_lines r in
     case read_lines json ls empty_stream of
       None \<Rightarrow> None
     | Some (s, at_done) \<Rightarrow> Some (sst_deltas s, case (if at_done then None else err) of
         Some e \<Rightarrow> Inl (''read stream: '' @ e) | None \<Rightarrow> Inr (streamed s)))"

definition stream_body :: "oai_request \<Rightarrow> any" where
  "stream_body r = (case decode_any (AObject (oai_request_members r)) of
     AObject ms \<Rightarrow> AObject (put_member ''stream_options'' (AObject [(''include_usage'', ABool True)])
       (put_member ''stream'' (ABool True) ms))
   | x \<Rightarrow> x)"

definition oai_stream :: "'w net \<Rightarrow> openai \<Rightarrow> completion_request \<Rightarrow> 'w \<Rightarrow>
    (string list \<times> completion_response result) option \<times> 'w" where
  "oai_stream N p q w =
     (case send N p [(''Accept'', ''text/event-stream'')] (stream_body (build_request p q)) w of
        (Inl e, w1) \<Rightarrow> (Some ([], Inl e), w1)
      | (Inr raw, w1) \<Rightarrow>
          if raw_status raw \<noteq> 200 then (Some ([], Inl (status_error ''openai'' (raw_status raw) (raw_body raw))), w1)
          else (read_stream (net_json N) raw, w1))"

text \<open>
  The backend as a provider. The interface has no panic: the run-time error of a negative index
  stands there as an error, which is what the recovery of \<open>net/http\<close> makes of it for the client.
\<close>

definition openai_provider :: "'w net \<Rightarrow> provider_config \<Rightarrow> 'w provider result" where
  "openai_provider N cfg = (let p = new_openai cfg in
     Inr \<lparr>prov_name = ''openai'', complete = oai_complete N p,
       stream_complete = (\<lambda>q w. case oai_stream N p q w of
           (Some x, w1) \<Rightarrow> (x, w1)
         | (None, w1) \<Rightarrow> (([], Inl ''runtime error: index out of range''), w1))\<rparr>)"

section \<open>What a stream stands for\<close>

text \<open>
  The specification: of every tool call the last id and name that are not empty and all fragments
  of the arguments, the content of all deltas and the last usage.
\<close>

definition last_set :: "string list \<Rightarrow> string" where
  "last_set xs = (let ys = filter (\<lambda>x. x \<noteq> []) xs in if ys = [] then [] else last ys)"

definition call_at :: "delta_call list \<Rightarrow> nat \<Rightarrow> tool_call" where
  "call_at ds i = (let mine = filter (\<lambda>d. dc_index d = int i) ds in
     \<lparr>tc_id = last_set (map dc_id mine), tc_name = last_set (map dc_name mine),
      tc_arguments = concat (map dc_arguments mine)\<rparr>)"

definition width :: "delta_call list \<Rightarrow> nat" where
  "width ds = fold (\<lambda>d. max (Suc (nat (dc_index d)))) ds 0"

definition calls_of :: "delta_call list \<Rightarrow> tool_call list" where
  "calls_of ds = map (call_at ds) [0..<width ds]"

definition all_deltas :: "chunk list \<Rightarrow> delta list" where
  "all_deltas cs = concat (map ch_choices cs)"

definition texts_of :: "chunk list \<Rightarrow> string list" where
  "texts_of cs = filter (\<lambda>x. x \<noteq> []) (map dl_content (all_deltas cs))"

definition usage_of :: "chunk list \<Rightarrow> int \<times> int" where
  "usage_of cs = (let us = List.map_filter ch_usage cs in if us = [] then (0, 0) else last us)"

definition assembled :: "chunk list \<Rightarrow> completion_response" where
  "assembled cs = \<lparr>cp_content = concat (texts_of cs),
     cp_tool_calls = calls_of (concat (map dl_calls (all_deltas cs))),
     cp_prompt_tokens = fst (usage_of cs), cp_completion_tokens = snd (usage_of cs)\<rparr>"

lemma last_set_snoc [simp]: "last_set (xs @ [x]) = (if x = [] then last_set xs else x)"
  by (simp add: last_set_def)

lemma last_set_Nil [simp]: "last_set [] = []"
  by (simp add: last_set_def)

lemma width_snoc [simp]: "width (ds @ [d]) = max (Suc (nat (dc_index d))) (width ds)"
  by (simp add: width_def)

lemma width_bound: "d \<in> set ds \<Longrightarrow> nat (dc_index d) < width ds"
  by (induction ds rule: rev_induct) auto

lemma call_at_snoc:
  "call_at (ds @ [d]) i = (if dc_index d = int i then
     \<lparr>tc_id = (if dc_id d = [] then tc_id (call_at ds i) else dc_id d),
      tc_name = (if dc_name d = [] then tc_name (call_at ds i) else dc_name d),
      tc_arguments = tc_arguments (call_at ds i) @ dc_arguments d\<rparr> else call_at ds i)"
  by (simp add: call_at_def Let_def)

lemma call_at_beyond: "(\<And>d. d \<in> set ds \<Longrightarrow> 0 \<le> dc_index d) \<Longrightarrow> width ds \<le> i \<Longrightarrow> call_at ds i = empty_call"
proof -
  assume "\<And>d. d \<in> set ds \<Longrightarrow> 0 \<le> dc_index d" "width ds \<le> i"
  then have "filter (\<lambda>d. dc_index d = int i) ds = []"
    using width_bound[of _ ds] by (fastforce simp: filter_empty_conv)
  then show ?thesis by (simp add: call_at_def empty_call_def)
qed

lemma length_calls_of [simp]: "length (calls_of ds) = width ds"
  by (simp add: calls_of_def)

lemma add_calls_append: "add_calls (xs @ ys) cs = Option.bind (add_calls xs cs) (add_calls ys)"
  by (induction xs arbitrary: cs) (auto split: option.split)

lemma add_call_spec:
  assumes "\<And>e. e \<in> set (ds @ [d]) \<Longrightarrow> 0 \<le> dc_index e"
  shows "add_call d (calls_of ds) = Some (calls_of (ds @ [d]))"
proof -
  let ?i = "nat (dc_index d)"
  let ?cs = "calls_of ds @ replicate (Suc ?i - width ds) empty_call"
  have nn: "0 \<le> dc_index d" using assms by simp
  have at: "?cs ! j = call_at ds j" if "j < max (Suc ?i) (width ds)" for j
    using that assms by (auto simp: nth_append calls_of_def call_at_beyond)
  have "?cs[?i := call_at (ds @ [d]) ?i] = calls_of (ds @ [d])"
    by (rule nth_equalityI)
      (use nn at in \<open>auto simp: calls_of_def nth_list_update call_at_snoc\<close>)
  moreover have "add_call d (calls_of ds) = Some (?cs[?i := call_at (ds @ [d]) ?i])"
    using at[of ?i] nn
    by (cases "dc_id d = []"; cases "dc_name d = []") (simp_all add: add_call_def Let_def call_at_snoc)
  ultimately show ?thesis by simp
qed

lemma add_calls_spec:
  "(\<And>d. d \<in> set ds \<Longrightarrow> 0 \<le> dc_index d) \<Longrightarrow> add_calls ds [] = Some (calls_of ds)"
proof (induction ds rule: rev_induct)
  case Nil
  then show ?case by (simp add: calls_of_def width_def)
next
  case (snoc d ds)
  with add_call_spec[of ds d] show ?case by (simp add: add_calls_append)
qed

text \<open>The state after some chunks.\<close>

definition state_of :: "delta_call list \<Rightarrow> string list \<Rightarrow> int \<times> int \<Rightarrow> stream_state" where
  "state_of ds ts u = \<lparr>sst_content = concat ts, sst_calls = calls_of ds, sst_usage = u, sst_deltas = ts\<rparr>"

definition sane :: "delta_call list \<Rightarrow> bool" where
  "sane ds \<longleftrightarrow> (\<forall>d \<in> set ds. 0 \<le> dc_index d)"

lemma add_calls_more:
  "sane (ds @ es) \<Longrightarrow> add_calls es (calls_of ds) = Some (calls_of (ds @ es))"
  using add_calls_spec[of "ds @ es"] add_calls_spec[of ds] by (simp add: sane_def add_calls_append)

lemma add_choices_state:
  "sane (ds @ concat (map dl_calls xs)) \<Longrightarrow> add_choices xs (state_of ds ts u) =
     Some (state_of (ds @ concat (map dl_calls xs)) (ts @ filter (\<lambda>x. x \<noteq> []) (map dl_content xs)) u)"
proof (induction xs arbitrary: ds ts)
  case (Cons x xs)
  then have "add_calls (dl_calls x) (calls_of ds) = Some (calls_of (ds @ dl_calls x))"
    by (intro add_calls_more) (auto simp: sane_def)
  with Cons.IH[of "ds @ dl_calls x" "ts"] Cons.IH[of "ds @ dl_calls x" "ts @ [dl_content x]"] Cons.prems
  show ?case by (simp add: state_of_def)
qed simp

lemma usage_of_snoc: "usage_of (cs @ [c]) = (case ch_usage c of None \<Rightarrow> usage_of cs | Some u \<Rightarrow> u)"
  by (cases "ch_usage c") (auto simp: usage_of_def List.map_filter_def)

lemma all_deltas_snoc: "all_deltas (cs @ [c]) = all_deltas cs @ ch_choices c"
  by (simp add: all_deltas_def)

definition after :: "chunk list \<Rightarrow> stream_state" where
  "after cs = state_of (concat (map dl_calls (all_deltas cs))) (texts_of cs) (usage_of cs)"

lemma add_chunk_after:
  assumes "sane (concat (map dl_calls (all_deltas (cs @ [c]))))"
  shows "add_chunk c (after cs) = Some (after (cs @ [c]))"
proof -
  have u: "(case ch_usage c of None \<Rightarrow> after cs | Some u \<Rightarrow> after cs\<lparr>sst_usage := u\<rparr>) =
      state_of (concat (map dl_calls (all_deltas cs))) (texts_of cs) (usage_of (cs @ [c]))"
    by (simp add: after_def state_of_def usage_of_snoc split: option.split)
  show ?thesis
    unfolding add_chunk_def u using assms
    by (simp add: add_choices_state after_def all_deltas_snoc texts_of_def)
qed

lemma streamed_after: "streamed (after cs) = assembled cs"
  by (simp add: streamed_def after_def state_of_def assembled_def)

lemma after_Nil: "after [] = empty_stream"
  by (simp add: after_def state_of_def empty_stream_def all_deltas_def texts_of_def usage_of_def
      calls_of_def width_def map_filter_simps)

section \<open>Reading what a server sends\<close>

definition delta_call_json :: "delta_call \<Rightarrow> any" where
  "delta_call_json d = AObject [(''index'', AInt (dc_index d)), (''id'', AString (dc_id d)),
     (''function'', AObject [(''name'', AString (dc_name d)), (''arguments'', AString (dc_arguments d))])]"

definition delta_json :: "delta \<Rightarrow> any" where
  "delta_json d = AObject [(''delta'', AObject [(''content'', AString (dl_content d)),
     (''tool_calls'', AList (map delta_call_json (dl_calls d)))])]"

definition usage_json :: "int \<times> int \<Rightarrow> any" where
  "usage_json u = AObject [(''prompt_tokens'', AInt (fst u)), (''completion_tokens'', AInt (snd u))]"

definition chunk_json :: "chunk \<Rightarrow> any" where
  "chunk_json c = AObject ((''choices'', AList (map delta_json (ch_choices c))) #
     (case ch_usage c of None \<Rightarrow> [] | Some u \<Rightarrow> [(''usage'', usage_json u)]))"

definition small :: "int \<Rightarrow> bool" where
  "small i \<longleftrightarrow> 0 \<le> i \<and> i \<le> max_int64"

definition chunk_ok :: "chunk \<Rightarrow> bool" where
  "chunk_ok c \<longleftrightarrow> list_all (\<lambda>d. list_all (\<lambda>k. small (dc_index k)) (dl_calls d)) (ch_choices c) \<and>
     (case ch_usage c of None \<Rightarrow> True | Some u \<Rightarrow> small (fst u) \<and> small (snd u))"

lemma into_int_small [simp]: "small i \<Longrightarrow> into_int (AInt i) j = Some i"
  by (simp add: small_def min_int64_def)

lemma into_delta_call_json:
  "small (dc_index d) \<Longrightarrow> into_delta_call (delta_call_json d) e = Some d"
  by (simp add: into_delta_call_def delta_call_json_def into_delta_function_def member_name_simps)

lemma into_stream_choice_json:
  "list_all (\<lambda>k. small (dc_index k)) (dl_calls d) \<Longrightarrow> into_stream_choice (delta_json d) e = Some d"
  using decode_all_map[of "dl_calls d" into_delta_call delta_call_json empty_delta_call id]
  by (simp add: into_stream_choice_def delta_json_def into_delta_def into_delta_call_json list_all_iff
      member_name_simps)

lemma decode_chunk_json:
  assumes "chunk_ok c"
  shows "decode_chunk (chunk_json c) = Some c"
proof -
  have "decode_all empty_delta into_stream_choice (map delta_json (ch_choices c)) = Some (ch_choices c)"
    using assms decode_all_map[of "ch_choices c" into_stream_choice delta_json empty_delta id]
    by (simp add: chunk_ok_def list_all_iff into_stream_choice_json)
  with assms show ?thesis
    by (auto simp: decode_chunk_def chunk_json_def usage_json_def into_usage_def chunk_ok_def into_ptr_def
        member_name_simps split: option.split)
qed

lemma newline_char: "newline = [CHR 0x0A]"
  by code_simp

text \<open>The event stream of a list of texts, closed by \<open>[DONE]\<close>; events end with an empty line.\<close>

definition event :: "string \<Rightarrow> string" where
  "event s = ''data: '' @ s @ newline @ newline"

definition event_stream :: "string list \<Rightarrow> string" where
  "event_stream ss = concat (map event ss) @ event ''[DONE]''"

text \<open>A text an event can carry: no line break, no carriage return at its end, and not too long.\<close>

definition carries :: "string \<Rightarrow> bool" where
  "carries s \<longleftrightarrow> CHR 0x0A \<notin> set s \<and> s \<noteq> [] \<and> last s \<noteq> CHR 0x0D \<and>
     length s < max_line - 6 \<and> s \<noteq> ''[DONE]''"

definition data_line :: "string \<Rightarrow> string" where
  "data_line s = ''data: '' @ s"

lemma data_line_simps [simp]:
  "has_prefix (data_line s) ''data: ''" "trim_prefix (data_line s) ''data: '' = s"
  "length (data_line s) = length s + 6"
  by (simp_all add: data_line_def has_prefix_def trim_prefix_def)

lemma split_event:
  assumes "CHR 0x0A \<notin> set s"
  shows "split_on (CHR 0x0A) (event s @ t) = data_line s # [] # split_on (CHR 0x0A) t"
proof -
  have "CHR 0x0A \<notin> set (''data: '' @ s)" using assms by auto
  from split_on_skip[OF this, of "newline @ t"] show ?thesis
    by (simp add: event_def newline_char data_line_def)
qed

lemma raw_lines_event: "CHR 0x0A \<notin> set s \<Longrightarrow> raw_lines (event s @ t) = data_line s # [] # raw_lines t"
  by (simp add: raw_lines_def Let_def split_event)

lemma drop_cr_simps: "s \<noteq> [] \<Longrightarrow> last s \<noteq> CHR 0x0D \<Longrightarrow> drop_cr (data_line s) = data_line s" "drop_cr [] = []"
  by (simp_all add: drop_cr_def data_line_def)

lemma fitting_event:
  "CHR 0x0A \<notin> set s \<Longrightarrow> s \<noteq> [] \<Longrightarrow> last s \<noteq> CHR 0x0D \<Longrightarrow> length s < max_line - 6 \<Longrightarrow>
   fitting (event s @ t) = data_line s # [] # fitting t"
  by (simp add: fitting_def raw_lines_event drop_cr_simps max_line_def)

definition event_lines :: "string list \<Rightarrow> string list" where
  "event_lines ss = concat (map (\<lambda>s. [data_line s, []]) ss)"

lemma event_lines_simps [simp]: "event_lines [] = []" "event_lines (s # ss) = data_line s # [] # event_lines ss"
  by (simp_all add: event_lines_def)

lemma fitting_events:
  "\<forall>s \<in> set ss. carries s \<Longrightarrow> fitting (concat (map event ss) @ t) = event_lines ss @ fitting t"
  by (induction ss) (simp_all add: fitting_event carries_def)

lemma chunks_sane: "\<forall>c \<in> set cs. chunk_ok c \<Longrightarrow> sane (concat (map dl_calls (all_deltas cs)))"
  by (auto simp: sane_def all_deltas_def chunk_ok_def list_all_iff small_def)

lemma blank_line [simp]: "\<not> has_prefix [] ''data: ''"
  by (simp add: has_prefix_def)

lemma read_events:
  assumes "\<forall>c \<in> set cs. chunk_ok c \<and> carries (enc c) \<and> json (enc c) = Some (chunk_json c)"
    and "\<forall>c \<in> set pre. chunk_ok c"
  shows "read_lines json (event_lines (map enc cs) @ ls) (after pre) = read_lines json ls (after (pre @ cs))"
  using assms
proof (induction cs arbitrary: pre)
  case (Cons c cs)
  then have "add_chunk c (after pre) = Some (after (pre @ [c]))"
    by (intro add_chunk_after chunks_sane) auto
  with Cons.IH[of "pre @ [c]"] Cons.prems show ?case
    by (simp add: decode_chunk_json carries_def)
qed simp

lemma read_stream_events:
  assumes "\<forall>c \<in> set cs. chunk_ok c \<and> carries (enc c) \<and> json (enc c) = Some (chunk_json c)"
    and body: "raw_body r = event_stream (map enc cs) @ rest"
  shows "read_stream json r = Some (texts_of cs, Inr (assembled cs))"
proof -
  have d: "fitting (event ''[DONE]'' @ rest) = data_line ''[DONE]'' # [] # fitting rest"
    by (rule fitting_event) (simp_all add: max_line_def)
  have f: "fitting (raw_body r) = event_lines (map enc cs) @ data_line ''[DONE]'' # [] # fitting rest"
    using fitting_events[of "map enc cs" "event ''[DONE]'' @ rest"] assms(1)
    by (simp add: body event_stream_def d)
  have "read_lines json (fitting (raw_body r)) empty_stream = Some (after cs, True)"
    unfolding f after_Nil[symmetric] by (subst read_events[OF assms(1)]) simp_all
  moreover have "sst_deltas (after cs) = texts_of cs"
    by (simp add: after_def state_of_def)
  ultimately show ?thesis
    by (simp add: read_stream_def sse_lines_def fitting_def Let_def streamed_after)
qed

text \<open>An error the server reports inside the stream is not an error of the call: the object has no
  choices, so the result is an empty completion.\<close>

lemma error_event_ignored:
  assumes "json s = Some (AObject [(''error'', x)])" "carries s" "raw_body r = event s" "raw_error r = None"
  shows "read_stream json r = Some ([], Inr (assembled []))"
proof -
  have n: "\<not> equal_fold ''error'' ''choices''" "\<not> equal_fold ''error'' ''usage''"
    by code_simp+
  have l: "raw_lines (event s) = [data_line s, []]"
    using raw_lines_event[of s "[]"] assms(2) by (simp add: carries_def raw_lines_def)
  show ?thesis
    using assms(1,2,4) after_Nil streamed_after[of "[]"]
    by (simp add: read_stream_def sse_lines_def Let_def l[folded assms(3)] carries_def max_line_def drop_cr_simps
        decode_chunk_def n add_chunk_def) (simp add: empty_stream_def)
qed

section \<open>Properties\<close>

text \<open>C31. A streamed completion is put together faithfully: when the server answers with the
  events of any list of chunks and \<open>[DONE]\<close>, the caller is given the non-empty content deltas in their order,
  and the result is their concatenation, one tool call per index with the last id and name sent for
  it and all fragments of its arguments in order, however the calls interleave, and the last usage;
  whatever follows \<open>[DONE]\<close> does not matter.\<close>

theorem stream_assembles:
  assumes "\<forall>c \<in> set cs. chunk_ok c \<and> carries (enc c) \<and> net_json N (enc c) = Some (chunk_json c)"
    and "net_url_error N (oa_endpoint p @ ''/chat/completions'') = None"
    and "net_do N \<lparr>hc_url = oa_endpoint p @ ''/chat/completions'', hc_headers =
        [(''Content-Type'', ''application/json''), (''Accept'', ''text/event-stream'')] @ bearer p,
        hc_body = stream_body (build_request p q)\<rparr> w =
      (Inr \<lparr>raw_status = 200, raw_body = event_stream (map enc cs) @ rest, raw_error = err\<rparr>, w1)"
  shows "oai_stream N p q w = (Some (texts_of cs, Inr (assembled cs)), w1)"
  using assms(2,3) read_stream_events[OF assms(1), of "\<lparr>raw_status = 200,
      raw_body = event_stream (map enc cs) @ rest, raw_error = err\<rparr>" rest]
  by (simp add: oai_stream_def send_def post_def)

text \<open>Two tool calls whose arguments arrive interleaved.\<close>

definition demo_chunks :: "chunk list" where
  "demo_chunks =
     [\<lparr>ch_choices = [\<lparr>dl_content = ''On it.'', dl_calls =
         [\<lparr>dc_index = 0, dc_id = ''a'', dc_name = ''get_pod'', dc_arguments = ''{ns''\<rparr>,
          \<lparr>dc_index = 1, dc_id = ''b'', dc_name = ''get_node'', dc_arguments = []\<rparr>]\<rparr>], ch_usage = None\<rparr>,
      \<lparr>ch_choices = [\<lparr>dl_content = [], dl_calls =
         [\<lparr>dc_index = 1, dc_id = [], dc_name = [], dc_arguments = ''{n}''\<rparr>,
          \<lparr>dc_index = 0, dc_id = [], dc_name = [], dc_arguments = '':x}''\<rparr>]\<rparr>], ch_usage = None\<rparr>,
      \<lparr>ch_choices = [], ch_usage = Some (12, 7)\<rparr>]"

definition demo_enc :: "chunk \<Rightarrow> string" where
  "demo_enc c = (if c = demo_chunks ! 0 then ''{1}'' else if c = demo_chunks ! 1 then ''{2}'' else ''{3}'')"

definition demo_net :: "(chunk \<Rightarrow> string) \<Rightarrow> chunk list \<Rightarrow> unit net" where
  "demo_net enc cs = \<lparr>net_url_error = (\<lambda>u. None),
     net_do = (\<lambda>call w. (Inr \<lparr>raw_status = 200, raw_body = event_stream (map enc cs), raw_error = None\<rparr>, w)),
     net_json = map_of (map (\<lambda>c. (enc c, chunk_json c)) cs), net_json_error = (\<lambda>s. ''bad''), net_render = (\<lambda>x. [])\<rparr>"

theorem stream_assembles_witness:
  "oai_stream (demo_net demo_enc demo_chunks) (new_openai \<lparr>pc_type = ''openai'', pc_model = [], pc_api_key = ''k'',
      pc_endpoint = [], pc_max_tokens = 0, pc_temperature = 0\<rparr>)
     \<lparr>cq_messages = [text_message role_user ''look''], cq_tools = [], cq_model = [], cq_max_tokens = 10,
      cq_temperature = 0\<rparr> () =
   (Some ([''On it.''], Inr \<lparr>cp_content = ''On it.'', cp_tool_calls =
      [\<lparr>tc_id = ''a'', tc_name = ''get_pod'', tc_arguments = ''{ns:x}''\<rparr>,
       \<lparr>tc_id = ''b'', tc_name = ''get_node'', tc_arguments = ''{n}''\<rparr>],
      cp_prompt_tokens = 12, cp_completion_tokens = 7\<rparr>), ())"
proof -
  have sound: "\<forall>c \<in> set demo_chunks. chunk_ok c \<and> carries (demo_enc c) \<and>
      net_json (demo_net demo_enc demo_chunks) (demo_enc c) = Some (chunk_json c)"
    by (simp add: demo_chunks_def demo_enc_def demo_net_def chunk_ok_def small_def carries_def max_int64_def max_line_def)
  have a: "texts_of demo_chunks = [''On it.'']" "assembled demo_chunks = \<lparr>cp_content = ''On it.'', cp_tool_calls =
      [\<lparr>tc_id = ''a'', tc_name = ''get_pod'', tc_arguments = ''{ns:x}''\<rparr>,
       \<lparr>tc_id = ''b'', tc_name = ''get_node'', tc_arguments = ''{n}''\<rparr>],
      cp_prompt_tokens = 12, cp_completion_tokens = 7\<rparr>"
    by code_simp+
  show ?thesis
    using stream_assembles[OF sound, where rest = "[]" and err = None and w = "()" and ?w1.0 = "()"]
    by (simp add: a) (simp add: demo_net_def)
qed

end
