(* ===== verification/Anthropic.thy ===== *)
theory Anthropic
  imports Net
begin

text \<open>
  Package \<open>anthropic\<close> (internal/provider/anthropic/anthropic.go): the backend for Anthropic's
  messages API, and when the messages it sends pair every tool call with its result.
\<close>

record anthropic =
  an_api_key :: string
  an_endpoint :: string
  an_model :: string

definition new_anthropic :: "provider_config \<Rightarrow> anthropic" where
  "new_anthropic cfg = \<lparr>an_api_key = pc_api_key cfg,
     an_endpoint = (if pc_endpoint cfg = [] then ''https://api.anthropic.com'' else pc_endpoint cfg),
     an_model = (if pc_model cfg = [] then ''claude-3-5-sonnet-20241022'' else pc_model cfg)\<rparr>"

section \<open>Requests\<close>

text \<open>A nil \<open>any\<close> is \<open>ANil\<close>.\<close>

record ant_content =
  ac_type :: string
  ac_text :: string
  ac_id :: string
  ac_name :: string
  ac_input :: any
  ac_tool_use_id :: string
  ac_content :: any

record ant_message =
  am_role :: string
  am_content :: "ant_content list"

record ant_request =
  aq_model :: string
  aq_max_tokens :: int
  aq_system :: string
  aq_messages :: "ant_message list"
  aq_tools :: "tool_definition list"
  aq_temperature :: rat

definition empty_content :: ant_content where
  "empty_content = \<lparr>ac_type = [], ac_text = [], ac_id = [], ac_name = [], ac_input = ANil,
     ac_tool_use_id = [], ac_content = ANil\<rparr>"

definition text_content :: "string \<Rightarrow> ant_content" where
  "text_content s = empty_content\<lparr>ac_type := ''text'', ac_text := s\<rparr>"

definition tool_result_content :: "string \<Rightarrow> string \<Rightarrow> ant_content" where
  "tool_result_content i s = empty_content\<lparr>ac_type := ''tool_result'', ac_tool_use_id := i, ac_content := AString s\<rparr>"

text \<open>Arguments that are not JSON leave the input nil.\<close>

definition json_any :: "'w net \<Rightarrow> string \<Rightarrow> any" where
  "json_any N s = (case net_json N s of None \<Rightarrow> ANil | Some x \<Rightarrow> decode_any x)"

definition tool_use_content :: "'w net \<Rightarrow> tool_call \<Rightarrow> ant_content" where
  "tool_use_content N tc = empty_content\<lparr>ac_type := ''tool_use'', ac_id := tc_id tc, ac_name := tc_name tc,
     ac_input := json_any N (tc_arguments tc)\<rparr>"

fun ant_system :: "string \<Rightarrow> message list \<Rightarrow> string" where
  "ant_system sys [] = sys"
| "ant_system sys (m # ms) = ant_system (if msg_role m = role_system
     then (if sys \<noteq> [] then sys @ newline else sys) @ msg_content m else sys) ms"

definition to_ant_message :: "'w net \<Rightarrow> message \<Rightarrow> ant_message" where
  "to_ant_message N m =
     (let a0 = \<lparr>am_role = msg_role m, am_content = [text_content (msg_content m)]\<rparr>;
          a1 = (if msg_role m = role_tool \<and> msg_tool_call_id m \<noteq> []
            then \<lparr>am_role = ''user'', am_content = [tool_result_content (msg_tool_call_id m) (msg_content m)]\<rparr> else a0)
      in if msg_role m = role_assistant \<and> msg_tool_calls m \<noteq> []
         then a1\<lparr>am_content := (if msg_content m \<noteq> [] then [text_content (msg_content m)] else []) @
           map (tool_use_content N) (msg_tool_calls m)\<rparr>
         else a1)"

definition ant_messages :: "'w net \<Rightarrow> message list \<Rightarrow> ant_message list" where
  "ant_messages N ms = map (to_ant_message N) (filter (\<lambda>m. msg_role m \<noteq> role_system) ms)"

definition ant_request_of :: "'w net \<Rightarrow> anthropic \<Rightarrow> completion_request \<Rightarrow> ant_request" where
  "ant_request_of N p q = \<lparr>aq_model = (if cq_model q = [] then an_model p else cq_model q),
     aq_max_tokens = (if cq_max_tokens q = 0 then 4096 else cq_max_tokens q),
     aq_system = ant_system [] (cq_messages q), aq_messages = ant_messages N (cq_messages q),
     aq_tools = cq_tools q, aq_temperature = cq_temperature q\<rparr>"

definition omit_nil :: "string \<Rightarrow> any \<Rightarrow> (string \<times> any) list" where
  "omit_nil k x = (if x = ANil then [] else [(k, x)])"

definition ant_content_json :: "ant_content \<Rightarrow> any" where
  "ant_content_json c = AObject ((''type'', AString (ac_type c)) # omit_string ''text'' (ac_text c) @
     omit_string ''id'' (ac_id c) @ omit_string ''name'' (ac_name c) @ omit_nil ''input'' (ac_input c) @
     omit_string ''tool_use_id'' (ac_tool_use_id c) @ omit_nil ''content'' (ac_content c))"

definition ant_message_json :: "ant_message \<Rightarrow> any" where
  "ant_message_json m = AObject [(''role'', AString (am_role m)),
     (''content'', AList (map ant_content_json (am_content m)))]"

definition ant_tool_json :: "tool_definition \<Rightarrow> any" where
  "ant_tool_json t = AObject [(''name'', AString (tfs_name (tdef_function t))),
     (''description'', AString (tfs_description (tdef_function t))),
     (''input_schema'', tfs_parameters (tdef_function t))]"

definition ant_request_json :: "ant_request \<Rightarrow> any" where
  "ant_request_json r = AObject ([(''model'', AString (aq_model r)), (''max_tokens'', AInt (aq_max_tokens r))] @
     omit_string ''system'' (aq_system r) @ [(''messages'', if aq_messages r = [] then ANil
       else AList (map ant_message_json (aq_messages r)))] @
     omit_list ''tools'' (map ant_tool_json (aq_tools r)) @ omit_float ''temperature'' (aq_temperature r))"

section \<open>Responses\<close>

record ant_response =
  as_content :: "ant_content list"
  as_input_tokens :: int
  as_output_tokens :: int
  as_error :: "string option"

definition into_any :: "any decoder" where
  "into_any x v = Some (decode_any x)"

definition into_ant_content :: "ant_content decoder" where
  "into_ant_content = into_struct (\<lambda>ms c. do {
     t \<leftarrow> into_member into_string ''type'' ms (ac_type c);
     s \<leftarrow> into_member into_string ''text'' ms (ac_text c);
     i \<leftarrow> into_member into_string ''id'' ms (ac_id c);
     n \<leftarrow> into_member into_string ''name'' ms (ac_name c);
     x \<leftarrow> into_member into_any ''input'' ms (ac_input c);
     u \<leftarrow> into_member into_string ''tool_use_id'' ms (ac_tool_use_id c);
     y \<leftarrow> into_member into_any ''content'' ms (ac_content c);
     Some \<lparr>ac_type = t, ac_text = s, ac_id = i, ac_name = n, ac_input = x, ac_tool_use_id = u, ac_content = y\<rparr> })"

definition into_ant_usage :: "(int \<times> int) decoder" where
  "into_ant_usage = into_struct (\<lambda>ms u. do {
     a \<leftarrow> into_member into_int ''input_tokens'' ms (fst u);
     b \<leftarrow> into_member into_int ''output_tokens'' ms (snd u);
     Some (a, b) })"

definition into_ant_error :: "string decoder" where
  "into_ant_error = into_struct (\<lambda>ms m. do {
     _ \<leftarrow> into_member into_string ''type'' ms [];
     into_member into_string ''message'' ms m })"

definition decode_ant_response :: "any \<Rightarrow> ant_response option" where
  "decode_ant_response x = into_struct (\<lambda>ms r. do {
     cs \<leftarrow> into_member (into_slice empty_content into_ant_content) ''content'' ms [];
     _ \<leftarrow> into_member into_string ''stop_reason'' ms [];
     u \<leftarrow> into_member into_ant_usage ''usage'' ms (0, 0);
     e \<leftarrow> into_member (into_ptr [] into_ant_error) ''error'' ms None;
     Some \<lparr>as_content = cs, as_input_tokens = fst u, as_output_tokens = snd u, as_error = e\<rparr> })
     x \<lparr>as_content = [], as_input_tokens = 0, as_output_tokens = 0, as_error = None\<rparr>"

fun ant_collect :: "'w net \<Rightarrow> ant_content list \<Rightarrow> completion_response \<Rightarrow> completion_response" where
  "ant_collect N [] r = r"
| "ant_collect N (c # cs) r = ant_collect N cs
     (if ac_type c = ''text'' then r\<lparr>cp_content := cp_content r @ ac_text c\<rparr>
      else if ac_type c = ''tool_use'' then r\<lparr>cp_tool_calls := cp_tool_calls r @
        [\<lparr>tc_id = ac_id c, tc_name = ac_name c, tc_arguments = net_render N (ac_input c)\<rparr>]\<rparr>
      else r)"

definition ant_result :: "'w net \<Rightarrow> ant_response \<Rightarrow> completion_response result" where
  "ant_result N r = (case as_error r of
     Some e \<Rightarrow> Inl (''anthropic error: '' @ e)
   | None \<Rightarrow> Inr (ant_collect N (as_content r) \<lparr>cp_content = [], cp_tool_calls = [],
       cp_prompt_tokens = as_input_tokens r, cp_completion_tokens = as_output_tokens r\<rparr>))"

definition ant_headers :: "anthropic \<Rightarrow> (string \<times> string) list" where
  "ant_headers p = [(''Content-Type'', ''application/json''), (''anthropic-version'', ''2023-06-01'')] @
     (if an_api_key p = [] then [] else [(''x-api-key'', an_api_key p)])"

definition ant_complete :: "'w net \<Rightarrow> anthropic \<Rightarrow> completion_request \<Rightarrow> 'w \<Rightarrow> completion_response result \<times> 'w" where
  "ant_complete N p q w =
     (let (r, w1) = post N (an_endpoint p @ ''/v1/messages'') (ant_headers p) (ant_request_json (ant_request_of N p q)) w in
      (case read_reply N ''anthropic'' decode_ant_response r of Inl e \<Rightarrow> Inl e | Inr v \<Rightarrow> ant_result N v, w1))"

definition anthropic_provider :: "'w net \<Rightarrow> provider_config \<Rightarrow> 'w provider result" where
  "anthropic_provider N cfg = (let p = new_anthropic cfg in
     Inr \<lparr>prov_name = ''anthropic'', complete = ant_complete N p,
       stream_complete = (\<lambda>q w. stream_whole (ant_complete N p q w))\<rparr>)"

section \<open>Tool calls and their results on the wire\<close>

text \<open>
  The API wants the tool uses of an assistant message answered by tool results with their ids in the
  user messages that follow, before any other message. \<open>wire\<close> reads the contents with the ids still
  to be answered, as \<open>proto\<close> reads messages.
\<close>

fun wire_contents :: "string \<Rightarrow> ant_content list \<Rightarrow> string list \<Rightarrow> string list option" where
  "wire_contents role [] pend = Some pend"
| "wire_contents role (c # cs) pend =
     (if ac_type c = ''tool_result'' then (case pend of [] \<Rightarrow> None
        | i # is \<Rightarrow> if role = ''user'' \<and> ac_tool_use_id c = i then wire_contents role cs is else None)
      else if ac_type c = ''tool_use'' then (if role = ''assistant'' then wire_contents role cs (pend @ [ac_id c]) else None)
      else wire_contents role cs pend)"

fun wire :: "string list \<Rightarrow> ant_message list \<Rightarrow> string list option" where
  "wire pend [] = Some pend"
| "wire pend (m # ms) =
     (if pend \<noteq> [] \<and> (am_content m = [] \<or> ac_type (hd (am_content m)) \<noteq> ''tool_result'') then None
      else (case wire_contents (am_role m) (am_content m) pend of None \<Rightarrow> None | Some p \<Rightarrow> wire p ms))"

definition named_calls :: "message list \<Rightarrow> bool" where
  "named_calls ms \<longleftrightarrow> (\<forall>m \<in> set ms. \<forall>tc \<in> set (msg_tool_calls m). tc_id tc \<noteq> [])"

lemmas ant_contents = text_content_def tool_result_content_def tool_use_content_def empty_content_def

lemma wire_contents_uses:
  "wire_contents ''assistant'' (map (tool_use_content N) tcs) pend = Some (pend @ map tc_id tcs)"
  by (induction tcs arbitrary: pend) (auto simp: ant_contents)

lemma wire_messages:
  assumes "proto pend ms = Some end" "named_calls ms" "[] \<notin> set pend"
  shows "wire pend (ant_messages N ms) = Some end"
  using assms
proof (induction pend ms rule: proto.induct)
  case (1 pend)
  then show ?case by (simp add: ant_messages_def)
next
  case (2 i pend m ms)
  then show ?case
    by (auto simp: ant_messages_def to_ant_message_def role_defs ant_contents Let_def named_calls_def split: if_splits)
next
  case (3 m ms)
  let ?ids = "if msg_role m = role_assistant then map tc_id (msg_tool_calls m) else []"
  from 3 have "wire ?ids (ant_messages N ms) = Some end"
    by (force simp: named_calls_def split: if_splits)
  moreover have "wire_contents (am_role (to_ant_message N m)) (am_content (to_ant_message N m)) [] = Some ?ids"
    if "msg_role m \<noteq> role_system"
    using 3(2) that wire_contents_uses[of N "msg_tool_calls m" "[]"]
    by (auto simp: to_ant_message_def role_defs Let_def text_content_def empty_content_def split: if_splits)
  ultimately show ?case by (auto simp: ant_messages_def role_defs)
qed

end
