(* ===== verification/Gemini.thy ===== *)
theory Gemini
  imports Net
begin

text \<open>
  Package \<open>gemini\<close> (internal/provider/gemini/gemini.go): the backend for Google's generateContent API,
  which has no ids of tool calls: a result names the function.
\<close>

record gemini =
  ge_api_key :: string
  ge_endpoint :: string
  ge_model :: string

definition new_gemini :: "provider_config \<Rightarrow> gemini" where
  "new_gemini cfg = \<lparr>ge_api_key = pc_api_key cfg,
     ge_endpoint = (if pc_endpoint cfg = [] then ''https://generativelanguage.googleapis.com'' else pc_endpoint cfg),
     ge_model = (if pc_model cfg = [] then ''gemini-1.5-pro'' else pc_model cfg)\<rparr>"

section \<open>Requests\<close>

text \<open>A map of arguments is \<open>ANil\<close> or an \<open>AObject\<close>.\<close>

record gem_part =
  gp_text :: string
  gp_call :: "(string \<times> any) option"
  gp_response :: "(string \<times> any) option"

record gem_content =
  gc_role :: string
  gc_parts :: "gem_part list"

record gem_schema =
  gs_type :: string
  gs_description :: string
  gs_properties :: "any option"
  gs_required :: "string list"
  gs_items :: "any option"

record gem_function_decl =
  gf_name :: string
  gf_description :: string
  gf_parameters :: gem_schema

record gem_request =
  gq_contents :: "gem_content list"
  gq_system :: "gem_content option"
  gq_tools :: "gem_function_decl list option"
  gq_max_output_tokens :: int
  gq_temperature :: rat

definition text_part :: "string \<Rightarrow> gem_part" where
  "text_part s = \<lparr>gp_text = s, gp_call = None, gp_response = None\<rparr>"

text \<open>Decoding into a nil map: nil stays when the text is not an object.\<close>

definition json_map :: "'w net \<Rightarrow> string \<Rightarrow> any" where
  "json_map N s = (case Option.bind (net_json N s) decode_map of None \<Rightarrow> ANil | Some m \<Rightarrow> m)"

definition response_part :: "'w net \<Rightarrow> message \<Rightarrow> gem_part" where
  "response_part N m = (let data = json_map N (msg_content m) in
     \<lparr>gp_text = [], gp_call = None, gp_response = Some (msg_tool_call_id m,
        if data = ANil then AObject [(''result'', AString (msg_content m))] else data)\<rparr>)"

definition call_part :: "'w net \<Rightarrow> tool_call \<Rightarrow> gem_part" where
  "call_part N tc = \<lparr>gp_text = [], gp_call = Some (tc_name tc, json_map N (tc_arguments tc)), gp_response = None\<rparr>"

definition to_gem_content :: "'w net \<Rightarrow> message \<Rightarrow> gem_content" where
  "to_gem_content N m = \<lparr>gc_role = (if msg_role m = role_assistant then ''model'' else ''user''),
     gc_parts = (if msg_role m = role_tool \<and> msg_tool_call_id m \<noteq> [] then [response_part N m]
       else if msg_tool_calls m \<noteq> [] then
         (if msg_content m \<noteq> [] then [text_part (msg_content m)] else []) @ map (call_part N) (msg_tool_calls m)
       else [text_part (msg_content m)])\<rparr>"

text \<open>Every system message replaces the instruction of the one before it.\<close>

fun gem_system :: "gem_content option \<Rightarrow> message list \<Rightarrow> gem_content option" where
  "gem_system s [] = s"
| "gem_system s (m # ms) = gem_system (if msg_role m = role_system
     then Some \<lparr>gc_role = [], gc_parts = [text_part (msg_content m)]\<rparr> else s) ms"

definition gem_contents :: "'w net \<Rightarrow> message list \<Rightarrow> gem_content list" where
  "gem_contents N ms = map (to_gem_content N) (filter (\<lambda>m. msg_role m \<noteq> role_system) ms)"

definition as_string :: "any option \<Rightarrow> string" where
  "as_string x = (case x of Some (AString s) \<Rightarrow> s | _ \<Rightarrow> [])"

definition as_object :: "any option \<Rightarrow> any option" where
  "as_object x = (case x of Some (AObject ms) \<Rightarrow> Some (AObject ms) | _ \<Rightarrow> None)"

definition required_names :: "any option \<Rightarrow> string list" where
  "required_names x = (case x of
     Some (AList vs) \<Rightarrow> concat (map (\<lambda>v. case v of AString s \<Rightarrow> [s] | _ \<Rightarrow> []) vs) | _ \<Rightarrow> [])"

definition to_gem_schema :: "any \<Rightarrow> gem_schema" where
  "to_gem_schema ps = \<lparr>gs_type = as_string (get_member ''type'' ps),
     gs_description = as_string (get_member ''description'' ps),
     gs_properties = as_object (get_member ''properties'' ps),
     gs_required = required_names (get_member ''required'' ps), gs_items = as_object (get_member ''items'' ps)\<rparr>"

definition to_gem_function :: "tool_definition \<Rightarrow> gem_function_decl" where
  "to_gem_function t = \<lparr>gf_name = tfs_name (tdef_function t), gf_description = tfs_description (tdef_function t),
     gf_parameters = to_gem_schema (tfs_parameters (tdef_function t))\<rparr>"

definition gem_request_of :: "'w net \<Rightarrow> completion_request \<Rightarrow> gem_request" where
  "gem_request_of N q = \<lparr>gq_contents = gem_contents N (cq_messages q), gq_system = gem_system None (cq_messages q),
     gq_tools = (if cq_tools q = [] then None else Some (map to_gem_function (cq_tools q))),
     gq_max_output_tokens = cq_max_tokens q, gq_temperature = cq_temperature q\<rparr>"

definition named_json :: "string \<Rightarrow> string \<Rightarrow> (string \<times> any) option \<Rightarrow> (string \<times> any) list" where
  "named_json k field x = (case x of None \<Rightarrow> []
     | Some (n, v) \<Rightarrow> [(k, AObject [(''name'', AString n), (field, v)])])"

definition gem_part_json :: "gem_part \<Rightarrow> any" where
  "gem_part_json p = AObject (omit_string ''text'' (gp_text p) @ named_json ''functionCall'' ''args'' (gp_call p) @
     named_json ''functionResponse'' ''response'' (gp_response p))"

definition gem_content_json :: "gem_content \<Rightarrow> any" where
  "gem_content_json c = AObject [(''role'', AString (gc_role c)), (''parts'', AList (map gem_part_json (gc_parts c)))]"

text \<open>An empty map is omitted like a nil one.\<close>

definition omit_map :: "string \<Rightarrow> any option \<Rightarrow> (string \<times> any) list" where
  "omit_map k x = (case x of Some (AObject (m # ms)) \<Rightarrow> [(k, AObject (m # ms))] | _ \<Rightarrow> [])"

definition gem_schema_json :: "gem_schema \<Rightarrow> any" where
  "gem_schema_json s = AObject ((''type'', AString (gs_type s)) # omit_string ''description'' (gs_description s) @
     omit_map ''properties'' (gs_properties s) @ omit_list ''required'' (map AString (gs_required s)) @
     omit_map ''items'' (gs_items s))"

definition gem_function_json :: "gem_function_decl \<Rightarrow> any" where
  "gem_function_json f = AObject [(''name'', AString (gf_name f)), (''description'', AString (gf_description f)),
     (''parameters'', gem_schema_json (gf_parameters f))]"

definition gem_request_json :: "gem_request \<Rightarrow> any" where
  "gem_request_json r = AObject ([(''contents'', if gq_contents r = [] then ANil
       else AList (map gem_content_json (gq_contents r)))] @
     (case gq_system r of None \<Rightarrow> [] | Some c \<Rightarrow> [(''systemInstruction'', gem_content_json c)]) @
     (case gq_tools r of None \<Rightarrow> [] | Some fs \<Rightarrow>
        [(''tools'', AList [AObject [(''functionDeclarations'', AList (map gem_function_json fs))]])]) @
     [(''generationConfig'', AObject (omit_int ''maxOutputTokens'' (gq_max_output_tokens r) @
       omit_float ''temperature'' (gq_temperature r)))])"

section \<open>Responses\<close>

record gem_response =
  gr_candidates :: "gem_content list"
  gr_prompt :: int
  gr_completion :: int
  gr_error :: "string option"

definition into_map :: "any decoder" where
  "into_map x v = (case x of
     AObject ms \<Rightarrow> (case (v, decode_any x) of
         (AObject old, AObject new) \<Rightarrow> Some (AObject (map_members (old @ new))) | (_, y) \<Rightarrow> Some y)
   | ANil \<Rightarrow> Some ANil | _ \<Rightarrow> None)"

definition into_named :: "string \<Rightarrow> (string \<times> any) decoder" where
  "into_named field = into_struct (\<lambda>ms c. do {
     n \<leftarrow> into_member into_string ''name'' ms (fst c);
     x \<leftarrow> into_member into_map field ms (snd c);
     Some (n, x) })"

definition into_gem_part :: "gem_part decoder" where
  "into_gem_part = into_struct (\<lambda>ms p. do {
     t \<leftarrow> into_member into_string ''text'' ms (gp_text p);
     c \<leftarrow> into_member (into_ptr ([], ANil) (into_named ''args'')) ''functionCall'' ms (gp_call p);
     r \<leftarrow> into_member (into_ptr ([], ANil) (into_named ''response'')) ''functionResponse'' ms (gp_response p);
     Some \<lparr>gp_text = t, gp_call = c, gp_response = r\<rparr> })"

definition into_gem_content :: "gem_content decoder" where
  "into_gem_content = into_struct (\<lambda>ms c. do {
     r \<leftarrow> into_member into_string ''role'' ms (gc_role c);
     ps \<leftarrow> into_member (into_slice (text_part []) into_gem_part) ''parts'' ms (gc_parts c);
     Some \<lparr>gc_role = r, gc_parts = ps\<rparr> })"

definition into_candidate :: "gem_content decoder" where
  "into_candidate = into_struct (\<lambda>ms c. do {
     _ \<leftarrow> into_member into_string ''finishReason'' ms [];
     into_member into_gem_content ''content'' ms c })"

definition into_gem_usage :: "(int \<times> int) decoder" where
  "into_gem_usage = into_struct (\<lambda>ms u. do {
     a \<leftarrow> into_member into_int ''promptTokenCount'' ms (fst u);
     b \<leftarrow> into_member into_int ''candidatesTokenCount'' ms (snd u);
     Some (a, b) })"

definition into_gem_error :: "string decoder" where
  "into_gem_error = into_struct (\<lambda>ms m. do {
     _ \<leftarrow> into_member into_int ''code'' ms 0;
     _ \<leftarrow> into_member into_string ''status'' ms [];
     into_member into_string ''message'' ms m })"

definition decode_gem_response :: "any \<Rightarrow> gem_response option" where
  "decode_gem_response x = into_struct (\<lambda>ms r. do {
     cs \<leftarrow> into_member (into_slice \<lparr>gc_role = [], gc_parts = []\<rparr> into_candidate) ''candidates'' ms [];
     u \<leftarrow> into_member into_gem_usage ''usageMetadata'' ms (0, 0);
     e \<leftarrow> into_member (into_ptr [] into_gem_error) ''error'' ms None;
     Some \<lparr>gr_candidates = cs, gr_prompt = fst u, gr_completion = snd u, gr_error = e\<rparr> })
     x \<lparr>gr_candidates = [], gr_prompt = 0, gr_completion = 0, gr_error = None\<rparr>"

text \<open>The id of a call is the name of its function.\<close>

definition gem_add :: "'w net \<Rightarrow> gem_part \<Rightarrow> completion_response \<Rightarrow> completion_response" where
  "gem_add N p r = (let r1 = r\<lparr>cp_content := cp_content r @ gp_text p\<rparr> in
     case gp_call p of None \<Rightarrow> r1
     | Some (n, a) \<Rightarrow> r1\<lparr>cp_tool_calls := cp_tool_calls r1 @
         [\<lparr>tc_id = n, tc_name = n, tc_arguments = net_render N a\<rparr>]\<rparr>)"

definition gem_collect :: "'w net \<Rightarrow> gem_content list \<Rightarrow> completion_response \<Rightarrow> completion_response" where
  "gem_collect N cs = fold (\<lambda>c. fold (gem_add N) (gc_parts c)) cs"

definition gem_result :: "'w net \<Rightarrow> gem_response \<Rightarrow> completion_response result" where
  "gem_result N r = (case gr_error r of
     Some e \<Rightarrow> Inl (''gemini error: '' @ e)
   | None \<Rightarrow> Inr (gem_collect N (gr_candidates r) \<lparr>cp_content = [], cp_tool_calls = [],
       cp_prompt_tokens = gr_prompt r, cp_completion_tokens = gr_completion r\<rparr>))"

definition gem_url :: "gemini \<Rightarrow> completion_request \<Rightarrow> string" where
  "gem_url p q = ge_endpoint p @ ''/v1beta/models/'' @ (if cq_model q = [] then ge_model p else cq_model q) @
     '':generateContent?key='' @ ge_api_key p"

definition gem_complete :: "'w net \<Rightarrow> gemini \<Rightarrow> completion_request \<Rightarrow> 'w \<Rightarrow> completion_response result \<times> 'w" where
  "gem_complete N p q w =
     (let (r, w1) = post N (gem_url p q) [(''Content-Type'', ''application/json'')]
        (gem_request_json (gem_request_of N q)) w in
      (case read_reply N ''gemini'' decode_gem_response r of Inl e \<Rightarrow> Inl e | Inr v \<Rightarrow> gem_result N v, w1))"

definition gemini_provider :: "'w net \<Rightarrow> provider_config \<Rightarrow> 'w provider result" where
  "gemini_provider N cfg = (let p = new_gemini cfg in
     Inr \<lparr>prov_name = ''gemini'', complete = gem_complete N p,
       stream_complete = (\<lambda>q w. stream_whole (gem_complete N p q w))\<rparr>)"

section \<open>Lemmas\<close>

text \<open>The schemas of this program's tools hold a \<open>[]string\<close>, which is not the \<open>[]any\<close> asked for.\<close>

lemma required_dropped: "gs_required (to_gem_schema (schema props required)) = []"
  by (simp add: to_gem_schema_def schema_def get_member_def required_names_def)

definition ids_are_names :: "tool_call list \<Rightarrow> bool" where
  "ids_are_names tcs \<longleftrightarrow> map tc_id tcs = map tc_name tcs"

lemma gem_add_calls:
  "ids_are_names (cp_tool_calls r) \<Longrightarrow> ids_are_names (cp_tool_calls (gem_add N p r))"
  by (cases "gp_call p") (simp_all add: gem_add_def Let_def ids_are_names_def split_beta)

lemma gem_parts_calls:
  "ids_are_names (cp_tool_calls r) \<Longrightarrow> ids_are_names (cp_tool_calls (fold (gem_add N) ps r))"
  by (induction ps arbitrary: r) (simp_all add: gem_add_calls)

lemma gem_collect_calls:
  "ids_are_names (cp_tool_calls r) \<Longrightarrow> ids_are_names (cp_tool_calls (gem_collect N cs r))"
  by (induction cs arbitrary: r) (simp_all add: gem_collect_def gem_parts_calls)

lemma gem_result_calls: "gem_result N v = Inr r \<Longrightarrow> ids_are_names (cp_tool_calls r)"
  using gem_collect_calls[of "\<lparr>cp_content = [], cp_tool_calls = [], cp_prompt_tokens = gr_prompt v,
      cp_completion_tokens = gr_completion v\<rparr>" N "gr_candidates v"]
  by (cases "gr_error v") (auto simp: gem_result_def ids_are_names_def[of "[]"])

lemma gem_complete_calls:
  "gem_complete N p q w = (Inr r, w1) \<Longrightarrow> ids_are_names (cp_tool_calls r)"
  by (auto simp: gem_complete_def Let_def split: prod.splits sum.splits intro: gem_result_calls)

text \<open>
  On the wire a call is answered by the part that names its function: \<open>called\<close> and \<open>answered\<close> are the
  names, in order. They agree on a turn exactly when the ids of its calls are their names.
\<close>

definition called :: "gem_content list \<Rightarrow> string list" where
  "called cs = concat (map (\<lambda>c. List.map_filter (\<lambda>p. map_option fst (gp_call p)) (gc_parts c)) cs)"

definition answered :: "gem_content list \<Rightarrow> string list" where
  "answered cs = concat (map (\<lambda>c. List.map_filter (\<lambda>p. map_option fst (gp_response p)) (gc_parts c)) cs)"

lemma called_turn:
  assumes "msg_role m = role_assistant" "msg_tool_calls m \<noteq> []"
  shows "called (gem_contents N [m]) = map tc_name (msg_tool_calls m)"
proof -
  have "List.map_filter (\<lambda>p. map_option fst (gp_call p)) (map (call_part N) tcs) = map tc_name tcs" for tcs
    by (induction tcs) (simp_all add: call_part_def map_filter_simps)
  with assms show ?thesis
    by (simp add: called_def gem_contents_def to_gem_content_def role_defs text_part_def map_filter_simps)
qed

lemma answered_turn:
  "\<forall>r \<in> set rs. msg_role r = role_tool \<and> msg_tool_call_id r \<noteq> [] \<Longrightarrow>
   answered (gem_contents N rs) = map msg_tool_call_id rs"
  by (induction rs)
    (auto simp: answered_def gem_contents_def to_gem_content_def role_defs response_part_def Let_def map_filter_simps)

lemma turn_matches_iff:
  assumes "msg_role m = role_assistant" "msg_tool_calls m \<noteq> []"
    and "map msg_tool_call_id rs = map tc_id (msg_tool_calls m)"
    and "\<forall>r \<in> set rs. msg_role r = role_tool \<and> msg_tool_call_id r \<noteq> []"
  shows "called (gem_contents N [m]) = answered (gem_contents N rs) \<longleftrightarrow> ids_are_names (msg_tool_calls m)"
  unfolding called_turn[OF assms(1,2)] answered_turn[OF assms(4)] assms(3) ids_are_names_def by (rule eq_commute)

end
