(* ===== verification/Backends.thy ===== *)
theory Backends
  imports Openai Anthropic Gemini
begin

text \<open>
  The backends together: the table their \<open>init\<close> functions fill, and what becomes of the tool calls
  and results of a conversation on the wire of each.
\<close>

definition backends :: "'w net \<Rightarrow> (string \<times> (provider_config \<Rightarrow> 'w provider result)) list" where
  "backends N = [(''openai'', openai_provider N), (''anthropic'', anthropic_provider N), (''gemini'', gemini_provider N)]"

definition backend_table :: "'w net \<Rightarrow> 'w factories" where
  "backend_table N = fac.put_all (backends N) Map.empty"

lemma backend_new:
  "(pc_type cfg, f) \<in> set (backends N) \<Longrightarrow> provider_new ks (backend_table N) cfg = f cfg"
  unfolding backend_table_def by (rule provider_new_registered) (auto simp: backends_def)

lemma backend_names:
  "provider_new ks (backend_table N) cfg = Inr p \<Longrightarrow> prov_name p = pc_type cfg"
proof -
  assume "provider_new ks (backend_table N) cfg = Inr p"
  then obtain f where f: "(pc_type cfg, f) \<in> set (backends N)" "f cfg = Inr p"
    unfolding provider_new_def backend_table_def
    by (subst (asm) fac.look_put_all_map_of) (auto simp: backends_def split: if_splits option.splits)
  then show ?thesis
    by (auto simp: backends_def openai_provider_def anthropic_provider_def gemini_provider_def Let_def)
qed

section \<open>Properties\<close>

text \<open>C32. Anthropic is sent every tool result where it wants it: for a conversation in which each call is
  answered in order and has an id, the messages of the request have every tool use of an assistant
  message followed, before anything else, by user messages that start with the tool results for
  exactly its ids, in order; system messages in between do not separate them.\<close>

theorem tool_results_on_wire:
  assumes "protocol_ok (cq_messages q)" "named_calls (cq_messages q)"
  shows "wire [] (aq_messages (ant_request_of N p q)) = Some []"
  using wire_messages[of "[]" "cq_messages q" "[]" N] assms
  by (simp add: protocol_ok_def ant_request_of_def)

definition demo_turn :: "message list" where
  "demo_turn = [text_message role_system ''be brief'', text_message role_user ''pods?'',
     \<lparr>msg_role = role_assistant, msg_content = ''Looking.'', msg_tool_call_id = [], msg_tool_calls =
       [\<lparr>tc_id = ''t1'', tc_name = ''get_pod'', tc_arguments = ''{}''\<rparr>,
        \<lparr>tc_id = ''t2'', tc_name = ''get_node'', tc_arguments = ''{}''\<rparr>]\<rparr>,
     tool_message ''t1'' ''two pods'', tool_message ''t2'' ''one node'', text_message role_assistant ''Two.'']"

definition demo_request :: completion_request where
  "demo_request = \<lparr>cq_messages = demo_turn, cq_tools = [], cq_model = [], cq_max_tokens = 0, cq_temperature = 0\<rparr>"

theorem tool_results_on_wire_witness:
  "protocol_ok demo_turn \<and>
   wire [] (aq_messages (ant_request_of (demo_net demo_enc demo_chunks) 
     \<lparr>an_api_key = ''k'', an_endpoint = ''https://api'', an_model = ''m''\<rparr> demo_request)) = Some []"
proof -
  have "protocol_ok (cq_messages demo_request)" "named_calls (cq_messages demo_request)"
    by (simp_all add: demo_request_def demo_turn_def protocol_ok_def named_calls_def text_message_def
        tool_message_def role_defs)
  with tool_results_on_wire[OF this] show ?thesis by (simp add: demo_request_def)
qed

text \<open>Gemini matches results to calls by the name of the function, so a turn of the conversation
  reaches it answered exactly when the ids of its calls are their names. That holds for the calls of its own completions, and
  fails for a turn made with another backend before the provider was switched.\<close>

theorem gemini_turn_answered:
  assumes "msg_role m = role_assistant" "msg_tool_calls m \<noteq> []"
    and "map msg_tool_call_id rs = map tc_id (msg_tool_calls m)"
    and "\<forall>r \<in> set rs. msg_role r = role_tool \<and> msg_tool_call_id r \<noteq> []"
  shows "(called (gem_contents N [m]) = answered (gem_contents N rs) \<longleftrightarrow> ids_are_names (msg_tool_calls m)) \<and>
    (fst (gem_complete N p q w) = Inr resp \<and> cp_tool_calls resp = msg_tool_calls m \<longrightarrow>
     called (gem_contents N [m]) = answered (gem_contents N rs))"
  using turn_matches_iff[OF assms] gem_complete_calls[of N p q w resp "snd (gem_complete N p q w)"]
  by (auto simp: prod_eq_iff)

theorem gemini_turn_answered_witness:
  "called (gem_contents (demo_net demo_enc demo_chunks) [demo_turn ! 2]) \<noteq>
   answered (gem_contents (demo_net demo_enc demo_chunks) [demo_turn ! 3, demo_turn ! 4])"
proof -
  let ?N = "demo_net demo_enc demo_chunks"
  have a: "msg_role (demo_turn ! 2) = role_assistant" "msg_tool_calls (demo_turn ! 2) \<noteq> []"
    "map msg_tool_call_id [demo_turn ! 3, demo_turn ! 4] = map tc_id (msg_tool_calls (demo_turn ! 2))"
    "\<forall>r \<in> set [demo_turn ! 3, demo_turn ! 4]. msg_role r = role_tool \<and> msg_tool_call_id r \<noteq> []"
    "\<not> ids_are_names (msg_tool_calls (demo_turn ! 2))"
    by (simp_all add: demo_turn_def tool_message_def ids_are_names_def role_defs)
  have "called (gem_contents ?N [demo_turn ! 2]) = answered (gem_contents ?N [demo_turn ! 3, demo_turn ! 4]) \<longleftrightarrow>
      ids_are_names (msg_tool_calls (demo_turn ! 2))"
    by (rule gemini_turn_answered[OF a(1-4), THEN conjunct1])
  with a(5) show ?thesis by simp
qed

end
