(* ===== verification/Provider_Manager.thy ===== *)
theory Provider_Manager
  imports Backends Api_Types Http
begin

text \<open>
  Package \<open>providermanager\<close> (internal/providermanager/manager.go), the handlers of the dashboard that
  call it (internal/dashboard/handlers_provider.go) and the initial load of cmd/manager.

  The API server is the record \<open>config_api\<close> over cluster states \<open>'c\<close>: ConfigMaps and Secrets as maps
  from names to data, and the list of cluster configurations. A manager without a client has none.
  The text \<open>%v\<close> prints for a temperature is a parameter; it is stored and never read.
\<close>

type_synonym data = "string \<rightharpoonup> string"
type_synonym object_name = "string \<times> string"

record 'c config_api =
  ca_configs :: "'c \<Rightarrow> api_error + k8ops_config list"
  ca_cm_get :: "object_name \<Rightarrow> 'c \<Rightarrow> api_error + data"
  ca_cm_create :: "object_name \<Rightarrow> data \<Rightarrow> 'c \<Rightarrow> api_error option \<times> 'c"
  ca_cm_update :: "object_name \<Rightarrow> data \<Rightarrow> 'c \<Rightarrow> api_error option \<times> 'c"
  ca_secret_get :: "object_name \<Rightarrow> 'c \<Rightarrow> api_error + data"
  ca_secret_create :: "object_name \<Rightarrow> data \<Rightarrow> 'c \<Rightarrow> api_error option \<times> 'c"
  ca_secret_update :: "object_name \<Rightarrow> data \<Rightarrow> 'c \<Rightarrow> api_error option \<times> 'c"

record 'w manager =
  pm_provider :: "'w provider option"
  pm_config :: provider_config
  pm_last_reload :: "time option"
  pm_namespace :: string

definition empty_config :: provider_config where
  "empty_config = \<lparr>pc_type = [], pc_model = [], pc_api_key = [], pc_endpoint = [], pc_max_tokens = 0,
     pc_temperature = 0\<rparr>"

definition new_manager :: "'w manager" where
  "new_manager = \<lparr>pm_provider = None, pm_config = empty_config, pm_last_reload = None,
     pm_namespace = ''k8ops-system''\<rparr>"

definition config_map_name :: string where "config_map_name = ''k8ops-provider-config''"
definition secret_name :: string where "secret_name = ''k8ops-provider-secret''"

text \<open>What the operations are given: the constructor of providers, the client, the clock, \<open>%v\<close>.\<close>

record ('w, 'c) pm_env =
  pe_new :: "provider_config \<Rightarrow> 'w provider result"
  pe_api :: "'c config_api option"
  pe_now :: "'c \<Rightarrow> time"
  pe_show_float :: "rat \<Rightarrow> string"

section \<open>Operations\<close>

definition swap_in :: "('w, 'c) pm_env \<Rightarrow> provider_config \<Rightarrow> 'w provider \<Rightarrow> 'c \<Rightarrow> 'w manager \<Rightarrow> 'w manager" where
  "swap_in E cfg p c m = m\<lparr>pm_provider := Some p, pm_config := cfg, pm_last_reload := Some (pe_now E c)\<rparr>"

definition resolve_secret_key :: "'c config_api \<Rightarrow> string \<Rightarrow> secret_key_selector \<Rightarrow> 'c \<Rightarrow> string result" where
  "resolve_secret_key A ns ref c =
     (let key = (if sks_key ref = [] then ''apiKey'' else sks_key ref) in
      case ca_secret_get A (ns, sks_name ref) c of
        Inl e \<Rightarrow> Inl (''failed to get secret '' @ ns @ ''/'' @ sks_name ref @ '': '' @ ae_message e)
      | Inr d \<Rightarrow> (case d key of
          None \<Rightarrow> Inl (''key '' @ [CHR 0x27] @ key @ [CHR 0x27] @ '' not found in secret '' @ ns @ ''/'' @ sks_name ref)
        | Some v \<Rightarrow> Inr v))"

definition config_of_spec :: "provider_spec \<Rightarrow> provider_config" where
  "config_of_spec s = \<lparr>pc_type = ps_type s, pc_model = ps_model s, pc_api_key = [], pc_endpoint = ps_endpoint s,
     pc_max_tokens = ps_max_tokens s, pc_temperature = ps_temperature s\<rparr>"

definition reload_from_config :: "('w, 'c) pm_env \<Rightarrow> 'c config_api \<Rightarrow> k8ops_config \<Rightarrow> 'c \<Rightarrow> 'w manager \<Rightarrow>
    string option \<times> 'w manager" where
  "reload_from_config E A k c m =
     (let s = kcs_provider (kc_spec k); cfg0 = config_of_spec s in
      case (case ps_api_key_secret_ref s of None \<Rightarrow> Inr cfg0
            | Some ref \<Rightarrow> (case resolve_secret_key A (om_namespace (kc_meta k)) ref c of
                Inl e \<Rightarrow> Inl (''failed to resolve API key: '' @ e) | Inr v \<Rightarrow> Inr (cfg0\<lparr>pc_api_key := v\<rparr>))) of
        Inl e \<Rightarrow> (Some e, m)
      | Inr cfg \<Rightarrow> (case pe_new E cfg of
          Inl e \<Rightarrow> (Some (''failed to create provider: '' @ e), m)
        | Inr p \<Rightarrow> (None, swap_in E cfg p c m)))"

text \<open>A manager made without a client panics here; \<open>None\<close>.\<close>

definition reload :: "('w, 'c) pm_env \<Rightarrow> 'c \<Rightarrow> 'w manager \<Rightarrow> (string option \<times> 'w manager) option" where
  "reload E c m = (case pe_api E of None \<Rightarrow> None
   | Some A \<Rightarrow> Some (case ca_configs A c of
       Inl e \<Rightarrow> (Some (''failed to list K8opsConfig: '' @ ae_message e), m)
     | Inr [] \<Rightarrow> (Some ''no K8opsConfig found'', m)
     | Inr (k # _) \<Rightarrow> reload_from_config E A k c m))"

definition create_or_update :: "('c \<Rightarrow> api_error + data) \<Rightarrow> (data \<Rightarrow> 'c \<Rightarrow> api_error option \<times> 'c) \<Rightarrow>
    (data \<Rightarrow> 'c \<Rightarrow> api_error option \<times> 'c) \<Rightarrow> data \<Rightarrow> 'c \<Rightarrow> api_error option \<times> 'c" where
  "create_or_update get create update d c = (case get c of
     Inl e \<Rightarrow> if ae_reason e = NotFound then create d c else (Some e, c)
   | Inr _ \<Rightarrow> update d c)"

definition config_data :: "(rat \<Rightarrow> string) \<Rightarrow> provider_config \<Rightarrow> data" where
  "config_data show_float cfg = [''type'' \<mapsto> pc_type cfg, ''model'' \<mapsto> pc_model cfg, ''endpoint'' \<mapsto> pc_endpoint cfg,
     ''maxTokens'' \<mapsto> show_int (pc_max_tokens cfg), ''temperature'' \<mapsto> show_float (pc_temperature cfg)]"

definition save_config_map :: "('w, 'c) pm_env \<Rightarrow> 'c config_api \<Rightarrow> string \<Rightarrow> provider_config \<Rightarrow> 'c \<Rightarrow>
    api_error option \<times> 'c" where
  "save_config_map E A ns cfg = (let n = (ns, config_map_name) in
     create_or_update (ca_cm_get A n) (ca_cm_create A n) (ca_cm_update A n) (config_data (pe_show_float E) cfg))"

definition save_secret :: "'c config_api \<Rightarrow> string \<Rightarrow> string \<Rightarrow> 'c \<Rightarrow> api_error option \<times> 'c" where
  "save_secret A ns key = (let n = (ns, secret_name) in
     create_or_update (ca_secret_get A n) (ca_secret_create A n) (ca_secret_update A n) [''apiKey'' \<mapsto> key])"

text \<open>Errors of the two writes are logged only.\<close>

definition reload_from_direct :: "('w, 'c) pm_env \<Rightarrow> provider_config \<Rightarrow> 'c \<Rightarrow> 'w manager \<Rightarrow>
    (string option \<times> 'w manager) \<times> 'c" where
  "reload_from_direct E cfg c m =
     (if pc_type cfg = [] then ((Some ''provider type is required'', m), c)
      else (case pe_new E cfg of
          Inl e \<Rightarrow> ((Some (''failed to create provider: '' @ e), m), c)
        | Inr p \<Rightarrow>
            (let c2 = (case pe_api E of None \<Rightarrow> c
                 | Some A \<Rightarrow> snd (save_secret A (pm_namespace m) (pc_api_key cfg)
                     (snd (save_config_map E A (pm_namespace m) cfg c))))
             in ((None, swap_in E cfg p c2 m), c2))))"

definition value_of :: "data \<Rightarrow> string \<Rightarrow> string" where
  "value_of d k = (case d k of None \<Rightarrow> [] | Some v \<Rightarrow> v)"

definition load_from_config_map_and_secret :: "'c config_api \<Rightarrow> string \<Rightarrow> 'c \<Rightarrow> provider_config result" where
  "load_from_config_map_and_secret A ns c = (case ca_cm_get A (ns, config_map_name) c of
     Inl e \<Rightarrow> Inl (''ConfigMap '' @ config_map_name @ '' not found: '' @ ae_message e)
   | Inr d \<Rightarrow> (case ca_secret_get A (ns, secret_name) c of
       Inl e \<Rightarrow> Inl (''Secret '' @ secret_name @ '' not found: '' @ ae_message e)
     | Inr s \<Rightarrow>
         (let cfg = empty_config\<lparr>pc_type := value_of d ''type'', pc_model := value_of d ''model'',
            pc_endpoint := value_of d ''endpoint'', pc_api_key := value_of s ''apiKey''\<rparr> in
          if pc_type cfg = [] \<or> pc_api_key cfg = [] then Inl ''persisted config is incomplete'' else Inr cfg)))"

definition load_persisted :: "('w, 'c) pm_env \<Rightarrow> 'c \<Rightarrow> 'w manager \<Rightarrow> (string option \<times> 'w manager) option" where
  "load_persisted E c m = (case pe_api E of None \<Rightarrow> None
   | Some A \<Rightarrow> Some (case load_from_config_map_and_secret A (pm_namespace m) c of
       Inl e \<Rightarrow> (Some e, m)
     | Inr cfg \<Rightarrow> (case pe_new E cfg of
         Inl e \<Rightarrow> (Some (''failed to create provider from persisted config: '' @ e), m)
       | Inr p \<Rightarrow> (None, swap_in E cfg p c m))))"

record pm_status =
  pst_type :: string
  pst_model :: string
  pst_endpoint :: string
  pst_has_api_key :: bool
  pst_last_reload :: "time option"
  pst_active :: bool

definition pm_status_of :: "'w manager \<Rightarrow> pm_status" where
  "pm_status_of m = \<lparr>pst_type = pc_type (pm_config m), pst_model = pc_model (pm_config m),
     pst_endpoint = pc_endpoint (pm_config m), pst_has_api_key = (pc_api_key (pm_config m) \<noteq> []),
     pst_last_reload = pm_last_reload m, pst_active = (pm_provider m \<noteq> None)\<rparr>"

text \<open>The load at the start of cmd/manager: what was persisted, else the cluster configuration.\<close>

definition initial_load :: "('w, 'c) pm_env \<Rightarrow> 'c \<Rightarrow> 'w manager \<Rightarrow> (string option \<times> 'w manager) option" where
  "initial_load E c m = (case load_persisted E c m of
     Some (Some _, m1) \<Rightarrow> reload E c m1 | r \<Rightarrow> r)"

section \<open>Handlers\<close>

definition provider_config_from_request :: "string \<Rightarrow> string \<Rightarrow> string \<Rightarrow> string \<Rightarrow> int \<Rightarrow> rat \<Rightarrow> provider_config" where
  "provider_config_from_request ty model key endpoint max_tokens temp =
     \<lparr>pc_type = ty, pc_model = model, pc_api_key = key, pc_endpoint = endpoint,
      pc_max_tokens = (if max_tokens = 0 then 4096 else max_tokens), pc_temperature = temp\<rparr>"

definition decode_provider_request :: "any \<Rightarrow> provider_config option" where
  "decode_provider_request x = into_struct (\<lambda>ms r. do {
     t \<leftarrow> into_member into_string ''type'' ms [];
     m \<leftarrow> into_member into_string ''model'' ms [];
     k \<leftarrow> into_member into_string ''apiKey'' ms [];
     e \<leftarrow> into_member into_string ''endpoint'' ms [];
     n \<leftarrow> into_member into_int ''maxTokens'' ms 0;
     d \<leftarrow> into_member into_float ''temperature'' ms 0;
     Some \<lparr>pc_type = t, pc_model = m, pc_api_key = k, pc_endpoint = e, pc_max_tokens = n, pc_temperature = d\<rparr> })
     x empty_config"

definition status_json :: "(time option \<Rightarrow> string) \<Rightarrow> pm_status \<Rightarrow> any" where
  "status_json show_time s = AObject ([(''type'', AString (pst_type s)), (''model'', AString (pst_model s))] @
     omit_string ''endpoint'' (pst_endpoint s) @ [(''hasApiKey'', ABool (pst_has_api_key s)),
     (''lastReload'', AString (show_time (pst_last_reload s))), (''active'', ABool (pst_active s))])"

definition handle_provider_status :: "(time option \<Rightarrow> string) \<Rightarrow> 'w manager option \<Rightarrow> http_resp" where
  "handle_provider_status show_time mgr = (case mgr of
     None \<Rightarrow> write_json (AObject [(''active'', ABool False)])
   | Some m \<Rightarrow> write_json (status_json show_time (pm_status_of m)))"

definition handle_provider_update :: "('w, 'c) pm_env \<Rightarrow> http_req \<Rightarrow> 'w manager option \<Rightarrow> 'c \<Rightarrow>
    http_resp \<times> 'w manager option \<times> 'c" where
  "handle_provider_update E rq mgr c = (case mgr of
     None \<Rightarrow> (write_error 503 ''provider manager not initialized'', mgr, c)
   | Some m \<Rightarrow>
       if rq_method rq \<noteq> ''POST'' then (write_error 405 ''method not allowed'', mgr, c)
       else (case Option.bind (rq_json rq) decode_provider_request of
           None \<Rightarrow> (write_error 400 ''invalid request body'', mgr, c)
         | Some r \<Rightarrow>
             if pc_type r = [] \<or> pc_model r = [] \<or> pc_api_key r = []
             then (write_error 400 ''type, model, and apiKey are required'', mgr, c)
             else (case reload_from_direct E (provider_config_from_request (pc_type r) (pc_model r) (pc_api_key r)
                     (pc_endpoint r) (pc_max_tokens r) (pc_temperature r)) c m of
                 ((Some e, m1), c1) \<Rightarrow> (write_k8s_error (Some e), Some m1, c1)
               | ((None, m1), c1) \<Rightarrow> (write_json (AObject [(''status'', AString ''updated''), (''message'',
                   AString (''Provider switched to '' @ pc_type r @ ''/'' @ pc_model r @ '' (hot-reloaded)''))]),
                   Some m1, c1))))"

definition handle_provider_reload :: "('w, 'c) pm_env \<Rightarrow> (time option \<Rightarrow> string) \<Rightarrow> 'w manager option \<Rightarrow> 'c \<Rightarrow>
    (http_resp \<times> 'w manager option) option" where
  "handle_provider_reload E show_time mgr c = (case mgr of
     None \<Rightarrow> Some (write_error 503 ''provider manager not initialized'', mgr)
   | Some m \<Rightarrow> (case reload E c m of
       None \<Rightarrow> None
     | Some (Some e, m1) \<Rightarrow> Some (write_k8s_error (Some e), Some m1)
     | Some (None, m1) \<Rightarrow> Some (write_json (status_json show_time (pm_status_of m1)), Some m1)))"

section \<open>Lemmas\<close>

text \<open>No backend uses the maximum of tokens or the temperature it is configured with.\<close>

lemma settings_ignored:
  "provider_new ks (backend_table N) (cfg\<lparr>pc_max_tokens := a, pc_temperature := b\<rparr>) =
   provider_new ks (backend_table N) cfg"
proof -
  have "f (cfg\<lparr>pc_max_tokens := a, pc_temperature := b\<rparr>) = f cfg" if "(k, f) \<in> set (backends N)" for k f
    using that by (auto simp: backends_def openai_provider_def anthropic_provider_def gemini_provider_def
        new_openai_def new_anthropic_def new_gemini_def)
  then show ?thesis
    unfolding provider_new_def backend_table_def
    by (subst (1 2) fac.look_put_all_map_of)
      (auto simp: backends_def split: option.splits if_splits)
qed

text \<open>
  What the API server promises: an object that was created or updated is read back, and writing
  Secrets leaves the ConfigMaps alone.
\<close>

definition reads_back :: "(object_name \<Rightarrow> 'c \<Rightarrow> api_error + data) \<Rightarrow>
    (object_name \<Rightarrow> data \<Rightarrow> 'c \<Rightarrow> api_error option \<times> 'c) \<Rightarrow> bool" where
  "reads_back get write \<longleftrightarrow> (\<forall>n d c c1. write n d c = (None, c1) \<longrightarrow> get n c1 = Inr d)"

definition leaves_alone :: "(object_name \<Rightarrow> 'c \<Rightarrow> api_error + data) \<Rightarrow>
    (object_name \<Rightarrow> data \<Rightarrow> 'c \<Rightarrow> api_error option \<times> 'c) \<Rightarrow> bool" where
  "leaves_alone get write \<longleftrightarrow> (\<forall>n k d c. get k (snd (write n d c)) = get k c)"

definition config_server :: "'c config_api \<Rightarrow> bool" where
  "config_server A \<longleftrightarrow> reads_back (ca_cm_get A) (ca_cm_create A) \<and> reads_back (ca_cm_get A) (ca_cm_update A) \<and>
     reads_back (ca_secret_get A) (ca_secret_create A) \<and> reads_back (ca_secret_get A) (ca_secret_update A) \<and>
     leaves_alone (ca_cm_get A) (ca_secret_create A) \<and> leaves_alone (ca_cm_get A) (ca_secret_update A)"

lemma create_or_update_reads_back:
  assumes "reads_back get create" "reads_back get update"
    and "create_or_update (get n) (create n) (update n) d c = (None, c1)"
  shows "get n c1 = Inr d"
  using assms unfolding reads_back_def create_or_update_def
  by (cases "get n c") (simp_all split: if_splits del: split_paired_All)

lemma create_or_update_leaves_alone:
  assumes "leaves_alone get create" "leaves_alone get update"
  shows "get k (snd (create_or_update g (create n) (update n) d c)) = get k c"
  using assms unfolding leaves_alone_def create_or_update_def by (cases "g c") (simp_all del: split_paired_All)

definition saved :: "('w, 'c) pm_env \<Rightarrow> 'c config_api \<Rightarrow> string \<Rightarrow> provider_config \<Rightarrow> 'c \<Rightarrow> bool" where
  "saved E A ns cfg c \<longleftrightarrow> fst (save_config_map E A ns cfg c) = None \<and>
     fst (save_secret A ns (pc_api_key cfg) (snd (save_config_map E A ns cfg c))) = None"

lemma saved_objects:
  assumes A: "config_server A" and "saved E A ns cfg c"
    and c2: "c2 = snd (save_secret A ns (pc_api_key cfg) (snd (save_config_map E A ns cfg c)))"
  shows "ca_cm_get A (ns, config_map_name) c2 = Inr (config_data (pe_show_float E) cfg)"
    "ca_secret_get A (ns, secret_name) c2 = Inr [''apiKey'' \<mapsto> pc_api_key cfg]"
proof -
  let ?c1 = "snd (save_config_map E A ns cfg c)"
  have r: "save_config_map E A ns cfg c = (None, ?c1)" "save_secret A ns (pc_api_key cfg) ?c1 = (None, c2)"
    using assms(2,3) by (simp_all add: saved_def prod_eq_iff)
  have "ca_cm_get A (ns, config_map_name) c2 = ca_cm_get A (ns, config_map_name) ?c1"
    using A unfolding c2 save_secret_def Let_def config_server_def
    by (intro create_or_update_leaves_alone) simp_all
  moreover have "ca_cm_get A (ns, config_map_name) ?c1 = Inr (config_data (pe_show_float E) cfg)"
    using A r(1)[unfolded save_config_map_def Let_def] unfolding config_server_def save_config_map_def Let_def
    by (intro create_or_update_reads_back[where create = "ca_cm_create A" and update = "ca_cm_update A" and c = c]) simp_all
  ultimately show "ca_cm_get A (ns, config_map_name) c2 = Inr (config_data (pe_show_float E) cfg)" by simp
  show "ca_secret_get A (ns, secret_name) c2 = Inr [''apiKey'' \<mapsto> pc_api_key cfg]"
    using A r(2)[unfolded save_secret_def Let_def] unfolding config_server_def
    by (intro create_or_update_reads_back[where create = "ca_secret_create A" and update = "ca_secret_update A" and c = ?c1])
      (simp_all del: fun_upd_apply)
qed

section \<open>What the manager holds\<close>

definition pm_ok :: "('w, 'c) pm_env \<Rightarrow> 'w manager \<Rightarrow> bool" where
  "pm_ok E m \<longleftrightarrow> (case pm_provider m of
     None \<Rightarrow> pm_config m = empty_config \<and> pm_last_reload m = None
   | Some p \<Rightarrow> pe_new E (pm_config m) = Inr p \<and> pm_last_reload m \<noteq> None)"

inductive pm_reach :: "('w, 'c) pm_env \<Rightarrow> 'w manager \<Rightarrow> 'c \<Rightarrow> bool" for E where
  start: "pm_reach E new_manager c"
| direct: "pm_reach E m c \<Longrightarrow> reload_from_direct E cfg c m = ((e, m1), c1) \<Longrightarrow> pm_reach E m1 c1"
| reload: "pm_reach E m c \<Longrightarrow> reload E c m = Some (e, m1) \<Longrightarrow> pm_reach E m1 c"
| load: "pm_reach E m c \<Longrightarrow> load_persisted E c m = Some (e, m1) \<Longrightarrow> pm_reach E m1 c"
| cluster: "pm_reach E m c \<Longrightarrow> pm_reach E m c1"

text \<open>An operation either fails and leaves the manager as it was, or succeeds and swaps.\<close>

definition swaps :: "('w, 'c) pm_env \<Rightarrow> 'w manager \<Rightarrow> string option \<times> 'w manager \<Rightarrow> bool" where
  "swaps E m r \<longleftrightarrow> (fst r \<noteq> None \<and> snd r = m) \<or>
     (fst r = None \<and> (\<exists>cfg p c. pe_new E cfg = Inr p \<and> snd r = swap_in E cfg p c m))"

lemma swaps_simps [simp]: "swaps E m (Some e, m)" "pe_new E cfg = Inr p \<Longrightarrow> swaps E m (None, swap_in E cfg p c m)"
  by (auto simp: swaps_def)

lemma reload_from_direct_swaps: "swaps E m (fst (reload_from_direct E cfg c m))"
  by (simp add: reload_from_direct_def Let_def split: sum.split)

lemma reload_swaps: "reload E c m = Some r \<Longrightarrow> swaps E m r"
  by (auto simp: reload_def reload_from_config_def Let_def split: option.splits sum.splits list.splits)

lemma load_persisted_swaps: "load_persisted E c m = Some r \<Longrightarrow> swaps E m r"
  by (auto simp: load_persisted_def split: option.splits sum.splits)

lemma pm_ok_swaps: "pm_ok E m \<Longrightarrow> swaps E m (e, m1) \<Longrightarrow> pm_ok E m1"
  by (auto simp: swaps_def pm_ok_def swap_in_def)

lemma pm_reach_ok: "pm_reach E m c \<Longrightarrow> pm_ok E m"
proof (induction rule: pm_reach.induct)
  case (start c)
  then show ?case by (simp add: pm_ok_def new_manager_def)
next
  case (direct m c cfg e m1 c1)
  with reload_from_direct_swaps[of E m cfg c] show ?case by (auto intro: pm_ok_swaps)
next
  case (reload m c e m1)
  then show ?case by (blast intro: pm_ok_swaps dest: reload_swaps)
next
  case (load m c e m1)
  then show ?case by (blast intro: pm_ok_swaps dest: load_persisted_swaps)
qed

text \<open>
  K8opsConfig is cluster-scoped (api/v1alpha1/k8opsconfig_types.go): its namespace is empty, and an API
  server finds no Secret in no namespace. A configuration that refers to a key cannot be loaded.
\<close>

lemma cluster_scoped_key:
  assumes "om_namespace (kc_meta k) = []" "\<And>s. \<exists>e. ca_secret_get A ([], s) c = Inl e"
    and "ps_api_key_secret_ref (kcs_provider (kc_spec k)) = Some ref"
  shows "\<exists>e. reload_from_config E A k c m = (Some (''failed to resolve API key: '' @ e), m)"
  using assms(1,3) assms(2)[of "sks_name ref"]
  by (auto simp: reload_from_config_def resolve_secret_key_def Let_def)

section \<open>A cluster with one namespace of objects\<close>

type_synonym demo_objects = "(object_name \<rightharpoonup> data) \<times> (object_name \<rightharpoonup> data)"

definition fetched :: "(object_name \<rightharpoonup> data) \<Rightarrow> object_name \<Rightarrow> api_error + data" where
  "fetched m n = (case m n of None \<Rightarrow> Inl \<lparr>ae_reason = NotFound, ae_message = ''not found''\<rparr> | Some d \<Rightarrow> Inr d)"

definition demo_store_api :: "k8ops_config list \<Rightarrow> demo_objects config_api" where
  "demo_store_api ks = \<lparr>ca_configs = (\<lambda>c. Inr ks),
     ca_cm_get = (\<lambda>n c. fetched (fst c) n),
     ca_cm_create = (\<lambda>n d c. (None, ((fst c)(n \<mapsto> d), snd c))),
     ca_cm_update = (\<lambda>n d c. (None, ((fst c)(n \<mapsto> d), snd c))),
     ca_secret_get = (\<lambda>n c. fetched (snd c) n),
     ca_secret_create = (\<lambda>n d c. (None, (fst c, (snd c)(n \<mapsto> d)))),
     ca_secret_update = (\<lambda>n d c. (None, (fst c, (snd c)(n \<mapsto> d))))\<rparr>"

lemma demo_store_api_server: "config_server (demo_store_api ks)"
  by (simp add: config_server_def reads_back_def leaves_alone_def demo_store_api_def fetched_def)

definition demo_pm_env :: "(unit, demo_objects) pm_env" where
  "demo_pm_env = \<lparr>pe_new = provider_new [] (backend_table (demo_net demo_enc demo_chunks)),
     pe_api = Some (demo_store_api []), pe_now = (\<lambda>c. 5), pe_show_float = (\<lambda>r. ''0.2'')\<rparr>"

definition demo_config :: provider_config where
  "demo_config = \<lparr>pc_type = ''openai'', pc_model = ''gpt-4o'', pc_api_key = ''sk-1'', pc_endpoint = [],
     pc_max_tokens = 900, pc_temperature = 1 / 5\<rparr>"

lemma demo_new: "\<exists>p. pe_new demo_pm_env demo_config = Inr p"
  by (simp add: demo_pm_env_def backend_new[where f = "openai_provider (demo_net demo_enc demo_chunks)"]
      backends_def demo_config_def openai_provider_def Let_def)

lemma demo_saved: "saved demo_pm_env (demo_store_api []) ns cfg (m1, m2)"
  by (simp add: saved_def save_config_map_def save_secret_def create_or_update_def demo_store_api_def Let_def
      fetched_def split: option.split)

lemma demo_direct:
  "\<exists>m1 c1. reload_from_direct demo_pm_env demo_config c new_manager = ((None, m1), c1) \<and>
     pm_provider m1 \<noteq> None \<and> pm_config m1 = demo_config"
  using demo_new by (auto simp: reload_from_direct_def Let_def swap_in_def demo_config_def)

section \<open>Properties\<close>

text \<open>C33. The provider set in the dashboard survives a restart: once both objects were written, a manager
  that loads what was persisted has the same provider as before, with any backend. Its configuration is
  that of before but for the maximum of tokens and the temperature, which are saved, not read back,
  and used by no backend.\<close>

theorem persisted_reload:
  assumes "config_server A" "pe_api E = Some A" "pe_new E = provider_new ks (backend_table N)"
    and "saved E A (pm_namespace m) cfg c" "pc_api_key cfg \<noteq> []"
    and "reload_from_direct E cfg c m = ((None, m1), c1)" "pm_namespace m2 = pm_namespace m"
  shows "\<exists>m3. load_persisted E c1 m2 = Some (None, m3) \<and> pm_provider m3 = pm_provider m1 \<and>
    pm_config m3 = (pm_config m1)\<lparr>pc_max_tokens := 0, pc_temperature := 0\<rparr>"
proof -
  let ?cfg = "cfg\<lparr>pc_max_tokens := 0, pc_temperature := 0\<rparr>"
  obtain p where new: "pe_new E cfg = Inr p" "pc_type cfg \<noteq> []"
    using assms(6) by (cases "pe_new E cfg") (auto simp: reload_from_direct_def split: if_splits)
  then have c1: "c1 = snd (save_secret A (pm_namespace m) (pc_api_key cfg) (snd (save_config_map E A (pm_namespace m) cfg c)))"
    and m1: "m1 = swap_in E cfg p c1 m"
    using assms(2,6) by (simp_all add: reload_from_direct_def Let_def) auto
  have "load_from_config_map_and_secret A (pm_namespace m2) c1 = Inr ?cfg"
    using saved_objects[OF assms(1,4) c1] assms(5,7) new(2)
    by (simp add: load_from_config_map_and_secret_def config_data_def value_of_def empty_config_def Let_def)
  moreover have "pe_new E ?cfg = Inr p"
    using new(1) unfolding assms(3) settings_ignored .
  ultimately show ?thesis
    using assms(2) m1 by (simp add: load_persisted_def swap_in_def)
qed

theorem persisted_reload_witness:
  "\<exists>m1 c1 m3. reload_from_direct demo_pm_env demo_config (Map.empty, Map.empty) new_manager = ((None, m1), c1) \<and>
     load_persisted demo_pm_env c1 new_manager = Some (None, m3) \<and> pm_provider m3 = pm_provider m1 \<and>
     pc_model (pm_config m3) = ''gpt-4o'' \<and> pc_max_tokens (pm_config m3) = 0 \<and> pc_max_tokens (pm_config m1) = 900"
proof -
  obtain m1 c1 where d: "reload_from_direct demo_pm_env demo_config (Map.empty, Map.empty) new_manager = ((None, m1), c1)"
    "pm_config m1 = demo_config"
    using demo_direct[of "(Map.empty, Map.empty)"] by blast
  have "\<exists>m3. load_persisted demo_pm_env c1 new_manager = Some (None, m3) \<and> pm_provider m3 = pm_provider m1 \<and>
      pm_config m3 = (pm_config m1)\<lparr>pc_max_tokens := 0, pc_temperature := 0\<rparr>"
    by (rule persisted_reload[where m = new_manager and cfg = demo_config and c = "(Map.empty, Map.empty)",
        OF demo_store_api_server _ _ demo_saved _ d(1)]) (simp_all add: demo_pm_env_def demo_config_def)
  with d show ?thesis by (auto simp: demo_config_def)
qed

text \<open>Hot reload is atomic: in every reachable state the active provider is the one made from the
  configuration the manager reports, and while no load has succeeded there is neither; a failing
  operation leaves all three fields as they were.\<close>

theorem hot_reload_consistent:
  assumes "pm_reach E m c"
  shows "pm_ok E m \<and> swaps E m (fst (reload_from_direct E cfg c m)) \<and>
    pred_option (swaps E m) (reload E c m) \<and> pred_option (swaps E m) (load_persisted E c m)"
  using pm_reach_ok[OF assms] reload_from_direct_swaps reload_swaps load_persisted_swaps
  by (auto simp: pred_option_def)


theorem hot_reload_consistent_witness:
  "\<exists>m c p. pm_reach demo_pm_env m c \<and> pm_provider m = Some p \<and> pm_config m = demo_config \<and>
     pe_new demo_pm_env demo_config = Inr p"
proof -
  obtain m c where d: "reload_from_direct demo_pm_env demo_config (Map.empty, Map.empty) new_manager = ((None, m), c)"
    "pm_provider m \<noteq> None" "pm_config m = demo_config"
    using demo_direct[of "(Map.empty, Map.empty)"] by blast
  have r: "pm_reach demo_pm_env m c"
    by (rule pm_reach.direct[OF pm_reach.start d(1)])
  obtain p where p: "pm_provider m = Some p" using d(2) by blast
  with hot_reload_consistent[OF r, of empty_config] d(3) have "pe_new demo_pm_env demo_config = Inr p"
    by (simp add: pm_ok_def)
  with r p d(3) show ?thesis by blast
qed

end
