(* ===== verification/Diagnostic.thy ===== *)
theory Diagnostic
  imports Controller Provider_Manager Agent Remediation_Tools
begin

text \<open>
  The diagnostic controller (internal/controller/diagnostic/diagnostic_controller.go): a reconciler
  that runs the agent on a report, records its findings and turns them into a remediation plan.

  \<open>diag_env\<close> is what the reconciler holds and the clients it is given. The provider and the tools act
  on the state \<open>'c\<close> of the cluster. The tools of packages \<open>k8s\<close> and \<open>host\<close> it registers are lists of
  tools here, those of package \<open>remediation\<close> are the model's; a tool that panics is one that returns neither a result nor an
  error, which makes the agent's run panic as well. Log lines are not modelled.
\<close>

record 'c diag_env =
  de_api :: "(diagnostic_report, 'c) api_client"
  de_config :: "'c config_api"
  de_default :: provider_config
  de_kube_error :: "'c \<Rightarrow> string option"
  de_remediator_error :: "'c \<Rightarrow> string option"
  de_k8s_tools :: "'c tool list"
  de_host_tools :: "'c tool list"
  de_audit_tools :: "'c tool list"
  de_new :: "provider_config \<Rightarrow> 'c provider result"
  de_args :: "string \<Rightarrow> args result"
  de_tool_order :: "string list"
  de_prompt :: string
  de_json :: "string \<Rightarrow> any option"
  de_parse_time :: "string \<Rightarrow> time option"
  de_now :: "'c \<Rightarrow> time"
  de_create_plan :: "remediation_plan \<Rightarrow> 'c \<Rightarrow> api_error option \<times> 'c"
  de_list_reports :: "'c \<Rightarrow> api_error + diagnostic_report list"
  de_delete_report :: "diagnostic_report \<Rightarrow> 'c \<Rightarrow> api_error option \<times> 'c"

definition diag_finalizer :: string where
  "diag_finalizer = ''aiops.ggai.dev/diagnostic-finalizer''"

section \<open>The request to the agent\<close>

definition bold :: "string \<Rightarrow> string \<Rightarrow> string" where
  "bold label s = ''**'' @ label @ '':** '' @ s @ newline"

definition build_user_message :: "diagnostic_report \<Rightarrow> string" where
  "build_user_message p =
     (let t = dt_type (drs_trigger (dr_spec p)); tr = drs_trigger (dr_spec p) in
      ''## Diagnostic Request'' @ newline @ newline @ bold ''Trigger'' t @
      (if dt_reason tr \<noteq> [] then bold ''Reason'' (dt_reason tr) else []) @
      (if dt_event_message tr \<noteq> [] then bold ''Event Message'' (dt_event_message tr) else []) @
      (case dt_resource_ref tr of None \<Rightarrow> [] | Some ref \<Rightarrow>
         ''**Resource:** '' @ rr_kind ref @ ''/'' @ rr_name ref @
         (if rr_namespace ref \<noteq> [] then '' in namespace '' @ rr_namespace ref else []) @ newline) @
      newline @ ''Please investigate this issue, identify the root cause, and take corrective action if possible.'')"

definition diag_registry :: "'c diag_env \<Rightarrow> ('o, 'c) kube \<Rightarrow> 'c registry" where
  "diag_registry E K = fold register (de_k8s_tools E @ de_host_tools E @
     [patch_resource_tool K, scale_resource_tool K, restart_pod_tool K, cordon_node_tool K,
      delete_evicted_pods_tool K, apply_manifest_tool K] @ de_audit_tools E) new_registry"

definition build_diag_registry :: "'c diag_env \<Rightarrow> ('o, 'c) kube \<Rightarrow> 'c \<Rightarrow> string + 'c registry" where
  "build_diag_registry E K c = (case de_kube_error E c of Some e \<Rightarrow> Inl e
   | None \<Rightarrow> (case de_remediator_error E c of Some e \<Rightarrow> Inl e | None \<Rightarrow> Inr (diag_registry E K)))"

section \<open>The provider\<close>

text \<open>\<open>if v, ok := d[k]; ok\<close>.\<close>

definition override :: "data \<Rightarrow> string \<Rightarrow> string \<Rightarrow> string" where
  "override d k old = (case d k of None \<Rightarrow> old | Some v \<Rightarrow> v)"

definition from_config_map :: "'c config_api \<Rightarrow> 'c \<Rightarrow> provider_config \<Rightarrow> provider_config" where
  "from_config_map A c cfg = (case ca_cm_get A (''k8ops-system'', ''k8ops-provider-config'') c of
     Inl _ \<Rightarrow> cfg
   | Inr d \<Rightarrow>
       (let cfg1 = cfg\<lparr>pc_type := override d ''type'' (pc_type cfg), pc_model := override d ''model'' (pc_model cfg),
          pc_endpoint := override d ''endpoint'' (pc_endpoint cfg)\<rparr> in
        case ca_secret_get A (''k8ops-system'', ''k8ops-provider-secret'') c of
          Inl _ \<Rightarrow> cfg1
        | Inr s \<Rightarrow> cfg1\<lparr>pc_api_key := override s ''apiKey'' (pc_api_key cfg1)\<rparr>))"

text \<open>The key of the cluster configuration, from a Secret named without a namespace.\<close>

definition crd_api_key :: "'c config_api \<Rightarrow> 'c \<Rightarrow> secret_key_selector option \<Rightarrow> string \<Rightarrow> string" where
  "crd_api_key A c ref old = (case ref of None \<Rightarrow> old
   | Some r \<Rightarrow> (case ca_secret_get A ([], sks_name r) c of
       Inl _ \<Rightarrow> old
     | Inr s \<Rightarrow> override s (if sks_key r = [] then ''api-key'' else sks_key r) old))"

definition from_crd :: "'c config_api \<Rightarrow> 'c \<Rightarrow> provider_config \<Rightarrow> provider_config" where
  "from_crd A c cfg = (case ca_configs A c of
     Inr (k # _) \<Rightarrow> (let s = kcs_provider (kc_spec k) in
       if ps_type s = [] then cfg
       else cfg\<lparr>pc_type := ps_type s, pc_model := ps_model s, pc_endpoint := ps_endpoint s,
         pc_max_tokens := (if 0 < ps_max_tokens s then ps_max_tokens s else pc_max_tokens cfg),
         pc_temperature := (if 0 < ps_temperature s then ps_temperature s else pc_temperature cfg),
         pc_api_key := crd_api_key A c (ps_api_key_secret_ref s) (pc_api_key cfg)\<rparr>)
   | _ \<Rightarrow> cfg)"

definition resolve_provider_config :: "'c diag_env \<Rightarrow> 'c \<Rightarrow> provider_config" where
  "resolve_provider_config E c = from_crd (de_config E) c (from_config_map (de_config E) c (de_default E))"

section \<open>Reading the answer\<close>

definition extract_field :: "(string \<Rightarrow> any option) \<Rightarrow> string \<Rightarrow> string \<Rightarrow> string" where
  "extract_field json s field = (case Option.bind (json s) decode_map of
     None \<Rightarrow> s
   | Some m \<Rightarrow> (case get_member field m of Some (AString v) \<Rightarrow> v | _ \<Rightarrow> []))"

definition extract_confidence :: "(string \<Rightarrow> any option) \<Rightarrow> string \<Rightarrow> rat" where
  "extract_confidence json s = (case Option.bind (json s) decode_map of
     None \<Rightarrow> 1 / 2
   | Some m \<Rightarrow> (case get_member ''confidence'' m of Some (AFloat v) \<Rightarrow> v | _ \<Rightarrow> 1 / 2))"

definition into_time :: "(string \<Rightarrow> time option) \<Rightarrow> time option decoder" where
  "into_time pt x v = (case x of ANil \<Rightarrow> Some None
   | AString s \<Rightarrow> (case pt s of None \<Rightarrow> None | Some t \<Rightarrow> Some (Some t)) | _ \<Rightarrow> None)"

definition into_ref :: "resource_ref decoder" where
  "into_ref = into_struct (\<lambda>ms r. do {
     a \<leftarrow> into_member into_string ''apiVersion'' ms (rr_api_version r);
     k \<leftarrow> into_member into_string ''kind'' ms (rr_kind r);
     s \<leftarrow> into_member into_string ''namespace'' ms (rr_namespace r);
     n \<leftarrow> into_member into_string ''name'' ms (rr_name r);
     Some \<lparr>rr_api_version = a, rr_kind = k, rr_namespace = s, rr_name = n\<rparr> })"

definition zero_ref :: resource_ref where
  "zero_ref = \<lparr>rr_api_version = [], rr_kind = [], rr_namespace = [], rr_name = []\<rparr>"

definition into_evidence :: "(string \<Rightarrow> time option) \<Rightarrow> evidence decoder" where
  "into_evidence pt = into_struct (\<lambda>ms e. do {
     t \<leftarrow> into_member into_string ''type'' ms (ev_type e);
     s \<leftarrow> into_member into_string ''source'' ms (ev_source e);
     m \<leftarrow> into_member into_string ''message'' ms (ev_message e);
     w \<leftarrow> into_member (into_time pt) ''timestamp'' ms (ev_timestamp e);
     Some \<lparr>ev_type = t, ev_source = s, ev_message = m, ev_timestamp = w\<rparr> })"

definition into_suggested_action :: "suggested_action decoder" where
  "into_suggested_action = into_struct (\<lambda>ms a. do {
     t \<leftarrow> into_member into_string ''type'' ms (sa_type a);
     d \<leftarrow> into_member into_string ''description'' ms (sa_description a);
     r \<leftarrow> into_member into_string ''risk'' ms (sa_risk a);
     g \<leftarrow> into_member (into_ptr zero_ref into_ref) ''target'' ms (sa_target a);
     p \<leftarrow> into_member into_string ''patch'' ms (sa_patch a);
     c \<leftarrow> into_member into_string ''command'' ms (sa_command a);
     Some \<lparr>sa_type = t, sa_description = d, sa_risk = r, sa_target = g, sa_patch = p, sa_command = c\<rparr> })"

definition zero_evidence :: evidence where
  "zero_evidence = \<lparr>ev_type = [], ev_source = [], ev_message = [], ev_timestamp = None\<rparr>"

definition zero_suggested_action :: suggested_action where
  "zero_suggested_action = \<lparr>sa_type = [], sa_description = [], sa_risk = [], sa_target = None, sa_patch = [],
     sa_command = []\<rparr>"

definition zero_finding :: finding where
  "zero_finding = \<lparr>fi_severity = [], fi_category = [], fi_description = [], fi_root_cause = [], fi_evidence = [],
     fi_suggested_actions = []\<rparr>"

definition into_finding :: "(string \<Rightarrow> time option) \<Rightarrow> finding decoder" where
  "into_finding pt = into_struct (\<lambda>ms f. do {
     s \<leftarrow> into_member into_string ''severity'' ms (fi_severity f);
     c \<leftarrow> into_member into_string ''category'' ms (fi_category f);
     d \<leftarrow> into_member into_string ''description'' ms (fi_description f);
     r \<leftarrow> into_member into_string ''rootCause'' ms (fi_root_cause f);
     e \<leftarrow> into_member (into_slice zero_evidence (into_evidence pt)) ''evidence'' ms (fi_evidence f);
     a \<leftarrow> into_member (into_slice zero_suggested_action into_suggested_action) ''suggestedActions'' ms
       (fi_suggested_actions f);
     Some \<lparr>fi_severity = s, fi_category = c, fi_description = d, fi_root_cause = r, fi_evidence = e,
       fi_suggested_actions = a\<rparr> })"

text \<open>A nil slice of findings is \<open>None\<close>: no JSON, no such member or null.\<close>

definition extract_findings :: "'c diag_env \<Rightarrow> string \<Rightarrow> finding list option" where
  "extract_findings E s = (case de_json E s of None \<Rightarrow> None
   | Some x \<Rightarrow> (case into_struct (into_member (into_ptr [] (into_slice zero_finding (into_finding (de_parse_time E))))
         ''findings'') x None of
       None \<Rightarrow> None | Some fs \<Rightarrow> fs))"

section \<open>Reconciling\<close>

definition fail_report :: "'c diag_env \<Rightarrow> diagnostic_report \<Rightarrow> string \<Rightarrow> 'c \<Rightarrow> outcome \<times> 'c" where
  "fail_report E p msg c = (Returned no_requeue None,
     snd (ac_status_update (de_api E) (p\<lparr>dr_status := (dr_status p)\<lparr>dst_phase := ''Failed'', dst_error := msg\<rparr>\<rparr>) c))"

definition plan_action :: "suggested_action \<Rightarrow> remediation_action" where
  "plan_action a = \<lparr>ra_type = sa_type a, ra_description = sa_description a, ra_risk = sa_risk a,
     ra_target = sa_target a, ra_patch = sa_patch a, ra_replicas = None, ra_manifest = [],
     ra_command = sa_command a, ra_timeout = []\<rparr>"

definition auto_plan :: "diagnostic_report \<Rightarrow> remediation_action list \<Rightarrow> remediation_plan" where
  "auto_plan p as = \<lparr>rp_meta = \<lparr>om_name = [], om_generate_name = ''auto-'' @ om_name (dr_meta p) @ ''-'',
       om_namespace = om_namespace (dr_meta p), om_labels = [''aiops.ggai.dev/diagnostic'' \<mapsto> om_name (dr_meta p),
         ''aiops.ggai.dev/auto'' \<mapsto> ''true''], om_finalizers = [], om_deleting = False, om_created = 0\<rparr>,
     rp_spec = \<lparr>rps_diagnostic_ref = om_name (dr_meta p), rps_actions = as, rps_mode = ''auto'',
       rps_rollback_on_failure = True\<rparr>,
     rp_status = \<lparr>rst_phase = [], rst_results = [], rst_started_at = None, rst_completed_at = None,
       rst_summary = [], rst_approved_by = []\<rparr>\<rparr>"

definition planned_actions :: "finding list option \<Rightarrow> remediation_action list" where
  "planned_actions fs = (case fs of None \<Rightarrow> []
     | Some l \<Rightarrow> concat (map (\<lambda>f. map plan_action (fi_suggested_actions f)) l))"

definition maybe_create_plan :: "'c diag_env \<Rightarrow> diagnostic_report \<Rightarrow> finding list option \<Rightarrow> 'c \<Rightarrow> 'c" where
  "maybe_create_plan E p fs c = (case ca_configs (de_config E) c of
     Inr (k # _) \<Rightarrow>
       if \<not> ar_enabled (kcs_auto_remediation (kc_spec k)) \<or> planned_actions fs = [] then c
       else snd (de_create_plan E (auto_plan p (planned_actions fs)) c)
   | _ \<Rightarrow> c)"

definition trace_of :: "trace_step list \<Rightarrow> agent_step list" where
  "trace_of ss = map (\<lambda>(i, s). \<lparr>as_step = int i + 1, as_thought = st_thought s, as_action = st_action s,
     as_action_input = st_action_input s, as_observation = st_observation s\<rparr>) (enumerate 0 ss)"

definition reported_findings :: "string \<Rightarrow> finding list option \<Rightarrow> finding list" where
  "reported_findings answer fs = (case fs of Some l \<Rightarrow> l
     | None \<Rightarrow> [zero_finding\<lparr>fi_severity := ''medium'', fi_category := ''General'', fi_description := answer\<rparr>])"

definition completed_status :: "'c diag_env \<Rightarrow> string \<Rightarrow> agent_result \<Rightarrow> time \<Rightarrow> diagnostic_report_status \<Rightarrow>
    diagnostic_report_status" where
  "completed_status E model r now st = st\<lparr>dst_phase := ''Completed'',
     dst_summary := extract_field (de_json E) (ar_answer r) ''summary'', dst_ai_model := model,
     dst_analyzed_at := Some now, dst_confidence := extract_confidence (de_json E) (ar_answer r),
     dst_agent_trace := dst_agent_trace st @ trace_of (ar_steps r),
     dst_findings := reported_findings (ar_answer r) (extract_findings E (ar_answer r))\<rparr>"

definition complete_report :: "'c diag_env \<Rightarrow> diagnostic_report \<Rightarrow> string \<Rightarrow> agent_result \<Rightarrow> 'c \<Rightarrow> outcome \<times> 'c" where
  "complete_report E p model r c =
     (case ac_status_update (de_api E) (p\<lparr>dr_status := completed_status E model r (de_now E c) (dr_status p)\<rparr>) c of
        (Inl _, c1) \<Rightarrow> (Returned requeue_now None, c1)
      | (Inr p1, c1) \<Rightarrow>
          (Returned no_requeue None, maybe_create_plan E p1 (extract_findings E (ar_answer r)) c1))"

definition diag_agent :: "'c diag_env \<Rightarrow> 'c provider \<Rightarrow> 'c registry \<Rightarrow> 'c agent_config" where
  "diag_agent E prov reg = new_agent \<lparr>ag_provider = Some prov, ag_registry = Some reg,
     ag_system_prompt = de_prompt E, ag_max_steps = 15, ag_timeout = 180 * second\<rparr>"

definition diagnose :: "'c diag_env \<Rightarrow> ('o, 'c) kube \<Rightarrow> diagnostic_report \<Rightarrow> 'c \<Rightarrow> outcome \<times> 'c" where
  "diagnose E K p c = (case build_diag_registry E K c of
     Inl e \<Rightarrow> fail_report E p (''failed to build tools: '' @ e) c
   | Inr reg \<Rightarrow>
       (let cfg = resolve_provider_config E c in
        if pc_api_key cfg = [] then (Returned \<lparr>requeue = False, requeue_after = 30 * second\<rparr> None,
          snd (ac_status_update (de_api E) (p\<lparr>dr_status := (dr_status p)\<lparr>dst_phase := ''Pending'',
            dst_error := ''provider not configured, waiting...''\<rparr>\<rparr>) c))
        else (case de_new E cfg of
            Inl e \<Rightarrow> fail_report E p (''failed to create provider: '' @ e) c
          | Inr prov \<Rightarrow>
              (case agent_run (de_args E) (de_tool_order E) (diag_agent E prov reg) (build_user_message p) c of
                 (RunPanic, c1) \<Rightarrow> (Panicked, c1)
               | (RunError e, c1) \<Rightarrow> fail_report E p (''agent error: '' @ e) c1
               | (Answered r, c1) \<Rightarrow> complete_report E p (pc_model cfg) r c1))))"

definition diag_reconcile :: "'c diag_env \<Rightarrow> ('o, 'c) kube \<Rightarrow> ns_name \<Rightarrow> 'c \<Rightarrow> outcome \<times> 'c" where
  "diag_reconcile E K n c =
     (case ac_get (de_api E) n c of
        Inl e \<Rightarrow> (Returned no_requeue (if ae_reason e = NotFound then None else Some e), c)
      | Inr p \<Rightarrow>
          if om_deleting (dr_meta p) then
            (let (r, c1) = ac_update (de_api E) (p\<lparr>dr_meta := remove_finalizer diag_finalizer (dr_meta p)\<rparr>) c
             in (Returned no_requeue (err_of r), c1))
          else if \<not> awaits (dst_phase (dr_status p)) then (Returned no_requeue None, c)
          else (case ac_status_update (de_api E) (p\<lparr>dr_status := (dr_status p)\<lparr>dst_phase := ''Analyzing''\<rparr>\<rparr>) c of
              (Inl _, c1) \<Rightarrow> (Returned requeue_now None, c1)
            | (Inr p1, c1) \<Rightarrow> diagnose E K p1 c1))"

definition diag_idle :: "diagnostic_report \<Rightarrow> bool" where
  "diag_idle p \<longleftrightarrow> \<not> om_deleting (dr_meta p) \<and> \<not> awaits (dst_phase (dr_status p))"

interpretation diag: phase_guarded "ac_get (de_api E) n" diag_idle "diag_reconcile E K n" for E K n
  by unfold_locales (auto simp: diag_reconcile_def diag_idle_def)

section \<open>Old reports\<close>

definition max_report_age :: duration where "max_report_age = 12 * 60 * minute"

definition cleanup_old_reports :: "'c diag_env \<Rightarrow> 'c \<Rightarrow> 'c" where
  "cleanup_old_reports E c = (case de_list_reports E c of
     Inl _ \<Rightarrow> c
   | Inr ps \<Rightarrow> fold (\<lambda>p c. snd (de_delete_report E p c))
       (filter (\<lambda>p. om_created (dr_meta p) < de_now E c - max_report_age) ps) c)"

section \<open>Lemmas\<close>

definition total_tool :: "'c tool \<Rightarrow> bool" where
  "total_tool t \<longleftrightarrow> (\<forall>args w. fst (tool_execute t args w) \<noteq> (None, None))"

lemma total_tools_register: "total_tools reg \<Longrightarrow> total_tool t \<Longrightarrow> total_tools (register t reg)"
  by (simp add: total_tools_def total_tool_def register_def registry_put_def)

lemma total_tools_fold:
  "total_tools reg \<Longrightarrow> \<forall>t \<in> set ts. total_tool t \<Longrightarrow> total_tools (fold register ts reg)"
  by (induction ts arbitrary: reg) (simp_all add: total_tools_register)

lemma answers_total: "answers r \<Longrightarrow> r \<noteq> (None, None)"
  by (auto simp: answers_def)

lemma remediation_tools_total:
  "total_tool (patch_resource_tool K)" "total_tool (scale_resource_tool K)" "total_tool (restart_pod_tool K)"
  "total_tool (cordon_node_tool K)" "total_tool (delete_evicted_pods_tool K)" "total_tool (apply_manifest_tool K)"
  by (simp_all add: total_tool_def patch_resource_tool_def scale_resource_tool_def restart_pod_tool_def
      cordon_node_tool_def delete_evicted_pods_tool_def apply_manifest_tool_def tools_answer[THEN answers_total])

definition sound_tools :: "'c diag_env \<Rightarrow> bool" where
  "sound_tools E \<longleftrightarrow> (\<forall>t \<in> set (de_k8s_tools E @ de_host_tools E @ de_audit_tools E). total_tool t)"

lemma diag_registry_total: "sound_tools E \<Longrightarrow> total_tools (diag_registry E K)"
  unfolding diag_registry_def sound_tools_def
  by (rule total_tools_fold) (auto simp: total_tools_def new_registry_def remediation_tools_total)

text \<open>
  An API server that accepts every status update of the report: it stores the status, in which only the phase matters here (times
  lose their fractions of a second), keeps the name and the deletion mark, and answers with what it stored.
\<close>

definition named :: "ns_name \<Rightarrow> diagnostic_report \<Rightarrow> bool" where
  "named n p \<longleftrightarrow> (om_namespace (dr_meta p), om_name (dr_meta p)) = n"

definition report_server :: "'c diag_env \<Rightarrow> ns_name \<Rightarrow> bool" where
  "report_server E n \<longleftrightarrow>
     (\<forall>p c. named n p \<longrightarrow> (\<exists>q c1. ac_status_update (de_api E) p c = (Inr q, c1) \<and> ac_get (de_api E) n c1 = Inr q \<and>
        named n q \<and> dst_phase (dr_status q) = dst_phase (dr_status p) \<and> om_deleting (dr_meta q) = om_deleting (dr_meta p))) \<and>
     (\<forall>pl c. ac_get (de_api E) n (snd (de_create_plan E pl c)) = ac_get (de_api E) n c)"

lemma named_status [simp]: "named n (p\<lparr>dr_status := s\<rparr>) = named n p"
  by (simp add: named_def)

lemma update_settles:
  assumes "report_server E n" "named n p"
  obtains q c1 where "ac_status_update (de_api E) p c = (Inr q, c1)" "ac_get (de_api E) n c1 = Inr q"
    "named n q" "dst_phase (dr_status q) = dst_phase (dr_status p)" "om_deleting (dr_meta q) = om_deleting (dr_meta p)"
  using assms unfolding report_server_def by blast

lemma server_keeps: "report_server E n \<Longrightarrow>
  ac_get (de_api E) n (maybe_create_plan E p fs c) = ac_get (de_api E) n c"
  by (simp add: maybe_create_plan_def report_server_def split: sum.split list.split)

text \<open>Where a report stands after a reconciliation.\<close>

definition settled :: "'c diag_env \<Rightarrow> ns_name \<Rightarrow> string set \<Rightarrow> outcome \<Rightarrow> outcome \<times> 'c \<Rightarrow> bool" where
  "settled E n phases out r \<longleftrightarrow> fst r = out \<and>
     (\<exists>q. ac_get (de_api E) n (snd r) = Inr q \<and> dst_phase (dr_status q) \<in> phases)"

lemma fail_report_settles:
  assumes "report_server E n" "named n p"
  shows "settled E n {''Failed''} (Returned no_requeue None) (fail_report E p msg c)"
proof -
  let ?p = "p\<lparr>dr_status := (dr_status p)\<lparr>dst_phase := ''Failed'', dst_error := msg\<rparr>\<rparr>"
  from assms(2) have "named n ?p" by simp
  then show ?thesis
    by (rule update_settles[OF assms(1), of ?p c]) (simp add: settled_def fail_report_def)
qed

lemma complete_report_settles:
  assumes "report_server E n" "named n p"
  shows "settled E n {''Completed''} (Returned no_requeue None) (complete_report E p model r c)"
proof -
  let ?p = "p\<lparr>dr_status := completed_status E model r (de_now E c) (dr_status p)\<rparr>"
  from assms(2) have "named n ?p" by simp
  then show ?thesis
    by (rule update_settles[OF assms(1), of ?p c])
      (simp add: settled_def complete_report_def server_keeps[OF assms(1)] completed_status_def)
qed

lemma settled_mono: "settled E n A out r \<Longrightarrow> A \<subseteq> B \<Longrightarrow> settled E n B out r"
  by (auto simp: settled_def)

definition waiting :: outcome where
  "waiting = Returned \<lparr>requeue = False, requeue_after = 30 * second\<rparr> None"

text \<open>The run of the agent, when a reconciliation comes to it.\<close>

definition run_of :: "'c diag_env \<Rightarrow> ('o, 'c) kube \<Rightarrow> diagnostic_report \<Rightarrow> 'c \<Rightarrow> (run_outcome \<times> 'c) option" where
  "run_of E K p c = (case (build_diag_registry E K c, de_new E (resolve_provider_config E c)) of
     (Inr reg, Inr prov) \<Rightarrow> if pc_api_key (resolve_provider_config E c) = [] then None else
       Some (agent_run (de_args E) (de_tool_order E) (diag_agent E prov reg) (build_user_message p) c)
   | _ \<Rightarrow> None)"

definition waits_for_key :: "'c diag_env \<Rightarrow> ('o, 'c) kube \<Rightarrow> 'c \<Rightarrow> bool" where
  "waits_for_key E K c \<longleftrightarrow> (\<exists>reg. build_diag_registry E K c = Inr reg) \<and> pc_api_key (resolve_provider_config E c) = []"

lemma diagnose_settles:
  assumes "report_server E n" "named n p"
  shows "case run_of E K p c of
      Some (RunPanic, c1) \<Rightarrow> diagnose E K p c = (Panicked, c1)
    | Some (Answered r, c1) \<Rightarrow> settled E n {''Completed''} (Returned no_requeue None) (diagnose E K p c)
    | Some (RunError e, c1) \<Rightarrow> settled E n {''Failed''} (Returned no_requeue None) (diagnose E K p c)
    | None \<Rightarrow> if waits_for_key E K c then settled E n {''Pending''} waiting (diagnose E K p c)
        else settled E n {''Failed''} (Returned no_requeue None) (diagnose E K p c)"
proof (cases "build_diag_registry E K c")
  case (Inl e)
  with fail_report_settles[OF assms] show ?thesis by (simp add: diagnose_def run_of_def waits_for_key_def)
next
  case (Inr reg)
  show ?thesis
  proof (cases "pc_api_key (resolve_provider_config E c) = []")
    case True
    let ?p = "p\<lparr>dr_status := (dr_status p)\<lparr>dst_phase := ''Pending'', dst_error := ''provider not configured, waiting...''\<rparr>\<rparr>"
    from assms(2) have "named n ?p" by simp
    then have "settled E n {''Pending''} waiting (diagnose E K p c)"
      by (rule update_settles[OF assms(1), of ?p c])
        (use Inr True in \<open>simp add: diagnose_def settled_def waiting_def\<close>)
    with Inr True show ?thesis by (simp add: run_of_def waits_for_key_def split: sum.split)
  next
    case False
    show ?thesis
    proof (cases "de_new E (resolve_provider_config E c)")
      case e: (Inl e)
      with Inr False fail_report_settles[OF assms] show ?thesis by (simp add: diagnose_def run_of_def waits_for_key_def)
    next
      case prov: (Inr prov)
      obtain out c1 where run: "agent_run (de_args E) (de_tool_order E) (diag_agent E prov reg) (build_user_message p) c = (out, c1)"
        by (cases "agent_run (de_args E) (de_tool_order E) (diag_agent E prov reg) (build_user_message p) c")
      then show ?thesis
        using Inr False prov fail_report_settles[OF assms] complete_report_settles[OF assms]
        by (cases out) (simp_all add: diagnose_def run_of_def)
    qed
  qed
qed

text \<open>When no tool of the other packages panics or returns neither a result nor an error, the run does not panic.\<close>

lemma sound_run: "sound_tools E \<Longrightarrow> run_of E K p c \<noteq> Some (RunPanic, c1)"
proof
  assume s: "sound_tools E" and r: "run_of E K p c = Some (RunPanic, c1)"
  from r obtain reg prov where reg: "build_diag_registry E K c = Inr reg"
    "agent_run (de_args E) (de_tool_order E) (diag_agent E prov reg) (build_user_message p) c = (RunPanic, c1)"
    by (auto simp: run_of_def split: sum.splits if_splits)
  from reg(1) have "reg = diag_registry E K" by (auto simp: build_diag_registry_def split: option.splits)
  then have "fst (agent_run (de_args E) (de_tool_order E) (diag_agent E prov reg) (build_user_message p) c) \<noteq> RunPanic"
    using diag_registry_total[OF s, of K]
    by (intro agent_run_no_panic) (auto simp: diag_agent_def new_agent_def Let_def second_def)
  with reg(2) show False by simp
qed

section \<open>Where the provider comes from\<close>

text \<open>What the dashboard saved is what a diagnosis uses when there is no cluster configuration.\<close>

lemma dashboard_config_used:
  assumes "config_server (de_config E)" "saved P (de_config E) ''k8ops-system'' cfg c"
    and "c1 = snd (save_secret (de_config E) ''k8ops-system'' (pc_api_key cfg)
      (snd (save_config_map P (de_config E) ''k8ops-system'' cfg c)))"
    and "ca_configs (de_config E) c1 = Inr []"
  shows "resolve_provider_config E c1 = (de_default E)\<lparr>pc_type := pc_type cfg, pc_model := pc_model cfg,
    pc_endpoint := pc_endpoint cfg, pc_api_key := pc_api_key cfg\<rparr>"
  using saved_objects[OF assms(1-3)] assms(4)
  by (simp add: resolve_provider_config_def from_crd_def from_config_map_def config_map_name_def secret_name_def
      config_data_def override_def)

text \<open>
  The Secret of the cluster configuration is looked up without a namespace. An API server finds no
  Secret there, so the reference to the key has no effect.
\<close>

lemma crd_key_never_read:
  assumes "\<And>s. \<exists>e. ca_secret_get (de_config E) ([], s) c = Inl e"
  shows "pc_api_key (resolve_provider_config E c) = pc_api_key (from_config_map (de_config E) c (de_default E))"
proof -
  have "crd_api_key (de_config E) c ref old = old" for ref old
    using assms[of "sks_name (the ref)"] by (cases ref) (auto simp: crd_api_key_def)
  then show ?thesis
    by (simp add: resolve_provider_config_def from_crd_def Let_def split: sum.split list.split)
qed

text \<open>A report that first waited for a provider keeps the error of that time when it completes.\<close>

lemma stale_error_kept: "dst_error (completed_status E model r now st) = dst_error st"
  by (simp add: completed_status_def)

section \<open>A cluster that holds reports\<close>

definition demo_diag :: "provider_config \<Rightarrow> (diagnostic_report \<Rightarrow> bool) \<Rightarrow> (ns_name \<rightharpoonup> diagnostic_report) diag_env" where
  "demo_diag cfg ok = \<lparr>
     de_api = \<lparr>ac_get = (\<lambda>n c. case c n of None \<Rightarrow> Inl \<lparr>ae_reason = NotFound, ae_message = ''not found''\<rparr> | Some p \<Rightarrow> Inr p),
       ac_update = (\<lambda>p c. (Inr p, c)),
       ac_status_update = (\<lambda>p c. if ok p then (Inr p, c((om_namespace (dr_meta p), om_name (dr_meta p)) \<mapsto> p))
         else (Inl \<lparr>ae_reason = OtherReason, ae_message = ''unavailable''\<rparr>, c))\<rparr>,
     de_config = \<lparr>ca_configs = (\<lambda>c. Inr []), ca_cm_get = (\<lambda>n c. Inl \<lparr>ae_reason = NotFound, ae_message = []\<rparr>),
       ca_cm_create = (\<lambda>n d c. (None, c)), ca_cm_update = (\<lambda>n d c. (None, c)),
       ca_secret_get = (\<lambda>n c. Inl \<lparr>ae_reason = NotFound, ae_message = []\<rparr>),
       ca_secret_create = (\<lambda>n d c. (None, c)), ca_secret_update = (\<lambda>n d c. (None, c))\<rparr>,
     de_default = cfg, de_kube_error = (\<lambda>c. None), de_remediator_error = (\<lambda>c. None),
     de_k8s_tools = [], de_host_tools = [], de_audit_tools = [],
     de_new = (\<lambda>cfg. if pc_type cfg = ''openai'' then Inr \<lparr>prov_name = ''openai'',
         complete = (\<lambda>q w. (Inr \<lparr>cp_content = ''fine'', cp_tool_calls = [], cp_prompt_tokens = 1, cp_completion_tokens = 1\<rparr>, w)),
         stream_complete = (\<lambda>q w. (([], Inl ''none''), w))\<rparr> else Inl ''unknown provider type''),
     de_args = (\<lambda>s. Inr Map.empty), de_tool_order = [], de_prompt = ''diagnose'', de_json = (\<lambda>s. None),
     de_parse_time = (\<lambda>s. None), de_now = (\<lambda>c. 9), de_create_plan = (\<lambda>p c. (None, c)),
     de_list_reports = (\<lambda>c. Inr []), de_delete_report = (\<lambda>p c. (None, c))\<rparr>"

definition demo_report :: diagnostic_report where
  "demo_report = \<lparr>dr_meta = \<lparr>om_name = ''r'', om_generate_name = [], om_namespace = ''ns'', om_labels = Map.empty,
       om_finalizers = [], om_deleting = False, om_created = 0\<rparr>,
     dr_spec = \<lparr>drs_trigger = \<lparr>dt_type = ''event'', dt_resource_ref = None, dt_event_message = ''OOMKilled'',
       dt_reason = []\<rparr>, drs_analysis = None, drs_resource_scope = None\<rparr>,
     dr_status = \<lparr>dst_phase = [], dst_findings = [], dst_summary = [], dst_confidence = 0, dst_ai_model = [],
       dst_analyzed_at = None, dst_error = [], dst_agent_trace = []\<rparr>\<rparr>"

lemma demo_resolve: "resolve_provider_config (demo_diag cfg ok) c = cfg"
  by (simp add: resolve_provider_config_def from_crd_def from_config_map_def demo_diag_def)

section \<open>Properties\<close>

text \<open>C23. Where one reconciliation of a report that awaits its diagnosis leaves it, when the API server accepts the status updates: it
  puts the report in phase Analyzing, and then the agent's run decides. After an answer the report is Completed and after an error of the
  run Failed, with nothing to do again. Without a run it is Failed as well, or, exactly when the tools could be built and no API key is
  configured, back in Pending and queued for 30 seconds later. But when the run panics, since a tool panicked or returned
  neither a result nor an error, so does the reconciliation, nothing more is recorded, and if the run left the report as it was, in
  Analyzing, every later reconciliation leaves it there.\<close>

theorem diagnosis_settles:
  assumes "report_server E n" "ac_get (de_api E) n c = Inr p" "named n p" "\<not> om_deleting (dr_meta p)" "awaits (dst_phase (dr_status p))"
  shows "\<exists>q c1. ac_status_update (de_api E) (p\<lparr>dr_status := (dr_status p)\<lparr>dst_phase := ''Analyzing''\<rparr>\<rparr>) c = (Inr q, c1) \<and>
    dst_phase (dr_status q) = ''Analyzing'' \<and>
    (case run_of E K q c1 of
      Some (Answered r, c2) \<Rightarrow> settled E n {''Completed''} (Returned no_requeue None) (diag_reconcile E K n c)
    | Some (RunError e, c2) \<Rightarrow> settled E n {''Failed''} (Returned no_requeue None) (diag_reconcile E K n c)
    | Some (RunPanic, c2) \<Rightarrow> diag_reconcile E K n c = (Panicked, c2) \<and>
        (ac_get (de_api E) n c2 = Inr q \<longrightarrow> (\<forall>k. ((\<lambda>c. snd (diag_reconcile E K n c)) ^^ k) c2 = c2))
    | None \<Rightarrow> if waits_for_key E K c1 then settled E n {''Pending''} waiting (diag_reconcile E K n c)
        else settled E n {''Failed''} (Returned no_requeue None) (diag_reconcile E K n c))"
proof -
  let ?p = "p\<lparr>dr_status := (dr_status p)\<lparr>dst_phase := ''Analyzing''\<rparr>\<rparr>"
  from assms(3) have "named n ?p" by simp
  then obtain q c1 where u: "ac_status_update (de_api E) ?p c = (Inr q, c1)" "named n q" "dst_phase (dr_status q) = ''Analyzing''"
      "\<not> om_deleting (dr_meta q)"
    by (rule update_settles[OF assms(1), of ?p c]) (use assms(4) in simp)
  then have d: "diag_reconcile E K n c = diagnose E K q c1"
    using assms(2,4,5) by (simp add: diag_reconcile_def)
  have "((\<lambda>c. snd (diag_reconcile E K n c)) ^^ k) c2 = c2" if "ac_get (de_api E) n c2 = Inr q" for c2 k
  proof -
    have "diag.at_rest E n c2" using u(3,4) that by (simp add: diag.at_rest_def diag_idle_def awaits_def)
    then show ?thesis by (rule diag.at_rest_again)
  qed
  with u(1,3) diagnose_settles[OF assms(1) u(2), of K c1] show ?thesis
    unfolding d by (auto split: option.splits prod.splits run_outcome.splits)
qed

text \<open>A model that looks once before it answers, with a tool that answers and with one that panics.\<close>

definition peek_tool :: "exec_ret \<Rightarrow> 'c tool" where
  "peek_tool ret = \<lparr>tool_name = ''peek'', tool_description = [], tool_parameters = ANil, tool_execute = (\<lambda>args w. (ret, w))\<rparr>"

definition peeking_provider :: "'c provider" where
  "peeking_provider = \<lparr>prov_name = ''openai'',
     complete = (\<lambda>q w. (Inr (if list_ex (\<lambda>m. msg_role m = role_tool) (cq_messages q)
       then \<lparr>cp_content = ''fine'', cp_tool_calls = [], cp_prompt_tokens = 1, cp_completion_tokens = 1\<rparr>
       else \<lparr>cp_content = [], cp_tool_calls = [\<lparr>tc_id = ''1'', tc_name = ''peek'', tc_arguments = ''{}''\<rparr>],
         cp_prompt_tokens = 1, cp_completion_tokens = 1\<rparr>), w)),
     stream_complete = (\<lambda>q w. (([], Inl ''none''), w))\<rparr>"

definition demo_peek :: "exec_ret \<Rightarrow> (ns_name \<rightharpoonup> diagnostic_report) diag_env" where
  "demo_peek ret = (demo_diag demo_config (\<lambda>p. True))\<lparr>de_k8s_tools := [peek_tool ret], de_new := (\<lambda>cfg. Inr peeking_provider)\<rparr>"

lemma demo_peek_server: "report_server (demo_peek ret) n"
  by (auto simp: report_server_def demo_peek_def demo_diag_def named_def)

lemma demo_peek_registry:
  "registry_get ''peek'' (diag_registry (demo_peek ret) K) = Some (peek_tool ret)"
  by (simp add: diag_registry_def demo_peek_def demo_diag_def register_def registry_put_def registry_get_def new_registry_def peek_tool_def
      patch_resource_tool_def scale_resource_tool_def restart_pod_tool_def cordon_node_tool_def delete_evicted_pods_tool_def apply_manifest_tool_def)

lemma peek_loop:
  assumes "\<And>s. parse s = Inr Map.empty" "registry_get ''peek'' reg = Some (peek_tool ret)"
  shows "agent_loop parse peeking_provider reg ts n (Suc (Suc k)) [text_message role_system a, text_message role_user b] empty_result c =
    (case observe ret of None \<Rightarrow> (RunPanic, c) | Some (o1, txt) \<Rightarrow> (Answered \<lparr>ar_answer = ''fine'',
      ar_steps = [\<lparr>st_thought = [], st_action = ''peek'', st_action_input = ''{}'', st_observation = o1\<rparr>],
      ar_prompt = 2, ar_completion = 2, ar_total = 4\<rparr>, c))"
  by (simp add: call_tool_def assms peeking_provider_def agent_request_def text_message_def role_system_def role_user_def role_tool_def
      tool_message_def empty_result_def totalled_def peek_tool_def split: option.split prod.split)

definition peek_result :: agent_result where
  "peek_result = \<lparr>ar_answer = ''fine'', ar_steps = [\<lparr>st_thought = [], st_action = ''peek'', st_action_input = ''{}'', st_observation = ''up''\<rparr>],
     ar_prompt = 2, ar_completion = 2, ar_total = 4\<rparr>"

lemma demo_peek_run:
  "run_of (demo_peek (None, None)) K p c = Some (RunPanic, c)"
  "run_of (demo_peek (tool_ok ''up'')) K p c = Some (Answered peek_result, c)"
proof -
  have reg: "build_diag_registry (demo_peek ret) K c = Inr (diag_registry (demo_peek ret) K)" for ret
    by (simp add: build_diag_registry_def demo_peek_def demo_diag_def)
  have new: "de_new (demo_peek ret) cfg = Inr peeking_provider" "de_args (demo_peek ret) s = Inr Map.empty" for ret cfg s
    by (simp_all add: demo_peek_def demo_diag_def)
  have key: "pc_api_key (resolve_provider_config (demo_peek ret) c) \<noteq> []" for ret
    by (simp add: resolve_provider_config_def from_crd_def from_config_map_def demo_peek_def demo_diag_def demo_config_def)
  have run: "agent_run (de_args (demo_peek ret)) ks (diag_agent (demo_peek ret) peeking_provider (diag_registry (demo_peek ret) K)) um c =
      (case observe ret of None \<Rightarrow> (RunPanic, c) | Some (o1, txt) \<Rightarrow> (Answered \<lparr>ar_answer = ''fine'',
        ar_steps = [\<lparr>st_thought = [], st_action = ''peek'', st_action_input = ''{}'', st_observation = o1\<rparr>],
        ar_prompt = 2, ar_completion = 2, ar_total = 4\<rparr>, c))" for ret ks um
    using peek_loop[of "de_args (demo_peek ret)", OF new(2) demo_peek_registry, of ret K _ 15 13]
    by (simp add: agent_run_def diag_agent_def new_agent_def Let_def)
  show "run_of (demo_peek (None, None)) K p c = Some (RunPanic, c)"
    using key by (simp add: run_of_def reg new run observe_def)
  show "run_of (demo_peek (tool_ok ''up'')) K p c = Some (Answered peek_result, c)"
    using key by (simp add: run_of_def reg new run observe_def tool_ok_def clip_def peek_result_def)
qed

theorem diagnosis_settles_witness:
  "\<forall>K :: (unit, ns_name \<rightharpoonup> diagnostic_report) kube.
     settled (demo_peek (tool_ok ''up'')) (''ns'', ''r'') {''Completed''} (Returned no_requeue None)
       (diag_reconcile (demo_peek (tool_ok ''up'')) K (''ns'', ''r'') [(''ns'', ''r'') \<mapsto> demo_report]) \<and>
     (\<exists>q. dst_phase (dr_status q) = ''Analyzing'' \<and>
       diag_reconcile (demo_peek (None, None)) K (''ns'', ''r'') [(''ns'', ''r'') \<mapsto> demo_report] = (Panicked, [(''ns'', ''r'') \<mapsto> q]) \<and>
       (\<forall>k. ((\<lambda>c. snd (diag_reconcile (demo_peek (None, None)) K (''ns'', ''r'') c)) ^^ k) [(''ns'', ''r'') \<mapsto> q] = [(''ns'', ''r'') \<mapsto> q]))"
proof
  fix K :: "(unit, ns_name \<rightharpoonup> diagnostic_report) kube"
  let ?c = "[(''ns'', ''r'') \<mapsto> demo_report]"
  have p: "ac_get (de_api (demo_peek ret)) (''ns'', ''r'') ?c = Inr demo_report"
    "named (''ns'', ''r'') demo_report" "\<not> om_deleting (dr_meta demo_report)" "awaits (dst_phase (dr_status demo_report))" for ret
    by (simp_all add: demo_peek_def demo_diag_def demo_report_def named_def awaits_def)
  have up: "ac_status_update (de_api (demo_peek ret)) q c = (Inr q, c((om_namespace (dr_meta q), om_name (dr_meta q)) \<mapsto> q))" for ret q c
    by (simp add: demo_peek_def demo_diag_def)
  have get: "ac_get (de_api (demo_peek ret)) (''ns'', ''r'') [(''ns'', ''r'') \<mapsto> q] = Inr q" for ret q
    by (simp add: demo_peek_def demo_diag_def)
  have m: "om_namespace (dr_meta demo_report) = ''ns''" "om_name (dr_meta demo_report) = ''r''" by (simp_all add: demo_report_def)
  have "settled (demo_peek (tool_ok ''up'')) (''ns'', ''r'') {''Completed''} (Returned no_requeue None)
       (diag_reconcile (demo_peek (tool_ok ''up'')) K (''ns'', ''r'') ?c)"
  proof -
    show ?thesis using diagnosis_settles[OF demo_peek_server p, of "tool_ok ''up''" K] unfolding demo_peek_run(2) option.case prod.case run_outcome.case by blast
  qed
  moreover have "\<exists>q. dst_phase (dr_status q) = ''Analyzing'' \<and>
       diag_reconcile (demo_peek (None, None)) K (''ns'', ''r'') ?c = (Panicked, [(''ns'', ''r'') \<mapsto> q]) \<and>
       (\<forall>k. ((\<lambda>c. snd (diag_reconcile (demo_peek (None, None)) K (''ns'', ''r'') c)) ^^ k) [(''ns'', ''r'') \<mapsto> q] = [(''ns'', ''r'') \<mapsto> q])"
  proof -
    let ?a = "demo_report\<lparr>dr_status := (dr_status demo_report)\<lparr>dst_phase := ''Analyzing''\<rparr>\<rparr>"
    have u: "ac_status_update (de_api (demo_peek (None, None))) ?a ?c = (Inr ?a, [(''ns'', ''r'') \<mapsto> ?a])" by (simp add: up m)
    obtain q c1 where q: "ac_status_update (de_api (demo_peek (None, None))) ?a ?c = (Inr q, c1)" "dst_phase (dr_status q) = ''Analyzing''"
      "diag_reconcile (demo_peek (None, None)) K (''ns'', ''r'') ?c = (Panicked, c1)"
      "ac_get (de_api (demo_peek (None, None))) (''ns'', ''r'') c1 = Inr q \<longrightarrow>
        (\<forall>k. ((\<lambda>c. snd (diag_reconcile (demo_peek (None, None)) K (''ns'', ''r'') c)) ^^ k) c1 = c1)"
      using diagnosis_settles[OF demo_peek_server p, of "(None, None)" K]
      unfolding demo_peek_run(1) option.case prod.case run_outcome.case by blast
    have c1: "c1 = [(''ns'', ''r'') \<mapsto> q]" using q(1) unfolding u by auto
    show ?thesis using q(2-4) unfolding c1 by (intro exI[of _ q]) (simp add: get)
  qed
  ultimately show "settled (demo_peek (tool_ok ''up'')) (''ns'', ''r'') {''Completed''} (Returned no_requeue None)
       (diag_reconcile (demo_peek (tool_ok ''up'')) K (''ns'', ''r'') ?c) \<and>
     (\<exists>q. dst_phase (dr_status q) = ''Analyzing'' \<and>
       diag_reconcile (demo_peek (None, None)) K (''ns'', ''r'') ?c = (Panicked, [(''ns'', ''r'') \<mapsto> q]) \<and>
       (\<forall>k. ((\<lambda>c. snd (diag_reconcile (demo_peek (None, None)) K (''ns'', ''r'') c)) ^^ k) [(''ns'', ''r'') \<mapsto> q] = [(''ns'', ''r'') \<mapsto> q]))"
    by blast
qed

text \<open>A lost status update strands a report: when the diagnosis fails and the update that should
  record it is refused, the reconciler reports success and asks for no retry, and because it starts
  from no report in phase Analyzing, every later reconciliation leaves the report there.\<close>

theorem lost_update_strands:
  assumes "ac_get (de_api E) n c = Inr p" "\<not> om_deleting (dr_meta p)" "awaits (dst_phase (dr_status p))"
    and "ac_status_update (de_api E) (p\<lparr>dr_status := (dr_status p)\<lparr>dst_phase := ''Analyzing''\<rparr>\<rparr>) c = (Inr q, c1)"
    and "ac_get (de_api E) n c1 = Inr q" "dst_phase (dr_status q) = ''Analyzing''" "\<not> om_deleting (dr_meta q)"
    and "de_new E (resolve_provider_config E c1) = Inl e" "pc_api_key (resolve_provider_config E c1) \<noteq> []"
    and "\<And>msg. \<exists>e1. ac_status_update (de_api E)
      (q\<lparr>dr_status := (dr_status q)\<lparr>dst_phase := ''Failed'', dst_error := msg\<rparr>\<rparr>) c1 = (Inl e1, c1)"
  shows "diag_reconcile E K n c = (Returned no_requeue None, c1) \<and>
    ((\<lambda>c. snd (diag_reconcile E K n c)) ^^ k) c1 = c1"
proof -
  have "fail_report E q msg c1 = (Returned no_requeue None, c1)" for msg
    using assms(10)[of msg] by (auto simp: fail_report_def)
  then have "diag_reconcile E K n c = (Returned no_requeue None, c1)"
    using assms by (simp add: diag_reconcile_def diagnose_def split: sum.split)
  moreover have "diag.at_rest E n c1"
    using assms(5-7) by (simp add: diag.at_rest_def diag_idle_def awaits_def)
  ultimately show ?thesis by (simp add: diag.at_rest_again)
qed


definition demo_refusing :: "(ns_name \<rightharpoonup> diagnostic_report) diag_env" where
  "demo_refusing = demo_diag (demo_config\<lparr>pc_type := ''local''\<rparr>) (\<lambda>p. dst_phase (dr_status p) = ''Analyzing'')"

definition demo_stuck :: diagnostic_report where
  "demo_stuck = demo_report\<lparr>dr_status := (dr_status demo_report)\<lparr>dst_phase := ''Analyzing''\<rparr>\<rparr>"

lemma demo_refusing_simps:
  "ac_get (de_api demo_refusing) (''ns'', ''r'') [(''ns'', ''r'') \<mapsto> p] = Inr p"
  "ac_status_update (de_api demo_refusing) demo_stuck c = (Inr demo_stuck, c((''ns'', ''r'') \<mapsto> demo_stuck))"
  "dst_phase (dr_status p) = ''Failed'' \<Longrightarrow> \<exists>e. ac_status_update (de_api demo_refusing) p c = (Inl e, c)"
  "resolve_provider_config demo_refusing c = demo_config\<lparr>pc_type := ''local''\<rparr>"
  "de_new demo_refusing (demo_config\<lparr>pc_type := ''local''\<rparr>) = Inl ''unknown provider type''"
  by (simp_all add: demo_refusing_def demo_resolve)
    (simp_all add: demo_diag_def demo_stuck_def demo_report_def demo_config_def)

theorem lost_update_strands_witness:
  "\<forall>(K :: (unit, ns_name \<rightharpoonup> diagnostic_report) kube) k.
     diag_reconcile demo_refusing K (''ns'', ''r'') [(''ns'', ''r'') \<mapsto> demo_report] =
       (Returned no_requeue None, [(''ns'', ''r'') \<mapsto> demo_stuck]) \<and>
     ((\<lambda>c. snd (diag_reconcile demo_refusing K (''ns'', ''r'') c)) ^^ k) [(''ns'', ''r'') \<mapsto> demo_stuck] =
       [(''ns'', ''r'') \<mapsto> demo_stuck] \<and> dst_phase (dr_status demo_stuck) = ''Analyzing''"
proof (intro allI)
  fix K :: "(unit, ns_name \<rightharpoonup> diagnostic_report) kube" and k
  have "diag_reconcile demo_refusing K (''ns'', ''r'') [(''ns'', ''r'') \<mapsto> demo_report] =
       (Returned no_requeue None, [(''ns'', ''r'') \<mapsto> demo_stuck]) \<and>
     ((\<lambda>c. snd (diag_reconcile demo_refusing K (''ns'', ''r'') c)) ^^ k) [(''ns'', ''r'') \<mapsto> demo_stuck] =
       [(''ns'', ''r'') \<mapsto> demo_stuck]"
    by (rule lost_update_strands[where p = demo_report and q = demo_stuck and e = "''unknown provider type''"])
      (simp_all add: demo_refusing_simps flip: demo_stuck_def,
       simp_all add: demo_stuck_def demo_report_def awaits_def demo_config_def)
  then show "diag_reconcile demo_refusing K (''ns'', ''r'') [(''ns'', ''r'') \<mapsto> demo_report] =
       (Returned no_requeue None, [(''ns'', ''r'') \<mapsto> demo_stuck]) \<and>
     ((\<lambda>c. snd (diag_reconcile demo_refusing K (''ns'', ''r'') c)) ^^ k) [(''ns'', ''r'') \<mapsto> demo_stuck] =
       [(''ns'', ''r'') \<mapsto> demo_stuck] \<and> dst_phase (dr_status demo_stuck) = ''Analyzing''"
    by (simp add: demo_stuck_def)
qed

end
