(* ===== verification/Optimization.thy ===== *)
theory Optimization
  imports Diagnostic
begin

text \<open>
  The optimization controller (internal/controller/optimization/optimization_controller.go), a
  reconciler like the diagnostic one that reports the error of its last status update. The tools of
  package \<open>k8s\<close> it registers are a list of tools.
\<close>

record 'c opt_env =
  oe_api :: "(optimization_suggestion, 'c) api_client"
  oe_config :: "'c config_api"
  oe_default :: provider_config
  oe_kube_error :: "'c \<Rightarrow> string option"
  oe_k8s_tools :: "'c tool list"
  oe_new :: "provider_config \<Rightarrow> 'c provider result"
  oe_args :: "string \<Rightarrow> args result"
  oe_tool_order :: "string list"
  oe_prompt :: string
  oe_json :: "string \<Rightarrow> any option"
  oe_now :: "'c \<Rightarrow> time"

definition opt_message :: "optimization_suggestion \<Rightarrow> string" where
  "opt_message p = (let s = op_spec p; sc = osp_scope s in
     ''## Optimization Analysis Request'' @ newline @ newline @ ''**Scope:** '' @ os_type sc @
     (if os_namespace sc \<noteq> [] then '' (namespace: '' @ os_namespace sc @ '')'' else []) @
     (if os_workload sc \<noteq> [] then '' (workload: '' @ os_workload sc @ '')'' else []) @ newline @
     (if osp_categories s \<noteq> [] then bold ''Categories'' (show_strings (osp_categories s)) else []) @
     bold ''Analysis window'' (osp_window s) @
     newline @ ''Please analyze the cluster resources and provide optimization recommendations.'')"

definition opt_resolve :: "'c opt_env \<Rightarrow> 'c \<Rightarrow> provider_config" where
  "opt_resolve E c = (let cfg = oe_default E in case ca_configs (oe_config E) c of
     Inr (k # _) \<Rightarrow> (let s = kcs_provider (kc_spec k) in
       if ps_type s = [] then cfg
       else cfg\<lparr>pc_type := ps_type s, pc_model := ps_model s, pc_endpoint := ps_endpoint s,
         pc_api_key := crd_api_key (oe_config E) c (ps_api_key_secret_ref s) (pc_api_key cfg)\<rparr>)
   | _ \<Rightarrow> cfg)"

text \<open>A map of strings keeps the last value of a key; another type of value is an error.\<close>

fun into_string_map :: "(string \<times> any) list \<Rightarrow> (string \<rightharpoonup> string) \<Rightarrow> (string \<rightharpoonup> string) option" where
  "into_string_map [] m = Some m"
| "into_string_map ((k, x) # ms) m = (case into_string x [] of
     None \<Rightarrow> None | Some s \<Rightarrow> into_string_map ms (m(k \<mapsto> s)))"

definition into_strings :: "(string \<rightharpoonup> string) decoder" where
  "into_strings x v = (case x of AObject ms \<Rightarrow> into_string_map ms v | ANil \<Rightarrow> Some Map.empty | _ \<Rightarrow> None)"

definition into_suggestion :: "suggestion decoder" where
  "into_suggestion = into_struct (\<lambda>ms g. do {
     t \<leftarrow> into_member into_string ''type'' ms (sg_type g);
     r \<leftarrow> into_member (into_ptr zero_ref into_ref) ''target'' ms (sg_target g);
     d \<leftarrow> into_member into_string ''description'' ms (sg_description g);
     c \<leftarrow> into_member into_strings ''current'' ms (sg_current g);
     n \<leftarrow> into_member into_strings ''recommended'' ms (sg_recommended g);
     s \<leftarrow> into_member into_string ''estimatedSavings'' ms (sg_estimated_savings g);
     f \<leftarrow> into_member into_float ''confidence'' ms (sg_confidence g);
     p \<leftarrow> into_member into_string ''priority'' ms (sg_priority g);
     k \<leftarrow> into_member into_string ''risk'' ms (sg_risk g);
     Some \<lparr>sg_type = t, sg_target = r, sg_description = d, sg_current = c, sg_recommended = n,
       sg_estimated_savings = s, sg_confidence = f, sg_priority = p, sg_risk = k\<rparr> })"

definition zero_suggestion :: suggestion where
  "zero_suggestion = \<lparr>sg_type = [], sg_target = None, sg_description = [], sg_current = Map.empty,
     sg_recommended = Map.empty, sg_estimated_savings = [], sg_confidence = 0, sg_priority = [], sg_risk = []\<rparr>"

definition decode_answer :: "any \<Rightarrow> (string \<times> suggestion list \<times> string) option" where
  "decode_answer x = into_struct (\<lambda>ms v. do {
     s \<leftarrow> into_member into_string ''summary'' ms [];
     g \<leftarrow> into_member (into_slice zero_suggestion into_suggestion) ''suggestions'' ms [];
     t \<leftarrow> into_member into_string ''totalEstimatedSavings'' ms [];
     Some (s, g, t) }) x ([], [], [])"

definition fail_opt :: "'c opt_env \<Rightarrow> optimization_suggestion \<Rightarrow> string \<Rightarrow> 'c \<Rightarrow> outcome \<times> 'c" where
  "fail_opt E p msg c = finish (oe_api E) (p\<lparr>op_status := (op_status p)\<lparr>ost_phase := ''Failed'',
     ost_summary := ''Failed: '' @ msg\<rparr>\<rparr>) c"

definition opt_completed :: "'c opt_env \<Rightarrow> string \<Rightarrow> time \<Rightarrow> optimization_status \<Rightarrow> optimization_status" where
  "opt_completed E answer now st = (let st1 = st\<lparr>ost_phase := ''Completed'', ost_analyzed_at := Some now\<rparr> in
     case Option.bind (oe_json E answer) decode_answer of
       Some (s, g, t) \<Rightarrow> st1\<lparr>ost_summary := s, ost_suggestions := g, ost_total_estimated_savings := t\<rparr>
     | None \<Rightarrow> st1\<lparr>ost_summary := answer\<rparr>)"

definition opt_analyze :: "'c opt_env \<Rightarrow> optimization_suggestion \<Rightarrow> 'c \<Rightarrow> outcome \<times> 'c" where
  "opt_analyze E p c = (case oe_kube_error E c of
     Some e \<Rightarrow> fail_opt E p e c
   | None \<Rightarrow> (case oe_new E (opt_resolve E c) of
       Inl e \<Rightarrow> fail_opt E p e c
     | Inr prov \<Rightarrow>
         (case agent_run (oe_args E) (oe_tool_order E) (new_agent \<lparr>ag_provider = Some prov,
                 ag_registry = Some (fold register (oe_k8s_tools E) new_registry), ag_system_prompt = oe_prompt E,
                 ag_max_steps = 10, ag_timeout = 120 * second\<rparr>) (opt_message p) c of
            (RunPanic, c1) \<Rightarrow> (Panicked, c1)
          | (RunError e, c1) \<Rightarrow> fail_opt E p e c1
          | (Answered r, c1) \<Rightarrow> finish (oe_api E)
              (p\<lparr>op_status := opt_completed E (ar_answer r) (oe_now E c1) (op_status p)\<rparr>) c1)))"

definition opt_reconcile :: "'c opt_env \<Rightarrow> ns_name \<Rightarrow> 'c \<Rightarrow> outcome \<times> 'c" where
  "opt_reconcile E n c =
     (case ac_get (oe_api E) n c of
        Inl e \<Rightarrow> (Returned no_requeue (if ae_reason e = NotFound then None else Some e), c)
      | Inr p \<Rightarrow>
          if \<not> awaits (ost_phase (op_status p)) then (Returned no_requeue None, c)
          else (case ac_status_update (oe_api E) (p\<lparr>op_status := (op_status p)\<lparr>ost_phase := ''Analyzing''\<rparr>\<rparr>) c of
              (Inl _, c1) \<Rightarrow> (Returned requeue_now None, c1)
            | (Inr p1, c1) \<Rightarrow> opt_analyze E p1 c1))"

definition opt_idle :: "optimization_suggestion \<Rightarrow> bool" where
  "opt_idle p \<longleftrightarrow> \<not> awaits (ost_phase (op_status p))"

interpretation opt: phase_guarded "ac_get (oe_api E) n" opt_idle "opt_reconcile E n" for E n
  by unfold_locales (auto simp: opt_reconcile_def opt_idle_def)

section \<open>Lemmas\<close>

text \<open>Unlike a diagnosis, an analysis tells the work queue when its outcome could not be recorded; but
  the retry finds the object in phase Analyzing and leaves it there.\<close>

lemma opt_retry_idle:
  assumes "ac_get (oe_api E) n c = Inr p" "ost_phase (op_status p) = ''Analyzing''"
  shows "opt_reconcile E n c = (Returned no_requeue None, c)"
  by (rule opt.guard[OF assms(1)]) (simp add: opt_idle_def awaits_def assms(2))

text \<open>What the dashboard saved is not used: without a cluster configuration there is only the default.\<close>

lemma opt_ignores_dashboard: "ca_configs (oe_config E) c = Inr [] \<Longrightarrow> opt_resolve E c = oe_default E"
  by (simp add: opt_resolve_def)

end
