(* ===== verification/Pdb_Audit.thy ===== *)
theory Pdb_Audit
  imports Analysis
begin

text \<open>
  The audit of disruption budgets (internal/dashboard/handlers_pdb_audit.go): budgets and the deployments they select,
  deployments without a budget, the simulated drains of nodes, score and recommendations. \<open>'sel\<close> is the type of label selectors;
  compiling one, its text and the orders of \<open>sort.Slice\<close> are parameters. A missing number of replicas that is read is a panic, \<open>None\<close>.
\<close>

section \<open>Objects\<close>

record 'sel pdb_object =
  bu_namespace :: string
  bu_name :: string
  bu_min :: "string option"
  bu_max :: "string option"
  bu_selector :: 'sel
  bu_healthy :: int
  bu_desired :: int
  bu_expected :: int
  bu_allowed :: int

record pdb_deployment =
  by_namespace :: string
  by_name :: string
  by_replicas :: "int option"
  by_labels :: "(string \<times> string) list"

record pdb_pod =
  bq_namespace :: string
  bq_name :: string
  bq_node :: string
  bq_phase :: string
  bq_labels :: "(string \<times> string) list"

record pdb_entry =
  bt_name :: string
  bt_namespace :: string
  bt_min :: string
  bt_max :: string
  bt_selector :: string
  bt_kind :: string
  bt_target :: string
  bt_current :: int
  bt_desired :: int
  bt_allowed :: int
  bt_unhealthy :: int
  bt_status :: string
  bt_risk :: string

record unprotected_entry =
  ue_name :: string
  ue_namespace :: string
  ue_replicas :: int
  ue_risk :: string

record pdb_blocker =
  bb_name :: string
  bb_namespace :: string
  bb_target :: string
  bb_current :: int
  bb_allowed :: int
  bb_reason :: string

record drain_impact =
  di_node :: string
  di_pods :: nat
  di_blocked :: "string list"
  di_can_drain :: bool

record pdb_issue =
  bi_severity :: string
  bi_type :: string
  bi_resource :: string
  bi_message :: string

record 'sel pdb_env =
  be_compile :: "'sel \<Rightarrow> ((string \<times> string) list \<Rightarrow> bool) option"
  be_text :: "'sel \<Rightarrow> string"
  be_sort_entries :: "pdb_entry slice_sort"
  be_sort_unprotected :: "unprotected_entry slice_sort"
  be_sort_drains :: "drain_impact slice_sort"
  be_sort_issues :: "pdb_issue slice_sort"

section \<open>Budgets\<close>

definition classify_pdb :: "pdb_entry \<Rightarrow> string \<times> string" where
  "classify_pdb e =
     (if 0 < bt_current e \<and> bt_allowed e < 0 then (''impossible'', ''critical'')
      else if bt_allowed e \<le> 0 \<and> 0 < bt_current e then (''blocked'', ''high'')
      else if 0 < bt_unhealthy e then (''healthy'', ''medium'') else (''healthy'', ''low''))"

text \<open>The entry before it is classified, without a target.\<close>

definition plain_entry :: "'sel pdb_env \<Rightarrow> 'sel pdb_object \<Rightarrow> pdb_entry" where
  "plain_entry E b = \<lparr>bt_name = bu_name b, bt_namespace = bu_namespace b, bt_min = (case bu_min b of Some s \<Rightarrow> s | None \<Rightarrow> []),
     bt_max = (case bu_max b of Some s \<Rightarrow> s | None \<Rightarrow> []), bt_selector = be_text E (bu_selector b), bt_kind = [], bt_target = [],
     bt_current = bu_healthy b, bt_desired = bu_desired b, bt_allowed = bu_allowed b, bt_unhealthy = wrap32 (bu_healthy b - bu_expected b),
     bt_status = [], bt_risk = []\<rparr>"

definition pdb_target :: "'sel pdb_env \<Rightarrow> pdb_deployment list \<Rightarrow> 'sel pdb_object \<Rightarrow> pdb_deployment option" where
  "pdb_target E ds b = (case be_compile E (bu_selector b) of None \<Rightarrow> None
     | Some f \<Rightarrow> find (\<lambda>d. by_namespace d = bu_namespace b \<and> f (by_labels d)) ds)"

definition aim_at :: "pdb_deployment option \<Rightarrow> pdb_entry \<Rightarrow> pdb_entry option" where
  "aim_at t e = (case t of None \<Rightarrow> Some e
     | Some d \<Rightarrow> let e1 = e\<lparr>bt_kind := ''Deployment'', bt_target := by_name d\<rparr> in
         if bt_current e = 0 then map_option (\<lambda>n. e1\<lparr>bt_current := n\<rparr>) (by_replicas d) else Some e1)"

definition pdb_entry_of :: "'sel pdb_env \<Rightarrow> pdb_deployment list \<Rightarrow> 'sel pdb_object \<Rightarrow> pdb_entry option" where
  "pdb_entry_of E ds b = map_option (\<lambda>e. e\<lparr>bt_status := fst (classify_pdb e), bt_risk := snd (classify_pdb e)\<rparr>)
     (aim_at (pdb_target E ds b) (plain_entry E b))"

definition slashed :: "string \<Rightarrow> string \<Rightarrow> string" where
  "slashed ns name = ns @ ''/'' @ name"

definition matched_deployments :: "'sel pdb_env \<Rightarrow> pdb_deployment list \<Rightarrow> 'sel pdb_object list \<Rightarrow> string list" where
  "matched_deployments E ds bs = map (\<lambda>d. slashed (by_namespace d) (by_name d)) (List.map_filter (pdb_target E ds) bs)"

definition pdb_blocker_of :: "pdb_entry \<Rightarrow> pdb_blocker" where
  "pdb_blocker_of e = \<lparr>bb_name = bt_name e, bb_namespace = bt_namespace e, bb_target = bt_target e, bb_current = bt_current e,
     bb_allowed = bt_allowed e, bb_reason = ''PDB allows '' @ show_int (bt_allowed e) @ '' disruptions '' @ em_dash @ '' node drain will be blocked''\<rparr>"

definition pdb_entry_issues :: "pdb_entry \<Rightarrow> pdb_issue list" where
  "pdb_entry_issues e = (let r = slashed (bt_namespace e) (bt_name e) in
     entry_if (bt_status e = ''blocked'') \<lparr>bi_severity = ''warning'', bi_type = ''pdb-blocked'', bi_resource = r,
       bi_message = ''PDB '' @ r @ '' blocks disruption (allowed: '' @ show_int (bt_allowed e) @ '') '' @ em_dash @ '' drain operations will stall''\<rparr> @
     entry_if (bt_status e = ''impossible'') \<lparr>bi_severity = ''critical'', bi_type = ''pdb-impossible'', bi_resource = r,
       bi_message = ''PDB '' @ r @ '' is impossible to satisfy '' @ em_dash @ '' minAvailable > current pods''\<rparr>)"

section \<open>Deployments without a budget\<close>

definition classify_unprotected_risk :: "int \<Rightarrow> string" where
  "classify_unprotected_risk n = (if 5 \<le> n then ''high'' else if 3 \<le> n then ''medium'' else ''low'')"

definition several_replicas :: "pdb_deployment \<Rightarrow> bool" where
  "several_replicas d \<longleftrightarrow> (case by_replicas d of Some n \<Rightarrow> 2 \<le> n | None \<Rightarrow> False)"

definition unprotected_of :: "pdb_deployment \<Rightarrow> unprotected_entry" where
  "unprotected_of d = (let n = (case by_replicas d of Some n \<Rightarrow> n | None \<Rightarrow> 0) in
     \<lparr>ue_name = by_name d, ue_namespace = by_namespace d, ue_replicas = n, ue_risk = classify_unprotected_risk n\<rparr>)"

definition unprotected_issue :: "unprotected_entry \<Rightarrow> pdb_issue" where
  "unprotected_issue u = (let k = slashed (ue_namespace u) (ue_name u); serious = 3 \<le> ue_replicas u in
     \<lparr>bi_severity = (if serious then ''warning'' else ''info''), bi_type = ''no-pdb'', bi_resource = k,
      bi_message = ''Deployment '' @ k @ '' has '' @ show_int (ue_replicas u) @ '' replicas but no PDB '' @ em_dash @
        (if serious then '' voluntary disruption risk'' else '' consider adding one'')\<rparr>)"

section \<open>Drains\<close>

definition runs_on :: "string \<Rightarrow> pdb_pod \<Rightarrow> bool" where
  "runs_on node p \<longleftrightarrow> bq_node p = node \<and> bq_node p \<noteq> [] \<and> bq_phase p = ''Running''"

definition blocks_drain :: "'sel pdb_env \<Rightarrow> pdb_pod list \<Rightarrow> string \<Rightarrow> 'sel pdb_object \<Rightarrow> bool" where
  "blocks_drain E ps node b \<longleftrightarrow> bu_allowed b \<le> 0 \<and> (case be_compile E (bu_selector b) of None \<Rightarrow> False
     | Some f \<Rightarrow> list_ex (\<lambda>p. bq_node p = node \<and> f (bq_labels p)) ps)"

definition drain_of :: "'sel pdb_env \<Rightarrow> 'sel pdb_object list \<Rightarrow> pdb_pod list \<Rightarrow> string \<times> bool \<Rightarrow> drain_impact option" where
  "drain_of E bs ps = (\<lambda>(node, unschedulable).
     if unschedulable \<or> how_many (runs_on node) ps = 0 then None
     else let blocked = map (\<lambda>b. slashed (bu_namespace b) (bu_name b)) (filter (blocks_drain E ps node) bs) in
       Some \<lparr>di_node = node, di_pods = how_many (runs_on node) ps, di_blocked = blocked, di_can_drain = (blocked = [])\<rparr>)"

section \<open>The audit\<close>

record pdb_summary =
  bs_deployments :: nat
  bs_pdbs :: nat
  bs_protected :: nat
  bs_unprotected :: nat
  bs_blocked :: nat
  bs_impossible :: nat
  bs_allowed :: int
  bs_score :: int

definition calculate_pdb_score :: "pdb_summary \<Rightarrow> int" where
  "calculate_pdb_score s = (let all = bs_protected s + bs_unprotected s in
     if all = 0 then 100
     else let score = ratio_points (bs_protected s) all 100 - int (bs_blocked s) * 10 - int (bs_impossible s) * 20 in if score < 0 then 0 else score)"

definition generate_pdb_recs :: "pdb_summary \<Rightarrow> unprotected_entry list \<Rightarrow> pdb_blocker list \<Rightarrow> string list" where
  "generate_pdb_recs s us bs = (let high = how_many (\<lambda>u. ue_risk u = ''high'') us; several = bs_protected s + bs_unprotected s in
     entry_if (0 < bs_unprotected s \<and> 0 < high) (show_nat high @ '' high-risk deployment(s) with >=5 replicas have NO PDB '' @ em_dash @
       '' add PDB to protect against voluntary disruptions'') @
     entry_if (0 < bs_unprotected s) (show_nat (bs_unprotected s) @ '' of '' @ show_nat several @ '' multi-replica deployment(s) lack PDB coverage ('' @
       fixed0 (percent_of (int (bs_unprotected s)) (int several)) @ ''%)'') @
     entry_if (0 < bs_impossible s) (show_nat (bs_impossible s) @ '' PDB(s) are impossible to satisfy (minAvailable > pods) '' @ em_dash @
       '' fix PDB spec or scale up workload'') @
     entry_if (0 < bs_blocked s) (show_nat (bs_blocked s) @ '' PDB(s) currently block voluntary disruptions'' @
       (case bs of [] \<Rightarrow> [] | b # _ \<Rightarrow> '' (e.g. '' @ bb_namespace b @ ''/'' @ bb_name b @ '' blocks '' @ bb_target b @ '')'') @ '' '' @ em_dash @
       '' node drain will stall until pods are healthy'') @
     entry_if (bs_score s < 60) (''PDB coverage health score is '' @ show_int (bs_score s) @ ''/100 '' @ em_dash @ '' add PDBs for critical workloads'') @
     entry_if (0 < bs_protected s \<and> bs_unprotected s = 0 \<and> bs_blocked s = 0)
       (''All multi-replica deployments have PDB coverage '' @ em_dash @ '' excellent voluntary disruption protection''))"

definition pdb_risk_rank :: "string \<Rightarrow> nat" where
  "pdb_risk_rank r = (if r = ''critical'' then 0 else if r = ''high'' then 1 else if r = ''medium'' then 2 else 3)"

definition pdb_issue_rank :: "string \<Rightarrow> nat" where
  "pdb_issue_rank r = (if r = ''critical'' then 0 else if r = ''warning'' then 1 else if r = ''info'' then 2 else 3)"

record pdb_result =
  bz_summary :: pdb_summary
  bz_entries :: "pdb_entry list"
  bz_unprotected :: "unprotected_entry list"
  bz_blockers :: "pdb_blocker list"
  bz_drains :: "drain_impact list"
  bz_issues :: "pdb_issue list"
  bz_recs :: "string list"

definition pdb_report :: "'sel pdb_env \<Rightarrow> pdb_deployment list \<Rightarrow> 'sel pdb_object list \<Rightarrow> (string \<times> bool) list \<Rightarrow> pdb_pod list \<Rightarrow>
    pdb_entry list \<Rightarrow> pdb_result" where
  "pdb_report E ds bs nodes ps es = (let several = filter several_replicas ds;
       protected = (\<lambda>d. slashed (by_namespace d) (by_name d) \<in> set (matched_deployments E ds bs));
       us = map unprotected_of (filter (\<lambda>d. \<not> protected d) several);
       blockers = map pdb_blocker_of (filter (\<lambda>e. bt_status e = ''blocked'') es);
       s0 = \<lparr>bs_deployments = length ds, bs_pdbs = length es, bs_protected = how_many protected several, bs_unprotected = length us,
         bs_blocked = length blockers, bs_impossible = how_many (\<lambda>e. bt_status e = ''impossible'') es, bs_allowed = sum_list (map bt_allowed es), bs_score = 0\<rparr>;
       s = s0\<lparr>bs_score := calculate_pdb_score s0\<rparr>;
       sorted = be_sort_unprotected E (\<lambda>a b. ue_replicas b < ue_replicas a) us
     in \<lparr>bz_summary = s, bz_entries = be_sort_entries E (\<lambda>a b. pdb_risk_rank (bt_risk a) < pdb_risk_rank (bt_risk b)) es,
         bz_unprotected = sorted, bz_blockers = blockers,
         bz_drains = be_sort_drains E (\<lambda>a b. length (di_blocked b) < length (di_blocked a)) (List.map_filter (drain_of E bs ps) nodes),
         bz_issues = be_sort_issues E (\<lambda>a b. pdb_issue_rank (bi_severity a) < pdb_issue_rank (bi_severity b))
           (concat (map pdb_entry_issues es) @ map unprotected_issue us),
         bz_recs = generate_pdb_recs s sorted blockers\<rparr>)"

definition pdb_audit :: "'sel pdb_env \<Rightarrow> pdb_deployment list \<Rightarrow> 'sel pdb_object list \<Rightarrow> (string \<times> bool) list \<Rightarrow> pdb_pod list \<Rightarrow> pdb_result option" where
  "pdb_audit E ds bs nodes ps = map_option (pdb_report E ds bs nodes ps) (those (map (pdb_entry_of E ds) bs))"

record ('sel, 'd) pdb_client =
  bc_deployments :: "string \<Rightarrow> 'd \<Rightarrow> string + pdb_deployment list"
  bc_pdbs :: "string \<Rightarrow> 'd \<Rightarrow> string + 'sel pdb_object list"
  bc_nodes :: "'d \<Rightarrow> string + (string \<times> bool) list"
  bc_pods :: "string \<Rightarrow> 'd \<Rightarrow> string + pdb_pod list"

text \<open>\<open>None\<close> is a panic.\<close>

definition handle_pdb_audit :: "'sel pdb_env \<Rightarrow> ('sel, 'd) pdb_client option \<Rightarrow> http_req \<Rightarrow> 'd \<Rightarrow> (http_resp + pdb_result) option" where
  "handle_pdb_audit E client rq d = (case client of
     None \<Rightarrow> Some (Inl (write_error 503 ''kubernetes client not available''))
   | Some C \<Rightarrow> let ns = rq_query rq ''namespace'' in
      (case bc_deployments C ns d of Inl e \<Rightarrow> Some (Inl (write_k8s_error (Some e))) | Inr ds \<Rightarrow>
      (case bc_pdbs C ns d of Inl e \<Rightarrow> Some (Inl (write_k8s_error (Some e))) | Inr bs \<Rightarrow>
      (case bc_nodes C d of Inl e \<Rightarrow> Some (Inl (write_k8s_error (Some e))) | Inr nodes \<Rightarrow>
      (case bc_pods C ns d of Inl e \<Rightarrow> Some (Inl (write_k8s_error (Some e))) | Inr ps \<Rightarrow>
        map_option Inr (pdb_audit E ds bs nodes ps))))))"

section \<open>Lemmas\<close>

lemma those_map: "those (map f xs) = Some ys \<longleftrightarrow> map f xs = map Some ys"
proof (induction xs arbitrary: ys)
  case (Cons x xs)
  show ?case by (cases "f x"; cases ys) (auto simp: Cons.IH)
qed auto

lemma audit_entries:
  assumes "pdb_audit E ds bs nodes ps = Some r"
  obtains es where "map (pdb_entry_of E ds) bs = map Some es" "r = pdb_report E ds bs nodes ps es"
  using assms by (auto simp: pdb_audit_def those_map)

text \<open>Every deployment with several replicas is either protected or listed as unprotected.\<close>

lemma pdb_coverage:
  assumes "pdb_audit E ds bs nodes ps = Some r"
  shows "bs_protected (bz_summary r) + bs_unprotected (bz_summary r) = how_many several_replicas ds"
proof -
  obtain es where "r = pdb_report E ds bs nodes ps es" by (rule audit_entries[OF assms])
  then show ?thesis
    using sum_length_filter_compl[of "\<lambda>d. slashed (by_namespace d) (by_name d) \<in> set (matched_deployments E ds bs)" "filter several_replicas ds"]
    by (simp add: pdb_report_def Let_def how_many_def)
qed

lemma partial_points:
  assumes "part < whole" "whole \<le> 2 ^ 30"
  shows "ratio_points part whole 100 < 100"
proof -
  have n: "0 < whole" using assms(1) by simp
  have "of_int (ratio_points part whole 100) \<le> (of_nat part / of_nat whole * of_int 100 * (1 + 1 / 2 ^ 53) ^ 2 :: rat)"
    using assms n by (intro ratio_points_bounds(3)) auto
  also have "(of_nat part / of_nat whole :: rat) \<le> 1 - 1 / 2 ^ 30"
  proof -
    have "of_nat (Suc part) \<le> (of_nat whole :: rat)" using assms(1) of_nat_le_iff[of "Suc part" whole] by simp
    then have "(of_nat part / of_nat whole :: rat) \<le> 1 - 1 / of_nat whole" using n by (simp add: field_simps)
    moreover have "(of_nat whole :: rat) \<le> of_nat (2 ^ 30)" using assms(2) of_nat_le_iff by blast
    then have "(1 :: rat) / 2 ^ 30 \<le> 1 / of_nat whole" using n by (intro frac_le) simp_all
    ultimately show ?thesis by linarith
  qed
  then have "of_nat part / of_nat whole * of_int 100 * (1 + 1 / 2 ^ 53) ^ 2 \<le> (1 - 1 / 2 ^ 30) * of_int 100 * (1 + 1 / 2 ^ 53 :: rat) ^ 2"
    by (intro mult_right_mono) auto
  also have "(1 - 1 / 2 ^ 30) * of_int 100 * (1 + 1 / 2 ^ 53 :: rat) ^ 2 < 100" by (simp add: power2_eq_square)
  finally show ?thesis by linarith
qed

text \<open>The score is at most 100, and 100 exactly when every deployment with several replicas has a budget and no budget blocks.\<close>

theorem pdb_full_score:
  assumes "pdb_audit E ds bs nodes ps = Some r" "length ds \<le> 2 ^ 30" "0 < how_many several_replicas ds"
  shows "0 \<le> bs_score (bz_summary r) \<and> bs_score (bz_summary r) \<le> 100 \<and>
    (bs_score (bz_summary r) = 100 \<longleftrightarrow>
       bs_unprotected (bz_summary r) = 0 \<and> bs_blocked (bz_summary r) = 0 \<and> bs_impossible (bz_summary r) = 0)"
proof -
  define s where "s = bz_summary r"
  have score: "bs_score s = calculate_pdb_score s"
    by (rule audit_entries[OF assms(1)]) (simp add: s_def pdb_report_def Let_def calculate_pdb_score_def)
  have all: "bs_protected s + bs_unprotected s = how_many several_replicas ds" unfolding s_def by (rule pdb_coverage[OF assms(1)])
  have n: "0 < bs_protected s + bs_unprotected s" "bs_protected s + bs_unprotected s \<le> 2 ^ 30"
    using assms(2,3) how_many_le[of several_replicas ds] unfolding all by auto
  let ?p = "ratio_points (bs_protected s) (bs_protected s + bs_unprotected s) 100"
  have le: "?p \<le> 100" using n by (intro ratio_points_bounds(2)) auto
  have full: "?p = 100 \<longleftrightarrow> bs_unprotected s = 0"
    using partial_points[of "bs_protected s" "bs_protected s + bs_unprotected s"] ratio_points_all[of "bs_protected s" 100] n by fastforce
  show ?thesis using le full n unfolding s_def[symmetric] score calculate_pdb_score_def Let_def by auto
qed

text \<open>A drain is said to be possible exactly when no budget without allowed disruptions selects a pod on the node, in whatever namespace.\<close>

theorem drains_by_labels:
  assumes "pdb_audit E ds bs nodes ps = Some r" "permuting (be_sort_drains E)" "i \<in> set (bz_drains r)"
  shows "(di_node i, False) \<in> set nodes \<and> di_pods i = how_many (runs_on (di_node i)) ps \<and>
    (di_can_drain i \<longleftrightarrow> (\<forall>b \<in> set bs. \<forall>f. bu_allowed b \<le> 0 \<and> be_compile E (bu_selector b) = Some f \<longrightarrow>
       (\<forall>p \<in> set ps. bq_node p = di_node i \<longrightarrow> \<not> f (bq_labels p))))"
proof -
  have "bz_drains r = be_sort_drains E (\<lambda>a b. length (di_blocked b) < length (di_blocked a)) (List.map_filter (drain_of E bs ps) nodes)"
    by (rule audit_entries[OF assms(1)]) (simp add: pdb_report_def Let_def)
  then have "i \<in> set (List.map_filter (drain_of E bs ps) nodes)" using assms(3) permuting_set[OF assms(2)] by simp
  then obtain node u where x: "(node, u) \<in> set nodes" "drain_of E bs ps (node, u) = Some i" by (auto simp: List.map_filter_def)
  then have i: "\<not> u" "di_node i = node" "di_pods i = how_many (runs_on node) ps"
      "di_can_drain i \<longleftrightarrow> (\<forall>b \<in> set bs. \<not> blocks_drain E ps node b)"
    by (auto simp: drain_of_def Let_def filter_empty_conv split: if_splits)
  then show ?thesis using x(1) by (auto simp: blocks_drain_def list_ex_iff split: option.splits)
qed

text \<open>A budget only limits evictions in its own namespace; here the namespaces of budgets and pods play no part.\<close>

lemma drains_ignore_namespaces:
  "map_option (\<lambda>i. (di_node i, di_pods i, di_can_drain i))
     (drain_of E (map (\<lambda>b. b\<lparr>bu_namespace := g b\<rparr>) bs) (map (\<lambda>p. p\<lparr>bq_namespace := h p\<rparr>) ps) x) =
   map_option (\<lambda>i. (di_node i, di_pods i, di_can_drain i)) (drain_of E bs ps x)"
proof -
  have "blocks_drain E (map (\<lambda>p. p\<lparr>bq_namespace := h p\<rparr>) ps) node (b\<lparr>bu_namespace := g b\<rparr>) = blocks_drain E ps node b" for node b
    by (simp add: blocks_drain_def list_ex_iff split: option.split)
  moreover have "how_many (runs_on node) (map (\<lambda>p. p\<lparr>bq_namespace := h p\<rparr>) ps) = how_many (runs_on node) ps" for node
    by (simp add: how_many_map runs_on_def[abs_def])
  ultimately show ?thesis by (cases x) (auto simp: drain_of_def Let_def filter_map comp_def filter_empty_conv)
qed

text \<open>The API server never reports fewer than 0 allowed disruptions: no budget is ever found impossible.\<close>

lemma aim_at_keeps: "aim_at t e = Some e0 \<Longrightarrow> bt_allowed e0 = bt_allowed e \<and> bt_unhealthy e0 = bt_unhealthy e"
  by (auto simp: aim_at_def Let_def split: option.splits if_splits)

lemma pdb_entry_parts:
  assumes "pdb_entry_of E ds b = Some e"
  shows "(bt_status e, bt_risk e) = classify_pdb e" "bt_allowed e = bu_allowed b" "bt_unhealthy e = wrap32 (bu_healthy b - bu_expected b)"
proof -
  obtain e0 where e0: "aim_at (pdb_target E ds b) (plain_entry E b) = Some e0"
      "e = e0\<lparr>bt_status := fst (classify_pdb e0), bt_risk := snd (classify_pdb e0)\<rparr>"
    using assms by (auto simp: pdb_entry_of_def)
  then show "(bt_status e, bt_risk e) = classify_pdb e" by (simp add: classify_pdb_def)
  show "bt_allowed e = bu_allowed b" "bt_unhealthy e = wrap32 (bu_healthy b - bu_expected b)"
    using aim_at_keeps[OF e0(1)] e0(2) by (simp_all add: plain_entry_def)
qed

lemma pdb_entry_status:
  assumes "pdb_entry_of E ds b = Some e" "0 \<le> bu_allowed b"
  shows "bt_status e \<noteq> ''impossible''" "bt_status e = ''blocked'' \<longleftrightarrow> bu_allowed b = 0 \<and> 0 < bt_current e"
  using pdb_entry_parts(1,2)[OF assms(1)] assms(2) by (auto simp: classify_pdb_def split: if_splits)

theorem impossible_never_found:
  assumes "pdb_audit E ds bs nodes ps = Some r" "\<forall>b \<in> set bs. 0 \<le> bu_allowed b"
  shows "bs_impossible (bz_summary r) = 0"
proof -
  obtain es where es: "map (pdb_entry_of E ds) bs = map Some es" "r = pdb_report E ds bs nodes ps es" by (rule audit_entries[OF assms(1)])
  have "bt_status e \<noteq> ''impossible''" if "e \<in> set es" for e
  proof -
    have "Some e \<in> set (map (pdb_entry_of E ds) bs)" using that by (simp add: es(1))
    then obtain b where "b \<in> set bs" "pdb_entry_of E ds b = Some e" by auto
    then show ?thesis using assms(2) pdb_entry_status(1) by blast
  qed
  then show ?thesis by (auto simp: es(2) pdb_report_def Let_def how_many_def filter_empty_conv)
qed

text \<open>The healthy pods are counted against the expected ones with the wrong sign: missing pods never raise the risk.\<close>

lemma missing_pods_unseen:
  assumes "pdb_entry_of E ds b = Some e" "0 \<le> bu_healthy b" "bu_healthy b \<le> bu_expected b" "bu_expected b < 2 ^ 31"
  shows "bt_risk e \<noteq> ''medium''"
proof -
  have "wrap32 (bu_healthy b - bu_expected b) \<le> 0" using assms(2-4) by (simp add: wrap32_def mod_pos_pos_trivial)
  then show ?thesis using pdb_entry_parts(1,3)[OF assms(1)] by (auto simp: classify_pdb_def split: if_splits)
qed

end
