(* ===== verification/Psa_Audit.thy ===== *)
theory Psa_Audit
  imports Analysis
begin

text \<open>
  The audit of Pod Security Admission (internal/dashboard/handlers_psa_audit.go): the level a namespace
  enforces, the violations of its pods, the risk, the score and the recommendations. A pod is
  what the audit reads of it, with its init containers, which it does not read. \<open>srt\<close> is \<open>sort.Slice\<close> with a
  comparison, of which only that it permutes is used: the comparison of namespaces is no strict order.
\<close>

section \<open>Levels\<close>

datatype psa_level = PSA_privileged | PSA_baseline | PSA_restricted | PSA_none

definition psa_text :: "psa_level \<Rightarrow> string" where
  "psa_text l = (case l of PSA_privileged \<Rightarrow> ''privileged'' | PSA_baseline \<Rightarrow> ''baseline'' | PSA_restricted \<Rightarrow> ''restricted''
     | PSA_none \<Rightarrow> ''none'')"

definition enforce_key :: string where "enforce_key = ''pod-security.kubernetes.io/enforce''"
definition audit_key :: string where "audit_key = ''pod-security.kubernetes.io/audit''"
definition warn_key :: string where "warn_key = ''pod-security.kubernetes.io/warn''"

definition get_psa_level :: "(string \<rightharpoonup> string) \<Rightarrow> string \<Rightarrow> psa_level" where
  "get_psa_level annotations key = (case annotations key of
     None \<Rightarrow> PSA_none
   | Some v \<Rightarrow> if v = ''privileged'' then PSA_privileged else if v = ''baseline'' then PSA_baseline
       else if v = ''restricted'' then PSA_restricted else PSA_none)"

section \<open>Pods\<close>

text \<open>\<open>sc_capabilities\<close> has the added and the dropped ones; of a seccomp profile only its presence is read.\<close>

record security_context =
  sc_privileged :: "bool option"
  sc_run_as_non_root :: "bool option"
  sc_run_as_user :: "int option"
  sc_allow_escalation :: "bool option"
  sc_capabilities :: "(string list \<times> string list) option"
  sc_seccomp :: "string option"

record psa_container =
  pk_name :: string
  pk_context :: "security_context option"
  pk_host_ports :: "int list"

record psa_pod =
  pp_namespace :: string
  pp_name :: string
  pp_phase :: string
  pp_host_network :: bool
  pp_host_pid :: bool
  pp_host_ipc :: bool
  pp_volumes :: "(string \<times> bool) list"
  pp_context :: "security_context option"
  pp_containers :: "psa_container list"
  pp_init_containers :: "psa_container list"

record psa_namespace =
  pn_name :: string
  pn_labels :: "string \<rightharpoonup> string"
  pn_annotations :: "string \<rightharpoonup> string"

section \<open>Violations\<close>

record violation_detail =
  vd_category :: string
  vd_container :: string
  vd_detail :: string
  vd_severity :: string

definition violates :: "string \<Rightarrow> string" where
  "violates policy = '' '' @ em_dash @ '' violates '' @ policy @ '' policy''"

definition violation :: "string \<Rightarrow> psa_container \<Rightarrow> string \<Rightarrow> string \<Rightarrow> violation_detail" where
  "violation category c detail severity = \<lparr>vd_category = category, vd_container = pk_name c, vd_detail = detail, vd_severity = severity\<rparr>"

definition dangerous_capabilities :: "string list" where
  "dangerous_capabilities = [''SYS_ADMIN'', ''SYS_MODULE'', ''SYS_PTRACE'', ''SYS_RAWIO'', ''SYS_BOOT'', ''SYS_TIME'', ''SYS_TTY_CONFIG'',
     ''NET_ADMIN'', ''NET_RAW'', ''DAC_READ_SEARCH'', ''LINUX_IMMUTABLE'', ''IPC_LOCK'', ''IPC_OWNER'', ''BLOCK_SUSPEND'', ''WAKE_ALARM'',
     ''AUDIT_CONTROL'', ''AUDIT_WRITE'', ''MAC_ADMIN'', ''MAC_OVERRIDE'', ''SETFCAP'', ''SETPCAP'', ''SETUID'', ''SETGID'']"

text \<open>With and without the prefix, in any case.\<close>

definition is_dangerous_capability :: "string \<Rightarrow> bool" where
  "is_dangerous_capability c \<longleftrightarrow> list_ex (\<lambda>d. equal_fold c (''CAP_'' @ d) \<or> equal_fold c d) dangerous_capabilities"

definition opt_field :: "('s \<Rightarrow> 'a option) \<Rightarrow> 's option \<Rightarrow> 'a option" where
  "opt_field f s = Option.bind s f"

definition added_of :: "psa_container \<Rightarrow> string list" where
  "added_of c = (case opt_field sc_capabilities (pk_context c) of Some (a, _) \<Rightarrow> a | None \<Rightarrow> [])"

definition dropped_of :: "psa_container \<Rightarrow> string list" where
  "dropped_of c = (case opt_field sc_capabilities (pk_context c) of Some (_, d) \<Rightarrow> d | None \<Rightarrow> [])"

definition baseline_violations :: "psa_level \<Rightarrow> psa_pod \<Rightarrow> psa_container \<Rightarrow> violation_detail list" where
  "baseline_violations l p c = (let policy = psa_text l; name = pk_name c in
     entry_if (opt_field sc_privileged (pk_context c) = Some True)
       (violation ''privileged'' c (''Container '' @ name @ '' is privileged'' @ violates policy) ''critical'') @
     entry_if (pp_host_network p) (violation ''host-network'' c (''Pod uses hostNetwork'' @ violates policy) ''critical'') @
     entry_if (pp_host_pid p) (violation ''host-pid'' c (''Pod uses hostPID'' @ violates policy) ''critical'') @
     entry_if (pp_host_ipc p) (violation ''host-ipc'' c (''Pod uses hostIPC'' @ violates policy) ''critical'') @
     map (\<lambda>(v, _). violation ''host-path'' c (''Volume '' @ v @ '' uses hostPath'' @ violates policy) ''high'')
       (take 1 (filter snd (pp_volumes p))) @
     map (\<lambda>k. violation ''dangerous-capability'' c (''Container '' @ name @ '' adds capability '' @ k @ violates policy) ''high'')
       (filter is_dangerous_capability (added_of c)) @
     map (\<lambda>k. violation ''host-port'' c (''Container '' @ name @ '' uses hostPort '' @ show_int k @ violates policy) ''medium'')
       (filter (\<lambda>k. k \<noteq> 0) (pk_host_ports c)))"

definition not_root :: "security_context option \<Rightarrow> bool" where
  "not_root s \<longleftrightarrow> opt_field sc_run_as_non_root s = Some True \<or> (case opt_field sc_run_as_user s of Some u \<Rightarrow> u \<noteq> 0 | None \<Rightarrow> False)"

definition restricted_violations :: "psa_pod \<Rightarrow> psa_container \<Rightarrow> violation_detail list" where
  "restricted_violations p c = (let name = ''Container '' @ pk_name c; policy = violates ''restricted'' in
     entry_if (\<not> not_root (pk_context c) \<and> \<not> not_root (pp_context p))
       (violation ''runs-as-root'' c (name @ '' may run as root'' @ policy) ''high'') @
     entry_if (opt_field sc_allow_escalation (pk_context c) \<noteq> Some False)
       (violation ''privilege-escalation'' c (name @ '' does not set allowPrivilegeEscalation=false'' @ policy) ''high'') @
     entry_if (\<not> list_ex (\<lambda>k. equal_fold k ''ALL'') (dropped_of c))
       (violation ''capabilities-not-dropped'' c (name @ '' does not drop ALL capabilities'' @ policy) ''medium'') @
     entry_if (opt_field sc_seccomp (pk_context c) = None \<and> opt_field sc_seccomp (pp_context p) = None)
       (violation ''missing-seccomp'' c (name @ '' missing seccompProfile'' @ policy) ''medium''))"

definition check_psa_violations :: "psa_pod \<Rightarrow> psa_level \<Rightarrow> violation_detail list" where
  "check_psa_violations p l = concat (map (\<lambda>c.
     (if l = PSA_baseline \<or> l = PSA_restricted then baseline_violations l p c else []) @
     (if l = PSA_restricted then restricted_violations p c else [])) (pp_containers p))"

section \<open>The audit\<close>

definition assess_psa_risk :: "psa_level \<Rightarrow> bool \<Rightarrow> nat \<Rightarrow> string" where
  "assess_psa_risk enforce is_system violating =
     (if is_system then (if 0 < violating then ''medium'' else ''low'')
      else (case enforce of
          PSA_restricted \<Rightarrow> if 0 < violating then ''medium'' else ''low''
        | PSA_baseline \<Rightarrow> if 3 < violating then ''high'' else if 0 < violating then ''medium'' else ''low''
        | PSA_privileged \<Rightarrow> ''high''
        | PSA_none \<Rightarrow> ''critical''))"

record namespace_audit =
  na_name :: string
  na_is_system :: bool
  na_enforce :: psa_level
  na_audit :: psa_level
  na_warn :: psa_level
  na_version :: string
  na_pods :: nat
  na_violating :: nat
  na_risk :: string

record psa_violation =
  pv_namespace :: string
  pv_pod :: string
  pv_level :: psa_level
  pv_what :: violation_detail

text \<open>The violations of the pods of a namespace that have not ended, pod by pod; one entry per violating pod.\<close>

definition running :: "psa_pod \<Rightarrow> bool" where
  "running p \<longleftrightarrow> pp_phase p \<noteq> ''Succeeded'' \<and> pp_phase p \<noteq> ''Failed''"

definition pods_of :: "psa_pod list \<Rightarrow> psa_namespace \<Rightarrow> psa_pod list" where
  "pods_of ps n = filter (\<lambda>p. pp_namespace p = pn_name n) ps"

definition violating_pods :: "psa_pod list \<Rightarrow> psa_namespace \<Rightarrow> (psa_pod \<times> violation_detail list) list" where
  "violating_pods ps n = (let l = get_psa_level (pn_annotations n) enforce_key in
     if l = PSA_baseline \<or> l = PSA_restricted
     then filter (\<lambda>(p, vs). vs \<noteq> []) (map (\<lambda>p. (p, check_psa_violations p l)) (filter running (pods_of ps n)))
     else [])"

definition audit_namespace :: "psa_pod list \<Rightarrow> psa_namespace \<Rightarrow> namespace_audit" where
  "audit_namespace ps n = (let enforce = get_psa_level (pn_annotations n) enforce_key;
       is_system = is_system_namespace (pn_name n); violating = length (violating_pods ps n) in
     \<lparr>na_name = pn_name n, na_is_system = is_system, na_enforce = enforce,
      na_audit = get_psa_level (pn_annotations n) audit_key, na_warn = get_psa_level (pn_annotations n) warn_key,
      na_version = (case pn_annotations n (enforce_key @ ''-version'') of Some v \<Rightarrow> v | None \<Rightarrow> []),
      na_pods = length (pods_of ps n), na_violating = violating, na_risk = assess_psa_risk enforce is_system violating\<rparr>)"

definition namespace_violations :: "psa_pod list \<Rightarrow> psa_namespace \<Rightarrow> psa_violation list" where
  "namespace_violations ps n = concat (map (\<lambda>(p, vs). map (\<lambda>v. \<lparr>pv_namespace = pn_name n, pv_pod = pp_name p,
     pv_level = get_psa_level (pn_annotations n) enforce_key, pv_what = v\<rparr>) vs) (violating_pods ps n))"

record psa_summary =
  zs_total :: nat
  zs_user :: nat
  zs_enforced :: nat
  zs_not_enforced :: nat
  zs_baseline :: nat
  zs_restricted :: nat
  zs_privileged :: nat
  zs_audit :: nat
  zs_warn :: nat
  zs_violations :: nat
  zs_score :: int

text \<open>The summary before the score is set.\<close>

definition psa_counts :: "namespace_audit list \<Rightarrow> psa_summary" where
  "psa_counts as =
     \<lparr>zs_total = length as, zs_user = how_many (\<lambda>a. \<not> na_is_system a) as,
      zs_enforced = how_many (\<lambda>a. na_enforce a \<noteq> PSA_none) as, zs_not_enforced = how_many (\<lambda>a. na_enforce a = PSA_none) as,
      zs_baseline = how_many (\<lambda>a. na_enforce a = PSA_baseline) as, zs_restricted = how_many (\<lambda>a. na_enforce a = PSA_restricted) as,
      zs_privileged = how_many (\<lambda>a. na_enforce a = PSA_privileged \<or> na_enforce a = PSA_none) as,
      zs_audit = how_many (\<lambda>a. na_audit a \<noteq> PSA_none) as, zs_warn = how_many (\<lambda>a. na_warn a \<noteq> PSA_none) as,
      zs_violations = sum_list (map na_violating as), zs_score = 0\<rparr>"

definition psa_score :: "psa_summary \<Rightarrow> int" where
  "psa_score s = (if zs_user s = 0 then 100 else
     let t = zs_total s;
         score = ratio_points (zs_enforced s) t 40 + ratio_points (zs_restricted s) t 25 + ratio_points (zs_baseline s) t 10 +
           ratio_points (zs_audit s) t 10 + ratio_points (zs_warn s) t 5 -
           (if 0 < zs_violations s then min 10 (int (zs_violations s)) else 0) - ratio_points (zs_privileged s) t 10
     in if score < 0 then 0 else if 100 < score then 100 else score)"

definition psa_recommendations :: "psa_summary \<Rightarrow> string list" where
  "psa_recommendations s = (let recs =
     entry_if (0 < zs_not_enforced s) (show_nat (zs_not_enforced s) @ '' namespace(s) have no PSA enforcement '' @ em_dash @
       '' add pod-security.kubernetes.io/enforce=baseline label'') @
     entry_if (0 < zs_privileged s \<and> zs_restricted s = 0) (''No namespaces enforce restricted policy '' @ em_dash @
       '' consider enforcing restricted for production namespaces'') @
     entry_if (zs_audit s < zs_enforced s) ''Enable audit mode alongside enforcement for monitoring PSA violations before they're blocked'' @
     entry_if (0 < zs_violations s) (show_nat (zs_violations s) @ '' pod(s) violate their namespace PSA policy '' @ em_dash @
       '' fix security contexts or adjust enforcement level'') @
     entry_if (0 < zs_restricted s \<and> zs_restricted s < zs_user s) (''Some user namespaces enforce restricted but not all '' @ em_dash @
       '' ensure consistent enforcement across similar workloads'')
   in if recs = [] then [''PSA enforcement is well configured '' @ em_dash @ '' all user namespaces have appropriate enforcement levels''] else recs)"

record psa_result =
  zr_summary :: psa_summary
  zr_namespaces :: "namespace_audit list"
  zr_violations :: "psa_violation list"
  zr_recommendations :: "string list"

definition severity_rank :: "string \<Rightarrow> nat" where
  "severity_rank s = (if s = ''high'' then 1 else if s = ''medium'' then 2 else if s = ''low'' then 3 else 0)"

definition namespace_before :: "namespace_audit \<Rightarrow> namespace_audit \<Rightarrow> bool" where
  "namespace_before a b \<longleftrightarrow>
     (if na_is_system a \<noteq> na_is_system b then \<not> na_is_system a
      else if na_enforce a \<noteq> na_enforce b then na_enforce a = PSA_none
      else na_violating b < na_violating a)"

definition violation_before :: "psa_violation \<Rightarrow> psa_violation \<Rightarrow> bool" where
  "violation_before a b \<longleftrightarrow> severity_rank (vd_severity (pv_what a)) < severity_rank (vd_severity (pv_what b))"

record psa_sorts =
  so_namespaces :: "(namespace_audit \<Rightarrow> namespace_audit \<Rightarrow> bool) \<Rightarrow> namespace_audit list \<Rightarrow> namespace_audit list"
  so_violations :: "(psa_violation \<Rightarrow> psa_violation \<Rightarrow> bool) \<Rightarrow> psa_violation list \<Rightarrow> psa_violation list"

definition psa_audit :: "psa_sorts \<Rightarrow> psa_namespace list \<Rightarrow> psa_pod list \<Rightarrow> psa_result" where
  "psa_audit srt ns ps = (let as = map (audit_namespace ps) ns; s = psa_counts as; s1 = s\<lparr>zs_score := psa_score s\<rparr> in
     \<lparr>zr_summary = s1, zr_namespaces = so_namespaces srt namespace_before as,
      zr_violations = take 50 (so_violations srt violation_before (concat (map (namespace_violations ps) ns))),
      zr_recommendations = psa_recommendations s1\<rparr>)"

record 'd psa_client =
  zc_namespaces :: "'d \<Rightarrow> string + psa_namespace list"
  zc_pods :: "'d \<Rightarrow> string + psa_pod list"

text \<open>\<open>Inr\<close> is the result that is written as JSON.\<close>

definition handle_psa_audit :: "psa_sorts \<Rightarrow> 'd psa_client option \<Rightarrow> 'd \<Rightarrow> http_resp + psa_result" where
  "handle_psa_audit srt client d = (case client of
     None \<Rightarrow> Inl (write_error 503 ''kubernetes client not available'')
   | Some C \<Rightarrow> (case zc_namespaces C d of
       Inl e \<Rightarrow> Inl (write_k8s_error (Some e))
     | Inr ns \<Rightarrow> (case zc_pods C d of
         Inl e \<Rightarrow> Inl (write_k8s_error (Some e))
       | Inr ps \<Rightarrow> Inr (psa_audit srt ns ps))))"

section \<open>Lemmas\<close>

text \<open>What a container has to be like under the two levels, without the messages.\<close>

definition baseline_ok :: "psa_pod \<Rightarrow> psa_container \<Rightarrow> bool" where
  "baseline_ok p c \<longleftrightarrow> opt_field sc_privileged (pk_context c) \<noteq> Some True \<and>
     \<not> pp_host_network p \<and> \<not> pp_host_pid p \<and> \<not> pp_host_ipc p \<and> (\<forall>(v, host) \<in> set (pp_volumes p). \<not> host) \<and>
     (\<forall>k \<in> set (added_of c). \<not> is_dangerous_capability k) \<and> (\<forall>k \<in> set (pk_host_ports c). k = 0)"

definition restricted_ok :: "psa_pod \<Rightarrow> psa_container \<Rightarrow> bool" where
  "restricted_ok p c \<longleftrightarrow> (not_root (pk_context c) \<or> not_root (pp_context p)) \<and>
     opt_field sc_allow_escalation (pk_context c) = Some False \<and> (\<exists>k \<in> set (dropped_of c). equal_fold k ''ALL'') \<and>
     (opt_field sc_seccomp (pk_context c) \<noteq> None \<or> opt_field sc_seccomp (pp_context p) \<noteq> None)"

lemma take_1_filter: "take 1 (filter P xs) = [] \<longleftrightarrow> (\<forall>x \<in> set xs. \<not> P x)"
  by (auto simp: filter_empty_conv)

lemma baseline_violations_Nil: "baseline_violations l p c = [] \<longleftrightarrow> baseline_ok p c"
  by (auto simp: baseline_violations_def baseline_ok_def Let_def filter_empty_conv take_1_filter)

lemma restricted_violations_Nil: "restricted_violations p c = [] \<longleftrightarrow> restricted_ok p c"
  by (auto simp: restricted_violations_def restricted_ok_def Let_def list_ex_iff)

lemma check_psa_violations_Nil:
  "check_psa_violations p l = [] \<longleftrightarrow> (\<forall>c \<in> set (pp_containers p).
     (l \<in> {PSA_baseline, PSA_restricted} \<longrightarrow> baseline_ok p c) \<and> (l = PSA_restricted \<longrightarrow> restricted_ok p c))"
  by (auto simp: check_psa_violations_def baseline_violations_Nil restricted_violations_Nil)

text \<open>The init containers play no part.\<close>

lemma init_containers_unread: "check_psa_violations (p\<lparr>pp_init_containers := cs\<rparr>) l = check_psa_violations p l"
proof -
  have b: "baseline_violations l (p\<lparr>pp_init_containers := cs\<rparr>) c = baseline_violations l p c" for c
    by (simp add: baseline_violations_def)
  have r: "restricted_violations (p\<lparr>pp_init_containers := cs\<rparr>) c = restricted_violations p c" for c
    by (simp add: restricted_violations_def)
  show ?thesis unfolding check_psa_violations_def b r by simp
qed

text \<open>A namespace whose annotations say nothing.\<close>

lemma audit_unset:
  assumes "pn_annotations n = Map.empty"
  shows "na_enforce (audit_namespace ps n) = PSA_none" "na_audit (audit_namespace ps n) = PSA_none"
    "na_warn (audit_namespace ps n) = PSA_none" "na_violating (audit_namespace ps n) = 0" "namespace_violations ps n = []"
    "\<not> is_system_namespace (pn_name n) \<Longrightarrow> na_risk (audit_namespace ps n) = ''critical''"
  using assms by (simp_all add: audit_namespace_def Let_def get_psa_level_def violating_pods_def namespace_violations_def
      assess_psa_risk_def)

lemma audit_namespace_simps [simp]:
  "na_name (audit_namespace ps n) = pn_name n" "na_is_system (audit_namespace ps n) = is_system_namespace (pn_name n)"
  by (simp_all add: audit_namespace_def Let_def)

text \<open>Counting the namespaces.\<close>

lemma psa_counts_bounds:
  "zs_enforced (psa_counts as) \<le> zs_total (psa_counts as)" "zs_privileged (psa_counts as) \<le> zs_total (psa_counts as)"
  "zs_audit (psa_counts as) \<le> zs_total (psa_counts as)" "zs_warn (psa_counts as) \<le> zs_total (psa_counts as)"
  "zs_restricted (psa_counts as) + zs_baseline (psa_counts as) \<le> zs_total (psa_counts as)" "zs_total (psa_counts as) = length as"
  by (simp_all add: psa_counts_def how_many_le how_many_disjoint)

text \<open>The points for restricted and for baseline namespaces together are at most those for restricted ones alone.\<close>

lemma restricted_baseline_points:
  assumes "r + b \<le> t" "0 < t" "t \<le> 2 ^ 30"
  shows "ratio_points r t 25 + ratio_points b t 10 \<le> 25"
proof -
  let ?e = "(1 + 1 / 2 ^ 53) ^ 2 :: rat"
  have "of_int (ratio_points r t 25) \<le> (of_nat r / of_nat t * 25 * ?e :: rat)"
    using ratio_points_bounds(3)[of r t 25] assms by simp
  moreover have "of_int (ratio_points b t 10) \<le> (of_nat b / of_nat t * 10 * ?e :: rat)"
    using ratio_points_bounds(3)[of b t 10] assms by simp
  moreover have "of_nat b / of_nat t * 10 * ?e \<le> (of_nat b / of_nat t * 25 * ?e :: rat)"
    by (intro mult_right_mono mult_left_mono) auto
  ultimately have "of_int (ratio_points r t 25 + ratio_points b t 10) \<le> (of_nat r / of_nat t + of_nat b / of_nat t) * 25 * ?e"
    by (simp add: distrib_right)
  also have "\<dots> \<le> 1 * 25 * ?e"
  proof (intro mult_right_mono)
    have "(of_nat r + of_nat b :: rat) \<le> of_nat t" using assms(1) by (metis of_nat_add of_nat_le_iff)
    then show "of_nat r / of_nat t + of_nat b / of_nat t \<le> (1 :: rat)" using assms(2) by (simp add: add_divide_distrib[symmetric])
  qed auto
  also have "\<dots> < 26" by (simp add: power2_eq_square field_simps)
  finally show ?thesis by linarith
qed

section \<open>Properties\<close>

text \<open>No cluster gets more than 80 of the 100 points of the score, whatever its namespaces and pods, unless all
  namespaces are system ones; the score is never negative, and 80 are reached by one that enforces,
  audits and warns with the restricted level.\<close>

theorem psa_score_bounds:
  assumes "\<exists>n \<in> set ns. \<not> is_system_namespace (pn_name n)" "length ns \<le> 2 ^ 30"
  shows "0 \<le> zs_score (zr_summary (psa_audit srt ns ps)) \<and> zs_score (zr_summary (psa_audit srt ns ps)) \<le> 80"
proof -
  let ?as = "map (audit_namespace ps) ns" and ?s = "psa_counts (map (audit_namespace ps) ns)"
  let ?t = "zs_total ?s"
  have u: "zs_user ?s \<noteq> 0" using assms(1) by (auto simp: psa_counts_def how_many_def filter_empty_conv)
  have t: "0 < ?t" "?t \<le> 2 ^ 30" using assms by (auto simp: psa_counts_bounds(6))
  note c = psa_counts_bounds[of ?as]
  have "ratio_points (zs_enforced ?s) ?t 40 \<le> 40" "ratio_points (zs_audit ?s) ?t 10 \<le> 10" "ratio_points (zs_warn ?s) ?t 5 \<le> 5"
    "0 \<le> ratio_points (zs_privileged ?s) ?t 10"
    using ratio_points_bounds[OF _ t] c by simp_all
  moreover have "ratio_points (zs_restricted ?s) ?t 25 + ratio_points (zs_baseline ?s) ?t 10 \<le> 25"
    using restricted_baseline_points[OF c(5) t] .
  ultimately have "0 \<le> psa_score ?s \<and> psa_score ?s \<le> 80" using u unfolding psa_score_def by (auto simp: Let_def)
  then show ?thesis by (simp add: psa_audit_def Let_def)
qed

text \<open>The levels of Pod Security Admission are labels of a namespace, but the audit reads annotations: whatever the
  labels say and whatever pods there are, without annotations every namespace of users counts as one without enforcement and
  as critical, no violation is found and the score is 0.\<close>

theorem psa_labels_unread:
  assumes "permuting (so_violations srt)" "permuting (so_namespaces srt)"
    and "\<forall>n \<in> set ns. pn_annotations n = Map.empty" "\<exists>n \<in> set ns. \<not> is_system_namespace (pn_name n)" "length ns \<le> 2 ^ 30"
  shows "zr_violations (psa_audit srt ns ps) = [] \<and> zs_enforced (zr_summary (psa_audit srt ns ps)) = 0 \<and>
    zs_score (zr_summary (psa_audit srt ns ps)) = 0 \<and>
    list_all (\<lambda>a. na_is_system a \<or> na_risk a = ''critical'') (zr_namespaces (psa_audit srt ns ps))"
proof -
  let ?as = "map (audit_namespace ps) ns"
  let ?s = "psa_counts ?as"
  have un: "na_enforce a = PSA_none" "na_audit a = PSA_none" "na_warn a = PSA_none" "na_violating a = 0"
      "na_is_system a \<or> na_risk a = ''critical''" if "a \<in> set ?as" for a
    using that assms(3) audit_unset[of _ ps] audit_namespace_simps by fastforce+
  have "how_many (\<lambda>a. na_enforce a = l) ?as = 0" if "l \<noteq> PSA_none" for l using that un by (auto simp: how_many_def filter_empty_conv)
  moreover have "how_many (\<lambda>a. na_enforce a \<noteq> PSA_none) ?as = 0" "how_many (\<lambda>a. na_audit a \<noteq> PSA_none) ?as = 0"
    "how_many (\<lambda>a. na_warn a \<noteq> PSA_none) ?as = 0" using un by (auto simp: how_many_def filter_empty_conv)
  moreover have "sum_list (map na_violating ?as) = 0" using un(4) by (simp add: sum_list_eq_0_iff)
  ultimately have z: "zs_enforced ?s = 0" "zs_restricted ?s = 0" "zs_baseline ?s = 0" "zs_audit ?s = 0" "zs_warn ?s = 0" "zs_violations ?s = 0"
    by (simp_all add: psa_counts_def)
  have t: "0 < zs_total ?s" "zs_total ?s \<le> 2 ^ 30" using assms(4,5) by (auto simp: psa_counts_bounds(6))
  have "0 \<le> ratio_points (zs_privileged ?s) (zs_total ?s) 10" using ratio_points_bounds(1)[OF psa_counts_bounds(2) t] by simp
  moreover have "zs_user ?s \<noteq> 0" using assms(4) by (auto simp: psa_counts_def how_many_def filter_empty_conv)
  ultimately have "psa_score ?s = 0" by (simp add: psa_score_def z ratio_points_none Let_def)
  moreover have v: "concat (map (namespace_violations ps) ns) = []" using assms(3) by (simp add: audit_unset(5))
  moreover have "set (so_namespaces srt namespace_before ?as) = set ?as" using permuting_set[OF assms(2)] .
  ultimately show ?thesis using permuting_Nil[OF assms(1)] un(5) z(1) unfolding psa_audit_def Let_def v by (simp add: list_all_iff)
qed

definition demo_sorts :: psa_sorts where
  "demo_sorts = \<lparr>so_namespaces = (\<lambda>before xs. xs), so_violations = (\<lambda>before xs. xs)\<rparr>"

definition demo_privileged :: psa_pod where
  "demo_privileged = \<lparr>pp_namespace = ''shop'', pp_name = ''root'', pp_phase = ''Running'', pp_host_network = True, pp_host_pid = True,
     pp_host_ipc = True, pp_volumes = [(''etc'', True)], pp_context = None,
     pp_containers = [\<lparr>pk_name = ''sh'', pk_context = Some \<lparr>sc_privileged = Some True, sc_run_as_non_root = None, sc_run_as_user = Some 0,
       sc_allow_escalation = None, sc_capabilities = Some ([''SYS_ADMIN''], []), sc_seccomp = None\<rparr>, pk_host_ports = [22]\<rparr>],
     pp_init_containers = []\<rparr>"

definition demo_restricted :: psa_namespace where
  "demo_restricted = \<lparr>pn_name = ''shop'', pn_labels = [enforce_key \<mapsto> ''restricted''], pn_annotations = Map.empty\<rparr>"

definition demo_annotated :: psa_namespace where
  "demo_annotated = demo_restricted\<lparr>pn_annotations := [enforce_key \<mapsto> ''restricted'', audit_key \<mapsto> ''restricted'', warn_key \<mapsto> ''restricted'']\<rparr>"

theorem psa_score_bounds_witness:
  "zs_score (zr_summary (psa_audit demo_sorts [demo_annotated] [])) \<le> 80 \<and>
   zs_score (zr_summary (psa_audit demo_sorts [demo_annotated] [])) = 80"
proof -
  have "\<exists>n \<in> set [demo_annotated]. \<not> is_system_namespace (pn_name n)"
    by (simp add: demo_annotated_def demo_restricted_def is_system_namespace_def)
  then have "zs_score (zr_summary (psa_audit demo_sorts [demo_annotated] [])) \<le> 80"
    using psa_score_bounds[of "[demo_annotated]" demo_sorts "[]"] by simp
  moreover have "zs_score (zr_summary (psa_audit demo_sorts [demo_annotated] [])) = 80" by code_simp
  ultimately show ?thesis by simp
qed

theorem psa_labels_unread_witness:
  "zr_violations (psa_audit demo_sorts [demo_restricted] [demo_privileged]) = [] \<and>
   zs_score (zr_summary (psa_audit demo_sorts [demo_restricted] [demo_privileged])) = 0 \<and>
   length (zr_violations (psa_audit demo_sorts [demo_annotated] [demo_privileged])) = 11"
proof -
  have "permuting (so_violations demo_sorts)" "permuting (so_namespaces demo_sorts)" by (simp_all add: demo_sorts_def)
  moreover have "\<forall>n \<in> set [demo_restricted]. pn_annotations n = Map.empty" "\<exists>n \<in> set [demo_restricted]. \<not> is_system_namespace (pn_name n)"
    by (simp_all add: demo_restricted_def is_system_namespace_def)
  ultimately have "zr_violations (psa_audit demo_sorts [demo_restricted] [demo_privileged]) = [] \<and>
      zs_score (zr_summary (psa_audit demo_sorts [demo_restricted] [demo_privileged])) = 0"
    using psa_labels_unread[of demo_sorts "[demo_restricted]" "[demo_privileged]"] by simp
  moreover have "length (zr_violations (psa_audit demo_sorts [demo_annotated] [demo_privileged])) = 11" by code_simp
  ultimately show ?thesis by blast
qed

end
