(* ===== verification/Quick_Exec.thy ===== *)
theory Quick_Exec
  imports Auth_Middleware Audit_Log Json
begin

text \<open>
  The endpoint that runs kubectl for the dashboard (handleQuickExec of internal/dashboard/
  middleware.go): the checks a command has to pass, in their order, and the process it becomes. The
  program that runs a command is a parameter that answers with its output, its error output and its
  error.
\<close>

section \<open>The checks\<close>

definition backslash :: char where "backslash = CHR 0x5C"

definition dangerous_patterns :: "string list" where
  "dangerous_patterns = [''|'', ''>'', ''<'', [CHR 0x60], ''$('', ''${'', '';'', ''&&'', ''||'',
     ''&'', [CHR 0x0A], [CHR 0x0D], [backslash, CHR ''x''], [backslash, CHR ''u''], [backslash, CHR ''0'']]"

definition allowed_prefixes :: "string list" where
  "allowed_prefixes = [''kubectl get '', ''kubectl describe '', ''kubectl explain '']"

definition sensitive_resources :: "string list" where
  "sensitive_resources = ['' secrets'', '' secret '', '' configmaps'', '' configmap '',
     '' serviceaccounts'', '' pods/exec'', '' token'', '' rolebinding'']"

text \<open>The status code and the message of the first check that fails.\<close>

definition refuse_command :: "string \<Rightarrow> (int \<times> string) option" where
  "refuse_command cmd =
     (if 500 < length cmd then Some (400, ''command too long (max 500 chars)'')
      else if cmd = [] then Some (400, ''command is required'')
      else if \<not> has_prefix cmd ''kubectl '' then Some (403, ''only kubectl commands are allowed'')
      else (case List.find (\<lambda>p. contains cmd p) dangerous_patterns of
          Some p \<Rightarrow> Some (403, ''command contains forbidden character: '' @ p)
        | None \<Rightarrow>
            if \<not> list_ex (\<lambda>a. has_prefix cmd a) allowed_prefixes
            then Some (403, ''only read-only kubectl commands (get, describe, explain) are allowed'')
            else if list_ex (\<lambda>res. contains (to_lower cmd) res) sensitive_resources
            then Some (403, ''access to sensitive resources is blocked'')
            else None))"

section \<open>The process\<close>

definition host_argv :: "string list \<Rightarrow> string list" where
  "host_argv parts = [''nsenter'', ''-t'', ''1'', ''-m'', ''-u'', ''-i'', ''-n'', ''--''] @ parts"

record process_result =
  pr_stdout :: string
  pr_stderr :: string
  pr_error :: "string option"

type_synonym 'd runner = "string list \<Rightarrow> 'd \<Rightarrow> process_result \<times> 'd"

definition decode_command :: "any \<Rightarrow> string option" where
  "decode_command x = into_struct (\<lambda>ms r. into_member into_string ''command'' ms []) x []"

definition exec_event :: "string \<Rightarrow> string \<Rightarrow> audit_event" where
  "exec_event ts cmd = \<lparr>aev_id = [], aev_timestamp = ts, aev_type = [], aev_severity = ''info'', aev_actor = [],
     aev_action = ''exec.kubectl'', aev_target = cmd, aev_namespace = [], aev_success = True,
     aev_detail = [''verb'' \<mapsto> AString ''read-only''], aev_duration = [], aev_error = [], aev_source = []\<rparr>"

text \<open>The answer to a command that ran, and the event that is logged with the time stamp \<open>ts\<close>.\<close>

definition exec_answer :: "string \<Rightarrow> string \<Rightarrow> process_result \<Rightarrow> http_resp \<times> audit_event option" where
  "exec_answer ts cmd r = (case pr_error r of
     Some e \<Rightarrow> (respond 200 (AObject [(''output'', AString (pr_stdout r)), (''error'', AString (e @ '': '' @ pr_stderr r))]), None)
   | None \<Rightarrow> (respond 200 (AObject [(''output'', AString (pr_stdout r))]), Some (exec_event ts cmd)))"

text \<open>The handler. The user of the request is not looked at.\<close>

definition handle_quick_exec :: "'d runner \<Rightarrow> string \<Rightarrow> user option \<Rightarrow> http_req \<Rightarrow> 'd \<Rightarrow>
    (http_resp \<times> audit_event option) \<times> 'd" where
  "handle_quick_exec run ts user rq d =
     (if rq_method rq \<noteq> ''POST'' then ((write_error 405 ''method not allowed'', None), d)
      else (case Option.bind (rq_json rq) decode_command of
          None \<Rightarrow> ((write_error 400 ''invalid request body'', None), d)
        | Some raw \<Rightarrow> (let cmd = trim_space raw in case refuse_command cmd of
              Some (code, msg) \<Rightarrow> ((write_error code msg, None), d)
            | None \<Rightarrow> (case run (host_argv (fields_of cmd)) d of (r, d1) \<Rightarrow> (exec_answer ts cmd r, d1)))))"

section \<open>Lemmas\<close>

lemma contains_absent: "c \<notin> set s \<Longrightarrow> \<not> contains s (c # p)"
  by (induction s) auto

lemma contains_skip: "c \<notin> set xs \<Longrightarrow> contains (xs @ ys) (c # p) = contains ys (c # p)"
  by (induction xs) auto

lemma fields_from_word:
  "list_all (\<lambda>c. \<not> is_space c) xs \<Longrightarrow> fields_from w (xs @ s) = fields_from (w @ xs) s"
  by (induction xs arbitrary: w) auto

lemma fields_of_word:
  assumes "list_all (\<lambda>c. \<not> is_space c) xs" "xs \<noteq> []"
  shows "fields_of xs = [xs]" "is_space c \<Longrightarrow> fields_of (xs @ c # s) = xs # fields_of s"
  using fields_from_word[OF assms(1), of "[]" "[]"] fields_from_word[OF assms(1), of "[]" "c # s"] assms(2)
  by (simp_all add: fields_of_def)

lemma fields_from_sublist: "x \<in> set (fields_from w s) \<Longrightarrow> sublist x (w @ s)"
proof (induction w s rule: fields_from.induct)
  case (2 w c s)
  show ?case
  proof (cases "is_space c")
    case True
    with 2 have "x = w \<or> sublist x s" by (auto split: if_splits)
    then show ?thesis
    proof
      assume "sublist x s"
      then obtain ps ss where "s = ps @ x @ ss" by (auto simp: sublist_def)
      then have "w @ c # s = (w @ c # ps) @ x @ ss" by simp
      then show ?thesis by (metis sublist_appendI)
    qed simp
  next
    case False
    with 2 show ?thesis by simp
  qed
qed (auto split: if_splits)

lemma fields_of_sublist: "x \<in> set (fields_of s) \<Longrightarrow> sublist x s"
  using fields_from_sublist[of x "[]" s] by (simp add: fields_of_def)

lemma refuse_command_None:
  assumes "refuse_command cmd = None"
  shows "length cmd \<le> 500" "\<forall>p \<in> set dangerous_patterns. \<not> contains cmd p" "\<exists>a \<in> set allowed_prefixes. has_prefix cmd a"
  using assms by (auto simp: refuse_command_def list_ex_iff find_None_iff split: if_splits option.splits)

section \<open>Properties\<close>

text \<open>C13. The only process the endpoint starts: when a request changes anything or is logged, the host ran
  kubectl with get, describe or explain, and no argument holds a shell metacharacter; the command is
  at most 500 bytes long and is what the log entry names, without an actor.\<close>

theorem quick_exec_runs:
  assumes "handle_quick_exec run ts user rq d = ((resp, ev), d1)" "d1 \<noteq> d \<or> ev \<noteq> None"
  shows "\<exists>verb args cmd. verb \<in> {''get'', ''describe'', ''explain''} \<and> length cmd \<le> 500 \<and>
    d1 = snd (run (host_argv (''kubectl'' # verb # args)) d) \<and>
    (\<forall>x \<in> set args. \<forall>p \<in> set dangerous_patterns. \<not> contains x p) \<and>
    (ev = None \<or> ev = Some (exec_event ts cmd))"
proof -
  obtain cmd where ok: "refuse_command cmd = None" and d1: "d1 = snd (run (host_argv (fields_of cmd)) d)"
    and ev: "ev = None \<or> ev = Some (exec_event ts cmd)"
    using assms by (auto simp: handle_quick_exec_def Let_def exec_answer_def split: if_splits option.splits prod.splits)
  obtain a rest where a: "a \<in> set allowed_prefixes" "cmd = a @ rest"
    using refuse_command_None(3)[OF ok] by (auto simp: has_prefix_def prefix_def)
  have word: "fields_of (''kubectl '' @ verb @ '' '' @ rest) = ''kubectl'' # verb # fields_of rest"
    if "verb \<in> {''get'', ''describe'', ''explain''}" for verb
    using that fields_of_word(2)[of "''kubectl''" "CHR '' ''" "verb @ '' '' @ rest"] fields_of_word(2)[of verb "CHR '' ''" rest]
    by (auto simp: is_space_def)
  have "\<exists>verb \<in> {''get'', ''describe'', ''explain''}. a = ''kubectl '' @ verb @ '' ''"
    using a(1) by (auto simp: allowed_prefixes_def)
  then obtain verb where v: "verb \<in> {''get'', ''describe'', ''explain''}" "cmd = ''kubectl '' @ verb @ '' '' @ rest"
    unfolding a(2) by (auto simp del: append_Cons)
  note verb = v(1) word[OF v(1), folded v(2)]
  have "\<not> contains x p" if "x \<in> set (fields_of rest)" "p \<in> set dangerous_patterns" for x p
    using that fields_of_sublist[of x cmd] verb(2) refuse_command_None(2)[OF ok]
    by (auto simp: contains_iff_sublist intro: sublist_order.order.trans)
  with verb d1 ev refuse_command_None(1)[OF ok] show ?thesis by metis
qed

definition demo_post :: "string \<Rightarrow> http_req" where
  "demo_post cmd = \<lparr>rq_method = ''POST'', rq_path = ''/api/exec'', rq_query = (\<lambda>k. []), rq_header = (\<lambda>n. []),
     rq_cookie = (\<lambda>n. None), rq_json = Some (AObject [(''command'', AString cmd)]), rq_raw_query = [], rq_remote_addr = []\<rparr>"

definition demo_runner :: "string list list runner" where
  "demo_runner argv d = (\<lparr>pr_stdout = ''ok'', pr_stderr = [], pr_error = None\<rparr>, argv # d)"

lemma decode_command_post: "Option.bind (rq_json (demo_post cmd)) decode_command = Some cmd"
  by (simp add: demo_post_def decode_command_def member_name_simps)

theorem quick_exec_runs_witness:
  "\<exists>verb args. verb \<in> {''get'', ''describe'', ''explain''} \<and>
     snd (handle_quick_exec demo_runner [] None (demo_post ''kubectl get pods'') []) = [host_argv (''kubectl'' # verb # args)]"
proof -
  have "refuse_command ''kubectl get pods'' = None" "trim_space ''kubectl get pods'' = ''kubectl get pods''" by code_simp+
  then have run: "handle_quick_exec demo_runner [] None (demo_post ''kubectl get pods'') [] =
      ((respond 200 (AObject [(''output'', AString ''ok'')]), Some (exec_event [] ''kubectl get pods'')),
       [host_argv (fields_of ''kubectl get pods'')])"
    unfolding handle_quick_exec_def decode_command_post by (simp add: demo_post_def demo_runner_def exec_answer_def Let_def)
  from quick_exec_runs[OF run] obtain verb args where "verb \<in> {''get'', ''describe'', ''explain''}"
    "[host_argv (fields_of ''kubectl get pods'')] = snd (demo_runner (host_argv (''kubectl'' # verb # args)) [])"
    by auto
  then show ?thesis unfolding run by (auto simp: demo_runner_def)
qed

text \<open>Names as Kubernetes has them.\<close>

definition plain_name :: "string \<Rightarrow> bool" where
  "plain_name s \<longleftrightarrow> list_all (\<lambda>c. (of_char c :: nat) \<in> {45, 46} \<union> {48..57} \<union> {97..122}) s"

lemma plain_name_chars:
  assumes "plain_name s"
  shows "c \<in> set s \<Longrightarrow> \<not> is_space c" "to_lower s = s" "(of_char c :: nat) \<notin> {45, 46} \<union> {48..57} \<union> {97..122} \<Longrightarrow> c \<notin> set s"
proof -
  show "c \<in> set s \<Longrightarrow> \<not> is_space c"
    using assms by (auto simp: plain_name_def list_all_iff is_space_def)
  have "lower_char x = x" if "x \<in> set s" for x
    using assms that by (auto simp: plain_name_def list_all_iff lower_char_def)
  then show "to_lower s = s" by (simp add: to_lower_def map_idI)
  show "(of_char c :: nat) \<notin> {45, 46} \<union> {48..57} \<union> {97..122} \<Longrightarrow> c \<notin> set s"
    using assms by (auto simp: plain_name_def list_all_iff)
qed

definition read_secret :: "string \<Rightarrow> string \<Rightarrow> string" where
  "read_secret name ns = ''kubectl get secret/'' @ name @ '' --namespace='' @ ns @ '' -oyaml''"

lemma read_secret_passes:
  assumes "plain_name name" "plain_name ns" "length name + length ns \<le> 400"
  shows "refuse_command (read_secret name ns) = None" "trim_space (read_secret name ns) = read_secret name ns"
    "fields_of (read_secret name ns) = [''kubectl'', ''get'', ''secret/'' @ name, ''--namespace='' @ ns, ''-oyaml'']"
proof -
  have sp: "CHR '' '' \<notin> set name" "CHR '' '' \<notin> set ns"
    using plain_name_chars(3) assms(1,2) by simp_all
  have absent: "c \<notin> set (read_secret name ns)"
    if "(of_char c :: nat) \<notin> {45, 46} \<union> {48..57} \<union> {97..122}" "c \<notin> set ''kubectl get secret/ --namespace= -oyaml''" for c
    using plain_name_chars(3)[OF assms(1) that(1)] plain_name_chars(3)[OF assms(2) that(1)] that(2)
    by (simp add: read_secret_def)
  have d: "\<not> contains (read_secret name ns) p" if "p \<in> set dangerous_patterns" for p
    using that absent[THEN contains_absent] by (auto simp: dangerous_patterns_def backslash_def)
  have low: "to_lower (read_secret name ns) = read_secret name ns"
    using plain_name_chars(2)[OF assms(1)] plain_name_chars(2)[OF assms(2)]
    by (simp add: read_secret_def to_lower_def lower_char_def)
  have s: "\<not> contains (read_secret name ns) p" if "p \<in> set sensitive_resources" for p
    using that contains_skip[OF sp(1)] contains_skip[OF sp(2)]
    by (auto simp: sensitive_resources_def read_secret_def)
  show "refuse_command (read_secret name ns) = None"
    using d s low assms(3)
    by (auto simp: refuse_command_def list_ex_iff find_None_iff allowed_prefixes_def has_prefix_def read_secret_def
        split: option.split)
  show "trim_space (read_secret name ns) = read_secret name ns"
    by (simp add: trim_space_def read_secret_def is_space_def)
  have nosp: "list_all (\<lambda>c. \<not> is_space c) (''secret/'' @ name)" "list_all (\<lambda>c. \<not> is_space c) (''--namespace='' @ ns)"
    using plain_name_chars(1)[OF assms(1)] plain_name_chars(1)[OF assms(2)] by (auto simp: list_all_iff is_space_def)
  show "fields_of (read_secret name ns) = [''kubectl'', ''get'', ''secret/'' @ name, ''--namespace='' @ ns, ''-oyaml'']"
    using fields_of_word(2)[OF nosp(1), of "CHR '' ''" "''--namespace='' @ ns @ '' -oyaml''"]
      fields_of_word(2)[OF nosp(2), of "CHR '' ''" "''-oyaml''"]
    by (simp add: read_secret_def fields_of_def is_space_def)
qed

text \<open>Secrets are readable by every user the gate lets in, a viewer of one namespace included: the check
  for sensitive resources looks for the word with a space on both sides or in the plural, so naming
  the secret with a slash passes all checks, and the host's kubectl prints the secret of any
  namespace.\<close>

theorem secrets_readable:
  assumes "plain_name name" "plain_name ns" "length name + length ns \<le> 400"
    and "rq_method rq = ''POST''" "rq_json rq = Some (AObject [(''command'', AString (read_secret name ns))])"
    and "run (host_argv [''kubectl'', ''get'', ''secret/'' @ name, ''--namespace='' @ ns, ''-oyaml'']) d = (r, d1)" "pr_error r = None"
  shows "resp_body (fst (fst (handle_quick_exec run ts user rq d))) = AObject [(''output'', AString (pr_stdout r))]"
  using assms(4-7) read_secret_passes[OF assms(1-3)]
  by (simp add: handle_quick_exec_def decode_command_def member_name_simps exec_answer_def respond_def)

theorem secrets_readable_witness:
  "resp_body (fst (fst (handle_quick_exec (\<lambda>argv d. (\<lparr>pr_stdout = ''password: aHVudGVyMg=='', pr_stderr = [], pr_error = None\<rparr>, d))
     [] (Some (zero_user\<lparr>us_username := ''eve'', us_role := ''ns-viewer'', us_allowed_namespaces := ''web''\<rparr>))
     (demo_post (read_secret ''db'' ''kube-system'')) ()))) = AObject [(''output'', AString ''password: aHVudGVyMg=='')]"
proof -
  let ?r = "\<lparr>pr_stdout = ''password: aHVudGVyMg=='', pr_stderr = [], pr_error = None\<rparr>"
  have "resp_body (fst (fst (handle_quick_exec (\<lambda>argv d. (?r, d))
     [] (Some (zero_user\<lparr>us_username := ''eve'', us_role := ''ns-viewer'', us_allowed_namespaces := ''web''\<rparr>))
     (demo_post (read_secret ''db'' ''kube-system'')) ()))) = AObject [(''output'', AString (pr_stdout ?r))]"
    by (rule secrets_readable[where name = "''db''" and ns = "''kube-system''"]) (simp_all add: plain_name_def demo_post_def)
  then show ?thesis by simp
qed

end
