(* ===== verification/Rbac_Graph.thy ===== *)
theory Rbac_Graph
  imports Analysis "HOL-Library.List_Lexorder" "HOL-Library.Char_ord"
begin

text \<open>
  The graph of permissions (internal/dashboard/handlers_rbac_graph.go): dangerous roles, the subjects bound to roles, the ways to
  more rights, overprivileged subjects, the score and the recommendations. Go's maps are lists of keys and values in the order of
  insertion; the order in which a map is read is a parameter, and so is \<open>sort.Slice\<close>.
\<close>

section \<open>Dangerous roles\<close>

record policy_rule =
  pr_verbs :: "string list"
  pr_resources :: "string list"

record graph_role =
  gr_name :: string
  gr_cluster :: bool
  gr_namespace :: string
  gr_verbs :: "string list"
  gr_resources :: "string list"
  gr_danger :: string
  gr_subjects :: "string list"

definition contains_any :: "string list \<Rightarrow> string list \<Rightarrow> bool" where
  "contains_any xs vs = list_ex (\<lambda>x. x \<in> set vs) xs"

definition dedup_strings :: "string list \<Rightarrow> string list" where
  "dedup_strings xs = rev (remdups (rev xs))"

text \<open>The checks of one rule in their order; all but the first need that nothing was found before.\<close>

definition danger_checks :: "(string \<times> (policy_rule \<Rightarrow> bool)) list" where
  "danger_checks =
     [(''privileged-escalation'', \<lambda>r. contains_any (pr_verbs r) [''escalate'', ''bind'', ''impersonate'']),
      (''secret-access'', \<lambda>r. contains_any (pr_resources r) [''secrets''] \<and> \<not> contains_any (pr_verbs r) [''get'', ''list'', ''watch'', ''*'']),
      (''pods-exec'', \<lambda>r. contains_any (pr_resources r) [''pods/exec'', ''pods'', ''pods/portforward''] \<and> contains_any (pr_verbs r) [''create'', ''*'']),
      (''node-access'', \<lambda>r. contains_any (pr_resources r) [''nodes''] \<and> contains_any (pr_verbs r) [''*'', ''delete'', ''update'', ''patch''])]"

definition rule_danger :: "policy_rule \<Rightarrow> string \<Rightarrow> string" where
  "rule_danger r d = fold (\<lambda>(level, found) d. if d = [] \<and> found r then level else d) danger_checks
     (if contains_any (pr_resources r) [''*''] \<and> contains_any (pr_verbs r) [''*''] then ''cluster-admin'' else d)"

definition classify_role_danger :: "string \<Rightarrow> policy_rule list \<Rightarrow> bool \<Rightarrow> string \<Rightarrow> graph_role option" where
  "classify_role_danger name rules cluster ns =
     (if has_prefix name ''system:'' then None
      else let d = fold rule_danger rules [] in
        if d = [] then None else
          Some \<lparr>gr_name = name, gr_cluster = cluster, gr_namespace = ns, gr_verbs = dedup_strings (concat (map pr_verbs rules)),
            gr_resources = dedup_strings (concat (map pr_resources rules)), gr_danger = d, gr_subjects = []\<rparr>)"

section \<open>Subjects\<close>

record rbac_subject =
  rs_kind :: string
  rs_name :: string
  rs_namespace :: string

record graph_subject =
  gs_name :: string
  gs_kind :: string
  gs_namespace :: string
  gs_roles :: "string list"
  gs_admin :: bool
  gs_privileged :: bool
  gs_wildcard :: bool
  gs_bindings :: nat

text \<open>The kind and the name of the role a binding refers to; \<open>bd_cluster\<close> is a cluster role binding.\<close>

record graph_binding =
  bd_cluster :: bool
  bd_namespace :: string
  bd_role_kind :: string
  bd_role_name :: string
  bd_subjects :: "rbac_subject list"

definition rbac_perm_subject_key :: "rbac_subject \<Rightarrow> string" where
  "rbac_perm_subject_key s = rs_kind s @ ''/'' @ rs_namespace s @ ''/'' @ rs_name s"

definition put :: "string \<Rightarrow> 'v \<Rightarrow> (string \<times> 'v) list \<Rightarrow> (string \<times> 'v) list" where
  "put k v m = (if k \<in> fst ` set m then map (\<lambda>(a, b). if a = k then (a, v) else (a, b)) m else m @ [(k, v)])"

record graph_state =
  gt_subjects :: "(string \<times> graph_subject) list"
  gt_roles :: "(string \<times> graph_role) list"
  gt_admins :: nat

definition new_subject :: "rbac_subject \<Rightarrow> graph_subject" where
  "new_subject s = \<lparr>gs_name = rs_name s, gs_kind = rs_kind s, gs_namespace = rs_namespace s, gs_roles = [], gs_admin = False,
     gs_privileged = False, gs_wildcard = False, gs_bindings = 0\<rparr>"

text \<open>A subject bound to the role with a key; the name \<open>cluster-admin\<close> counts for cluster role bindings only.\<close>

definition bind_subject :: "bool \<Rightarrow> string \<Rightarrow> rbac_subject \<Rightarrow> graph_state \<Rightarrow> graph_state" where
  "bind_subject cluster role s g = (let k = rbac_perm_subject_key s; danger = map_of (gt_roles g) role;
       old = (case map_of (gt_subjects g) k of Some x \<Rightarrow> x | None \<Rightarrow> new_subject s);
       admin = (cluster \<and> role = ''cluster-admin'')
     in \<lparr>gt_subjects = put k (old\<lparr>gs_roles := gs_roles old @ [role], gs_bindings := gs_bindings old + 1, gs_admin := gs_admin old \<or> admin,
           gs_privileged := gs_privileged old \<or> danger \<noteq> None\<rparr>) (gt_subjects g),
         gt_roles = (case danger of Some r \<Rightarrow> put role (r\<lparr>gr_subjects := gr_subjects r @ [rs_name s]\<rparr>) (gt_roles g) | None \<Rightarrow> gt_roles g),
         gt_admins = gt_admins g + (if admin then 1 else 0)\<rparr>)"

definition role_key :: "graph_binding \<Rightarrow> string" where
  "role_key b = (if bd_cluster b \<or> bd_role_kind b = ''ClusterRole'' then bd_role_name b else bd_namespace b @ ''/'' @ bd_role_name b)"

text \<open>A cluster role binding to another kind of role is passed over.\<close>

definition add_binding :: "graph_binding \<Rightarrow> graph_state \<Rightarrow> graph_state" where
  "add_binding b g = (if bd_cluster b \<and> bd_role_kind b \<noteq> ''ClusterRole'' then g
     else fold (bind_subject (bd_cluster b) (role_key b)) (bd_subjects b) g)"

record rbac_role =
  ro_name :: string
  ro_namespace :: string
  ro_rules :: "policy_rule list"

definition dangerous_roles :: "rbac_role list \<Rightarrow> rbac_role list \<Rightarrow> (string \<times> graph_role) list" where
  "dangerous_roles crs rs = fold (\<lambda>(k, e) m. case e of Some r \<Rightarrow> put k r m | None \<Rightarrow> m)
     (map (\<lambda>r. (ro_name r, classify_role_danger (ro_name r) (ro_rules r) True [])) crs @
      map (\<lambda>r. (ro_namespace r @ ''/'' @ ro_name r, classify_role_danger (ro_name r) (ro_rules r) False (ro_namespace r))) rs) []"

definition has_wildcard :: "(string \<times> graph_role) list \<Rightarrow> graph_subject \<Rightarrow> bool" where
  "has_wildcard roles s = list_ex (\<lambda>k. case map_of roles k of
     Some r \<Rightarrow> list_ex (\<lambda>x. x = ''*'' \<or> x = []) (gr_resources r) \<or> ''*'' \<in> set (gr_verbs r) | None \<Rightarrow> False) (gs_roles s)"

text \<open>The subjects with their wildcards, in the order of a map.\<close>

definition graph_subjects :: "(string list \<Rightarrow> string list) \<Rightarrow> graph_state \<Rightarrow> graph_subject list" where
  "graph_subjects mo g = map (\<lambda>s. s\<lparr>gs_wildcard := has_wildcard (gt_roles g) s\<rparr>)
     (List.map_filter (map_of (gt_subjects g)) (mo (map fst (gt_subjects g))))"

section \<open>Findings\<close>

record escalation_path =
  ep_subject :: string
  ep_path :: string
  ep_start :: string
  ep_end :: string
  ep_severity :: string
  ep_method :: string

definition arrow :: string where "arrow = '' '' @ [CHR 0xE2, CHR 0x86, CHR 0x92] @ '' ''"

definition path_for :: "graph_subject \<Rightarrow> string \<Rightarrow> graph_role \<Rightarrow> escalation_path option" where
  "path_for s k r =
     (if gr_danger r = ''privileged-escalation'' then
        Some \<lparr>ep_subject = gs_name s, ep_path = gs_name s @ arrow @ ''('' @ k @ '': escalate/bind)'' @ arrow @ ''cluster-admin'', ep_start = k,
          ep_end = ''cluster-admin (potential)'', ep_severity = ''critical'', ep_method = ''escalate/bind verb''\<rparr>
      else if gr_danger r = ''pods-exec'' then
        Some \<lparr>ep_subject = gs_name s, ep_path = gs_name s @ arrow @ ''('' @ k @ '': pods/exec)'' @ arrow @ ''pod SA token'' @ arrow @ ''cluster resources'', ep_start = k,
          ep_end = ''pod service account'', ep_severity = ''high'', ep_method = ''pods/exec to steal SA token''\<rparr>
      else if gr_danger r = ''secret-access'' then
        Some \<lparr>ep_subject = gs_name s, ep_path = gs_name s @ arrow @ ''('' @ k @ '': secrets)'' @ arrow @ ''SA tokens'' @ arrow @ ''privilege escalation'', ep_start = k,
          ep_end = ''any SA via token'', ep_severity = ''high'', ep_method = ''secret read to steal SA tokens''\<rparr>
      else None)"

definition subject_paths :: "(string \<times> graph_role) list \<Rightarrow> graph_subject \<Rightarrow> escalation_path list" where
  "subject_paths roles s = (if gs_admin s then [] else
     List.map_filter (\<lambda>k. case map_of roles k of Some r \<Rightarrow> path_for s k r | None \<Rightarrow> None) (gs_roles s))"

definition find_escalation_paths :: "escalation_path slice_sort \<Rightarrow> (string \<times> graph_role) list \<Rightarrow> graph_subject list \<Rightarrow> escalation_path list" where
  "find_escalation_paths srt roles ss = take 50 (srt (\<lambda>a b. ep_severity b < ep_severity a) (concat (map (subject_paths roles) ss)))"

record overpriv_entry =
  oe_subject :: string
  oe_role :: string
  oe_issue :: string
  oe_severity :: string

definition find_overprivileged :: "graph_subject list \<Rightarrow> overpriv_entry list" where
  "find_overprivileged ss = take 50 (concat (map (\<lambda>s.
     entry_if (gs_admin s \<and> gs_kind s = ''ServiceAccount'') \<lparr>oe_subject = gs_namespace s @ ''/'' @ gs_name s, oe_role = ''cluster-admin'',
       oe_issue = ''ServiceAccount has cluster-admin '' @ em_dash @ '' use least-privilege role instead'', oe_severity = ''critical''\<rparr> @
     entry_if (gs_wildcard s) \<lparr>oe_subject = gs_name s, oe_role = ''wildcard'',
       oe_issue = ''Subject has wildcard (*) permissions '' @ em_dash @ '' restrict to specific resources and verbs'', oe_severity = ''high''\<rparr>) ss))"

definition danger_order :: "string \<Rightarrow> nat" where
  "danger_order d = (if d = ''cluster-admin'' then 0 else if d = ''privileged-escalation'' then 1 else if d = ''secret-access'' then 2
     else if d = ''pods-exec'' then 3 else if d = ''node-access'' then 4 else 5)"

record graph_summary =
  gz_subjects :: nat
  gz_cluster_roles :: nat
  gz_role_bindings :: nat
  gz_crbs :: nat
  gz_admins :: nat
  gz_privileged :: nat
  gz_paths :: nat
  gz_wildcards :: nat

record graph_result =
  gg_summary :: graph_summary
  gg_subjects :: "graph_subject list"
  gg_critical :: "graph_role list"
  gg_paths :: "escalation_path list"
  gg_overprivileged :: "overpriv_entry list"
  gg_wildcards :: "graph_subject list"
  gg_recs :: "string list"
  gg_score :: int

definition graph_score :: "nat \<Rightarrow> nat \<Rightarrow> nat \<Rightarrow> nat \<Rightarrow> int" where
  "graph_score admins wild paths over = (let score = 100 - int admins * 5 - int wild * 8 - int paths * 10 - int over * 3 in
     if score < 0 then 0 else score)"

definition generate_rbac_graph_recs :: "graph_summary \<Rightarrow> nat \<Rightarrow> nat \<Rightarrow> int \<Rightarrow> string list" where
  "generate_rbac_graph_recs z critical over score = (let recs =
     entry_if (0 < gz_admins z) (show_nat (gz_admins z) @ '' subject(s) have cluster-admin '' @ em_dash @ '' audit and replace with least-privilege roles'') @
     entry_if (0 < gz_wildcards z) (show_nat (gz_wildcards z) @ '' subject(s) have wildcard (*) permissions '' @ em_dash @ '' replace with specific resource/verb grants'') @
     entry_if (0 < gz_paths z) (show_nat (gz_paths z) @ '' escalation path(s) detected '' @ em_dash @ '' remove escalate/bind verbs and restrict pods/exec access'') @
     entry_if (0 < critical) (show_nat critical @ '' role(s) have dangerous permissions '' @ em_dash @ '' review and tighten rules'') @
     entry_if (0 < over) (show_nat over @ '' overprivileged subject(s) '' @ em_dash @ '' apply least-privilege principle'') @
     entry_if (score < 50) (''RBAC risk score is '' @ show_int score @ ''/100 '' @ em_dash @ '' significant privilege escalation risk'')
   in if recs = [] then [''RBAC configuration is well-controlled '' @ em_dash @ '' no escalation paths or overprivileged subjects detected''] else recs)"

text \<open>\<open>ge_map\<close>: every loop over a map has an order of its own.\<close>

record graph_env =
  ge_map :: "nat \<Rightarrow> string list \<Rightarrow> string list"
  ge_sort_subjects :: "graph_subject slice_sort"
  ge_sort_roles :: "graph_role slice_sort"
  ge_sort_paths :: "escalation_path slice_sort"

definition subject_before :: "graph_subject \<Rightarrow> graph_subject \<Rightarrow> bool" where
  "subject_before a b = (if gs_admin a \<noteq> gs_admin b then gs_admin a else gs_bindings b < gs_bindings a)"

text \<open>The lists of the cluster; one that failed is empty.\<close>

record rbac_lists =
  rl_cluster_roles :: "rbac_role list"
  rl_roles :: "rbac_role list"
  rl_crbs :: "graph_binding list"
  rl_rbs :: "graph_binding list"

definition graph_state_of :: "rbac_lists \<Rightarrow> graph_state" where
  "graph_state_of L = fold add_binding (rl_crbs L @ rl_rbs L)
     \<lparr>gt_subjects = [], gt_roles = dangerous_roles (rl_cluster_roles L) (rl_roles L), gt_admins = 0\<rparr>"

definition rbac_graph :: "graph_env \<Rightarrow> rbac_lists \<Rightarrow> graph_result" where
  "rbac_graph E L = (let g = graph_state_of L; ss = graph_subjects (ge_map E 0) g;
       shown = (\<lambda>s. s\<lparr>gs_roles := dedup_strings (gs_roles s)\<rparr>);
       critical = map (\<lambda>r. r\<lparr>gr_subjects := dedup_strings (gr_subjects r)\<rparr>) (filter (\<lambda>r. gr_subjects r \<noteq> [])
         (List.map_filter (map_of (gt_roles g)) (ge_map E 1 (map fst (gt_roles g)))));
       paths = find_escalation_paths (ge_sort_paths E) (gt_roles g) (graph_subjects (ge_map E 2) g);
       over = find_overprivileged (graph_subjects (ge_map E 3) g);
       z = \<lparr>gz_subjects = length ss, gz_cluster_roles = length (rl_cluster_roles L), gz_role_bindings = length (rl_rbs L), gz_crbs = length (rl_crbs L),
            gz_admins = gt_admins g, gz_privileged = how_many gs_privileged ss, gz_paths = length paths, gz_wildcards = how_many gs_wildcard ss\<rparr>;
       score = graph_score (gz_admins z) (gz_wildcards z) (length paths) (length over)
     in \<lparr>gg_summary = z, gg_subjects = ge_sort_subjects E subject_before (map shown ss),
         gg_critical = ge_sort_roles E (\<lambda>a b. danger_order (gr_danger a) < danger_order (gr_danger b)) critical,
         gg_paths = paths, gg_overprivileged = over, gg_wildcards = map shown (filter (\<lambda>s. gs_wildcard s \<or> gs_admin s) ss),
         gg_recs = generate_rbac_graph_recs z (length critical) (length over) score, gg_score = score\<rparr>)"

record 'd rbac_list_client =
  rk_cluster_roles :: "'d \<Rightarrow> string + rbac_role list"
  rk_roles :: "'d \<Rightarrow> string + rbac_role list"
  rk_crbs :: "'d \<Rightarrow> string + graph_binding list"
  rk_rbs :: "'d \<Rightarrow> string + graph_binding list"

definition handle_rbac_graph :: "graph_env \<Rightarrow> 'd rbac_list_client option \<Rightarrow> 'd \<Rightarrow> http_resp + graph_result" where
  "handle_rbac_graph E client d = (case client of
     None \<Rightarrow> Inl (write_error 503 ''kubernetes client not available'')
   | Some C \<Rightarrow> Inr (rbac_graph E \<lparr>rl_cluster_roles = listed (rk_cluster_roles C d), rl_roles = listed (rk_roles C d),
       rl_crbs = listed (rk_crbs C d), rl_rbs = listed (rk_rbs C d)\<rparr>))"

section \<open>Lemmas\<close>

lemma map_of_put [simp]: "map_of (put k v m) = (map_of m)(k \<mapsto> v)"
proof (rule ext)
  fix x
  show "map_of (put k v m) x = ((map_of m)(k \<mapsto> v)) x"
  proof (cases "k \<in> fst ` set m")
    case True
    have "map_of (map (\<lambda>(a, b). if a = k then (a, v) else (a, b)) m) x = (if x = k \<and> map_of m k \<noteq> None then Some v else map_of m x)"
    proof (induction m)
      case (Cons p m)
      obtain a b where "p = (a, b)" by (cases p)
      then show ?case using Cons.IH by (cases "a = k"; cases "x = k") simp_all
    qed simp
    moreover have "map_of m k \<noteq> None" using True by (simp add: map_of_eq_None_iff)
    ultimately show ?thesis using True by (simp add: put_def)
  next
    case False
    then have "map_of m k = None" by (simp add: map_of_eq_None_iff)
    then show ?thesis using False by (simp add: put_def map_add_def split: option.split)
  qed
qed

lemma keys_put: "map fst (put k v m) = (if k \<in> fst ` set m then map fst m else map fst m @ [k])"
proof -
  have "map fst (map (\<lambda>(a, b). if a = k then (a, v) else (a, b)) m) = map fst m" by (induction m) auto
  then show ?thesis by (simp add: put_def)
qed

text \<open>The bindings as a list of single ones: whether it is a cluster role binding, the key of the role and the subject.\<close>

type_synonym single_binding = "bool \<times> string \<times> rbac_subject"

definition single_bindings :: "rbac_lists \<Rightarrow> single_binding list" where
  "single_bindings L = concat (map (\<lambda>b. if bd_cluster b \<and> bd_role_kind b \<noteq> ''ClusterRole'' then [] else
     map (\<lambda>s. (bd_cluster b, role_key b, s)) (bd_subjects b)) (rl_crbs L @ rl_rbs L))"

definition bind_single :: "single_binding \<Rightarrow> graph_state \<Rightarrow> graph_state" where
  "bind_single = (\<lambda>(c, r, s). bind_subject c r s)"

lemma add_binding_singles:
  "fold add_binding bs g = fold bind_single (concat (map (\<lambda>b. if bd_cluster b \<and> bd_role_kind b \<noteq> ''ClusterRole'' then [] else
     map (\<lambda>s. (bd_cluster b, role_key b, s)) (bd_subjects b)) bs)) g"
  by (induction bs arbitrary: g) (simp_all add: add_binding_def fold_map comp_def bind_single_def)

definition subject_key :: "single_binding \<Rightarrow> string" where
  "subject_key = (\<lambda>(c, r, s). rbac_perm_subject_key s)"

text \<open>What is known of a subject after its bindings; \<open>D\<close> says which roles are dangerous.\<close>

definition subject_of :: "(string \<Rightarrow> bool) \<Rightarrow> single_binding list \<Rightarrow> graph_subject option" where
  "subject_of D ts = (case ts of
     [] \<Rightarrow> None
   | (c, r, s) # _ \<Rightarrow> Some (new_subject s\<lparr>gs_roles := map (\<lambda>(c, r, s). r) ts, gs_admin := list_ex (\<lambda>(c, r, s). c \<and> r = ''cluster-admin'') ts,
       gs_privileged := list_ex (\<lambda>(c, r, s). D r) ts, gs_bindings := length ts\<rparr>))"

lemma subject_of_snoc: "subject_of D (ts @ [(c, r, s)]) = (let old = (case subject_of D ts of Some x \<Rightarrow> x | None \<Rightarrow> new_subject s) in
    Some (old\<lparr>gs_roles := gs_roles old @ [r], gs_bindings := gs_bindings old + 1, gs_admin := gs_admin old \<or> (c \<and> r = ''cluster-admin''),
      gs_privileged := gs_privileged old \<or> D r\<rparr>))"
  by (cases ts) (auto simp: subject_of_def new_subject_def)

lemma bind_single_step:
  fixes c r s g
  defines "g' \<equiv> bind_single (c, r, s) g"
  shows "map_option gr_danger (map_of (gt_roles g') x) = map_option gr_danger (map_of (gt_roles g) x)"
    and "map_of (gt_subjects g') k = (if subject_key (c, r, s) = k then
      (let old = (case map_of (gt_subjects g) k of Some x \<Rightarrow> x | None \<Rightarrow> new_subject s) in
        Some (old\<lparr>gs_roles := gs_roles old @ [r], gs_bindings := gs_bindings old + 1, gs_admin := gs_admin old \<or> (c \<and> r = ''cluster-admin''),
          gs_privileged := gs_privileged old \<or> map_of (gt_roles g) r \<noteq> None\<rparr>)) else map_of (gt_subjects g) k)"
    and "distinct (map fst (gt_subjects g)) \<Longrightarrow> distinct (map fst (gt_subjects g'))"
    and "gt_admins g' = gt_admins g + (if c \<and> r = ''cluster-admin'' then 1 else 0)"
  unfolding g'_def bind_single_def bind_subject_def subject_key_def Let_def
  by (auto simp: keys_put split: option.split)

definition start_state :: "(string \<times> graph_role) list \<Rightarrow> graph_state" where
  "start_state roles = \<lparr>gt_subjects = [], gt_roles = roles, gt_admins = 0\<rparr>"

lemma bind_all:
  shows "map_option gr_danger (map_of (gt_roles (fold bind_single ts (start_state roles))) r) = map_option gr_danger (map_of roles r)"
    and "distinct (map fst (gt_subjects (fold bind_single ts (start_state roles))))"
    and "gt_admins (fold bind_single ts (start_state roles)) = how_many (\<lambda>(c, r, s). c \<and> r = ''cluster-admin'') ts"
proof (induction ts rule: rev_induct)
  case (snoc t ts)
  obtain c r s where t: "t = (c, r, s)" by (cases t)
  { case 1 show ?case using snoc.IH(1) by (simp add: t bind_single_step(1)) }
  { case 2 show ?case using snoc.IH(2) by (simp add: t bind_single_step(3)) }
  { case 3 show ?case using snoc.IH(3) by (simp add: t bind_single_step(4) how_many_def) }
qed (simp_all add: start_state_def how_many_def)

lemma roles_kept: "map_of (gt_roles (fold bind_single ts (start_state roles))) r = None \<longleftrightarrow> map_of roles r = None"
  using bind_all(1)[of ts roles r] by (metis map_option_is_None)

lemma bind_all_subjects:
  "map_of (gt_subjects (fold bind_single ts (start_state roles))) k = subject_of (\<lambda>r. map_of roles r \<noteq> None) (filter (\<lambda>t. subject_key t = k) ts)"
proof (induction ts rule: rev_induct)
  case (snoc t ts)
  obtain c r s where t: "t = (c, r, s)" by (cases t)
  show ?case
  proof (cases "subject_key t = k")
    case True
    then have "filter (\<lambda>t. subject_key t = k) (ts @ [t]) = filter (\<lambda>t. subject_key t = k) ts @ [t]" by simp
    then show ?thesis using True snoc.IH by (simp only: t fold_append fold_simps comp_apply bind_single_step(2) roles_kept subject_of_snoc if_True simp_thms)
  next
    case False
    then show ?thesis using snoc.IH by (simp add: t bind_single_step(2))
  qed
qed (simp add: start_state_def subject_of_def)

lemma graph_state_singles:
  "graph_state_of L = fold bind_single (single_bindings L) (start_state (dangerous_roles (rl_cluster_roles L) (rl_roles L)))"
  unfolding graph_state_of_def add_binding_singles single_bindings_def start_state_def ..

text \<open>The escalations by bindings: of a subject that is no administrator, by a dangerous role it is bound to.\<close>

definition danger_path :: "string \<Rightarrow> string \<Rightarrow> string \<Rightarrow> escalation_path option" where
  "danger_path name k danger = path_for (new_subject \<lparr>rs_kind = [], rs_name = name, rs_namespace = []\<rparr>) k
     \<lparr>gr_name = [], gr_cluster = True, gr_namespace = [], gr_verbs = [], gr_resources = [], gr_danger = danger, gr_subjects = []\<rparr>"

definition bound_admin :: "rbac_lists \<Rightarrow> rbac_subject \<Rightarrow> bool" where
  "bound_admin L s = list_ex (\<lambda>(c, r, s'). c \<and> r = ''cluster-admin'' \<and> rbac_perm_subject_key s' = rbac_perm_subject_key s) (single_bindings L)"

definition escalations :: "rbac_lists \<Rightarrow> escalation_path list" where
  "escalations L = List.map_filter (\<lambda>(c, k, s). if bound_admin L s then None else
     (case map_of (dangerous_roles (rl_cluster_roles L) (rl_roles L)) k of Some r \<Rightarrow> danger_path (rs_name s) k (gr_danger r) | None \<Rightarrow> None))
     (single_bindings L)"

lemma path_for_danger: "path_for s k r = danger_path (gs_name s) k (gr_danger r)"
  by (simp add: path_for_def danger_path_def new_subject_def)

lemma escalation_severity: "path_for s k r = Some p \<Longrightarrow> ep_severity p = ''critical'' \<or> ep_severity p = ''high''"
  by (auto simp: path_for_def split: if_splits)

lemma choose_Some: "(if b then None else (case m of Some r \<Rightarrow> f r | None \<Rightarrow> None)) = Some p \<longleftrightarrow> \<not> b \<and> (\<exists>r. m = Some r \<and> f r = Some p)"
  by (auto split: option.split)

lemma set_map_filter: "set (List.map_filter f xs) = {y. \<exists>x \<in> set xs. f x = Some y}"
  by (auto simp: List.map_filter_def) force

lemma set_graph_subjects:
  assumes "\<And>xs. mset (mo xs) = mset xs"
  shows "set (graph_subjects mo g) = {s\<lparr>gs_wildcard := has_wildcard (gt_roles g) s\<rparr> |s k. map_of (gt_subjects g) k = Some s}"
proof -
  have "set (mo (map fst (gt_subjects g))) = fst ` set (gt_subjects g)"
    using mset_eq_setD[OF assms[of "map fst (gt_subjects g)"]] by simp
  moreover have "k \<in> fst ` set (gt_subjects g)" if "map_of (gt_subjects g) k = Some s" for k s using that map_of_SomeD by force
  ultimately have "{s. \<exists>k \<in> set (mo (map fst (gt_subjects g))). map_of (gt_subjects g) k = Some s} = {s. \<exists>k. map_of (gt_subjects g) k = Some s}" by blast
  then show ?thesis unfolding graph_subjects_def set_map set_map_filter by auto
qed

text \<open>All paths, before the list is cut.\<close>

definition all_paths :: "(string list \<Rightarrow> string list) \<Rightarrow> rbac_lists \<Rightarrow> escalation_path list" where
  "all_paths mo L = (let g = graph_state_of L in concat (map (subject_paths (gt_roles g)) (graph_subjects mo g)))"

lemma paths_of_graph: "gg_paths (rbac_graph E L) = take 50 (ge_sort_paths E (\<lambda>a b. ep_severity b < ep_severity a) (all_paths (ge_map E 2) L))"
  by (simp add: rbac_graph_def Let_def find_escalation_paths_def all_paths_def)

lemma subject_paths_wildcard: "subject_paths roles (s\<lparr>gs_wildcard := w\<rparr>) = subject_paths roles s"
proof -
  have s: "gs_name (s\<lparr>gs_wildcard := w\<rparr>) = gs_name s" "gs_admin (s\<lparr>gs_wildcard := w\<rparr>) = gs_admin s" "gs_roles (s\<lparr>gs_wildcard := w\<rparr>) = gs_roles s"
    by simp_all
  show ?thesis unfolding subject_paths_def path_for_danger s ..
qed

lemma all_paths_set:
  assumes "\<And>xs. mset (mo xs) = mset xs"
    and names: "\<And>c k s c' k' s'. (c, k, s) \<in> set (single_bindings L) \<Longrightarrow> (c', k', s') \<in> set (single_bindings L) \<Longrightarrow>
      rbac_perm_subject_key s = rbac_perm_subject_key s' \<Longrightarrow> rs_name s = rs_name s'"
  shows "set (all_paths mo L) = set (escalations L)"
proof -
  let ?ts = "single_bindings L" and ?rs = "dangerous_roles (rl_cluster_roles L) (rl_roles L)"
  let ?at = "\<lambda>k. filter (\<lambda>t. subject_key t = k) ?ts"
  have danger: "map_option gr_danger (map_of (gt_roles (graph_state_of L)) r) = map_option gr_danger (map_of ?rs r)" for r
    unfolding graph_state_singles by (rule bind_all(1))
  have sub: "map_of (gt_subjects (graph_state_of L)) k = subject_of (\<lambda>r. map_of ?rs r \<noteq> None) (?at k)" for k
    unfolding graph_state_singles by (rule bind_all_subjects)
  have paths: "set (subject_paths (gt_roles (graph_state_of L)) x) =
      {p. \<exists>c k' s. (c, k', s) \<in> set ?ts \<and> rbac_perm_subject_key s = k \<and> \<not> bound_admin L s \<and>
        (\<exists>r. map_of ?rs k' = Some r \<and> danger_path (rs_name s) k' (gr_danger r) = Some p)}"
    if x: "subject_of (\<lambda>r. map_of ?rs r \<noteq> None) (?at k) = Some x" for k x
  proof -
    obtain c0 r0 s0 rest where at: "?at k = (c0, r0, s0) # rest" using x by (cases "?at k") (auto simp: subject_of_def)
    then have in0: "(c0, r0, s0) \<in> set ?ts" "rbac_perm_subject_key s0 = k"
      using list.set_intros(1)[of "(c0, r0, s0)" rest] unfolding at[symmetric] by (auto simp: subject_key_def)
    have g: "gs_roles x = map (\<lambda>(c, r, s). r) (?at k)" "gs_admin x = list_ex (\<lambda>(c, r, s). c \<and> r = ''cluster-admin'') (?at k)"
      "gs_name x = rs_name s0" using x unfolding at by (auto simp: subject_of_def new_subject_def)
    have adm: "gs_admin x \<longleftrightarrow> bound_admin L s" if "rbac_perm_subject_key s = k" for s
      using that by (auto simp: g(2) bound_admin_def list_ex_iff subject_key_def)
    have name: "rs_name s = gs_name x" if "(c, k', s) \<in> set ?ts" "rbac_perm_subject_key s = k" for c k' s
      using names[OF that(1) in0(1)] that(2) in0(2) g(3) by simp
    have roles: "k' \<in> set (gs_roles x) \<longleftrightarrow> (\<exists>c s. (c, k', s) \<in> set ?ts \<and> rbac_perm_subject_key s = k)" for k'
      by (force simp: g(1) subject_key_def)
    have dang: "(\<exists>r. map_of (gt_roles (graph_state_of L)) k' = Some r \<and> danger_path n k' (gr_danger r) = Some p) \<longleftrightarrow>
        (\<exists>r. map_of ?rs k' = Some r \<and> danger_path n k' (gr_danger r) = Some p)" for n k' p
      using danger[of k'] by (auto simp: map_option_case split: option.splits)
    show ?thesis
    proof (cases "gs_admin x")
      case True
      then show ?thesis using adm by (auto simp: subject_paths_def)
    next
      case False
      then have "set (subject_paths (gt_roles (graph_state_of L)) x) = {p. \<exists>k' \<in> set (gs_roles x).
          \<exists>r. map_of (gt_roles (graph_state_of L)) k' = Some r \<and> danger_path (gs_name x) k' (gr_danger r) = Some p}"
        by (auto simp: subject_paths_def set_map_filter path_for_danger split: option.splits)
      also have "\<dots> = {p. \<exists>c k' s. (c, k', s) \<in> set ?ts \<and> rbac_perm_subject_key s = k \<and>
          (\<exists>r. map_of ?rs k' = Some r \<and> danger_path (rs_name s) k' (gr_danger r) = Some p)}"
        unfolding dang using roles name by (auto; metis)
      finally show ?thesis using False adm by blast
    qed
  qed
  have "p \<in> set (all_paths mo L) \<longleftrightarrow> (\<exists>k x. subject_of (\<lambda>r. map_of ?rs r \<noteq> None) (?at k) = Some x \<and>
      p \<in> set (subject_paths (gt_roles (graph_state_of L)) x))" for p
  proof -
    have "p \<in> set (all_paths mo L) \<longleftrightarrow>
        (\<exists>y \<in> set (graph_subjects mo (graph_state_of L)). p \<in> set (subject_paths (gt_roles (graph_state_of L)) y))"
      by (simp add: all_paths_def Let_def)
    also have "\<dots> \<longleftrightarrow> (\<exists>x k. map_of (gt_subjects (graph_state_of L)) k = Some x \<and>
        p \<in> set (subject_paths (gt_roles (graph_state_of L)) (x\<lparr>gs_wildcard := has_wildcard (gt_roles (graph_state_of L)) x\<rparr>)))"
      unfolding set_graph_subjects[OF assms(1)] by blast
    finally show ?thesis unfolding subject_paths_wildcard sub by blast
  qed
  also have "\<dots> p \<longleftrightarrow> (\<exists>c k' s. (c, k', s) \<in> set ?ts \<and> \<not> bound_admin L s \<and>
      (\<exists>r. map_of ?rs k' = Some r \<and> danger_path (rs_name s) k' (gr_danger r) = Some p))" for p
  proof -
    have "\<exists>x. subject_of (\<lambda>r. map_of ?rs r \<noteq> None) (?at (rbac_perm_subject_key s)) = Some x" if "(c, k', s) \<in> set ?ts" for c k' s
    proof -
      have "(c, k', s) \<in> set (?at (rbac_perm_subject_key s))" using that by (simp add: subject_key_def)
      then show ?thesis by (cases "?at (rbac_perm_subject_key s)") (auto simp: subject_of_def)
    qed
    then show ?thesis using paths by blast
  qed
  also have "\<dots> p \<longleftrightarrow> p \<in> set (escalations L)" for p by (auto simp: escalations_def set_map_filter Bex_def choose_Some)
  finally show ?thesis by blast
qed

section \<open>What a way to more rights is\<close>

text \<open>Five kinds of rules, and the ways to more rights that three of them open.\<close>

definition all_powerful :: "policy_rule \<Rightarrow> bool" where
  "all_powerful r \<longleftrightarrow> ''*'' \<in> set (pr_resources r) \<and> ''*'' \<in> set (pr_verbs r)"

definition escalating :: "policy_rule \<Rightarrow> bool" where
  "escalating r \<longleftrightarrow> set (pr_verbs r) \<inter> {''escalate'', ''bind'', ''impersonate''} \<noteq> {}"

definition blind_on_secrets :: "policy_rule \<Rightarrow> bool" where
  "blind_on_secrets r \<longleftrightarrow> ''secrets'' \<in> set (pr_resources r) \<and> set (pr_verbs r) \<inter> {''get'', ''list'', ''watch'', ''*''} = {}"

definition starting_pods :: "policy_rule \<Rightarrow> bool" where
  "starting_pods r \<longleftrightarrow> set (pr_resources r) \<inter> {''pods'', ''pods/exec'', ''pods/portforward''} \<noteq> {} \<and> set (pr_verbs r) \<inter> {''create'', ''*''} \<noteq> {}"

definition changing_nodes :: "policy_rule \<Rightarrow> bool" where
  "changing_nodes r \<longleftrightarrow> ''nodes'' \<in> set (pr_resources r) \<and> set (pr_verbs r) \<inter> {''*'', ''delete'', ''update'', ''patch''} \<noteq> {}"

definition telling :: "policy_rule \<Rightarrow> bool" where
  "telling r \<longleftrightarrow> escalating r \<or> blind_on_secrets r \<or> starting_pods r \<or> changing_nodes r"

datatype way_up = Way_escalate | Way_secrets | Way_exec

text \<open>A role that holds no rule for everything opens the way of its first telling rule; the kinds count in this order, and a rule
  that is telling for its nodes only opens none.\<close>

definition opens :: "policy_rule list \<Rightarrow> way_up \<Rightarrow> bool" where
  "opens rules w \<longleftrightarrow> \<not> list_ex all_powerful rules \<and> (case find telling rules of
     None \<Rightarrow> False
   | Some r \<Rightarrow> (case w of
       Way_escalate \<Rightarrow> escalating r
     | Way_secrets \<Rightarrow> \<not> escalating r \<and> blind_on_secrets r
     | Way_exec \<Rightarrow> \<not> escalating r \<and> \<not> blind_on_secrets r \<and> starting_pods r))"

fun way_path :: "way_up \<Rightarrow> string \<Rightarrow> string \<Rightarrow> escalation_path" where
  "way_path Way_escalate name k = \<lparr>ep_subject = name, ep_path = name @ arrow @ ''('' @ k @ '': escalate/bind)'' @ arrow @ ''cluster-admin'',
     ep_start = k, ep_end = ''cluster-admin (potential)'', ep_severity = ''critical'', ep_method = ''escalate/bind verb''\<rparr>"
| "way_path Way_secrets name k = \<lparr>ep_subject = name,
     ep_path = name @ arrow @ ''('' @ k @ '': secrets)'' @ arrow @ ''SA tokens'' @ arrow @ ''privilege escalation'',
     ep_start = k, ep_end = ''any SA via token'', ep_severity = ''high'', ep_method = ''secret read to steal SA tokens''\<rparr>"
| "way_path Way_exec name k = \<lparr>ep_subject = name,
     ep_path = name @ arrow @ ''('' @ k @ '': pods/exec)'' @ arrow @ ''pod SA token'' @ arrow @ ''cluster resources'',
     ep_start = k, ep_end = ''pod service account'', ep_severity = ''high'', ep_method = ''pods/exec to steal SA token''\<rparr>"

text \<open>A role by the key under which the result names it, and the subjects a binding grants it to.\<close>

definition role_at :: "rbac_lists \<Rightarrow> string \<Rightarrow> rbac_role \<Rightarrow> bool" where
  "role_at L k r \<longleftrightarrow> r \<in> set (rl_cluster_roles L) \<and> k = ro_name r \<or> r \<in> set (rl_roles L) \<and> k = ro_namespace r @ ''/'' @ ro_name r"

definition granted_role :: "rbac_lists \<Rightarrow> rbac_subject \<Rightarrow> string \<Rightarrow> bool" where
  "granted_role L s k \<longleftrightarrow> (\<exists>b \<in> set (rl_crbs L @ rl_rbs L). s \<in> set (bd_subjects b) \<and>
     (if bd_role_kind b = ''ClusterRole'' then k = bd_role_name b else \<not> bd_cluster b \<and> k = bd_namespace b @ ''/'' @ bd_role_name b))"

definition administrator :: "rbac_lists \<Rightarrow> rbac_subject \<Rightarrow> bool" where
  "administrator L s \<longleftrightarrow> (\<exists>b \<in> set (rl_crbs L @ rl_rbs L). bd_cluster b \<and> bd_role_kind b = ''ClusterRole'' \<and>
     bd_role_name b = ''cluster-admin'' \<and> s \<in> set (bd_subjects b))"

definition ways_up :: "rbac_lists \<Rightarrow> escalation_path set" where
  "ways_up L = {way_path w (rs_name s) k |w s k. granted_role L s k \<and> \<not> administrator L s \<and>
     (\<exists>r. role_at L k r \<and> \<not> has_prefix (ro_name r) ''system:'' \<and> opens (ro_rules r) w)}"

text \<open>Names as the API server has them: those of cluster roles, and those of roles in a namespace, are told apart, and neither
  they nor namespaces and kinds of subjects hold a slash.\<close>

definition named_apart :: "rbac_lists \<Rightarrow> bool" where
  "named_apart L \<longleftrightarrow> distinct (map ro_name (rl_cluster_roles L)) \<and> distinct (map (\<lambda>r. (ro_namespace r, ro_name r)) (rl_roles L)) \<and>
     list_all (\<lambda>r. CHR ''/'' \<notin> set (ro_name r)) (rl_cluster_roles L) \<and> list_all (\<lambda>r. CHR ''/'' \<notin> set (ro_namespace r)) (rl_roles L) \<and>
     list_all (\<lambda>b. list_all (\<lambda>s. CHR ''/'' \<notin> set (rs_kind s) \<and> CHR ''/'' \<notin> set (rs_namespace s)) (bd_subjects b)) (rl_crbs L @ rl_rbs L)"

lemma slash_splits: "CHR ''/'' \<notin> set a \<Longrightarrow> CHR ''/'' \<notin> set c \<Longrightarrow> a @ ''/'' @ b = c @ ''/'' @ d \<Longrightarrow> a = c \<and> b = d"
proof (induction a arbitrary: c)
  case Nil
  then show ?case by (cases c) auto
next
  case (Cons x a)
  then show ?case by (cases c) auto
qed

lemma single_binding_iff:
  "(c, k, s) \<in> set (single_bindings L) \<longleftrightarrow> (\<exists>b \<in> set (rl_crbs L @ rl_rbs L). s \<in> set (bd_subjects b) \<and>
     (bd_cluster b \<longrightarrow> bd_role_kind b = ''ClusterRole'') \<and> c = bd_cluster b \<and> k = role_key b)"
proof -
  have one: "(c, k, s) \<in> set (if bd_cluster b \<and> bd_role_kind b \<noteq> ''ClusterRole'' then [] else map (\<lambda>s. (bd_cluster b, role_key b, s)) (bd_subjects b)) \<longleftrightarrow>
      s \<in> set (bd_subjects b) \<and> (bd_cluster b \<longrightarrow> bd_role_kind b = ''ClusterRole'') \<and> c = bd_cluster b \<and> k = role_key b" for b
    by auto
  show ?thesis unfolding single_bindings_def set_concat set_map using one by (simp only: UN_iff bex_simps)
qed

lemma single_binding_granted: "(\<exists>c. (c, k, s) \<in> set (single_bindings L)) \<longleftrightarrow> granted_role L s k"
proof -
  have "(bd_cluster b \<longrightarrow> bd_role_kind b = ''ClusterRole'') \<and> k = role_key b \<longleftrightarrow>
      (if bd_role_kind b = ''ClusterRole'' then k = bd_role_name b else \<not> bd_cluster b \<and> k = bd_namespace b @ ''/'' @ bd_role_name b)" for b
    by (auto simp: role_key_def)
  then show ?thesis unfolding single_binding_iff granted_role_def by blast
qed

lemma key_apart:
  assumes "named_apart L" "(c, k, s) \<in> set (single_bindings L)" "(c', k', s') \<in> set (single_bindings L)"
    and "rbac_perm_subject_key s = rbac_perm_subject_key s'"
  shows "s = s'"
proof -
  have no: "CHR ''/'' \<notin> set (rs_kind x) \<and> CHR ''/'' \<notin> set (rs_namespace x)" if "(b, j, x) \<in> set (single_bindings L)" for b j x
    using that assms(1) unfolding single_binding_iff named_apart_def list_all_iff by blast
  have "rs_kind s = rs_kind s' \<and> rs_namespace s @ ''/'' @ rs_name s = rs_namespace s' @ ''/'' @ rs_name s'"
    using assms(4) no[OF assms(2)] no[OF assms(3)] unfolding rbac_perm_subject_key_def by (intro slash_splits) auto
  moreover from this have "rs_namespace s = rs_namespace s' \<and> rs_name s = rs_name s'"
    using no[OF assms(2)] no[OF assms(3)] by (intro slash_splits) auto
  ultimately show ?thesis by (simp add: rbac_subject.equality)
qed

lemma admin_single:
  assumes "named_apart L" "(c, k, s) \<in> set (single_bindings L)"
  shows "bound_admin L s \<longleftrightarrow> administrator L s"
proof -
  have "bound_admin L s \<longleftrightarrow> (True, ''cluster-admin'', s) \<in> set (single_bindings L)"
  proof -
    have "bound_admin L s \<longleftrightarrow> (\<exists>s'. (True, ''cluster-admin'', s') \<in> set (single_bindings L) \<and> rbac_perm_subject_key s' = rbac_perm_subject_key s)"
      by (auto simp: bound_admin_def list_ex_iff)
    then show ?thesis using key_apart[OF assms(1) _ assms(2)] by metis
  qed
  also have "\<dots> \<longleftrightarrow> administrator L s" unfolding single_binding_iff administrator_def role_key_def by auto
  finally show ?thesis .
qed

text \<open>The fold over the rules is the classification.\<close>

definition level_of :: "policy_rule \<Rightarrow> string" where
  "level_of r = (if escalating r then ''privileged-escalation'' else if blind_on_secrets r then ''secret-access''
     else if starting_pods r then ''pods-exec'' else ''node-access'')"

lemma contains_any_set: "contains_any xs vs \<longleftrightarrow> set xs \<inter> set vs \<noteq> {}"
  by (auto simp: contains_any_def list_ex_iff)

lemma rule_danger_kinds: "rule_danger r d = (if all_powerful r then ''cluster-admin'' else if d \<noteq> [] then d
    else if telling r then level_of r else [])"
proof -
  have "contains_any (pr_resources r) [''*''] \<and> contains_any (pr_verbs r) [''*''] \<longleftrightarrow> all_powerful r"
    "contains_any (pr_verbs r) [''escalate'', ''bind'', ''impersonate''] \<longleftrightarrow> escalating r"
    "contains_any (pr_resources r) [''secrets''] \<and> \<not> contains_any (pr_verbs r) [''get'', ''list'', ''watch'', ''*''] \<longleftrightarrow> blind_on_secrets r"
    "contains_any (pr_resources r) [''pods/exec'', ''pods'', ''pods/portforward''] \<and> contains_any (pr_verbs r) [''create'', ''*''] \<longleftrightarrow> starting_pods r"
    "contains_any (pr_resources r) [''nodes''] \<and> contains_any (pr_verbs r) [''*'', ''delete'', ''update'', ''patch''] \<longleftrightarrow> changing_nodes r"
    by (auto simp: contains_any_set all_powerful_def escalating_def blind_on_secrets_def starting_pods_def changing_nodes_def)
  then show ?thesis by (simp add: rule_danger_def danger_checks_def telling_def level_of_def)
qed

lemma level_not_empty: "level_of r \<noteq> []"
  by (simp add: level_of_def)

lemma fold_rule_danger: "fold rule_danger rules d = (if list_ex all_powerful rules then ''cluster-admin'' else if d \<noteq> [] then d
    else case find telling rules of Some r \<Rightarrow> level_of r | None \<Rightarrow> [])"
  by (induction rules arbitrary: d) (auto simp: rule_danger_kinds level_not_empty)

lemma fold_danger_opens:
  "fold rule_danger rules [] = ''privileged-escalation'' \<longleftrightarrow> opens rules Way_escalate"
  "fold rule_danger rules [] = ''secret-access'' \<longleftrightarrow> opens rules Way_secrets"
  "fold rule_danger rules [] = ''pods-exec'' \<longleftrightarrow> opens rules Way_exec"
  by (auto simp: fold_rule_danger opens_def level_of_def split: option.split)

lemma danger_path_way: "danger_path name k d = Some p \<longleftrightarrow>
    d = ''privileged-escalation'' \<and> p = way_path Way_escalate name k \<or> d = ''secret-access'' \<and> p = way_path Way_secrets name k \<or>
    d = ''pods-exec'' \<and> p = way_path Way_exec name k"
  by (auto simp: danger_path_def path_for_def new_subject_def)

lemma danger_path_opens: "danger_path name k (fold rule_danger rules []) = Some p \<longleftrightarrow> (\<exists>w. opens rules w \<and> p = way_path w name k)"
proof -
  have "(\<exists>w. opens rules w \<and> p = way_path w name k) \<longleftrightarrow> opens rules Way_escalate \<and> p = way_path Way_escalate name k \<or>
      opens rules Way_secrets \<and> p = way_path Way_secrets name k \<or> opens rules Way_exec \<and> p = way_path Way_exec name k"
    (is "?L \<longleftrightarrow> ?R")
  proof
    assume ?L
    then obtain w where "opens rules w" "p = way_path w name k" by blast
    then show ?R by (cases w) (simp_all only: simp_thms)
  qed blast
  then show ?thesis unfolding danger_path_way fold_danger_opens by blast
qed

text \<open>The map of dangerous roles by the roles.\<close>

definition role_entries :: "rbac_lists \<Rightarrow> (string \<times> graph_role option) list" where
  "role_entries L = map (\<lambda>r. (ro_name r, classify_role_danger (ro_name r) (ro_rules r) True [])) (rl_cluster_roles L) @
     map (\<lambda>r. (ro_namespace r @ ''/'' @ ro_name r, classify_role_danger (ro_name r) (ro_rules r) False (ro_namespace r))) (rl_roles L)"

lemma fold_put_entries:
  "distinct (map fst es) \<Longrightarrow> map_of (fold (\<lambda>(k, e) m. case e of Some r \<Rightarrow> put k r m | None \<Rightarrow> m) es m) k =
     (case map_of es k of Some (Some r) \<Rightarrow> Some r | _ \<Rightarrow> map_of m k)"
proof (induction es arbitrary: m)
  case (Cons x es)
  obtain j e where x: "x = (j, e)" by (cases x)
  then have d: "j \<notin> fst ` set es" "distinct (map fst es)" using Cons.prems by auto
  then have "map_of es j = None" by (simp add: map_of_eq_None_iff)
  then show ?case using Cons.IH[OF d(2)] by (cases e) (auto simp: x split: option.split)
qed simp

lemma role_keys_distinct: "named_apart L \<Longrightarrow> distinct (map fst (role_entries L))"
proof -
  assume a: "named_apart L"
  have "distinct (map (\<lambda>r. ro_namespace r @ ''/'' @ ro_name r) (rl_roles L))"
  proof -
    have "inj_on (\<lambda>r. ro_namespace r @ ''/'' @ ro_name r) (set (rl_roles L))"
    proof (rule inj_onI)
      fix x y
      assume xy: "x \<in> set (rl_roles L)" "y \<in> set (rl_roles L)" "ro_namespace x @ ''/'' @ ro_name x = ro_namespace y @ ''/'' @ ro_name y"
      then have "ro_namespace x = ro_namespace y \<and> ro_name x = ro_name y"
        using a by (intro slash_splits) (auto simp: named_apart_def list_all_iff)
      then show "x = y" using a xy(1,2) by (auto simp: named_apart_def distinct_map dest: inj_onD)
    qed
    then show ?thesis using a by (simp add: named_apart_def distinct_map)
  qed
  moreover have "ro_name r \<noteq> ro_namespace q @ ''/'' @ ro_name q" if "r \<in> set (rl_cluster_roles L)" for r q
    using that a by (auto simp: named_apart_def list_all_iff)
  ultimately show ?thesis using a by (auto simp: role_entries_def named_apart_def comp_def)
qed

lemma dangerous_role_at:
  assumes "named_apart L"
  shows "(\<exists>e. map_of (dangerous_roles (rl_cluster_roles L) (rl_roles L)) k = Some e \<and> P (gr_danger e)) \<longleftrightarrow>
    (\<exists>r. role_at L k r \<and> \<not> has_prefix (ro_name r) ''system:'' \<and> fold rule_danger (ro_rules r) [] \<noteq> [] \<and> P (fold rule_danger (ro_rules r) []))"
proof -
  have "map_of (dangerous_roles (rl_cluster_roles L) (rl_roles L)) k = (case map_of (role_entries L) k of Some (Some e) \<Rightarrow> Some e | _ \<Rightarrow> None)"
    using fold_put_entries[OF role_keys_distinct[OF assms], of "[]" k]
    by (simp only: dangerous_roles_def role_entries_def[symmetric] map_of.simps)
  then have m: "map_of (dangerous_roles (rl_cluster_roles L) (rl_roles L)) k = Some e \<longleftrightarrow> (k, Some e) \<in> set (role_entries L)" for e
    using map_of_eq_Some_iff[OF role_keys_distinct[OF assms], of k "Some e"] by (auto split: option.split)
  have es: "(k, Some e) \<in> set (role_entries L) \<longleftrightarrow>
      (\<exists>r \<in> set (rl_cluster_roles L). k = ro_name r \<and> classify_role_danger (ro_name r) (ro_rules r) True [] = Some e) \<or>
      (\<exists>r \<in> set (rl_roles L). k = ro_namespace r @ ''/'' @ ro_name r \<and>
        classify_role_danger (ro_name r) (ro_rules r) False (ro_namespace r) = Some e)" for e
    unfolding role_entries_def set_append set_map Un_iff image_iff prod.inject by (intro arg_cong2[where f = "(\<or>)"] bex_cong) auto
  have cl: "(\<exists>e. classify_role_danger n rules c ns = Some e \<and> P (gr_danger e)) \<longleftrightarrow>
      \<not> has_prefix n ''system:'' \<and> fold rule_danger rules [] \<noteq> [] \<and> P (fold rule_danger rules [])" for n rules c ns
    by (auto simp: classify_role_danger_def Let_def)
  have "(\<exists>e. map_of (dangerous_roles (rl_cluster_roles L) (rl_roles L)) k = Some e \<and> P (gr_danger e)) \<longleftrightarrow>
      (\<exists>r \<in> set (rl_cluster_roles L). k = ro_name r \<and> (\<exists>e. classify_role_danger (ro_name r) (ro_rules r) True [] = Some e \<and> P (gr_danger e))) \<or>
      (\<exists>r \<in> set (rl_roles L). k = ro_namespace r @ ''/'' @ ro_name r \<and>
        (\<exists>e. classify_role_danger (ro_name r) (ro_rules r) False (ro_namespace r) = Some e \<and> P (gr_danger e)))"
    unfolding m es by blast
  then show ?thesis unfolding cl role_at_def by blast
qed

lemma escalations_are_ways:
  assumes "named_apart L"
  shows "set (escalations L) = ways_up L"
proof -
  have "p \<in> set (escalations L) \<longleftrightarrow> (\<exists>c k s. (c, k, s) \<in> set (single_bindings L) \<and> \<not> bound_admin L s \<and>
      (\<exists>e. map_of (dangerous_roles (rl_cluster_roles L) (rl_roles L)) k = Some e \<and> danger_path (rs_name s) k (gr_danger e) = Some p))" for p
    by (auto simp: escalations_def set_map_filter Bex_def choose_Some)
  also have "\<dots> p \<longleftrightarrow> (\<exists>c k s. (c, k, s) \<in> set (single_bindings L) \<and> \<not> administrator L s \<and>
      (\<exists>r w. role_at L k r \<and> \<not> has_prefix (ro_name r) ''system:'' \<and> opens (ro_rules r) w \<and> p = way_path w (rs_name s) k))" for p
  proof -
    have no: "danger_path n k [] \<noteq> Some p" for n k by (simp add: danger_path_way)
    have "(\<exists>e. map_of (dangerous_roles (rl_cluster_roles L) (rl_roles L)) k = Some e \<and> danger_path n k (gr_danger e) = Some p) \<longleftrightarrow>
        (\<exists>r w. role_at L k r \<and> \<not> has_prefix (ro_name r) ''system:'' \<and> opens (ro_rules r) w \<and> p = way_path w n k)" for n k
    proof -
      have "fold rule_danger rules [] \<noteq> [] \<and> danger_path n k (fold rule_danger rules []) = Some p \<longleftrightarrow>
          (\<exists>w. opens rules w \<and> p = way_path w n k)" for rules
        using no[of n k] danger_path_opens[of n k rules p] by auto
      then show ?thesis unfolding dangerous_role_at[OF assms, where P = "\<lambda>d. danger_path n k d = Some p"] by blast
    qed
    then show ?thesis using admin_single[OF assms] by blast
  qed
  also have "\<dots> p \<longleftrightarrow> p \<in> ways_up L" for p
    unfolding ways_up_def single_binding_granted[symmetric] by blast
  finally show ?thesis by blast
qed

text \<open>Roles that only read.\<close>

definition only_reads :: "policy_rule \<Rightarrow> bool" where
  "only_reads r \<longleftrightarrow> pr_verbs r \<noteq> [] \<and> list_all (\<lambda>v. v \<in> set [''get'', ''list'', ''watch'']) (pr_verbs r)"

lemma only_reads_harmless:
  assumes "only_reads r"
  shows "rule_danger r [] = []"
proof -
  have v: "v = ''get'' \<or> v = ''list'' \<or> v = ''watch''" if "v \<in> set (pr_verbs r)" for v
    using assms that by (auto simp: only_reads_def list_all_iff)
  have no: "\<not> contains_any (pr_verbs r) vs" if "''get'' \<notin> set vs" "''list'' \<notin> set vs" "''watch'' \<notin> set vs" for vs
    using that v unfolding contains_any_def list_ex_iff by metis
  have "contains_any (pr_verbs r) [''get'', ''list'', ''watch'', ''*'']"
    using assms v by (cases "pr_verbs r") (auto simp: contains_any_def only_reads_def)
  then show ?thesis by (simp add: rule_danger_def danger_checks_def no)
qed

lemma readers_harmless: "list_all only_reads rules \<Longrightarrow> classify_role_danger name rules cluster ns = None"
proof -
  assume a: "list_all only_reads rules"
  then have "fold rule_danger rules [] = []" by (induction rules) (simp_all add: only_reads_harmless)
  then show ?thesis by (simp add: classify_role_danger_def)
qed

lemma no_dangerous_roles:
  assumes "list_all (\<lambda>r. list_all only_reads (ro_rules r)) (crs @ rs)"
  shows "dangerous_roles crs rs = []"
proof -
  have "fold (\<lambda>(k, e) m. case e of Some r \<Rightarrow> put k r m | None \<Rightarrow> m) es m = m" if "\<forall>x \<in> set es. snd x = None" for es and m :: "(string \<times> graph_role) list"
    using that by (induction es) auto
  note skip = this
  have "classify_role_danger (ro_name r) (ro_rules r) cluster ns = None" if "r \<in> set crs \<union> set rs" for r cluster ns
    using that assms by (intro readers_harmless) (auto simp: list_all_iff)
  then show ?thesis unfolding dangerous_roles_def by (intro skip) auto
qed

lemma roles_stay_empty: "gt_roles (fold bind_single ts (start_state [])) = []"
  by (induction ts rule: rev_induct) (auto simp: start_state_def bind_single_def bind_subject_def Let_def)

lemma map_filter_none: "List.map_filter (\<lambda>x. None) xs = []"
  by (simp add: List.map_filter_def)

lemma no_roles_graph:
  assumes "dangerous_roles (rl_cluster_roles L) (rl_roles L) = []" "s \<in> set (graph_subjects mo (graph_state_of L))"
  shows "subject_paths (gt_roles (graph_state_of L)) s = []" "\<not> gs_wildcard s" "\<not> gs_privileged s"
proof -
  have e: "gt_roles (graph_state_of L) = []" unfolding graph_state_singles assms(1) by (rule roles_stay_empty)
  then show "subject_paths (gt_roles (graph_state_of L)) s = []" by (simp add: subject_paths_def map_filter_none)
  obtain x k where x: "map_of (gt_subjects (graph_state_of L)) k = Some x" "s = x\<lparr>gs_wildcard := has_wildcard [] x\<rparr>"
    using assms(2) by (auto simp: graph_subjects_def set_map_filter e)
  show "\<not> gs_wildcard s" by (simp add: x(2) has_wildcard_def list_ex_iff)
  have "subject_of (\<lambda>r. False) (filter (\<lambda>t. subject_key t = k) (single_bindings L)) = Some x"
    using x(1) bind_all_subjects[of "single_bindings L" "[]" k] unfolding graph_state_singles assms(1) by simp
  then show "\<not> gs_privileged s" by (auto simp: x(2) subject_of_def list_ex_iff split: list.splits)
qed

text \<open>A sort that leaves no element behind one it comes before.\<close>

definition sorting :: "'a slice_sort \<Rightarrow> ('a \<Rightarrow> 'a \<Rightarrow> bool) \<Rightarrow> bool" where
  "sorting srt before \<longleftrightarrow> (\<forall>xs. mset (srt before xs) = mset xs \<and> sorted_wrt (\<lambda>x y. \<not> before y x) (srt before xs))"

lemma cut_before_lesser:
  assumes "sorted_wrt (\<lambda>x y. \<not> before y x) ys" "k \<le> length (filter P ys)" "\<And>x y. P x \<Longrightarrow> \<not> P y \<Longrightarrow> before x y"
  shows "list_all P (take k ys)"
  using assms(1,2)
proof (induction ys arbitrary: k)
  case (Cons y ys)
  show ?case
  proof (cases "P y")
    case True
    then show ?thesis using Cons by (cases k) auto
  next
    case False
    then have "filter P ys = []" using Cons.prems(1) assms(3) by (auto simp: filter_empty_conv)
    then have "k = 0" using Cons.prems(2) False by simp
    then show ?thesis by simp
  qed
qed simp

section \<open>Properties\<close>

text \<open>C37. The escalation paths of the result are the ways to more rights the bindings open: each path shown is one that a role,
  granted to a subject which no cluster role binding makes an administrator, opens by its first telling rule (to escalate, to write
  secrets unread, to start pods), with the texts of its kind; when fewer than 50 are shown none is missing. A role whose first telling
  rule is about nodes, one with a rule for everything, and one named as the system's opens none. Names are those of an API server.\<close>

theorem escalation_paths_exact:
  assumes "\<forall>n xs. mset (ge_map E n xs) = mset xs" "permuting (ge_sort_paths E)" "named_apart L"
  shows "set (gg_paths (rbac_graph E L)) \<subseteq> ways_up L \<and>
    (length (gg_paths (rbac_graph E L)) < 50 \<longrightarrow> set (gg_paths (rbac_graph E L)) = ways_up L)"
proof -
  let ?ys = "ge_sort_paths E (\<lambda>a b. ep_severity b < ep_severity a) (all_paths (ge_map E 2) L)"
  have "set (all_paths (ge_map E 2) L) = set (escalations L)"
    using assms(1) key_apart[OF assms(3)] by (intro all_paths_set) blast+
  then have s: "set ?ys = ways_up L" using permuting_set[OF assms(2)] escalations_are_ways[OF assms(3)] by simp
  have p: "gg_paths (rbac_graph E L) = take 50 ?ys" by (rule paths_of_graph)
  have "take 50 ?ys = ?ys" if "length (take 50 ?ys) < 50" using that by (simp add: min_def split: if_splits)
  then show ?thesis unfolding p using s set_take_subset[of 50 ?ys] by auto
qed

text \<open>C38. Severities are compared as words, and ''critical'' is less than ''high'': when there are 50 paths of high severity, no critical
  one is shown, however many there are.\<close>

theorem critical_paths_cut:
  assumes "sorting (ge_sort_paths E) (\<lambda>a b. ep_severity b < ep_severity a)"
    and "50 \<le> how_many (\<lambda>p. ep_severity p = ''high'') (all_paths (ge_map E 2) L)"
  shows "list_all (\<lambda>p. ep_severity p = ''high'') (gg_paths (rbac_graph E L))"
proof -
  let ?ys = "ge_sort_paths E (\<lambda>a b. ep_severity b < ep_severity a) (all_paths (ge_map E 2) L)"
  have m: "mset ?ys = mset (all_paths (ge_map E 2) L)" and o: "sorted_wrt (\<lambda>x y. \<not> ep_severity x < ep_severity y) ?ys"
    using assms(1) unfolding sorting_def by blast+
  have sev: "ep_severity p = ''critical'' \<or> ep_severity p = ''high''" if "p \<in> set ?ys" for p
  proof -
    have "p \<in> set (all_paths (ge_map E 2) L)" using that mset_eq_setD[OF m] by simp
    then obtain x where "p \<in> set (subject_paths (gt_roles (graph_state_of L)) x)" by (auto simp: all_paths_def Let_def)
    then obtain k r where "path_for x k r = Some p" by (auto simp: subject_paths_def set_map_filter split: if_splits option.splits)
    then show ?thesis by (rule escalation_severity)
  qed
  let ?P = "\<lambda>p. ep_severity p \<noteq> ''critical''"
  have "sorted_wrt (\<lambda>x y. \<not> (ep_severity y \<noteq> ''critical'' \<and> ep_severity x = ''critical'')) ?ys"
  proof (rule sorted_wrt_mono_rel[OF _ o])
    fix x y
    assume "x \<in> set ?ys" "y \<in> set ?ys" "\<not> ep_severity x < ep_severity y"
    moreover have "''critical'' < ''high''" by code_simp
    ultimately show "\<not> (ep_severity y \<noteq> ''critical'' \<and> ep_severity x = ''critical'')" using sev[of y] by auto
  qed
  moreover have "length (filter ?P ?ys) = how_many (\<lambda>p. ep_severity p = ''high'') (all_paths (ge_map E 2) L)"
  proof -
    have "filter ?P ?ys = filter (\<lambda>p. ep_severity p = ''high'') ?ys" using sev by (intro filter_cong) auto
    then have "mset (filter ?P ?ys) = mset (filter (\<lambda>p. ep_severity p = ''high'') (all_paths (ge_map E 2) L))" by (simp add: m)
    then show ?thesis unfolding how_many_def by (metis size_mset)
  qed
  ultimately have "list_all ?P (take 50 ?ys)" using assms(2)
    by (intro cut_before_lesser[where before = "\<lambda>a b. ep_severity a \<noteq> ''critical'' \<and> ep_severity b = ''critical''"]) auto
  then show ?thesis unfolding paths_of_graph using sev set_take_subset[of 50 ?ys] by (auto simp: list_all_iff)
qed

text \<open>Who only reads secrets is not seen: when every rule of every role has only the verbs get, list and watch, on secrets or
  anything else, no role is critical, no subject is privileged and there is no escalation path.\<close>

theorem secret_readers_unseen:
  assumes "list_all (\<lambda>r. list_all only_reads (ro_rules r)) (rl_cluster_roles L @ rl_roles L)"
    and "\<forall>n xs. mset (ge_map E n xs) = mset xs" "permuting (ge_sort_paths E)" "permuting (ge_sort_roles E)"
  shows "gg_paths (rbac_graph E L) = [] \<and> gg_critical (rbac_graph E L) = [] \<and>
    gz_wildcards (gg_summary (rbac_graph E L)) = 0 \<and> gz_privileged (gg_summary (rbac_graph E L)) = 0"
proof -
  note d = no_dangerous_roles[OF assms(1)]
  note none = no_roles_graph[OF d]
  have "all_paths (ge_map E 2) L = []" using none(1) by (simp add: all_paths_def Let_def)
  then have "gg_paths (rbac_graph E L) = []" using permuting_Nil[OF assms(3)] by (simp add: paths_of_graph)
  moreover have "gt_roles (graph_state_of L) = []" unfolding graph_state_singles d by (rule roles_stay_empty)
  then have "List.map_filter (map_of (gt_roles (graph_state_of L))) (ge_map E 1 (map fst (gt_roles (graph_state_of L)))) = []"
    by (simp add: List.map_filter_def)
  then have "gg_critical (rbac_graph E L) = []" using permuting_Nil[OF assms(4)] by (simp add: rbac_graph_def Let_def)
  moreover have "how_many gs_wildcard (graph_subjects (ge_map E 0) (graph_state_of L)) = 0" "how_many gs_privileged (graph_subjects (ge_map E 0) (graph_state_of L)) = 0"
    using none(2,3) by (auto simp: how_many_def filter_empty_conv)
  then have "gz_wildcards (gg_summary (rbac_graph E L)) = 0" "gz_privileged (gg_summary (rbac_graph E L)) = 0"
    by (simp_all add: rbac_graph_def Let_def)
  ultimately show ?thesis by blast
qed

definition demo_graph :: graph_env where
  "demo_graph = \<lparr>ge_map = (\<lambda>n xs. xs), ge_sort_subjects = (\<lambda>b xs. xs), ge_sort_roles = (\<lambda>b xs. xs),
     ge_sort_paths = (\<lambda>b xs. rev (sort_key ep_severity xs))\<rparr>"

definition demo_role :: "string \<Rightarrow> string list \<Rightarrow> string list \<Rightarrow> rbac_role" where
  "demo_role name verbs resources = \<lparr>ro_name = name, ro_namespace = [], ro_rules = [\<lparr>pr_verbs = verbs, pr_resources = resources\<rparr>]\<rparr>"

definition demo_crb :: "string \<Rightarrow> graph_binding" where
  "demo_crb role = \<lparr>bd_cluster = True, bd_namespace = [], bd_role_kind = ''ClusterRole'', bd_role_name = role,
     bd_subjects = [\<lparr>rs_kind = ''User'', rs_name = ''eve'', rs_namespace = []\<rparr>]\<rparr>"

definition demo_roles :: "rbac_role list" where
  "demo_roles = [demo_role ''exec'' [''create''] [''pods/exec''], demo_role ''binder'' [''bind''] [''roles'']]"

definition demo_lists :: "nat \<Rightarrow> rbac_lists" where
  "demo_lists n = \<lparr>rl_cluster_roles = demo_roles, rl_roles = [], rl_crbs = replicate n (demo_crb ''exec'') @ [demo_crb ''binder''], rl_rbs = []\<rparr>"

definition demo_readers :: rbac_lists where
  "demo_readers = \<lparr>rl_cluster_roles = [demo_role ''peek'' [''get'', ''list''] [''secrets'']], rl_roles = [], rl_crbs = [demo_crb ''peek''], rl_rbs = []\<rparr>"

lemma demo_graph_laws: "\<forall>n xs. mset (ge_map demo_graph n xs) = mset xs" "permuting (ge_sort_paths demo_graph)" "permuting (ge_sort_roles demo_graph)"
    "sorting (ge_sort_paths demo_graph) (\<lambda>a b. ep_severity b < ep_severity a)"
proof -
  have "sorted_wrt (\<lambda>x y. \<not> ep_severity x < ep_severity y) (rev (sort_key ep_severity xs))" for xs :: "escalation_path list"
    using sorted_sort_key[of ep_severity xs] by (simp add: sorted_wrt_rev sorted_map not_less)
  then show "sorting (ge_sort_paths demo_graph) (\<lambda>a b. ep_severity b < ep_severity a)" by (simp add: sorting_def demo_graph_def)
qed (simp_all add: demo_graph_def permuting_def)

text \<open>Eve may exec and bind, and write secrets of a namespace; she also holds a role for nodes and one for everything. Ann is an
  administrator.\<close>

definition demo_ways :: rbac_lists where
  "demo_ways = \<lparr>rl_cluster_roles = demo_roles @ [demo_role ''drainer'' [''patch''] [''nodes''], demo_role ''all'' [''*''] [''*'']],
     rl_roles = [(demo_role ''vault'' [''update''] [''secrets''])\<lparr>ro_namespace := ''team''\<rparr>],
     rl_crbs = [demo_crb ''exec'', demo_crb ''binder'', demo_crb ''drainer'', demo_crb ''all'',
       (demo_crb ''cluster-admin'')\<lparr>bd_subjects := [\<lparr>rs_kind = ''User'', rs_name = ''ann'', rs_namespace = []\<rparr>]\<rparr>,
       (demo_crb ''binder'')\<lparr>bd_subjects := [\<lparr>rs_kind = ''User'', rs_name = ''ann'', rs_namespace = []\<rparr>]\<rparr>],
     rl_rbs = [(demo_crb ''vault'')\<lparr>bd_cluster := False, bd_namespace := ''team'', bd_role_kind := ''Role''\<rparr>]\<rparr>"

theorem escalation_paths_exact_witness:
  "ways_up demo_ways = {way_path Way_escalate ''eve'' ''binder'', way_path Way_exec ''eve'' ''exec'', way_path Way_secrets ''eve'' ''team/vault''}"
proof -
  have "gg_paths (rbac_graph demo_graph demo_ways) =
      [way_path Way_secrets ''eve'' ''team/vault'', way_path Way_exec ''eve'' ''exec'', way_path Way_escalate ''eve'' ''binder'']" by code_simp
  moreover have "named_apart demo_ways" by code_simp
  ultimately show ?thesis using escalation_paths_exact[OF demo_graph_laws(1,2), of demo_ways] by auto
qed

theorem critical_paths_cut_witness:
  "list_all (\<lambda>p. ep_severity p = ''high'') (gg_paths (rbac_graph demo_graph (demo_lists 50))) \<and>
   list_ex (\<lambda>p. ep_severity p = ''critical'') (all_paths (ge_map demo_graph 2) (demo_lists 50))"
proof -
  have "50 \<le> how_many (\<lambda>p. ep_severity p = ''high'') (all_paths (ge_map demo_graph 2) (demo_lists 50))" by code_simp
  note critical_paths_cut[OF demo_graph_laws(4) this]
  moreover have "list_ex (\<lambda>p. ep_severity p = ''critical'') (all_paths (ge_map demo_graph 2) (demo_lists 50))" by code_simp
  ultimately show ?thesis by blast
qed

theorem secret_readers_unseen_witness:
  "gg_paths (rbac_graph demo_graph demo_readers) = [] \<and> length (single_bindings demo_readers) = 1"
proof -
  have "list_all (\<lambda>r. list_all only_reads (ro_rules r)) (rl_cluster_roles demo_readers @ rl_roles demo_readers)" by code_simp
  from secret_readers_unseen[OF this demo_graph_laws(1-3)] have "gg_paths (rbac_graph demo_graph demo_readers) = []" by blast
  moreover have "length (single_bindings demo_readers) = 1" by code_simp
  ultimately show ?thesis by blast
qed

end
