(* ===== verification/Scale_Sim.thy ===== *)
theory Scale_Sim
  imports Analysis
begin

text \<open>
  The simulated scaling of a workload (internal/dashboard/handlers_scale_simulator.go): the requests before and after, the
  checks against the capacity of the nodes, quotas, budgets and autoscalers, and the verdict. Milli-cores are integers of 64 bits, the memory
  is a float; a division by zero is written as Go formats its result. A list that failed is \<open>None\<close>, and its checks are left out.
\<close>

section \<open>Objects\<close>

record sim_workload =
  sw_name :: string
  sw_replicas :: "int option"
  sw_requests :: "(int \<times> int) list"

record sim_quota =
  sq_name :: string
  sq_cpu_hard :: int
  sq_cpu_used :: int
  sq_mem_hard :: int
  sq_mem_used :: int
  sq_pods_hard :: int
  sq_pods_used :: int

record sim_hpa =
  sh_name :: string
  sh_target :: string
  sh_min :: "int option"
  sh_max :: int

text \<open>The allocatable milli-cores and bytes of nodes; of pods the phase and the requests; of budgets the name and whether they have a selector.\<close>

record sim_lists =
  sm_deployments :: "sim_workload list option"
  sm_stateful_sets :: "sim_workload list option"
  sm_nodes :: "(int \<times> int) list option"
  sm_pods :: "(string \<times> (int \<times> int) list) list option"
  sm_quotas :: "sim_quota list option"
  sm_pdbs :: "(string \<times> bool) list option"
  sm_hpas :: "sim_hpa list option"

record sim_check =
  sc_name :: string
  sc_status :: string
  sc_detail :: string

record sim_blocker =
  sb_type :: string
  sb_detail :: string
  sb_resource :: string

type_synonym findings = "sim_blocker list \<times> sim_check list"

section \<open>Requests\<close>

definition millions :: "int \<Rightarrow> rat" where
  "millions b = f64_div (f64_of_int b) 1000000"

definition sum_cpu :: "(int \<times> int) list \<Rightarrow> int \<Rightarrow> int" where
  "sum_cpu rs n = fold (\<lambda>(c, b) n. wrap64 (n + c)) rs n"

definition sum_mem :: "(int \<times> int) list \<Rightarrow> rat \<Rightarrow> rat" where
  "sum_mem rs x = fold (\<lambda>(c, b) x. f64_add x (millions b)) rs x"

record scale_state =
  se_replicas :: int
  se_cpu :: int
  se_mem :: rat

definition state_at :: "sim_workload \<Rightarrow> int \<Rightarrow> scale_state" where
  "state_at w n = \<lparr>se_replicas = n, se_cpu = wrap64 (n * sum_cpu (sw_requests w) 0), se_mem = f64_mul (f64_of_int n) (sum_mem (sw_requests w) 0)\<rparr>"

record scale_delta =
  sd_replicas :: int
  sd_cpu :: int
  sd_mem :: rat
  sd_pct :: rat

definition delta_of :: "sim_workload \<Rightarrow> int \<Rightarrow> int \<Rightarrow> scale_delta" where
  "delta_of w current target = (let k = wrap64 (target - current) in
     \<lparr>sd_replicas = k, sd_cpu = wrap64 (k * sum_cpu (sw_requests w) 0), sd_mem = f64_mul (f64_of_int k) (sum_mem (sw_requests w) 0),
      sd_pct = (if 0 < current then percent_of k current else 0)\<rparr>)"

text \<open>\<open>%.1f%%\<close> of a share in percent.\<close>

definition share_text :: "rat \<Rightarrow> rat \<Rightarrow> string" where
  "share_text a b = (if b = 0 then (if a = 0 then ''NaN'' else if 0 < a then ''+Inf'' else ''-Inf'')
     else fixed1 (f64_mul (f64_div a b) 100)) @ ''%''"

definition share_warns :: "rat \<Rightarrow> rat \<Rightarrow> bool" where
  "share_warns a b \<longleftrightarrow> (if b = 0 then 0 < a else 80 < f64_mul (f64_div a b) 100)"

section \<open>Checks\<close>

definition cpu_check :: "int \<Rightarrow> int \<Rightarrow> int \<Rightarrow> findings" where
  "cpu_check sim used all = (let share = share_text (f64_of_int sim) (f64_of_int all);
       d = ''Simulated CPU usage '' @ show_int sim @ ''/'' @ show_int all @ '' mCPU ('' @ share @ '')'' in
     if all < sim then
       ([\<lparr>sb_type = ''node-capacity'', sb_detail = ''Insufficient CPU: need '' @ show_int sim @ '' mCPU but only '' @ show_int all @
          '' mCPU allocatable ('' @ show_int used @ '' mCPU used)'', sb_resource = ''cpu''\<rparr>],
        [\<lparr>sc_name = ''Node CPU Capacity'', sc_status = ''fail'', sc_detail = d @ '' exceeds cluster capacity''\<rparr>])
     else ([], [\<lparr>sc_name = ''Node CPU Capacity'',
        sc_status = (if share_warns (f64_of_int sim) (f64_of_int all) then ''warn'' else ''pass''), sc_detail = d\<rparr>]))"

definition mem_check :: "rat \<Rightarrow> rat \<Rightarrow> rat \<Rightarrow> findings" where
  "mem_check sim used all = (let
       d = ''Simulated memory usage '' @ fixed0 sim @ ''/'' @ fixed0 all @ '' MB ('' @ share_text sim all @ '')'' in
     if all < sim then
       ([\<lparr>sb_type = ''node-capacity'', sb_detail = ''Insufficient memory: need '' @ fixed0 sim @ '' MB but only '' @ fixed0 all @
          '' MB allocatable ('' @ fixed0 used @ '' MB used)'', sb_resource = ''memory''\<rparr>],
        [\<lparr>sc_name = ''Node Memory Capacity'', sc_status = ''fail'', sc_detail = d @ '' exceeds capacity''\<rparr>])
     else ([], [\<lparr>sc_name = ''Node Memory Capacity'', sc_status = (if share_warns sim all then ''warn'' else ''pass''), sc_detail = d\<rparr>]))"

definition running_requests :: "(string \<times> (int \<times> int) list) list \<Rightarrow> (int \<times> int) list" where
  "running_requests ps = concat (map snd (filter (\<lambda>(phase, rs). phase = ''Running'') ps))"

definition both :: "findings list \<Rightarrow> findings" where
  "both fs = (concat (map fst fs), concat (map snd fs))"

definition node_checks :: "sim_lists \<Rightarrow> scale_delta \<Rightarrow> findings" where
  "node_checks L d = (case (sm_nodes L, sm_pods L) of
     (Some ns, Some ps) \<Rightarrow> (let cpu = sum_cpu (running_requests ps) 0; mem = sum_mem (running_requests ps) 0 in
       both [cpu_check (wrap64 (cpu + sd_cpu d)) cpu (sum_cpu ns 0), mem_check (f64_add mem (sd_mem d)) mem (sum_mem ns 0)])
   | _ \<Rightarrow> ([], []))"

definition quota_finding :: "bool \<Rightarrow> string \<Rightarrow> string \<Rightarrow> string \<Rightarrow> string \<Rightarrow> string \<Rightarrow> string \<Rightarrow> findings" where
  "quota_finding over quota what resource blocked text_of share = (
     (entry_if over \<lparr>sb_type = ''quota'', sb_detail = ''ResourceQuota '' @ quota @ '': '' @ blocked @ '' would exceed quota'', sb_resource = resource\<rparr>,
      [\<lparr>sc_name = ''Quota: '' @ quota @ '' '' @ what, sc_status = (if over then ''fail'' else ''pass''),
        sc_detail = text_of @ (if over then '' '' @ em_dash @ '' exceeds quota'' else share)\<rparr>]))"

definition quota_checks :: "scale_delta \<Rightarrow> sim_quota \<Rightarrow> findings" where
  "quota_checks d q = both
     [if 0 < sq_cpu_hard q then (let sim = wrap64 (sq_cpu_used q + sd_cpu d); t = show_int sim @ ''/'' @ show_int (sq_cpu_hard q) @ '' mCPU'' in
        quota_finding (sq_cpu_hard q < sim) (sq_name q) ''CPU'' ''cpu-quota'' (''CPU requests '' @ t) (''CPU requests '' @ t)
          ('' ('' @ share_text (f64_of_int sim) (f64_of_int (sq_cpu_hard q)) @ '')'')) else ([], []),
      if 0 < sq_mem_hard q then (let sim = f64_add (millions (sq_mem_used q)) (sd_mem d); hard = millions (sq_mem_hard q);
          t = fixed0 sim @ ''/'' @ fixed0 hard @ '' MB'' in
        quota_finding (hard < sim) (sq_name q) ''Memory'' ''memory-quota'' (''memory requests '' @ t) (''Memory requests '' @ t) []) else ([], []),
      if 0 < sq_pods_hard q then (let sim = wrap64 (sq_pods_used q + sd_replicas d); t = show_int sim @ ''/'' @ show_int (sq_pods_hard q) in
        quota_finding (sq_pods_hard q < sim) (sq_name q) ''Pods'' ''pod-quota'' (''pod count '' @ t) (''Pod count '' @ t) []) else ([], [])]"

definition pdb_checks :: "(string \<times> bool) list \<Rightarrow> sim_check list" where
  "pdb_checks bs = map (\<lambda>(name, sel). \<lparr>sc_name = ''PDB: '' @ name, sc_status = ''pass'',
     sc_detail = ''PDB exists '' @ em_dash @ '' MinAvailable/MaxUnavailable may affect future scale-down''\<rparr>) (filter snd bs)"

definition down_checks :: "int \<Rightarrow> int \<Rightarrow> sim_check list" where
  "down_checks current target = entry_if (target < current) \<lparr>sc_name = ''Scale-Down Safety'', sc_status = ''pass'',
     sc_detail = ''Scaling down from '' @ show_int current @ '' to '' @ show_int target @ '' '' @ em_dash @ '' ensure PDB and graceful shutdown''\<rparr>"

text \<open>The first autoscaler of the workload; a missing minimum that is read is a panic, \<open>None\<close>.\<close>

definition hpa_checks :: "string \<Rightarrow> int \<Rightarrow> sim_hpa list \<Rightarrow> sim_check list option" where
  "hpa_checks name target hs = (case find (\<lambda>h. sh_target h = name) hs of None \<Rightarrow> Some []
   | Some h \<Rightarrow>
      if sh_max h < target then Some [\<lparr>sc_name = ''HPA Conflict'', sc_status = ''warn'',
        sc_detail = ''HPA '' @ sh_name h @ '' has maxReplicas='' @ show_int (sh_max h) @ '' '' @ em_dash @ '' HPA may scale down after manual scale-up''\<rparr>]
      else map_option (\<lambda>m. [\<lparr>sc_name = ''HPA Alignment'', sc_status = ''pass'',
        sc_detail = ''Target '' @ show_int target @ '' is within HPA range (min='' @ show_int m @ '', max='' @ show_int (sh_max h) @ '')''\<rparr>]) (sh_min h))"

section \<open>The simulation\<close>

record scale_result =
  sr_current :: scale_state
  sr_simulated :: scale_state
  sr_delta :: scale_delta
  sr_checks :: "sim_check list"
  sr_blockers :: "sim_blocker list"
  sr_verdict :: string
  sr_suggestions :: "string list"

definition find_workload :: "sim_lists \<Rightarrow> string \<Rightarrow> sim_workload option" where
  "find_workload L name = (let look = (\<lambda>ws. find (\<lambda>w. sw_name w = name) (case ws of Some xs \<Rightarrow> xs | None \<Rightarrow> [])) in
     case look (sm_deployments L) of Some w \<Rightarrow> Some w | None \<Rightarrow> look (sm_stateful_sets L))"

definition sim_replicas :: "sim_workload \<Rightarrow> int" where
  "sim_replicas w = (case sw_replicas w of Some n \<Rightarrow> n | None \<Rightarrow> 1)"

definition scale_verdict :: "sim_blocker list \<Rightarrow> sim_check list \<Rightarrow> string" where
  "scale_verdict bs cs = (if bs \<noteq> [] then ''cannot-scale'' else if list_ex (\<lambda>c. sc_status c = ''warn'') cs then ''risky'' else ''can-scale'')"

definition scale_suggestions :: "string \<Rightarrow> int \<Rightarrow> string \<Rightarrow> sim_blocker list \<Rightarrow> scale_delta \<Rightarrow> string list" where
  "scale_suggestions name target verdict bs d = (let s = ''Scaling '' @ name @ '' to '' @ show_int target @ '' replicas '' in
     (if verdict = ''can-scale'' then [s @ ''is safe '' @ em_dash @ '' all checks passed'']
      else if verdict = ''risky'' then [s @ ''has warnings '' @ em_dash @ '' review before proceeding'']
      else (s @ ''is blocked by '' @ show_nat (length bs) @ '' issue(s):'') # map (\<lambda>b. ''  - ['' @ sb_type b @ ''] '' @ sb_detail b) bs) @
     (if 0 < sd_cpu d then [''Additional resources needed: +'' @ show_int (sd_cpu d) @ '' mCPU, +'' @ fixed0 (sd_mem d) @ '' MB memory'']
      else if sd_cpu d < 0 then [''Resources freed: '' @ show_int (wrap64 (- sd_cpu d)) @ '' mCPU, '' @ fixed0 (- sd_mem d) @ '' MB memory''] else []))"

definition simulate_scale :: "sim_lists \<Rightarrow> string \<Rightarrow> int \<Rightarrow> sim_workload \<Rightarrow> scale_result option" where
  "simulate_scale L name target w = (let current = sim_replicas w; d = delta_of w current target;
       (bs, cs) = both (node_checks L d # map (quota_checks d) (case sm_quotas L of Some qs \<Rightarrow> qs | None \<Rightarrow> []))
     in map_option (\<lambda>hs. let checks = cs @ pdb_checks (case sm_pdbs L of Some xs \<Rightarrow> xs | None \<Rightarrow> []) @ down_checks current target @ hs;
            v = scale_verdict bs checks
          in \<lparr>sr_current = state_at w current, sr_simulated = state_at w target, sr_delta = d, sr_checks = checks, sr_blockers = bs,
              sr_verdict = v, sr_suggestions = scale_suggestions name target v bs d\<rparr>)
        (hpa_checks name target (case sm_hpas L of Some xs \<Rightarrow> xs | None \<Rightarrow> [])))"

text \<open>The client reads the lists of a namespace; \<open>None\<close> is a panic. Numbers of pods are those of replicas.\<close>

definition handle_scale_simulator :: "(string \<Rightarrow> 'd \<Rightarrow> sim_lists) option \<Rightarrow> http_req \<Rightarrow> 'd \<Rightarrow> (http_resp + scale_result) option" where
  "handle_scale_simulator client rq d = (case client of
     None \<Rightarrow> Some (Inl (write_error 503 ''kubernetes client not available''))
   | Some read \<Rightarrow> (let name = rq_query rq ''workload''; ns = (if rq_query rq ''namespace'' = [] then ''default'' else rq_query rq ''namespace'') in
      if name = [] then Some (Inl (write_error 400 ''workload parameter is required''))
      else (case atoi (rq_query rq ''replicas'') of
          None \<Rightarrow> Some (Inl (write_error 400 ''replicas parameter must be a non-negative integer''))
        | Some target \<Rightarrow>
            if target < 0 then Some (Inl (write_error 400 ''replicas parameter must be a non-negative integer''))
            else (case find_workload (read ns d) name of
                None \<Rightarrow> Some (Inl (write_error 404 (''workload '' @ ns @ ''/'' @ name @ '' not found'')))
              | Some w \<Rightarrow> map_option Inr (simulate_scale (read ns d) name target w)))))"

section \<open>Lemmas\<close>

lemma verdict_blocked: "scale_verdict bs cs = ''cannot-scale'' \<longleftrightarrow> bs \<noteq> []"
  by (simp add: scale_verdict_def)

lemma both_fst: "fst (both fs) = [] \<longleftrightarrow> (\<forall>f \<in> set fs. fst f = [])"
  by (simp add: both_def)

text \<open>What a positive verdict promises: the requests fit the nodes, when these and the pods could be listed, and every quota.\<close>

definition quota_allows :: "scale_delta \<Rightarrow> sim_quota \<Rightarrow> bool" where
  "quota_allows d q \<longleftrightarrow>
     (0 < sq_cpu_hard q \<longrightarrow> wrap64 (sq_cpu_used q + sd_cpu d) \<le> sq_cpu_hard q) \<and>
     (0 < sq_mem_hard q \<longrightarrow> f64_add (millions (sq_mem_used q)) (sd_mem d) \<le> millions (sq_mem_hard q)) \<and>
     (0 < sq_pods_hard q \<longrightarrow> wrap64 (sq_pods_used q + sd_replicas d) \<le> sq_pods_hard q)"

lemma quota_checks_blockers: "fst (quota_checks d q) = [] \<longleftrightarrow> quota_allows d q"
  by (auto simp: quota_checks_def both_fst quota_allows_def quota_finding_def Let_def)

definition nodes_allow :: "sim_lists \<Rightarrow> scale_delta \<Rightarrow> bool" where
  "nodes_allow L d \<longleftrightarrow> (\<forall>ns ps. sm_nodes L = Some ns \<and> sm_pods L = Some ps \<longrightarrow>
     wrap64 (sum_cpu (running_requests ps) 0 + sd_cpu d) \<le> sum_cpu ns 0 \<and>
     f64_add (sum_mem (running_requests ps) 0) (sd_mem d) \<le> sum_mem ns 0)"

lemma node_checks_blockers: "fst (node_checks L d) = [] \<longleftrightarrow> nodes_allow L d"
  by (auto simp: node_checks_def nodes_allow_def both_fst cpu_check_def mem_check_def Let_def split: option.split)

theorem scale_blocked_exact:
  assumes "simulate_scale L name target w = Some r"
  shows "sr_verdict r = ''cannot-scale'' \<longleftrightarrow>
    \<not> (nodes_allow L (sr_delta r) \<and> (\<forall>qs. sm_quotas L = Some qs \<longrightarrow> list_all (quota_allows (sr_delta r)) qs))"
proof -
  define d where "d = delta_of w (sim_replicas w) target"
  define fs where "fs = node_checks L d # map (quota_checks d) (case sm_quotas L of Some qs \<Rightarrow> qs | None \<Rightarrow> [])"
  have r: "sr_delta r = d" "sr_verdict r = ''cannot-scale'' \<longleftrightarrow> fst (both fs) \<noteq> []"
    using assms by (auto simp: simulate_scale_def Let_def d_def[symmetric] fs_def[symmetric] verdict_blocked split: prod.splits)
  have "fst (both fs) = [] \<longleftrightarrow> nodes_allow L d \<and> (\<forall>qs. sm_quotas L = Some qs \<longrightarrow> list_all (quota_allows d) qs)"
    unfolding both_fst fs_def by (cases "sm_quotas L") (auto simp: node_checks_blockers quota_checks_blockers list_all_iff)
  then show ?thesis using r by simp
qed

text \<open>
  The milli-cores are multiplied with the number of replicas that was asked for, and wrap around: \<open>2 ^ 62\<close> further replicas of 4 milli-cores
  seem to need nothing, so that neither the nodes nor a quota of milli-cores is found too small.\<close>

lemma scale_delta_wraps:
  assumes "sw_requests w = [(4, 0)]"
  shows "sd_cpu (delta_of w 0 (2 ^ 62)) = 0" "sd_mem (delta_of w 0 (2 ^ 62)) = 0"
  using assms by (simp_all add: delta_of_def Let_def sum_cpu_def sum_mem_def millions_def f64_mul_def f64_div_def f64_add_def f64_of_int_def f64_def wrap64_def)

end
