(* ===== verification/Kahn.thy ===== *)
theory Kahn
  imports Go_Prelude "HOL-Library.Multiset"
begin

text \<open>
  The longest chain of a dependency graph (computeMaxDepth of internal/dashboard/
  handlers_service_topology.go): a breadth-first search from the nodes without incoming edges, which takes a
  node when its last incoming edge has been taken, and a guess for graphs with cycles.
\<close>

section \<open>The search\<close>

definition adj :: "(string \<times> string) list \<Rightarrow> string \<Rightarrow> string list" where
  "adj es u = map snd (filter (\<lambda>e. fst e = u) es)"

definition edge_nodes :: "(string \<times> string) list \<Rightarrow> string set" where
  "edge_nodes es = set (map fst es) \<union> set (map snd es)"

definition in_degree :: "(string \<times> string) list \<Rightarrow> string \<Rightarrow> int" where
  "in_degree es x = int (length (filter (\<lambda>e. snd e = x) es))"

text \<open>The loop over the neighbours of a node of depth \<open>d\<close>.\<close>

fun relax :: "nat \<Rightarrow> string list \<Rightarrow> (string \<Rightarrow> int) \<Rightarrow> (string \<times> nat) list \<Rightarrow> (string \<Rightarrow> int) \<times> (string \<times> nat) list" where
  "relax d [] deg q = (deg, q)"
| "relax d (v # vs) deg q = relax d vs (deg(v := deg v - 1)) (if deg v - 1 = 0 then q @ [(v, Suc d)] else q)"

definition open_degrees :: "(string \<times> string) list \<Rightarrow> (string \<Rightarrow> int) \<Rightarrow> nat" where
  "open_degrees es deg = (\<Sum>x \<in> set (map snd es). nat (deg x))"

lemma open_degrees_upd:
  assumes "v \<in> set (map snd es)"
  shows "open_degrees es (deg(v := deg v - 1)) + (if 0 < deg v then 1 else 0) = open_degrees es deg"
proof -
  have "open_degrees es f = (\<Sum>x \<in> set (map snd es) - {v}. nat (f x)) + nat (f v)" for f
    unfolding open_degrees_def by (subst sum.remove[OF _ assms]) auto
  then show ?thesis by auto
qed

lemma relax_measure:
  assumes "set vs \<subseteq> set (map snd es)" "relax d vs deg q = (deg1, q1)"
  shows "length q1 + open_degrees es deg1 \<le> length q + open_degrees es deg"
  using assms
proof (induction vs arbitrary: deg q)
  case (Cons v vs)
  then have "length q1 + open_degrees es deg1 \<le>
      length (if deg v - 1 = 0 then q @ [(v, Suc d)] else q) + open_degrees es (deg(v := deg v - 1))" by simp
  then show ?case using open_degrees_upd[of v es deg] Cons.prems(1) by (auto split: if_splits)
qed simp

lemma adj_targets: "set (adj es u) \<subseteq> set (map snd es)"
  by (auto simp: adj_def)

text \<open>The queue, the greatest depth so far and the number of nodes taken.\<close>

function kahn :: "(string \<times> string) list \<Rightarrow> (string \<Rightarrow> int) \<Rightarrow> (string \<times> nat) list \<Rightarrow> nat \<Rightarrow> nat \<Rightarrow> nat \<times> nat" where
  "kahn es deg [] depth taken = (depth, taken)"
| "kahn es deg ((u, d) # q) depth taken =
     (case relax d (adj es u) deg q of (deg1, q1) \<Rightarrow> kahn es deg1 q1 (if depth < d then d else depth) (Suc taken))"
  by pat_completeness auto
termination
  by (relation "measure (\<lambda>(es, deg, q, depth, taken). length q + open_degrees es deg)")
    (use relax_measure[OF adj_targets] in \<open>fastforce simp: less_Suc_eq_le\<close>)+

text \<open>\<open>nodes\<close> are the nodes of the edges, in the order in which Go's map gives them.\<close>

definition compute_max_depth :: "string list \<Rightarrow> (string \<times> string) list \<Rightarrow> nat" where
  "compute_max_depth nodes es =
     (case kahn es (in_degree es) (map (\<lambda>x. (x, 1)) (filter (\<lambda>x. in_degree es x = 0) nodes)) 0 0 of
        (depth, taken) \<Rightarrow> if taken < length nodes \<and> depth < length nodes then length nodes else depth)"

section \<open>Chains\<close>

fun chain :: "(string \<times> string) list \<Rightarrow> string list \<Rightarrow> bool" where
  "chain es [] \<longleftrightarrow> False"
| "chain es [x] \<longleftrightarrow> x \<in> edge_nodes es"
| "chain es (x # y # xs) \<longleftrightarrow> (x, y) \<in> set es \<and> chain es (y # xs)"

text \<open>\<open>d\<close> is the number of nodes on the longest chain that ends in \<open>x\<close>.\<close>

definition longest :: "(string \<times> string) list \<Rightarrow> string \<Rightarrow> nat \<Rightarrow> bool" where
  "longest es x d \<longleftrightarrow> (\<exists>xs. chain es xs \<and> last xs = x \<and> length xs = d) \<and> (\<forall>xs. chain es xs \<and> last xs = x \<longrightarrow> length xs \<le> d)"

lemma chain_snoc: "xs \<noteq> [] \<Longrightarrow> chain es (xs @ [x]) \<longleftrightarrow> chain es xs \<and> (last xs, x) \<in> set es"
proof (induction xs rule: chain.induct[of _ es])
  case (2 es y)
  then show ?case by (force simp: edge_nodes_def)
qed auto

lemma longest_source: "x \<in> edge_nodes es \<Longrightarrow> \<forall>u. (u, x) \<notin> set es \<Longrightarrow> longest es x 1"
proof -
  assume x: "x \<in> edge_nodes es" and none: "\<forall>u. (u, x) \<notin> set es"
  have "length xs \<le> 1" if "chain es xs" "last xs = x" for xs
  proof (cases xs rule: rev_cases)
    case (snoc ys y)
    then show ?thesis using that none chain_snoc[of ys es y] by (cases "ys = []") auto
  qed simp
  moreover have "chain es [x]" using x by simp
  ultimately show ?thesis unfolding longest_def by (metis last.simps length_Cons list.size(3) One_nat_def)
qed

lemma longest_step:
  assumes "longest es u d" "(u, x) \<in> set es" "\<And>v. (v, x) \<in> set es \<Longrightarrow> \<exists>k \<le> d. longest es v k"
  shows "longest es x (Suc d)"
proof -
  obtain xs where xs: "chain es xs" "last xs = u" "length xs = d" using assms(1) by (auto simp: longest_def)
  then have "xs \<noteq> []" by auto
  with xs assms(2) have "chain es (xs @ [x])" by (simp add: chain_snoc)
  moreover have "length ys \<le> Suc d" if "chain es ys" "last ys = x" for ys
  proof (cases ys rule: rev_cases)
    case (snoc zs z)
    show ?thesis
    proof (cases "zs = []")
      case False
      then have z: "chain es zs" "(last zs, x) \<in> set es" using that snoc chain_snoc[OF False] by auto
      from assms(3)[OF z(2)] obtain k where "k \<le> d" "longest es (last zs) k" by blast
      then have "length zs \<le> k" using z(1) by (simp add: longest_def)
      then have "length zs \<le> d" using \<open>k \<le> d\<close> by simp
      then show ?thesis using snoc by simp
    qed (simp add: snoc)
  qed simp
  ultimately show ?thesis using xs(3) unfolding longest_def by (metis last_snoc length_append_singleton)
qed

section \<open>Correctness\<close>

lemma relax_spec:
  "relax d vs deg q = (deg1, q1) \<Longrightarrow> deg1 = (\<lambda>x. deg x - int (count_list vs x)) \<and>
     (\<exists>ys. q1 = q @ map (\<lambda>x. (x, Suc d)) ys \<and> distinct ys \<and> set ys = {x \<in> set vs. 0 < deg x \<and> deg x \<le> int (count_list vs x)})"
proof (induction vs arbitrary: deg q)
  case (Cons v vs)
  let ?deg = "deg(v := deg v - 1)" and ?q = "if deg v - 1 = 0 then q @ [(v, Suc d)] else q"
  have d1: "deg1 = (\<lambda>x. ?deg x - int (count_list vs x))" and ex: "\<exists>ys. q1 = ?q @ map (\<lambda>x. (x, Suc d)) ys \<and> distinct ys \<and>
      set ys = {x \<in> set vs. 0 < ?deg x \<and> ?deg x \<le> int (count_list vs x)}"
    using Cons.IH[OF Cons.prems[unfolded relax.simps]] by blast+
  from ex obtain ys where ys: "q1 = ?q @ map (\<lambda>x. (x, Suc d)) ys" "distinct ys"
      "set ys = {x \<in> set vs. 0 < ?deg x \<and> ?deg x \<le> int (count_list vs x)}" by blast
  have c: "x \<in> set vs \<longleftrightarrow> 0 < count_list vs x" for x using count_list_0_iff[of vs x] by auto
  define zs where "zs = (if deg v - 1 = 0 then v # ys else ys)"
  have "q1 = q @ map (\<lambda>x. (x, Suc d)) zs" using ys(1) by (simp add: zs_def)
  moreover have "distinct zs" using ys(2,3) by (simp add: zs_def)
  moreover have "set zs = {x \<in> set (v # vs). 0 < deg x \<and> deg x \<le> int (count_list (v # vs) x)}"
  proof (rule set_eqI)
    fix x
    have m: "x \<in> set ys \<longleftrightarrow> x \<in> set vs \<and> 0 < ?deg x \<and> ?deg x \<le> int (count_list vs x)" using ys(3) by simp
    show "x \<in> set zs \<longleftrightarrow> x \<in> {x \<in> set (v # vs). 0 < deg x \<and> deg x \<le> int (count_list (v # vs) x)}"
      using m by (cases "x = v"; cases "deg v = 1") (auto simp: zs_def c)
  qed
  ultimately show ?case using d1 by auto
qed simp

definition open_edges :: "(string \<times> string) list \<Rightarrow> string set \<Rightarrow> string \<Rightarrow> int" where
  "open_edges es T x = int (length (filter (\<lambda>e. snd e = x \<and> fst e \<notin> T) es))"

lemma count_adj: "count_list (adj es u) x = length (filter (\<lambda>e. snd e = x \<and> fst e = u) es)"
  by (induction es) (auto simp: adj_def)

lemma open_edges_insert:
  assumes "u \<notin> T"
  shows "open_edges es (insert u T) x = open_edges es T x - int (count_list (adj es u) x)"
  unfolding open_edges_def count_adj using assms by (induction es) auto

lemma open_edges_0: "open_edges es T x = 0 \<longleftrightarrow> (\<forall>u. (u, x) \<in> set es \<longrightarrow> u \<in> T)"
  by (auto simp: open_edges_def filter_empty_conv)

text \<open>Between two rounds: \<open>p\<close> has the nodes that were taken, with their depths, \<open>q\<close> is the queue.\<close>

definition search_ok :: "(string \<times> string) list \<Rightarrow> (string \<times> nat) list \<Rightarrow> (string \<times> nat) list \<Rightarrow> (string \<Rightarrow> int) \<Rightarrow> bool" where
  "search_ok es p q deg \<longleftrightarrow> deg = open_edges es (fst ` set p) \<and> distinct (map fst (p @ q)) \<and>
     fst ` set (p @ q) = {x \<in> edge_nodes es. deg x = 0} \<and> (\<forall>(x, d) \<in> set (p @ q). longest es x d) \<and>
     sorted (map snd (p @ q)) \<and> (\<forall>(x, d) \<in> set q. d \<le> Suc (snd (hd q)))"

lemma search_step:
  assumes ok: "search_ok es p ((u, d) # q) deg" and v: "relax d (adj es u) deg q = (deg1, q1)"
  shows "search_ok es (p @ [(u, d)]) q1 deg1"
proof -
  let ?T = "fst ` set p" and ?c = "count_list (adj es u)"
  have deg: "deg = open_edges es ?T" and dist: "distinct (map fst (p @ (u, d) # q))"
    and dn: "fst ` set (p @ (u, d) # q) = {x \<in> edge_nodes es. deg x = 0}"
    and lng: "\<forall>(x, k) \<in> set (p @ (u, d) # q). longest es x k"
    and srt: "sorted (map snd (p @ (u, d) # q))" and near: "\<forall>(x, k) \<in> set q. k \<le> Suc d"
    using ok by (auto simp: search_ok_def)
  from relax_spec[OF v] obtain ys where d1: "deg1 = (\<lambda>x. deg x - int (?c x))" and q1: "q1 = q @ map (\<lambda>x. (x, Suc d)) ys"
    and ys: "distinct ys" "set ys = {x \<in> set (adj es u). 0 < deg x \<and> deg x \<le> int (?c x)}" by blast
  have u: "u \<notin> ?T" using dist by auto
  then have deg1: "deg1 = open_edges es (fst ` set (p @ [(u, d)]))" by (simp add: fun_eq_iff d1 deg open_edges_insert)
  have nn: "0 \<le> deg1 x" for x by (simp add: deg1 open_edges_def)
  have new: "set ys = {x \<in> edge_nodes es. deg1 x = 0 \<and> deg x \<noteq> 0}"
  proof (intro set_eqI iffI)
    fix x assume "x \<in> set ys"
    then have x: "x \<in> set (adj es u)" "0 < deg x" "deg x \<le> int (?c x)" using ys(2) by auto
    then have "deg1 x = 0" using nn[of x] by (simp add: d1)
    moreover have "x \<in> edge_nodes es" using x(1) adj_targets[of es u] by (auto simp: edge_nodes_def)
    ultimately show "x \<in> {x \<in> edge_nodes es. deg1 x = 0 \<and> deg x \<noteq> 0}" using x(2) by simp
  next
    fix x assume "x \<in> {x \<in> edge_nodes es. deg1 x = 0 \<and> deg x \<noteq> 0}"
    then have x: "deg1 x = 0" "deg x \<noteq> 0" by auto
    moreover have "0 \<le> deg x" by (simp add: deg open_edges_def)
    ultimately have "0 < deg x" "deg x = int (?c x)" by (simp_all add: d1)
    moreover from this have "x \<in> set (adj es u)" using count_list_0_iff[of "adj es u" x] by auto
    ultimately show "x \<in> set ys" by (simp add: ys(2))
  qed
  have mono: "deg x = 0 \<Longrightarrow> deg1 x = 0" for x using nn[of x] by (simp add: d1)
  have top: "k \<le> d" if "(x, k) \<in> set p" for x k using srt that by (auto simp: sorted_append)
  have "longest es x (Suc d)" if "x \<in> set ys" for x
  proof (rule longest_step)
    show "longest es u d" using lng by auto
    show "(u, x) \<in> set es" using that ys(2) by (auto simp: adj_def)
    fix w assume w: "(w, x) \<in> set es"
    have "open_edges es (fst ` set (p @ [(u, d)])) x = 0" using that new deg1 by auto
    with w have "w \<in> fst ` set (p @ [(u, d)])" by (auto simp: open_edges_0)
    then obtain k where k: "(w, k) \<in> set (p @ [(u, d)])" by (metis imageE prod.collapse)
    then have "longest es w k" using lng by auto
    moreover have "k \<le> d" using k top by auto
    ultimately show "\<exists>k \<le> d. longest es w k" by blast
  qed
  then have "\<forall>(x, k) \<in> set ((p @ [(u, d)]) @ q1). longest es x k" using lng by (auto simp: q1)
  moreover have "fst ` set ((p @ [(u, d)]) @ q1) = {x \<in> edge_nodes es. deg1 x = 0}"
  proof -
    have "fst ` set ((p @ [(u, d)]) @ q1) = fst ` set (p @ (u, d) # q) \<union> set ys"
      by (simp add: q1 image_Un image_image Un_assoc)
    then show ?thesis unfolding dn new using mono by auto
  qed
  moreover have "distinct (map fst ((p @ [(u, d)]) @ q1))"
  proof -
    have "set ys \<inter> fst ` set (p @ (u, d) # q) = {}" unfolding dn new by auto
    then show ?thesis using dist ys(1) by (auto simp: q1 comp_def)
  qed
  moreover have "sorted (map snd ((p @ [(u, d)]) @ q1))" using srt near
    by (auto simp: q1 sorted_append comp_def map_replicate_const)
  moreover have "\<forall>(x, k) \<in> set q1. k \<le> Suc (snd (hd q1))"
  proof (cases q)
    case (Cons a q2)
    then have "d \<le> snd (hd q)" using srt by (auto simp: sorted_append)
    then show ?thesis using near Cons by (auto simp: q1)
  next
    case Nil
    then show ?thesis by (cases ys) (auto simp: q1)
  qed
  ultimately show ?thesis unfolding search_ok_def using deg1 by blast
qed

lemma kahn_ok:
  assumes "search_ok es p q deg" "depth = fold max (map snd p) 0" "taken = length p"
  shows "\<exists>p1 deg1. search_ok es p1 [] deg1 \<and> kahn es deg q depth taken = (fold max (map snd p1) 0, length p1)"
  using assms
proof (induction es deg q depth taken arbitrary: p rule: kahn.induct)
  case (2 es deg u d q depth taken)
  obtain deg1 q1 where v: "relax d (adj es u) deg q = (deg1, q1)" by fastforce
  have "search_ok es (p @ [(u, d)]) q1 deg1" by (rule search_step[OF "2.prems"(1) v])
  moreover have "(if depth < d then d else depth) = fold max (map snd (p @ [(u, d)])) 0" using "2.prems"(2) by auto
  ultimately show ?case using "2.IH"[OF v[symmetric], of "p @ [(u, d)]"] v "2.prems"(3) by simp
qed auto

lemma fst_imageD: "x \<in> fst ` S \<Longrightarrow> \<exists>d. (x, d) \<in> S"
  by force

lemma search_okD:
  assumes "search_ok es p [] deg"
  shows "deg = open_edges es (fst ` set p)" "distinct (map fst p)" "fst ` set p = {x \<in> edge_nodes es. deg x = 0}"
    and "(x, d) \<in> set p \<Longrightarrow> longest es x d"
proof -
  have l: "\<forall>(x, d) \<in> set p. longest es x d"
    by (insert assms[unfolded search_ok_def append_Nil2]) (elim conjE, assumption)
  show "deg = open_edges es (fst ` set p)" "distinct (map fst p)" "fst ` set p = {x \<in> edge_nodes es. deg x = 0}"
    by (insert assms[unfolded search_ok_def append_Nil2]) (elim conjE, assumption)+
  show "longest es x d" if "(x, d) \<in> set p" using bspec[OF l that] by simp
qed

lemma kahn_result:
  assumes "distinct nodes" "set nodes = edge_nodes es"
  shows "\<exists>p. search_ok es p [] (open_edges es (fst ` set p)) \<and>
    compute_max_depth nodes es = (if length p < length nodes \<and> fold max (map snd p) 0 < length nodes then length nodes else fold max (map snd p) 0)"
proof -
  let ?q = "map (\<lambda>x. (x, 1::nat)) (filter (\<lambda>x. in_degree es x = 0) nodes)"
  have e: "in_degree es = open_edges es {}" by (simp add: fun_eq_iff in_degree_def open_edges_def)
  have "longest es x 1" if "x \<in> edge_nodes es" "in_degree es x = 0" for x
    using that by (intro longest_source) (auto simp: e open_edges_0)
  moreover have "sorted (map snd ?q)" by (simp add: comp_def sorted_iff_nth_mono)
  ultimately have "search_ok es [] ?q (in_degree es)" using assms
    by (auto simp: search_ok_def e comp_def image_iff)
  from kahn_ok[OF this, of 0 0] obtain p1 deg1 where "search_ok es p1 [] deg1"
      "kahn es (in_degree es) ?q 0 0 = (fold max (map snd p1) 0, length p1)" by auto
  moreover note search_okD(1)[OF this(1)]
  ultimately show ?thesis by (intro exI[of _ p1]) (simp add: compute_max_depth_def)
qed

lemma fold_max_ge: "(x :: nat) \<in> set xs \<Longrightarrow> x \<le> fold max xs m" "m \<le> fold max xs m"
proof (induction xs arbitrary: m)
  case (Cons y ys)
  { case 1 then show ?case using Cons(2)[of "max y m"] Cons(1)[of "max y m"] by auto }
  { case 2 then show ?case using Cons(2)[of "max y m"] by simp }
qed simp_all

lemma fold_max_in: "fold max xs m \<in> insert m (set (xs :: nat list))"
  by (induction xs arbitrary: m) (force simp: max_def)+

text \<open>When nothing is left, every node of a graph without cycles has been taken.\<close>

lemma all_taken:
  assumes "search_ok es p [] deg" "acyclic (set es)"
  shows "fst ` set p = edge_nodes es"
proof (rule ccontr)
  assume "fst ` set p \<noteq> edge_nodes es"
  moreover note sub = search_okD(3)[OF assms(1)] and deg = search_okD(1)[OF assms(1)]
  moreover have "fst ` set p \<subseteq> edge_nodes es" unfolding sub by (rule Collect_subset)
  ultimately have "edge_nodes es - fst ` set p \<noteq> {}" by blast
  then obtain x where "x \<in> edge_nodes es - fst ` set p" by blast
  moreover have "wf (set es)" using assms(2) by (simp add: finite_acyclic_wf)
  ultimately obtain z where z: "z \<in> edge_nodes es - fst ` set p" "\<And>u. (u, z) \<in> set es \<Longrightarrow> u \<notin> edge_nodes es - fst ` set p"
    using wfE_min[of "set es" x "edge_nodes es - fst ` set p"] by blast
  have "deg z \<noteq> 0" using z(1) sub by auto
  then obtain u where u: "(u, z) \<in> set es" "u \<notin> fst ` set p" by (auto simp: deg open_edges_0)
  then have "u \<in> edge_nodes es" by (force simp: edge_nodes_def)
  with u z(2) show False by blast
qed

lemma chain_last: "chain es xs \<Longrightarrow> last xs \<in> edge_nodes es"
  by (induction xs rule: chain.induct[of _ es]) auto

lemma chain_extend: "(x, y) \<in> (set es)\<^sup>+ \<Longrightarrow> chain es xs \<Longrightarrow> last xs = x \<Longrightarrow> \<exists>ys. chain es ys \<and> last ys = y \<and> length xs < length ys"
proof (induction arbitrary: xs rule: trancl_induct)
  case (base y)
  then have "xs \<noteq> []" by auto
  with base show ?case by (intro exI[of _ "xs @ [y]"]) (simp add: chain_snoc)
next
  case (step y z)
  then obtain ys where ys: "chain es ys" "last ys = y" "length xs < length ys" by blast
  then have "ys \<noteq> []" by auto
  with ys step show ?case by (intro exI[of _ "ys @ [z]"]) (simp add: chain_snoc)
qed

lemma cyclic_not_longest: "(x, x) \<in> (set es)\<^sup>+ \<Longrightarrow> \<not> longest es x d"
proof
  assume c: "(x, x) \<in> (set es)\<^sup>+" and "longest es x d"
  then obtain xs where "chain es xs" "last xs = x" "length xs = d" and up: "\<And>ys. chain es ys \<Longrightarrow> last ys = x \<Longrightarrow> length ys \<le> d"
    by (auto simp: longest_def)
  from chain_extend[OF c this(1,2)] up this(3) show False by fastforce
qed

text \<open>Without cycles the result is the number of nodes on a longest chain; with a cycle it is at least the number of nodes.\<close>

lemma max_depth_longest:
  assumes "distinct nodes" "set nodes = edge_nodes es"
  shows "acyclic (set es) \<Longrightarrow> chain es xs \<Longrightarrow> length xs \<le> compute_max_depth nodes es"
    and "acyclic (set es) \<Longrightarrow> es \<noteq> [] \<Longrightarrow> \<exists>xs. chain es xs \<and> length xs = compute_max_depth nodes es"
    and "\<not> acyclic (set es) \<Longrightarrow> length nodes \<le> compute_max_depth nodes es"
proof -
  from kahn_result[OF assms] obtain p where ok: "search_ok es p [] (open_edges es (fst ` set p))" and res: "compute_max_depth nodes es =
      (if length p < length nodes \<and> fold max (map snd p) 0 < length nodes then length nodes else fold max (map snd p) 0)" by blast
  note dist = search_okD(2)[OF ok] and lng = search_okD(4)[OF ok]
  have len: "length p = card (fst ` set p)" "length nodes = card (edge_nodes es)"
    using dist assms distinct_card[of "map fst p"] distinct_card[of nodes] by simp_all
  { assume ac: "acyclic (set es)"
    have all: "fst ` set p = edge_nodes es" by (rule all_taken[OF ok ac])
    then have r: "compute_max_depth nodes es = fold max (map snd p) 0" using len res by simp
    show "length xs \<le> compute_max_depth nodes es" if "chain es xs"
    proof -
      have "last xs \<in> fst ` set p" unfolding all by (rule chain_last[OF that])
      then obtain d where d: "(last xs, d) \<in> set p" by (rule fst_imageD[THEN exE])
      have "length xs \<le> d" using lng[OF d] that by (simp add: longest_def)
      also have "d \<le> fold max (map snd p) 0" using d by (intro fold_max_ge) force
      finally show ?thesis using r by simp
    qed
    show "\<exists>xs. chain es xs \<and> length xs = compute_max_depth nodes es" if ne: "es \<noteq> []"
    proof -
      obtain x where "x \<in> edge_nodes es" using ne by (cases es) (auto simp: edge_nodes_def)
      then have "x \<in> fst ` set p" unfolding all .
      then obtain d where d: "(x, d) \<in> set p" by (rule fst_imageD[THEN exE])
      have "d \<noteq> 0" using lng[OF d] by (auto simp: longest_def)
      moreover have "d \<le> fold max (map snd p) 0" using d by (intro fold_max_ge) force
      ultimately have "fold max (map snd p) 0 \<in> set (map snd p)" using fold_max_in[of "map snd p" 0] by auto
      then obtain y where "(y, fold max (map snd p) 0) \<in> set p" by auto
      from lng[OF this] show ?thesis using r by (auto simp: longest_def)
    qed }
  assume "\<not> acyclic (set es)"
  then obtain x where x: "(x, x) \<in> (set es)\<^sup>+" by (auto simp: acyclic_def)
  have sub: "fst ` set p \<subseteq> edge_nodes es" by (rule ord_eq_le_trans[OF search_okD(3)[OF ok] Collect_subset])
  have "x \<notin> fst ` set p"
  proof
    assume "x \<in> fst ` set p"
    then obtain d where "(x, d) \<in> set p" by (rule fst_imageD[THEN exE])
    from lng[OF this] show False using cyclic_not_longest[OF x] by blast
  qed
  moreover have "x \<in> edge_nodes es" using x by (induction rule: trancl_induct) (force simp: edge_nodes_def)+
  ultimately have "card (fst ` set p) < card (edge_nodes es)" using sub by (intro psubset_card_mono) (auto simp: edge_nodes_def)
  then show "length nodes \<le> compute_max_depth nodes es" using res len by auto
qed

lemma compute_max_depth_Nil [simp]: "compute_max_depth [] [] = 0"
  by (simp add: compute_max_depth_def)

text \<open>C39. The depth of a dependency graph is the number of nodes on a longest chain: for every order in which the map gives the nodes
  the search ends, and if the graph has no cycle its result is the length of some chain and no chain is longer; if it has a cycle,
  the result is at least the number of nodes.\<close>

theorem depth_is_longest_chain:
  assumes "distinct nodes" "set nodes = edge_nodes es" "es \<noteq> []"
  shows "if acyclic (set es) then (\<exists>xs. chain es xs \<and> length xs = compute_max_depth nodes es) \<and>
      (\<forall>xs. chain es xs \<longrightarrow> length xs \<le> compute_max_depth nodes es)
    else length nodes \<le> compute_max_depth nodes es"
  using max_depth_longest[OF assms(1,2)] assms(3) by simp

theorem depth_is_longest_chain_witness:
  "compute_max_depth [''d'', ''c'', ''b'', ''a''] [(''a'', ''b''), (''a'', ''d''), (''b'', ''c''), (''c'', ''d''), (''b'', ''d'')] = 4 \<and>
   2 \<le> compute_max_depth [''a'', ''b''] [(''a'', ''b''), (''b'', ''a'')]"
proof -
  let ?es = "[(''a'', ''b''), (''b'', ''a'')]"
  have "(''a'', ''a'') \<in> (set ?es)\<^sup>+" by (rule trancl_into_trancl[of _ "''b''"]) auto
  then have cyc: "\<not> acyclic (set ?es)" by (auto simp: acyclic_def)
  have "distinct [''a'', ''b'']" "set [''a'', ''b''] = edge_nodes ?es" "?es \<noteq> []" by (auto simp: edge_nodes_def)
  from depth_is_longest_chain[OF this, unfolded if_not_P[OF cyc]]
  have "2 \<le> compute_max_depth [''a'', ''b''] ?es" by simp
  moreover have "compute_max_depth [''d'', ''c'', ''b'', ''a''] [(''a'', ''b''), (''a'', ''d''), (''b'', ''c''), (''c'', ''d''), (''b'', ''d'')] = 4"
    by code_simp
  ultimately show ?thesis by simp
qed

end
