(* ===== verification/Service_Topology.thy ===== *)
theory Service_Topology
  imports Analysis Kahn "HOL-Library.List_Lexorder" "HOL-Library.Char_ord"
begin

text \<open>
  The dependency graph of services (internal/dashboard/handlers_service_topology.go): references to services in
  the environment of workloads, the fan-in and fan-out, hubs, orphans, isolated workloads, risks, recommendations and the
  health score. Ids of workloads and services differ, as the API server sees to; \<open>'sel\<close> is the type of the
  expressions of label selectors. Services are given in the order in which Go's map of names yields them.
\<close>

section \<open>Workloads and services\<close>

datatype topo_kind = Deployment | StatefulSet | DaemonSet

definition kind_text :: "topo_kind \<Rightarrow> string" where
  "kind_text k = (case k of Deployment \<Rightarrow> ''Deployment'' | StatefulSet \<Rightarrow> ''StatefulSet'' | DaemonSet \<Rightarrow> ''DaemonSet'')"

text \<open>A label selector (handlers_dependency.go); \<open>compile\<close> is the library's \<open>LabelSelectorAsSelector\<close> followed by \<open>Matches\<close>.\<close>

record 'sel label_selector =
  sl_labels :: "(string \<times> string) list"
  sl_expressions :: "'sel list"

definition label_selector_matches :: "('sel label_selector \<Rightarrow> ((string \<times> string) list \<Rightarrow> bool) option) \<Rightarrow> 'sel label_selector \<Rightarrow>
    (string \<times> string) list \<Rightarrow> bool" where
  "label_selector_matches compile x ls = (if sl_labels x = [] \<and> sl_expressions x = [] then False else
     case compile x of Some f \<Rightarrow> f ls | None \<Rightarrow> False)"

text \<open>The environment variables of all containers, then of the init containers: the value and the path of a field reference.\<close>

record 'sel topo_workload =
  tw_kind :: topo_kind
  tw_namespace :: string
  tw_name :: string
  tw_replicas :: "int option"
  tw_env :: "(string \<times> string option) list"
  tw_selector :: "'sel label_selector option"

record topo_service =
  ts_namespace :: string
  ts_name :: string
  ts_type :: string
  ts_selector :: "(string \<times> string) list"

definition topo_id :: "string \<Rightarrow> string \<Rightarrow> string \<Rightarrow> string" where
  "topo_id kind ns name = kind @ ''/'' @ ns @ ''/'' @ name"

definition workload_id :: "'sel topo_workload \<Rightarrow> string" where
  "workload_id w = topo_id (kind_text (tw_kind w)) (tw_namespace w) (tw_name w)"

definition service_id :: "topo_service \<Rightarrow> string" where
  "service_id s = topo_id ''Service'' (ts_namespace s) (ts_name s)"

definition tracked :: "topo_service \<Rightarrow> bool" where
  "tracked s \<longleftrightarrow> ts_type s \<noteq> ''ExternalName''"

section \<open>References\<close>

definition env_value :: "string \<times> string option \<Rightarrow> string" where
  "env_value = (\<lambda>(v, field). case field of Some path \<Rightarrow> path | None \<Rightarrow> v)"

text \<open>The namespace and the name in front of \<open>.svc\<close>, without a protocol and user information.\<close>

definition behind :: "string \<Rightarrow> string \<Rightarrow> string" where
  "behind mark s = (case index_of mark s of Some i \<Rightarrow> drop (i + length mark) s | None \<Rightarrow> s)"

definition dns_reference :: "string \<Rightarrow> (string \<times> string) option" where
  "dns_reference v = (case index_of ''.svc'' v of
     Some i \<Rightarrow>
       let parts = split_on (CHR ''.'') (behind ''@'' (behind ''://'' (take i v))) in
       if 0 < i \<and> 2 \<le> length parts then Some (last parts, last (butlast parts)) else None
   | None \<Rightarrow> None)"

definition add_dep :: "(string \<times> string) list \<Rightarrow> string \<times> string \<Rightarrow> (string \<times> string) list" where
  "add_dep deps x = (if (fst x @ ''/'' @ snd x) \<in> (\<lambda>y. fst y @ ''/'' @ snd y) ` set deps then deps else deps @ [x])"

definition known_service :: "topo_service list \<Rightarrow> string \<times> string \<Rightarrow> bool" where
  "known_service svcs x \<longleftrightarrow> list_ex (\<lambda>s. (ts_namespace s, ts_name s) = x) svcs"

definition bare_references :: "topo_service list \<Rightarrow> 'sel topo_workload \<Rightarrow> string \<Rightarrow> (string \<times> string) list" where
  "bare_references svcs w v = map (\<lambda>s. (ts_namespace s, ts_name s)) (filter (\<lambda>s. ts_namespace s = tw_namespace w \<and>
     ts_name s \<noteq> tw_name w \<and> (v = ts_name s \<or> contains v (ts_name s))) svcs)"

definition find_service_refs :: "topo_service list \<Rightarrow> 'sel topo_workload \<Rightarrow> string \<Rightarrow> (string \<times> string) list \<Rightarrow> (string \<times> string) list" where
  "find_service_refs svcs w value deps = (case dns_reference (to_lower value) of
     Some x \<Rightarrow> if known_service svcs x then add_dep deps x else deps
   | None \<Rightarrow> foldl add_dep deps (bare_references svcs w (to_lower value)))"

definition extract_service_dependencies :: "topo_service list \<Rightarrow> 'sel topo_workload \<Rightarrow> (string \<times> string) list" where
  "extract_service_dependencies svcs w = fold (\<lambda>e deps. if env_value e = [] then deps else find_service_refs svcs w (env_value e) deps)
     (tw_env w) []"

section \<open>The graph\<close>

record topo_edge =
  te_from :: string
  te_to :: string
  te_cross :: bool

definition workload_edges :: "topo_service list \<Rightarrow> 'sel topo_workload \<Rightarrow> topo_edge list" where
  "workload_edges svcs w = map (\<lambda>(ns, name). \<lparr>te_from = workload_id w, te_to = topo_id ''Service'' ns name, te_cross = ns \<noteq> tw_namespace w\<rparr>)
     (filter (\<lambda>(ns, name). list_ex (\<lambda>s. tracked s \<and> service_id s = topo_id ''Service'' ns name) svcs) (extract_service_dependencies svcs w))"

definition add_edge :: "topo_edge list \<Rightarrow> topo_edge \<Rightarrow> topo_edge list" where
  "add_edge es e = (if list_ex (\<lambda>x. te_from x = te_from e \<and> te_to x = te_to e) es then es else es @ [e])"

definition build_edges :: "topo_service list \<Rightarrow> 'sel topo_workload list \<Rightarrow> topo_edge list" where
  "build_edges svcs ws = foldl add_edge [] (concat (map (workload_edges svcs) ws))"

definition fan_out :: "topo_edge list \<Rightarrow> string \<Rightarrow> nat" where
  "fan_out es i = how_many (\<lambda>e. te_from e = i) es"

definition fan_in :: "topo_edge list \<Rightarrow> string \<Rightarrow> nat" where
  "fan_in es i = how_many (\<lambda>e. te_to e = i) es"

record topo_node =
  tn_id :: string
  tn_kind :: string
  tn_name :: string
  tn_namespace :: string
  tn_fan_out :: nat
  tn_fan_in :: nat
  tn_criticality :: string
  tn_replicas :: int
  tn_ha :: bool

definition criticality :: "nat \<Rightarrow> string" where
  "criticality n = (if 10 \<le> n then ''critical'' else if 5 \<le> n then ''high'' else if 2 \<le> n then ''medium'' else ''low'')"

definition replicas_int :: "'sel topo_workload \<Rightarrow> int" where
  "replicas_int w = (case tw_replicas w of Some n \<Rightarrow> n | None \<Rightarrow> 1)"

definition make_node :: "topo_edge list \<Rightarrow> string \<Rightarrow> string \<Rightarrow> string \<Rightarrow> string \<Rightarrow> int \<Rightarrow> bool \<Rightarrow> topo_node" where
  "make_node es i kind name ns replicas ha = \<lparr>tn_id = i, tn_kind = kind, tn_name = name, tn_namespace = ns, tn_fan_out = fan_out es i,
     tn_fan_in = fan_in es i, tn_criticality = criticality (fan_in es i), tn_replicas = replicas, tn_ha = ha\<rparr>"

definition workload_node :: "topo_edge list \<Rightarrow> 'sel topo_workload \<Rightarrow> topo_node" where
  "workload_node es w = make_node es (workload_id w) (kind_text (tw_kind w)) (tw_name w) (tw_namespace w) (replicas_int w) (1 < replicas_int w)"

text \<open>The node of a service has no replicas; it counts as highly available when the service has no selector.\<close>

definition service_node :: "topo_edge list \<Rightarrow> topo_service \<Rightarrow> topo_node" where
  "service_node es s = make_node es (service_id s) ''Service'' (ts_name s) (ts_namespace s) 0 (ts_selector s = [])"

text \<open>By fan-in, the greatest first, then by id.\<close>

definition topo_nodes :: "topo_edge list \<Rightarrow> topo_service list \<Rightarrow> 'sel topo_workload list \<Rightarrow> topo_node list" where
  "topo_nodes es svcs ws = sort_key (\<lambda>n. - int (tn_fan_in n)) (sort_key tn_id
     (map (workload_node es) ws @ map (service_node es) (filter tracked svcs)))"

definition shown_edges :: "topo_edge list \<Rightarrow> topo_edge list" where
  "shown_edges es = (if 500 < length es then take 500 (filter (\<lambda>e. 2 \<le> fan_in es (te_to e)) es) else es)"

section \<open>Hubs, orphans and isolated workloads\<close>

record topo_hub =
  hb_id :: string
  hb_name :: string
  hb_namespace :: string
  hb_kind :: string
  hb_fan_in :: nat
  hb_dependents :: "string list"
  hb_ha :: bool
  hb_replicas :: int
  hb_risk :: string

definition hub_risk :: "bool \<Rightarrow> nat \<Rightarrow> string" where
  "hub_risk ha n = (if \<not> ha \<and> 3 \<le> n then ''critical'' else if \<not> ha \<and> 2 \<le> n then ''high'' else if 5 \<le> n then ''high''
     else if 3 \<le> n then ''medium'' else ''low'')"

definition hub_of :: "topo_edge list \<Rightarrow> topo_node \<Rightarrow> topo_hub" where
  "hub_of es n = \<lparr>hb_id = tn_id n, hb_name = tn_name n, hb_namespace = tn_namespace n, hb_kind = tn_kind n, hb_fan_in = tn_fan_in n,
     hb_dependents = map te_from (filter (\<lambda>e. te_to e = tn_id n) es), hb_ha = tn_ha n, hb_replicas = tn_replicas n,
     hb_risk = hub_risk (tn_ha n) (tn_fan_in n)\<rparr>"

definition critical_hubs :: "topo_hub slice_sort \<Rightarrow> topo_edge list \<Rightarrow> topo_node list \<Rightarrow> topo_hub list" where
  "critical_hubs srt es ns = take 30 (srt (\<lambda>a b. hb_fan_in b < hb_fan_in a) (map (hub_of es) (filter (\<lambda>n. 1 \<le> tn_fan_in n) ns)))"

definition selects :: "('sel label_selector \<Rightarrow> (string \<times> string) list \<Rightarrow> bool) \<Rightarrow> topo_service \<Rightarrow> 'sel topo_workload \<Rightarrow> bool" where
  "selects matches s w \<longleftrightarrow> tw_namespace w = ts_namespace s \<and> ts_selector s \<noteq> [] \<and>
     (case tw_selector w of Some x \<Rightarrow> matches x (ts_selector s) | None \<Rightarrow> False)"

definition orphans :: "('sel label_selector \<Rightarrow> (string \<times> string) list \<Rightarrow> bool) \<Rightarrow> topo_service list \<Rightarrow> 'sel topo_workload list \<Rightarrow> topo_service list" where
  "orphans matches svcs ws = filter (\<lambda>s. tracked s \<and> ts_selector s \<noteq> [] \<and> \<not> list_ex (selects matches s) ws) svcs"

definition isolated :: "('sel label_selector \<Rightarrow> (string \<times> string) list \<Rightarrow> bool) \<Rightarrow> topo_edge list \<Rightarrow> topo_service list \<Rightarrow> 'sel topo_workload list \<Rightarrow>
    'sel topo_workload list" where
  "isolated matches es svcs ws = take 50 (filter (\<lambda>w. fan_out es (workload_id w) = 0 \<and> \<not> list_ex (\<lambda>s. selects matches s w) svcs) ws)"

section \<open>Summary, risks and recommendations\<close>

record topo_summary =
  tz_workloads :: nat
  tz_services :: nat
  tz_edges :: nat
  tz_cross :: nat
  tz_max_depth :: nat
  tz_critical :: nat
  tz_orphans :: nat
  tz_isolated :: nat
  tz_avg_fan_out :: rat
  tz_avg_fan_in :: rat

record topo_risk =
  tr_severity :: string
  tr_category :: string
  tr_resource :: string
  tr_issue :: string
  tr_affected :: nat

definition hub_risks :: "topo_hub \<Rightarrow> topo_risk list" where
  "hub_risks h =
     (if \<not> hb_ha h \<and> 1 \<le> hb_fan_in h then
        [\<lparr>tr_severity = ''critical'', tr_category = ''single-point-of-failure'', tr_resource = hb_namespace h @ ''/'' @ hb_name h,
          tr_issue = hb_kind h @ '' '' @ hb_name h @ '' has '' @ show_nat (hb_fan_in h) @ '' dependent workloads but only '' @
            show_int (hb_replicas h) @ '' replica(s) '' @ em_dash @ '' failure will cascade'', tr_affected = hb_fan_in h\<rparr>]
      else entry_if (5 \<le> hb_fan_in h)
        \<lparr>tr_severity = ''warning'', tr_category = ''high-fan-in'', tr_resource = hb_namespace h @ ''/'' @ hb_name h,
          tr_issue = hb_kind h @ '' '' @ hb_name h @ '' is a critical hub with '' @ show_nat (hb_fan_in h) @ '' dependents '' @ em_dash @
            '' ensure HA and monitoring'', tr_affected = hb_fan_in h\<rparr>)"

definition service_topology_risks :: "topo_hub list \<Rightarrow> topo_summary \<Rightarrow> topo_risk list" where
  "service_topology_risks hubs z = concat (map hub_risks hubs) @
     entry_if (0 < tz_cross z) \<lparr>tr_severity = ''info'', tr_category = ''cross-namespace-dependency'', tr_resource = ''cluster-wide'',
       tr_issue = show_nat (tz_cross z) @ '' cross-namespace service dependencies detected '' @ em_dash @ '' ensure NetworkPolicy coverage'',
       tr_affected = tz_cross z\<rparr> @
     entry_if (0 < tz_orphans z) \<lparr>tr_severity = ''warning'', tr_category = ''orphan-service'', tr_resource = show_nat (tz_orphans z) @ '' services'',
       tr_issue = ''Services with selectors but no matching workloads '' @ em_dash @ '' dead endpoints that may cause silent failures'',
       tr_affected = tz_orphans z\<rparr> @
     entry_if (5 < tz_max_depth z) \<lparr>tr_severity = ''warning'', tr_category = ''deep-dependency-chain'', tr_resource = ''cluster-wide'',
       tr_issue = ''Dependency chain depth is '' @ show_nat (tz_max_depth z) @ '' '' @ em_dash @ '' deep chains amplify cascade failures'',
       tr_affected = tz_max_depth z\<rparr>"

definition service_topology_recommendations :: "topo_hub list \<Rightarrow> topo_summary \<Rightarrow> string list" where
  "service_topology_recommendations hubs z = (let spof = how_many (\<lambda>h. \<not> hb_ha h \<and> 2 \<le> hb_fan_in h) hubs;
       pct = tz_isolated z * 100 div max (tz_workloads z) 1;
       recs = entry_if (0 < spof) (show_nat spof @ '' single point(s) of failure detected '' @ em_dash @
           '' services with multiple dependents but no HA. Scale up replicas to at least 2'') @
         (case hubs of [] \<Rightarrow> [] | h # _ \<Rightarrow> [''Service '' @ dquote @ hb_name h @ dquote @ '' in '' @ hb_namespace h @ '' is the most critical hub ('' @
           show_nat (hb_fan_in h) @ '' dependents) '' @ em_dash @ '' prioritize its monitoring and alerting'']) @
         entry_if (0 < tz_cross z) (show_nat (tz_cross z) @ '' cross-namespace dependencies '' @ em_dash @
           '' verify NetworkPolicy rules allow inter-namespace traffic'') @
         entry_if (0 < tz_orphans z) (show_nat (tz_orphans z) @ '' orphan service(s) with no backing workload '' @ em_dash @
           '' clean up stale Services or fix workload selectors'') @
         entry_if (5 < tz_max_depth z) (''Maximum dependency depth is '' @ show_nat (tz_max_depth z) @ '' '' @ em_dash @
           '' consider decoupling long chains with events/queues to reduce cascade risk'') @
         entry_if (0 < tz_isolated z \<and> 0 < tz_workloads z \<and> 30 < pct) (show_nat pct @ ''% of workloads ('' @ show_nat (tz_isolated z) @
           '') are isolated with no service dependencies '' @ em_dash @ '' verify this is intentional'')
     in recs @ entry_if (recs = [] \<and> 0 < tz_workloads z) (''Service topology is healthy '' @ em_dash @
           '' no critical hubs, single points of failure, or orphaned services detected''))"

definition topology_score :: "topo_hub list \<Rightarrow> topo_summary \<Rightarrow> int" where
  "topology_score hubs z = (let score = 100 - (\<Sum>h\<leftarrow>hubs. if \<not> hb_ha h \<and> 3 \<le> hb_fan_in h then 10 else if \<not> hb_ha h \<and> 2 \<le> hb_fan_in h then 5 else 0)
       - int (tz_orphans z) * 2 - (if tz_workloads z div 3 < tz_isolated z \<and> 3 < tz_workloads z then 5 else 0)
     in if score < 0 then 0 else score)"

record 'sel topo_result =
  tt_summary :: topo_summary
  tt_nodes :: "topo_node list"
  tt_edges :: "topo_edge list"
  tt_hubs :: "topo_hub list"
  tt_orphans :: "topo_service list"
  tt_isolated :: "'sel topo_workload list"
  tt_risks :: "topo_risk list"
  tt_recs :: "string list"
  tt_score :: int

text \<open>\<open>order\<close> gives the nodes of the edges in the order of Go's map.\<close>

record 'sel topo_env =
  tv_compile :: "'sel label_selector \<Rightarrow> ((string \<times> string) list \<Rightarrow> bool) option"
  tv_order :: "string list \<Rightarrow> string list"
  tv_sort :: "topo_hub slice_sort"

definition edge_pairs :: "topo_edge list \<Rightarrow> (string \<times> string) list" where
  "edge_pairs es = map (\<lambda>e. (te_from e, te_to e)) es"

definition topo_summarize :: "'sel topo_env \<Rightarrow> topo_edge list \<Rightarrow> topo_service list \<Rightarrow> 'sel topo_workload list \<Rightarrow> topo_summary" where
  "topo_summarize V es svcs ws = (let ns = topo_nodes es svcs ws; ps = edge_pairs es in
     \<lparr>tz_workloads = length ws, tz_services = length (filter tracked svcs), tz_edges = length es, tz_cross = how_many te_cross es,
      tz_max_depth = compute_max_depth (tv_order V (remdups (map fst ps @ map snd ps))) ps,
      tz_critical = how_many (\<lambda>n. tn_criticality n = ''critical'' \<or> tn_criticality n = ''high'') ns,
      tz_orphans = length (orphans (label_selector_matches (tv_compile V)) svcs ws), tz_isolated = length (isolated (label_selector_matches (tv_compile V)) es svcs ws),
      tz_avg_fan_out = (if ws = [] then 0 else f64_div (f64_of_int (int (sum_list (map tn_fan_out ns)))) (f64_of_int (int (length ws)))),
      tz_avg_fan_in = (if ns = [] then 0 else f64_div (f64_of_int (int (sum_list (map tn_fan_in ns)))) (f64_of_int (int (length ns))))\<rparr>)"

definition service_topology :: "'sel topo_env \<Rightarrow> topo_service list \<Rightarrow> 'sel topo_workload list \<Rightarrow> 'sel topo_result" where
  "service_topology V svcs ws = (let es = build_edges svcs ws; ns = topo_nodes es svcs ws; hubs = critical_hubs (tv_sort V) es ns;
       z = topo_summarize V es svcs ws in
     \<lparr>tt_summary = z, tt_nodes = ns, tt_edges = shown_edges es, tt_hubs = hubs, tt_orphans = orphans (label_selector_matches (tv_compile V)) svcs ws,
      tt_isolated = isolated (label_selector_matches (tv_compile V)) es svcs ws, tt_risks = service_topology_risks hubs z,
      tt_recs = service_topology_recommendations hubs z, tt_score = topology_score hubs z\<rparr>)"

text \<open>A list that fails is left out.\<close>

record ('sel, 'd) topo_client =
  tq_workloads :: "topo_kind \<Rightarrow> string \<Rightarrow> 'd \<Rightarrow> string + 'sel topo_workload list"
  tq_services :: "string \<Rightarrow> 'd \<Rightarrow> string + topo_service list"

definition handle_service_topology :: "'sel topo_env \<Rightarrow> ('sel, 'd) topo_client option \<Rightarrow> http_req \<Rightarrow> 'd \<Rightarrow> http_resp + 'sel topo_result" where
  "handle_service_topology V client rq d = (case client of
     None \<Rightarrow> Inl (write_error 503 ''kubernetes client not available'')
   | Some C \<Rightarrow> (let ns = rq_query rq ''namespace'' in
       Inr (service_topology V (listed (tq_services C ns d))
         (concat (map (\<lambda>k. listed (tq_workloads C k ns d)) [Deployment, StatefulSet, DaemonSet])))))"

section \<open>Lemmas\<close>

text \<open>Edges go from workloads to services, whose ids differ.\<close>

lemma ids_differ [simp]: "workload_id w \<noteq> topo_id ''Service'' ns name" "topo_id ''Service'' ns name \<noteq> workload_id w"
  by (cases "tw_kind w"; simp add: workload_id_def topo_id_def kind_text_def)+

lemma foldl_add_edge: "set (foldl add_edge es xs) \<subseteq> set es \<union> set xs"
proof (induction xs arbitrary: es)
  case (Cons x xs)
  have "set (add_edge es x) \<subseteq> insert x (set es)" by (auto simp: add_edge_def)
  then show ?case using Cons.IH[of "add_edge es x"] by auto
qed simp

lemma build_edges_ends:
  assumes "e \<in> set (build_edges svcs ws)"
  obtains w ns name where "w \<in> set ws" "te_from e = workload_id w" "te_to e = topo_id ''Service'' ns name"
proof -
  from assms foldl_add_edge[of "[]" "concat (map (workload_edges svcs) ws)"]
  obtain w where "w \<in> set ws" "e \<in> set (workload_edges svcs w)" by (auto simp: build_edges_def)
  then show ?thesis using that by (auto simp: workload_edges_def)
qed

lemma fan_in_workload [simp]: "fan_in (build_edges svcs ws) (workload_id w) = 0"
  by (auto simp: fan_in_def how_many_def filter_empty_conv elim: build_edges_ends)

lemma service_chain_short: "chain (edge_pairs (build_edges svcs ws)) xs \<Longrightarrow> length xs \<le> 2"
proof (induction "edge_pairs (build_edges svcs ws)" xs rule: chain.induct)
  case (3 x y xs)
  show ?case
  proof (cases xs)
    case (Cons z zs)
    with 3 obtain e1 e2 where e: "e1 \<in> set (build_edges svcs ws)" "te_to e1 = y" "e2 \<in> set (build_edges svcs ws)" "te_from e2 = y"
      by (auto simp: edge_pairs_def)
    from e(1) obtain ns name where "y = topo_id ''Service'' ns name" using e(2) by (auto elim: build_edges_ends)
    moreover from e(3) obtain w :: "'a topo_workload" where "y = workload_id w" using e(4) by (auto elim: build_edges_ends)
    ultimately show ?thesis by simp
  qed simp
qed simp_all

lemma service_edges_acyclic: "acyclic (set (edge_pairs (build_edges svcs ws)))"
proof -
  let ?r = "set (edge_pairs (build_edges svcs ws))"
  have r: "\<exists>w \<in> set ws. \<exists>ns name. x = workload_id w \<and> y = topo_id ''Service'' ns name" if "(x, y) \<in> ?r" for x y
    using that by (auto simp: edge_pairs_def elim!: build_edges_ends)
  have "(\<exists>w \<in> set ws. x = workload_id w) \<and> (\<exists>ns name. y = topo_id ''Service'' ns name)" if "(x, y) \<in> ?r\<^sup>+" for x y
    using that by (induction rule: trancl_induct) (use r in blast)+
  then show ?thesis unfolding acyclic_def by (metis ids_differ(1))
qed

definition permuting_order :: "('a list \<Rightarrow> 'a list) \<Rightarrow> bool" where
  "permuting_order f \<longleftrightarrow> (\<forall>xs. mset (f xs) = mset xs)"

lemma service_depth:
  assumes "permuting_order (tv_order V)"
  shows "tz_max_depth (topo_summarize V (build_edges svcs ws) svcs ws) \<le> 2"
proof -
  let ?ps = "edge_pairs (build_edges svcs ws)"
  let ?ns = "tv_order V (remdups (map fst ?ps @ map snd ?ps))"
  have "mset ?ns = mset (remdups (map fst ?ps @ map snd ?ps))" using assms by (simp add: permuting_order_def)
  then have ns: "distinct ?ns" "set ?ns = edge_nodes ?ps"
    using mset_eq_imp_distinct_iff[of ?ns] mset_eq_setD[of ?ns] by (simp_all add: edge_nodes_def)
  have "compute_max_depth ?ns ?ps \<le> 2"
  proof (cases "?ps = []")
    case True
    then have "?ns = []" using ns(2) by (simp add: edge_nodes_def)
    then show ?thesis using True by simp
  next
    case False
    obtain xs where "chain ?ps xs" "length xs = compute_max_depth ?ns ?ps"
      using max_depth_longest(2)[OF ns service_edges_acyclic False] by blast
    then show ?thesis using service_chain_short[of svcs ws xs] by simp
  qed
  then show ?thesis by (simp add: topo_summarize_def Let_def)
qed

text \<open>Changing the replicas of workloads changes their nodes only.\<close>

definition with_replicas :: "('sel topo_workload \<Rightarrow> int option) \<Rightarrow> 'sel topo_workload \<Rightarrow> 'sel topo_workload" where
  "with_replicas f w = w\<lparr>tw_replicas := f w\<rparr>"

lemma bare_refs_replicas [simp]: "bare_references svcs (with_replicas f w) v = bare_references svcs w v"
  by (simp add: bare_references_def with_replicas_def)

lemma find_refs_replicas [simp]: "find_service_refs svcs (with_replicas f w) = find_service_refs svcs w"
  by (intro ext) (simp only: find_service_refs_def bare_refs_replicas)

lemma with_replicas_simps [simp]: "workload_id (with_replicas f w) = workload_id w"
    "workload_edges svcs (with_replicas f w) = workload_edges svcs w" "selects m s (with_replicas f w) = selects m s w"
  subgoal by (simp add: workload_id_def with_replicas_def)
  subgoal
  proof -
    have "extract_service_dependencies svcs (with_replicas f w) = extract_service_dependencies svcs w"
      unfolding extract_service_dependencies_def find_refs_replicas by (simp add: with_replicas_def)
    then show ?thesis by (simp add: workload_edges_def) (simp add: with_replicas_def workload_id_def)
  qed
  subgoal by (simp add: selects_def with_replicas_def)
  done

lemma build_edges_replicas [simp]: "build_edges svcs (map (with_replicas f) ws) = build_edges svcs ws"
  by (simp add: build_edges_def comp_def)

lemma hub_nodes:
  "filter (\<lambda>n. 1 \<le> tn_fan_in n) (topo_nodes (build_edges svcs ws) svcs' ws') = sort_key (\<lambda>n. - int (tn_fan_in n)) (sort_key tn_id
     (filter (\<lambda>n. 1 \<le> tn_fan_in n) (map (service_node (build_edges svcs ws)) (filter tracked svcs'))))"
proof -
  have "filter (\<lambda>n. 1 \<le> tn_fan_in n) (map (workload_node (build_edges svcs ws)) ws') = []"
    by (auto simp: filter_empty_conv workload_node_def make_node_def)
  then show ?thesis by (simp add: topo_nodes_def filter_sort)
qed

lemma hubs_replicas:
  "critical_hubs srt (build_edges svcs ws) (topo_nodes (build_edges svcs ws) svcs (map (with_replicas f) ws)) =
   critical_hubs srt (build_edges svcs ws) (topo_nodes (build_edges svcs ws) svcs ws)"
  unfolding critical_hubs_def hub_nodes ..

lemma orphans_replicas: "orphans m svcs (map (with_replicas f) ws) = orphans m svcs ws"
  by (simp add: orphans_def list_ex_iff)

lemma isolated_replicas: "length (isolated m es svcs (map (with_replicas f) ws)) = length (isolated m es svcs ws)"
  by (simp add: isolated_def filter_map comp_def)

lemma summary_replicas [simp]:
  "tz_workloads (topo_summarize V (build_edges svcs ws) svcs (map (with_replicas f) ws)) = tz_workloads (topo_summarize V (build_edges svcs ws) svcs ws)"
  "tz_cross (topo_summarize V (build_edges svcs ws) svcs (map (with_replicas f) ws)) = tz_cross (topo_summarize V (build_edges svcs ws) svcs ws)"
  "tz_max_depth (topo_summarize V (build_edges svcs ws) svcs (map (with_replicas f) ws)) = tz_max_depth (topo_summarize V (build_edges svcs ws) svcs ws)"
  "tz_orphans (topo_summarize V (build_edges svcs ws) svcs (map (with_replicas f) ws)) = tz_orphans (topo_summarize V (build_edges svcs ws) svcs ws)"
  "tz_isolated (topo_summarize V (build_edges svcs ws) svcs (map (with_replicas f) ws)) = tz_isolated (topo_summarize V (build_edges svcs ws) svcs ws)"
  by (simp_all add: topo_summarize_def Let_def orphans_replicas isolated_replicas)

lemma topology_parts:
  "tt_hubs (service_topology V svcs ws) = critical_hubs (tv_sort V) (build_edges svcs ws) (topo_nodes (build_edges svcs ws) svcs ws)"
  "tt_risks (service_topology V svcs ws) = service_topology_risks (tt_hubs (service_topology V svcs ws)) (tt_summary (service_topology V svcs ws))"
  "tt_recs (service_topology V svcs ws) = service_topology_recommendations (tt_hubs (service_topology V svcs ws)) (tt_summary (service_topology V svcs ws))"
  "tt_score (service_topology V svcs ws) = topology_score (tt_hubs (service_topology V svcs ws)) (tt_summary (service_topology V svcs ws))"
  "tt_summary (service_topology V svcs ws) = topo_summarize V (build_edges svcs ws) svcs ws"
  by (simp_all add: service_topology_def Let_def)

lemma hubs_same: "tt_hubs (service_topology V svcs (map (with_replicas f) ws)) = tt_hubs (service_topology V svcs ws)"
  by (simp add: topology_parts(1) hubs_replicas)

section \<open>Properties\<close>

text \<open>Only services are hubs, and their nodes have no replicas: whatever the replicas of the workloads are, the hubs,
  the risks, the recommendations and the score stay the same.\<close>

theorem replicas_play_no_part:
  "tt_hubs (service_topology V svcs (map (with_replicas f) ws)) = tt_hubs (service_topology V svcs ws) \<and>
   tt_risks (service_topology V svcs (map (with_replicas f) ws)) = tt_risks (service_topology V svcs ws) \<and>
   tt_recs (service_topology V svcs (map (with_replicas f) ws)) = tt_recs (service_topology V svcs ws) \<and>
   tt_score (service_topology V svcs (map (with_replicas f) ws)) = tt_score (service_topology V svcs ws)"
  unfolding topology_parts(2,3,4) hubs_same
  by (simp add: topology_parts(5) summary_replicas service_topology_risks_def service_topology_recommendations_def topology_score_def)

text \<open>Edges lead from workloads to services and no further: the depth is at most two, and the risk of a deep chain is never reported.\<close>

theorem no_deep_chains:
  assumes "permuting_order (tv_order V)"
  shows "tz_max_depth (tt_summary (service_topology V svcs ws)) \<le> 2 \<and>
    list_all (\<lambda>r. tr_category r \<noteq> ''deep-dependency-chain'') (tt_risks (service_topology V svcs ws))"
proof -
  have d: "tz_max_depth (tt_summary (service_topology V svcs ws)) \<le> 2"
    using service_depth[OF assms, of svcs ws] by (simp add: topology_parts(5))
  have "tr_category r \<noteq> ''deep-dependency-chain''" if "r \<in> set (hub_risks h)" for r h
    using that by (auto simp: hub_risks_def entry_if_def split: if_splits)
  then show ?thesis using d by (auto simp: list_all_iff topology_parts(2) service_topology_risks_def entry_if_def)
qed

definition demo_web :: "unit topo_workload" where
  "demo_web = \<lparr>tw_kind = Deployment, tw_namespace = ''shop'', tw_name = ''web'', tw_replicas = Some 3,
     tw_env = [(''http://cart.shop.svc.cluster.local'', None)], tw_selector = None\<rparr>"

definition demo_cart :: topo_service where
  "demo_cart = \<lparr>ts_namespace = ''shop'', ts_name = ''cart'', ts_type = ''ClusterIP'', ts_selector = []\<rparr>"

definition demo_topology :: "unit topo_env" where
  "demo_topology = \<lparr>tv_compile = \<lambda>_. None, tv_order = id, tv_sort = \<lambda>_ xs. xs\<rparr>"

lemma no_deep_chains_witness:
  "tz_max_depth (tt_summary (service_topology demo_topology [demo_cart] [demo_web])) \<le> 2 \<and>
   length (build_edges [demo_cart] [demo_web]) = 1"
proof -
  have "permuting_order (tv_order demo_topology)" by (simp add: permuting_order_def demo_topology_def)
  moreover have "length (build_edges [demo_cart] [demo_web]) = 1" by code_simp
  ultimately show ?thesis using no_deep_chains[of demo_topology "[demo_cart]" "[demo_web]"] by simp
qed

end
