(* ===== verification/Startup.thy ===== *)
theory Startup
  imports Auth_Providers Access
begin

text \<open>
  What the manager process sets up for the dashboard (cmd/manager/main.go): the JWT secret and
  the authenticator with its fallbacks. Flags and environment variables are arguments; the database
  library is the parameter of the auth store. The first load of the provider is in Provider_Manager.
\<close>

section \<open>The authenticator\<close>

definition hex_digit :: "nat \<Rightarrow> char" where
  "hex_digit n = (if n < 10 then char_of (48 + n) else char_of (87 + n))"

definition to_hex :: "string \<Rightarrow> string" where
  "to_hex s = concat (map (\<lambda>c. [hex_digit (of_char c div 16), hex_digit (of_char c mod 16)]) s)"

text \<open>The argument is what \<open>rand.Read\<close> made of 32 bytes.\<close>

definition generate_jwt_secret :: "string + string \<Rightarrow> time \<Rightarrow> string" where
  "generate_jwt_secret raw now = (case raw of
     Inl _ \<Rightarrow> ''k8ops-fallback-'' @ show_int now
   | Inr bytes \<Rightarrow> to_hex bytes)"

record auth_flags =
  fl_db_driver :: string
  fl_db_dsn :: string
  fl_db_path :: string
  fl_jwt_secret :: string
  fl_default_role :: string

text \<open>The default of the driver flag: the environment variable, or sqlite.\<close>

definition driver_flag :: "string \<Rightarrow> string" where
  "driver_flag env = (if env = [] then ''sqlite'' else env)"

definition main_config :: "auth_flags \<Rightarrow> string + string \<Rightarrow> time \<Rightarrow> auth_config" where
  "main_config f raw now = \<lparr>
     cf_jwt_secret = (if fl_jwt_secret f = [] then generate_jwt_secret raw now else fl_jwt_secret f),
     cf_jwt_expiry = 24 * 60 * minute, cf_default_role = fl_default_role f, cf_default_allowed_namespaces = []\<rparr>"

text \<open>
  The authenticator the dashboard is given, with its database: the first attempt, a second one with
  the path of the in-memory database, or none. \<open>A\<close> brings the libraries and the tables.
\<close>

definition init_auth :: "'d database \<Rightarrow> string \<Rightarrow> auth_flags \<Rightarrow> 'd authenticator \<Rightarrow> ('d authenticator \<times> 'd) option" where
  "init_auth D salt f A =
     (let path = (if fl_db_path f = [] then ''/data/k8ops.db'' else fl_db_path f) in
      case new_authenticator D salt (fl_db_driver f) (fl_db_dsn f) path A of
        Inr (A1, _, d) \<Rightarrow> Some (A1, d)
      | Inl _ \<Rightarrow> (case new_authenticator D salt (fl_db_driver f) (fl_db_dsn f) '':memory:'' A of
          Inr (A1, _, d) \<Rightarrow> Some (A1, d)
        | Inl _ \<Rightarrow> None))"

text \<open>
  The dashboard that is started: the authenticator is set when there is one, and nothing marks the
  server as one whose authentication failed. Without an authenticator the database is not there and
  \<open>d0\<close> is the world the handlers see.
\<close>

definition main_serve :: "('cs, 'd) dash_server \<Rightarrow> 'd database \<Rightarrow> string \<Rightarrow> auth_flags \<Rightarrow> string + string \<Rightarrow> time \<Rightarrow>
    'd authenticator \<Rightarrow> time \<Rightarrow> ('cs, 'd) dash_handler \<Rightarrow> http_req \<Rightarrow> 'd \<Rightarrow> http_resp \<times> 'd" where
  "main_serve s D salt f raw t0 A now rest rq d0 =
     (let s1 = s\<lparr>ds_auth_required := False\<rparr> in
      case init_auth D salt f (A\<lparr>au_cfg := main_config f raw t0\<rparr>) of
        None \<Rightarrow> serve s1 None now rest rq d0
      | Some (A1, d) \<Rightarrow> serve s1 (Some A1) now rest rq d)"

section \<open>Properties\<close>

lemma new_authenticator_path:
  "driver \<noteq> [] \<or> dsn \<noteq> [] \<Longrightarrow> new_authenticator D salt driver dsn path1 A = new_authenticator D salt driver dsn path2 A"
  by (auto simp: new_authenticator_def)

lemma to_lower_sqlite: "to_lower ''sqlite'' = ''sqlite''"
  by code_simp

lemma new_authenticator_fails:
  "db_open D Sqlite ''/data/k8ops.db?_pragma=journal_mode(WAL)&_pragma=busy_timeout(5000)'' = Inl e \<Longrightarrow>
   new_authenticator D salt ''sqlite'' [] path A =
     Inl (''failed to open auth database (sqlite): '' @ e)"
  by (simp add: new_authenticator_def new_store_def select_dialect_def to_lower_sqlite)

lemma driver_flag_set: "driver_flag env \<noteq> []"
  by (simp add: driver_flag_def)

text \<open>C8. An auth database that cannot be opened leaves the dashboard open: with a driver, and the flag
  always has one, the path is never looked at, so the second attempt, meant for a database in
  memory, repeats the first and fails as well; the server then runs without authentication, and
  every request is handled with its own clients and no user.\<close>

theorem memory_fallback_dead:
  assumes "fl_db_driver f = driver_flag env"
    and "new_authenticator D salt (fl_db_driver f) (fl_db_dsn f) (fl_db_path f) (A\<lparr>au_cfg := main_config f raw t0\<rparr>) = Inl e"
  shows "main_serve s D salt f raw t0 A now rest rq d0 = mux (s\<lparr>ds_auth_required := False\<rparr>) rest None None rq d0"
proof -
  have "fl_db_driver f \<noteq> [] \<or> fl_db_dsn f \<noteq> []" using assms(1) driver_flag_set by simp
  from new_authenticator_path[OF this, of D salt "fl_db_path f"] assms(2)
  have "new_authenticator D salt (fl_db_driver f) (fl_db_dsn f) path (A\<lparr>au_cfg := main_config f raw t0\<rparr>) = Inl e" for path
    by metis
  then show ?thesis by (simp add: main_serve_def init_auth_def serve_def)
qed

text \<open>A disk that cannot be written, with memory to spare.\<close>

definition read_only_disk :: "demo_cluster database" where
  "read_only_disk = \<lparr>db_open = (\<lambda>dl dsn. if dl = Sqlite \<and> dsn = '':memory:'' then Inr (demo_at (demo_plan ''Pending'' True []))
     else Inl ''unable to open database file''), db_exec = (\<lambda>stmt d. d), db_migrate = (\<lambda>ts d. (None, d))\<rparr>"

definition default_flags :: auth_flags where
  "default_flags = \<lparr>fl_db_driver = ''sqlite'', fl_db_dsn = [], fl_db_path = [], fl_jwt_secret = ''s3cret'', fl_default_role = []\<rparr>"

theorem memory_fallback_dead_witness:
  "rst_phase (rp_status (dm_plan (snd (main_serve demo_server read_only_disk [] default_flags (Inr []) 0 (demo_gate [])
      0 (\<lambda>user rcs rq c. (silent, c)) (demo_req ''POST'' ''/api/remediation/web/p/approve'' [] None)
      (demo_at (demo_plan ''Pending'' True [])))))) = ''Approved''"
proof -
  have "clean_path ''/api/remediation/web/p/approve''" by code_simp
  moreover have "main_serve demo_server read_only_disk [] default_flags (Inr []) 0 (demo_gate []) 0 (\<lambda>user rcs rq c. (silent, c))
      (demo_req ''POST'' ''/api/remediation/web/p/approve'' [] None) (demo_at (demo_plan ''Pending'' True [])) =
    mux (demo_server\<lparr>ds_auth_required := False\<rparr>) (\<lambda>user rcs rq c. (silent, c)) None None
      (demo_req ''POST'' ''/api/remediation/web/p/approve'' [] None) (demo_at (demo_plan ''Pending'' True []))"
    by (rule memory_fallback_dead[where env = "[]"])
      (simp add: default_flags_def driver_flag_def, unfold default_flags_def auth_flags.simps, rule new_authenticator_fails,
       simp add: read_only_disk_def)
  ultimately show ?thesis
    by (simp add: mux_def demo_req_def remediation_route_def clients_from_req_def demo_server_def handle_remediation_action_def
        demo_api_def demo_at_def demo_plan_def demo_status_def decide_def trim_prefix_def has_prefix_def)
qed

text \<open>An empty driver would have reached the database in memory.\<close>

lemma memory_database_reachable:
  "new_authenticator D salt [] [] '':memory:'' A = new_authenticator D salt ''sqlite'' '':memory:'' [] A"
  by (simp add: new_authenticator_def)

end
