(* ===== verification/Spec2Isabelle.thy ===== *)
theory Spec2Isabelle
  imports Access Auth_Providers Audit_Tool Blast_Radius Chat_Handlers Collector Cost Dash_Backup Dash_Cache Dash_Cluster Dash_Compat Dash_Manifests Dash_Net Dash_Notify Dash_Rbac Dash_Reports Drain_Impact Host_Tools Incidents K8s_Objects Node_Failure Optimization Pdb_Audit Psa_Audit Quick_Exec Rbac_Graph Scale_Sim Service_Topology Startup
begin

text \<open>
  A verification library of k8ops, an AI operations agent for Kubernetes written in Go. Paths below
  are those of the repository.

  \<^bold>\<open>The program.\<close> The manager process (cmd/manager) runs three reconcilers over its custom resources and
  a dashboard. A collector turns warning events into diagnostic reports; the diagnostic reconciler lets an
  agent (a loop of model calls and tool calls) analyse a report and writes a remediation plan; a
  person approves the plan in the dashboard, or its mode does not ask for one, and the remediation reconciler
  executes its actions with tools, each after the safety checker has allowed it. The dashboard also has a chat
  that runs tools with the rights of its user, logins with local accounts, API keys, LDAP and OIDC, roles
  that are synchronised to role bindings of the cluster, and several hundred routes that read the cluster.

  \<^bold>\<open>The theories.\<close>

  \<^item> Foundations. Go_Prelude: package strings, integers of 64 bits, slices that panic. Go_Float: float64 as
    rounded rationals. Json: values, decoding into structs, encoding. Http: requests, responses, errors. Net:
    one POST of an LLM backend and its reply. Token_Bucket: the interface of the two rate limiters.
  \<^item> Shared packages. Resilience (internal/resilience): retry, circuit breaker, rate limiter. Tools (internal/tools/
    registry.go). Api_Types (api/v1alpha1). Safety (internal/safety). Memory (internal/memory). Audit_Log
    (internal/audit). Cost (internal/cost).
  \<^item> Models. Provider (internal/provider), with the backends Openai, Anthropic and Gemini, and Backends for what
    they have in common; Provider_Manager (internal/providermanager): settings, their storage and the hot reload.
  \<^item> Agents. Agent (internal/agent) and Chat (internal/chat).
  \<^item> Reconcilers. Controller: what the three share, with the interface phase_guarded. Diagnostic, Optimization,
    Remediation (internal/controller), Collector (internal/collector).
  \<^item> Tools. Remediation_Tools (internal/tools/remediation), Host_Tools (internal/tools/host), K8s_Tools and
    K8s_Objects (internal/tools/k8s), Audit_Tool (tools_audit.go of the same package).
  \<^item> Identity (internal/auth). Auth_Store: the tables. Auth: logins, sessions, keys. Auth_Limit: the limit of the
    login route. Auth_Middleware: the gate. Rbac_Sync: role bindings. Auth_Handlers and Auth_Providers: the
    routes, LDAP and OIDC.
  \<^item> Dashboard (internal/dashboard). Access: the impersonating clients and the order of the middlewares.
    Dash_Net: the other middlewares, connections and draining. Dash_Cache: the response cache and the audit
    summary. Dash_Metrics: response times. Chat_Handlers: the chat route. Quick_Exec: commands. Dash_Actions:
    workloads, nodes and pods. Dash_Manifests: arbitrary objects and data. Dash_Rbac: roles. Dash_Reports:
    reports, plans and suggestions. Dash_Backup: copies of the main file of the database. Dash_Cluster:
    the overview, nodes, events and pods. Dash_Compat: the version and the cloud of the cluster. Dash_Notify: Slack and alerts. Startup: what cmd/manager sets up.
  \<^item> Analyses (internal/dashboard). Analysis: what they share. Psa_Audit: the audit of Pod Security Admission.
    Node_Failure: the simulation of node failures. Service_Topology: the graph of services, with Kahn for its depth.
    Incidents: warning events put together, with Union_Find for their groups. Rbac_Graph: dangerous roles and escalation paths.
    Pdb_Audit: disruption budgets. Drain_Impact: what the drain of a node would do.
    Blast_Radius: the attack surface of pods. Scale_Sim: what scaling a workload would need.

  \<^bold>\<open>How the code is modelled.\<close> A struct is a record, with a prefix for its fields; a function of the source is
  one definition of the same name, or a few where it has several phases. The world of a handler, of type 'd, is the
  database and the cluster together and is returned changed. Errors are values: \<open>Inl\<close> of a sum, or an option
  for an error result. A panic is \<open>None\<close>, where the code can panic. Loops over lists are recursions over
  lists; loops that wait are bounded as the code bounds them. Locks are not modelled: an operation under a lock is
  one step, and where the code lets go of a lock in between (compressing a conversation, creating one, the circuit
  breaker) there is one definition per critical section, and the lemmas speak of steps of others in between.

  Parameters stand for what is not in the repository: the API server and its clients, the model behind a
  backend, bcrypt, the JWT library, SHA-256, the SQL library, LDAP and OIDC libraries, processes, the file system, the
  clock and random bytes, the formatting of times, the JSON text of a value, the order in which
  a Go map is read and the order in which sort.Slice leaves equal keys. What a property needs of one is a hypothesis
  of it: \<open>sql_ok\<close> and \<open>leaves\<close> are the laws of a table, \<open>codec_ok\<close> the round trip of the JSON library, \<open>rbac_server\<close>
  what the calls for role bindings do when they succeed and when they fail. What SQLite reads from its main file and its
  write-ahead log is an argument of \<open>database_content\<close>.

  \<^bold>\<open>Bounds.\<close> The agent makes at most as many model calls as its steps (agent_call_bound), the chat as its
  iterations; unique_loop tries 100 names, as the code does; a line of a stream has at most 262144 bytes; the
  percentile is exact for up to 2 ^ 40 samples. Integers are bounded to 64 bits where a sum or product can leave
  them. No definition uses fuel that the code does not have.

  \<^bold>\<open>The lemmas.\<close> Each theory closes with the lemmas of its operations and with the properties that stand on
  them. The interfaces are the locales token_bucket, keyed_store and phase_guarded, each interpreted on the
  definitions that provide it: both rate limiters, the registry of tools and the table of backends, and the three
  reconcilers. The properties of plans (Remediation_Props) and of the accounts (Auth_Props) span several
  components and have theories of their own, as do those of the gate and of the actions behind it in Access,
  Dash_Actions and Dash_Manifests. The analyses have lemmas about what their numbers mean: the bounds of a score,
  what is counted and what is never found, the depth as the length of a longest chain, incidents as
  connected components, the escalation paths as the ways to more rights that rules and bindings open.

  \<^bold>\<open>Not modelled.\<close> All but a few of the about 1270 files of internal/dashboard with one analysis each, most of them generated by
  version: they list objects with the client of the request, count and score them, and answer JSON; they keep no state and call
  no part above except the writing of the answer. The specification of the API (handlers_openapi.go), the 2850
  rows of the table of audits (tools_audit.go), the deep copies of the custom resources and the web files are data.
  The Prometheus counters (internal/metrics), the command line client (cmd/k8ops) and the Windows variants of the host tools
  have no logic that another part relies on. Of server.go the registration of the analysis routes is left out, of
  cmd/manager the flags and the wiring of controller-runtime.
\<close>

end
